(* ===== verification/Siftlane_Prelude.thy ===== *)
theory Siftlane_Prelude
  imports Main "HOL-Library.Sublist" "HOL-Library.Multiset" "HOL-Library.Word"
begin

text \<open>
  Shared vocabulary of the development.

  \<^item> Strings are HOL strings whose characters stand for the bytes of the UTF-8 text of a Rust
    \<^verbatim>\<open>String\<close>; \<^verbatim>\<open>Uuid\<close> values are the hyphenated text that \<^verbatim>\<open>Display\<close> prints; a
    \<^verbatim>\<open>DateTime<Utc>\<close> is the integer number of its ticks.
  \<^item> A fallible Rust function is a function into a sum (\<open>Inl\<close> the error); a fallible function with
    side effects is an element of \<open>eff\<close>: it returns the result together with the state it leaves,
    so the state at an early return is visible.
  \<^item> The string operations of the Rust standard library that the sources use.
  \<^item> A locale \<open>step_system\<close> for transition relations, with the invariant rule.
\<close>

section \<open>Collections of rewrite rules\<close>

named_theorems eff_defs \<open>definitions of the effect combinators\<close>
named_theorems run_simps \<open>how an effect runs on a state\<close>
named_theorems str_simps \<open>string operations on concrete arguments\<close>

section \<open>Identifiers and numbers\<close>

type_synonym uuid = string
type_synonym datetime = int
type_synonym u8 = "8 word"
type_synonym u16 = "16 word"
type_synonym u32 = "32 word"

text \<open>Byte counts are \<^verbatim>\<open>u64\<close> in the source. They are naturals here, and the saturating
  operations write the bound out.\<close>

definition u64_max :: nat where
  "u64_max = 18446744073709551615"

definition saturating_add64 :: "nat \<Rightarrow> nat \<Rightarrow> nat" where
  "saturating_add64 a b = min u64_max (a + b)"

definition saturating_sub :: "nat \<Rightarrow> nat \<Rightarrow> nat" where
  "saturating_sub a b = a - b"

definition saturating_mul64 :: "nat \<Rightarrow> nat \<Rightarrow> nat" where
  "saturating_mul64 a b = min u64_max (a * b)"

definition saturating_inc8 :: "u8 \<Rightarrow> u8" where
  "saturating_inc8 n = (if n = 255 then 255 else n + 1)"

lemma saturating_inc8_unat: "unat (saturating_inc8 n) = min 255 (unat n + 1)"
proof (cases "n = 255")
  case True
  then show ?thesis by (simp add: saturating_inc8_def)
next
  case False
  then have ne: "unat n \<noteq> 255"
    by unat_arith
  have "unat n < 256" using unsigned_less[of n] by simp
  with ne have lt: "unat n < 255" by simp
  then have "unat (n + 1) = unat n + 1" by (simp add: unat_word_ariths)
  with False lt show ?thesis by (simp add: saturating_inc8_def)
qed

section \<open>Results and effects\<close>

type_synonym ('w, 'e, 'a) eff = "'w \<Rightarrow> ('e + 'a) \<times> 'w"

definition ok :: "'a \<Rightarrow> ('w, 'e, 'a) eff" where
  [eff_defs]: "ok a = (\<lambda>w. (Inr a, w))"

definition err :: "'e \<Rightarrow> ('w, 'e, 'a) eff" where
  [eff_defs]: "err e = (\<lambda>w. (Inl e, w))"

definition and_then :: "('w, 'e, 'a) eff \<Rightarrow> ('a \<Rightarrow> ('w, 'e, 'b) eff) \<Rightarrow> ('w, 'e, 'b) eff" where
  [eff_defs]: "and_then m k =
     (\<lambda>w. case m w of (Inl e, w') \<Rightarrow> (Inl e, w') | (Inr a, w') \<Rightarrow> k a w')"

text \<open>\<open>attempt m\<close> runs \<open>m\<close> and hands its result on as a value (\<^verbatim>\<open>let _ = m\<close>, \<^verbatim>\<open>match m\<close>).\<close>

definition attempt :: "('w, 'e, 'a) eff \<Rightarrow> ('w, 'f, 'e + 'a) eff" where
  [eff_defs]: "attempt m = (\<lambda>w. case m w of (r, w') \<Rightarrow> (Inr r, w'))"

definition map_err :: "('e \<Rightarrow> 'f) \<Rightarrow> ('w, 'e, 'a) eff \<Rightarrow> ('w, 'f, 'a) eff" where
  [eff_defs]: "map_err f m = (\<lambda>w. case m w of (Inl e, w') \<Rightarrow> (Inl (f e), w') | (Inr a, w') \<Rightarrow> (Inr a, w'))"

definition gets :: "('w \<Rightarrow> 'a) \<Rightarrow> ('w, 'e, 'a) eff" where
  [eff_defs]: "gets f = (\<lambda>w. (Inr (f w), w))"

definition modify :: "('w \<Rightarrow> 'w) \<Rightarrow> ('w, 'e, unit) eff" where
  [eff_defs]: "modify f = (\<lambda>w. (Inr (), f w))"

definition lift_result :: "'e + 'a \<Rightarrow> ('w, 'e, 'a) eff" where
  [eff_defs]: "lift_result r = (\<lambda>w. (r, w))"

definition when_do :: "bool \<Rightarrow> ('w, 'e, unit) eff \<Rightarrow> ('w, 'e, unit) eff" where
  [eff_defs]: "when_do b m = (if b then m else ok ())"

text \<open>Run an operation on one field of a larger state.\<close>

definition zoom :: "('w \<Rightarrow> 's) \<Rightarrow> ('s \<Rightarrow> 'w \<Rightarrow> 'w) \<Rightarrow> ('s, 'e, 'a) eff \<Rightarrow> ('w, 'e, 'a) eff" where
  [eff_defs]: "zoom get put m = (\<lambda>w. case m (get w) of (r, s') \<Rightarrow> (r, put s' w))"

fun for_each :: "('b \<Rightarrow> ('w, 'e, unit) eff) \<Rightarrow> 'b list \<Rightarrow> ('w, 'e, unit) eff" where
  "for_each f [] = ok ()"
| "for_each f (x # xs) = and_then (f x) (\<lambda>_. for_each f xs)"

fun collect_each :: "('b \<Rightarrow> ('w, 'e, 'a) eff) \<Rightarrow> 'b list \<Rightarrow> ('w, 'e, 'a list) eff" where
  "collect_each f [] = ok []"
| "collect_each f (x # xs) =
     and_then (f x) (\<lambda>y. and_then (collect_each f xs) (\<lambda>ys. ok (y # ys)))"

text \<open>A loop over a list that carries a value and may return early.\<close>

fun try_fold :: "('b \<Rightarrow> 'a \<Rightarrow> 'e + 'a) \<Rightarrow> 'b list \<Rightarrow> 'a \<Rightarrow> 'e + 'a" where
  "try_fold f [] a = Inr a"
| "try_fold f (x # xs) a = (case f x a of Inl e \<Rightarrow> Inl e | Inr a' \<Rightarrow> try_fold f xs a')"

fun fold_each :: "('b \<Rightarrow> 'a \<Rightarrow> ('w, 'e, 'a) eff) \<Rightarrow> 'b list \<Rightarrow> 'a \<Rightarrow> ('w, 'e, 'a) eff" where
  "fold_each f [] a = ok a"
| "fold_each f (x # xs) a = and_then (f x a) (fold_each f xs)"

lemma try_fold_invariant:
  assumes "try_fold f xs a = Inr b" "P a" "\<And>x a b. x \<in> set xs \<Longrightarrow> P a \<Longrightarrow> f x a = Inr b \<Longrightarrow> P b"
  shows "P b"
  using assms
proof (induction xs arbitrary: a)
  case (Cons x xs)
  from Cons.prems(1) obtain a1 where "f x a = Inr a1" "try_fold f xs a1 = Inr b"
    by (auto split: sum.splits)
  with Cons show ?case by (metis list.set_intros(1,2))
qed simp

lemma ok_run [run_simps]: "ok a w = (Inr a, w)" by (simp add: ok_def)
lemma err_run [run_simps]: "err e w = (Inl e, w)" by (simp add: err_def)
lemma gets_run [run_simps]: "gets f w = (Inr (f w), w)" by (simp add: gets_def)
lemma modify_run [run_simps]: "modify f w = (Inr (), f w)" by (simp add: modify_def)
lemma lift_result_run [run_simps]: "lift_result r w = (r, w)" by (simp add: lift_result_def)

lemma and_then_run [run_simps]:
  "and_then m k w = (case m w of (Inl e, w') \<Rightarrow> (Inl e, w') | (Inr a, w') \<Rightarrow> k a w')"
  by (simp add: and_then_def)

lemma attempt_run [run_simps]: "attempt m w = (case m w of (r, w') \<Rightarrow> (Inr r, w'))"
  by (simp add: attempt_def)

lemma map_err_run [run_simps]:
  "map_err f m w = (case m w of (Inl e, w') \<Rightarrow> (Inl (f e), w') | (Inr a, w') \<Rightarrow> (Inr a, w'))"
  by (simp add: map_err_def)

lemma when_do_run [run_simps]: "when_do b m w = (if b then m w else (Inr (), w))"
  by (simp add: when_do_def ok_def)

lemma zoom_run [run_simps]: "zoom get put m w = (case m (get w) of (r, s') \<Rightarrow> (r, put s' w))"
  by (simp add: zoom_def)

lemma and_then_InrD:
  assumes "and_then m k w = (Inr b, w')"
  obtains a w1 where "m w = (Inr a, w1)" "k a w1 = (Inr b, w')"
  using assms by (auto simp: and_then_def split: prod.splits sum.splits)

lemma and_then_cases:
  assumes "and_then m k w = (r, w')"
  obtains (failed) e where "m w = (Inl e, w')" "r = Inl e"
  | (went_on) a w1 where "m w = (Inr a, w1)" "k a w1 = (r, w')"
  using assms by (auto simp: and_then_def split: prod.splits sum.splits)

text \<open>A property of the state kept by an effect, whatever it returns.\<close>

definition keeps :: "('w \<Rightarrow> bool) \<Rightarrow> ('w, 'e, 'a) eff \<Rightarrow> bool" where
  "keeps P m \<longleftrightarrow> (\<forall>w. P w \<longrightarrow> P (snd (m w)))"

named_theorems keeps_intros \<open>effects keep a property of the state\<close>

lemma keepsI: "(\<And>w. P w \<Longrightarrow> P (snd (m w))) \<Longrightarrow> keeps P m"
  by (simp add: keeps_def)

lemma keepsD: "keeps P m \<Longrightarrow> P w \<Longrightarrow> P (snd (m w))"
  by (simp add: keeps_def)

lemma keeps_run: "keeps P m \<Longrightarrow> m w = (r, w') \<Longrightarrow> P w \<Longrightarrow> P w'"
  using keepsD by fastforce

lemma keeps_ok [keeps_intros]: "keeps P (ok a)" by (simp add: keeps_def ok_def)
lemma keeps_err [keeps_intros]: "keeps P (err a)" by (simp add: keeps_def err_def)
lemma keeps_gets [keeps_intros]: "keeps P (gets f)" by (simp add: keeps_def gets_def)
lemma keeps_lift_result [keeps_intros]: "keeps P (lift_result r)"
  by (simp add: keeps_def lift_result_def)

lemma keeps_and_then [keeps_intros]:
  "keeps P m \<Longrightarrow> (\<And>a. keeps P (k a)) \<Longrightarrow> keeps P (and_then m k)"
  unfolding keeps_def and_then_def by (fastforce split: prod.splits sum.splits)

lemma keeps_if [keeps_intros]: "keeps P a \<Longrightarrow> keeps P b \<Longrightarrow> keeps P (if c then a else b)"
  by simp

lemma keeps_attempt [keeps_intros]: "keeps P m \<Longrightarrow> keeps P (attempt m)"
  unfolding keeps_def attempt_def by (fastforce split: prod.splits)

lemma keeps_map_err [keeps_intros]: "keeps P m \<Longrightarrow> keeps P (map_err f m)"
  unfolding keeps_def map_err_def by (fastforce split: prod.splits sum.splits)

lemma fold_each_invariant:
  assumes "fold_each f xs a w = (Inr b, w')" "P a"
    "\<And>x a w b w'. x \<in> set xs \<Longrightarrow> P a \<Longrightarrow> f x a w = (Inr b, w') \<Longrightarrow> P b"
  shows "P b"
  using assms
proof (induction xs arbitrary: a w)
  case (Cons x xs)
  from Cons.prems(1) obtain a1 w1 where "f x a w = (Inr a1, w1)" "fold_each f xs a1 w1 = (Inr b, w')"
    by (auto elim: and_then_InrD)
  with Cons show ?case by (metis list.set_intros(1,2))
qed (simp add: ok_def)

lemma keeps_when_do [keeps_intros]: "keeps P m \<Longrightarrow> keeps P (when_do b m)"
  by (simp add: when_do_def keeps_ok)

lemma keeps_for_each [keeps_intros]: "(\<And>x. keeps P (f x)) \<Longrightarrow> keeps P (for_each f xs)"
  by (induction xs) (auto intro: keeps_intros)

section \<open>Positions in lists\<close>

text \<open>\<^verbatim>\<open>iter().position(P)\<close>: the index of the first element that satisfies \<open>P\<close>.\<close>

fun find_index :: "('a \<Rightarrow> bool) \<Rightarrow> 'a list \<Rightarrow> nat option" where
  "find_index P [] = None"
| "find_index P (y # ys) = (if P y then Some 0 else map_option Suc (find_index P ys))"

lemma find_index_Some:
  "find_index P xs = Some i \<Longrightarrow> i < length xs \<and> P (xs ! i) \<and> (\<forall>j < i. \<not> P (xs ! j))"
proof (induction xs arbitrary: i)
  case (Cons x xs)
  then show ?case by (auto simp: nth_Cons' split: if_splits)
qed simp

lemma find_index_None: "find_index P xs = None \<longleftrightarrow> (\<forall>x \<in> set xs. \<not> P x)"
  by (induction xs) auto

text \<open>Removing an element by its index (\<^verbatim>\<open>VecDeque::remove\<close>).\<close>

definition remove_at :: "nat \<Rightarrow> 'a list \<Rightarrow> 'a list" where
  "remove_at i xs = take i xs @ drop (Suc i) xs"

lemma remove_at_mset: "i < length xs \<Longrightarrow> mset xs = add_mset (xs ! i) (mset (remove_at i xs))"
  by (metis remove_at_def id_take_nth_drop mset.simps(2) mset_append union_mset_add_mset_right)

section \<open>Transition systems\<close>

locale step_system =
  fixes init :: "'s \<Rightarrow> bool" and step :: "'s \<Rightarrow> 's \<Rightarrow> bool"
begin

inductive reachable :: "'s \<Rightarrow> bool" where
  reach_init: "init s \<Longrightarrow> reachable s"
| reach_step: "reachable s \<Longrightarrow> step s t \<Longrightarrow> reachable t"

lemma invariant_holds:
  assumes "\<And>s. init s \<Longrightarrow> I s" and "\<And>s t. I s \<Longrightarrow> step s t \<Longrightarrow> I t" and "reachable s"
  shows "I s"
  using assms(3) by induction (auto intro: assms(1,2))

text \<open>Two states of one run.\<close>

inductive later :: "'s \<Rightarrow> 's \<Rightarrow> bool" where
  later_refl: "later s s"
| later_step: "later s t \<Longrightarrow> step t u \<Longrightarrow> later s u"

lemma later_keeps:
  assumes "\<And>s t. P s \<Longrightarrow> step s t \<Longrightarrow> P t"
  shows "later s t \<Longrightarrow> P s \<Longrightarrow> P t"
  by (induction rule: later.induct) (auto intro: assms)

lemma reachable_later: "later s t \<Longrightarrow> reachable s \<Longrightarrow> reachable t"
  by (induction rule: later.induct) (auto intro: reach_step)

end

text \<open>A transition system together with an inductive invariant of it.\<close>

locale safe_system = step_system init step
  for init :: "'s \<Rightarrow> bool" and step :: "'s \<Rightarrow> 's \<Rightarrow> bool" +
  fixes I :: "'s \<Rightarrow> bool"
  assumes init_safe: "init s \<Longrightarrow> I s"
    and step_safe: "I s \<Longrightarrow> step s t \<Longrightarrow> I t"
begin

lemma reachable_safe: "reachable s \<Longrightarrow> I s"
  by (rule invariant_holds[OF init_safe step_safe])

lemma later_safe: "later s t \<Longrightarrow> I s \<Longrightarrow> I t"
  by (rule later_keeps[OF step_safe])

text \<open>A property that steps keep inside the invariant.\<close>

lemma later_keeps_inside:
  assumes "\<And>s t. I s \<Longrightarrow> P s \<Longrightarrow> step s t \<Longrightarrow> P t" and "later s t" "I s" "P s"
  shows "P t"
proof -
  have "I t \<and> P t"
    using assms(2-4) by (induction rule: later.induct) (auto intro: assms(1) step_safe)
  then show ?thesis ..
qed

end

end
