(* ===== verification/Core_Error.thy ===== *)
theory Core_Error
  imports Siftlane_Prelude
begin

text \<open>
  \<^verbatim>\<open>crates/siftlane-core/src/error.rs\<close>: the error codes, the error record, its constructors, and
  the abbreviation of a result that carries it.
\<close>

datatype ErrorCode =
    InvalidInput | NotFound | AlreadyExists | PermissionDenied | AuthenticationFailed
  | HostKeyUnknown | HostKeyChanged | ConnectionFailed | ConnectionClosed | TimedOut
  | Conflict | Unsupported | SecretStoreUnavailable | StorageError | IoError | InternalError

record AppError =
  code :: ErrorCode
  message :: string
  retryable :: bool
  detail :: "string option"

type_synonym 'a result = "AppError + 'a"
type_synonym ('w, 'a) act = "('w, AppError, 'a) eff"

definition new_error :: "ErrorCode \<Rightarrow> string \<Rightarrow> AppError" where
  "new_error c m = \<lparr>code = c, message = m, retryable = False, detail = None\<rparr>"

definition as_retryable :: "AppError \<Rightarrow> AppError" where
  "as_retryable e = e\<lparr>retryable := True\<rparr>"

definition with_detail :: "AppError \<Rightarrow> string \<Rightarrow> AppError" where
  "with_detail e d = e\<lparr>detail := Some d\<rparr>"

text \<open>\<open>fails_with c r\<close>: the result is an error of code \<open>c\<close>.\<close>

definition fails_with :: "ErrorCode \<Rightarrow> 'a result \<Rightarrow> bool" where
  "fails_with c r = (case r of Inl e \<Rightarrow> code e = c | Inr _ \<Rightarrow> False)"

definition succeeds :: "'a result \<Rightarrow> bool" where
  "succeeds r = (case r of Inl _ \<Rightarrow> False | Inr _ \<Rightarrow> True)"

lemma fails_with_simps [simp]:
  "fails_with c (Inl e) = (code e = c)" "\<not> fails_with c (Inr a)"
  by (simp_all add: fails_with_def)

lemma succeeds_simps [simp]: "\<not> succeeds (Inl e)" "succeeds (Inr a)"
  by (simp_all add: succeeds_def)

lemma succeeds_iff: "succeeds r \<longleftrightarrow> (\<exists>a. r = Inr a)"
  by (cases r) auto

lemma code_new_error [simp]: "code (new_error c m) = c"
  by (simp add: new_error_def)

lemma retryable_new_error [simp]: "\<not> retryable (new_error c m)"
  by (simp add: new_error_def)

lemma as_retryable_simps [simp]:
  "code (as_retryable e) = code e" "retryable (as_retryable e)" "message (as_retryable e) = message e"
  by (simp_all add: as_retryable_def)

lemma with_detail_simps [simp]:
  "code (with_detail e d) = code e" "retryable (with_detail e d) = retryable e"
  by (simp_all add: with_detail_def)

end
