(* ===== verification/Core_Model.thy ===== *)
theory Core_Model
  imports Core_Error
begin

text \<open>
  \<^verbatim>\<open>crates/siftlane-core/src/model.rs\<close>: the data of the program. Enumerations are datatypes with
  the source's constructors, structs are records whose fields carry a prefix per struct, and the
  constructors of the source take the fresh \<^verbatim>\<open>Uuid\<close> and the clock reading as arguments.
\<close>

section \<open>Profiles\<close>

datatype Protocol = Sftp | Ftp | Ftps

datatype AuthRef =
    Anonymous
  | Password (remember: bool)
  | PrivateKey (key_path: string) (remember_passphrase: bool)
  | Agent

datatype SshProxyKind = Socks5 | HttpConnect

record SshProxy =
  proxy_kind :: SshProxyKind
  proxy_host :: string
  proxy_port :: u16

datatype AgentForwardingPolicy = Deny | Allow

record SshAlgorithmPolicy =
  key_exchange :: "string list"
  host_keys :: "string list"
  ciphers :: "string list"
  macs :: "string list"

record SshOptions =
  proxy_jump_profile_id :: "uuid option"
  proxy :: "SshProxy option"
  agent_forwarding :: AgentForwardingPolicy
  algorithms :: SshAlgorithmPolicy

definition default_algorithms :: SshAlgorithmPolicy where
  "default_algorithms = \<lparr>key_exchange = [], host_keys = [], ciphers = [], macs = []\<rparr>"

definition default_ssh_options :: SshOptions where
  "default_ssh_options = \<lparr>proxy_jump_profile_id = None, proxy = None,
     agent_forwarding = Deny, algorithms = default_algorithms\<rparr>"

record ConnectionProfile =
  prof_id :: uuid
  prof_label :: string
  prof_protocol :: Protocol
  prof_host :: string
  prof_port :: u16
  prof_username :: string
  prof_auth :: AuthRef
  prof_initial_remote_path :: string
  prof_favorite :: bool
  prof_ssh_options :: SshOptions
  prof_folder :: "string option"
  prof_tags :: "string list"
  prof_color :: "string option"
  prof_notes :: string
  prof_created_at :: datetime
  prof_updated_at :: datetime

definition new_profile ::
  "uuid \<Rightarrow> datetime \<Rightarrow> string \<Rightarrow> string \<Rightarrow> string \<Rightarrow> AuthRef \<Rightarrow> ConnectionProfile" where
  "new_profile uid now label host username auth =
     \<lparr>prof_id = uid, prof_label = label, prof_protocol = Sftp, prof_host = host, prof_port = 22,
      prof_username = username, prof_auth = auth, prof_initial_remote_path = ''/'',
      prof_favorite = False, prof_ssh_options = default_ssh_options, prof_folder = None,
      prof_tags = [], prof_color = None, prof_notes = '''', prof_created_at = now,
      prof_updated_at = now\<rparr>"

definition default_port :: "Protocol \<Rightarrow> u16" where
  "default_port p = (case p of Sftp \<Rightarrow> 22 | Ftp \<Rightarrow> 21 | Ftps \<Rightarrow> 21)"

datatype FavoriteSide = LocalSide | RemoteSide

record Favorite =
  fav_id :: uuid
  fav_profile_id :: "uuid option"
  fav_side :: FavoriteSide
  fav_label :: string
  fav_path :: string

definition new_favorite ::
  "uuid \<Rightarrow> uuid option \<Rightarrow> FavoriteSide \<Rightarrow> string \<Rightarrow> string \<Rightarrow> Favorite" where
  "new_favorite uid profile side label path =
     \<lparr>fav_id = uid, fav_profile_id = profile, fav_side = side, fav_label = label, fav_path = path\<rparr>"

section \<open>Files\<close>

datatype EntryKind = File | Directory | Symlink | Other

record FileEntry =
  ent_path :: string
  ent_name :: string
  ent_kind :: EntryKind
  ent_size :: "nat option"
  ent_modified_at :: "datetime option"
  ent_permissions :: "u32 option"
  ent_symlink_target :: "string option"
  ent_hidden :: bool

datatype ArchiveFormat = Zip | Tar | TarGz

definition extension :: "ArchiveFormat \<Rightarrow> string" where
  "extension f = (case f of Zip \<Rightarrow> ''zip'' | Tar \<Rightarrow> ''tar'' | TarGz \<Rightarrow> ''tar.gz'')"

datatype SavedActionKind =
    OpenLocal | OpenRemote | OpenBoth | UploadDir | DownloadDir | PackageLocal | PackageRemote
  | PackageAndDownload | RunRemoteCommands

record SavedAction =
  act_id :: uuid
  act_label :: string
  act_kind :: SavedActionKind
  act_local_path :: "string option"
  act_remote_path :: "string option"
  act_archive_format :: "ArchiveFormat option"
  act_commands :: "string list"
  act_created_at :: datetime
  act_updated_at :: datetime

definition new_saved_action ::
  "uuid \<Rightarrow> datetime \<Rightarrow> string \<Rightarrow> SavedActionKind \<Rightarrow> string option \<Rightarrow> string option \<Rightarrow> SavedAction"
where
  "new_saved_action uid now label kind local_path remote_path =
     \<lparr>act_id = uid, act_label = label, act_kind = kind, act_local_path = local_path,
      act_remote_path = remote_path, act_archive_format = None, act_commands = [],
      act_created_at = now, act_updated_at = now\<rparr>"

section \<open>Host keys and connections\<close>

record HostKeyChallenge =
  challenge_id :: uuid
  challenge_host :: string
  challenge_port :: u16
  challenge_algorithm :: string
  challenge_fingerprint :: string
  challenge_changed :: bool

record TrustedHostKey =
  key_host :: string
  key_port :: u16
  key_algorithm :: string
  key_fingerprint :: string
  key_first_seen_at :: datetime
  key_last_seen_at :: datetime

record KnownHostsImportSummary =
  imported :: nat
  skipped :: nat

datatype ConnectResult =
    Connected (connected_session: uuid)
  | NeedsHostTrust (trust_challenge: HostKeyChallenge)
  | NeedsCredential (credential_profile: uuid)

section \<open>Transfers\<close>

datatype TransferDirection = Upload | Download | RemoteToRemote

datatype ConflictPolicy = Ask | Skip | Overwrite | Rename

datatype TransferState =
    Queued | Running | Paused | WaitingForConflict | WaitingForAuthentication | Completed
  | Failed | Cancelled | Interrupted

datatype TransferVerification = Pending | SizeVerified | Sha256Verified

datatype TransferPriority = Low | Normal | High

datatype SymlinkPolicy = SkipLink | CopyLink | Dereference

record RetryRecord =
  retry_at :: datetime
  retry_error :: string

definition is_terminal :: "TransferState \<Rightarrow> bool" where
  "is_terminal s = (case s of Completed \<Rightarrow> True | Failed \<Rightarrow> True | Cancelled \<Rightarrow> True | _ \<Rightarrow> False)"

text \<open>The derived \<^verbatim>\<open>Ord\<close> of \<^verbatim>\<open>TransferPriority\<close>: declaration order.\<close>

fun priority_rank :: "TransferPriority \<Rightarrow> nat" where
  "priority_rank Low = 0"
| "priority_rank Normal = 1"
| "priority_rank High = 2"

lemma priority_rank_inj: "priority_rank p = priority_rank q \<longleftrightarrow> p = q"
  by (cases p; cases q) auto

instantiation TransferPriority :: linorder
begin

definition less_eq_TransferPriority :: "TransferPriority \<Rightarrow> TransferPriority \<Rightarrow> bool" where
  "less_eq_TransferPriority p q = (priority_rank p \<le> priority_rank q)"

definition less_TransferPriority :: "TransferPriority \<Rightarrow> TransferPriority \<Rightarrow> bool" where
  "less_TransferPriority p q = (priority_rank p < priority_rank q)"

instance
  by standard (auto simp: less_eq_TransferPriority_def less_TransferPriority_def priority_rank_inj)

end

text \<open>\<^verbatim>\<open>std::cmp::Reverse\<close>: the same values, in the opposite order.\<close>

datatype 'a Reverse = Reverse (unreverse: 'a)

instantiation Reverse :: (linorder) linorder
begin

definition less_eq_Reverse :: "'a Reverse \<Rightarrow> 'a Reverse \<Rightarrow> bool" where
  "less_eq_Reverse a b = (unreverse b \<le> unreverse a)"

definition less_Reverse :: "'a Reverse \<Rightarrow> 'a Reverse \<Rightarrow> bool" where
  "less_Reverse a b = (unreverse b < unreverse a)"

instance
proof
  fix x y z :: "'a Reverse"
  show "x < y \<longleftrightarrow> x \<le> y \<and> \<not> y \<le> x" by (auto simp: less_eq_Reverse_def less_Reverse_def)
  show "x \<le> x" by (simp add: less_eq_Reverse_def)
  show "x \<le> y \<Longrightarrow> y \<le> z \<Longrightarrow> x \<le> z" by (simp add: less_eq_Reverse_def)
  show "x \<le> y \<Longrightarrow> y \<le> x \<Longrightarrow> x = y"
    by (cases x; cases y) (simp add: less_eq_Reverse_def)
  show "x \<le> y \<or> y \<le> x" by (auto simp: less_eq_Reverse_def)
qed

end

lemma Reverse_le [simp]: "Reverse p \<le> Reverse q \<longleftrightarrow> q \<le> p"
  by (simp add: less_eq_Reverse_def)

record TransferJob =
  job_id :: uuid
  job_batch_id :: "uuid option"
  job_profile_id :: uuid
  job_source_profile_id :: "uuid option"
  job_source_session_id :: "uuid option"
  job_destination_session_id :: "uuid option"
  job_source_endpoint :: "string option"
  job_destination_endpoint :: "string option"
  job_direction :: TransferDirection
  job_source_path :: string
  job_destination_path :: string
  job_partial_path :: string
  job_bytes_total :: "nat option"
  job_bytes_transferred :: nat
  job_state :: TransferState
  job_conflict_policy :: ConflictPolicy
  job_retry_count :: u8
  job_verification :: TransferVerification
  job_speed :: "nat option"
  job_error :: "string option"
  job_priority :: TransferPriority
  job_preserve_modified_time :: bool
  job_preserve_permissions :: bool
  job_symlink_policy :: SymlinkPolicy
  job_retry_history :: "RetryRecord list"
  job_created_at :: datetime
  job_updated_at :: datetime

text \<open>\<^verbatim>\<open>format!("{destination_path}.siftlane-part-{id}")\<close>\<close>

definition partial_path_for :: "string \<Rightarrow> uuid \<Rightarrow> string" where
  "partial_path_for destination uid = destination @ ''.siftlane-part-'' @ uid"

definition new_job ::
  "uuid \<Rightarrow> datetime \<Rightarrow> uuid \<Rightarrow> TransferDirection \<Rightarrow> string \<Rightarrow> string \<Rightarrow> nat option \<Rightarrow> TransferJob"
where
  "new_job uid now profile_id direction source destination tot =
     \<lparr>job_id = uid, job_batch_id = None, job_profile_id = profile_id,
      job_source_profile_id = None, job_source_session_id = None,
      job_destination_session_id = None, job_source_endpoint = None,
      job_destination_endpoint = None, job_direction = direction, job_source_path = source,
      job_destination_path = destination, job_partial_path = partial_path_for destination uid,
      job_bytes_total = tot, job_bytes_transferred = 0, job_state = Queued,
      job_conflict_policy = Ask, job_retry_count = 0, job_verification = Pending,
      job_speed = None, job_error = None, job_priority = Normal,
      job_preserve_modified_time = False, job_preserve_permissions = False,
      job_symlink_policy = SkipLink, job_retry_history = [], job_created_at = now,
      job_updated_at = now\<rparr>"

definition new_remote_to_remote ::
  "uuid \<Rightarrow> datetime \<Rightarrow> uuid \<Rightarrow> uuid \<Rightarrow> string \<Rightarrow> uuid \<Rightarrow> uuid \<Rightarrow> string \<Rightarrow> string \<Rightarrow> string
     \<Rightarrow> nat \<Rightarrow> TransferJob" where
  "new_remote_to_remote uid now source_profile source_session source_endpoint
     destination_profile destination_session destination_endpoint source destination tot =
     (new_job uid now destination_profile RemoteToRemote source destination (Some tot))
       \<lparr>job_source_profile_id := Some source_profile,
        job_source_session_id := Some source_session,
        job_destination_session_id := Some destination_session,
        job_source_endpoint := Some source_endpoint,
        job_destination_endpoint := Some destination_endpoint\<rparr>"

record TransferProgress =
  progress_id :: uuid
  progress_state :: TransferState
  progress_bytes_transferred :: nat
  progress_bytes_total :: "nat option"
  progress_speed :: "nat option"
  progress_retry_count :: u8
  progress_verification :: TransferVerification
  progress_error :: "string option"

section \<open>Preferences\<close>

record ProfileBandwidthLimit =
  limit_upload_bps :: "nat option"
  limit_download_bps :: "nat option"

record BandwidthSchedule =
  sched_id :: uuid
  sched_label :: string
  sched_start_time :: string
  sched_end_time :: string
  sched_upload_bps :: "nat option"
  sched_download_bps :: "nat option"
  sched_days :: "u8 list"
  sched_enabled :: bool

record TemporaryBandwidthLimit =
  temp_upload_bps :: "nat option"
  temp_download_bps :: "nat option"
  temp_expires_at :: datetime

record SyncRootPair =
  sync_local_root :: string
  sync_remote_root :: string
  sync_enabled :: bool

datatype Theme = System | Light | Dark | Midnight | Ocean | Graphite

datatype LayoutMode = DualPane | RemoteFocused

text \<open>A \<^verbatim>\<open>BTreeMap\<close> of the source is a partial function.\<close>

record Preferences =
  pref_theme :: Theme
  pref_default_layout :: LayoutMode
  pref_show_hidden_files :: bool
  pref_diagnostics_enabled :: bool
  pref_global_parallel_transfers :: u8
  pref_per_host_parallel_transfers :: u8
  pref_expand_transfers_on_new :: bool
  pref_automatic_retry_limit :: u8
  pref_connect_timeout_seconds :: nat
  pref_response_timeout_seconds :: nat
  pref_keepalive_seconds :: nat
  pref_bookmark_order :: "string \<rightharpoonup> string list"
  pref_restore_sessions :: bool
  pref_global_upload_limit_bps :: "nat option"
  pref_global_download_limit_bps :: "nat option"
  pref_profile_bandwidth_limits :: "string \<rightharpoonup> ProfileBandwidthLimit"
  pref_bandwidth_schedules :: "BandwidthSchedule list"
  pref_temporary_bandwidth_limit :: "TemporaryBandwidthLimit option"
  pref_sync_roots :: "string \<rightharpoonup> SyncRootPair"

definition default_preferences :: Preferences where
  "default_preferences =
     \<lparr>pref_theme = System, pref_default_layout = DualPane, pref_show_hidden_files = True,
      pref_diagnostics_enabled = False, pref_global_parallel_transfers = 3,
      pref_per_host_parallel_transfers = 2, pref_expand_transfers_on_new = True,
      pref_automatic_retry_limit = 3, pref_connect_timeout_seconds = 15,
      pref_response_timeout_seconds = 30, pref_keepalive_seconds = 30,
      pref_bookmark_order = Map.empty, pref_restore_sessions = True,
      pref_global_upload_limit_bps = None, pref_global_download_limit_bps = None,
      pref_profile_bandwidth_limits = Map.empty, pref_bandwidth_schedules = [],
      pref_temporary_bandwidth_limit = None, pref_sync_roots = Map.empty\<rparr>"

section \<open>Facts\<close>

lemma new_job_simps [simp]:
  "job_id (new_job uid now p d s t n) = uid"
  "job_state (new_job uid now p d s t n) = Queued"
  "job_source_path (new_job uid now p d s t n) = s"
  "job_destination_path (new_job uid now p d s t n) = t"
  "job_partial_path (new_job uid now p d s t n) = partial_path_for t uid"
  "job_bytes_total (new_job uid now p d s t n) = n"
  "job_bytes_transferred (new_job uid now p d s t n) = 0"
  "job_profile_id (new_job uid now p d s t n) = p"
  "job_direction (new_job uid now p d s t n) = d"
  by (simp_all add: new_job_def)

lemma is_terminal_simps [simp]:
  "\<not> is_terminal Queued" "\<not> is_terminal Running" "\<not> is_terminal Paused"
  "\<not> is_terminal WaitingForConflict" "\<not> is_terminal WaitingForAuthentication"
  "is_terminal Completed" "is_terminal Failed" "is_terminal Cancelled" "\<not> is_terminal Interrupted"
  by (simp_all add: is_terminal_def)

end
