(* ===== verification/Transfer_Queue.thy ===== *)
theory Transfer_Queue
  imports Core_Model
begin

text \<open>
  \<^verbatim>\<open>crates/siftlane-core/src/transfer.rs\<close>: the transfer queue. \<^verbatim>\<open>jobs\<close> is a hash map and \<^verbatim>\<open>order\<close> a
  vector of ids; the source never iterates over the hash map, so a partial function models it. Each
  method is an effect on the queue; \<^verbatim>\<open>Utc::now()\<close> is the argument \<open>now\<close>.

  The lemmas: the order and the map stay in step under every method (\<open>queue_wf\<close>), a job that ended
  is never restarted except by an explicit requeue of a failed one, and each method touches the
  job it names and no other.
\<close>

section \<open>State\<close>

record TransferQueue =
  jobs :: "uuid \<rightharpoonup> TransferJob"
  order :: "uuid list"

type_synonym 'a queue_act = "(TransferQueue, 'a) act"

definition empty_queue :: TransferQueue where
  "empty_queue = \<lparr>jobs = Map.empty, order = []\<rparr>"

text \<open>\<^verbatim>\<open>{:?}\<close> of a \<^verbatim>\<open>TransferState\<close>.\<close>

fun state_debug :: "TransferState \<Rightarrow> string" where
  "state_debug Queued = ''Queued''"
| "state_debug Running = ''Running''"
| "state_debug Paused = ''Paused''"
| "state_debug WaitingForConflict = ''WaitingForConflict''"
| "state_debug WaitingForAuthentication = ''WaitingForAuthentication''"
| "state_debug Completed = ''Completed''"
| "state_debug Failed = ''Failed''"
| "state_debug Cancelled = ''Cancelled''"
| "state_debug Interrupted = ''Interrupted''"

section \<open>Operations\<close>

definition is_valid_transition :: "TransferState \<Rightarrow> TransferState \<Rightarrow> bool" where
  "is_valid_transition from to =
     ((from \<in> {Queued, Interrupted} \<and> to = Running)
      \<or> (from = Queued \<and> to = Paused)
      \<or> (from = Interrupted \<and> to \<in> {WaitingForAuthentication, Failed})
      \<or> (from \<in> {Queued, Running, Paused, Interrupted} \<and> to = Cancelled)
      \<or> (from = Running \<and> to \<in> {Paused, WaitingForConflict, WaitingForAuthentication, Completed,
                                 Failed, Interrupted})
      \<or> (from \<in> {Paused, WaitingForConflict, WaitingForAuthentication, Interrupted, Failed}
          \<and> to = Queued))"

fun restore_jobs :: "TransferQueue \<Rightarrow> TransferJob list \<Rightarrow> TransferQueue" where
  "restore_jobs q [] = q"
| "restore_jobs q (job # rest) =
     (let job' = (if job_state job = Running then job\<lparr>job_state := Interrupted\<rparr> else job)
      in restore_jobs (q\<lparr>order := order q @ [job_id job'], jobs := (jobs q)(job_id job' \<mapsto> job')\<rparr>)
           rest)"

definition restore :: "TransferJob list \<Rightarrow> TransferQueue" where
  "restore js = restore_jobs empty_queue js"

definition enqueue :: "TransferJob \<Rightarrow> uuid queue_act" where
  "enqueue job = (\<lambda>q. (Inr (job_id job),
     q\<lparr>order := order q @ [job_id job], jobs := (jobs q)(job_id job \<mapsto> job)\<rparr>))"

definition list_jobs :: "TransferQueue \<Rightarrow> TransferJob list" where
  "list_jobs q = List.map_filter (jobs q) (order q)"

definition get_job :: "TransferQueue \<Rightarrow> uuid \<Rightarrow> TransferJob option" where
  "get_job q uid = jobs q uid"

definition transfer_missing :: "uuid \<Rightarrow> AppError" where
  "transfer_missing uid = new_error NotFound (''Transfer '' @ uid @ '' was not found'')"

text \<open>\<^verbatim>\<open>job_mut\<close> followed by an assignment to fields of the job it returns.\<close>

definition job_mut :: "uuid \<Rightarrow> (TransferJob \<Rightarrow> TransferJob) \<Rightarrow> unit queue_act" where
  "job_mut uid f = (\<lambda>q. case jobs q uid of
       None \<Rightarrow> (Inl (transfer_missing uid), q)
     | Some job \<Rightarrow> (Inr (), q\<lparr>jobs := (jobs q)(uid \<mapsto> f job)\<rparr>))"

definition update_conflict_policy :: "datetime \<Rightarrow> uuid \<Rightarrow> ConflictPolicy \<Rightarrow> unit queue_act" where
  "update_conflict_policy now uid policy =
     job_mut uid (\<lambda>job. job\<lparr>job_conflict_policy := policy, job_updated_at := now\<rparr>)"

definition update_destination :: "datetime \<Rightarrow> uuid \<Rightarrow> string \<Rightarrow> unit queue_act" where
  "update_destination now uid destination =
     job_mut uid (\<lambda>job. job\<lparr>job_destination_path := destination,
       job_partial_path := partial_path_for destination (job_id job), job_updated_at := now\<rparr>)"

definition increment_retry :: "datetime \<Rightarrow> uuid \<Rightarrow> unit queue_act" where
  "increment_retry now uid =
     job_mut uid (\<lambda>job. job\<lparr>job_retry_count := saturating_inc8 (job_retry_count job),
       job_updated_at := now\<rparr>)"

definition record_retry :: "datetime \<Rightarrow> uuid \<Rightarrow> string \<Rightarrow> unit queue_act" where
  "record_retry now uid error =
     job_mut uid (\<lambda>job. job\<lparr>job_retry_history :=
         job_retry_history job @ [\<lparr>retry_at = now, retry_error = error\<rparr>],
       job_updated_at := now\<rparr>)"

definition priority_key :: "TransferQueue \<Rightarrow> uuid \<Rightarrow> TransferPriority Reverse" where
  "priority_key q item = Reverse (case jobs q item of Some job \<Rightarrow> job_priority job | None \<Rightarrow> Normal)"

definition set_priority :: "datetime \<Rightarrow> uuid \<Rightarrow> TransferPriority \<Rightarrow> unit queue_act" where
  "set_priority now uid priority =
     and_then (job_mut uid (\<lambda>job. job\<lparr>job_priority := priority, job_updated_at := now\<rparr>))
       (\<lambda>_. modify (\<lambda>q. q\<lparr>order := sort_key (priority_key q) (order q)\<rparr>))"

definition insert_at :: "nat \<Rightarrow> 'a \<Rightarrow> 'a list \<Rightarrow> 'a list" where
  "insert_at i x xs = take i xs @ [x] @ drop i xs"

definition reorder :: "uuid \<Rightarrow> uuid option \<Rightarrow> unit queue_act" where
  "reorder uid before = (\<lambda>q.
     if jobs q uid = None then (Inl (new_error NotFound ''Transfer not found''), q)
     else let rest = filter (\<lambda>item. item \<noteq> uid) (order q);
              index = (case Option.bind before (\<lambda>target. find_index (\<lambda>item. item = target) rest) of
                         Some i \<Rightarrow> i | None \<Rightarrow> length rest)
          in (Inr (), q\<lparr>order := insert_at index uid rest\<rparr>))"

definition set_job_verification :: "datetime \<Rightarrow> uuid \<Rightarrow> TransferVerification \<Rightarrow> unit queue_act"
where
  "set_job_verification now uid v =
     job_mut uid (\<lambda>job. job\<lparr>job_verification := v, job_updated_at := now\<rparr>)"

definition update_total :: "datetime \<Rightarrow> uuid \<Rightarrow> nat \<Rightarrow> unit queue_act" where
  "update_total now uid tot =
     job_mut uid (\<lambda>job. job\<lparr>job_bytes_total := Some tot, job_updated_at := now\<rparr>)"

definition set_error :: "datetime \<Rightarrow> uuid \<Rightarrow> string option \<Rightarrow> unit queue_act" where
  "set_error now uid msg = job_mut uid (\<lambda>job. job\<lparr>job_error := msg, job_updated_at := now\<rparr>)"

definition transition :: "datetime \<Rightarrow> uuid \<Rightarrow> TransferState \<Rightarrow> unit queue_act" where
  "transition now uid nxt = (\<lambda>q. case jobs q uid of
       None \<Rightarrow> (Inl (transfer_missing uid), q)
     | Some job \<Rightarrow>
         if \<not> is_valid_transition (job_state job) nxt then
           (Inl (new_error Conflict (''Cannot move transfer from '' @ state_debug (job_state job)
                  @ '' to '' @ state_debug nxt)), q)
         else (Inr (), q\<lparr>jobs := (jobs q)(uid \<mapsto> job\<lparr>job_state := nxt, job_updated_at := now\<rparr>)\<rparr>))"

definition exceeds_total :: "TransferJob \<Rightarrow> nat \<Rightarrow> bool" where
  "exceeds_total job n = (case job_bytes_total job of Some tot \<Rightarrow> tot < n | None \<Rightarrow> False)"

definition update_progress :: "datetime \<Rightarrow> uuid \<Rightarrow> nat \<Rightarrow> nat option \<Rightarrow> unit queue_act" where
  "update_progress now uid bytes speed = (\<lambda>q. case jobs q uid of
       None \<Rightarrow> (Inl (transfer_missing uid), q)
     | Some job \<Rightarrow>
         if job_state job \<noteq> Running then
           (Inl (new_error Conflict ''Progress can only be recorded for a running transfer''), q)
         else if exceeds_total job bytes then
           (Inl (new_error InvalidInput ''Transferred byte count exceeds the expected size''), q)
         else (Inr (), q\<lparr>jobs := (jobs q)(uid \<mapsto> job\<lparr>job_bytes_transferred := bytes,
                 job_speed := speed, job_updated_at := now\<rparr>)\<rparr>))"

definition remove_job :: "uuid \<Rightarrow> TransferQueue \<Rightarrow> TransferJob option \<times> TransferQueue" where
  "remove_job uid q = (jobs q uid,
     q\<lparr>order := filter (\<lambda>item. item \<noteq> uid) (order q), jobs := (jobs q)(uid := None)\<rparr>)"

datatype TransferListFilter = AllJobs | ActiveJobs | CompletedJobs | FailedJobs

fun filter_matches :: "TransferListFilter \<Rightarrow> TransferState \<Rightarrow> bool" where
  "filter_matches AllJobs s = True"
| "filter_matches ActiveJobs s = (\<not> is_terminal s)"
| "filter_matches CompletedJobs s = (s = Completed)"
| "filter_matches FailedJobs s = (s = Failed \<or> s = Cancelled)"

definition clear_one :: "datetime \<Rightarrow> uuid \<Rightarrow> TransferQueue \<Rightarrow> TransferQueue" where
  "clear_one now uid q =
     (let q' = (case jobs q uid of
                  Some job \<Rightarrow> if is_valid_transition (job_state job) Cancelled
                              then snd (transition now uid Cancelled q) else q
                | None \<Rightarrow> q)
      in snd (remove_job uid q'))"

definition clear_filter ::
  "datetime \<Rightarrow> TransferListFilter \<Rightarrow> TransferQueue \<Rightarrow> uuid list \<times> TransferQueue" where
  "clear_filter now flt q =
     (let ids = List.map_filter (\<lambda>uid. case jobs q uid of
                    Some job \<Rightarrow> if filter_matches flt (job_state job) then Some (job_id job) else None
                  | None \<Rightarrow> None) (order q)
      in (ids, fold (clear_one now) ids q))"

text \<open>The runs of a queue: it starts from the rows of the database, whose ids are distinct, and
  each step is one call. \<open>used\<close> collects the ids ever handed out: \<^verbatim>\<open>Uuid::new_v4\<close> gives a new one.
  A job that enters the queue carries the partial path that \<^verbatim>\<open>TransferJob::new\<close> gave it.\<close>

definition own_partial :: "TransferJob \<Rightarrow> bool" where
  "own_partial job \<longleftrightarrow> job_partial_path job = partial_path_for (job_destination_path job) (job_id job)"

inductive queue_init :: "TransferQueue \<times> uuid set \<Rightarrow> bool" where
  init_restore: "distinct (map job_id js) \<Longrightarrow> list_all own_partial js \<Longrightarrow>
     queue_init (restore js, set (map job_id js))"

inductive queue_step :: "TransferQueue \<times> uuid set \<Rightarrow> TransferQueue \<times> uuid set \<Rightarrow> bool" where
  step_enqueue: "job_id job \<notin> used \<Longrightarrow> own_partial job \<Longrightarrow>
     queue_step (q, used) (snd (enqueue job q), insert (job_id job) used)"
| step_policy: "queue_step (q, used) (snd (update_conflict_policy now uid policy q), used)"
| step_destination: "queue_step (q, used) (snd (update_destination now uid destination q), used)"
| step_increment: "queue_step (q, used) (snd (increment_retry now uid q), used)"
| step_record: "queue_step (q, used) (snd (record_retry now uid error q), used)"
| step_priority: "queue_step (q, used) (snd (set_priority now uid priority q), used)"
| step_reorder: "queue_step (q, used) (snd (reorder uid before q), used)"
| step_verification: "queue_step (q, used) (snd (set_job_verification now uid v q), used)"
| step_total: "queue_step (q, used) (snd (update_total now uid n q), used)"
| step_error: "queue_step (q, used) (snd (set_error now uid msg q), used)"
| step_transition: "queue_step (q, used) (snd (transition now uid nxt q), used)"
| step_progress: "queue_step (q, used) (snd (update_progress now uid bytes speed q), used)"
| step_remove: "queue_step (q, used) (snd (remove_job uid q), used)"
| step_clear: "queue_step (q, used) (snd (clear_filter now flt q), used)"

inductive_cases queue_stepE: "queue_step s t"
inductive_simps queue_init_iff: "queue_init s"

definition queue_wf :: "TransferQueue \<Rightarrow> bool" where
  "queue_wf q \<longleftrightarrow> distinct (order q) \<and> set (order q) = dom (jobs q)
     \<and> (\<forall>uid job. jobs q uid = Some job \<longrightarrow> job_id job = uid)"

definition partials_ok :: "TransferQueue \<Rightarrow> bool" where
  "partials_ok q \<longleftrightarrow> (\<forall>uid job. jobs q uid = Some job \<longrightarrow> own_partial job)"

text \<open>The order of the jobs that a sort by priority promises: high before normal before low, and
  jobs of one priority as they stood.\<close>

definition job_priority_of :: "TransferQueue \<Rightarrow> uuid \<Rightarrow> TransferPriority" where
  "job_priority_of q uid = (case jobs q uid of Some job \<Rightarrow> job_priority job | None \<Rightarrow> Normal)"

definition settled :: "uuid \<Rightarrow> TransferState \<Rightarrow> nat \<Rightarrow> TransferQueue \<Rightarrow> bool" where
  "settled uid s n q = (case jobs q uid of
      Some job \<Rightarrow> job_state job = s \<and> job_bytes_transferred job = n
    | None \<Rightarrow> True)"

section \<open>Lemmas\<close>

lemmas job_ops_def = update_conflict_policy_def update_destination_def increment_retry_def
  record_retry_def set_job_verification_def update_total_def set_error_def

lemma queue_wfD:
  assumes "queue_wf q"
  shows "distinct (order q)" "set (order q) = dom (jobs q)"
    "jobs q uid = Some job \<Longrightarrow> job_id job = uid"
  using assms by (auto simp: queue_wf_def)

lemma job_mut_jobs:
  "jobs (snd (job_mut uid f q)) = (case jobs q uid of None \<Rightarrow> jobs q | Some job \<Rightarrow> (jobs q)(uid \<mapsto> f job))"
  by (simp add: job_mut_def split: option.splits)

lemma job_mut_order [simp]: "order (snd (job_mut uid f q)) = order q"
  by (simp add: job_mut_def split: option.splits)

lemma job_mut_wf:
  assumes "queue_wf q" "\<And>job. job_id (f job) = job_id job"
  shows "queue_wf (snd (job_mut uid f q))"
  using assms by (auto simp: queue_wf_def job_mut_jobs split: option.splits if_splits)

lemma job_ops_wf:
  assumes "queue_wf q"
  shows "queue_wf (snd (update_conflict_policy now uid policy q))"
    "queue_wf (snd (update_destination now uid destination q))"
    "queue_wf (snd (increment_retry now uid q))"
    "queue_wf (snd (record_retry now uid error q))"
    "queue_wf (snd (set_job_verification now uid v q))"
    "queue_wf (snd (update_total now uid n q))"
    "queue_wf (snd (set_error now uid msg q))"
  unfolding job_ops_def by (rule job_mut_wf[OF assms]; simp)+

lemma enqueue_wf:
  assumes "queue_wf q" "jobs q (job_id job) = None"
  shows "queue_wf (snd (enqueue job q))"
  using assms by (auto simp: queue_wf_def enqueue_def)

lemma set_priority_run:
  "set_priority now uid priority q = (case jobs q uid of
      None \<Rightarrow> (Inl (transfer_missing uid), q)
    | Some job \<Rightarrow> (let q' = q\<lparr>jobs := (jobs q)(uid \<mapsto> job\<lparr>job_priority := priority, job_updated_at := now\<rparr>)\<rparr>
                  in (Inr (), q'\<lparr>order := sort_key (priority_key q') (order q)\<rparr>)))"
  by (simp add: set_priority_def run_simps job_mut_def Let_def split: option.splits)

lemma set_priority_wf: "queue_wf q \<Longrightarrow> queue_wf (snd (set_priority now uid priority q))"
  by (auto simp: queue_wf_def set_priority_run Let_def split: option.splits)

lemma insert_at_set [simp]: "set (insert_at i x xs) = insert x (set xs)"
  unfolding insert_at_def by (metis append_take_drop_id list.set(2) set_append Un_insert_right
      append_Cons append_Nil)

lemma insert_at_distinct: "distinct xs \<Longrightarrow> x \<notin> set xs \<Longrightarrow> distinct (insert_at i x xs)"
  by (auto simp: insert_at_def set_take_disj_set_drop_if_distinct dest: in_set_takeD in_set_dropD)

lemma reorder_wf:
  assumes "queue_wf q"
  shows "queue_wf (snd (reorder uid before q))"
proof (cases "jobs q uid")
  case None
  with assms show ?thesis by (simp add: reorder_def)
next
  case (Some job)
  with assms show ?thesis
    by (auto simp: queue_wf_def reorder_def Let_def intro!: insert_at_distinct)
qed

lemma transition_wf: "queue_wf q \<Longrightarrow> queue_wf (snd (transition now uid nxt q))"
  by (auto simp: queue_wf_def transition_def split: option.splits if_splits)

lemma update_progress_wf: "queue_wf q \<Longrightarrow> queue_wf (snd (update_progress now uid bytes speed q))"
  by (auto simp: queue_wf_def update_progress_def split: option.splits if_splits)

lemma remove_job_wf: "queue_wf q \<Longrightarrow> queue_wf (snd (remove_job uid q))"
  by (auto simp: queue_wf_def remove_job_def)

lemma clear_one_eq: "queue_wf q \<Longrightarrow> clear_one now uid q = snd (remove_job uid q)"
  by (auto simp: clear_one_def remove_job_def transition_def split: option.splits)

lemma remove_fold:
  "fold (\<lambda>uid q. snd (remove_job uid q)) uids q =
     q\<lparr>order := filter (\<lambda>i. i \<notin> set uids) (order q), jobs := (jobs q) |` (- set uids)\<rparr>"
proof (induction uids arbitrary: q)
  case Nil
  then show ?case by (simp add: restrict_map_def)
next
  case (Cons u us)
  then show ?case
    by (simp add: remove_job_def restrict_map_def fun_eq_iff conj_commute)
qed

lemma clear_one_fold:
  "queue_wf q \<Longrightarrow> fold (clear_one now) uids q = fold (\<lambda>uid q. snd (remove_job uid q)) uids q"
  by (induction uids arbitrary: q) (simp_all add: clear_one_eq remove_job_wf)

lemma map_filter_eq_filter:
  assumes "\<And>x. x \<in> set xs \<Longrightarrow> f x = (if P x then Some x else None)"
  shows "List.map_filter f xs = filter P xs"
  using assms by (induction xs) (simp_all add: List.map_filter_simps)

definition clears :: "TransferListFilter \<Rightarrow> TransferQueue \<Rightarrow> uuid \<Rightarrow> bool" where
  "clears flt q uid = (case jobs q uid of Some job \<Rightarrow> filter_matches flt (job_state job) | None \<Rightarrow> False)"

lemma clear_filter_run:
  assumes "queue_wf q"
  shows "clear_filter now flt q =
    (filter (clears flt q) (order q),
     q\<lparr>order := filter (\<lambda>i. \<not> clears flt q i) (order q), jobs := (jobs q) |` {i. \<not> clears flt q i}\<rparr>)"
proof -
  let ?pick = "\<lambda>uid. case jobs q uid of
       Some job \<Rightarrow> if filter_matches flt (job_state job) then Some (job_id job) else None
     | None \<Rightarrow> None"
  have ids: "List.map_filter ?pick (order q) = filter (clears flt q) (order q)"
    by (rule map_filter_eq_filter)
      (auto simp: clears_def queue_wfD(3)[OF assms] split: option.splits)
  have "x \<in> set (order q)" if "clears flt q x" for x
    using that queue_wfD(2)[OF assms] by (auto simp: clears_def split: option.splits)
  then have set: "set (filter (clears flt q) (order q)) = {i. clears flt q i}" by auto
  show ?thesis
    unfolding clear_filter_def Let_def ids clear_one_fold[OF assms] remove_fold set
    by (auto simp: Compl_eq intro: filter_cong)
qed

lemma clear_filter_wf: "queue_wf q \<Longrightarrow> queue_wf (snd (clear_filter now flt q))"
  by (auto simp: clear_filter_run queue_wf_def restrict_map_def split: if_splits)

text \<open>Restoring.\<close>

definition restored_job :: "TransferJob \<Rightarrow> TransferJob" where
  "restored_job job = (if job_state job = Running then job\<lparr>job_state := Interrupted\<rparr> else job)"

lemma restored_job_id [simp]: "job_id (restored_job job) = job_id job"
  by (simp add: restored_job_def)

lemma restore_jobs_order: "order (restore_jobs q js) = order q @ map job_id js"
  by (induction js arbitrary: q) (auto simp: Let_def)

lemma restore_jobs_jobs:
  "distinct (map job_id js) \<Longrightarrow>
   jobs (restore_jobs q js) = jobs q ++ map_of (map (\<lambda>job. (job_id job, restored_job job)) js)"
proof (induction js arbitrary: q)
  case Nil
  then show ?case by simp
next
  case (Cons job js)
  have none: "map_of (map (\<lambda>job. (job_id job, restored_job job)) js) (job_id job) = None"
    using Cons.prems by (force simp: map_of_eq_None_iff)
  have "restore_jobs q (job # js) = restore_jobs
      (q\<lparr>order := order q @ [job_id job], jobs := (jobs q)(job_id job \<mapsto> restored_job job)\<rparr>) js"
    by (simp add: Let_def restored_job_def)
  then show ?case using Cons none by (auto simp: map_add_def fun_eq_iff split: option.splits)
qed

lemma restore_wf: "distinct (map job_id js) \<Longrightarrow> queue_wf (restore js)"
  by (auto simp: queue_wf_def restore_def restore_jobs_order restore_jobs_jobs empty_queue_def
      dom_map_of_conv_image_fst image_image dest!: map_of_SomeD)

lemma dom_restore: "distinct (map job_id js) \<Longrightarrow> dom (jobs (restore js)) = set (map job_id js)"
  by (auto simp: restore_def restore_jobs_jobs empty_queue_def dom_map_of_conv_image_fst image_image)

section \<open>The queue as a safe system\<close>

definition history_ok :: "TransferQueue \<times> uuid set \<Rightarrow> bool" where
  "history_ok h \<longleftrightarrow> queue_wf (fst h) \<and> dom (jobs (fst h)) \<subseteq> snd h \<and> partials_ok (fst h)"

lemma partials_job_mut:
  assumes "\<And>job. own_partial job \<Longrightarrow> own_partial (f job)" "partials_ok q"
  shows "partials_ok (snd (job_mut uid f q))"
  using assms by (auto simp: partials_ok_def job_mut_jobs split: option.splits if_splits)

lemma job_ops_partials:
  assumes "partials_ok q"
  shows "partials_ok (snd (update_conflict_policy now uid policy q))"
    "partials_ok (snd (update_destination now uid destination q))"
    "partials_ok (snd (increment_retry now uid q))"
    "partials_ok (snd (record_retry now uid error q))"
    "partials_ok (snd (set_job_verification now uid v q))"
    "partials_ok (snd (update_total now uid n q))"
    "partials_ok (snd (set_error now uid msg q))"
  unfolding job_ops_def by (rule partials_job_mut[OF _ assms]; simp add: own_partial_def)+

lemma queue_ops_partials:
  assumes "partials_ok q"
  shows "partials_ok (snd (set_priority now uid priority q))"
    "partials_ok (snd (reorder uid before q))"
    "partials_ok (snd (transition now uid nxt q))"
    "partials_ok (snd (update_progress now uid bytes speed q))"
    "partials_ok (snd (remove_job uid q))"
    "own_partial job \<Longrightarrow> partials_ok (snd (enqueue job q))"
  using assms
  by (auto simp: partials_ok_def own_partial_def set_priority_run reorder_def transition_def
      update_progress_def remove_job_def enqueue_def Let_def split: option.splits if_splits)

lemma clear_filter_partials:
  "partials_ok q \<Longrightarrow> queue_wf q \<Longrightarrow> partials_ok (snd (clear_filter now flt q))"
  by (auto simp: partials_ok_def clear_filter_run restrict_map_def split: if_splits)

lemma restore_partials:
  "distinct (map job_id js) \<Longrightarrow> list_all own_partial js \<Longrightarrow> partials_ok (restore js)"
  by (auto simp: partials_ok_def restore_def restore_jobs_jobs empty_queue_def own_partial_def
      restored_job_def list_all_iff dest!: map_of_SomeD)

lemma job_ops_dom [simp]:
  "dom (jobs (snd (job_mut uid f q))) = dom (jobs q)"
  "dom (jobs (snd (set_priority now uid priority q))) = dom (jobs q)"
  "dom (jobs (snd (reorder uid before q))) = dom (jobs q)"
  "dom (jobs (snd (transition now uid nxt q))) = dom (jobs q)"
  "dom (jobs (snd (update_progress now uid bytes speed q))) = dom (jobs q)"
  by (auto simp: job_mut_jobs set_priority_run reorder_def transition_def update_progress_def
      Let_def split: option.splits)

lemma job_ops_dom' [simp]:
  "dom (jobs (snd (update_conflict_policy now uid policy q))) = dom (jobs q)"
  "dom (jobs (snd (update_destination now uid destination q))) = dom (jobs q)"
  "dom (jobs (snd (increment_retry now uid q))) = dom (jobs q)"
  "dom (jobs (snd (record_retry now uid error q))) = dom (jobs q)"
  "dom (jobs (snd (set_job_verification now uid v q))) = dom (jobs q)"
  "dom (jobs (snd (update_total now uid n q))) = dom (jobs q)"
  "dom (jobs (snd (set_error now uid msg q))) = dom (jobs q)"
  by (simp_all add: job_ops_def)

lemma queue_init_ok: "queue_init h \<Longrightarrow> history_ok h"
  by (elim queue_init.cases) (simp add: history_ok_def restore_wf dom_restore restore_partials)

lemma queue_step_ok: "queue_step s t \<Longrightarrow> history_ok s \<Longrightarrow> history_ok t"
proof (induction rule: queue_step.induct)
  case (step_enqueue job used q)
  then have "jobs q (job_id job) = None" by (auto simp: history_ok_def)
  with step_enqueue show ?case
    by (simp add: history_ok_def enqueue_wf queue_ops_partials)
      (simp add: enqueue_def subset_insertI2)
next
  case (step_clear q used now flt)
  then show ?case
    by (auto simp: history_ok_def clear_filter_wf clear_filter_partials)
      (auto simp: clear_filter_run restrict_map_def split: if_splits)
next
  case (step_remove q used uid)
  then show ?case
    by (auto simp: history_ok_def remove_job_wf queue_ops_partials)
      (auto simp: remove_job_def split: if_splits)
qed (simp_all add: history_ok_def job_ops_wf set_priority_wf reorder_wf transition_wf
    update_progress_wf job_ops_partials queue_ops_partials)

interpretation tq: safe_system queue_init queue_step history_ok
  by unfold_locales (auto intro: queue_init_ok queue_step_ok)

lemma no_exit [simp]:
  "\<not> is_valid_transition Completed s" "\<not> is_valid_transition Cancelled s"
  by (simp_all add: is_valid_transition_def)

lemma settled_job_mut:
  assumes "\<And>job. job_state (f job) = job_state job"
    and "\<And>job. job_bytes_transferred (f job) = job_bytes_transferred job"
  shows "settled uid s n (snd (job_mut u f q)) = settled uid s n q"
  using assms by (auto simp: settled_def job_mut_jobs split: option.splits)

lemma queue_step_settled:
  assumes "queue_step a b" "history_ok a" "uid \<in> snd a" "settled uid s n (fst a)"
    and "s = Completed \<or> s = Cancelled"
  shows "uid \<in> snd b \<and> settled uid s n (fst b)"
  using assms
proof (induction rule: queue_step.induct)
  case (step_enqueue job used q)
  then show ?case by (auto simp: enqueue_def settled_def)
next
  case (step_priority q used now u priority)
  then show ?case by (auto simp: settled_def set_priority_run Let_def split: option.splits)
next
  case (step_reorder q used u before)
  then show ?case by (auto simp: settled_def reorder_def Let_def)
next
  case (step_transition q used now u nxt)
  then show ?case
    by (elim disjE) (auto simp: settled_def transition_def split: option.splits if_splits)
next
  case (step_progress q used now u bytes speed)
  then show ?case
    by (auto simp: settled_def update_progress_def split: option.splits if_splits)
next
  case (step_remove q used u)
  then show ?case by (auto simp: settled_def remove_job_def)
next
  case (step_clear q used now flt)
  then show ?case
    by (auto simp: settled_def history_ok_def clear_filter_run restrict_map_def split: option.splits)
qed (simp_all add: job_ops_def settled_job_mut)

lemma find_index_mem: "find_index (\<lambda>i. i = t) xs = Some k \<Longrightarrow> t \<in> set xs"
  using find_index_Some[of "\<lambda>i. i = t" xs k] nth_mem[of k xs] by auto

lemma insert_at_position:
  assumes "find_index (\<lambda>i. i = t) xs = Some i"
  shows "insert_at i x xs = take i xs @ x # t # drop (Suc i) xs"
  using find_index_Some[OF assms] by (auto simp: insert_at_def Cons_nth_drop_Suc)

lemma insert_at_end [simp]: "insert_at (length xs) x xs = xs @ [x]"
  by (simp add: insert_at_def)

lemma filter_insert_at:
  assumes "\<not> P x"
  shows "filter P (insert_at i x xs) = filter P xs"
proof -
  have "filter P (insert_at i x xs) = filter P (take i xs @ drop i xs)"
    unfolding insert_at_def filter_append using assms by simp
  then show ?thesis by simp
qed

lemma list_jobs_restore:
  assumes "distinct (map job_id js)"
  shows "list_jobs (restore js) = map restored_job js"
proof -
  let ?m = "map_of (map (\<lambda>job. (job_id job, restored_job job)) js)"
  have "?m (job_id job) = Some (restored_job job)" if "job \<in> set js" for job
    using that assms by (intro map_of_is_SomeI) (auto simp: comp_def)
  then have "List.map_filter ?m (map job_id ks) = map restored_job ks" if "set ks \<subseteq> set js" for ks
    using that by (induction ks) (simp_all add: List.map_filter_simps)
  then show ?thesis
    using assms by (simp add: list_jobs_def restore_def restore_jobs_order restore_jobs_jobs empty_queue_def)
qed

section \<open>Properties\<close>

text \<open>A small queue for the examples: one job of each priority.\<close>

definition sample_job :: "uuid \<Rightarrow> TransferState \<Rightarrow> TransferPriority \<Rightarrow> TransferJob" where
  "sample_job uid s p = (new_job uid 0 ''p'' Upload ''/s'' ''/d'' (Some 10))
     \<lparr>job_state := s, job_priority := p\<rparr>"

definition sample_queue :: TransferQueue where
  "sample_queue = restore [sample_job ''a'' Completed Low, sample_job ''b'' Running Normal,
     sample_job ''c'' Queued High]"

lemma sample_job_simps [simp]:
  "job_id (sample_job uid s p) = uid" "job_state (sample_job uid s p) = s"
  "job_priority (sample_job uid s p) = p" "own_partial (sample_job uid s p)"
  "job_bytes_transferred (sample_job uid s p) = 0"
  by (simp_all add: sample_job_def own_partial_def partial_path_for_def new_job_def)

lemma sample_history: "queue_init (sample_queue, {''a'', ''b'', ''c''})"
proof -
  have "queue_init (restore [sample_job ''a'' Completed Low, sample_job ''b'' Running Normal,
      sample_job ''c'' Queued High], set (map job_id [sample_job ''a'' Completed Low,
      sample_job ''b'' Running Normal, sample_job ''c'' Queued High]))"
    by (rule init_restore) simp_all
  then show ?thesis by (simp add: sample_queue_def)
qed

lemma sample_queue_wf: "queue_wf sample_queue"
  using tq.init_safe[OF sample_history] by (simp add: history_ok_def)

lemma sample_queue_simps:
  "order sample_queue = [''a'', ''b'', ''c'']"
  "jobs sample_queue = [''a'' \<mapsto> sample_job ''a'' Completed Low,
     ''b'' \<mapsto> (sample_job ''b'' Interrupted Normal), ''c'' \<mapsto> sample_job ''c'' Queued High]"
  by (simp_all add: sample_queue_def restore_def empty_queue_def Let_def)
    (simp add: sample_job_def new_job_def)

section \<open>Properties\<close>

text \<open>C35: Whatever calls are made on a restored queue, its order lists exactly the keys of the
  job map, each once, and every job is filed under its own id.\<close>

theorem queue_calls_keep_wf:
  assumes "queue_init h" "tq.later h h'"
  shows "queue_wf (fst h')"
  using tq.later_safe[OF assms(2) tq.init_safe[OF assms(1)]] by (simp add: history_ok_def)

lemma queue_calls_keep_wf_witness:
  "queue_wf (snd (transition 5 ''c'' Running sample_queue))
   \<and> order (snd (transition 5 ''c'' Running sample_queue)) = [''a'', ''b'', ''c'']"
proof -
  have "tq.later (sample_queue, {''a'', ''b'', ''c''})
      (snd (transition 5 ''c'' Running sample_queue), {''a'', ''b'', ''c''})"
    by (rule tq.later_step[OF tq.later_refl step_transition])
  from queue_calls_keep_wf[OF sample_history this] show ?thesis
    by (simp add: transition_def sample_queue_simps is_valid_transition_def)
qed

text \<open>C36: A completed or cancelled job keeps its state and its byte count through every later
  call, until it is removed: no call restarts it.\<close>

theorem ended_jobs_stay_ended:
  assumes "queue_init h" "tq.later h h1" "tq.later h1 h2"
    and "jobs (fst h1) uid = Some job" "job_state job = Completed \<or> job_state job = Cancelled"
  shows "case jobs (fst h2) uid of
       None \<Rightarrow> True
     | Some job' \<Rightarrow> job_state job' = job_state job
                    \<and> job_bytes_transferred job' = job_bytes_transferred job"
proof -
  let ?P = "\<lambda>h. uid \<in> snd h \<and> settled uid (job_state job) (job_bytes_transferred job) (fst h)"
  have ok: "history_ok h1" by (rule tq.later_safe[OF assms(2) tq.init_safe[OF assms(1)]])
  have "?P h1" using ok assms(4) by (auto simp: history_ok_def settled_def)
  then have "?P h2"
    using tq.later_keeps_inside[where P = ?P, OF _ assms(3) ok] queue_step_settled assms(5) by blast
  then show ?thesis by (simp add: settled_def)
qed

lemma ended_jobs_stay_ended_witness:
  "case jobs (snd (transition 5 ''a'' Queued sample_queue)) ''a'' of
     None \<Rightarrow> True | Some job' \<Rightarrow> job_state job' = Completed \<and> job_bytes_transferred job' = 0"
proof -
  have "tq.later (sample_queue, {''a'', ''b'', ''c''})
      (snd (transition 5 ''a'' Queued sample_queue), {''a'', ''b'', ''c''})"
    by (rule tq.later_step[OF tq.later_refl step_transition])
  from ended_jobs_stay_ended[OF sample_history tq.later_refl this,
      of "''a''" "sample_job ''a'' Completed Low"]
  show ?thesis by (auto simp: sample_queue_simps split: option.splits)
qed

text \<open>Two jobs of a queue never share a partial file: after any calls, the partial path of a
  job is its destination followed by its own id, so two jobs of different ids of one length (every
  uuid prints as 36 characters) write to different files.\<close>

theorem partial_files_disjoint:
  assumes "queue_init h" "tq.later h h'"
    and "jobs (fst h') a = Some ja" "jobs (fst h') b = Some jb" "a \<noteq> b" "length a = length b"
  shows "job_partial_path ja \<noteq> job_partial_path jb"
proof -
  have ok: "history_ok h'" by (rule tq.later_safe[OF assms(2) tq.init_safe[OF assms(1)]])
  then have "own_partial ja" "own_partial jb" "job_id ja = a" "job_id jb = b"
    using assms(3,4) by (auto simp: history_ok_def partials_ok_def queue_wf_def)
  then show ?thesis using assms(5,6) by (auto simp: own_partial_def partial_path_for_def)
qed

lemma partial_files_disjoint_witness:
  "job_partial_path (sample_job ''a'' Completed Low) \<noteq> job_partial_path (sample_job ''c'' Queued High)"
  using partial_files_disjoint[OF sample_history tq.later_refl,
      of "''a''" "sample_job ''a'' Completed Low" "''c''" "sample_job ''c'' Queued High"]
  by (simp add: sample_queue_simps)

text \<open>Setting the priority of a known job sorts the order by descending priority and is
  stable: the jobs of each priority stay in the sequence they had. The queue keeps the same ids,
  and the other jobs are untouched.\<close>

theorem set_priority_sorts:
  assumes "jobs q uid = Some job" "set_priority now uid priority q = (r, q')"
  shows "r = Inr () \<and> job_priority_of q' uid = priority
    \<and> sorted_wrt (\<lambda>a b. job_priority_of q' b \<le> job_priority_of q' a) (order q')
    \<and> (\<forall>p. filter (\<lambda>i. job_priority_of q' i = p) (order q')
           = filter (\<lambda>i. job_priority_of q' i = p) (order q))
    \<and> mset (order q') = mset (order q)
    \<and> (\<forall>other. other \<noteq> uid \<longrightarrow> jobs q' other = jobs q other)"
proof (intro conjI allI impI)
  let ?q1 = "q\<lparr>jobs := (jobs q)(uid \<mapsto> job\<lparr>job_priority := priority, job_updated_at := now\<rparr>)\<rparr>"
  have run: "r = Inr ()" "q' = ?q1\<lparr>order := sort_key (priority_key ?q1) (order q)\<rparr>"
    using assms by (simp_all add: set_priority_run Let_def)
  have prio: "job_priority_of q' = job_priority_of ?q1"
    by (simp add: run job_priority_of_def fun_eq_iff)
  have key: "priority_key ?q1 i = Reverse (job_priority_of ?q1 i)" for i
    by (simp add: priority_key_def job_priority_of_def)
  have ord: "order q' = sort_key (priority_key ?q1) (order q)" by (simp add: run)
  show "r = Inr ()" by (rule run)
  show "job_priority_of q' uid = priority" by (simp add: prio) (simp add: job_priority_of_def)
  have "sorted (map (priority_key ?q1) (order q'))" unfolding ord by (rule sorted_sort_key)
  then show "sorted_wrt (\<lambda>a b. job_priority_of q' b \<le> job_priority_of q' a) (order q')"
    unfolding sorted_map key prio Reverse_le .
  show "filter (\<lambda>i. job_priority_of q' i = p) (order q')
      = filter (\<lambda>i. job_priority_of q' i = p) (order q)" for p
    using sort_key_stable[of "priority_key ?q1" "Reverse p" "order q"]
    unfolding ord prio key Reverse.inject .
  show "mset (order q') = mset (order q)" unfolding ord by (rule mset_sort)
  show "jobs q' other = jobs q other" if "other \<noteq> uid" for other
    using that by (simp add: run)
qed

lemma set_priority_sorts_witness:
  "mset (order (snd (set_priority 5 ''b'' High sample_queue))) = {#''a'', ''b'', ''c''#}"
  using set_priority_sorts[of sample_queue "''b''" "sample_job ''b'' Interrupted Normal" 5 High
      "fst (set_priority 5 ''b'' High sample_queue)" "snd (set_priority 5 ''b'' High sample_queue)"]
  by (simp add: sample_queue_simps)

text \<open>Reordering a known job moves only that job: the rest of the order and all jobs stay as
  they were, and the job lands directly before the requested one when that is another queued job,
  else at the end.\<close>

theorem reorder_moves_one:
  assumes "queue_wf q" "jobs q uid = Some job" "reorder uid before q = (r, q')"
  shows "r = Inr () \<and> jobs q' = jobs q
    \<and> filter (\<lambda>i. i \<noteq> uid) (order q') = filter (\<lambda>i. i \<noteq> uid) (order q)
    \<and> mset (order q') = mset (order q)
    \<and> (case before of
         Some t \<Rightarrow> if t \<noteq> uid \<and> t \<in> set (order q) then \<exists>xs ys. order q' = xs @ uid # t # ys
                  else last (order q') = uid
       | None \<Rightarrow> last (order q') = uid)"
proof -
  let ?rest = "filter (\<lambda>i. i \<noteq> uid) (order q)"
  define index where "index = (case Option.bind before (\<lambda>t. find_index (\<lambda>i. i = t) ?rest) of
      Some i \<Rightarrow> i | None \<Rightarrow> length ?rest)"
  have run: "r = Inr ()" "q' = q\<lparr>order := insert_at index uid ?rest\<rparr>"
    using assms(2,3) by (auto simp: reorder_def Let_def index_def)
  have "queue_wf q'" using reorder_wf[OF assms(1), of uid before] assms(3) by simp
  then have "set (order q') = set (order q)" "distinct (order q')"
    using assms(1) by (auto simp: queue_wf_def run(2))
  then have perm: "mset (order q') = mset (order q)"
    using set_eq_iff_mset_eq_distinct[OF _ queue_wfD(1)[OF assms(1)]] by blast
  have "case before of
         Some t \<Rightarrow> if t \<noteq> uid \<and> t \<in> set (order q) then \<exists>xs ys. order q' = xs @ uid # t # ys
                  else last (order q') = uid
       | None \<Rightarrow> last (order q') = uid"
  proof (cases "Option.bind before (\<lambda>t. find_index (\<lambda>i. i = t) ?rest)")
    case None
    then have "last (order q') = uid" by (simp add: run(2) index_def)
    moreover have "t \<notin> set ?rest" if "before = Some t" for t
      using None that by (auto simp: find_index_None)
    ultimately show ?thesis by (cases before) auto
  next
    case (Some i)
    then obtain t where t: "before = Some t" "find_index (\<lambda>i. i = t) ?rest = Some i" by (cases before) auto
    then have "t \<in> set ?rest" by (intro find_index_mem)
    moreover have "order q' = take i ?rest @ uid # t # drop (Suc i) ?rest"
      using Some insert_at_position[OF t(2)] by (simp add: run(2) index_def)
    ultimately show ?thesis using t(1) by auto
  qed
  with perm run show ?thesis by (simp add: filter_insert_at)
qed

lemma reorder_moves_one_witness:
  "filter (\<lambda>i. i \<noteq> ''c'') (order (snd (reorder ''c'' (Some ''b'') sample_queue))) = [''a'', ''b'']"
  using reorder_moves_one[OF sample_queue_wf, of "''c''" "sample_job ''c'' Queued High" "Some ''b''"
      "fst (reorder ''c'' (Some ''b'') sample_queue)" "snd (reorder ''c'' (Some ''b'') sample_queue)"]
  by (simp add: sample_queue_simps)

text \<open>Clearing with a filter returns, in order, the ids of exactly the jobs whose state the
  filter matches, and leaves exactly the others, in their order and unchanged.\<close>

theorem clear_filter_exact:
  assumes "queue_wf q" "clear_filter now flt q = (ids, q')"
  shows "ids = filter (clears flt q) (order q)
    \<and> order q' = filter (\<lambda>i. \<not> clears flt q i) (order q)
    \<and> (\<forall>i. jobs q' i = (if clears flt q i then None else jobs q i))"
  using assms by (auto simp: clear_filter_run restrict_map_def)

lemma clear_filter_exact_witness:
  "fst (clear_filter 5 ActiveJobs sample_queue) = [''b'', ''c'']
   \<and> order (snd (clear_filter 5 ActiveJobs sample_queue)) = [''a'']"
  using clear_filter_exact[OF sample_queue_wf, of 5 ActiveJobs
      "fst (clear_filter 5 ActiveJobs sample_queue)" "snd (clear_filter 5 ActiveJobs sample_queue)"]
  by (simp add: sample_queue_simps clears_def)

text \<open>Restoring the saved jobs lists them all in the saved order, each as saved except that one
  saved as running comes back interrupted; nothing restored is running.\<close>

theorem restore_interrupts_running:
  assumes "distinct (map job_id js)"
  shows "map job_id (list_jobs (restore js)) = map job_id js
    \<and> (\<forall>k < length js. list_jobs (restore js) ! k =
         (if job_state (js ! k) = Running then (js ! k)\<lparr>job_state := Interrupted\<rparr> else js ! k))
    \<and> (\<forall>job \<in> set (list_jobs (restore js)). job_state job \<noteq> Running)"
  by (auto simp: list_jobs_restore[OF assms] restored_job_def)

lemma restore_interrupts_running_witness:
  "map job_id (list_jobs (restore [sample_job ''b'' Running Normal, sample_job ''c'' Queued High]))
     = [''b'', ''c'']"
  using restore_interrupts_running[of "[sample_job ''b'' Running Normal, sample_job ''c'' Queued High]"]
  by simp

end
