(* ===== verification/Scheduler.thy ===== *)
theory Scheduler
  imports Transfer_Queue Complex_Main
begin

text \<open>
  \<^verbatim>\<open>src-tauri/src/scheduler.rs\<close>: the permits that bound how many transfers run at once, globally and
  per endpoint, and the bandwidth limiter.

  \<^verbatim>\<open>acquire\<close> is an asynchronous loop around a critical section. Its critical sections are functions
  on \<open>SchedulerState\<close>; the loop, the \<^verbatim>\<open>Notify\<close> it sleeps on and the permits are a step relation on
  the scheduler together with the tasks that use it. A task is \<open>Ready\<close> when it will evaluate the
  critical section of the loop, \<open>Parked\<close> when it sleeps in \<^verbatim>\<open>notified.await\<close>, and a \<open>Permit\<close> from
  the moment it acquired until it drops the permit. \<^verbatim>\<open>notify_waiters\<close> wakes every \<^verbatim>\<open>Notified\<close> future
  created before the call, so a task that created its future and has not yet slept is \<open>Ready\<close>.

  The token counts of the limiter are \<^verbatim>\<open>f64\<close> in the source; the model computes with exact
  rationals, so rounding is not modelled.
\<close>

section \<open>The state and its critical sections\<close>

record Limits =
  global_limit :: nat
  per_endpoint_limit :: nat

record SchedulerState =
  limits :: Limits
  active_global :: nat
  active_by_endpoint :: "string \<rightharpoonup> nat"
  waiting :: "(uuid \<times> string) list"

definition new_scheduler :: "u8 \<Rightarrow> u8 \<Rightarrow> SchedulerState" where
  "new_scheduler global per_endpoint =
     \<lparr>limits = \<lparr>global_limit = unat (max global 1), per_endpoint_limit = unat (max per_endpoint 1)\<rparr>,
      active_global = 0, active_by_endpoint = Map.empty, waiting = []\<rparr>"

definition update_limits :: "u8 \<Rightarrow> u8 \<Rightarrow> SchedulerState \<Rightarrow> SchedulerState" where
  "update_limits global per_endpoint st =
     st\<lparr>limits := \<lparr>global_limit = unat (max global 1),
                   per_endpoint_limit = unat (max per_endpoint 1)\<rparr>\<rparr>"

text \<open>The hash map collected from \<^verbatim>\<open>(id, index)\<close> pairs: a later pair of an id replaces an earlier.\<close>

definition order_rank :: "uuid list \<Rightarrow> uuid \<Rightarrow> nat" where
  "order_rank ordered_ids uid =
     (case map_of (rev (zip ordered_ids [0..<length ordered_ids])) uid of
        Some i \<Rightarrow> i | None \<Rightarrow> u64_max)"

definition set_waiting_order :: "uuid list \<Rightarrow> SchedulerState \<Rightarrow> SchedulerState" where
  "set_waiting_order ordered_ids st =
     st\<lparr>waiting := sort_key (\<lambda>(uid, _). order_rank ordered_ids uid) (waiting st)\<rparr>"

definition push_waiting :: "uuid \<Rightarrow> string \<Rightarrow> SchedulerState \<Rightarrow> SchedulerState" where
  "push_waiting transfer_id endpoint st =
     (if list_ex (\<lambda>(uid, _). uid = transfer_id) (waiting st) then st
      else st\<lparr>waiting := waiting st @ [(transfer_id, endpoint)]\<rparr>)"

definition active_at :: "SchedulerState \<Rightarrow> string \<Rightarrow> nat" where
  "active_at st endpoint = (case active_by_endpoint st endpoint of Some n \<Rightarrow> n | None \<Rightarrow> 0)"

definition runnable :: "SchedulerState \<Rightarrow> string \<Rightarrow> bool" where
  "runnable st endpoint = (active_global st < global_limit (limits st)
     \<and> active_at st endpoint < per_endpoint_limit (limits st))"

definition first_runnable :: "SchedulerState \<Rightarrow> nat option" where
  "first_runnable st = find_index (\<lambda>(_, endpoint). runnable st endpoint) (waiting st)"

definition try_acquire :: "uuid \<Rightarrow> string \<Rightarrow> SchedulerState \<Rightarrow> bool \<times> SchedulerState" where
  "try_acquire transfer_id endpoint st =
     (case first_runnable st of
        Some index \<Rightarrow>
          if fst (waiting st ! index) = transfer_id then
            (True, st\<lparr>waiting := remove_at index (waiting st), active_global := active_global st + 1,
                      active_by_endpoint := (active_by_endpoint st)(endpoint \<mapsto> active_at st endpoint + 1)\<rparr>)
          else (False, st)
      | None \<Rightarrow> (False, st))"

definition release :: "string \<Rightarrow> SchedulerState \<Rightarrow> SchedulerState" where
  "release endpoint st =
     (let st' = st\<lparr>active_global := saturating_sub (active_global st) 1\<rparr>
      in case active_by_endpoint st' endpoint of
           None \<Rightarrow> st'
         | Some active \<Rightarrow>
             if saturating_sub active 1 = 0
             then st'\<lparr>active_by_endpoint := (active_by_endpoint st')(endpoint := None)\<rparr>
             else st'\<lparr>active_by_endpoint := (active_by_endpoint st')(endpoint \<mapsto> saturating_sub active 1)\<rparr>)"

section \<open>Tasks\<close>

datatype task = Ready uuid string | Parked uuid string | Permit string

fun wake_task :: "task \<Rightarrow> task" where
  "wake_task (Parked uid endpoint) = Ready uid endpoint"
| "wake_task t = t"

definition notify_waiters :: "task list \<Rightarrow> task list" where
  "notify_waiters ts = map wake_task ts"

fun acquiring :: "task \<Rightarrow> (uuid \<times> string) option" where
  "acquiring (Ready uid endpoint) = Some (uid, endpoint)"
| "acquiring (Parked uid endpoint) = Some (uid, endpoint)"
| "acquiring (Permit endpoint) = None"

text \<open>The endpoint of a transfer does not change while it waits (it comes from the job).\<close>

definition same_endpoint :: "uuid \<Rightarrow> string \<Rightarrow> task list \<Rightarrow> bool" where
  "same_endpoint uid endpoint ts = list_all (\<lambda>t. case acquiring t of
      Some (u, e) \<Rightarrow> u = uid \<longrightarrow> e = endpoint | None \<Rightarrow> True) ts"

inductive sched_step :: "SchedulerState \<times> task list \<Rightarrow> SchedulerState \<times> task list \<Rightarrow> bool" where
  sched_enter: "same_endpoint uid endpoint ts \<Longrightarrow>
     sched_step (st, ts) (push_waiting uid endpoint st, ts @ [Ready uid endpoint])"
| sched_grant: "try_acquire uid endpoint st = (True, st') \<Longrightarrow>
     sched_step (st, xs @ Ready uid endpoint # ys) (st', xs @ Permit endpoint # ys)"
| sched_park: "try_acquire uid endpoint st = (False, st') \<Longrightarrow>
     sched_step (st, xs @ Ready uid endpoint # ys) (st', xs @ Parked uid endpoint # ys)"
| sched_drop: "sched_step (st, xs @ Permit endpoint # ys)
     (release endpoint st, notify_waiters (xs @ ys))"
| sched_limits: "sched_step (st, ts) (update_limits global per_endpoint st, notify_waiters ts)"
| sched_order: "sched_step (st, ts) (set_waiting_order ordered_ids st, notify_waiters ts)"

inductive sched_init :: "SchedulerState \<times> task list \<Rightarrow> bool" where
  "sched_init (new_scheduler global per_endpoint, [])"

inductive_simps sched_init_iff: "sched_init w"
inductive_cases sched_stepE: "sched_step w w'"

definition held :: "string \<Rightarrow> task list \<Rightarrow> nat" where
  "held endpoint ts = length (filter (\<lambda>t. t = Permit endpoint) ts)"

definition held_all :: "task list \<Rightarrow> nat" where
  "held_all ts = length (filter (\<lambda>t. acquiring t = None) ts)"

text \<open>The parts of the invariant: the limits are positive, the counters count the permits that are
  out, every waiting entry belongs to a task that is acquiring, a transfer has one endpoint, and
  while no permit is out the task at the head of the queue is awake.\<close>

definition limits_ok :: "SchedulerState \<Rightarrow> bool" where
  "limits_ok st \<longleftrightarrow> 0 < global_limit (limits st) \<and> 0 < per_endpoint_limit (limits st)"

definition counts_ok :: "SchedulerState \<Rightarrow> task list \<Rightarrow> bool" where
  "counts_ok st ts \<longleftrightarrow> active_global st = held_all ts
     \<and> (\<forall>e. active_by_endpoint st e = (if held e ts = 0 then None else Some (held e ts)))"

definition waiters_ok :: "(uuid \<times> string) list \<Rightarrow> task list \<Rightarrow> bool" where
  "waiters_ok ws ts \<longleftrightarrow> distinct (map fst ws) \<and> Some ` set ws \<subseteq> acquiring ` set ts"

definition endpoints_ok :: "task list \<Rightarrow> bool" where
  "endpoints_ok ts \<longleftrightarrow> (\<forall>u e e'. Some (u, e) \<in> acquiring ` set ts \<longrightarrow>
     Some (u, e') \<in> acquiring ` set ts \<longrightarrow> e = e')"

definition awake_ok :: "(uuid \<times> string) list \<Rightarrow> task list \<Rightarrow> bool" where
  "awake_ok ws ts \<longleftrightarrow> held_all ts = 0 \<longrightarrow> ws \<noteq> [] \<longrightarrow> Ready (fst (hd ws)) (snd (hd ws)) \<in> set ts"

definition sched_inv :: "SchedulerState \<times> task list \<Rightarrow> bool" where
  "sched_inv w \<longleftrightarrow> (case w of (st, ts) \<Rightarrow> limits_ok st \<and> counts_ok st ts
     \<and> waiters_ok (waiting st) ts \<and> endpoints_ok ts \<and> awake_ok (waiting st) ts)"

section \<open>The bandwidth limiter\<close>

record BandwidthBucket =
  tokens :: rat
  updated :: rat
  bucket_limit :: nat

type_synonym buckets = "string \<rightharpoonup> BandwidthBucket"

text \<open>Refill for the time since the last visit, never above the limit.
  \<^verbatim>\<open>Instant::duration_since\<close> is zero for an earlier instant.\<close>

definition refill :: "rat \<Rightarrow> nat \<Rightarrow> BandwidthBucket \<Rightarrow> BandwidthBucket" where
  "refill now limit b =
     b\<lparr>tokens := min (tokens b + max 0 (now - updated b) * of_nat limit) (of_nat limit), updated := now\<rparr>"

text \<open>The closure of \<^verbatim>\<open>filter_map\<close> in \<^verbatim>\<open>acquire\<close>: reserve the bytes in one bucket.\<close>

definition reserve ::
  "rat \<Rightarrow> nat \<Rightarrow> string \<times> nat option \<Rightarrow> buckets \<Rightarrow> (rat \<times> string \<times> nat) option \<times> buckets" where
  "reserve now bytes kl bs = (case kl of (key, limit) \<Rightarrow>
     (case limit of
        None \<Rightarrow> (None, bs)
      | Some limit \<Rightarrow>
          if limit = 0 then (None, bs)
          else let b = (case bs key of Some b \<Rightarrow> b
                        | None \<Rightarrow> \<lparr>tokens = of_nat limit, updated = now, bucket_limit = limit\<rparr>);
                   b = (if bucket_limit b \<noteq> limit
                        then b\<lparr>bucket_limit := limit, tokens := min (tokens b) (of_nat limit)\<rparr> else b);
                   b = refill now limit b;
                   b = b\<lparr>tokens := tokens b - of_nat bytes\<rparr>;
                   wait = (if tokens b < 0 then - tokens b / of_nat limit else 0)
               in (Some (wait, key, limit), bs(key \<mapsto> b))))"

definition global_key :: "string \<Rightarrow> string" where
  "global_key direction = ''global:'' @ direction"

definition profile_key :: "uuid \<Rightarrow> string \<Rightarrow> string" where
  "profile_key profile_id direction = ''profile:'' @ profile_id @ '':'' @ direction"

text \<open>\<^verbatim>\<open>BandwidthLimiter::acquire\<close> up to its sleep: the time it sleeps, and what it reserved. The
  two clock readings are arguments.\<close>

definition limiter_acquire ::
  "rat \<Rightarrow> rat \<Rightarrow> string \<Rightarrow> uuid \<Rightarrow> nat \<Rightarrow> nat option \<Rightarrow> nat option \<Rightarrow> buckets
     \<Rightarrow> (rat \<times> (string \<times> nat) list) \<times> buckets" where
  "limiter_acquire now now' direction profile_id bytes global_lim profile_lim bs =
     (case reserve now bytes (global_key direction, global_lim) bs of (r1, bs1) \<Rightarrow>
      case reserve now' bytes (profile_key profile_id direction, profile_lim) bs1 of (r2, bs2) \<Rightarrow>
        let rs = List.map_filter (\<lambda>r. r) [r1, r2]
        in ((fold max (map fst rs) 0, map snd rs), bs2))"

text \<open>The drop of a reservation: unless it was committed, its bytes go back into the buckets.\<close>

definition refund_one :: "rat \<Rightarrow> nat \<Rightarrow> string \<times> nat \<Rightarrow> buckets \<Rightarrow> buckets" where
  "refund_one now bytes r bs = (case r of (key, limit) \<Rightarrow>
     (case bs key of
        None \<Rightarrow> bs
      | Some b \<Rightarrow> let b = refill now limit b
                  in bs(key \<mapsto> b\<lparr>tokens := min (tokens b + of_nat bytes) (of_nat limit)\<rparr>)))"

definition drop_reservation ::
  "rat \<Rightarrow> (string \<times> nat) list \<Rightarrow> nat \<Rightarrow> bool \<Rightarrow> buckets \<Rightarrow> buckets" where
  "drop_reservation now reserved bytes committed bs =
     (if committed \<or> reserved = [] then bs else fold (refund_one now bytes) reserved bs)"

text \<open>A run of acquisitions in one direction under one global limit: each request has its clock
  readings, profile, size and profile limit, and is granted when its sleep is over.\<close>

record Request =
  req_at :: rat
  req_at' :: rat
  req_profile :: uuid
  req_bytes :: nat
  req_profile_limit :: "nat option"

fun serve :: "string \<Rightarrow> nat \<Rightarrow> Request list \<Rightarrow> buckets \<Rightarrow> (rat \<times> nat) list" where
  "serve direction limit [] bs = []"
| "serve direction limit (r # rs) bs =
     (case limiter_acquire (req_at r) (req_at' r) direction (req_profile r) (req_bytes r)
             (Some limit) (req_profile_limit r) bs of
        ((wait, _), bs') \<Rightarrow> (req_at r + wait, req_bytes r) # serve direction limit rs bs')"

section \<open>Lemmas\<close>

lemma held_simps [simp]:
  "held e [] = 0" "held e (xs @ ys) = held e xs + held e ys"
  "held e (t # ts) = (if t = Permit e then Suc (held e ts) else held e ts)"
  by (simp_all add: held_def)

lemma held_all_simps [simp]:
  "held_all [] = 0" "held_all (xs @ ys) = held_all xs + held_all ys"
  "held_all (t # ts) = (if acquiring t = None then Suc (held_all ts) else held_all ts)"
  by (simp_all add: held_all_def)

lemma acquiring_wake [simp]: "acquiring (wake_task t) = acquiring t"
  by (cases t) auto

lemma wake_permit [simp]: "wake_task t = Permit e \<longleftrightarrow> t = Permit e"
  by (cases t) auto

lemma notify_held [simp]: "held e (notify_waiters ts) = held e ts"
  by (simp add: held_def notify_waiters_def filter_map comp_def)

lemma notify_held_all [simp]: "held_all (notify_waiters ts) = held_all ts"
  by (simp add: held_all_def notify_waiters_def filter_map comp_def)

lemma notify_acquiring [simp]: "acquiring ` set (notify_waiters ts) = acquiring ` set ts"
  by (simp add: notify_waiters_def image_image)

lemma notify_ready: "t \<in> set ts \<Longrightarrow> acquiring t = Some (u, e) \<Longrightarrow> Ready u e \<in> set (notify_waiters ts)"
  by (cases t) (force simp: notify_waiters_def image_iff)+

lemma held_le_all: "held e ts \<le> held_all ts"
  by (induction ts) auto

lemma active_at_held:
  "sched_inv (st, ts) \<Longrightarrow> active_at st e = held e ts"
  by (simp add: sched_inv_def counts_ok_def active_at_def)

lemma max_one_pos: "0 < unat (max n (1 :: u8))"
proof -
  have "(1 :: u8) \<le> max n 1" by simp
  then have "unat (1 :: u8) \<le> unat (max n 1)" unfolding word_le_nat_alt .
  then show ?thesis by simp
qed

lemma try_acquire_True:
  assumes "try_acquire uid endpoint st = (True, st')"
  obtains index e where "find_index (\<lambda>(_, endpoint). runnable st endpoint) (waiting st) = Some index"
    "index < length (waiting st)" "waiting st ! index = (uid, e)" "runnable st e"
    "\<forall>j < index. \<not> runnable st (snd (waiting st ! j))"
    "st' = st\<lparr>waiting := remove_at index (waiting st), active_global := active_global st + 1,
              active_by_endpoint := (active_by_endpoint st)(endpoint \<mapsto> active_at st endpoint + 1)\<rparr>"
proof -
  obtain index where index: "first_runnable st = Some index"
    using assms by (auto simp: try_acquire_def split: option.splits)
  then have "index < length (waiting st) \<and> runnable st (snd (waiting st ! index))
      \<and> (\<forall>j < index. \<not> runnable st (snd (waiting st ! j)))"
    using find_index_Some unfolding first_runnable_def by (fastforce simp: case_prod_beta)
  moreover have "fst (waiting st ! index) = uid"
    "st' = st\<lparr>waiting := remove_at index (waiting st), active_global := active_global st + 1,
              active_by_endpoint := (active_by_endpoint st)(endpoint \<mapsto> active_at st endpoint + 1)\<rparr>"
    using assms index by (auto simp: try_acquire_def split: if_splits)
  ultimately show thesis
    using that[of index "snd (waiting st ! index)"] index by (simp add: first_runnable_def prod_eq_iff)
qed

lemma try_acquire_TrueD:
  assumes "try_acquire uid endpoint st = (True, st')"
  shows "\<exists>index e. index < length (waiting st) \<and> waiting st ! index = (uid, e) \<and> runnable st e
    \<and> (\<forall>w \<in> set (take index (waiting st)). \<not> runnable st (snd w))
    \<and> waiting st' = remove_at index (waiting st) \<and> limits st' = limits st"
proof (rule try_acquire_True[OF assms])
  fix index e
  assume ix: "index < length (waiting st)" "waiting st ! index = (uid, e)" "runnable st e"
    and before: "\<forall>j < index. \<not> runnable st (snd (waiting st ! j))"
    and st': "st' = st\<lparr>waiting := remove_at index (waiting st), active_global := active_global st + 1,
      active_by_endpoint := (active_by_endpoint st)(endpoint \<mapsto> active_at st endpoint + 1)\<rparr>"
  have "\<not> runnable st (snd w)" if w: "w \<in> set (take index (waiting st))" for w
  proof -
    obtain j where "j < index" "w = waiting st ! j"
      using w by (auto simp: in_set_conv_nth)
    then show ?thesis using before by blast
  qed
  with ix st' show ?thesis by (intro exI[of _ index] exI[of _ e]) simp
qed

lemma try_acquire_False: "try_acquire uid endpoint st = (False, st') \<Longrightarrow> st' = st"
  by (auto simp: try_acquire_def split: option.splits if_splits)

lemma remove_at_props:
  assumes "i < length xs" "distinct (map f xs)"
  shows "distinct (map f (remove_at i xs))"
    and "x \<in> set (remove_at i xs) \<longleftrightarrow> x \<in> set xs \<and> f x \<noteq> f (xs ! i)"
proof -
  obtain a y b where split: "xs = a @ y # b" "length a = i"
    using id_take_nth_drop[OF assms(1)] assms(1) by (metis length_take min.absorb4)
  then have "xs ! i = y" "remove_at i xs = a @ b" by (auto simp: remove_at_def)
  with assms(2) show "distinct (map f (remove_at i xs))"
    and "x \<in> set (remove_at i xs) \<longleftrightarrow> x \<in> set xs \<and> f x \<noteq> f (xs ! i)"
    unfolding split(1) by (auto 4 3 simp: image_iff)
qed

text \<open>With no permit out, the head of the queue is runnable.\<close>

lemma idle_head_runnable:
  assumes "sched_inv (st, ts)" "held_all ts = 0"
  shows "runnable st e"
  using assms held_le_all[of e ts] by (auto simp: sched_inv_def counts_ok_def limits_ok_def runnable_def active_at_def)

lemma idle_first:
  assumes "sched_inv (st, ts)" "held_all ts = 0" "waiting st = (u, e) # rest"
  shows "first_runnable st = Some 0"
  using assms idle_head_runnable[OF assms(1,2)] by (simp add: first_runnable_def)

section \<open>The invariant\<close>

lemma awake_notify: "waiters_ok ws ts \<Longrightarrow> awake_ok ws (notify_waiters ts)"
  by (cases ws) (auto simp: awake_ok_def waiters_ok_def intro!: notify_ready)

lemma notify_ok [simp]:
  "counts_ok st (notify_waiters ts) = counts_ok st ts"
  "waiters_ok ws (notify_waiters ts) = waiters_ok ws ts"
  "endpoints_ok (notify_waiters ts) = endpoints_ok ts"
  by (simp_all add: counts_ok_def waiters_ok_def endpoints_ok_def)

lemma push_waiting_eq:
  "push_waiting uid endpoint st =
     (if uid \<in> fst ` set (waiting st) then st else st\<lparr>waiting := waiting st @ [(uid, endpoint)]\<rparr>)"
proof -
  have "list_ex (\<lambda>(u, _). u = uid) ws \<longleftrightarrow> uid \<in> fst ` set ws" for ws :: "(uuid \<times> string) list"
    by (induction ws) auto
  then show ?thesis by (simp add: push_waiting_def)
qed

lemma enter_ok:
  assumes "sched_inv (st, ts)" "same_endpoint uid endpoint ts"
  shows "sched_inv (push_waiting uid endpoint st, ts @ [Ready uid endpoint])"
proof -
  have parts: "limits_ok st" "counts_ok st ts" "waiters_ok (waiting st) ts" "endpoints_ok ts"
    "awake_ok (waiting st) ts"
    using assms(1) by (simp_all add: sched_inv_def)
  have eps: "endpoints_ok (ts @ [Ready uid endpoint])"
    using parts(4) assms(2)
    by (auto simp: endpoints_ok_def same_endpoint_def list_all_iff image_iff split: option.splits) metis+
  show ?thesis
  proof (cases "uid \<in> fst ` set (waiting st)")
    case True
    then show ?thesis
      using parts eps
      by (auto simp: push_waiting_eq sched_inv_def counts_ok_def waiters_ok_def awake_ok_def)
  next
    case False
    have "awake_ok (waiting st @ [(uid, endpoint)]) (ts @ [Ready uid endpoint])"
      using parts(5) by (cases "waiting st") (auto simp: awake_ok_def)
    then show ?thesis
      using parts eps False
      by (auto simp: push_waiting_eq sched_inv_def counts_ok_def waiters_ok_def limits_ok_def)
  qed
qed

lemma park_ok:
  assumes "sched_inv (st, xs @ Ready uid endpoint # ys)" "try_acquire uid endpoint st = (False, st')"
  shows "sched_inv (st', xs @ Parked uid endpoint # ys)"
proof -
  let ?ts = "xs @ Ready uid endpoint # ys" and ?ts' = "xs @ Parked uid endpoint # ys"
  have acq: "acquiring ` set ?ts' = acquiring ` set ?ts" by simp
  have "awake_ok (waiting st) ?ts'"
  proof (cases "waiting st")
    case (Cons w rest)
    show ?thesis
    proof (cases "held_all ?ts = 0")
      case True
      then have "first_runnable st = Some 0"
        using idle_first[OF assms(1) True, of "fst w" "snd w" rest] Cons by simp
      then have "fst w \<noteq> uid" using assms(2) Cons by (auto simp: try_acquire_def)
      then show ?thesis using assms(1) Cons True by (auto simp: sched_inv_def awake_ok_def)
    qed (auto simp: awake_ok_def)
  qed (simp add: awake_ok_def)
  then show ?thesis
    using assms(1) acq unfolding try_acquire_False[OF assms(2)]
    by (simp add: sched_inv_def counts_ok_def waiters_ok_def endpoints_ok_def)
qed

lemma grant_ok:
  assumes "sched_inv (st, xs @ Ready uid endpoint # ys)" "try_acquire uid endpoint st = (True, st')"
  shows "sched_inv (st', xs @ Permit endpoint # ys)"
proof -
  let ?ts = "xs @ Ready uid endpoint # ys" and ?ts' = "xs @ Permit endpoint # ys"
  obtain index e where ix: "index < length (waiting st)" "waiting st ! index = (uid, e)"
    and st': "st' = st\<lparr>waiting := remove_at index (waiting st), active_global := active_global st + 1,
              active_by_endpoint := (active_by_endpoint st)(endpoint \<mapsto> active_at st endpoint + 1)\<rparr>"
    using try_acquire_True[OF assms(2)] by metis
  have parts: "limits_ok st" "counts_ok st ?ts" "waiters_ok (waiting st) ?ts" "endpoints_ok ?ts"
    using assms(1) by (simp_all add: sched_inv_def)
  have dist: "distinct (map fst (waiting st))" using parts(3) by (simp add: waiters_ok_def)
  have rest: "w \<in> set (remove_at index (waiting st)) \<longleftrightarrow> w \<in> set (waiting st) \<and> fst w \<noteq> uid" for w
    using remove_at_props(2)[OF ix(1) dist] ix(2) by simp
  have "counts_ok st' ?ts'"
    using parts(2) by (auto simp: st' counts_ok_def active_at_def)
  moreover have "Some w \<in> acquiring ` set ?ts'" if "w \<in> set (remove_at index (waiting st))" for w
  proof -
    have "Some w \<in> acquiring ` set ?ts" using that parts(3) rest by (auto simp: waiters_ok_def)
    then show ?thesis using that rest by (cases w) auto
  qed
  then have "waiters_ok (waiting st') ?ts'"
    using remove_at_props(1)[OF ix(1) dist] by (auto simp: st' waiters_ok_def)
  moreover have "endpoints_ok ?ts'"
    using parts(4) by (simp add: endpoints_ok_def)
  ultimately show ?thesis
    using parts(1) by (simp add: sched_inv_def st' limits_ok_def awake_ok_def)
qed

lemma drop_ok:
  assumes "sched_inv (st, xs @ Permit endpoint # ys)"
  shows "sched_inv (release endpoint st, notify_waiters (xs @ ys))"
proof -
  let ?ts = "xs @ Permit endpoint # ys"
  have parts: "limits_ok st" "counts_ok st ?ts" "waiters_ok (waiting st) ?ts" "endpoints_ok ?ts"
    using assms by (simp_all add: sched_inv_def)
  have same: "waiting (release endpoint st) = waiting st" "limits (release endpoint st) = limits st"
    by (simp_all add: release_def Let_def split: option.splits)
  have "counts_ok (release endpoint st) (xs @ ys)"
    using parts(2)
    by (auto simp: counts_ok_def release_def saturating_sub_def Let_def split: option.splits if_splits)
  moreover have w: "waiters_ok (waiting st) (xs @ ys)" using parts(3) by (auto simp: waiters_ok_def)
  moreover have "endpoints_ok (xs @ ys)" using parts(4) by (simp add: endpoints_ok_def)
  ultimately show ?thesis
    using parts(1) awake_notify[OF w] by (simp add: sched_inv_def same limits_ok_def)
qed

lemma limits_change_ok:
  assumes "sched_inv (st, ts)"
  shows "sched_inv (update_limits global per_endpoint st, notify_waiters ts)"
  using assms awake_notify[of "waiting st" ts]
  by (simp add: sched_inv_def update_limits_def limits_ok_def counts_ok_def max_one_pos)

lemma order_change_ok:
  assumes "sched_inv (st, ts)"
  shows "sched_inv (set_waiting_order ordered_ids st, notify_waiters ts)"
proof -
  have "waiters_ok (waiting (set_waiting_order ordered_ids st)) ts"
    using assms by (simp add: sched_inv_def set_waiting_order_def waiters_ok_def distinct_map)
  then show ?thesis
    using assms awake_notify
    by (simp add: sched_inv_def limits_ok_def counts_ok_def) (simp add: set_waiting_order_def)
qed

lemma sched_step_ok: "sched_step w w' \<Longrightarrow> sched_inv w \<Longrightarrow> sched_inv w'"
  by (induction rule: sched_step.induct)
    (auto intro: enter_ok grant_ok park_ok drop_ok limits_change_ok order_change_ok)

lemma sched_init_ok: "sched_init w \<Longrightarrow> sched_inv w"
  by (auto simp: sched_init_iff sched_inv_def new_scheduler_def limits_ok_def counts_ok_def
      waiters_ok_def endpoints_ok_def awake_ok_def max_one_pos)

interpretation ts: safe_system sched_init sched_step sched_inv
  by unfold_locales (auto intro: sched_init_ok sched_step_ok)

section \<open>Properties\<close>


lemma first_steps:
  "ts.reachable (push_waiting ''a'' ''h'' (new_scheduler 1 1), [Ready ''a'' ''h''])"
proof -
  have "sched_step (new_scheduler 1 1, []) (push_waiting ''a'' ''h'' (new_scheduler 1 1), [] @ [Ready ''a'' ''h''])"
    by (rule sched_enter) (simp add: same_endpoint_def)
  then show ?thesis
    using ts.reach_step[OF ts.reach_init[OF sched_init.intros]] by simp
qed

lemma grant_a:
  "try_acquire ''a'' ''h'' (push_waiting ''a'' ''h'' (new_scheduler 1 1)) = (True,
     \<lparr>limits = \<lparr>global_limit = 1, per_endpoint_limit = 1\<rparr>, active_global = 1,
      active_by_endpoint = [''h'' \<mapsto> 1], waiting = []\<rparr>)"
  by (simp add: try_acquire_def push_waiting_def new_scheduler_def first_runnable_def runnable_def
      active_at_def remove_at_def)


text \<open>C38: The scheduler cannot deadlock: while a transfer waits, either a permit is out (its drop
  wakes every waiter), or a transfer that is awake will be granted a permit when it looks.\<close>

theorem scheduler_never_stuck:
  assumes "ts.reachable (st, tasks)" "waiting st \<noteq> []"
  shows "(\<exists>e. Permit e \<in> set tasks)
    \<or> (\<exists>uid e. Ready uid e \<in> set tasks \<and> fst (try_acquire uid e st))"
proof (cases "held_all tasks = 0")
  case True
  have inv: "sched_inv (st, tasks)" by (rule ts.reachable_safe[OF assms(1)])
  obtain u e rest where ws: "waiting st = (u, e) # rest" using assms(2) by (cases "waiting st") auto
  have "Ready u e \<in> set tasks" using inv True ws by (simp add: sched_inv_def awake_ok_def)
  moreover have "fst (try_acquire u e st)"
    using idle_first[OF inv True ws] ws by (simp add: try_acquire_def)
  ultimately show ?thesis by blast
next
  case False
  then have "\<exists>t \<in> set tasks. acquiring t = None"
    unfolding held_all_def length_0_conv filter_empty_conv by metis
  moreover have "\<exists>e. t = Permit e" if "acquiring t = None" for t
    using that by (cases t) auto
  ultimately show ?thesis by blast
qed

lemma scheduler_never_stuck_witness:
  "\<exists>uid e. Ready uid e \<in> set [Ready ''a'' ''h'']
     \<and> fst (try_acquire uid e (push_waiting ''a'' ''h'' (new_scheduler 1 1)))"
  using scheduler_never_stuck[OF first_steps] by (simp add: push_waiting_def new_scheduler_def)

text \<open>A permit goes to the first transfer of the waiting order whose endpoint has room: every
  transfer before it was blocked by a limit, and the others keep their order.\<close>

theorem grants_in_waiting_order:
  assumes "try_acquire uid endpoint st = (True, st')"
  shows "\<exists>before e after. waiting st = before @ (uid, e) # after \<and> waiting st' = before @ after
    \<and> runnable st e \<and> (\<forall>(u, e') \<in> set before. \<not> runnable st e')"
proof -
  obtain index e where ix: "index < length (waiting st)" "waiting st ! index = (uid, e)"
    "runnable st e" "\<forall>w \<in> set (take index (waiting st)). \<not> runnable st (snd w)"
    "waiting st' = remove_at index (waiting st)"
    using try_acquire_TrueD[OF assms] by blast
  have "waiting st = take index (waiting st) @ (uid, e) # drop (Suc index) (waiting st)"
    using id_take_nth_drop[OF ix(1)] ix(2) by simp
  with ix(3-5) show ?thesis unfolding remove_at_def case_prod_beta by blast
qed

lemma grants_in_waiting_order_witness:
  "\<exists>before e after. waiting (push_waiting ''a'' ''h'' (new_scheduler 1 1)) = before @ (''a'', e) # after"
  using grants_in_waiting_order[OF grant_a] by blast

text \<open>Applying an order of the queue to the scheduler keeps the waiting transfers, sorts them by
  their place in that order and leaves those it does not name behind the named ones, in the sequence
  they had.\<close>

theorem set_waiting_order_sorts:
  assumes "distinct ordered_ids" "length ordered_ids < u64_max"
  shows "mset (waiting (set_waiting_order ordered_ids st)) = mset (waiting st)
    \<and> sorted_wrt (\<lambda>a b. \<forall>i j. i < length ordered_ids \<longrightarrow> ordered_ids ! i = fst a \<longrightarrow>
         j < length ordered_ids \<longrightarrow> ordered_ids ! j = fst b \<longrightarrow> i \<le> j)
         (waiting (set_waiting_order ordered_ids st))
    \<and> sorted_wrt (\<lambda>a b. fst b \<in> set ordered_ids \<longrightarrow> fst a \<in> set ordered_ids)
         (waiting (set_waiting_order ordered_ids st))
    \<and> filter (\<lambda>w. fst w \<notin> set ordered_ids) (waiting (set_waiting_order ordered_ids st))
        = filter (\<lambda>w. fst w \<notin> set ordered_ids) (waiting st)"
proof -
  let ?k = "\<lambda>(uid, _ :: string). order_rank ordered_ids uid"
  let ?ws = "sort_key ?k (waiting st)"
  have known: "order_rank ordered_ids (ordered_ids ! i) = i" if "i < length ordered_ids" for i
  proof -
    have "map_of (rev (zip ordered_ids [0..<length ordered_ids])) (ordered_ids ! i) = Some i"
    proof (rule map_of_is_SomeI)
      show "distinct (map fst (rev (zip ordered_ids [0..<length ordered_ids])))"
        using assms(1) by (simp add: rev_map[symmetric])
      show "(ordered_ids ! i, i) \<in> set (rev (zip ordered_ids [0..<length ordered_ids]))"
        using that by (auto simp: set_zip intro!: exI[of _ i])
    qed
    then show ?thesis by (simp add: order_rank_def)
  qed
  have unknown: "order_rank ordered_ids u = u64_max" if "u \<notin> set ordered_ids" for u
    using that by (auto simp: order_rank_def map_of_eq_None_iff split: option.splits
        dest!: map_of_SomeD set_zip_leftD)
  have small: "order_rank ordered_ids u < u64_max \<longleftrightarrow> u \<in> set ordered_ids" for u
    using known unknown assms(2) by (metis in_set_conv_nth less_trans nat_neq_iff)
  have srt: "sorted_wrt (\<lambda>a b. ?k a \<le> ?k b) ?ws"
    using sorted_sort_key[of ?k "waiting st"] by (simp add: sorted_map)
  have "sorted_wrt (\<lambda>a b. \<forall>i j. i < length ordered_ids \<longrightarrow> ordered_ids ! i = fst a \<longrightarrow>
         j < length ordered_ids \<longrightarrow> ordered_ids ! j = fst b \<longrightarrow> i \<le> j) ?ws"
    by (rule sorted_wrt_mono_rel[OF _ srt]) (use known in fastforce)
  moreover have "sorted_wrt (\<lambda>a b. fst b \<in> set ordered_ids \<longrightarrow> fst a \<in> set ordered_ids) ?ws"
    by (rule sorted_wrt_mono_rel[OF _ srt]) (auto simp: case_prod_beta small[symmetric])
  moreover have "filter (\<lambda>w. fst w \<notin> set ordered_ids) ?ws = filter (\<lambda>w. fst w \<notin> set ordered_ids) (waiting st)"
    using sort_key_stable[of ?k u64_max "waiting st"] small unknown
    by (simp add: case_prod_beta) (metis (mono_tags, lifting) filter_cong nat_neq_iff)
  ultimately show ?thesis by (simp add: set_waiting_order_def)
qed

lemma set_waiting_order_sorts_witness:
  "mset (waiting (set_waiting_order [''b'', ''a'']
      ((new_scheduler 1 1)\<lparr>waiting := [(''c'', ''h''), (''a'', ''h''), (''b'', ''h'')]\<rparr>)))
   = {#(''a'', ''h''), (''b'', ''h''), (''c'', ''h'')#}
   \<and> filter (\<lambda>w. fst w \<notin> set [''b'', ''a'']) (waiting (set_waiting_order [''b'', ''a'']
      ((new_scheduler 1 1)\<lparr>waiting := [(''c'', ''h''), (''a'', ''h''), (''b'', ''h'')]\<rparr>)))
   = [(''c'', ''h'')]"
  using set_waiting_order_sorts[of "[''b'', ''a'']"
      "(new_scheduler 1 1)\<lparr>waiting := [(''c'', ''h''), (''a'', ''h''), (''b'', ''h'')]\<rparr>"]
  by (simp add: u64_max_def)

definition demo_state :: "nat \<Rightarrow> nat \<Rightarrow> (string \<rightharpoonup> nat) \<Rightarrow> (uuid \<times> string) list \<Rightarrow> SchedulerState" where
  "demo_state g n m ws = \<lparr>limits = \<lparr>global_limit = g, per_endpoint_limit = 1\<rparr>, active_global = n,
     active_by_endpoint = m, waiting = ws\<rparr>"

lemmas demo_defs = demo_state_def try_acquire_def first_runnable_def runnable_def active_at_def
  remove_at_def push_waiting_def

lemma reach_by: "ts.reachable w \<Longrightarrow> sched_step w w1 \<Longrightarrow> w1 = w' \<Longrightarrow> ts.reachable w'"
  by (auto intro: ts.reach_step)

lemma demo_reachable:
  "ts.reachable (demo_state 3 2 [''h1'' \<mapsto> 1, ''h2'' \<mapsto> 1] [(''c'', ''h3'')],
     [Permit ''h1'', Permit ''h2'', Parked ''c'' ''h3''])"
proof -
  have "ts.reachable (demo_state 1 0 Map.empty [], [])"
    using ts.reach_init[OF sched_init.intros, of 1 1] by (simp add: new_scheduler_def demo_state_def)
  then have "ts.reachable (demo_state 1 0 Map.empty [(''a'', ''h1'')], [Ready ''a'' ''h1''])"
    by (rule reach_by[OF _ sched_enter[of "''a''" "''h1''"]]) (simp_all add: same_endpoint_def demo_defs)
  then have "ts.reachable (demo_state 1 1 [''h1'' \<mapsto> 1] [], [Permit ''h1''])"
    by (rule reach_by[OF _ sched_grant[where xs = "[]" and ys = "[]", simplified]])
      (simp_all add: demo_defs)
  then have "ts.reachable (demo_state 1 1 [''h1'' \<mapsto> 1] [(''b'', ''h2'')], [Permit ''h1'', Ready ''b'' ''h2''])"
    by (rule reach_by[OF _ sched_enter[of "''b''" "''h2''"]]) (simp_all add: same_endpoint_def demo_defs)
  then have "ts.reachable (demo_state 1 1 [''h1'' \<mapsto> 1] [(''b'', ''h2'')], [Permit ''h1'', Parked ''b'' ''h2''])"
    by (rule reach_by[OF _ sched_park[where xs = "[Permit ''h1'']" and ys = "[]", simplified]])
      (simp_all add: demo_defs)
  then have "ts.reachable (demo_state 1 1 [''h1'' \<mapsto> 1] [(''b'', ''h2''), (''c'', ''h3'')],
      [Permit ''h1'', Parked ''b'' ''h2'', Ready ''c'' ''h3''])"
    by (rule reach_by[OF _ sched_enter[of "''c''" "''h3''"]]) (simp_all add: same_endpoint_def demo_defs)
  then have "ts.reachable (demo_state 1 1 [''h1'' \<mapsto> 1] [(''b'', ''h2''), (''c'', ''h3'')],
      [Permit ''h1'', Parked ''b'' ''h2'', Parked ''c'' ''h3''])"
    by (rule reach_by[OF _ sched_park[where xs = "[Permit ''h1'', Parked ''b'' ''h2'']" and ys = "[]", simplified]])
      (simp_all add: demo_defs)
  then have "ts.reachable (demo_state 3 1 [''h1'' \<mapsto> 1] [(''b'', ''h2''), (''c'', ''h3'')],
      [Permit ''h1'', Ready ''b'' ''h2'', Ready ''c'' ''h3''])"
    by (rule reach_by[OF _ sched_limits[where global = 3 and per_endpoint = 1]])
      (simp add: demo_state_def update_limits_def notify_waiters_def max_def word_le_nat_alt)
  then have "ts.reachable (demo_state 3 1 [''h1'' \<mapsto> 1] [(''b'', ''h2''), (''c'', ''h3'')],
      [Permit ''h1'', Ready ''b'' ''h2'', Parked ''c'' ''h3''])"
    by (rule reach_by[OF _ sched_park[where xs = "[Permit ''h1'', Ready ''b'' ''h2'']" and ys = "[]", simplified]])
      (simp_all add: demo_defs)
  then show ?thesis
    by (rule reach_by[OF _ sched_grant[where xs = "[Permit ''h1'']" and ys = "[Parked ''c'' ''h3'']", simplified]])
      (simp_all add: demo_defs fun_eq_iff)
qed

text \<open>A freed slot can stay unused although a transfer that fits is waiting: after the limits
  were raised while two transfers waited, the later one may look first, park behind the earlier
  one, and is not woken when the earlier one takes only one of the two free slots.\<close>

theorem slot_left_idle:
  "\<exists>st tasks. ts.reachable (st, tasks) \<and> (\<exists>uid e. waiting st = [(uid, e)] \<and> runnable st e)
     \<and> (\<forall>uid e. Ready uid e \<notin> set tasks)"
proof -
  let ?st = "demo_state 3 2 [''h1'' \<mapsto> 1, ''h2'' \<mapsto> 1] [(''c'', ''h3'')]"
  have "waiting ?st = [(''c'', ''h3'')] \<and> runnable ?st ''h3''" by (simp add: demo_defs)
  then show ?thesis using demo_reachable by fastforce
qed

section \<open>The limiter\<close>

lemma reserve_step:
  assumes "0 < limit" "bs key = Some b" "bucket_limit b = limit" "updated b \<le> now"
    and "reserve now bytes (key, Some limit) bs = (r, bs')"
  shows "\<exists>b' wait. r = Some (wait, key, limit) \<and> bs' = bs(key \<mapsto> b') \<and> bucket_limit b' = limit
    \<and> updated b' = now \<and> 0 \<le> wait \<and> - tokens b' \<le> wait * of_nat limit
    \<and> tokens b' + of_nat bytes \<le> tokens b + (now - updated b) * of_nat limit
    \<and> tokens b' + of_nat bytes \<le> of_nat limit"
proof -
  define t where "t = min (tokens b + (now - updated b) * of_nat limit) (of_nat limit) - of_nat bytes"
  define b' where "b' = b\<lparr>updated := now, tokens := t\<rparr>"
  define wait where "wait = (if t < 0 then - t / of_nat limit else 0)"
  have "max 0 (now - updated b) = now - updated b" using assms(4) by simp
  then have "reserve now bytes (key, Some limit) bs = (Some (wait, key, limit), bs(key \<mapsto> b'))"
    using assms(1)
    by (simp add: assms(2,3) reserve_def refill_def t_def b'_def wait_def diff_divide_distrib)
  then have "r = Some (wait, key, limit)" "bs' = bs(key \<mapsto> b')" using assms(5) by simp_all
  moreover have "0 \<le> wait" "- t \<le> wait * of_nat limit"
    using assms(1) by (auto simp: wait_def divide_nonpos_pos)
  ultimately show ?thesis
    using assms(3) by (intro exI[of _ b'] exI[of _ wait]) (simp add: b'_def t_def)
qed

lemma reserve_other:
  assumes "reserve now bytes (key, limit) bs = (r, bs')" "key \<noteq> key'"
  shows "bs' key' = bs key'"
  using assms by (auto simp: reserve_def Let_def split: option.splits if_splits)

lemma keys_differ: "global_key d \<noteq> profile_key p d"
  by (simp add: global_key_def profile_key_def)

lemma acquire_step:
  assumes "0 < limit" "bs (global_key d) = Some b" "bucket_limit b = limit" "updated b \<le> now"
    and "limiter_acquire now now' d p bytes (Some limit) pl bs = ((wait, res), bs')"
  shows "\<exists>b'. bs' (global_key d) = Some b' \<and> bucket_limit b' = limit \<and> updated b' = now
    \<and> - tokens b' \<le> wait * of_nat limit
    \<and> tokens b' + of_nat bytes \<le> tokens b + (now - updated b) * of_nat limit
    \<and> tokens b' + of_nat bytes \<le> of_nat limit"
proof -
  obtain r1 bs1 where r1: "reserve now bytes (global_key d, Some limit) bs = (r1, bs1)" by force
  obtain r2 bs2 where r2: "reserve now' bytes (profile_key p d, pl) bs1 = (r2, bs2)" by force
  from reserve_step[OF assms(1-4) r1] obtain b' w where
    b': "r1 = Some (w, global_key d, limit)" "bs1 = bs(global_key d \<mapsto> b')" "bucket_limit b' = limit"
      "updated b' = now" "0 \<le> w" "- tokens b' \<le> w * of_nat limit"
      "tokens b' + of_nat bytes \<le> tokens b + (now - updated b) * of_nat limit"
      "tokens b' + of_nat bytes \<le> of_nat limit" by blast
  have bs': "bs' = bs2" and wait: "w \<le> wait"
    using assms(5) b'(1) by (cases r2; auto simp: limiter_acquire_def r1 r2 List.map_filter_simps)+
  have "w * of_nat limit \<le> wait * of_nat limit" by (rule mult_right_mono[OF wait]) simp
  moreover have "bs' (global_key d) = Some b'"
    using reserve_other[OF r2 keys_differ[symmetric]] b'(2) bs' by simp
  ultimately show ?thesis using b' by (intro exI[of _ b']) auto
qed

text \<open>Along a run: what was granted so far is paid for by the burst and the time gone by.\<close>

lemma serve_bound:
  assumes "0 < limit" "bs (global_key d) = Some b" "bucket_limit b = limit"
    and "sorted (updated b # map req_at rs)" "rs \<noteq> []"
  shows "tokens b + (fst (last (serve d limit rs bs)) - updated b) * of_nat limit
    \<ge> of_nat (sum_list (map snd (serve d limit rs bs)))"
  using assms(2-)
proof (induction rs arbitrary: bs b)
  case (Cons r rs)
  obtain wait res bs' where acq: "limiter_acquire (req_at r) (req_at' r) d (req_profile r) (req_bytes r)
      (Some limit) (req_profile_limit r) bs = ((wait, res), bs')" by (metis surj_pair)
  have "updated b \<le> req_at r" using Cons.prems(3) by simp
  from acquire_step[OF assms(1) Cons.prems(1,2) this acq] obtain b' where
    b': "bs' (global_key d) = Some b'" "bucket_limit b' = limit" "updated b' = req_at r"
      "- tokens b' \<le> wait * of_nat limit"
      "tokens b' + of_nat (req_bytes r) \<le> tokens b + (req_at r - updated b) * of_nat limit" by blast
  show ?case
  proof (cases rs)
    case Nil
    then show ?thesis using b'(4,5) by (simp add: acq algebra_simps)
  next
    case (Cons r2 rs2)
    then have rs: "rs \<noteq> []" "sorted (updated b' # map req_at rs)"
      using Cons.prems(3) b'(3) by auto
    then have ne: "serve d limit rs bs' \<noteq> []" by (cases rs) (auto split: prod.splits)
    from Cons.IH[where bs = bs' and b = b', OF b'(1,2) rs(2,1)] ne show ?thesis
      using b'(3,5) by (simp add: acq algebra_simps)
  qed
qed simp

text \<open>C39: The bandwidth limiter holds its rate: in any run of requests of one direction under a
  global limit of \<open>limit\<close> bytes per second, starting with a full bucket at \<open>updated b\<close>, the bytes
  granted up to the last grant are at most one second's burst plus the limit times the time since.\<close>

theorem global_rate_is_bounded:
  assumes "0 < limit" "bs (global_key d) = Some b" "bucket_limit b = limit" "tokens b \<le> of_nat limit"
    and "sorted (updated b # map req_at rs)" "rs \<noteq> []"
  shows "of_nat (sum_list (map snd (serve d limit rs bs)))
    \<le> of_nat limit * (1 + (fst (last (serve d limit rs bs)) - updated b))"
  using serve_bound[where bs = bs and b = b and rs = rs, OF assms(1,2,3,5,6)] assms(4) by (simp add: algebra_simps)

lemma global_rate_is_bounded_witness:
  "rat_of_nat (sum_list (map snd (serve ''upload'' 10
       [\<lparr>req_at = 0, req_at' = 0, req_profile = ''p'', req_bytes = 25, req_profile_limit = None\<rparr>]
       [global_key ''upload'' \<mapsto> \<lparr>tokens = 10, updated = 0, bucket_limit = 10\<rparr>])))
   \<le> rat_of_nat 10 * (1 + (fst (last (serve ''upload'' 10
       [\<lparr>req_at = 0, req_at' = 0, req_profile = ''p'', req_bytes = 25, req_profile_limit = None\<rparr>]
       [global_key ''upload'' \<mapsto> \<lparr>tokens = 10, updated = 0, bucket_limit = 10\<rparr>])) - 0))"
  using global_rate_is_bounded[of 10
      "[global_key ''upload'' \<mapsto> \<lparr>tokens = 10, updated = 0, bucket_limit = 10\<rparr>]" "''upload''"
      "\<lparr>tokens = 10, updated = 0, bucket_limit = 10\<rparr>"
      "[\<lparr>req_at = 0, req_at' = 0, req_profile = ''p'', req_bytes = 25, req_profile_limit = None\<rparr>]"]
  by simp

end
