(* ===== verification/Rust_Strings.thy ===== *)
theory Rust_Strings
  imports Siftlane_Prelude "HOL-Library.Char_ord"
begin

text \<open>
  The operations of Rust's \<^verbatim>\<open>str\<close> and \<^verbatim>\<open>std::path\<close> (on Unix) that the sources use, on strings of
  UTF-8 bytes, with the facts about them the components share.
\<close>

section \<open>Splitting and joining\<close>

abbreviation slash :: char where "slash \<equiv> CHR ''/''"
abbreviation backslash :: char where "backslash \<equiv> CHR 0x5C"
abbreviation nul :: char where "nul \<equiv> CHR 0x00"

text \<open>\<^verbatim>\<open>split(P)\<close> for a predicate on one-byte characters: always at least one piece.\<close>

fun split_on :: "('a \<Rightarrow> bool) \<Rightarrow> 'a list \<Rightarrow> 'a list list" where
  "split_on P [] = [[]]"
| "split_on P (c # cs) =
     (if P c then [] # split_on P cs
      else case split_on P cs of s # ss \<Rightarrow> (c # s) # ss | [] \<Rightarrow> [[c]])"

fun join :: "'a list \<Rightarrow> 'a list list \<Rightarrow> 'a list" where
  "join sep [] = []"
| "join sep [s] = s"
| "join sep (s # ss) = s @ sep @ join sep ss"

definition trim_start_matches :: "('a \<Rightarrow> bool) \<Rightarrow> 'a list \<Rightarrow> 'a list" where
  "trim_start_matches P s = dropWhile P s"

definition trim_end_matches :: "('a \<Rightarrow> bool) \<Rightarrow> 'a list \<Rightarrow> 'a list" where
  "trim_end_matches P s = rev (dropWhile P (rev s))"

definition trim_matches :: "('a \<Rightarrow> bool) \<Rightarrow> 'a list \<Rightarrow> 'a list" where
  "trim_matches P s = trim_end_matches P (trim_start_matches P s)"

definition strip_prefix :: "'a list \<Rightarrow> 'a list \<Rightarrow> 'a list option" where
  "strip_prefix p s = (if take (length p) s = p then Some (drop (length p) s) else None)"

definition strip_suffix :: "'a list \<Rightarrow> 'a list \<Rightarrow> 'a list option" where
  "strip_suffix p s = map_option rev (strip_prefix (rev p) (rev s))"

definition starts_with :: "'a list \<Rightarrow> 'a list \<Rightarrow> bool" where
  "starts_with p s = (take (length p) s = p)"

definition ends_with :: "'a list \<Rightarrow> 'a list \<Rightarrow> bool" where
  "ends_with p s = starts_with (rev p) (rev s)"

fun split_once :: "'a \<Rightarrow> 'a list \<Rightarrow> ('a list \<times> 'a list) option" where
  "split_once c [] = None"
| "split_once c (x # xs) =
     (if x = c then Some ([], xs) else map_option (\<lambda>(a, b). (x # a, b)) (split_once c xs))"

definition rsplit_once :: "'a \<Rightarrow> 'a list \<Rightarrow> ('a list \<times> 'a list) option" where
  "rsplit_once c s = map_option (\<lambda>(a, b). (rev b, rev a)) (split_once c (rev s))"

text \<open>\<^verbatim>\<open>rsplit_once\<close> at a text that is not empty.\<close>

fun split_str :: "'a list \<Rightarrow> 'a list \<Rightarrow> ('a list \<times> 'a list) option" where
  "split_str p [] = None"
| "split_str p (x # xs) = (if starts_with p (x # xs) then Some ([], drop (length p) (x # xs))
     else map_option (\<lambda>(a, b). (x # a, b)) (split_str p xs))"

definition rsplit_str :: "'a list \<Rightarrow> 'a list \<Rightarrow> ('a list \<times> 'a list) option" where
  "rsplit_str p s = map_option (\<lambda>(a, b). (rev b, rev a)) (split_str (rev p) (rev s))"

text \<open>\<^verbatim>\<open>rfind(P)\<close>: the index of the last character that satisfies \<open>P\<close>.\<close>

fun rfind :: "('a \<Rightarrow> bool) \<Rightarrow> 'a list \<Rightarrow> nat option" where
  "rfind P [] = None"
| "rfind P (x # xs) = (case rfind P xs of Some i \<Rightarrow> Some (Suc i) | None \<Rightarrow> if P x then Some 0 else None)"

text \<open>\<^verbatim>\<open>replace(from, to)\<close> for a one-character pattern.\<close>

definition replace_char :: "'a \<Rightarrow> 'a list \<Rightarrow> 'a list \<Rightarrow> 'a list" where
  "replace_char a to s = concat (map (\<lambda>c. if c = a then to else [c]) s)"

fun contains :: "'a list \<Rightarrow> 'a list \<Rightarrow> bool" where
  "contains needle [] = (needle = [])"
| "contains needle (c # cs) = (starts_with needle (c # cs) \<or> contains needle cs)"

text \<open>Whether bytes are UTF-8, as \<^verbatim>\<open>String::from_utf8\<close> decides it: the ranges of the second byte exclude overlong
  forms, surrogates and values above the last code point.\<close>

definition byte_in :: "nat \<Rightarrow> nat \<Rightarrow> char \<Rightarrow> bool" where
  "byte_in lo hi c = (lo \<le> (of_char c :: nat) \<and> of_char c \<le> hi)"

definition second_range :: "char \<Rightarrow> nat \<times> nat" where
  "second_range c = (if byte_in 224 224 c then (160, 191) else if byte_in 237 237 c then (128, 159)
     else if byte_in 240 240 c then (144, 191) else if byte_in 244 244 c then (128, 143) else (128, 191))"

definition second_ok :: "char \<Rightarrow> char \<Rightarrow> bool" where
  "second_ok a b = byte_in (fst (second_range a)) (snd (second_range a)) b"

fun utf8_valid :: "string \<Rightarrow> bool" where
  "utf8_valid [] = True"
| "utf8_valid (a # s) =
     (if byte_in 0 127 a then utf8_valid s
      else case s of [] \<Rightarrow> False | b # t \<Rightarrow>
        if \<not> second_ok a b then False
        else if byte_in 194 223 a then utf8_valid t
        else case t of [] \<Rightarrow> False | c # u \<Rightarrow>
          if \<not> byte_in 128 191 c then False
          else if byte_in 224 239 a then utf8_valid u
          else case u of [] \<Rightarrow> False | d # v \<Rightarrow>
            byte_in 128 191 d \<and> byte_in 240 244 a \<and> utf8_valid v)"

section \<open>White space and case\<close>

text \<open>The UTF-8 encodings of the characters with the Unicode property \<^verbatim>\<open>White_Space\<close>.\<close>

definition whitespace :: "string list" where
  "whitespace =
    [[CHR 0x09], [CHR 0x0A], [CHR 0x0B], [CHR 0x0C], [CHR 0x0D], [CHR 0x20],
     [CHR 0xC2, CHR 0x85], [CHR 0xC2, CHR 0xA0], [CHR 0xE1, CHR 0x9A, CHR 0x80],
     [CHR 0xE2, CHR 0x80, CHR 0x80], [CHR 0xE2, CHR 0x80, CHR 0x81], [CHR 0xE2, CHR 0x80, CHR 0x82],
     [CHR 0xE2, CHR 0x80, CHR 0x83], [CHR 0xE2, CHR 0x80, CHR 0x84], [CHR 0xE2, CHR 0x80, CHR 0x85],
     [CHR 0xE2, CHR 0x80, CHR 0x86], [CHR 0xE2, CHR 0x80, CHR 0x87], [CHR 0xE2, CHR 0x80, CHR 0x88],
     [CHR 0xE2, CHR 0x80, CHR 0x89], [CHR 0xE2, CHR 0x80, CHR 0x8A], [CHR 0xE2, CHR 0x80, CHR 0xA8],
     [CHR 0xE2, CHR 0x80, CHR 0xA9], [CHR 0xE2, CHR 0x80, CHR 0xAF], [CHR 0xE2, CHR 0x81, CHR 0x9F],
     [CHR 0xE3, CHR 0x80, CHR 0x80]]"

text \<open>Drop one of the given encodings from the front, if one is there.\<close>

definition drop_one :: "string list \<Rightarrow> string \<Rightarrow> string option" where
  "drop_one ws s = (case filter (\<lambda>w. w \<noteq> [] \<and> starts_with w s) ws of
      w # _ \<Rightarrow> Some (drop (length w) s) | [] \<Rightarrow> None)"

lemma drop_one_shorter: "drop_one ws s = Some s' \<Longrightarrow> length s' < length s"
proof -
  assume "drop_one ws s = Some s'"
  then obtain w rest where f: "filter (\<lambda>w. w \<noteq> [] \<and> starts_with w s) ws = w # rest"
    and s': "s' = drop (length w) s"
    by (auto simp: drop_one_def split: list.splits)
  have "w \<in> set (filter (\<lambda>w. w \<noteq> [] \<and> starts_with w s) ws)" by (simp add: f)
  then have "w \<noteq> []" "take (length w) s = w" by (auto simp: starts_with_def)
  then show ?thesis using s' by (cases s) auto
qed

function trim_front :: "string list \<Rightarrow> string \<Rightarrow> string" where
  "trim_front ws s = (case drop_one ws s of Some s' \<Rightarrow> trim_front ws s' | None \<Rightarrow> s)"
  by pat_completeness auto
termination by (relation "measure (\<lambda>(ws, s). length s)") (auto simp: drop_one_shorter)

declare trim_front.simps [simp del]

definition trim_start :: "string \<Rightarrow> string" where
  "trim_start s = trim_front whitespace s"

definition trim_end :: "string \<Rightarrow> string" where
  "trim_end s = rev (trim_front (map rev whitespace) (rev s))"

definition trim :: "string \<Rightarrow> string" where
  "trim s = trim_end (trim_start s)"

text \<open>\<^verbatim>\<open>lines\<close>: the pieces between line feeds, without the carriage return before one; nothing after the last.\<close>

definition strip_cr :: "string \<Rightarrow> string" where
  "strip_cr s = (if s \<noteq> [] \<and> last s = CHR 0x0D then butlast s else s)"

definition text_lines :: "string \<Rightarrow> string list" where
  "text_lines s = (let ps = split_on (\<lambda>c. c = CHR 0x0A) s
     in map strip_cr (butlast ps) @ (if last ps = [] then [] else [last ps]))"

text \<open>\<^verbatim>\<open>split_whitespace\<close>: the runs between white space.\<close>

fun until_space :: "string \<Rightarrow> string \<times> string" where
  "until_space [] = ([], [])"
| "until_space (c # cs) = (if drop_one whitespace (c # cs) \<noteq> None then ([], c # cs)
     else case until_space cs of (w, rest) \<Rightarrow> (c # w, rest))"

lemma until_space_append: "until_space s = (w, rest) \<Longrightarrow> s = w @ rest"
  by (induction s arbitrary: w rest) (auto split: if_splits prod.splits)

lemma length_trim_front: "length (trim_front ws s) \<le> length s"
proof (induction ws s rule: trim_front.induct)
  case (1 ws s)
  show ?case
  proof (cases "drop_one ws s")
    case (Some s')
    with 1 drop_one_shorter[OF Some] show ?thesis by (simp add: trim_front.simps[of ws s])
  qed (simp add: trim_front.simps[of ws s])
qed

function split_whitespace :: "string \<Rightarrow> string list" where
  "split_whitespace s = (case trim_start s of
      [] \<Rightarrow> [] | c # cs \<Rightarrow> (case until_space cs of (w, rest) \<Rightarrow> (c # w) # split_whitespace rest))"
  by pat_completeness auto
termination
proof (relation "measure length", goal_cases)
  case (2 s c cs w rest)
  then show ?case
    using length_trim_front[of whitespace s] until_space_append[of cs w rest] by (auto simp: trim_start_def)
qed simp

declare split_whitespace.simps [simp del]

definition is_ascii_upper :: "char \<Rightarrow> bool" where
  "is_ascii_upper c = (65 \<le> (of_char c :: nat) \<and> of_char c \<le> (90 :: nat))"

definition ascii_lower_char :: "char \<Rightarrow> char" where
  "ascii_lower_char c = (if is_ascii_upper c then char_of (of_char c + 32 :: nat) else c)"

definition to_ascii_lowercase :: "string \<Rightarrow> string" where
  "to_ascii_lowercase s = map ascii_lower_char s"

definition eq_ignore_ascii_case :: "string \<Rightarrow> string \<Rightarrow> bool" where
  "eq_ignore_ascii_case a b = (to_ascii_lowercase a = to_ascii_lowercase b)"

section \<open>Numbers\<close>

definition digit_char :: "nat \<Rightarrow> char" where
  "digit_char d = char_of (48 + d)"

fun show_nat :: "nat \<Rightarrow> string" where
  "show_nat n = (if n < 10 then [digit_char n] else show_nat (n div 10) @ [digit_char (n mod 10)])"

declare show_nat.simps [simp del]

definition is_digit :: "char \<Rightarrow> bool" where
  "is_digit c = (48 \<le> (of_char c :: nat) \<and> of_char c \<le> (57 :: nat))"

definition digit_val :: "char \<Rightarrow> nat" where
  "digit_val c = of_char c - 48"

definition read_digits :: "string \<Rightarrow> nat" where
  "read_digits s = foldl (\<lambda>n c. 10 * n + digit_val c) 0 s"

text \<open>\<^verbatim>\<open>str::parse\<close> of an unsigned integer with maximum \<open>m\<close>: an optional plus sign and at least one
  digit, failing on overflow.\<close>

definition parse_uint :: "nat \<Rightarrow> string \<Rightarrow> nat option" where
  "parse_uint m s =
     (let ds = (case s of c # cs \<Rightarrow> if c = CHR ''+'' then cs else s | [] \<Rightarrow> [])
      in if ds = [] \<or> \<not> list_all is_digit ds then None
         else if read_digits ds \<le> m then Some (read_digits ds) else None)"

section \<open>Facts on splitting\<close>

lemma split_on_nonempty [simp]: "split_on P s \<noteq> []"
  by (induction s) (auto split: list.splits)

lemma split_on_pieces: "seg \<in> set (split_on P s) \<Longrightarrow> c \<in> set seg \<Longrightarrow> \<not> P c \<and> c \<in> set s"
proof (induction s arbitrary: seg)
  case Nil
  then show ?case by simp
next
  case (Cons x xs)
  obtain s ss where ss: "split_on P xs = s # ss" by (meson split_on_nonempty neq_Nil_conv)
  show ?case
  proof (cases "P x")
    case True
    with Cons.prems Cons.IH show ?thesis by auto
  next
    case False
    with Cons.prems ss consider "seg = x # s" | "seg \<in> set ss" by auto
    then show ?thesis
      using Cons.IH[of s] Cons.IH[of seg] Cons.prems(2) ss False by cases auto
  qed
qed

lemma join_split_on: "join [c] (split_on (\<lambda>x. x = c) s) = s"
proof (induction s)
  case (Cons x xs)
  obtain s ss where ss: "split_on (\<lambda>x. x = c) xs = s # ss" by (meson split_on_nonempty neq_Nil_conv)
  then show ?case using Cons by (cases ss) auto
qed simp

lemma split_on_id: "(\<And>c. c \<in> set s \<Longrightarrow> \<not> P c) \<Longrightarrow> split_on P s = [s]"
  by (induction s) auto

lemma split_on_sep:
  "(\<And>c. c \<in> set a \<Longrightarrow> \<not> P c) \<Longrightarrow> P x \<Longrightarrow> split_on P (a @ x # b) = a # split_on P b"
  by (induction a) auto

lemma split_on_append: "P x \<Longrightarrow> split_on P (a @ x # b) = split_on P a @ split_on P b"
proof (induction a)
  case (Cons y ys)
  then show ?case by (auto split: list.splits)
qed simp

lemma split_on_join:
  assumes "segs \<noteq> []" "\<And>s c. s \<in> set segs \<Longrightarrow> c \<in> set s \<Longrightarrow> \<not> P c" "P x"
  shows "split_on P (join [x] segs) = segs"
  using assms
proof (induction "[x]" segs rule: join.induct)
  case (2 s)
  then show ?case by (simp add: split_on_id)
next
  case (3 s s' ss)
  have "split_on P (join [x] (s' # ss)) = s' # ss" by (rule 3(1)) (use 3 in auto)
  moreover have "\<And>c. c \<in> set s \<Longrightarrow> \<not> P c" by (rule 3(3)[of s]) auto
  ultimately show ?case using 3(4) by (simp add: split_on_sep)
qed simp

lemma join_append:
  "xs \<noteq> [] \<Longrightarrow> ys \<noteq> [] \<Longrightarrow> join sep (xs @ ys) = join sep xs @ sep @ join sep ys"
proof (induction sep xs rule: join.induct)
  case (2 sep s)
  then show ?case by (cases ys) auto
qed auto

lemma set_join: "set (join sep segs) \<subseteq> set sep \<union> \<Union> (set ` set segs)"
  by (induction sep segs rule: join.induct) auto

section \<open>Facts on trimming, positions and numbers\<close>

lemma set_trim_front: "set (trim_front ws s) \<subseteq> set s"
proof (induction ws s rule: trim_front.induct)
  case (1 ws s)
  show ?case
  proof (cases "drop_one ws s")
    case None
    then show ?thesis by (simp add: trim_front.simps[of ws s])
  next
    case (Some s')
    then have "set s' \<subseteq> set s"
      by (auto simp: drop_one_def split: list.splits dest: in_set_dropD)
    with 1 Some show ?thesis by (simp add: trim_front.simps[of ws s])
  qed
qed

lemma set_trim: "set (trim s) \<subseteq> set s"
  using set_trim_front[of whitespace s] set_trim_front[of "map rev whitespace" "rev (trim_start s)"]
  by (auto simp: trim_def trim_end_def trim_start_def)

lemma rfind_Some:
  "rfind P s = Some i \<Longrightarrow> i < length s \<and> P (s ! i) \<and> (\<forall>j. i < j \<longrightarrow> j < length s \<longrightarrow> \<not> P (s ! j))"
proof (induction s arbitrary: i)
  case (Cons x xs)
  show ?case
  proof (cases "rfind P xs")
    case None
    then have "\<forall>y \<in> set xs. \<not> P y"
    proof (induction xs)
      case (Cons a xs)
      then show ?case by (auto split: option.splits if_splits)
    qed simp
    with None Cons.prems show ?thesis by (auto simp: nth_Cons' split: if_splits)
  next
    case (Some k)
    with Cons show ?thesis by (auto simp: nth_Cons')
  qed
qed simp

lemma rfind_None: "rfind P s = None \<longleftrightarrow> (\<forall>c \<in> set s. \<not> P c)"
  by (induction s) (auto split: option.splits)

lemma rfind_append: "rfind P (a @ b) = (case rfind P b of Some i \<Rightarrow> Some (length a + i) | None \<Rightarrow> rfind P a)"
  by (induction a) (auto split: option.splits)

lemma trim_end_matches_id: "s = [] \<or> \<not> P (last s) \<Longrightarrow> trim_end_matches P s = s"
proof (cases s rule: rev_cases)
  case (snoc ys y)
  then show "s = [] \<or> \<not> P (last s) \<Longrightarrow> ?thesis" by (simp add: trim_end_matches_def)
qed (simp add: trim_end_matches_def)

lemma trim_end_matches_append:
  "\<forall>c \<in> set b. P c \<Longrightarrow> trim_end_matches P (a @ b) = trim_end_matches P a"
  by (simp add: trim_end_matches_def dropWhile_append)

lemma trim_end_matches_last: "trim_end_matches P s = [] \<or> \<not> P (last (trim_end_matches P s))"
  using hd_dropWhile[of P "rev s"] by (auto simp: trim_end_matches_def last_rev)

lemma rsplit_once_append:
  assumes "c \<notin> set b"
  shows "rsplit_once c (a @ c # b) = Some (a, b)"
proof -
  have "split_once c (xs @ c # ys) = Some (xs, ys)" if "c \<notin> set xs" for xs ys :: "'a list"
    using that by (induction xs) auto
  from this[of "rev b" "rev a"] assms show ?thesis by (simp add: rsplit_once_def)
qed

lemma split_once_append: "c \<notin> set a \<Longrightarrow> split_once c (a @ c # b) = Some (a, b)"
  by (induction a) auto

lemma split_once_Some: "split_once c s = Some (a, b) \<Longrightarrow> s = a @ c # b \<and> c \<notin> set a"
  by (induction s arbitrary: a b) (auto split: if_splits)

lemma split_once_None: "split_once c s = None \<longleftrightarrow> c \<notin> set s"
  by (induction s) auto

lemma digit_val_char [simp]: "d < 10 \<Longrightarrow> digit_val (digit_char d) = d"
  by (simp add: digit_val_def digit_char_def)

lemma is_digit_char [simp]: "d < 10 \<Longrightarrow> is_digit (digit_char d)"
  by (simp add: is_digit_def digit_char_def)

lemma read_digits_snoc [simp]: "read_digits (s @ [c]) = 10 * read_digits s + digit_val c"
  by (simp add: read_digits_def)

lemma read_show_nat [simp]: "read_digits (show_nat n) = n"
proof (induction n rule: show_nat.induct)
  case (1 n)
  show ?case
  proof (cases "n < 10")
    case True
    then show ?thesis by (simp add: show_nat.simps[of n] read_digits_def)
  next
    case False
    then show ?thesis using 1 by (simp add: show_nat.simps[of n])
  qed
qed

lemma show_nat_inj [simp]: "show_nat m = show_nat n \<longleftrightarrow> m = n"
  by (metis read_show_nat)

lemma show_nat_digits: "list_all is_digit (show_nat n) \<and> show_nat n \<noteq> []"
proof (induction n rule: show_nat.induct)
  case (1 n)
  then show ?case by (cases "n < 10") (simp_all add: show_nat.simps[of n])
qed

lemma parse_show_nat: "n \<le> m \<Longrightarrow> parse_uint m (show_nat n) = Some n"
proof -
  assume "n \<le> m"
  obtain c cs where s: "show_nat n = c # cs" using show_nat_digits[of n] by (cases "show_nat n") auto
  then have "is_digit c" using show_nat_digits[of n] by simp
  then have "c \<noteq> CHR ''+''" by (auto simp: is_digit_def)
  then show ?thesis using \<open>n \<le> m\<close> show_nat_digits[of n] s read_show_nat[of n]
    by (simp add: parse_uint_def)
qed

section \<open>Trimming twice\<close>

lemma trim_front_stops: "drop_one ws (trim_front ws s) = None"
proof (induction ws s rule: trim_front.induct)
  case (1 ws s)
  then show ?case by (cases "drop_one ws s") (simp_all add: trim_front.simps[of ws s])
qed

lemma trim_front_id: "drop_one ws s = None \<Longrightarrow> trim_front ws s = s"
  by (simp add: trim_front.simps[of ws s])

lemma trim_front_suffix: "\<exists>x. s = x @ trim_front ws s"
proof (induction ws s rule: trim_front.induct)
  case (1 ws s)
  show ?case
  proof (cases "drop_one ws s")
    case (Some s')
    from Some obtain n where n: "s' = drop n s" by (auto simp: drop_one_def split: list.splits)
    from 1[OF Some] obtain x where "s' = x @ trim_front ws s'" by blast
    then have "s = (take n s @ x) @ trim_front ws s'" using n by (metis append_assoc append_take_drop_id)
    with Some show ?thesis by (auto simp: trim_front.simps[of ws s] intro!: exI[of _ "take n s @ x"])
  qed (auto simp: trim_front.simps[of ws s])
qed

lemma drop_one_None: "drop_one ws s = None \<longleftrightarrow> (\<forall>w \<in> set ws. w \<noteq> [] \<longrightarrow> \<not> starts_with w s)"
proof -
  have "drop_one ws s = None \<longleftrightarrow> filter (\<lambda>w. w \<noteq> [] \<and> starts_with w s) ws = []"
    by (simp add: drop_one_def split: list.split)
  then show ?thesis by (auto simp: filter_empty_conv)
qed

lemma starts_with_append: "starts_with w a \<Longrightarrow> starts_with w (a @ b)"
proof -
  assume "starts_with w a"
  then have "a = w @ drop (length w) a" by (metis append_take_drop_id starts_with_def)
  then show ?thesis by (metis append_assoc append_eq_conv_conj starts_with_def)
qed

lemma drop_one_shorter_text: "drop_one ws (a @ b) = None \<Longrightarrow> drop_one ws a = None"
  unfolding drop_one_None using starts_with_append by blast

lemma trim_trim [simp]: "trim (trim s) = trim s"
proof -
  let ?a = "trim_start s" and ?b = "trim s"
  have "drop_one whitespace ?a = None" by (simp add: trim_start_def trim_front_stops)
  moreover from trim_front_suffix[of "rev ?a" "map rev whitespace"] obtain x
    where "rev ?a = x @ trim_front (map rev whitespace) (rev ?a)" by blast
  then have "?a = ?b @ rev x" by (metis rev_append rev_rev_ident trim_def trim_end_def)
  ultimately have "drop_one whitespace ?b = None" using drop_one_shorter_text by metis
  then have "trim_start ?b = ?b" by (simp add: trim_start_def trim_front_id)
  moreover have "trim_end ?b = ?b"
    by (simp add: trim_def trim_end_def trim_front_id trim_front_stops)
  ultimately show ?thesis by (simp add: trim_def)
qed

text \<open>A text whose first and last bytes begin or end no white space is trimmed already.\<close>

lemma trim_id:
  assumes "s \<noteq> []" "hd s \<notin> hd ` set whitespace" "last s \<notin> last ` set whitespace"
  shows "trim s = s"
proof -
  have "drop_one whitespace s = None"
    using assms(1,2) unfolding drop_one_None starts_with_def
    by (metis append_take_drop_id hd_append2 image_eqI)
  moreover have "drop_one (map rev whitespace) (rev s) = None"
    unfolding drop_one_None starts_with_def
  proof (intro ballI impI notI)
    fix w assume w: "w \<in> set (map rev whitespace)" "w \<noteq> []" "take (length w) (rev s) = w"
    then obtain v where v: "v \<in> set whitespace" "w = rev v" by auto
    have "hd (rev s) = hd w" using w(2,3) by (metis append_take_drop_id hd_append2)
    then show False using v assms(1,3) w(2) by (simp add: hd_rev)
  qed
  ultimately show ?thesis by (simp add: trim_def trim_start_def trim_end_def trim_front_id)
qed

end
