(* ===== verification/Paths.thy ===== *)
theory Paths
  imports Rust_Strings Core_Model
begin

text \<open>
  The path functions of \<^verbatim>\<open>commands.rs\<close> (normalisation of remote and bookmark paths, entry names),
  \<^verbatim>\<open>transfers.rs\<close> (numbered destinations), \<^verbatim>\<open>search.rs\<close> and \<^verbatim>\<open>siftlane-ftp\<close> (parents and joins),
  and the part of \<^verbatim>\<open>std::path\<close> on Unix that the planners use.
\<close>

section \<open>Remote paths\<close>

text \<open>The loop over the segments: a stack of segments, its top last.\<close>

fun collapse :: "string list \<Rightarrow> string list \<Rightarrow> string list" where
  "collapse acc [] = acc"
| "collapse acc (seg # segs) =
     (if seg = '''' \<or> seg = ''.'' then collapse acc segs
      else if seg = ''..'' then collapse (butlast acc) segs
      else collapse (acc @ [seg]) segs)"

definition normalize_remote_path :: "string \<Rightarrow> string result" where
  "normalize_remote_path path =
     (if nul \<in> set path then Inl (new_error InvalidInput ''Remote path contains a null byte'')
      else let absolute = (if trim path = '''' then ''/'' else trim path)
           in Inr (''/'' @ join ''/'' (collapse [] (split_on (\<lambda>c. c = slash) absolute))))"

definition normalize_favorite_path :: "string \<Rightarrow> FavoriteSide \<Rightarrow> string result" where
  "normalize_favorite_path path side =
     (let trimmed = trim path
      in if trimmed = '''' then Inl (new_error InvalidInput ''A bookmark path is required'')
         else if nul \<in> set trimmed then Inl (new_error InvalidInput ''Bookmark path contains a null byte'')
         else case side of
                RemoteSide \<Rightarrow> normalize_remote_path trimmed
              | LocalSide \<Rightarrow>
                  let stripped = trim_end_matches (\<lambda>c. c = slash \<or> c = backslash) trimmed
                  in if stripped = '''' then Inr (if backslash \<in> set trimmed then [backslash] else ''/'')
                     else Inr stripped)"

definition validate_entry_name :: "string \<Rightarrow> unit result" where
  "validate_entry_name name =
     (if trim name = '''' \<or> name = ''.'' \<or> name = ''..'' \<or> slash \<in> set name
         \<or> backslash \<in> set name \<or> nul \<in> set name
      then Inl (new_error InvalidInput ''Enter a single valid file or folder name'')
      else Inr ())"

definition remote_parent_path :: "string \<Rightarrow> string" where
  "remote_parent_path path =
     (let trimmed = trim_end_matches (\<lambda>c. c = slash) path
      in if trimmed = '''' \<or> trimmed = ''/'' then ''/''
         else case rfind (\<lambda>c. c = slash) trimmed of
                Some index \<Rightarrow> if index = 0 then ''/'' else take index trimmed
              | None \<Rightarrow> ''/'')"

text \<open>\<^verbatim>\<open>join_path\<close> and \<^verbatim>\<open>parent_path\<close> of the FTP client.\<close>

definition ftp_join_path :: "string \<Rightarrow> string \<Rightarrow> string" where
  "ftp_join_path directory name =
     (if directory = ''/'' then ''/'' @ name
      else trim_end_matches (\<lambda>c. c = slash) directory @ ''/'' @ name)"

definition ftp_parent_path :: "string \<Rightarrow> string" where
  "ftp_parent_path path = (case rsplit_once slash path of
      Some (parent, _) \<Rightarrow> if parent = '''' then ''/'' else parent
    | None \<Rightarrow> ''/'')"

section \<open>Numbered destinations\<close>

definition numbered_destination :: "string \<Rightarrow> nat \<Rightarrow> string" where
  "numbered_destination destination index =
     (let separator = (case rfind (\<lambda>c. c = slash \<or> c = backslash) destination of
                         Some position \<Rightarrow> position + 1 | None \<Rightarrow> 0);
          parent = take separator destination;
          name = drop separator destination;
          ext = (case rfind (\<lambda>c. c = CHR ''.'') name of
                         Some position \<Rightarrow> if 0 < position then position else length name
                       | None \<Rightarrow> length name);
          stem = take ext name;
          suffix = drop ext name
      in parent @ stem @ '' ('' @ show_nat index @ '')'' @ suffix)"

section \<open>\<^verbatim>\<open>std::path\<close> on Unix\<close>

datatype component = RootDir | CurDir | ParentDir | Normal string

text \<open>\<^verbatim>\<open>Path::components\<close>: empty pieces vanish, and a dot counts only at the start of a relative
  path.\<close>

definition component_of :: "string \<Rightarrow> component list" where
  "component_of seg = (if seg = '''' \<or> seg = ''.'' then [] else if seg = ''..'' then [ParentDir]
                       else [Normal seg])"

definition components :: "string \<Rightarrow> component list" where
  "components path =
     (let segs = split_on (\<lambda>c. c = slash) path
      in (if starts_with ''/'' path then [RootDir]
          else if hd segs = ''.'' then [CurDir] else [])
         @ concat (map component_of segs))"

definition path_push :: "string \<Rightarrow> string \<Rightarrow> string" where
  "path_push base seg =
     (if starts_with ''/'' seg then seg
      else if base = '''' \<or> ends_with ''/'' base then base @ seg
      else base @ ''/'' @ seg)"

text \<open>\<^verbatim>\<open>Path::file_name\<close>: the last component, when it is a normal one.\<close>

definition file_name :: "string \<Rightarrow> string option" where
  "file_name path = (case rev (components path) of Normal name # _ \<Rightarrow> Some name | _ \<Rightarrow> None)"

fun show_components :: "component list \<Rightarrow> string" where
  "show_components cs =
     (let text_of = (\<lambda>c. case c of RootDir \<Rightarrow> '''' | CurDir \<Rightarrow> ''.'' | ParentDir \<Rightarrow> ''..'' | Normal s \<Rightarrow> s)
      in if cs = [RootDir] then ''/'' else join ''/'' (map text_of cs))"

section \<open>Lemmas\<close>

lemma collapse_append: "collapse acc (xs @ ys) = collapse (collapse acc xs) ys"
  by (induction acc xs rule: collapse.induct) auto

definition plain_segment :: "string \<Rightarrow> bool" where
  "plain_segment s \<longleftrightarrow> s \<noteq> '''' \<and> s \<noteq> ''.'' \<and> s \<noteq> ''..'' \<and> slash \<notin> set s"

lemma collapse_plain:
  assumes "list_all plain_segment acc" "\<forall>s \<in> set segs. slash \<notin> set s"
  shows "list_all plain_segment (collapse acc segs)"
  using assms
proof (induction acc segs rule: collapse.induct)
  case (2 acc seg segs)
  have but: "list_all plain_segment (butlast acc)"
    using 2(4) by (auto simp: list_all_iff dest: in_set_butlastD)
  have "seg \<noteq> '''' \<Longrightarrow> seg \<noteq> ''.'' \<Longrightarrow> seg \<noteq> ''..'' \<Longrightarrow> plain_segment seg"
    using 2(5) by (simp add: plain_segment_def)
  then have here: "seg \<noteq> '''' \<Longrightarrow> seg \<noteq> ''.'' \<Longrightarrow> seg \<noteq> ''..'' \<Longrightarrow> list_all plain_segment (acc @ [seg])"
    using 2(4) by simp
  have rest: "\<forall>s \<in> set segs. slash \<notin> set s" using 2(5) by simp
  show ?case
    using 2(1)[OF _ 2(4) rest] 2(2)[OF _ _ but rest] 2(3)[OF _ _ here rest] by simp
qed simp

lemma collapse_id: "list_all plain_segment segs \<Longrightarrow> collapse acc segs = acc @ segs"
  by (induction segs arbitrary: acc) (auto simp: plain_segment_def)

text \<open>Reference semantics: where a path leads, as a stack of directory names.\<close>

definition canonical :: "string \<Rightarrow> bool" where
  "canonical p \<longleftrightarrow> (\<exists>segs. p = ''/'' @ join ''/'' segs \<and> list_all plain_segment segs)"

lemma normalize_remote_path_ok:
  assumes "normalize_remote_path path = Inr p"
  obtains segs where "p = ''/'' @ join ''/'' segs" "list_all plain_segment segs"
    "segs = collapse [] (split_on (\<lambda>c. c = slash) (if trim path = '''' then ''/'' else trim path))"
proof -
  let ?segs = "collapse [] (split_on (\<lambda>c. c = slash) (if trim path = '''' then ''/'' else trim path))"
  have "list_all plain_segment ?segs"
    by (rule collapse_plain) (auto dest: split_on_pieces)
  moreover have "p = ''/'' @ join ''/'' ?segs"
    using assms by (simp add: normalize_remote_path_def Let_def split: if_splits)
  ultimately show thesis using that by blast
qed

lemma split_canonical:
  assumes "list_all plain_segment segs"
  shows "collapse [] (split_on (\<lambda>c. c = slash) (''/'' @ join ''/'' segs)) = segs"
proof (cases "segs = []")
  case True
  then show ?thesis by simp
next
  case False
  have "split_on (\<lambda>c. c = slash) (join [slash] segs) = segs"
    by (rule split_on_join) (use False assms in \<open>auto simp: list_all_iff plain_segment_def\<close>)
  then show ?thesis using collapse_id[OF assms] by simp
qed

lemma set_collapse: "set (collapse acc segs) \<subseteq> set acc \<union> set segs"
proof (induction acc segs rule: collapse.induct)
  case (2 acc seg segs)
  have "set (butlast acc) \<subseteq> set acc" by (auto dest: in_set_butlastD)
  with 2 show ?case by auto
qed simp

lemma canonical_cases:
  assumes "canonical p"
  obtains (root) "p = ''/''"
  | (below) segs seg where "p = ''/'' @ join ''/'' (segs @ [seg])" "list_all plain_segment (segs @ [seg])"
proof -
  obtain segs where segs: "p = ''/'' @ join ''/'' segs" "list_all plain_segment segs"
    using assms by (auto simp: canonical_def)
  show thesis
  proof (cases segs rule: rev_cases)
    case Nil
    then show ?thesis using segs root by simp
  next
    case (snoc ys y)
    then show ?thesis using segs below by blast
  qed
qed

text \<open>A canonical path below the root is its parent joined with its name.\<close>

lemma join_snoc:
  "''/'' @ join ''/'' (segs @ [seg]) =
     (if segs = [] then ''/'' @ seg else (''/'' @ join ''/'' segs) @ ''/'' @ seg)"
  by (simp add: join_append)

lemma plain_last: "plain_segment seg \<Longrightarrow> seg \<noteq> '''' \<and> last seg \<noteq> slash"
  unfolding plain_segment_def using last_in_set[of seg] by metis

lemma join_last_not_slash:
  assumes "list_all plain_segment (segs @ [seg])"
  shows "last (''/'' @ join ''/'' (segs @ [seg])) \<noteq> slash"
proof -
  have seg: "seg \<noteq> ''''" "last seg \<noteq> slash" using assms plain_last by auto
  then show ?thesis unfolding join_snoc by (simp add: last_append)
qed

lemma canonical_trim_end:
  assumes "canonical p" "p \<noteq> ''/''"
  shows "trim_end_matches (\<lambda>c. c = slash) p = p"
  using assms(1)
proof (cases rule: canonical_cases)
  case (below segs seg)
  then show ?thesis using join_last_not_slash[OF below(2)] by (intro trim_end_matches_id) simp
qed (use assms(2) in simp)

lemma canonical_parent:
  assumes "list_all plain_segment (segs @ [seg])"
  shows "remote_parent_path (''/'' @ join ''/'' (segs @ [seg])) = ''/'' @ join ''/'' segs"
    and "ftp_parent_path (''/'' @ join ''/'' (segs @ [seg])) = ''/'' @ join ''/'' segs"
proof -
  let ?p = "''/'' @ join ''/'' (segs @ [seg])"
  have can: "canonical ?p" using assms by (auto simp: canonical_def)
  have ne: "?p \<noteq> ''/''" using assms unfolding join_snoc by (simp add: plain_segment_def)
  have seg: "slash \<notin> set seg" using assms by (simp add: plain_segment_def)
  let ?dir = "if segs = [] then '''' else ''/'' @ join ''/'' segs"
  have split: "?p = ?dir @ slash # seg" unfolding join_snoc by simp
  have "rfind (\<lambda>c. c = slash) seg = None" using seg by (auto simp: rfind_None)
  then have rf: "rfind (\<lambda>c. c = slash) (?dir @ slash # seg) = Some (length ?dir)"
    unfolding rfind_append by simp
  show "remote_parent_path ?p = ''/'' @ join ''/'' segs"
    unfolding remote_parent_path_def canonical_trim_end[OF can ne] Let_def
    using ne rf unfolding split by simp
  show "ftp_parent_path ?p = ''/'' @ join ''/'' segs"
    unfolding ftp_parent_path_def split rsplit_once_append[OF seg] by simp
qed

lemma normalized_path:
  assumes "normalize_remote_path path = Inr p"
  shows "canonical p \<and> nul \<notin> set p \<and> (trim p = p \<longrightarrow> normalize_remote_path p = Inr p)"
proof -
  let ?abs = "if trim path = '''' then ''/'' else trim path"
  obtain segs where segs: "p = ''/'' @ join ''/'' segs" "list_all plain_segment segs"
    "segs = collapse [] (split_on (\<lambda>c. c = slash) ?abs)"
    using normalize_remote_path_ok[OF assms] by blast
  have "nul \<notin> set path" using assms by (auto simp: normalize_remote_path_def split: if_splits)
  then have abs: "nul \<notin> set ?abs" using set_trim[of path] by auto
  have "nul \<notin> set s" if "s \<in> set segs" for s
  proof -
    have "s \<in> set (split_on (\<lambda>c. c = slash) ?abs)" using that set_collapse segs(3) by fastforce
    then show ?thesis using split_on_pieces abs by metis
  qed
  then have "nul \<notin> set p" using set_join[of "''/''" segs] by (auto simp: segs(1))
  moreover have "normalize_remote_path p = Inr p" if "trim p = p"
    using that calculation split_canonical[OF segs(2)]
    by (simp add: normalize_remote_path_def Let_def segs(1))
  ultimately show ?thesis using segs(1,2) unfolding canonical_def by blast
qed

section \<open>Properties\<close>

text \<open>A remote path that normalises is canonical: it starts at the root, has no empty, dot or
  dot-dot segment (so it cannot climb above the root) and no null byte, and normalising it again
  returns it unless it begins or ends with white space.\<close>

theorem normalize_remote_path_canonical:
  assumes "normalize_remote_path path = Inr p"
  shows "canonical p \<and> nul \<notin> set p \<and> (trim p = p \<longrightarrow> normalize_remote_path p = Inr p)"
  using assms by (rule normalized_path)

lemma normalize_remote_path_canonical_witness:
  "canonical ''/srv/app'' \<and> nul \<notin> set ''/srv/app''"
proof -
  have "normalize_remote_path ''/srv//x/.././app/'' = Inr ''/srv/app''"
    by (simp add: normalize_remote_path_def trim_def trim_start_def trim_end_def
        trim_front.simps drop_one_def whitespace_def starts_with_def)
  from normalize_remote_path_canonical[OF this] show ?thesis by blast
qed

text \<open>White space at the end of a remote path is dropped with the path around it: a file whose name
  ends in a space is not the file that the normalised path names, so an operation on the first
  addresses the second; and normalising twice can differ from normalising once.\<close>

theorem normalize_drops_trailing_space:
  "normalize_remote_path ''/d/report '' = Inr ''/d/report''
   \<and> canonical ''/d/report '' \<and> canonical ''/d/report''
   \<and> normalize_remote_path ''/d /'' = Inr ''/d '' \<and> normalize_remote_path ''/d '' = Inr ''/d''"
proof -
  have "canonical ''/d/report ''" unfolding canonical_def
    by (rule exI[of _ "[''d'', ''report '']"]) (simp add: plain_segment_def)
  moreover have "canonical ''/d/report''" unfolding canonical_def
    by (rule exI[of _ "[''d'', ''report'']"]) (simp add: plain_segment_def)
  ultimately show ?thesis
    by (simp add: normalize_remote_path_def trim_def trim_start_def trim_end_def
        trim_front.simps drop_one_def whitespace_def starts_with_def)
qed

text \<open>The search's and the FTP client's notion of a parent directory agree on every canonical path
  but the root, and both give back the directory that a name was joined to.\<close>

theorem parents_agree:
  assumes "canonical dir" "plain_segment name"
  shows "remote_parent_path (ftp_join_path dir name) = dir
    \<and> ftp_parent_path (ftp_join_path dir name) = dir \<and> canonical (ftp_join_path dir name)"
proof -
  obtain segs where segs: "dir = ''/'' @ join ''/'' segs" "list_all plain_segment segs"
    using assms(1) by (auto simp: canonical_def)
  have join: "ftp_join_path dir name = ''/'' @ join ''/'' (segs @ [name])"
  proof (cases "segs = []")
    case True
    then show ?thesis by (simp add: ftp_join_path_def segs(1))
  next
    case False
    then have "join ''/'' segs \<noteq> ''''" using segs(2)
      by (cases segs; cases "tl segs") (auto simp: plain_segment_def)
    then have "dir \<noteq> ''/''" by (simp add: segs(1))
    then show ?thesis
      unfolding join_snoc ftp_join_path_def canonical_trim_end[OF assms(1) \<open>dir \<noteq> ''/''\<close>]
      using False by (simp add: segs(1))
  qed
  have all: "list_all plain_segment (segs @ [name])" using segs(2) assms(2) by simp
  then have "canonical (ftp_join_path dir name)" unfolding canonical_def join by blast
  then show ?thesis using canonical_parent[OF all] by (simp only: join segs(1)[symmetric])
qed

lemma parents_agree_witness:
  "remote_parent_path (ftp_join_path ''/'' ''etc'') = ''/''"
proof -
  have "canonical ''/''" unfolding canonical_def by (rule exI[of _ "[]"]) simp
  then show ?thesis using parents_agree[of "''/''" "''etc''"] by (simp add: plain_segment_def)
qed

text \<open>The numbered variants of a destination are pairwise different and stay in its directory:
  only the name after the last separator changes, and its extension is kept.\<close>

theorem numbered_destinations_fresh:
  "(numbered_destination d i = numbered_destination d j) = (i = j)
   \<and> (\<exists>parent stem suffix. d = parent @ stem @ suffix
        \<and> numbered_destination d i = parent @ stem @ '' ('' @ show_nat i @ '')'' @ suffix
        \<and> slash \<notin> set (stem @ suffix) \<and> backslash \<notin> set (stem @ suffix))"
proof -
  define sep where "sep = (case rfind (\<lambda>c. c = slash \<or> c = backslash) d of
      Some position \<Rightarrow> position + 1 | None \<Rightarrow> 0)"
  define name where "name = drop sep d"
  define ext where "ext = (case rfind (\<lambda>c. c = CHR ''.'') name of
      Some position \<Rightarrow> if 0 < position then position else length name | None \<Rightarrow> length name)"
  have run: "numbered_destination d k
      = take sep d @ take ext name @ '' ('' @ show_nat k @ '')'' @ drop ext name" for k
    unfolding numbered_destination_def sep_def name_def ext_def Let_def by (rule refl)
  have "\<not> (c = slash \<or> c = backslash)" if mem: "c \<in> set name" for c
  proof -
    obtain j where "j < length name" "c = name ! j" using mem by (metis in_set_conv_nth)
    then have j: "sep + j < length d" "c = d ! (sep + j)" by (auto simp: name_def)
    show ?thesis
    proof (cases "rfind (\<lambda>c. c = slash \<or> c = backslash) d")
      case None
      then show ?thesis using j nth_mem by (auto simp: rfind_None sep_def)
    next
      case (Some p)
      then show ?thesis using rfind_Some[OF Some] j by (simp add: sep_def)
    qed
  qed
  then have "slash \<notin> set (take ext name @ drop ext name) \<and> backslash \<notin> set (take ext name @ drop ext name)"
    by auto
  moreover have "d = take sep d @ take ext name @ drop ext name"
    by (simp only: append_take_drop_id name_def)
  ultimately have "\<exists>parent stem suffix. d = parent @ stem @ suffix
        \<and> numbered_destination d i = parent @ stem @ '' ('' @ show_nat i @ '')'' @ suffix
        \<and> slash \<notin> set (stem @ suffix) \<and> backslash \<notin> set (stem @ suffix)"
    using run[of i] by blast
  moreover have "(numbered_destination d i = numbered_destination d j) = (i = j)"
    unfolding run by simp
  ultimately show ?thesis by blast
qed

end
