(* ===== verification/Filesystems.thy ===== *)
theory Filesystems
  imports Rust_Strings Core_Model
begin

text \<open>
  \<^verbatim>\<open>crates/siftlane-core/src/remote.rs\<close>: the trait \<^verbatim>\<open>RemoteFilesystem\<close>, and the operations of the
  local filesystem (\<^verbatim>\<open>std::fs\<close>, \<^verbatim>\<open>tokio::fs\<close>) that the program calls.

  A trait object is a record of its methods; the state behind it (the server, the disk) has the type
  parameter \<open>'r\<close> or \<open>'l\<close>. The locales state what callers rely on: a view of the state as a map from
  paths to nodes, what a successful call does to the view, and that a call that fails leaves it
  alone. Bytes are the characters of a string.
\<close>

type_synonym bytes = string

section \<open>The trait\<close>

record RemoteCapabilities =
  cap_chmod :: bool
  cap_symlinks :: bool
  cap_fsync :: bool
  cap_resume :: bool
  cap_atomic_rename :: bool

record RemoteCommandResult =
  cmd_command :: string
  cmd_exit_status :: "u32 option"
  cmd_stdout :: string
  cmd_stderr :: string

record 'r RemoteFilesystem =
  capabilities :: RemoteCapabilities
  disconnect :: "('r, unit) act"
  list_directory :: "string \<Rightarrow> ('r, FileEntry list) act"
  metadata :: "string \<Rightarrow> ('r, FileEntry option) act"
  create_directory :: "string \<Rightarrow> ('r, unit) act"
  rename :: "string \<Rightarrow> string \<Rightarrow> ('r, unit) act"
  remove_file :: "string \<Rightarrow> ('r, unit) act"
  remove_directory :: "string \<Rightarrow> ('r, unit) act"
  set_permissions :: "string \<Rightarrow> u32 \<Rightarrow> ('r, unit) act"
  create_symlink :: "string \<Rightarrow> string \<Rightarrow> ('r, unit) act"
  read_chunk :: "string \<Rightarrow> nat \<Rightarrow> nat \<Rightarrow> ('r, bytes) act"
  write_chunk :: "string \<Rightarrow> nat \<Rightarrow> bytes \<Rightarrow> ('r, unit) act"
  sync_file :: "string \<Rightarrow> ('r, unit) act"
  read_privileged :: "string \<Rightarrow> string option \<Rightarrow> ('r, bytes) act"
  write_privileged :: "string \<Rightarrow> bytes \<Rightarrow> string option \<Rightarrow> ('r, unit) act"
  create_privileged :: "string \<Rightarrow> bool \<Rightarrow> string option \<Rightarrow> ('r, unit) act"
  delete_privileged :: "string \<Rightarrow> bool \<Rightarrow> string option \<Rightarrow> ('r, unit) act"
  package_directory :: "string \<Rightarrow> ArchiveFormat \<Rightarrow> ('r, string) act"
  execute_commands :: "string list \<Rightarrow> string option \<Rightarrow> ('r, RemoteCommandResult list) act"

text \<open>The default body of \<^verbatim>\<open>create_symlink\<close>.\<close>

definition no_symlinks :: "string \<Rightarrow> string \<Rightarrow> ('r, unit) act" where
  "no_symlinks path target =
     err (new_error Unsupported ''This protocol does not support symbolic links'')"

section \<open>The local filesystem\<close>

datatype IoErrorKind =
    IoNotFound | IoPermissionDenied | IoAlreadyExists | IoTimedOut | IoUnexpectedEof | IoOther

record io_error =
  io_kind :: IoErrorKind
  io_text :: string

type_synonym ('l, 'a) io = "('l, io_error, 'a) eff"

record local_metadata =
  lm_is_dir :: bool
  lm_is_file :: bool
  lm_is_symlink :: bool
  lm_len :: nat
  lm_mode :: u32
  lm_modified :: datetime

text \<open>\<open>l_create\<close> is \<^verbatim>\<open>File::create\<close>, \<open>l_open\<close> opens for reading, \<open>l_open_rw\<close> opens for reading and writing and
  creates an empty file where there is none. An open file is its path: \<open>l_read_at\<close> and \<open>l_write_at\<close> are
  \<^verbatim>\<open>read\<close> and \<^verbatim>\<open>write_all\<close> of a handle that stands at the given position, \<open>l_sync\<close> is its flush and
  \<^verbatim>\<open>sync_all\<close>. \<open>l_read\<close> and \<open>l_write\<close> are \<^verbatim>\<open>fs::read\<close> and \<^verbatim>\<open>fs::write\<close> of a whole file, \<open>l_create_new\<close> opens with
  \<^verbatim>\<open>create_new\<close>, and \<open>l_symlink target path\<close> makes a link. \<open>l_read_dir\<close> yields one item per entry: its name, or the error of that item. The text of a link
  target is what \<^verbatim>\<open>to_string_lossy\<close> makes of it.\<close>

record 'l LocalFs =
  l_is_dir :: "string \<Rightarrow> ('l, bool) io"
  l_read_dir :: "string \<Rightarrow> ('l, (io_error + string) list) io"
  l_symlink_metadata :: "string \<Rightarrow> ('l, local_metadata) io"
  l_metadata :: "string \<Rightarrow> ('l, local_metadata) io"
  l_read_link :: "string \<Rightarrow> ('l, string) io"
  l_try_exists :: "string \<Rightarrow> ('l, bool) io"
  l_create :: "string \<Rightarrow> ('l, unit) io"
  l_open :: "string \<Rightarrow> ('l, unit) io"
  l_open_rw :: "string \<Rightarrow> ('l, unit) io"
  l_read_at :: "string \<Rightarrow> nat \<Rightarrow> nat \<Rightarrow> ('l, bytes) io"
  l_write_at :: "string \<Rightarrow> nat \<Rightarrow> bytes \<Rightarrow> ('l, unit) io"
  l_set_len :: "string \<Rightarrow> nat \<Rightarrow> ('l, unit) io"
  l_sync :: "string \<Rightarrow> ('l, unit) io"
  l_rename :: "string \<Rightarrow> string \<Rightarrow> ('l, unit) io"
  l_remove_file :: "string \<Rightarrow> ('l, unit) io"
  l_create_dir :: "string \<Rightarrow> ('l, unit) io"
  l_create_dir_all :: "string \<Rightarrow> ('l, unit) io"
  l_set_permissions :: "string \<Rightarrow> u32 \<Rightarrow> ('l, unit) io"
  l_set_modified :: "string \<Rightarrow> datetime \<Rightarrow> ('l, unit) io"
  l_read :: "string \<Rightarrow> ('l, bytes) io"
  l_write :: "string \<Rightarrow> bytes \<Rightarrow> ('l, unit) io"
  l_create_new :: "string \<Rightarrow> ('l, unit) io"
  l_remove_dir_all :: "string \<Rightarrow> ('l, unit) io"
  l_symlink :: "string \<Rightarrow> string \<Rightarrow> ('l, unit) io"

section \<open>What callers rely on\<close>

text \<open>The view of a store: the content of its regular files, by path. A move and a delete that report
  success did what they say. When they report an error the store may still have carried them out (the
  reply of a server can be lost), and nothing else has happened.\<close>

definition moved :: "string \<Rightarrow> string \<Rightarrow> bytes \<Rightarrow> (string \<rightharpoonup> bytes) \<Rightarrow> (string \<rightharpoonup> bytes)" where
  "moved p q c v = v(q \<mapsto> c, p := None)"

locale moving_files =
  fixes view :: "'s \<Rightarrow> string \<rightharpoonup> bytes"
    and present :: "string \<Rightarrow> ('s, 'e, bool) eff"
    and move :: "string \<Rightarrow> string \<Rightarrow> ('s, 'e, unit) eff"
    and delete :: "string \<Rightarrow> ('s, 'e, unit) eff"
  assumes present_same: "view (snd (present p s)) = view s"
    and present_false: "present p s = (Inr False, s') \<Longrightarrow> view s p = None"
    and move_ok: "move p q s = (Inr u, s') \<Longrightarrow> view s p = Some c \<Longrightarrow> p \<noteq> q \<Longrightarrow> view s' = moved p q c (view s)"
    and move_err: "move p q s = (Inl e, s') \<Longrightarrow> view s p = Some c \<Longrightarrow> p \<noteq> q \<Longrightarrow>
      view s' = view s \<or> view s' = moved p q c (view s)"
    and delete_ok: "delete p s = (Inr u, s') \<Longrightarrow> view s' = (view s)(p := None)"
    and delete_err: "delete p s = (Inl e, s') \<Longrightarrow> view s' = view s \<or> view s' = (view s)(p := None)"

text \<open>A file written at an offset inside it: what stands up to the end of the write is known, nothing is
  promised of the bytes after it (an FTP server may cut them).\<close>

definition content :: "bytes option \<Rightarrow> bytes" where
  "content c = (case c of Some b \<Rightarrow> b | None \<Rightarrow> [])"

lemma content_simps [simp]: "content (Some b) = b" "content None = []"
  by (simp_all add: content_def)

definition overwritten :: "bytes \<Rightarrow> nat \<Rightarrow> bytes \<Rightarrow> bytes \<Rightarrow> bool" where
  "overwritten old offset new c = (take (offset + length new) c = take offset old @ new
     \<and> length c \<le> max (length old) (offset + length new))"

locale remote_filesystem =
  fixes remote :: "'r RemoteFilesystem" and view :: "'r \<Rightarrow> string \<rightharpoonup> bytes"
  assumes metadata_same: "view (snd (metadata remote p s)) = view s"
    and metadata_absent: "metadata remote p s = (Inr None, s') \<Longrightarrow> view s p = None"
    and metadata_size: "metadata remote p s = (Inr (Some entry), s') \<Longrightarrow> view s p = Some c \<Longrightarrow>
      ent_kind entry = File \<Longrightarrow> ent_size entry = Some n \<Longrightarrow> n = length c"
    and read_same: "view (snd (read_chunk remote p offset n s)) = view s"
    and read_prefix: "read_chunk remote p offset n s = (Inr buf, s') \<Longrightarrow> view s p = Some c \<Longrightarrow>
      prefix buf (drop offset c) \<and> length buf \<le> n"
    and write_ok: "write_chunk remote p offset data s = (Inr u, s') \<Longrightarrow> offset \<le> length (content (view s p)) \<Longrightarrow>
      \<exists>c. view s' p = Some c \<and> overwritten (content (view s p)) offset data c"
    and write_only: "q \<noteq> p \<Longrightarrow> view (snd (write_chunk remote p offset data s)) q = view s q"
    and sync_same: "view (snd (sync_file remote p s)) = view s"
    and permissions_same: "view (snd (set_permissions remote p mode s)) = view s"
    and rename_ok: "rename remote p q s = (Inr u, s') \<Longrightarrow> view s p = Some c \<Longrightarrow> p \<noteq> q \<Longrightarrow>
      view s' = moved p q c (view s)"
    and rename_err: "rename remote p q s = (Inl e, s') \<Longrightarrow> view s p = Some c \<Longrightarrow> p \<noteq> q \<Longrightarrow>
      view s' = view s \<or> view s' = moved p q c (view s)"
    and remove_ok: "remove_file remote p s = (Inr u, s') \<Longrightarrow> view s' = (view s)(p := None)"
    and remove_err: "remove_file remote p s = (Inl e, s') \<Longrightarrow>
      view s' = view s \<or> view s' = (view s)(p := None)"

text \<open>A path at which only a regular file can stand, as far as the server reports.\<close>

definition plain :: "'r RemoteFilesystem \<Rightarrow> ('r \<Rightarrow> string \<rightharpoonup> bytes) \<Rightarrow> string \<Rightarrow> bool" where
  "plain remote view p \<longleftrightarrow> (\<forall>s entry s'. metadata remote p s = (Inr (Some entry), s') \<longrightarrow>
     ent_kind entry = File \<and> view s p \<noteq> None)"

locale local_filesystem =
  fixes fs :: "'l LocalFs" and view :: "'l \<Rightarrow> string \<rightharpoonup> bytes"
  assumes reads_same:
      "view (snd (l_metadata fs p s)) = view s" "view (snd (l_try_exists fs p s)) = view s"
      "view (snd (l_open fs p s)) = view s" "view (snd (l_read_at fs p offset n s)) = view s"
      "view (snd (l_sync fs p s)) = view s" "view (snd (l_set_permissions fs p mode s)) = view s"
      "view (snd (l_set_modified fs p t s)) = view s" "view (snd (l_create_dir_all fs p s)) = view s"
    and metadata_len: "l_metadata fs p s = (Inr meta, s') \<Longrightarrow> view s p = Some c \<Longrightarrow> lm_len meta = length c"
    and exists_false: "l_try_exists fs p s = (Inr False, s') \<Longrightarrow> view s p = None"
    and read_prefix: "l_read_at fs p offset n s = (Inr buf, s') \<Longrightarrow> view s p = Some c \<Longrightarrow>
      prefix buf (drop offset c) \<and> length buf \<le> n"
    and read_some: "l_read_at fs p offset n s = (Inr [], s') \<Longrightarrow> view s p = Some c \<Longrightarrow> 0 < n \<Longrightarrow>
      length c \<le> offset"
    and open_ok: "l_open_rw fs p s = (Inr u, s') \<Longrightarrow> view s' = (view s)(p \<mapsto> content (view s p))"
    and set_len_ok: "l_set_len fs p n s = (Inr u, s') \<Longrightarrow> view s p = Some c \<Longrightarrow> n \<le> length c \<Longrightarrow>
      view s' = (view s)(p \<mapsto> take n c)"
    and write_ok: "l_write_at fs p offset data s = (Inr u, s') \<Longrightarrow> view s p = Some c \<Longrightarrow> offset \<le> length c \<Longrightarrow>
      \<exists>c'. view s' = (view s)(p \<mapsto> c') \<and> overwritten c offset data c'"
    and rename_ok: "l_rename fs p q s = (Inr u, s') \<Longrightarrow> view s p = Some c \<Longrightarrow> p \<noteq> q \<Longrightarrow>
      view s' = moved p q c (view s)"
    and rename_err: "l_rename fs p q s = (Inl e, s') \<Longrightarrow> view s p = Some c \<Longrightarrow> p \<noteq> q \<Longrightarrow>
      view s' = view s \<or> view s' = moved p q c (view s)"
    and remove_ok: "l_remove_file fs p s = (Inr u, s') \<Longrightarrow> view s' = (view s)(p := None)"
    and remove_err: "l_remove_file fs p s = (Inl e, s') \<Longrightarrow>
      view s' = view s \<or> view s' = (view s)(p := None)"
begin

lemma moving: "moving_files view (l_try_exists fs) (l_rename fs) (l_remove_file fs)"
  by (rule moving_files.intro)
    (simp_all add: reads_same, fact exists_false, fact rename_ok, fact rename_err, fact remove_ok, fact remove_err)

end

sublocale local_filesystem \<subseteq> moves: moving_files view "l_try_exists fs" "l_rename fs" "l_remove_file fs"
  by (rule moving)

end
