(* ===== verification/Transfer_Plan.thy ===== *)
theory Transfer_Plan
  imports Paths Filesystems "HOL-Library.List_Lexorder"
begin

text \<open>
  \<^verbatim>\<open>src-tauri/src/transfer_plan.rs\<close>: the plan of a directory transfer. A \<^verbatim>\<open>BTreeSet<String>\<close> is a
  strictly sorted list of strings in byte order. The two walks pop directories from a stack; they
  end because a directory deeper than \<^verbatim>\<open>MAX_TRANSFER_DEPTH\<close> is an error, so they are total functions,
  justified by the multiset of the depths still to go. Paths are valid UTF-8 throughout.
\<close>

section \<open>Data\<close>

definition MAX_TRANSFER_FILES :: nat where "MAX_TRANSFER_FILES = 5000"
definition MAX_TRANSFER_DEPTH :: nat where "MAX_TRANSFER_DEPTH = 64"

datatype TransferPlanMode = IncludeRoot | ContentsOnly

record PlannedFile =
  pf_source_path :: string
  pf_destination_path :: string

record PlannedSymlink =
  ps_target :: string
  ps_destination_path :: string

record TransferPlan =
  directories :: "string list"
  files :: "PlannedFile list"
  symlinks :: "PlannedSymlink list"

definition plan_is_empty :: "TransferPlan \<Rightarrow> bool" where
  "plan_is_empty p = (directories p = [] \<and> files p = [] \<and> symlinks p = [])"

section \<open>Paths of a plan\<close>

definition is_sep :: "char \<Rightarrow> bool" where
  "is_sep c = (c = slash \<or> c = backslash)"

definition path_to_string :: "string \<Rightarrow> string result" where
  "path_to_string path = Inr path"

definition join_destination :: "string \<Rightarrow> string \<Rightarrow> bool \<Rightarrow> string" where
  "join_destination base relative remote =
     (if relative = '''' then
        (if remote then
           (let trimmed = trim_end_matches (\<lambda>c. c = slash) base
            in if trimmed = '''' then ''/'' else trimmed)
         else base)
      else if remote then
        trim_end_matches (\<lambda>c. c = slash) base @ ''/'' @ replace_char backslash ''/'' relative
      else fold (\<lambda>segment path. if segment = '''' \<or> segment = ''.'' then path else path_push path segment)
             (split_on is_sep relative) base)"

definition with_prefix :: "string \<Rightarrow> string \<Rightarrow> string" where
  "with_prefix pre relative =
     (if pre = '''' then relative else if relative = '''' then pre else pre @ ''/'' @ relative)"

definition parent_relative :: "string \<Rightarrow> string option" where
  "parent_relative relative =
     (let trimmed = trim_matches is_sep relative
      in if trimmed = '''' then None
         else case rsplit_once slash (replace_char backslash ''/'' trimmed) of
                None \<Rightarrow> None
              | Some (parent, _) \<Rightarrow> if parent = '''' then None else Some parent)"

definition escape_error :: AppError where
  "escape_error = new_error InvalidInput ''Transfer paths must stay inside the source directory''"

definition relative_error :: AppError where
  "relative_error = new_error InternalError ''Could not build a relative transfer path''"

fun relative_segments :: "component list \<Rightarrow> string list result" where
  "relative_segments [] = Inr []"
| "relative_segments (c # cs) =
     (case c of
        Normal v \<Rightarrow> (case relative_segments cs of Inl e \<Rightarrow> Inl e | Inr vs \<Rightarrow> Inr (v # vs))
      | CurDir \<Rightarrow> relative_segments cs
      | _ \<Rightarrow> Inl escape_error)"

definition relative_from :: "string \<Rightarrow> string \<Rightarrow> string result" where
  "relative_from root path =
     (case strip_prefix (components root) (components path) of
        None \<Rightarrow> Inl relative_error
      | Some cs \<Rightarrow> map_sum (\<lambda>e. e) (join ''/'') (relative_segments cs))"

definition remote_relative :: "string \<Rightarrow> string \<Rightarrow> string result" where
  "remote_relative root path =
     (let root = trim_end_matches (\<lambda>c. c = slash) root;
          path = trim_end_matches (\<lambda>c. c = slash) path
      in if path = root \<or> (root = '''' \<and> path = ''/'') then Inr ''''
         else let pre = (if root = '''' \<or> root = ''/'' then ''/'' else root @ ''/'')
              in case strip_prefix pre path of
                   None \<Rightarrow> Inl relative_error
                 | Some relative \<Rightarrow>
                     if relative = '''' \<or> ''..'' \<in> set (split_on (\<lambda>c. c = slash) relative)
                     then Inl escape_error
                     else Inr (replace_char backslash ''/'' relative))"

definition root_error :: AppError where
  "root_error = new_error InvalidInput ''Cannot transfer the filesystem root''"

definition directory_name :: "string \<Rightarrow> string result" where
  "directory_name path = (case file_name path of
      Some name \<Rightarrow> if name = '''' then Inl root_error else Inr name
    | None \<Rightarrow> Inl root_error)"

definition remote_directory_name :: "string \<Rightarrow> string result" where
  "remote_directory_name path =
     (let trimmed = trim_end_matches (\<lambda>c. c = slash) path
      in if trimmed = '''' \<or> trimmed = ''/'' then Inl root_error
         else let name = last (split_on (\<lambda>c. c = slash) trimmed)
              in if name = '''' then Inl root_error else Inr name)"

section \<open>Building the plan\<close>

definition btree_insert :: "'a :: linorder \<Rightarrow> 'a list \<Rightarrow> 'a list" where
  "btree_insert x xs = insort_insert x xs"

lemma replace_char_length [simp]: "length (replace_char a [b] s) = length s"
  by (induction s) (auto simp: replace_char_def)

lemma trim_matches_length: "length (trim_matches P s) \<le> length s"
  using length_dropWhile_le[of P s] length_dropWhile_le[of P "rev (dropWhile P s)"]
  by (simp add: trim_matches_def trim_end_matches_def trim_start_matches_def)

lemma rsplit_once_length:
  assumes "rsplit_once c s = Some (a, b)"
  shows "length a < length s"
proof -
  obtain a' b' where split: "split_once c (rev s) = Some (a', b')" "a = rev b'"
    using assms by (auto simp: rsplit_once_def)
  have "length (rev s) = length (a' @ c # b')" using split_once_Some[OF split(1)] by simp
  then show ?thesis using split(2) by simp
qed

lemma parent_relative_length: "parent_relative r = Some p \<Longrightarrow> length p < length r"
  using rsplit_once_length[of slash "replace_char backslash ''/'' (trim_matches is_sep r)"]
    trim_matches_length[of is_sep r]
  by (auto simp: parent_relative_def Let_def split: option.splits prod.splits if_splits)

function insert_ancestor_dirs :: "string list \<Rightarrow> string \<Rightarrow> string \<Rightarrow> bool \<Rightarrow> string list" where
  "insert_ancestor_dirs dirs base relative remote =
     (case parent_relative relative of
        None \<Rightarrow> dirs
      | Some parent \<Rightarrow>
          insert_ancestor_dirs (btree_insert (join_destination base parent remote) dirs) base parent remote)"
  by pat_completeness auto
termination by (relation "measure (\<lambda>(_, _, r, _). length r)") (auto simp: parent_relative_length)

declare insert_ancestor_dirs.simps [simp del]

definition path_depth :: "string \<Rightarrow> nat" where
  "path_depth path = length (filter (\<lambda>c. c = slash) path) + length (filter (\<lambda>c. c = backslash) path)"

definition dirs_of_file :: "string \<Rightarrow> bool \<Rightarrow> string \<times> string \<Rightarrow> string list \<Rightarrow> string list" where
  "dirs_of_file base remote f dirs = (case parent_relative (snd f) of
      None \<Rightarrow> dirs
    | Some parent \<Rightarrow>
        insert_ancestor_dirs (btree_insert (join_destination base parent remote) dirs) base parent remote)"

definition dirs_of_symlink :: "string \<Rightarrow> bool \<Rightarrow> string \<times> string \<Rightarrow> string list \<Rightarrow> string list" where
  "dirs_of_symlink base remote f dirs = (case parent_relative (snd f) of
      None \<Rightarrow> dirs
    | Some parent \<Rightarrow> btree_insert (join_destination base parent remote) dirs)"

definition build_plan ::
  "string \<Rightarrow> bool \<Rightarrow> string list \<Rightarrow> (string \<times> string) list \<Rightarrow> (string \<times> string) list \<Rightarrow> string
     \<Rightarrow> TransferPlanMode \<Rightarrow> TransferPlan result" where
  "build_plan base remote relative_dirs relative_files relative_symlinks pre mode =
     (let dirs0 = (if mode = IncludeRoot \<and> pre \<noteq> '''' then [join_destination base pre remote] else []);
          dirs1 = fold (\<lambda>relative dirs. insert_ancestor_dirs
                    (btree_insert (join_destination base relative remote) dirs) base relative remote)
                    relative_dirs dirs0;
          dirs2 = fold (dirs_of_file base remote) relative_files dirs1;
          dirs3 = fold (dirs_of_symlink base remote) relative_symlinks dirs2;
          plan = \<lparr>directories = sort_key path_depth dirs3,
                  files = map (\<lambda>(source, relative). \<lparr>pf_source_path = source,
                             pf_destination_path = join_destination base relative remote\<rparr>) relative_files,
                  symlinks = map (\<lambda>(target, relative). \<lparr>ps_target = target,
                             ps_destination_path = join_destination base relative remote\<rparr>) relative_symlinks\<rparr>
      in if plan_is_empty plan
         then Inl (new_error InvalidInput ''No files or folders found to transfer'')
         else Inr plan)"

section \<open>The walks\<close>

record plan_walk =
  walk_dirs :: "string list"
  walk_files :: "(string \<times> string) list"
  walk_symlinks :: "(string \<times> string) list"
  walk_stack :: "(string \<times> nat) list"

definition too_deep :: AppError where
  "too_deep = new_error InvalidInput
     (''Directories deeper than '' @ show_nat MAX_TRANSFER_DEPTH @ '' levels cannot be queued'')"

definition too_many :: AppError where
  "too_many = new_error InvalidInput
     (''Directories with more than '' @ show_nat MAX_TRANSFER_FILES @ '' files cannot be queued'')"

definition add_directory :: "string \<Rightarrow> string \<Rightarrow> nat \<Rightarrow> plan_walk \<Rightarrow> plan_walk" where
  "add_directory planned path depth w =
     w\<lparr>walk_dirs := (if planned \<noteq> '''' then btree_insert planned (walk_dirs w) else walk_dirs w),
       walk_stack := (path, depth + 1) # walk_stack w\<rparr>"

definition add_symlink :: "string \<Rightarrow> string \<Rightarrow> plan_walk \<Rightarrow> plan_walk" where
  "add_symlink target planned w = w\<lparr>walk_symlinks := walk_symlinks w @ [(target, planned)]\<rparr>"

definition add_file :: "string \<Rightarrow> string \<Rightarrow> plan_walk \<Rightarrow> plan_walk" where
  "add_file source planned w = w\<lparr>walk_files := walk_files w @ [(source, planned)]\<rparr>"

text \<open>One entry of a remote listing.\<close>

definition remote_entry ::
  "string \<Rightarrow> string \<Rightarrow> SymlinkPolicy \<Rightarrow> nat \<Rightarrow> FileEntry \<Rightarrow> plan_walk \<Rightarrow> plan_walk result" where
  "remote_entry source pre policy depth entry w =
     (case ent_kind entry of
        Other \<Rightarrow> Inr w
      | Symlink \<Rightarrow>
          (case policy of
             SkipLink \<Rightarrow> Inr w
           | CopyLink \<Rightarrow>
               (case remote_relative source (ent_path entry) of
                  Inl e \<Rightarrow> Inl e
                | Inr relative \<Rightarrow>
                    (case ent_symlink_target entry of
                       None \<Rightarrow> Inl (new_error Unsupported
                         ''The server did not report the symbolic link target'')
                     | Some target \<Rightarrow> Inr (add_symlink target (with_prefix pre relative) w)))
           | Dereference \<Rightarrow> Inl (new_error InvalidInput
               (''The remote protocol cannot safely dereference symbolic link '' @ ent_path entry)))
      | Directory \<Rightarrow>
          (case remote_relative source (ent_path entry) of
             Inl e \<Rightarrow> Inl e
           | Inr relative \<Rightarrow> Inr (add_directory (with_prefix pre relative) (ent_path entry) depth w))
      | File \<Rightarrow>
          if MAX_TRANSFER_FILES \<le> length (walk_files w) then Inl too_many
          else (case remote_relative source (ent_path entry) of
             Inl e \<Rightarrow> Inl e
           | Inr relative \<Rightarrow> Inr (add_file (ent_path entry) (with_prefix pre relative) w)))"

text \<open>One entry of a local listing.\<close>

definition io_error_as :: "ErrorCode \<Rightarrow> string \<Rightarrow> io_error \<Rightarrow> AppError" where
  "io_error_as c msg source = with_detail (new_error c msg) (io_text source)"

definition local_found ::
  "string \<Rightarrow> string \<Rightarrow> string \<Rightarrow> nat \<Rightarrow> local_metadata \<Rightarrow> plan_walk \<Rightarrow> plan_walk result" where
  "local_found source pre path depth meta w =
     (case relative_from source path of
        Inl e \<Rightarrow> Inl e
      | Inr relative \<Rightarrow>
          if lm_is_dir meta then Inr (add_directory (with_prefix pre relative) path depth w)
          else if lm_is_file meta then
            if MAX_TRANSFER_FILES \<le> length (walk_files w) then Inl too_many
            else (case path_to_string path of
                    Inl e \<Rightarrow> Inl e
                  | Inr source_path \<Rightarrow> Inr (add_file source_path (with_prefix pre relative) w))
          else Inr w)"

definition local_entry ::
  "'l LocalFs \<Rightarrow> string \<Rightarrow> string \<Rightarrow> SymlinkPolicy \<Rightarrow> string \<Rightarrow> nat \<Rightarrow> io_error + string \<Rightarrow> plan_walk
     \<Rightarrow> ('l, plan_walk) act" where
  "local_entry fs source pre policy current depth item w =
     (case item of
        Inl e \<Rightarrow> err (io_error_as IoError ''Could not read a local directory entry'' e)
      | Inr name \<Rightarrow>
          let path = path_push current name
          in and_then (map_err (io_error_as IoError ''Could not read local entry metadata'')
                 (l_symlink_metadata fs path))
               (\<lambda>meta.
                 if lm_is_symlink meta then
                   (case policy of
                      SkipLink \<Rightarrow> ok w
                    | CopyLink \<Rightarrow>
                        and_then (lift_result (relative_from source path))
                          (\<lambda>relative. and_then (map_err (io_error_as IoError ''Could not read symbolic link'')
                               (l_read_link fs path))
                             (\<lambda>target. ok (add_symlink target (with_prefix pre relative) w)))
                    | Dereference \<Rightarrow>
                        and_then (map_err (io_error_as IoError ''Could not dereference local symbolic link'')
                             (l_metadata fs path))
                          (\<lambda>meta. lift_result (local_found source pre path depth meta w)))
                 else lift_result (local_found source pre path depth meta w)))"

text \<open>Processing entries only pushes directories one level deeper.\<close>

definition pushes :: "nat \<Rightarrow> (string \<times> nat) list \<Rightarrow> plan_walk \<Rightarrow> bool" where
  "pushes depth rest w \<longleftrightarrow> (\<exists>new. walk_stack w = new @ rest \<and> (\<forall>(_, d) \<in> set new. d = depth + 1))"

lemma add_pushes:
  "pushes depth rest w \<Longrightarrow> pushes depth rest (add_directory planned path depth w)"
  "pushes depth rest w \<Longrightarrow> pushes depth rest (add_symlink target planned w)"
  "pushes depth rest w \<Longrightarrow> pushes depth rest (add_file source planned w)"
proof -
  assume "pushes depth rest w"
  then obtain new where new: "walk_stack w = new @ rest" "\<forall>(_, d) \<in> set new. d = depth + 1"
    by (auto simp: pushes_def)
  then show "pushes depth rest (add_directory planned path depth w)"
    unfolding pushes_def by (intro exI[of _ "(path, depth + 1) # new"]) (simp add: add_directory_def)
qed (auto simp: pushes_def add_symlink_def add_file_def)

lemma remote_entry_pushes:
  "remote_entry source pre policy depth entry w = Inr w' \<Longrightarrow> pushes depth rest w \<Longrightarrow> pushes depth rest w'"
  by (auto simp: remote_entry_def add_pushes split: EntryKind.splits SymlinkPolicy.splits sum.splits
      option.splits if_splits)

lemma local_found_pushes:
  "local_found source pre path depth meta w = Inr w' \<Longrightarrow> pushes depth rest w \<Longrightarrow> pushes depth rest w'"
  by (auto simp: local_found_def add_pushes split: sum.splits if_splits)

lemma local_entry_pushes:
  "local_entry fs source pre policy current depth item w l = (Inr w', l') \<Longrightarrow> pushes depth rest w \<Longrightarrow>
     pushes depth rest w'"
  by (auto simp: local_entry_def Let_def run_simps add_pushes local_found_pushes
      split: sum.splits prod.splits SymlinkPolicy.splits if_splits)

definition to_go :: "(string \<times> nat) list \<Rightarrow> nat multiset" where
  "to_go stack = image_mset (\<lambda>(_, d). MAX_TRANSFER_DEPTH + 1 - d) (mset stack)"

lemma to_go_decreases:
  assumes "depth \<le> MAX_TRANSFER_DEPTH" "pushes depth rest w"
  shows "(to_go (walk_stack w), to_go ((current, depth) # rest)) \<in> mult less_than"
proof -
  obtain new where new: "walk_stack w = new @ rest" "\<forall>(_, d) \<in> set new. d = depth + 1"
    using assms(2) by (auto simp: pushes_def)
  have "(to_go rest + to_go new, to_go rest + {#MAX_TRANSFER_DEPTH + 1 - depth#}) \<in> mult less_than"
    by (rule one_step_implies_mult) (use new(2) assms(1) in \<open>auto simp: to_go_def\<close>)
  then show ?thesis by (simp add: to_go_def new(1) add.commute)
qed

lemma entries_push:
  assumes "try_fold (remote_entry source pre policy depth) entries (w\<lparr>walk_stack := rest\<rparr>) = Inr w'"
  shows "pushes depth rest w'"
  by (rule try_fold_invariant[where P = "pushes depth rest", OF assms])
    (auto simp: pushes_def[of _ _ "w\<lparr>walk_stack := rest\<rparr>"] intro: remote_entry_pushes)

lemma local_entries_push:
  assumes "fold_each (local_entry fs source pre policy current depth) items (w\<lparr>walk_stack := rest\<rparr>) l
    = (Inr w', l')"
  shows "pushes depth rest w'"
  by (rule fold_each_invariant[where P = "pushes depth rest", OF assms])
    (auto simp: pushes_def[of _ _ "w\<lparr>walk_stack := rest\<rparr>"] intro: local_entry_pushes)

function remote_walk ::
  "'r RemoteFilesystem \<Rightarrow> string \<Rightarrow> string \<Rightarrow> SymlinkPolicy \<Rightarrow> plan_walk \<Rightarrow> ('r, plan_walk) act" where
  "remote_walk client source pre policy w r =
     (case walk_stack w of
        [] \<Rightarrow> (Inr w, r)
      | (current, depth) # rest \<Rightarrow>
          if MAX_TRANSFER_DEPTH < depth then (Inl too_deep, r)
          else (case list_directory client current r of
                  (Inl e, r') \<Rightarrow> (Inl e, r')
                | (Inr entries, r') \<Rightarrow>
                    (case try_fold (remote_entry source pre policy depth) entries (w\<lparr>walk_stack := rest\<rparr>) of
                       Inl e \<Rightarrow> (Inl e, r')
                     | Inr w' \<Rightarrow> remote_walk client source pre policy w' r')))"
  by pat_completeness auto
termination
  by (relation "inv_image (mult less_than) (\<lambda>(_, _, _, _, w, _). to_go (walk_stack w))")
    (auto intro: wf_mult to_go_decreases entries_push)

function local_walk ::
  "'l LocalFs \<Rightarrow> string \<Rightarrow> string \<Rightarrow> SymlinkPolicy \<Rightarrow> plan_walk \<Rightarrow> ('l, plan_walk) act" where
  "local_walk fs source pre policy w l =
     (case walk_stack w of
        [] \<Rightarrow> (Inr w, l)
      | (current, depth) # rest \<Rightarrow>
          if MAX_TRANSFER_DEPTH < depth then (Inl too_deep, l)
          else (case l_read_dir fs current l of
                  (Inl e, l') \<Rightarrow> (Inl (io_error_as IoError ''Could not read the local directory'' e), l')
                | (Inr items, l') \<Rightarrow>
                    (case fold_each (local_entry fs source pre policy current depth) items
                            (w\<lparr>walk_stack := rest\<rparr>) l' of
                       (Inl e, l'') \<Rightarrow> (Inl e, l'')
                     | (Inr w', l'') \<Rightarrow> local_walk fs source pre policy w' l'')))"
  by pat_completeness auto
termination
  by (relation "inv_image (mult less_than) (\<lambda>(_, _, _, _, w, _). to_go (walk_stack w))")
    (auto intro: wf_mult to_go_decreases local_entries_push[OF sym])

declare remote_walk.simps [simp del] local_walk.simps [simp del]

definition start_walk :: "string \<Rightarrow> plan_walk" where
  "start_walk source = \<lparr>walk_dirs = [], walk_files = [], walk_symlinks = [], walk_stack = [(source, 0)]\<rparr>"

definition plan_remote_directory ::
  "'r RemoteFilesystem \<Rightarrow> string \<Rightarrow> string \<Rightarrow> bool \<Rightarrow> TransferPlanMode \<Rightarrow> SymlinkPolicy
     \<Rightarrow> ('r, TransferPlan) act" where
  "plan_remote_directory client source_arg base remote mode policy =
     (let trimmed = trim_end_matches (\<lambda>c. c = slash) source_arg;
          source = (if trimmed = '''' then ''/'' else trimmed)
      in and_then (metadata client source) (\<lambda>meta.
           case meta of
             None \<Rightarrow> err (new_error NotFound ''The source directory was not found'')
           | Some entry \<Rightarrow>
               if ent_kind entry \<noteq> Directory
               then err (new_error InvalidInput ''The source path is not a directory'')
               else and_then (lift_result (remote_directory_name source)) (\<lambda>root_name.
                 let pre = (case mode of IncludeRoot \<Rightarrow> root_name | ContentsOnly \<Rightarrow> '''')
                 in and_then (remote_walk client source pre policy (start_walk source)) (\<lambda>w.
                      lift_result (build_plan base remote (walk_dirs w) (walk_files w) (walk_symlinks w)
                        pre mode)))))"

definition plan_local_directory ::
  "'l LocalFs \<Rightarrow> string \<Rightarrow> string \<Rightarrow> bool \<Rightarrow> TransferPlanMode \<Rightarrow> SymlinkPolicy \<Rightarrow> ('l, TransferPlan) act"
where
  "plan_local_directory fs source base remote mode policy =
     and_then (attempt (l_is_dir fs source)) (\<lambda>is_dir.
       if is_dir \<noteq> Inr True then err (new_error NotFound ''The source directory was not found'')
       else and_then (lift_result (directory_name source)) (\<lambda>root_name.
         let pre = (case mode of IncludeRoot \<Rightarrow> root_name | ContentsOnly \<Rightarrow> '''')
         in and_then (local_walk fs source pre policy (start_walk source)) (\<lambda>w.
              lift_result (build_plan base remote (walk_dirs w) (walk_files w) (walk_symlinks w)
                pre mode))))"

section \<open>Lemmas: the directories of a plan\<close>

text \<open>The proper ancestors of a relative path, nearest first.\<close>

function ancestors :: "string \<Rightarrow> string list" where
  "ancestors relative = (case parent_relative relative of None \<Rightarrow> [] | Some p \<Rightarrow> p # ancestors p)"
  by pat_completeness auto
termination by (relation "measure length") (auto simp: parent_relative_length)

declare ancestors.simps [simp del]

lemma btree_insert_set [simp]: "set (btree_insert x xs) = insert x (set xs)"
  by (simp add: btree_insert_def set_insort_insert)

lemma btree_insert_sorted: "sorted xs \<Longrightarrow> distinct xs \<Longrightarrow> sorted (btree_insert x xs) \<and> distinct (btree_insert x xs)"
  by (simp add: btree_insert_def sorted_insort_insert distinct_insort_insert)

definition btree_ok :: "string list \<Rightarrow> bool" where
  "btree_ok xs \<longleftrightarrow> sorted xs \<and> distinct xs"

lemma btree_ok_insert [intro]: "btree_ok xs \<Longrightarrow> btree_ok (btree_insert x xs)"
  by (simp add: btree_ok_def btree_insert_sorted)

lemma insert_ancestor_dirs_set:
  "set (insert_ancestor_dirs dirs base r remote)
     = set dirs \<union> (\<lambda>a. join_destination base a remote) ` set (ancestors r)"
proof (induction dirs base r remote rule: insert_ancestor_dirs.induct)
  case (1 dirs base r remote)
  then show ?case
    by (cases "parent_relative r")
      (auto simp: insert_ancestor_dirs.simps[of dirs base r] ancestors.simps[of r])
qed

lemma insert_ancestor_dirs_ok: "btree_ok dirs \<Longrightarrow> btree_ok (insert_ancestor_dirs dirs base r remote)"
proof (induction dirs base r remote rule: insert_ancestor_dirs.induct)
  case (1 dirs base r remote)
  then show ?case
    by (cases "parent_relative r") (auto simp: insert_ancestor_dirs.simps[of dirs base r])
qed

lemma dirs_of_file_set:
  "set (dirs_of_file base remote f dirs)
     = set dirs \<union> (\<lambda>a. join_destination base a remote) ` set (ancestors (snd f))"
  by (auto simp: dirs_of_file_def insert_ancestor_dirs_set ancestors.simps[of "snd f"] split: option.splits)

lemma fold_dirs_set:
  assumes "\<And>x dirs. set (f x dirs) = set dirs \<union> g x"
  shows "set (fold f xs dirs) = set dirs \<union> (\<Union>x \<in> set xs. g x)"
  by (induction xs arbitrary: dirs) (auto simp: assms)

lemma fold_dirs_ok:
  assumes "\<And>x dirs. btree_ok dirs \<Longrightarrow> btree_ok (f x dirs)"
  shows "btree_ok dirs \<Longrightarrow> btree_ok (fold f xs dirs)"
  by (induction xs arbitrary: dirs) (auto simp: assms)

text \<open>In a remote destination, a parent lies strictly above its child.\<close>

definition seps :: "string \<Rightarrow> nat" where
  "seps s = length (filter is_sep s)"

lemma path_depth_seps: "path_depth p = seps p"
proof -
  have "length (filter (\<lambda>c. c = slash) s) + length (filter (\<lambda>c. c = backslash) s) = length (filter is_sep s)" for s
    by (induction s) (auto simp: is_sep_def)
  then show ?thesis by (simp add: path_depth_def seps_def)
qed

lemma seps_append [simp]: "seps (a @ b) = seps a + seps b" "seps (c # s) = (if is_sep c then 1 else 0) + seps s"
  "seps [] = 0"
  by (simp_all add: seps_def)

lemma seps_replace [simp]: "seps (replace_char backslash ''/'' s) = seps s"
  by (induction s) (auto simp: replace_char_def is_sep_def)

lemma seps_rev [simp]: "seps (rev s) = seps s"
  by (simp add: seps_def rev_filter[symmetric])

lemma seps_dropWhile: "seps (dropWhile P s) \<le> seps s"
  by (induction s) auto

lemma seps_trim: "seps (trim_matches P s) \<le> seps s"
  using seps_dropWhile[of P s] seps_dropWhile[of P "rev (dropWhile P s)"]
  by (simp add: trim_matches_def trim_end_matches_def trim_start_matches_def)

lemma parent_seps:
  assumes "parent_relative r = Some p"
  shows "seps p < seps r \<and> p \<noteq> '''' \<and> r \<noteq> ''''"
proof -
  let ?n = "replace_char backslash ''/'' (trim_matches is_sep r)"
  obtain b where b: "rsplit_once slash ?n = Some (p, b)" "p \<noteq> ''''"
    using assms by (auto simp: parent_relative_def Let_def split: option.splits if_splits prod.splits)
  obtain a' b' where split: "split_once slash (rev ?n) = Some (a', b')" "p = rev b'"
    using b(1) by (auto simp: rsplit_once_def)
  have "seps (rev ?n) = seps (a' @ slash # b')" using split_once_Some[OF split(1)] by simp
  then have "seps p < seps ?n" using split(2) by (simp add: is_sep_def)
  then show ?thesis using seps_trim[of is_sep r] b(2) by auto
qed

lemma join_seps:
  "r \<noteq> '''' \<Longrightarrow> seps (join_destination base r True) = seps (trim_end_matches (\<lambda>c. c = slash) base) + 1 + seps r"
  by (simp add: join_destination_def is_sep_def)

lemma parent_above:
  "parent_relative r = Some p \<Longrightarrow>
     path_depth (join_destination base p True) < path_depth (join_destination base r True)"
  using parent_seps[of r p] by (simp add: path_depth_seps join_seps)

section \<open>Lemmas: components of a destination\<close>

lemma starts_with_slash: "starts_with ''/'' p \<longleftrightarrow> (\<exists>q. p = slash # q)"
  by (cases p) (auto simp: starts_with_def)

lemma ends_with_slash: "ends_with ''/'' p \<longleftrightarrow> (\<exists>q. p = q @ [slash])"
  by (cases p rule: rev_cases) (auto simp: ends_with_def starts_with_def)

lemma hd_split_append:
  "p \<noteq> '''' \<Longrightarrow> x = slash \<Longrightarrow> hd (split_on (\<lambda>c. c = slash) (p @ x # q)) = hd (split_on (\<lambda>c. c = slash) p)"
  by (simp add: split_on_append hd_append)

lemma components_push:
  assumes "plain_segment seg"
  shows "components (path_push p seg) = components p @ [Normal seg]"
proof -
  have seg: "split_on (\<lambda>c. c = slash) seg = [seg]" "seg \<noteq> ''''" "seg \<noteq> ''.''" "seg \<noteq> ''..''"
    "\<not> starts_with ''/'' seg"
    using assms by (auto simp: plain_segment_def starts_with_slash intro!: split_on_id)
  have one: "component_of seg = [Normal seg]" "component_of '''' = []"
    using seg by (simp_all add: component_of_def)
  consider "p = ''''" | q where "p = q @ [slash]" | "p \<noteq> ''''" "\<not> ends_with ''/'' p"
    using ends_with_slash by blast
  then show ?thesis
  proof cases
    case 1
    then show ?thesis using seg one by (simp add: path_push_def components_def starts_with_slash)
  next
    case 2
    have push: "path_push p seg = q @ slash # seg"
      using 2 seg(5) by (simp add: path_push_def ends_with_slash)
    have "starts_with ''/'' (q @ slash # seg) = starts_with ''/'' p"
      by (cases q) (simp_all add: 2 starts_with_slash)
    then show ?thesis
      unfolding push components_def Let_def
      by (cases "q = ''''") (simp_all add: 2 split_on_append seg one hd_append)
  next
    case 3
    have push: "path_push p seg = p @ slash # seg"
      using 3 seg(5) by (simp add: path_push_def)
    have "starts_with ''/'' (p @ slash # seg) = starts_with ''/'' p"
      using 3(1) by (cases p) (simp_all add: starts_with_slash)
    then show ?thesis
      unfolding push components_def Let_def
      using 3(1) by (simp add: split_on_append seg one hd_append)
  qed
qed

text \<open>A relative path is safe when it has no backslash and no dot-dot segment.\<close>

definition rel_safe :: "string \<Rightarrow> bool" where
  "rel_safe r \<longleftrightarrow> backslash \<notin> set r \<and> ''..'' \<notin> set (split_on (\<lambda>c. c = slash) r)"

definition below_base :: "string \<Rightarrow> string \<Rightarrow> bool" where
  "below_base base p \<longleftrightarrow> (\<exists>segs. components p = components base @ map Normal segs \<and> list_all plain_segment segs)"

lemma fold_push_components:
  assumes "\<forall>s \<in> set segs. s = '''' \<or> s = ''.'' \<or> plain_segment s"
  shows "components (fold (\<lambda>s path. if s = '''' \<or> s = ''.'' then path else path_push path s) segs base)
    = components base @ map Normal (filter plain_segment segs)"
  using assms
proof (induction segs arbitrary: base)
  case (Cons s segs)
  have IH: "\<And>b. components (fold (\<lambda>s path. if s = '''' \<or> s = ''.'' then path else path_push path s) segs b)
    = components b @ map Normal (filter plain_segment segs)"
    using Cons by simp
  consider "s = '''' \<or> s = ''.''" "\<not> plain_segment s" | "s \<noteq> ''''" "s \<noteq> ''.''" "plain_segment s"
    using Cons.prems by (auto simp: plain_segment_def)
  then show ?case by cases (auto simp: IH components_push)
qed simp

lemma split_on_cong: "(\<And>c. c \<in> set s \<Longrightarrow> P c = Q c) \<Longrightarrow> split_on P s = split_on Q s"
  by (induction s) (auto split: list.splits)

lemma split_no_backslash: "backslash \<notin> set r \<Longrightarrow> split_on is_sep r = split_on (\<lambda>c. c = slash) r"
  by (rule split_on_cong) (auto simp: is_sep_def)

lemma replace_id: "a \<notin> set s \<Longrightarrow> replace_char a to s = s"
  by (induction s) (auto simp: replace_char_def)

lemma safe_segments:
  assumes "rel_safe r" "s \<in> set (split_on (\<lambda>c. c = slash) r)"
  shows "s = '''' \<or> s = ''.'' \<or> plain_segment s"
  using assms split_on_pieces[OF assms(2)] unfolding rel_safe_def plain_segment_def by metis

lemma join_safe:
  assumes "rel_safe r"
  shows "below_base base (join_destination base r False)"
proof (cases "r = ''''")
  case True
  then show ?thesis
    unfolding below_base_def by (intro exI[of _ "[]"]) (simp add: join_destination_def)
next
  case False
  let ?segs = "split_on (\<lambda>c. c = slash) r"
  have "split_on is_sep r = ?segs" using assms by (simp add: split_no_backslash rel_safe_def)
  then have "components (join_destination base r False) = components base @ map Normal (filter plain_segment ?segs)"
    using False fold_push_components[of ?segs base] safe_segments[OF assms]
    by (simp add: join_destination_def)
  then show ?thesis unfolding below_base_def by (intro exI) (auto simp: list_all_iff)
qed

lemma remote_relative_safe:
  assumes "remote_relative root path = Inr r" "backslash \<notin> set path"
  shows "rel_safe r"
proof -
  let ?path = "trim_end_matches (\<lambda>c. c = slash) path"
  have nb: "backslash \<notin> set ?path"
    using assms(2) set_dropWhileD[of backslash _ "rev path"] by (auto simp: trim_end_matches_def)
  show ?thesis
  proof (cases "r = ''''")
    case False
    then obtain pre where pre: "strip_prefix pre ?path = Some r"
        "''..'' \<notin> set (split_on (\<lambda>c. c = slash) r)"
    proof -
      obtain pre rel where "strip_prefix pre ?path = Some rel" "r = replace_char backslash ''/'' rel"
        "''..'' \<notin> set (split_on (\<lambda>c. c = slash) rel)"
        using assms(1) False by (auto simp: remote_relative_def Let_def split: if_splits option.splits)
      moreover have "backslash \<notin> set rel"
        using calculation(1) nb by (auto simp: strip_prefix_def split: if_splits dest: in_set_dropD)
      ultimately show thesis using that by (simp add: replace_id)
    qed
    then have "backslash \<notin> set r"
      using nb by (auto simp: strip_prefix_def split: if_splits dest: in_set_dropD)
    then show ?thesis using pre(2) by (simp add: rel_safe_def)
  qed (simp add: rel_safe_def)
qed

lemma with_prefix_safe:
  assumes "rel_safe r" "pre = '''' \<or> plain_segment pre \<and> backslash \<notin> set pre"
  shows "rel_safe (with_prefix pre r)"
proof (cases "pre = ''''")
  case False
  then have pre: "plain_segment pre" "backslash \<notin> set pre" using assms(2) by auto
  then have no: "\<And>c. c \<in> set pre \<Longrightarrow> \<not> c = slash" by (auto simp: plain_segment_def)
  show ?thesis
  proof (cases "r = ''''")
    case True
    then show ?thesis using False pre split_on_id[of pre "\<lambda>c. c = slash", OF no]
      by (auto simp add: with_prefix_def rel_safe_def plain_segment_def)
  next
    case r: False
    then show ?thesis using False pre assms(1) split_on_sep[of pre "\<lambda>c. c = slash" slash r, OF no]
      by (auto simp add: with_prefix_def rel_safe_def plain_segment_def)
  qed
qed (use assms in \<open>simp add: with_prefix_def\<close>)

lemma parent_safe:
  assumes "rel_safe r" "parent_relative r = Some p"
  shows "rel_safe p"
proof -
  have nb: "backslash \<notin> set r" using assms(1) by (simp add: rel_safe_def)
  define t where "t = trim_matches is_sep r"
  have nbt: "backslash \<notin> set t"
    using nb set_dropWhileD[of backslash is_sep r]
      set_dropWhileD[of backslash is_sep "rev (dropWhile is_sep r)"]
    by (auto simp: t_def trim_matches_def trim_end_matches_def trim_start_matches_def)
  obtain b where "rsplit_once slash t = Some (p, b)"
    using assms(2) nbt by (auto simp: parent_relative_def t_def Let_def replace_id
        split: option.splits if_splits prod.splits)
  then obtain a' b' where "split_once slash (rev t) = Some (a', b')" "p = rev b'"
    by (auto simp: rsplit_once_def)
  then have "rev t = a' @ slash # rev p" using split_once_Some by fastforce
  then have "rev (rev t) = rev (a' @ slash # rev p)" by (rule arg_cong)
  then have t: "t = p @ slash # rev a'" by simp
  define lead where "lead = takeWhile is_sep r"
  have "dropWhile is_sep r = t @ rev (takeWhile is_sep (rev (dropWhile is_sep r)))"
    unfolding t_def trim_matches_def trim_end_matches_def trim_start_matches_def
    by (metis rev_append rev_rev_ident takeWhile_dropWhile_id)
  then obtain tail where "dropWhile is_sep r = p @ slash # tail" using t by auto
  then have r: "r = lead @ p @ slash # tail"
    unfolding lead_def by (metis takeWhile_dropWhile_id)
  have "\<forall>c \<in> set lead. c = slash"
    using nb unfolding lead_def is_sep_def by (auto dest: set_takeWhileD)
  then have "lead = '''' \<or> (\<exists>l. lead = l @ [slash])" by (cases lead rule: rev_cases) auto
  moreover have "set (split_on (\<lambda>c. c = slash) p) \<subseteq> set (split_on (\<lambda>c. c = slash) r)"
    using calculation by (auto simp: r split_on_append)
  ultimately show ?thesis using assms(1) nb r by (auto simp: rel_safe_def)
qed

lemma ancestors_safe: "rel_safe r \<Longrightarrow> a \<in> set (ancestors r) \<Longrightarrow> rel_safe a"
proof (induction r rule: ancestors.induct)
  case (1 r)
  then show ?case
    by (cases "parent_relative r") (auto simp: ancestors.simps[of r] intro: parent_safe)
qed

section \<open>Lemmas: what a plan holds\<close>

definition plan_dirs_of ::
  "string \<Rightarrow> bool \<Rightarrow> string list \<Rightarrow> (string \<times> string) list \<Rightarrow> (string \<times> string) list \<Rightarrow> string
     \<Rightarrow> TransferPlanMode \<Rightarrow> string set" where
  "plan_dirs_of base remote rel_dirs rel_files rel_links pre mode =
     (\<lambda>r. join_destination base r remote) `
       ((if mode = IncludeRoot \<and> pre \<noteq> '''' then {pre} else {})
        \<union> (\<Union>d \<in> set rel_dirs. insert d (set (ancestors d)))
        \<union> (\<Union>f \<in> set rel_files. set (ancestors (snd f)))
        \<union> (\<Union>l \<in> set rel_links. set_option (parent_relative (snd l))))"

lemma build_plan_ok:
  assumes "build_plan base remote rel_dirs rel_files rel_links pre mode = Inr plan"
  shows "set (directories plan) = plan_dirs_of base remote rel_dirs rel_files rel_links pre mode"
    and "distinct (directories plan)"
    and "sorted (map path_depth (directories plan))"
    and "map pf_source_path (files plan) = map fst rel_files"
    and "map pf_destination_path (files plan) = map (\<lambda>f. join_destination base (snd f) remote) rel_files"
    and "map ps_target (symlinks plan) = map fst rel_links"
    and "map ps_destination_path (symlinks plan)
       = map (\<lambda>f. join_destination base (snd f) remote) rel_links"
proof -
  let ?j = "\<lambda>r. join_destination base r remote"
  define d0 where "d0 = (if mode = IncludeRoot \<and> pre \<noteq> '''' then [?j pre] else [])"
  define d1 where "d1 = fold (\<lambda>r dirs. insert_ancestor_dirs (btree_insert (?j r) dirs) base r remote) rel_dirs d0"
  define d2 where "d2 = fold (dirs_of_file base remote) rel_files d1"
  define d3 where "d3 = fold (dirs_of_symlink base remote) rel_links d2"
  have plan: "plan = \<lparr>directories = sort_key path_depth d3,
      files = map (\<lambda>(source, relative). \<lparr>pf_source_path = source,
                 pf_destination_path = ?j relative\<rparr>) rel_files,
      symlinks = map (\<lambda>(target, relative). \<lparr>ps_target = target,
                 ps_destination_path = ?j relative\<rparr>) rel_links\<rparr>"
    using assms by (auto simp: build_plan_def d0_def d1_def d2_def d3_def Let_def split: if_splits)
  have s1: "set d1 = set d0 \<union> (\<Union>d \<in> set rel_dirs. ?j ` insert d (set (ancestors d)))"
    unfolding d1_def by (rule fold_dirs_set) (auto simp: insert_ancestor_dirs_set)
  have s2: "set d2 = set d1 \<union> (\<Union>f \<in> set rel_files. ?j ` set (ancestors (snd f)))"
    unfolding d2_def by (rule fold_dirs_set) (rule dirs_of_file_set)
  have s3: "set d3 = set d2 \<union> (\<Union>l \<in> set rel_links. ?j ` set_option (parent_relative (snd l)))"
    unfolding d3_def by (rule fold_dirs_set) (auto simp: dirs_of_symlink_def split: option.splits)
  show "set (directories plan) = plan_dirs_of base remote rel_dirs rel_files rel_links pre mode"
    unfolding plan plan_dirs_of_def image_Un image_UN
    by (cases "mode = IncludeRoot \<and> pre \<noteq> ''''") (auto simp: s3 s2 s1 d0_def)
  have "btree_ok d0" by (simp add: d0_def btree_ok_def)
  then have "btree_ok d1" unfolding d1_def by (rule fold_dirs_ok[rotated]) (auto intro: insert_ancestor_dirs_ok)
  then have "btree_ok d2" unfolding d2_def
    by (rule fold_dirs_ok[rotated]) (auto simp: dirs_of_file_def intro: insert_ancestor_dirs_ok split: option.splits)
  then have "btree_ok d3" unfolding d3_def
    by (rule fold_dirs_ok[rotated]) (auto simp: dirs_of_symlink_def split: option.splits)
  then show "distinct (directories plan)" by (simp add: plan btree_ok_def)
  show "sorted (map path_depth (directories plan))" by (simp add: plan)
qed (use assms in \<open>auto simp: build_plan_def Let_def split: if_splits\<close>)

lemma plan_below_base:
  assumes "build_plan base False rel_dirs rel_files rel_links pre mode = Inr plan"
    and "pre = '''' \<or> rel_safe pre" "\<forall>d \<in> set rel_dirs. rel_safe d"
    "\<forall>f \<in> set rel_files. rel_safe (snd f)" "\<forall>l \<in> set rel_links. rel_safe (snd l)"
    and "p \<in> set (directories plan) \<union> pf_destination_path ` set (files plan)
           \<union> ps_destination_path ` set (symlinks plan)"
  shows "below_base base p"
proof -
  note bp = build_plan_ok[OF assms(1)]
  let ?j = "\<lambda>r. join_destination base r False"
  define A where "A = (if mode = IncludeRoot \<and> pre \<noteq> '''' then {pre} else {})"
  define B where "B = (\<Union>d \<in> set rel_dirs. insert d (set (ancestors d)))"
  define C where "C = (\<Union>f \<in> set rel_files. set (ancestors (snd f)))"
  define D where "D = (\<Union>l \<in> set rel_links. set_option (parent_relative (snd l)))"
  have "\<forall>r \<in> A. rel_safe r" using assms(2) by (auto simp: A_def)
  moreover have "\<forall>r \<in> B. rel_safe r" using assms(3) ancestors_safe unfolding B_def by blast
  moreover have "\<forall>r \<in> C. rel_safe r" using assms(4) ancestors_safe unfolding C_def by blast
  moreover have "\<forall>r \<in> D. rel_safe r"
  proof
    fix r assume "r \<in> D"
    then obtain l where "l \<in> set rel_links" "parent_relative (snd l) = Some r" by (auto simp: D_def)
    then show "rel_safe r" using assms(5) parent_safe[of "snd l" r] by simp
  qed
  ultimately have "\<forall>q \<in> ?j ` (A \<union> B \<union> C \<union> D). below_base base q"
    using join_safe by auto
  moreover have "set (directories plan) = ?j ` (A \<union> B \<union> C \<union> D)"
    unfolding bp(1) plan_dirs_of_def A_def B_def C_def D_def by (rule refl)
  moreover have "pf_destination_path ` set (files plan) = (\<lambda>f. ?j (snd f)) ` set rel_files"
    using arg_cong[OF bp(5), of set] by simp
  moreover have "ps_destination_path ` set (symlinks plan) = (\<lambda>f. ?j (snd f)) ` set rel_links"
    using arg_cong[OF bp(7), of set] by simp
  moreover have "\<forall>f \<in> set rel_files \<union> set rel_links. below_base base (?j (snd f))"
    using assms(4,5) join_safe by blast
  ultimately show ?thesis using assms(6) by auto
qed

text \<open>What a walk collects is safe, when the listings have no backslash.\<close>

definition walk_safe :: "plan_walk \<Rightarrow> bool" where
  "walk_safe w \<longleftrightarrow> (\<forall>d \<in> set (walk_dirs w). rel_safe d) \<and> (\<forall>f \<in> set (walk_files w). rel_safe (snd f))
     \<and> (\<forall>l \<in> set (walk_symlinks w). rel_safe (snd l))"

definition no_backslash_names :: "'r RemoteFilesystem \<Rightarrow> bool" where
  "no_backslash_names client \<longleftrightarrow> (\<forall>path r entries r'. list_directory client path r = (Inr entries, r')
     \<longrightarrow> (\<forall>e \<in> set entries. backslash \<notin> set (ent_path e)))"

lemma remote_entry_safe:
  assumes "remote_entry source pre policy depth e w = Inr w'" "walk_safe w"
    and "backslash \<notin> set (ent_path e)" "pre = '''' \<or> plain_segment pre \<and> backslash \<notin> set pre"
  shows "walk_safe w'"
proof -
  have "rel_safe (with_prefix pre r)" if "remote_relative source (ent_path e) = Inr r" for r
    using with_prefix_safe[OF remote_relative_safe[OF that assms(3)] assms(4)] .
  then show ?thesis
    using assms(1,2)
    by (auto simp: remote_entry_def walk_safe_def add_directory_def add_symlink_def add_file_def
        split: EntryKind.splits SymlinkPolicy.splits sum.splits option.splits if_splits)
qed

text \<open>Induction over a walk that succeeds.\<close>

lemma remote_walk_induct [consumes 1, case_names finished more]:
  assumes "remote_walk client source pre policy w r = (Inr w', r')"
    and "\<And>w r. walk_stack w = [] \<Longrightarrow> Q w r w r"
    and "\<And>w r current depth rest entries r1 w1 w' r'. walk_stack w = (current, depth) # rest \<Longrightarrow>
      depth \<le> MAX_TRANSFER_DEPTH \<Longrightarrow> list_directory client current r = (Inr entries, r1) \<Longrightarrow>
      try_fold (remote_entry source pre policy depth) entries (w\<lparr>walk_stack := rest\<rparr>) = Inr w1 \<Longrightarrow>
      Q w1 r1 w' r' \<Longrightarrow> Q w r w' r'"
  shows "Q w r w' r'"
  using assms
proof (induction client source pre policy w r rule: remote_walk.induct)
  case (1 client source pre policy w r)
  show ?case
  proof (cases "walk_stack w")
    case Nil
    then have "w' = w" "r' = r" using 1(2) by (auto simp: remote_walk.simps[of client source pre policy w r])
    then show ?thesis using 1(3)[OF Nil] by simp
  next
    case (Cons top rest)
    obtain current depth where top: "top = (current, depth)" by force
    have stack: "walk_stack w = (current, depth) # rest" using Cons top by simp
    have run: "(if MAX_TRANSFER_DEPTH < depth then (Inl too_deep, r)
          else (case list_directory client current r of
                  (Inl e, r') \<Rightarrow> (Inl e, r')
                | (Inr entries, r') \<Rightarrow>
                    (case try_fold (remote_entry source pre policy depth) entries (w\<lparr>walk_stack := rest\<rparr>) of
                       Inl e \<Rightarrow> (Inl e, r')
                     | Inr w' \<Rightarrow> remote_walk client source pre policy w' r'))) = (Inr w', r')"
      using 1(2) unfolding remote_walk.simps[of client source pre policy w r] stack by simp
    then obtain entries r1 w1 where st: "depth \<le> MAX_TRANSFER_DEPTH"
      "list_directory client current r = (Inr entries, r1)"
      "try_fold (remote_entry source pre policy depth) entries (w\<lparr>walk_stack := rest\<rparr>) = Inr w1"
      "remote_walk client source pre policy w1 r1 = (Inr w', r')"
      by (auto split: if_splits prod.splits sum.splits)
    have "Q w1 r1 w' r'"
      by (rule 1(1)[OF stack refl _ st(2)[symmetric] refl st(3) st(4) 1(3) 1(4)]) (use st(1) in auto)
    then show ?thesis by (rule 1(4)[OF stack st(1-3)])
  qed
qed

lemma remote_walk_safe:
  assumes "remote_walk client source pre policy w r = (Inr w', r')" "walk_safe w"
    and "no_backslash_names client" "pre = '''' \<or> plain_segment pre \<and> backslash \<notin> set pre"
  shows "walk_safe w'"
  using assms
proof (induction rule: remote_walk_induct)
  case (more w r current depth rest entries r1 w1 w' r')
  have "walk_safe w1"
  proof (rule try_fold_invariant[OF more(4)])
    show "walk_safe (w\<lparr>walk_stack := rest\<rparr>)" using more(6) by (simp add: walk_safe_def)
    show "walk_safe b" if "e \<in> set entries" "walk_safe a"
      "remote_entry source pre policy depth e a = Inr b" for e a b
      using remote_entry_safe[OF that(3,2) _ more(8)] that(1) more(3,7)
      by (auto simp: no_backslash_names_def)
  qed
  then show ?case using more by blast
qed

text \<open>The files of a walk over a server whose listings do not change.\<close>

inductive file_below :: "(string \<Rightarrow> FileEntry list) \<Rightarrow> string \<Rightarrow> FileEntry \<Rightarrow> bool"
  for listing :: "string \<Rightarrow> FileEntry list" where
  file_here: "e \<in> set (listing d) \<Longrightarrow> ent_kind e = File \<Longrightarrow> file_below listing d e"
| file_deeper: "s \<in> set (listing d) \<Longrightarrow> ent_kind s = Directory \<Longrightarrow> file_below listing (ent_path s) e \<Longrightarrow>
     file_below listing d e"

lemma file_below_iff:
  "file_below listing d e \<longleftrightarrow> (e \<in> set (listing d) \<and> ent_kind e = File)
     \<or> (\<exists>s \<in> set (listing d). ent_kind s = Directory \<and> file_below listing (ent_path s) e)"
  by (subst file_below.simps) auto

lemma entries_collect:
  assumes "try_fold (remote_entry source pre policy depth) entries w = Inr w1"
  shows "fst ` set (walk_files w1) = fst ` set (walk_files w) \<union> ent_path ` {e \<in> set entries. ent_kind e = File}
    \<and> fst ` set (walk_stack w1) = fst ` set (walk_stack w) \<union> ent_path ` {e \<in> set entries. ent_kind e = Directory}"
  using assms
proof (induction entries arbitrary: w)
  case (Cons e es)
  then obtain w2 where w2: "remote_entry source pre policy depth e w = Inr w2"
    "try_fold (remote_entry source pre policy depth) es w2 = Inr w1" by (auto split: sum.splits)
  have "fst ` set (walk_files w2) = fst ` set (walk_files w) \<union> (if ent_kind e = File then {ent_path e} else {})
    \<and> fst ` set (walk_stack w2) = fst ` set (walk_stack w) \<union> (if ent_kind e = Directory then {ent_path e} else {})"
    using w2(1) by (auto simp: remote_entry_def add_directory_def add_symlink_def add_file_def
        split: EntryKind.splits SymlinkPolicy.splits sum.splits option.splits if_splits)
  then show ?case using Cons.IH[OF w2(2)] by auto
qed simp

lemma remote_walk_files:
  assumes "remote_walk client source pre policy w r = (Inr w', r')"
    and "\<And>path r. list_directory client path r = (Inr (listing path), r)"
  shows "fst ` set (walk_files w') = fst ` set (walk_files w)
    \<union> {ent_path e | d e. d \<in> fst ` set (walk_stack w) \<and> file_below listing d e}"
  using assms
proof (induction rule: remote_walk_induct)
  case (more w r current depth rest entries r1 w1 w' r')
  have entries: "entries = listing current" using more(3) more(6) by simp
  note col = entries_collect[OF more(4), unfolded entries]
  have "{ent_path e | d e. d \<in> fst ` set (walk_stack w) \<and> file_below listing d e}
    = ent_path ` {e. file_below listing current e}
      \<union> {ent_path e | d e. d \<in> fst ` set rest \<and> file_below listing d e}"
    by (auto simp: more(1))
  moreover have "ent_path ` {e. file_below listing current e}
    = ent_path ` {e \<in> set (listing current). ent_kind e = File}
      \<union> {ent_path e | d e. d \<in> ent_path ` {e \<in> set (listing current). ent_kind e = Directory}
           \<and> file_below listing d e}"
    by (subst file_below_iff) blast
  moreover have "{ent_path e | d e. d \<in> A \<union> B \<and> file_below listing d e}
    = {ent_path e | d e. d \<in> A \<and> file_below listing d e} \<union> {ent_path e | d e. d \<in> B \<and> file_below listing d e}"
    for A B :: "string set" by blast
  ultimately show ?case using more(5)[OF more(6)] col by auto
qed simp

lemma remote_walk_bound:
  assumes "remote_walk client source pre policy w r = (Inr w', r')"
    and "length (walk_files w) \<le> MAX_TRANSFER_FILES"
  shows "length (walk_files w') \<le> MAX_TRANSFER_FILES"
  using assms
proof (induction rule: remote_walk_induct)
  case (more w r current depth rest entries r1 w1 w' r')
  have "length (walk_files w1) \<le> MAX_TRANSFER_FILES"
    by (rule try_fold_invariant[OF more(4), where P = "\<lambda>w. length (walk_files w) \<le> MAX_TRANSFER_FILES"])
      (use more(6) in \<open>auto simp: remote_entry_def add_directory_def add_symlink_def add_file_def
        split: EntryKind.splits SymlinkPolicy.splits sum.splits option.splits if_splits\<close>)
  then show ?case by (rule more(5))
qed simp

text \<open>The shape of a successful remote plan.\<close>

lemma plan_remote_ok:
  assumes "plan_remote_directory client source_arg base remote mode policy r = (Inr plan, r')"
  obtains source pre r1 r2 w where
    "source = (if trim_end_matches (\<lambda>c. c = slash) source_arg = '''' then ''/''
               else trim_end_matches (\<lambda>c. c = slash) source_arg)"
    "pre = '''' \<or> remote_directory_name source = Inr pre"
    "remote_walk client source pre policy (start_walk source) r1 = (Inr w, r2)"
    "build_plan base remote (walk_dirs w) (walk_files w) (walk_symlinks w) pre mode = Inr plan"
proof -
  define source where "source = (if trim_end_matches (\<lambda>c. c = slash) source_arg = '''' then ''/''
               else trim_end_matches (\<lambda>c. c = slash) source_arg)"
  obtain r1 root_name w r2 pre where st: "remote_directory_name source = Inr root_name"
    "pre = (case mode of IncludeRoot \<Rightarrow> root_name | ContentsOnly \<Rightarrow> '''')"
    "remote_walk client source pre policy (start_walk source) r1 = (Inr w, r2)"
    "build_plan base remote (walk_dirs w) (walk_files w) (walk_symlinks w) pre mode = Inr plan"
    using assms unfolding plan_remote_directory_def Let_def source_def[symmetric]
    by (auto simp: run_simps split: prod.splits sum.splits option.splits if_splits)
  show thesis using that[OF source_def _ st(3,4)] st(1,2) by (cases mode) auto
qed

section \<open>Properties\<close>

text \<open>A plan contains exactly the needed directories: the root when it is included, each directory
  walked, and every ancestor of a planned file. They are distinct and ordered shallowest first, and for
  a remote destination a parent is strictly shallower than its child, so that creating them in order
  never meets a missing parent.\<close>

theorem plan_directories_exact:
  assumes "build_plan base remote rel_dirs rel_files rel_links pre mode = Inr plan"
  shows "set (directories plan) = plan_dirs_of base remote rel_dirs rel_files rel_links pre mode
    \<and> distinct (directories plan)
    \<and> (\<forall>i j. i < j \<longrightarrow> j < length (directories plan) \<longrightarrow>
         path_depth (directories plan ! i) \<le> path_depth (directories plan ! j))
    \<and> (\<forall>r p. parent_relative r = Some p \<longrightarrow>
         path_depth (join_destination base p True) < path_depth (join_destination base r True))
    \<and> map pf_destination_path (files plan) = map (\<lambda>f. join_destination base (snd f) remote) rel_files"
  using build_plan_ok[OF assms] parent_above
  by (auto simp: sorted_iff_nth_mono_less)

lemma plan_directories_exact_witness:
  "\<exists>plan. build_plan ''/srv'' True [] [(''/s/a/b/f'', ''a/b/f'')] [] '''' ContentsOnly = Inr plan
     \<and> distinct (directories plan)"
proof -
  obtain plan where plan:
    "build_plan ''/srv'' True [] [(''/s/a/b/f'', ''a/b/f'')] [] '''' ContentsOnly = Inr plan"
    by (simp add: build_plan_def plan_is_empty_def Let_def)
  then show ?thesis using plan_directories_exact[OF plan] by blast
qed

text \<open>C33: A directory download stays inside its destination when no listed path contains a backslash:
  every planned directory, file and link is the destination base followed by plain segments, so no
  name the server sends can climb out of it.\<close>

theorem plan_remote_stays_inside:
  assumes "plan_remote_directory client source base False mode policy r = (Inr plan, r')"
    and "no_backslash_names client" "canonical source" "backslash \<notin> set source"
    and "p \<in> set (directories plan) \<union> pf_destination_path ` set (files plan)
           \<union> ps_destination_path ` set (symlinks plan)"
  shows "below_base base p"
proof -
  obtain src pre r1 r2 w where st:
    "src = (if trim_end_matches (\<lambda>c. c = slash) source = '''' then ''/''
               else trim_end_matches (\<lambda>c. c = slash) source)"
    "pre = '''' \<or> remote_directory_name src = Inr pre"
    "remote_walk client src pre policy (start_walk src) r1 = (Inr w, r2)"
    "build_plan base False (walk_dirs w) (walk_files w) (walk_symlinks w) pre mode = Inr plan"
    using plan_remote_ok[OF assms(1)] by metis
  have pre: "pre = '''' \<or> plain_segment pre \<and> backslash \<notin> set pre"
  proof (cases "pre = ''''")
    case False
    then have name: "remote_directory_name src = Inr pre" using st(2) by blast
    from assms(3) show ?thesis
    proof (cases rule: canonical_cases)
      case root
      then show ?thesis using name st(1) by (simp add: remote_directory_name_def trim_end_matches_def)
    next
      case (below segs seg)
      have ne: "source \<noteq> ''/''"
        using below unfolding below(1) join_snoc by (simp add: plain_segment_def)
      have src: "src = source" using st(1) canonical_trim_end[OF assms(3) ne] below(1) by simp
      have "split_on (\<lambda>c. c = slash) (join ''/'' (segs @ [seg])) = segs @ [seg]"
        by (rule split_on_join) (use below(2) in \<open>auto simp: list_all_iff plain_segment_def\<close>)
      then have "last (split_on (\<lambda>c. c = slash) source) = seg" by (simp add: below(1))
      then have "pre = seg"
        using name canonical_trim_end[OF assms(3) ne] unfolding src
        by (auto simp: remote_directory_name_def Let_def split: if_splits)
      moreover have "set seg \<subseteq> set source" unfolding below(1) join_snoc by auto
      ultimately show ?thesis using below(2) assms(4) by auto
    qed
  qed simp
  then have "pre = '''' \<or> rel_safe pre"
    using split_on_id[of pre "\<lambda>c. c = slash"] unfolding rel_safe_def plain_segment_def by fastforce
  moreover have "walk_safe w"
    by (rule remote_walk_safe[OF st(3) _ assms(2) pre]) (simp add: walk_safe_def start_walk_def)
  ultimately show ?thesis
    using plan_below_base[OF st(4) _ _ _ _ assms(5)] by (auto simp: walk_safe_def)
qed

text \<open>A server for the examples: one directory that holds one file.\<close>

definition file_entry :: "string \<Rightarrow> string \<Rightarrow> EntryKind \<Rightarrow> FileEntry" where
  "file_entry path name kind = \<lparr>ent_path = path, ent_name = name, ent_kind = kind, ent_size = None,
     ent_modified_at = None, ent_permissions = None, ent_symlink_target = None, ent_hidden = False\<rparr>"

definition unavailable :: "('r, 'a) act" where
  "unavailable = err (new_error Unsupported ''Not available'')"

definition listing_server :: "string \<Rightarrow> FileEntry list \<Rightarrow> unit RemoteFilesystem" where
  "listing_server dir entries =
     \<lparr>capabilities = \<lparr>cap_chmod = False, cap_symlinks = False, cap_fsync = False, cap_resume = False,
        cap_atomic_rename = False\<rparr>,
      disconnect = ok (),
      list_directory = (\<lambda>path. ok (if path = dir then entries else [])),
      metadata = (\<lambda>path. ok (if path = dir then Some (file_entry path path Directory) else None)),
      create_directory = (\<lambda>_. unavailable), rename = (\<lambda>_ _. unavailable),
      remove_file = (\<lambda>_. unavailable), remove_directory = (\<lambda>_. unavailable),
      set_permissions = (\<lambda>_ _. unavailable), create_symlink = no_symlinks,
      read_chunk = (\<lambda>_ _ _. unavailable), write_chunk = (\<lambda>_ _ _. unavailable),
      sync_file = (\<lambda>_. unavailable), read_privileged = (\<lambda>_ _. unavailable),
      write_privileged = (\<lambda>_ _ _. unavailable), create_privileged = (\<lambda>_ _ _. unavailable),
      delete_privileged = (\<lambda>_ _ _. unavailable), package_directory = (\<lambda>_ _. unavailable),
      execute_commands = (\<lambda>_ _. unavailable)\<rparr>"

lemmas plan_eval = plan_remote_directory_def listing_server_def file_entry_def run_simps Let_def
  remote_directory_name_def start_walk_def remote_walk.simps remote_entry_def remote_relative_def
  strip_prefix_def trim_end_matches_def MAX_TRANSFER_DEPTH_def MAX_TRANSFER_FILES_def with_prefix_def
  replace_char_def add_file_def build_plan_def plan_is_empty_def join_destination_def path_push_def
  is_sep_def starts_with_def ends_with_def

lemma plan_remote_stays_inside_witness:
  "below_base ''/home/u'' ''/home/u/f''"
proof -
  let ?c = "listing_server ''/srv'' [file_entry ''/srv/f'' ''f'' File]"
  have "plan_remote_directory ?c ''/srv'' ''/home/u'' False ContentsOnly SkipLink ()
      = (Inr \<lparr>directories = [], files = [\<lparr>pf_source_path = ''/srv/f'', pf_destination_path = ''/home/u/f''\<rparr>],
              symlinks = []\<rparr>, ())"
    by (simp add: plan_eval parent_relative_def trim_matches_def trim_start_matches_def
        rsplit_once_def dirs_of_file_def)
  moreover have "no_backslash_names ?c"
    by (auto simp: no_backslash_names_def listing_server_def file_entry_def ok_def)
  moreover have "canonical ''/srv''" unfolding canonical_def
    by (rule exI[of _ "[''srv'']"]) (simp add: plain_segment_def)
  ultimately show ?thesis
    using plan_remote_stays_inside[where client = ?c and source = "''/srv''" and base = "''/home/u''"
        and p = "''/home/u/f''"] by simp
qed

text \<open>A server can make a directory download write outside its destination: dot-dot segments are
  rejected before backslashes become separators, so a file listed under a name with backslashes is
  planned at a path that climbs out of the destination directory.\<close>

theorem backslash_name_escapes:
  "fst (plan_remote_directory (listing_server ''/srv''
       [file_entry (''/srv/'' @ ''..'' @ [backslash] @ ''..'' @ [backslash] @ ''evil'') ''x'' File])
     ''/srv'' ''/home/u/dl'' False ContentsOnly SkipLink ())
   = Inr \<lparr>directories = [''/home/u/dl/..'', ''/home/u/dl/../..''],
          files = [\<lparr>pf_source_path = ''/srv/'' @ ''..'' @ [backslash] @ ''..'' @ [backslash] @ ''evil'',
                    pf_destination_path = ''/home/u/dl/../../evil''\<rparr>],
          symlinks = []\<rparr>
   \<and> normalize_remote_path ''/home/u/dl/../../evil'' = Inr ''/home/evil''"
  by (simp add: plan_eval parent_relative_def trim_matches_def trim_start_matches_def
      rsplit_once_def dirs_of_file_def insert_ancestor_dirs.simps btree_insert_def
      insort_insert_key_def path_depth_def normalize_remote_path_def trim_def trim_start_def trim_end_def
        trim_front.simps drop_one_def whitespace_def)

text \<open>C34: On a server whose listings do not change during the walk, a plan that succeeds has exactly the
  regular files found below the source through its directories, and never more than the limit.\<close>

theorem plan_remote_complete:
  assumes "plan_remote_directory client source base remote mode policy r = (Inr plan, r')"
    and "\<And>path r. list_directory client path r = (Inr (listing path), r)"
  shows "pf_source_path ` set (files plan) = {ent_path e | e. file_below listing
           (if trim_end_matches (\<lambda>c. c = slash) source = '''' then ''/''
            else trim_end_matches (\<lambda>c. c = slash) source) e}
    \<and> length (files plan) \<le> MAX_TRANSFER_FILES"
proof -
  obtain src pre r1 r2 w where st:
    "src = (if trim_end_matches (\<lambda>c. c = slash) source = '''' then ''/''
               else trim_end_matches (\<lambda>c. c = slash) source)"
    "remote_walk client src pre policy (start_walk src) r1 = (Inr w, r2)"
    "build_plan base remote (walk_dirs w) (walk_files w) (walk_symlinks w) pre mode = Inr plan"
    using plan_remote_ok[OF assms(1)] by metis
  have eq: "map pf_source_path (files plan) = map fst (walk_files w)" by (rule build_plan_ok(4)[OF st(3)])
  have "pf_source_path ` set (files plan) = fst ` set (walk_files w)"
    using arg_cong[OF eq, of set] by simp
  moreover have "length (files plan) = length (walk_files w)" using arg_cong[OF eq, of length] by simp
  moreover have "fst ` set (walk_files w) = {ent_path e | e. file_below listing src e}"
    using remote_walk_files[OF st(2) assms(2)] by (simp add: start_walk_def)
  moreover have "length (walk_files w) \<le> MAX_TRANSFER_FILES"
    by (rule remote_walk_bound[OF st(2)]) (simp add: start_walk_def)
  ultimately show ?thesis unfolding st(1) by simp
qed

lemma plan_remote_complete_witness:
  "{ent_path e | e. file_below (\<lambda>path. if path = ''/srv'' then [file_entry ''/srv/f'' ''f'' File] else [])
      ''/srv'' e} = {''/srv/f''}"
proof -
  let ?c = "listing_server ''/srv'' [file_entry ''/srv/f'' ''f'' File]"
  have plan: "plan_remote_directory ?c ''/srv'' ''/home/u'' False ContentsOnly SkipLink ()
      = (Inr \<lparr>directories = [], files = [\<lparr>pf_source_path = ''/srv/f'', pf_destination_path = ''/home/u/f''\<rparr>],
              symlinks = []\<rparr>, ())"
    by (simp add: plan_eval parent_relative_def trim_matches_def trim_start_matches_def
        rsplit_once_def dirs_of_file_def)
  have "list_directory ?c path r
      = (Inr (if path = ''/srv'' then [file_entry ''/srv/f'' ''f'' File] else []), r)" for path r
    by (simp add: listing_server_def ok_def)
  from plan_remote_complete[OF plan this] show ?thesis by (simp add: trim_end_matches_def)
qed

end
