(* ===== verification/Storage.thy ===== *)
theory Storage
  imports Transfer_Queue Rust_Strings "HOL-Library.List_Lexorder" "HOL-Library.Product_Lexorder"
begin

text \<open>
  \<^verbatim>\<open>src-tauri/src/storage.rs\<close>: the SQLite database. A table is the list of its rows in rowid order,
  a statement is a function on the tables with the semantics its SQL text has: upserts on the primary
  key, foreign keys (\<^verbatim>\<open>PRAGMA foreign_keys = ON\<close>) with \<^verbatim>\<open>ON DELETE CASCADE\<close>, and transactions that
  leave the tables unchanged when a statement in them fails. A JSON column holds the value that was
  serialised. \<open>db_faults\<close> scripts the failures of SQLite itself: each use of the connection takes the
  next element and fails when it is an error text.
\<close>

section \<open>Tables\<close>

record profile_row =
  pr_id :: uuid
  pr_label :: string
  pr_favorite :: bool
  pr_json :: ConnectionProfile
  pr_updated_at :: datetime

record favorite_row =
  fr_id :: uuid
  fr_profile_id :: "uuid option"
  fr_side :: string
  fr_label :: string
  fr_path :: string

record transfer_row =
  tr_id :: uuid
  tr_profile_id :: uuid
  tr_state :: string
  tr_json :: TransferJob
  tr_created_at :: datetime
  tr_updated_at :: datetime

record action_row =
  ar_id :: uuid
  ar_label :: string
  ar_json :: SavedAction
  ar_updated_at :: datetime

record Db =
  schema_migrations :: "nat list"
  connection_profiles :: "profile_row list"
  known_hosts :: "TrustedHostKey list"
  favorites :: "favorite_row list"
  transfer_jobs :: "transfer_row list"
  preferences :: "Preferences option"
  saved_actions :: "action_row list"
  db_faults :: "string option list"

type_synonym 'a sql = "(Db, string, 'a) eff"
type_synonym 'a db_act = "(Db, 'a) act"

text \<open>An upsert: rows with the key are updated in place, else the row is appended.\<close>

definition upsert :: "('row \<Rightarrow> 'k) \<Rightarrow> ('row \<Rightarrow> 'row \<Rightarrow> 'row) \<Rightarrow> 'row \<Rightarrow> 'row list \<Rightarrow> 'row list" where
  "upsert key merge new rows =
     (if key new \<in> key ` set rows then map (\<lambda>row. if key row = key new then merge row new else row) rows
      else rows @ [new])"

definition find_row :: "('row \<Rightarrow> bool) \<Rightarrow> 'row list \<Rightarrow> 'row option" where
  "find_row P rows = List.find P rows"

section \<open>The connection\<close>

definition storage_error :: "string \<Rightarrow> AppError" where
  "storage_error source =
     with_detail (new_error StorageError ''The local Siftlane database operation failed'') source"

definition with_connection :: "'a sql \<Rightarrow> 'a db_act" where
  "with_connection operation = (\<lambda>db. case db_faults db of
       Some text # rest \<Rightarrow> (Inl (storage_error text), db\<lparr>db_faults := rest\<rparr>)
     | faults \<Rightarrow> map_err storage_error operation (db\<lparr>db_faults := tl faults\<rparr>))"

text \<open>\<^verbatim>\<open>execute\<close>: a statement is atomic, so a failing one changes nothing.\<close>

definition foreign_key_error :: string where
  "foreign_key_error = ''FOREIGN KEY constraint failed''"

definition execute :: "(Db \<Rightarrow> string + Db) \<Rightarrow> unit sql" where
  "execute stmt = (\<lambda>db. case stmt db of Inl e \<Rightarrow> (Inl e, db) | Inr db' \<Rightarrow> (Inr (), db'))"

text \<open>A statement that reports how many rows it removed.\<close>

definition execute_delete :: "(Db \<Rightarrow> nat \<times> Db) \<Rightarrow> nat sql" where
  "execute_delete stmt = (\<lambda>db. case stmt db of (n, db') \<Rightarrow> (Inr n, db'))"

section \<open>Profiles\<close>

definition list_profiles :: "ConnectionProfile list db_act" where
  "list_profiles = with_connection (gets (\<lambda>db. map pr_json
     (sort_key (\<lambda>row. (\<not> pr_favorite row, to_ascii_lowercase (pr_label row))) (connection_profiles db))))"

definition no_rows :: string where "no_rows = ''Query returned no rows''"

definition get_profile :: "uuid \<Rightarrow> ConnectionProfile db_act" where
  "get_profile uid = map_err
     (\<lambda>e. if code e = StorageError \<and> (case detail e of Some d \<Rightarrow> contains no_rows d | None \<Rightarrow> False)
          then new_error NotFound ''The connection profile was not found'' else e)
     (with_connection (\<lambda>db. case find_row (\<lambda>row. pr_id row = uid) (connection_profiles db) of
         Some row \<Rightarrow> (Inr (pr_json row), db) | None \<Rightarrow> (Inl no_rows, db)))"

definition profile_to_row :: "ConnectionProfile \<Rightarrow> profile_row" where
  "profile_to_row p = \<lparr>pr_id = prof_id p, pr_label = prof_label p, pr_favorite = prof_favorite p,
     pr_json = p, pr_updated_at = prof_updated_at p\<rparr>"

definition merge_profile :: "profile_row \<Rightarrow> profile_row \<Rightarrow> profile_row" where
  "merge_profile old new = old\<lparr>pr_label := pr_label new, pr_favorite := pr_favorite new,
     pr_json := pr_json new, pr_updated_at := pr_updated_at new\<rparr>"

definition save_profile_row :: "ConnectionProfile \<Rightarrow> unit db_act" where
  "save_profile_row p = with_connection (modify (\<lambda>db. db\<lparr>connection_profiles :=
     upsert pr_id merge_profile (profile_to_row p) (connection_profiles db)\<rparr>))"

text \<open>Deleting a profile cascades to its bookmarks and its transfer jobs.\<close>

definition delete_profile_row :: "uuid \<Rightarrow> unit db_act" where
  "delete_profile_row uid = with_connection (modify (\<lambda>db. db\<lparr>
     connection_profiles := filter (\<lambda>row. pr_id row \<noteq> uid) (connection_profiles db),
     favorites := filter (\<lambda>row. fr_profile_id row \<noteq> Some uid) (favorites db),
     transfer_jobs := filter (\<lambda>row. tr_profile_id row \<noteq> uid) (transfer_jobs db)\<rparr>))"

section \<open>Host keys\<close>

definition host_keys_of :: "string \<Rightarrow> u16 \<Rightarrow> TrustedHostKey list db_act" where
  "host_keys_of host port =
     with_connection (gets (\<lambda>db. filter (\<lambda>k. key_host k = host \<and> key_port k = port) (known_hosts db)))"

definition list_host_keys :: "TrustedHostKey list db_act" where
  "list_host_keys = with_connection (gets (\<lambda>db.
     sort_key (\<lambda>k. (to_ascii_lowercase (key_host k), unat (key_port k), key_algorithm k)) (known_hosts db)))"

definition host_key_id :: "TrustedHostKey \<Rightarrow> string \<times> u16 \<times> string" where
  "host_key_id k = (key_host k, key_port k, key_algorithm k)"

definition trust_host_key :: "TrustedHostKey \<Rightarrow> unit db_act" where
  "trust_host_key key = with_connection (modify (\<lambda>db.
     case map_option key_fingerprint (find_row (\<lambda>k. host_key_id k = host_key_id key) (known_hosts db)) of
       existing \<Rightarrow>
         if existing = Some (key_fingerprint key) then
           db\<lparr>known_hosts := map (\<lambda>k. if host_key_id k = host_key_id key
                then k\<lparr>key_last_seen_at := key_last_seen_at key\<rparr> else k) (known_hosts db)\<rparr>
         else
           db\<lparr>known_hosts := filter (\<lambda>k. host_key_id k \<noteq> host_key_id key) (known_hosts db) @ [key]\<rparr>))"

definition touch_host_key :: "TrustedHostKey \<Rightarrow> unit db_act" where
  "touch_host_key key = with_connection (modify (\<lambda>db. db\<lparr>known_hosts :=
     map (\<lambda>k. if host_key_id k = host_key_id key \<and> key_fingerprint k = key_fingerprint key
              then k\<lparr>key_last_seen_at := key_last_seen_at key\<rparr> else k) (known_hosts db)\<rparr>))"

definition remove_rows :: "('row \<Rightarrow> bool) \<Rightarrow> 'row list \<Rightarrow> nat \<times> 'row list" where
  "remove_rows P rows = (length (filter P rows), filter (\<lambda>row. \<not> P row) rows)"

definition remove_host_key :: "string \<Rightarrow> u16 \<Rightarrow> string \<Rightarrow> unit db_act" where
  "remove_host_key host port algorithm =
     and_then (with_connection (execute_delete (\<lambda>db.
         case remove_rows (\<lambda>k. host_key_id k = (host, port, algorithm)) (known_hosts db) of
           (n, rows) \<Rightarrow> (n, db\<lparr>known_hosts := rows\<rparr>))))
       (\<lambda>removed. if removed = 0 then err (new_error NotFound ''The trusted host key was not found'')
                  else ok ())"

section \<open>Preferences\<close>

definition load_preferences :: "Preferences db_act" where
  "load_preferences = with_connection (gets (\<lambda>db.
     case preferences db of Some p \<Rightarrow> p | None \<Rightarrow> default_preferences))"

definition save_preferences_row :: "Preferences \<Rightarrow> unit db_act" where
  "save_preferences_row p = with_connection (modify (\<lambda>db. db\<lparr>preferences := Some p\<rparr>))"

section \<open>Transfers\<close>

definition load_transfers :: "TransferJob list db_act" where
  "load_transfers =
     with_connection (gets (\<lambda>db. map tr_json (sort_key tr_created_at (transfer_jobs db))))"

definition transfer_to_row :: "TransferJob \<Rightarrow> transfer_row" where
  "transfer_to_row job = \<lparr>tr_id = job_id job, tr_profile_id = job_profile_id job,
     tr_state = to_ascii_lowercase (state_debug (job_state job)), tr_json = job,
     tr_created_at = job_created_at job, tr_updated_at = job_updated_at job\<rparr>"

definition merge_transfer :: "transfer_row \<Rightarrow> transfer_row \<Rightarrow> transfer_row" where
  "merge_transfer old new = old\<lparr>tr_state := tr_state new, tr_json := tr_json new,
     tr_updated_at := tr_updated_at new\<rparr>"

text \<open>The insert of the upsert checks the foreign key; its update does not change the column.\<close>

definition upsert_transfer :: "transfer_row \<Rightarrow> Db \<Rightarrow> string + Db" where
  "upsert_transfer row db =
     (if tr_id row \<notin> tr_id ` set (transfer_jobs db)
         \<and> tr_profile_id row \<notin> pr_id ` set (connection_profiles db)
      then Inl foreign_key_error
      else Inr (db\<lparr>transfer_jobs := upsert tr_id merge_transfer row (transfer_jobs db)\<rparr>))"

definition save_transfer :: "TransferJob \<Rightarrow> unit db_act" where
  "save_transfer job = with_connection (execute (upsert_transfer (transfer_to_row job)))"

definition save_transfers :: "TransferJob list \<Rightarrow> unit db_act" where
  "save_transfers js =
     (if js = [] then ok ()
      else with_connection (execute (\<lambda>db. try_fold upsert_transfer (map transfer_to_row js) db)))"

definition delete_transfers :: "uuid list \<Rightarrow> unit db_act" where
  "delete_transfers uids =
     (if uids = [] then ok ()
      else with_connection (modify (\<lambda>db. fold (\<lambda>uid db.
        db\<lparr>transfer_jobs := filter (\<lambda>row. tr_id row \<noteq> uid) (transfer_jobs db)\<rparr>) uids db)))"

section \<open>Bookmarks\<close>

definition favorite_side_value :: "FavoriteSide \<Rightarrow> string" where
  "favorite_side_value side = (case side of LocalSide \<Rightarrow> ''local'' | RemoteSide \<Rightarrow> ''remote'')"

definition parse_favorite :: "favorite_row \<Rightarrow> string + Favorite" where
  "parse_favorite row =
     (if fr_side row = ''local'' then
        Inr \<lparr>fav_id = fr_id row, fav_profile_id = fr_profile_id row, fav_side = LocalSide,
             fav_label = fr_label row, fav_path = fr_path row\<rparr>
      else if fr_side row = ''remote'' then
        Inr \<lparr>fav_id = fr_id row, fav_profile_id = fr_profile_id row, fav_side = RemoteSide,
             fav_label = fr_label row, fav_path = fr_path row\<rparr>
      else Inl (''unknown favorite side: '' @ fr_side row))"

fun collect_results :: "('e + 'a) list \<Rightarrow> 'e + 'a list" where
  "collect_results [] = Inr []"
| "collect_results (r # rs) = (case r of Inl e \<Rightarrow> Inl e | Inr a \<Rightarrow>
     (case collect_results rs of Inl e \<Rightarrow> Inl e | Inr as \<Rightarrow> Inr (a # as)))"

definition list_favorites :: "Favorite list db_act" where
  "list_favorites = with_connection (\<lambda>db. (collect_results (map parse_favorite
     (sort_key (\<lambda>row. (to_ascii_lowercase (fr_label row), to_ascii_lowercase (fr_path row)))
       (favorites db))), db))"

definition find_favorite :: "uuid option \<Rightarrow> FavoriteSide \<Rightarrow> string \<Rightarrow> Favorite option db_act" where
  "find_favorite profile side path = with_connection (\<lambda>db.
     (case find_row (\<lambda>row. fr_profile_id row = profile \<and> fr_side row = favorite_side_value side
                        \<and> fr_path row = path) (favorites db) of
        None \<Rightarrow> (Inr None, db)
      | Some row \<Rightarrow> (map_sum (\<lambda>e. e) Some (parse_favorite row), db)))"

definition favorite_to_row :: "Favorite \<Rightarrow> favorite_row" where
  "favorite_to_row f = \<lparr>fr_id = fav_id f, fr_profile_id = fav_profile_id f,
     fr_side = favorite_side_value (fav_side f), fr_label = fav_label f, fr_path = fav_path f\<rparr>"

definition upsert_favorite :: "favorite_row \<Rightarrow> Db \<Rightarrow> string + Db" where
  "upsert_favorite row db =
     (case fr_profile_id row of
        Some p \<Rightarrow> if p \<notin> pr_id ` set (connection_profiles db) then Inl foreign_key_error
                  else Inr (db\<lparr>favorites := upsert fr_id (\<lambda>old new. new) row (favorites db)\<rparr>)
      | None \<Rightarrow> Inr (db\<lparr>favorites := upsert fr_id (\<lambda>old new. new) row (favorites db)\<rparr>))"

definition save_favorite_row :: "Favorite \<Rightarrow> unit db_act" where
  "save_favorite_row f = with_connection (execute (upsert_favorite (favorite_to_row f)))"

definition delete_favorite :: "uuid \<Rightarrow> unit db_act" where
  "delete_favorite uid =
     and_then (with_connection (execute_delete (\<lambda>db.
         case remove_rows (\<lambda>row. fr_id row = uid) (favorites db) of
           (n, rows) \<Rightarrow> (n, db\<lparr>favorites := rows\<rparr>))))
       (\<lambda>removed. if removed = 0 then err (new_error NotFound ''The bookmark was not found'') else ok ())"

section \<open>Saved actions\<close>

definition list_saved_actions :: "SavedAction list db_act" where
  "list_saved_actions = with_connection (gets (\<lambda>db. map ar_json
     (sort_key (\<lambda>row. (to_ascii_lowercase (ar_label row), - ar_updated_at row)) (saved_actions db))))"

definition action_to_row :: "SavedAction \<Rightarrow> action_row" where
  "action_to_row a = \<lparr>ar_id = act_id a, ar_label = act_label a, ar_json = a, ar_updated_at = act_updated_at a\<rparr>"

definition save_action_row :: "SavedAction \<Rightarrow> unit db_act" where
  "save_action_row a = with_connection (modify (\<lambda>db. db\<lparr>saved_actions :=
     upsert ar_id (\<lambda>old new. new) (action_to_row a) (saved_actions db)\<rparr>))"

definition delete_saved_action :: "uuid \<Rightarrow> unit db_act" where
  "delete_saved_action uid =
     and_then (with_connection (execute_delete (\<lambda>db.
         case remove_rows (\<lambda>row. ar_id row = uid) (saved_actions db) of
           (n, rows) \<Rightarrow> (n, db\<lparr>saved_actions := rows\<rparr>))))
       (\<lambda>removed. if removed = 0 then err (new_error NotFound ''The saved action was not found'') else ok ())"

section \<open>Migration\<close>

text \<open>The tables exist from the start; version 2 drops the bookmarks without a profile, once.\<close>

definition migrate :: "Db \<Rightarrow> Db" where
  "migrate db =
     (let db1 = (if 1 \<in> set (schema_migrations db) then db
                 else db\<lparr>schema_migrations := schema_migrations db @ [1]\<rparr>)
      in if 2 \<in> set (schema_migrations db1) then db1
         else db1\<lparr>favorites := filter (\<lambda>row. fr_profile_id row \<noteq> None) (favorites db1),
                  schema_migrations := schema_migrations db1 @ [2]\<rparr>)"

definition new_db :: Db where
  "new_db = \<lparr>schema_migrations = [], connection_profiles = [], known_hosts = [], favorites = [],
     transfer_jobs = [], preferences = None, saved_actions = [], db_faults = []\<rparr>"

section \<open>The contract of a table\<close>

text \<open>What the callers of a table rely on: reading a key gives the last value saved under it, and
  deleting or saving one key leaves the others.\<close>

locale keyed_store =
  fixes wf :: "'s \<Rightarrow> bool" and key :: "'v \<Rightarrow> 'k" and get :: "'k \<Rightarrow> 's \<Rightarrow> 'v option"
    and put :: "'v \<Rightarrow> 's \<Rightarrow> 's" and del :: "'k \<Rightarrow> 's \<Rightarrow> 's"
  assumes wf_put: "wf s \<Longrightarrow> wf (put v s)"
    and wf_del: "wf s \<Longrightarrow> wf (del k s)"
    and get_put: "wf s \<Longrightarrow> get k (put v s) = (if k = key v then Some v else get k s)"
    and get_del: "wf s \<Longrightarrow> get k' (del k s) = (if k' = k then None else get k' s)"
begin

lemma put_many:
  "wf s \<Longrightarrow> wf (fold put vs s) \<and>
     get k (fold put vs s) = (case find_row (\<lambda>v. key v = k) (rev vs) of Some v \<Rightarrow> Some v | None \<Rightarrow> get k s)"
proof (induction vs arbitrary: s)
  case Nil
  then show ?case by (simp add: find_row_def)
next
  case (Cons v vs)
  have app: "List.find P (xs @ ys) = (case List.find P xs of Some x \<Rightarrow> Some x | None \<Rightarrow> List.find P ys)"
    for P :: "'v \<Rightarrow> bool" and xs ys
    by (induction xs) auto
  from Cons show ?case
    by (auto simp: wf_put get_put find_row_def app split: option.splits)
qed

lemma del_many: "wf s \<Longrightarrow> wf (fold del ks s) \<and> get k (fold del ks s) = (if k \<in> set ks then None else get k s)"
  by (induction ks arbitrary: s) (auto simp: wf_del get_del)

lemma put_then_del: "wf s \<Longrightarrow> get k (del (key v) (put v s)) = get k (del (key v) s)"
  by (simp add: get_del get_put wf_put)

end

lemma find_row_Some: "find_row P rows = Some row \<Longrightarrow> row \<in> set rows \<and> P row"
  by (auto simp: find_row_def find_Some_iff)

lemma find_row_None: "find_row P rows = None \<longleftrightarrow> (\<forall>row \<in> set rows. \<not> P row)"
  by (auto simp: find_row_def find_None_iff)

lemma find_row_single [simp]: "find_row P [x] = (if P x then Some x else None)"
  by (simp add: find_row_def)

lemma find_row_append: "find_row P (xs @ ys) = (case find_row P xs of Some x \<Rightarrow> Some x | None \<Rightarrow> find_row P ys)"
  unfolding find_row_def by (induction xs) auto

lemma upsert_keys:
  assumes "\<And>old. key old = key new \<Longrightarrow> key (merge old new) = key new"
  shows "map key (upsert key merge new rows) = (if key new \<in> key ` set rows then map key rows
           else map key rows @ [key new])"
  using assms by (auto simp: upsert_def)

lemma upsert_distinct:
  assumes "\<And>old. key old = key new \<Longrightarrow> key (merge old new) = key new" "distinct (map key rows)"
  shows "distinct (map key (upsert key merge new rows))"
  using assms(2) by (simp add: upsert_keys[where key = key and merge = merge and new = new, OF assms(1)])

lemma find_upsert:
  assumes "\<And>old. key old = key new \<Longrightarrow> key (merge old new) = key new"
  shows "find_row (\<lambda>row. key row = k) (upsert key merge new rows) =
    (if k = key new
     then (case find_row (\<lambda>row. key row = k) rows of Some old \<Rightarrow> Some (merge old new) | None \<Rightarrow> Some new)
     else find_row (\<lambda>row. key row = k) rows)"
proof -
  have map: "find_row (\<lambda>row. key row = k) (map (\<lambda>row. if key row = key new then merge row new else row) rows)
    = map_option (\<lambda>row. if key row = key new then merge row new else row) (find_row (\<lambda>row. key row = k) rows)"
    unfolding find_row_def by (induction rows) (auto simp: assms)
  have none: "find_row (\<lambda>row. key row = key new) rows = None" if "key new \<notin> key ` set rows"
    using that by (force simp: find_row_None image_iff)
  show ?thesis
  proof (cases "key new \<in> key ` set rows")
    case True
    then have "find_row (\<lambda>row. key row = key new) rows \<noteq> None" by (auto simp: find_row_None)
    show ?thesis
    proof (cases "find_row (\<lambda>row. key row = k) rows")
      case None
      then show ?thesis using True \<open>find_row _ rows \<noteq> None\<close> by (auto simp: upsert_def map)
    next
      case (Some row)
      then have "key row = k" using find_row_Some[OF Some] by simp
      then show ?thesis using True Some by (auto simp: upsert_def map)
    qed
  next
    case False
    then show ?thesis using none by (auto simp: upsert_def find_row_append split: option.splits)
  qed
qed

lemma find_filter:
  "find_row (\<lambda>row. key row = k') (filter (\<lambda>row. key row \<noteq> k) rows) =
     (if k' = k then None else find_row (\<lambda>row. key row = k') rows)"
  unfolding find_row_def by (induction rows) auto

interpretation profiles: keyed_store "\<lambda>rows. distinct (map pr_id rows)" prof_id
  "\<lambda>uid rows. map_option pr_json (find_row (\<lambda>row. pr_id row = uid) rows)"
  "\<lambda>p. upsert pr_id merge_profile (profile_to_row p)" "\<lambda>uid. filter (\<lambda>row. pr_id row \<noteq> uid)"
  by unfold_locales
    (auto simp: find_upsert[where key = pr_id] upsert_distinct[where key = pr_id] find_filter[where key = pr_id]
      merge_profile_def profile_to_row_def distinct_map_filter split: option.splits)

interpretation transfers: keyed_store "\<lambda>rows. distinct (map tr_id rows)" job_id
  "\<lambda>uid rows. map_option tr_json (find_row (\<lambda>row. tr_id row = uid) rows)"
  "\<lambda>job. upsert tr_id merge_transfer (transfer_to_row job)" "\<lambda>uid. filter (\<lambda>row. tr_id row \<noteq> uid)"
  by unfold_locales
    (auto simp: find_upsert[where key = tr_id] upsert_distinct[where key = tr_id] find_filter[where key = tr_id]
      merge_transfer_def transfer_to_row_def distinct_map_filter split: option.splits)

interpretation actions: keyed_store "\<lambda>rows. distinct (map ar_id rows)" act_id
  "\<lambda>uid rows. map_option ar_json (find_row (\<lambda>row. ar_id row = uid) rows)"
  "\<lambda>a. upsert ar_id (\<lambda>old new. new) (action_to_row a)" "\<lambda>uid. filter (\<lambda>row. ar_id row \<noteq> uid)"
  by unfold_locales
    (auto simp: find_upsert[where key = ar_id] upsert_distinct[where key = ar_id] find_filter[where key = ar_id]
      action_to_row_def distinct_map_filter split: option.splits)

interpretation bookmarks: keyed_store "\<lambda>rows. distinct (map fr_id rows)" fr_id
  "\<lambda>uid. find_row (\<lambda>row. fr_id row = uid)"
  "upsert fr_id (\<lambda>old new. new)" "\<lambda>uid. filter (\<lambda>row. fr_id row \<noteq> uid)"
  by unfold_locales
    (auto simp: find_upsert[where key = fr_id] upsert_distinct[where key = fr_id] find_filter[where key = fr_id]
      distinct_map_filter split: option.splits)

section \<open>Integrity of the database\<close>

definition db_ok :: "Db \<Rightarrow> bool" where
  "db_ok db \<longleftrightarrow> distinct (map pr_id (connection_profiles db)) \<and> distinct (map host_key_id (known_hosts db))
     \<and> distinct (map fr_id (favorites db)) \<and> distinct (map tr_id (transfer_jobs db))
     \<and> distinct (map ar_id (saved_actions db))
     \<and> (\<forall>row \<in> set (favorites db). \<forall>p. fr_profile_id row = Some p \<longrightarrow> p \<in> pr_id ` set (connection_profiles db))
     \<and> (\<forall>row \<in> set (transfer_jobs db). tr_profile_id row \<in> pr_id ` set (connection_profiles db))"

lemma db_ok_faults [simp]: "db_ok (db\<lparr>db_faults := f\<rparr>) = db_ok db"
  by (simp add: db_ok_def)

lemma keeps_with_connection:
  "keeps db_ok m \<Longrightarrow> keeps db_ok (with_connection m)"
  by (auto simp: keeps_def with_connection_def map_err_def split: list.splits option.splits prod.splits sum.splits)
    (metis db_ok_faults snd_conv)+

lemma keeps_modify: "(\<And>db. db_ok db \<Longrightarrow> db_ok (f db)) \<Longrightarrow> keeps db_ok (modify f)"
  by (simp add: keeps_def modify_def)

lemma keeps_execute: "(\<And>db db'. db_ok db \<Longrightarrow> f db = Inr db' \<Longrightarrow> db_ok db') \<Longrightarrow> keeps db_ok (execute f)"
  by (auto simp: keeps_def execute_def split: sum.splits)

lemma upsert_set: "set (upsert key merge new rows) \<subseteq> set rows \<union> (\<lambda>row. merge row new) ` set rows \<union> {new}"
  by (auto simp: upsert_def)

lemma upsert_profile_ids:
  "pr_id ` set (upsert pr_id merge_profile (profile_to_row p) rows) = insert (prof_id p) (pr_id ` set rows)"
proof -
  have "map pr_id (upsert pr_id merge_profile (profile_to_row p) rows)
    = (if prof_id p \<in> pr_id ` set rows then map pr_id rows else map pr_id rows @ [prof_id p])"
    using upsert_keys[of pr_id "profile_to_row p" merge_profile rows]
    by (simp add: merge_profile_def profile_to_row_def)
  from arg_cong[OF this, of set] show ?thesis by auto
qed

lemma upsert_transfer_ok:
  assumes "db_ok db" "upsert_transfer row db = Inr db'"
  shows "db_ok db'"
proof -
  let ?rows = "upsert tr_id merge_transfer row (transfer_jobs db)"
  have db': "db' = db\<lparr>transfer_jobs := ?rows\<rparr>"
    "tr_id row \<in> tr_id ` set (transfer_jobs db) \<or> tr_profile_id row \<in> pr_id ` set (connection_profiles db)"
    using assms(2) by (auto simp: upsert_transfer_def split: if_splits)
  have "distinct (map tr_id ?rows)"
    using assms(1) by (intro upsert_distinct) (auto simp: db_ok_def merge_transfer_def)
  moreover have "tr_profile_id r \<in> pr_id ` set (connection_profiles db)" if "r \<in> set ?rows" for r
    using that assms(1) db'(2) by (auto simp: upsert_def db_ok_def merge_transfer_def split: if_splits)
  ultimately show ?thesis using assms(1) by (simp add: db_ok_def db'(1))
qed

lemma upsert_favorite_ok:
  assumes "db_ok db" "upsert_favorite row db = Inr db'"
  shows "db_ok db'"
proof -
  let ?rows = "upsert fr_id (\<lambda>old new. new) row (favorites db)"
  have db': "db' = db\<lparr>favorites := ?rows\<rparr>"
    "\<And>p. fr_profile_id row = Some p \<Longrightarrow> p \<in> pr_id ` set (connection_profiles db)"
    using assms(2) by (auto simp: upsert_favorite_def split: if_splits option.splits)
  have "distinct (map fr_id ?rows)"
    using assms(1) by (intro upsert_distinct) (auto simp: db_ok_def)
  moreover have "p \<in> pr_id ` set (connection_profiles db)" if "r \<in> set ?rows" "fr_profile_id r = Some p" for r p
    using that assms(1) db'(2) by (auto simp: upsert_def db_ok_def split: if_splits)
  ultimately show ?thesis using assms(1) by (simp add: db_ok_def db'(1))
qed

lemma seen_keeps_id [simp]:
  "host_key_id \<circ> (\<lambda>k. if P k then k\<lparr>key_last_seen_at := t\<rparr> else k) = host_key_id"
  by (auto simp: host_key_id_def fun_eq_iff)

lemma storage_calls_ok [keeps_intros]:
  "keeps db_ok (save_profile_row p)" "keeps db_ok (delete_profile_row uid)"
  "keeps db_ok (trust_host_key key)" "keeps db_ok (touch_host_key key)"
  "keeps db_ok (remove_host_key host port algorithm)"
  "keeps db_ok (save_preferences_row prefs)"
  "keeps db_ok (save_transfer job)" "keeps db_ok (save_transfers js)"
  "keeps db_ok (delete_transfers uids)" "keeps db_ok (save_favorite_row f)"
  "keeps db_ok (delete_favorite uid)" "keeps db_ok (save_action_row a)"
  "keeps db_ok (delete_saved_action uid)"
proof -
  show "keeps db_ok (save_profile_row p)"
    unfolding save_profile_row_def
  proof (intro keeps_with_connection keeps_modify)
    fix db assume ok: "db_ok db"
    have "distinct (map pr_id (upsert pr_id merge_profile (profile_to_row p) (connection_profiles db)))"
      using ok by (intro upsert_distinct) (auto simp: db_ok_def merge_profile_def)
    then show "db_ok (db\<lparr>connection_profiles :=
        upsert pr_id merge_profile (profile_to_row p) (connection_profiles db)\<rparr>)"
      using ok by (auto simp: db_ok_def upsert_profile_ids)
  qed
  show "keeps db_ok (delete_profile_row uid)"
    unfolding delete_profile_row_def
    by (intro keeps_with_connection keeps_modify) (force simp: db_ok_def distinct_map_filter)
  show "keeps db_ok (trust_host_key key)"
    unfolding trust_host_key_def
    by (intro keeps_with_connection keeps_modify) (auto simp: db_ok_def distinct_map_filter)
  show "keeps db_ok (touch_host_key key)"
    unfolding touch_host_key_def
    by (intro keeps_with_connection keeps_modify) (simp add: db_ok_def)
  show "keeps db_ok (save_preferences_row prefs)"
    unfolding save_preferences_row_def by (intro keeps_with_connection keeps_modify) (simp add: db_ok_def)
  show "keeps db_ok (save_transfer job)"
    unfolding save_transfer_def by (rule keeps_with_connection, rule keeps_execute, erule (1) upsert_transfer_ok)
  show "keeps db_ok (save_transfers js)"
  proof -
    have fold: "db_ok db'" if "db_ok db" "try_fold upsert_transfer rows db = Inr db'" for rows db db'
      by (rule try_fold_invariant[where P = db_ok, OF that(2,1)]) (rule upsert_transfer_ok)
    show ?thesis
      unfolding save_transfers_def
      by (rule keeps_if, rule keeps_ok, rule keeps_with_connection, rule keeps_execute, erule (1) fold)
  qed
  show "keeps db_ok (delete_transfers uids)"
  proof -
    have fold: "db_ok (fold (\<lambda>uid db. db\<lparr>transfer_jobs := filter (\<lambda>row. tr_id row \<noteq> uid) (transfer_jobs db)\<rparr>) us db)"
      if "db_ok db" for us db
      using that by (induction us arbitrary: db) (auto simp: db_ok_def distinct_map_filter)
    show ?thesis
      unfolding delete_transfers_def
      by (rule keeps_if, rule keeps_ok, rule keeps_with_connection, rule keeps_modify, erule fold)
  qed
  show "keeps db_ok (save_favorite_row f)"
    unfolding save_favorite_row_def by (rule keeps_with_connection, rule keeps_execute, erule (1) upsert_favorite_ok)
  have del: "keeps db_ok (execute_delete stmt)" if "\<And>db. db_ok db \<Longrightarrow> db_ok (snd (stmt db))" for stmt
    using that by (simp add: keeps_def execute_delete_def case_prod_beta)
  show "keeps db_ok (remove_host_key host port algorithm)" "keeps db_ok (delete_favorite uid)"
    "keeps db_ok (delete_saved_action uid)"
    unfolding remove_host_key_def delete_favorite_def delete_saved_action_def
    by (intro keeps_and_then keeps_with_connection del keeps_if keeps_err keeps_ok;
        auto simp: remove_rows_def db_ok_def distinct_map_filter)+
  show "keeps db_ok (save_action_row a)"
    unfolding save_action_row_def
    by (intro keeps_with_connection keeps_modify)
      (use actions.wf_put in \<open>auto simp: db_ok_def\<close>)
qed

text \<open>How a call runs when SQLite does not fail.\<close>

definition healthy :: "Db \<Rightarrow> bool" where
  "healthy db \<longleftrightarrow> db_faults db = []"

lemma with_connection_healthy:
  "healthy db \<Longrightarrow> with_connection m db = map_err storage_error m db"
  by (cases db) (simp add: healthy_def with_connection_def)

definition profile_in :: "uuid \<Rightarrow> Db \<Rightarrow> ConnectionProfile option" where
  "profile_in uid db = map_option pr_json (find_row (\<lambda>row. pr_id row = uid) (connection_profiles db))"

definition transfer_in :: "uuid \<Rightarrow> Db \<Rightarrow> TransferJob option" where
  "transfer_in uid db = map_option tr_json (find_row (\<lambda>row. tr_id row = uid) (transfer_jobs db))"

lemma contains_no_rows: "contains no_rows no_rows"
  by (simp add: no_rows_def starts_with_def)

lemma get_profile_healthy:
  assumes "healthy db"
  shows "get_profile uid db = (case profile_in uid db of Some p \<Rightarrow> (Inr p, db)
     | None \<Rightarrow> (Inl (new_error NotFound ''The connection profile was not found''), db))"
  using contains_no_rows
  by (auto simp: get_profile_def with_connection_healthy[OF assms] run_simps profile_in_def
      storage_error_def with_detail_def new_error_def split: option.splits)

lemma save_profile_healthy:
  assumes "healthy db" "db_ok db" "save_profile_row p db = (r, db')"
  shows "r = Inr () \<and> healthy db' \<and> (\<forall>uid. profile_in uid db' = (if uid = prof_id p then Some p else profile_in uid db))"
proof -
  have run: "r = Inr ()" "db' = db\<lparr>connection_profiles :=
      upsert pr_id merge_profile (profile_to_row p) (connection_profiles db)\<rparr>"
    using assms(1,3) by (auto simp: save_profile_row_def with_connection_healthy run_simps)
  have "distinct (map pr_id (connection_profiles db))" using assms(2) by (simp add: db_ok_def)
  from profiles.get_put[OF this] assms(1) show ?thesis
    unfolding run profile_in_def healthy_def by simp
qed

lemma delete_profile_healthy:
  assumes "healthy db" "db_ok db" "delete_profile_row uid db = (r, db')"
  shows "r = Inr () \<and> healthy db' \<and> (\<forall>k. profile_in k db' = (if k = uid then None else profile_in k db))
    \<and> (\<forall>row. row \<in> set (transfer_jobs db') \<longleftrightarrow> row \<in> set (transfer_jobs db) \<and> tr_profile_id row \<noteq> uid)
    \<and> (\<forall>row. row \<in> set (favorites db') \<longleftrightarrow> row \<in> set (favorites db) \<and> fr_profile_id row \<noteq> Some uid)"
proof -
  have run: "r = Inr ()" "db' = db\<lparr>connection_profiles := filter (\<lambda>row. pr_id row \<noteq> uid) (connection_profiles db),
     favorites := filter (\<lambda>row. fr_profile_id row \<noteq> Some uid) (favorites db),
     transfer_jobs := filter (\<lambda>row. tr_profile_id row \<noteq> uid) (transfer_jobs db)\<rparr>"
    using assms(1,3) by (auto simp: delete_profile_row_def with_connection_healthy run_simps)
  have "distinct (map pr_id (connection_profiles db))" using assms(2) by (simp add: db_ok_def)
  from profiles.get_del[OF this] assms(1) show ?thesis
    unfolding run profile_in_def healthy_def by simp
qed

section \<open>Properties\<close>


text \<open>Saving a profile and reading it back gives the profile, and the others are unchanged; after
  deleting it, reading it reports that it was not found, its transfers and bookmarks are gone, and
  saving a job of it that is not stored any more is refused.\<close>

theorem profile_lifecycle:
  assumes "healthy db" "db_ok db" "save_profile_row p db = (r1, db1)"
    and "delete_profile_row (prof_id p) db1 = (r2, db2)"
    and "job_profile_id job = prof_id p"
  shows "fst (get_profile (prof_id p) db1) = Inr p
    \<and> (\<forall>uid. uid \<noteq> prof_id p \<longrightarrow> fst (get_profile uid db1) = fst (get_profile uid db))
    \<and> fails_with NotFound (fst (get_profile (prof_id p) db2))
    \<and> prof_id p \<notin> tr_profile_id ` set (transfer_jobs db2)
    \<and> Some (prof_id p) \<notin> fr_profile_id ` set (favorites db2)
    \<and> (job_id job \<notin> tr_id ` set (transfer_jobs db2) \<longrightarrow> fails_with StorageError (fst (save_transfer job db2)))"
proof -
  note s = save_profile_healthy[OF assms(1-3)]
  have ok1: "db_ok db1" using keeps_run[OF storage_calls_ok(1) assms(3,2)] .
  note d = delete_profile_healthy[OF conjunct1[OF conjunct2[OF s]] ok1 assms(4)]
  have none: "profile_in (prof_id p) db2 = None" using d by simp
  then have "prof_id p \<notin> pr_id ` set (connection_profiles db2)"
    by (auto simp: profile_in_def find_row_None)
  then have "job_id job \<notin> tr_id ` set (transfer_jobs db2) \<longrightarrow> fails_with StorageError (fst (save_transfer job db2))"
    using d assms(5)
    by (simp add: save_transfer_def with_connection_healthy run_simps execute_def upsert_transfer_def
        transfer_to_row_def storage_error_def)
  then show ?thesis
    using s d none assms(1)
    by (auto simp: get_profile_healthy split: option.splits)
qed

lemma profile_lifecycle_witness:
  "fst (get_profile ''p'' (snd (save_profile_row (new_profile ''p'' 0 ''L'' ''h'' ''u'' Agent) new_db)))
     = Inr (new_profile ''p'' 0 ''L'' ''h'' ''u'' Agent)"
proof -
  have "healthy new_db" "db_ok new_db" by (simp_all add: healthy_def new_db_def db_ok_def)
  from profile_lifecycle[OF this, of "new_profile ''p'' 0 ''L'' ''h'' ''u'' Agent"
      "fst (save_profile_row (new_profile ''p'' 0 ''L'' ''h'' ''u'' Agent) new_db)"
      "snd (save_profile_row (new_profile ''p'' 0 ''L'' ''h'' ''u'' Agent) new_db)"
      "fst (delete_profile_row ''p'' (snd (save_profile_row (new_profile ''p'' 0 ''L'' ''h'' ''u'' Agent) new_db)))"
      "snd (delete_profile_row ''p'' (snd (save_profile_row (new_profile ''p'' 0 ''L'' ''h'' ''u'' Agent) new_db)))"
      "new_job ''j'' 0 ''p'' Upload ''/s'' ''/d'' None"]
  show ?thesis by (simp add: new_profile_def)
qed

end
