(* ===== verification/Transfer_Run.thy ===== *)
theory Transfer_Run
  imports Scheduler Storage Paths Filesystems
begin

text \<open>
  \<^verbatim>\<open>src-tauri/src/transfers.rs\<close>: a transfer from the moment it is spawned until it completes, fails or
  is given up. The functions are effects on a \<open>World\<close>: the queue, the database, the preferences, the
  open sessions, the state of the servers and of the disk, and scripts for everything that is decided
  elsewhere. Before each lock of the queue the other tasks and commands may have changed it: the next
  element of \<open>w_env\<close> is applied (pausing or cancelling the job, for example). \<open>w_instants\<close> are the
  readings of the monotonic clock in seconds, and \<open>w_polls\<close> the number of state checks \<^verbatim>\<open>throttle\<close>
  makes before its reservation is due.

  The copy loops end because every round moves the offset: they are functions by a measure, no fuel.
\<close>

section \<open>The world of a transfer\<close>

record 'r SessionRecord =
  sess_profile_id :: uuid
  sess_client :: "'r RemoteFilesystem"

datatype diagnostic =
    TransferStarted TransferDirection
  | TransferRetried TransferDirection u8 u8 ErrorCode
  | TransferDone TransferDirection u8
  | TransferFailed TransferDirection ErrorCode

record ('r, 'l) World =
  w_queue :: TransferQueue
  w_db :: Db
  w_prefs :: Preferences
  w_sessions :: "(uuid \<times> 'r SessionRecord) list"
  w_remote :: 'r
  w_disk :: 'l
  w_fs :: "'l LocalFs"
  w_buckets :: buckets
  w_now :: datetime
  w_local_day :: u8
  w_local_minute :: nat
  w_env :: "(TransferQueue \<Rightarrow> TransferQueue) list"
  w_instants :: "rat list"
  w_polls :: "nat list"
  w_permits :: "(uuid \<times> string) list"
  w_events :: "TransferProgress list"
  w_diagnostics :: "diagnostic list"

type_synonym ('r, 'l, 'a) wact = "(('r, 'l) World, 'a) act"

text \<open>Lock the queue: other tasks went first.\<close>

definition interfere :: "('r, 'l) World \<Rightarrow> ('r, 'l) World" where
  "interfere w = (case w_env w of
      [] \<Rightarrow> w | f # fs \<Rightarrow> w\<lparr>w_queue := f (w_queue w), w_env := fs\<rparr>)"

definition with_queue :: "'a queue_act \<Rightarrow> ('r, 'l, 'a) wact" where
  "with_queue m = (\<lambda>w. let w' = interfere w in
     case m (w_queue w') of (r, q) \<Rightarrow> (r, w'\<lparr>w_queue := q\<rparr>))"

definition with_db :: "'a db_act \<Rightarrow> ('r, 'l, 'a) wact" where
  "with_db m = (\<lambda>w. case m (w_db w) of (r, db) \<Rightarrow> (r, w\<lparr>w_db := db\<rparr>))"

definition with_remote :: "('r, 'a) act \<Rightarrow> ('r, 'l, 'a) wact" where
  "with_remote m = (\<lambda>w. case m (w_remote w) of (r, s) \<Rightarrow> (r, w\<lparr>w_remote := s\<rparr>))"

definition local_io_error :: "io_error \<Rightarrow> AppError" where
  "local_io_error e = with_detail (new_error
     (case io_kind e of IoNotFound \<Rightarrow> NotFound | IoPermissionDenied \<Rightarrow> PermissionDenied
        | IoAlreadyExists \<Rightarrow> AlreadyExists | _ \<Rightarrow> IoError) ''The local file operation failed'') (io_text e)"

definition with_disk :: "('l LocalFs \<Rightarrow> ('l, 'a) io) \<Rightarrow> ('r, 'l, 'a) wact" where
  "with_disk m = (\<lambda>w. case m (w_fs w) (w_disk w) of
     (Inl e, d) \<Rightarrow> (Inl (local_io_error e), w\<lparr>w_disk := d\<rparr>) | (Inr a, d) \<Rightarrow> (Inr a, w\<lparr>w_disk := d\<rparr>))"

definition instant :: "('r, 'l, rat) wact" where
  "instant = (\<lambda>w. case w_instants w of [] \<Rightarrow> (Inr 0, w) | t # ts \<Rightarrow> (Inr t, w\<lparr>w_instants := ts\<rparr>))"

definition polls :: "('r, 'l, nat) wact" where
  "polls = (\<lambda>w. case w_polls w of [] \<Rightarrow> (Inr 0, w) | n # ns \<Rightarrow> (Inr n, w\<lparr>w_polls := ns\<rparr>))"

definition diagnose :: "diagnostic \<Rightarrow> ('r, 'l, unit) wact" where
  "diagnose d = modify (\<lambda>w. w\<lparr>w_diagnostics := w_diagnostics w @ [d]\<rparr>)"

section \<open>Constants\<close>

definition CHUNK_SIZE :: nat where "CHUNK_SIZE = 4 * 1024 * 1024"
definition MIN_THROTTLED_CHUNK_SIZE :: nat where "MIN_THROTTLED_CHUNK_SIZE = 1024"
definition THROTTLE_CHECKS_PER_SECOND :: nat where "THROTTLE_CHECKS_PER_SECOND = 4"
definition MAX_SHA256_VERIFICATION_BYTES :: nat where
  "MAX_SHA256_VERIFICATION_BYTES = 64 * 1024 * 1024"
definition PROGRESS_EMIT_INTERVAL :: rat where "PROGRESS_EMIT_INTERVAL = 1 / 10"
definition PROGRESS_PERSIST_INTERVAL :: rat where "PROGRESS_PERSIST_INTERVAL = 1"

section \<open>The queue, the database and the window\<close>

definition job_not_found :: AppError where
  "job_not_found = new_error NotFound ''Transfer not found''"

definition job_snapshot :: "uuid \<Rightarrow> ('r, 'l, TransferJob) wact" where
  "job_snapshot uid = with_queue (\<lambda>q. case get_job q uid of
       None \<Rightarrow> (Inl job_not_found, q) | Some job \<Rightarrow> (Inr job, q))"

definition progress_from_job :: "TransferJob \<Rightarrow> TransferProgress" where
  "progress_from_job job = \<lparr>progress_id = job_id job, progress_state = job_state job,
     progress_bytes_transferred = job_bytes_transferred job, progress_bytes_total = job_bytes_total job,
     progress_speed = job_speed job, progress_retry_count = job_retry_count job,
     progress_verification = job_verification job, progress_error = job_error job\<rparr>"

definition emit :: "TransferProgress \<Rightarrow> ('r, 'l, unit) wact" where
  "emit p = modify (\<lambda>w. w\<lparr>w_events := w_events w @ [p]\<rparr>)"

definition emit_current :: "uuid \<Rightarrow> ('r, 'l, unit) wact" where
  "emit_current uid = and_then (attempt (job_snapshot uid))
     (\<lambda>r. case r of Inr job \<Rightarrow> emit (progress_from_job job) | Inl _ \<Rightarrow> ok ())"

definition persist_transfer :: "TransferJob \<Rightarrow> ('r, 'l, unit) wact" where
  "persist_transfer job = with_db (save_transfer job)"

text \<open>One lock: run the queue operation and read the job back (\<^verbatim>\<open>expect("transfer exists")\<close>).\<close>

definition update_and_get :: "uuid \<Rightarrow> unit queue_act \<Rightarrow> TransferJob queue_act" where
  "update_and_get uid m = and_then m (\<lambda>_ q. case get_job q uid of
       None \<Rightarrow> (Inl job_not_found, q) | Some job \<Rightarrow> (Inr job, q))"

definition clock :: "(datetime \<Rightarrow> ('r, 'l, 'a) wact) \<Rightarrow> ('r, 'l, 'a) wact" where
  "clock k = (\<lambda>w. k (w_now w) w)"

definition set_total :: "uuid \<Rightarrow> nat \<Rightarrow> ('r, 'l, unit) wact" where
  "set_total uid tot = clock (\<lambda>now.
     and_then (with_queue (update_and_get uid (update_total now uid tot))) persist_transfer)"

definition world_transition :: "uuid \<Rightarrow> TransferState \<Rightarrow> ('r, 'l, unit) wact" where
  "world_transition uid nxt = clock (\<lambda>now.
     and_then (with_queue (update_and_get uid (transition now uid nxt))) persist_transfer)"

definition world_update_destination :: "uuid \<Rightarrow> string \<Rightarrow> ('r, 'l, unit) wact" where
  "world_update_destination uid destination = clock (\<lambda>now.
     and_then (with_queue (update_and_get uid (update_destination now uid destination)))
       (\<lambda>job. with_db (save_transfer job)))"

definition set_verification :: "uuid \<Rightarrow> TransferVerification \<Rightarrow> ('r, 'l, unit) wact" where
  "set_verification uid v = clock (\<lambda>now.
     and_then (with_queue (update_and_get uid (set_job_verification now uid v)))
       (\<lambda>job. with_db (save_transfer job)))"

definition ensure_running :: "uuid \<Rightarrow> ('r, 'l, unit) wact" where
  "ensure_running uid = and_then (job_snapshot uid) (\<lambda>job.
     case job_state job of
       Running \<Rightarrow> ok ()
     | Paused \<Rightarrow> err (new_error Conflict ''Transfer paused'')
     | Cancelled \<Rightarrow> err (new_error Conflict ''Transfer cancelled'')
     | _ \<Rightarrow> err (new_error Conflict ''Transfer is no longer running''))"

section \<open>Progress\<close>

record ProgressCadence =
  last_emit :: rat
  last_persist :: rat

definition new_cadence :: "rat \<Rightarrow> ProgressCadence" where
  "new_cadence now = \<lparr>last_emit = now - PROGRESS_EMIT_INTERVAL, last_persist = now - PROGRESS_PERSIST_INTERVAL\<rparr>"

definition average_speed :: "nat \<Rightarrow> nat \<Rightarrow> rat \<Rightarrow> nat option" where
  "average_speed bytes starting_offset elapsed =
     (if 0 < elapsed then Some (nat \<lfloor>of_nat (saturating_sub bytes starting_offset) / elapsed\<rfloor>) else None)"

definition record_progress ::
  "uuid \<Rightarrow> nat \<Rightarrow> nat \<Rightarrow> rat \<Rightarrow> ProgressCadence \<Rightarrow> ('r, 'l, ProgressCadence) wact" where
  "record_progress uid bytes starting_offset started cadence =
     and_then instant (\<lambda>t. and_then instant (\<lambda>now.
       let speed = average_speed bytes starting_offset (max 0 (t - started));
           should_emit = PROGRESS_EMIT_INTERVAL \<le> now - last_emit cadence;
           should_persist = PROGRESS_PERSIST_INTERVAL \<le> now - last_persist cadence
       in clock (\<lambda>stamp.
          and_then (with_queue (update_and_get uid (update_progress stamp uid bytes speed))) (\<lambda>job.
          and_then (when_do should_persist (persist_transfer job)) (\<lambda>_.
          and_then (when_do should_emit (emit (progress_from_job job))) (\<lambda>_.
          ok (cadence\<lparr>last_persist := (if should_persist then now else last_persist cadence),
                      last_emit := (if should_emit then now else last_emit cadence)\<rparr>)))))))"

section \<open>Bandwidth\<close>

definition positive :: "nat option \<Rightarrow> nat option" where
  "positive limit = (case limit of Some n \<Rightarrow> if 0 < n then Some n else None | None \<Rightarrow> None)"

definition strictest_limit :: "nat option \<Rightarrow> nat option \<Rightarrow> nat option" where
  "strictest_limit first second =
     (case (positive first, positive second) of
        (Some a, Some b) \<Rightarrow> Some (min a b)
      | (Some a, None) \<Rightarrow> Some a
      | (None, Some b) \<Rightarrow> Some b
      | (None, None) \<Rightarrow> None)"

definition transfer_chunk_size :: "nat option \<times> nat option \<Rightarrow> nat" where
  "transfer_chunk_size lims =
     (case strictest_limit (fst lims) (snd lims) of
        None \<Rightarrow> CHUNK_SIZE
      | Some limit \<Rightarrow>
          max MIN_THROTTLED_CHUNK_SIZE (min CHUNK_SIZE (limit div THROTTLE_CHECKS_PER_SECOND)))"

text \<open>\<^verbatim>\<open>parse\<close> of a time of day: hours and minutes as \<^verbatim>\<open>u32\<close>, in minutes (with its wrap-around).\<close>

definition parse_time_of_day :: "string \<Rightarrow> nat option" where
  "parse_time_of_day value = (case split_once (CHR '':'') value of
      None \<Rightarrow> None
    | Some (hour, minute) \<Rightarrow>
        (case (parse_uint 4294967295 hour, parse_uint 4294967295 minute) of
           (Some h, Some m) \<Rightarrow> Some ((h * 60 + m) mod 4294967296) | _ \<Rightarrow> None))"

definition schedule_active :: "u8 \<Rightarrow> nat \<Rightarrow> BandwidthSchedule \<Rightarrow> bool" where
  "schedule_active day minute schedule =
     (if \<not> sched_enabled schedule \<or> (sched_days schedule \<noteq> [] \<and> day \<notin> set (sched_days schedule)) then False
      else case (parse_time_of_day (sched_start_time schedule), parse_time_of_day (sched_end_time schedule)) of
             (Some start, Some stop) \<Rightarrow>
               if start \<le> stop then start \<le> minute \<and> minute < stop else start \<le> minute \<or> minute < stop
           | _ \<Rightarrow> False)"

definition active_schedule :: "u8 \<Rightarrow> nat \<Rightarrow> Preferences \<Rightarrow> BandwidthSchedule option" where
  "active_schedule day minute prefs = List.find (schedule_active day minute) (pref_bandwidth_schedules prefs)"

definition by_direction :: "TransferDirection \<Rightarrow> nat option \<Rightarrow> nat option \<Rightarrow> nat option" where
  "by_direction d upload download = (case d of
      Upload \<Rightarrow> upload | Download \<Rightarrow> download | RemoteToRemote \<Rightarrow> strictest_limit upload download)"

definition bandwidth_limits ::
  "datetime \<Rightarrow> u8 \<Rightarrow> nat \<Rightarrow> Preferences \<Rightarrow> TransferJob \<Rightarrow> nat option \<times> nat option" where
  "bandwidth_limits now day minute prefs job =
     (let temporary = (case pref_temporary_bandwidth_limit prefs of
             Some l \<Rightarrow> if now < temp_expires_at l then Some l else None | None \<Rightarrow> None);
          d = job_direction job;
          global = (case temporary of
             Some l \<Rightarrow> by_direction d (temp_upload_bps l) (temp_download_bps l)
           | None \<Rightarrow> (case active_schedule day minute prefs of
               Some s \<Rightarrow> by_direction d (sched_upload_bps s) (sched_download_bps s)
             | None \<Rightarrow> by_direction d (pref_global_upload_limit_bps prefs) (pref_global_download_limit_bps prefs)));
          profile = (case pref_profile_bandwidth_limits prefs (job_profile_id job) of
             Some l \<Rightarrow> by_direction d (limit_upload_bps l) (limit_download_bps l) | None \<Rightarrow> None)
      in (global, profile))"

definition transfer_limits :: "TransferJob \<Rightarrow> ('r, 'l, nat option \<times> nat option) wact" where
  "transfer_limits job =
     gets (\<lambda>w. bandwidth_limits (w_now w) (w_local_day w) (w_local_minute w) (w_prefs w) job)"

definition direction_name :: "TransferDirection \<Rightarrow> string" where
  "direction_name d = (case d of Upload \<Rightarrow> ''upload'' | Download \<Rightarrow> ''download'' | RemoteToRemote \<Rightarrow> ''remote'')"

text \<open>The checks while the reservation sleeps; when one fails the reservation is dropped uncommitted.\<close>

fun poll_running :: "nat \<Rightarrow> uuid \<Rightarrow> ('r, 'l, unit) wact" where
  "poll_running 0 uid = ok ()"
| "poll_running (Suc n) uid = and_then (ensure_running uid) (\<lambda>_. poll_running n uid)"

definition throttle ::
  "TransferJob \<Rightarrow> uuid \<Rightarrow> nat \<Rightarrow> nat option \<times> nat option \<Rightarrow> ('r, 'l, unit) wact" where
  "throttle job uid bytes lims =
     (if strictest_limit (fst lims) (snd lims) = None then ensure_running uid
      else and_then instant (\<lambda>t1. and_then instant (\<lambda>t2. and_then polls (\<lambda>n w.
        case limiter_acquire t1 t2 (direction_name (job_direction job)) (job_profile_id job) bytes
               (fst lims) (snd lims) (w_buckets w) of
          ((wait, reserved), bs) \<Rightarrow>
            (case poll_running (if wait = 0 then 0 else n) uid (w\<lparr>w_buckets := bs\<rparr>) of
               (Inl e, w') \<Rightarrow> and_then instant (\<lambda>t. and_then
                   (modify (\<lambda>w. w\<lparr>w_buckets := drop_reservation t reserved bytes False (w_buckets w)\<rparr>))
                   (\<lambda>_. err e)) w'
             | (Inr _, w') \<Rightarrow> ensure_running uid w')))))"

section \<open>Hashing\<close>

text \<open>The hasher consumes the chunks in order; its digest is that of their concatenation. \<open>sha256\<close> is
  the digest function of the \<^verbatim>\<open>sha2\<close> crate, a parameter. Offsets are \<^verbatim>\<open>u64\<close>, which ends the read of a
  local file. The two hashes that the source computes concurrently are computed one after the other.\<close>

lemma and_then_cong [fundef_cong]:
  assumes "m w = m' w'" "\<And>a w1. m' w' = (Inr a, w1) \<Longrightarrow> k a w1 = k' a w1"
  shows "and_then m k w = and_then m' k' w'"
  using assms by (simp add: and_then_def split: prod.splits sum.splits)

function read_local_file :: "string \<Rightarrow> nat \<Rightarrow> bytes \<Rightarrow> ('r, 'l, bytes) wact" where
  "read_local_file path offset seen w =
     (if u64_max \<le> offset then (Inr seen, w)
      else and_then (with_disk (\<lambda>fs. l_read_at fs path offset CHUNK_SIZE)) (\<lambda>buf w.
        if buf = [] then (Inr seen, w)
        else read_local_file path (offset + length buf) (seen @ buf) w) w)"
  by pat_completeness auto
termination by (relation "measure (\<lambda>(_, offset, _, _). u64_max - offset)") (auto simp: diff_less_mono2)

definition hash_local_file :: "(bytes \<Rightarrow> bytes) \<Rightarrow> string \<Rightarrow> ('r, 'l, bytes) wact" where
  "hash_local_file sha256 path = and_then (with_disk (\<lambda>fs. l_open fs path)) (\<lambda>_.
     and_then (read_local_file path 0 []) (\<lambda>content. ok (sha256 content)))"

function read_remote_file ::
  "'r RemoteFilesystem \<Rightarrow> string \<Rightarrow> nat \<Rightarrow> nat \<Rightarrow> bytes \<Rightarrow> ('r, 'l, bytes) wact" where
  "read_remote_file remote path expected offset seen w =
     (if offset < expected then
        and_then (with_remote (read_chunk remote path offset (min (expected - offset) CHUNK_SIZE)))
          (\<lambda>buf w. if buf = []
             then (Inl (new_error IoError ''The remote file ended during integrity verification''), w)
             else read_remote_file remote path expected (offset + length buf) (seen @ buf) w) w
      else (Inr seen, w))"
  by pat_completeness auto
termination
  by (relation "measure (\<lambda>(_, _, expected, offset, _, _). expected - offset)") (auto simp: diff_less_mono2)

definition hash_remote_file ::
  "(bytes \<Rightarrow> bytes) \<Rightarrow> 'r RemoteFilesystem \<Rightarrow> string \<Rightarrow> nat \<Rightarrow> ('r, 'l, bytes) wact" where
  "hash_remote_file sha256 remote path expected =
     and_then (read_remote_file remote path expected 0 []) (\<lambda>content. ok (sha256 content))"

declare read_local_file.simps [simp del] read_remote_file.simps [simp del]

section \<open>Verification\<close>

definition verification_error :: "nat \<Rightarrow> nat option \<Rightarrow> AppError" where
  "verification_error expected actual =
     with_detail (new_error Conflict ''Size verification failed; the partial file was retained'')
       (''Expected '' @ show_nat expected @ '' bytes, found ''
        @ (case actual of Some n \<Rightarrow> show_nat n | None \<Rightarrow> ''an unknown size''))"

definition remote_size :: "'r RemoteFilesystem \<Rightarrow> string \<Rightarrow> ('r, 'l, nat option) wact" where
  "remote_size remote path = and_then (with_remote (metadata remote path))
     (\<lambda>entry. ok (case entry of Some e \<Rightarrow> ent_size e | None \<Rightarrow> None))"

definition verify_upload ::
  "(bytes \<Rightarrow> bytes) \<Rightarrow> 'r RemoteFilesystem \<Rightarrow> uuid \<Rightarrow> nat \<Rightarrow> ('r, 'l, unit) wact" where
  "verify_upload sha256 remote uid expected =
     and_then (job_snapshot uid) (\<lambda>job.
     and_then (remote_size remote (job_partial_path job)) (\<lambda>size.
     if size \<noteq> Some expected then err (verification_error expected size)
     else and_then
       (if expected \<le> MAX_SHA256_VERIFICATION_BYTES then
          and_then (hash_local_file sha256 (job_source_path job)) (\<lambda>local_hash.
          and_then (hash_remote_file sha256 remote (job_partial_path job) expected) (\<lambda>remote_hash.
          if local_hash \<noteq> remote_hash
          then err (new_error Conflict
                 ''SHA-256 verification failed; the uploaded partial file was retained'')
          else ok Sha256Verified))
        else ok SizeVerified)
       (\<lambda>verification. set_verification uid verification)))"

definition verify_download ::
  "(bytes \<Rightarrow> bytes) \<Rightarrow> 'r RemoteFilesystem \<Rightarrow> uuid \<Rightarrow> nat \<Rightarrow> ('r, 'l, unit) wact" where
  "verify_download sha256 remote uid expected =
     and_then (job_snapshot uid) (\<lambda>job.
     and_then (with_disk (\<lambda>fs. l_metadata fs (job_partial_path job))) (\<lambda>local_meta.
     and_then (remote_size remote (job_source_path job)) (\<lambda>size.
     if lm_len local_meta \<noteq> expected \<or> size \<noteq> Some expected then err (verification_error expected size)
     else and_then
       (if expected \<le> MAX_SHA256_VERIFICATION_BYTES then
          and_then (hash_local_file sha256 (job_partial_path job)) (\<lambda>local_hash.
          and_then (hash_remote_file sha256 remote (job_source_path job) expected) (\<lambda>remote_hash.
          if local_hash \<noteq> remote_hash
          then err (new_error Conflict
                 ''SHA-256 verification failed; the downloaded partial file was retained'')
          else ok Sha256Verified))
        else ok SizeVerified)
       (\<lambda>verification. set_verification uid verification))))"

section \<open>Conflicts\<close>

definition no_free_name :: AppError where
  "no_free_name = new_error Conflict ''Could not find an available destination name''"

fun first_free_remote :: "'r RemoteFilesystem \<Rightarrow> string \<Rightarrow> nat list \<Rightarrow> ('r, 'l, string) wact" where
  "first_free_remote remote destination [] = err no_free_name"
| "first_free_remote remote destination (index # rest) =
     (let candidate = numbered_destination destination index
      in and_then (with_remote (metadata remote candidate)) (\<lambda>entry.
           if entry = None then ok candidate else first_free_remote remote destination rest))"

definition next_available_remote_destination ::
  "'r RemoteFilesystem \<Rightarrow> string \<Rightarrow> ('r, 'l, string) wact" where
  "next_available_remote_destination remote destination =
     first_free_remote remote destination [2..<10001]"

fun first_free_local :: "string \<Rightarrow> nat list \<Rightarrow> ('r, 'l, string) wact" where
  "first_free_local destination [] = err no_free_name"
| "first_free_local destination (index # rest) =
     (let candidate = numbered_destination destination index
      in and_then (with_disk (\<lambda>fs. l_try_exists fs candidate)) (\<lambda>present.
           if \<not> present then ok candidate else first_free_local destination rest))"

definition next_available_local_destination :: "string \<Rightarrow> ('r, 'l, string) wact" where
  "next_available_local_destination destination = first_free_local destination [2..<10001]"

text \<open>\<^verbatim>\<open>Ok(true)\<close>: the transfer stops here.\<close>

definition handle_remote_conflict :: "'r RemoteFilesystem \<Rightarrow> uuid \<Rightarrow> ('r, 'l, bool) wact" where
  "handle_remote_conflict remote uid =
     and_then (job_snapshot uid) (\<lambda>job.
     and_then (with_remote (metadata remote (job_destination_path job))) (\<lambda>entry.
     if entry = None then ok False
     else case job_conflict_policy job of
            Ask \<Rightarrow> and_then (world_transition uid WaitingForConflict) (\<lambda>_. ok True)
          | Skip \<Rightarrow> and_then (world_transition uid Completed) (\<lambda>_. ok True)
          | Overwrite \<Rightarrow> ok False
          | Rename \<Rightarrow> and_then (next_available_remote_destination remote (job_destination_path job))
              (\<lambda>destination. and_then (world_update_destination uid destination) (\<lambda>_. ok False))))"

definition handle_local_conflict :: "uuid \<Rightarrow> ('r, 'l, bool) wact" where
  "handle_local_conflict uid =
     and_then (job_snapshot uid) (\<lambda>job.
     and_then (with_disk (\<lambda>fs. l_try_exists fs (job_destination_path job))) (\<lambda>present.
     if \<not> present then ok False
     else case job_conflict_policy job of
            Ask \<Rightarrow> and_then (world_transition uid WaitingForConflict) (\<lambda>_. ok True)
          | Skip \<Rightarrow> and_then (world_transition uid Completed) (\<lambda>_. ok True)
          | Overwrite \<Rightarrow> ok False
          | Rename \<Rightarrow> and_then (next_available_local_destination (job_destination_path job))
              (\<lambda>destination. and_then (world_update_destination uid destination) (\<lambda>_. ok False))))"

section \<open>Commit\<close>

definition backup_path :: "TransferJob \<Rightarrow> string" where
  "backup_path job = job_destination_path job @ ''.siftlane-backup-'' @ job_id job"

text \<open>\<^verbatim>\<open>commit_remote\<close> and \<^verbatim>\<open>commit_local\<close> after the snapshot of the job: the same steps on the server and on
  the disk. An existing destination is moved aside first and restored when the second rename fails.\<close>

definition swap_in ::
  "(string \<Rightarrow> ('s, 'e, bool) eff) \<Rightarrow> (string \<Rightarrow> string \<Rightarrow> ('s, 'e, unit) eff) \<Rightarrow> (string \<Rightarrow> ('s, 'e, unit) eff)
   \<Rightarrow> string \<Rightarrow> string \<Rightarrow> string \<Rightarrow> ('s, 'e, unit) eff" where
  "swap_in present move delete partial destination backup =
     and_then (present destination) (\<lambda>there.
     if \<not> there then move partial destination
     else and_then (move destination backup) (\<lambda>_.
          and_then (attempt (move partial destination)) (\<lambda>r.
          case r of
            Inl e \<Rightarrow> and_then (attempt (move backup destination)) (\<lambda>_. err e)
          | Inr _ \<Rightarrow> delete backup)))"

definition remote_present :: "'r RemoteFilesystem \<Rightarrow> string \<Rightarrow> ('r, bool) act" where
  "remote_present remote path = and_then (metadata remote path) (\<lambda>entry. ok (entry \<noteq> None))"

definition commit_remote :: "'r RemoteFilesystem \<Rightarrow> uuid \<Rightarrow> ('r, 'l, unit) wact" where
  "commit_remote remote uid = and_then (job_snapshot uid) (\<lambda>job.
     with_remote (swap_in (remote_present remote) (rename remote) (remove_file remote)
       (job_partial_path job) (job_destination_path job) (backup_path job)))"

definition commit_local :: "uuid \<Rightarrow> ('r, 'l, unit) wact" where
  "commit_local uid = and_then (job_snapshot uid) (\<lambda>job.
     with_disk (\<lambda>fs. swap_in (l_try_exists fs) (l_rename fs) (l_remove_file fs)
       (job_partial_path job) (job_destination_path job) (backup_path job)))"

section \<open>Metadata and completion\<close>

definition preserve_upload_metadata :: "'r RemoteFilesystem \<Rightarrow> uuid \<Rightarrow> ('r, 'l, unit) wact" where
  "preserve_upload_metadata remote uid =
     and_then (job_snapshot uid) (\<lambda>job.
     if \<not> job_preserve_permissions job \<or> \<not> cap_chmod (capabilities remote) then ok ()
     else and_then (with_disk (\<lambda>fs. l_metadata fs (job_source_path job))) (\<lambda>meta.
       with_remote (set_permissions remote (job_destination_path job) (lm_mode meta))))"

definition preserve_download_metadata :: "FileEntry \<Rightarrow> uuid \<Rightarrow> ('r, 'l, unit) wact" where
  "preserve_download_metadata source uid =
     and_then (job_snapshot uid) (\<lambda>job.
     and_then
       (case (job_preserve_permissions job, ent_permissions source) of
          (True, Some mode) \<Rightarrow> with_disk (\<lambda>fs. l_set_permissions fs (job_destination_path job) mode)
        | _ \<Rightarrow> ok ())
       (\<lambda>_. case (job_preserve_modified_time job, ent_modified_at source) of
          (True, Some t) \<Rightarrow> with_disk (\<lambda>fs. l_set_modified fs (job_destination_path job) t)
        | _ \<Rightarrow> ok ()))"

definition complete :: "uuid \<Rightarrow> ('r, 'l, unit) wact" where
  "complete uid =
     and_then (world_transition uid Completed) (\<lambda>_.
     and_then (job_snapshot uid) (\<lambda>job.
     and_then (diagnose (TransferDone (job_direction job) (job_retry_count job))) (\<lambda>_.
     emit_current uid)))"

end
