(* ===== verification/Transfer_Tasks.thy ===== *)
theory Transfer_Tasks
  imports Transfer_Run
begin

text \<open>
  \<^verbatim>\<open>src-tauri/src/transfers.rs\<close>, continued: the three kinds of transfer, the task that runs a job
  (\<^verbatim>\<open>spawn\<close>), its automatic retries and how it is given up. The digest function of the \<^verbatim>\<open>sha2\<close> crate and
  the reconnection of a profile (\<^verbatim>\<open>reconnect_profile_for_transfer\<close>, which opens a network session) are
  parameters. The loop of \<^verbatim>\<open>spawn\<close> runs with fuel: its value is \<open>None\<close> when the fuel ends before the
  loop does.
\<close>

section \<open>Upload\<close>

text \<open>\<^verbatim>\<open>metadata(path)?.and_then(size).unwrap_or(0).min(bound)\<close>: how much of an earlier attempt is there.\<close>

definition resume_offset :: "'r RemoteFilesystem \<Rightarrow> string \<Rightarrow> nat \<Rightarrow> ('r, 'l, nat) wact" where
  "resume_offset remote path bound = and_then (remote_size remote path)
     (\<lambda>size. ok (min (case size of Some n \<Rightarrow> n | None \<Rightarrow> 0) bound))"

text \<open>The loop returns the offset at which it stopped. A read of length 0 ends it early.\<close>

function upload_loop ::
  "'r RemoteFilesystem \<Rightarrow> TransferJob \<Rightarrow> uuid \<Rightarrow> nat \<Rightarrow> nat \<Rightarrow> rat \<Rightarrow> ProgressCadence \<Rightarrow> nat
   \<Rightarrow> ('r, 'l, nat) wact" where
  "upload_loop remote job uid tot partial_size started cadence offset w =
     (if offset < tot then
        and_then (ensure_running uid) (\<lambda>_.
        and_then (transfer_limits job) (\<lambda>lims.
        and_then (with_disk (\<lambda>fs. l_read_at fs (job_source_path job) offset
                    (min (transfer_chunk_size lims) CHUNK_SIZE))) (\<lambda>buf w.
        if buf = [] then (Inr offset, w) else
        and_then (throttle job uid (length buf) lims) (\<lambda>_.
        and_then (with_remote (write_chunk remote (job_partial_path job) offset buf)) (\<lambda>_.
        and_then (record_progress uid (offset + length buf) partial_size started cadence) (\<lambda>cadence'.
        upload_loop remote job uid tot partial_size started cadence' (offset + length buf)))) w))) w
      else (Inr offset, w))"
  by pat_completeness auto
termination
  by (relation "measure (\<lambda>(_, _, _, tot, _, _, _, offset, _). tot - offset)") (auto simp: diff_less_mono2)

text \<open>What follows the handling of a conflict, and the whole.\<close>

definition upload_content :: "(bytes \<Rightarrow> bytes) \<Rightarrow> 'r RemoteFilesystem \<Rightarrow> uuid \<Rightarrow> nat \<Rightarrow> ('r, 'l, unit) wact" where
  "upload_content sha256 remote uid tot =
     and_then (job_snapshot uid) (\<lambda>job.
     and_then (resume_offset remote (job_partial_path job) tot) (\<lambda>partial_size.
     and_then (with_disk (\<lambda>fs. l_open fs (job_source_path job))) (\<lambda>_.
     and_then instant (\<lambda>started.
     and_then instant (\<lambda>now.
     and_then (upload_loop remote job uid tot partial_size started (new_cadence now) partial_size) (\<lambda>_.
     and_then (with_remote (sync_file remote (job_partial_path job))) (\<lambda>_.
     and_then (verify_upload sha256 remote uid tot) (\<lambda>_.
     and_then (commit_remote remote uid) (\<lambda>_.
     and_then (preserve_upload_metadata remote uid) (\<lambda>_.
     complete uid))))))))))"

definition upload :: "(bytes \<Rightarrow> bytes) \<Rightarrow> 'r RemoteFilesystem \<Rightarrow> uuid \<Rightarrow> ('r, 'l, unit) wact" where
  "upload sha256 remote uid =
     and_then (job_snapshot uid) (\<lambda>first.
     and_then (with_disk (\<lambda>fs. l_metadata fs (job_source_path first))) (\<lambda>source_meta.
     and_then (set_total uid (lm_len source_meta)) (\<lambda>_.
     and_then (handle_remote_conflict remote uid) (\<lambda>stop.
     if stop then emit_current uid else upload_content sha256 remote uid (lm_len source_meta)))))"

section \<open>Download\<close>

function download_loop ::
  "'r RemoteFilesystem \<Rightarrow> TransferJob \<Rightarrow> uuid \<Rightarrow> nat \<Rightarrow> nat \<Rightarrow> rat \<Rightarrow> ProgressCadence \<Rightarrow> nat
   \<Rightarrow> ('r, 'l, nat) wact" where
  "download_loop remote job uid tot starting_offset started cadence offset w =
     (if offset < tot then
        and_then (ensure_running uid) (\<lambda>_.
        and_then (transfer_limits job) (\<lambda>lims.
        and_then (throttle job uid (min (tot - offset) (transfer_chunk_size lims)) lims) (\<lambda>_.
        and_then (with_remote (read_chunk remote (job_source_path job) offset
                    (min (tot - offset) (transfer_chunk_size lims)))) (\<lambda>buf w.
        if buf = []
        then (Inl (new_error IoError ''The remote file ended before its advertised size''), w) else
        and_then (with_disk (\<lambda>fs. l_write_at fs (job_partial_path job) offset buf)) (\<lambda>_.
        and_then (record_progress uid (offset + length buf) starting_offset started cadence) (\<lambda>cadence'.
        download_loop remote job uid tot starting_offset started cadence' (offset + length buf))) w)))) w
      else (Inr offset, w))"
  by pat_completeness auto
termination
  by (relation "measure (\<lambda>(_, _, _, tot, _, _, _, offset, _). tot - offset)") (auto simp: diff_less_mono2)

text \<open>\<^verbatim>\<open>Path::parent\<close> of a destination file: the text before its last separator.\<close>

definition create_parent :: "string \<Rightarrow> ('r, 'l, unit) wact" where
  "create_parent path = (case rsplit_once (CHR ''/'') path of
      None \<Rightarrow> with_disk (\<lambda>fs. l_create_dir_all fs [])
    | Some (parent, _) \<Rightarrow> with_disk (\<lambda>fs. l_create_dir_all fs (if parent = [] then ''/'' else parent)))"

definition known_size :: "string \<Rightarrow> FileEntry option \<Rightarrow> (FileEntry \<times> nat) result" where
  "known_size unreported entry = (case entry of
      None \<Rightarrow> Inl (new_error NotFound ''The remote source no longer exists'')
    | Some e \<Rightarrow> (case ent_size e of
        None \<Rightarrow> Inl (new_error Unsupported unreported) | Some n \<Rightarrow> Inr (e, n)))"

definition download_content ::
  "(bytes \<Rightarrow> bytes) \<Rightarrow> 'r RemoteFilesystem \<Rightarrow> uuid \<Rightarrow> FileEntry \<Rightarrow> nat \<Rightarrow> ('r, 'l, unit) wact" where
  "download_content sha256 remote uid source tot =
     and_then (job_snapshot uid) (\<lambda>job.
     and_then (create_parent (job_partial_path job)) (\<lambda>_.
     and_then (with_disk (\<lambda>fs. l_open_rw fs (job_partial_path job))) (\<lambda>_.
     and_then (with_disk (\<lambda>fs. l_metadata fs (job_partial_path job))) (\<lambda>meta.
     and_then (with_disk (\<lambda>fs. l_set_len fs (job_partial_path job) (min (lm_len meta) tot))) (\<lambda>_.
     and_then instant (\<lambda>started.
     and_then instant (\<lambda>now.
     and_then (download_loop remote job uid tot (min (lm_len meta) tot) started (new_cadence now)
                 (min (lm_len meta) tot)) (\<lambda>_.
     and_then (with_disk (\<lambda>fs. l_sync fs (job_partial_path job))) (\<lambda>_.
     and_then (verify_download sha256 remote uid tot) (\<lambda>_.
     and_then (commit_local uid) (\<lambda>_.
     and_then (preserve_download_metadata source uid) (\<lambda>_.
     complete uid))))))))))))"

definition download :: "(bytes \<Rightarrow> bytes) \<Rightarrow> 'r RemoteFilesystem \<Rightarrow> uuid \<Rightarrow> ('r, 'l, unit) wact" where
  "download sha256 remote uid =
     and_then (job_snapshot uid) (\<lambda>first.
     and_then (with_remote (metadata remote (job_source_path first))) (\<lambda>entry.
     and_then (lift_result (known_size ''The remote server did not report a file size'' entry))
       (\<lambda>(source, tot).
     and_then (set_total uid tot) (\<lambda>_.
     and_then (handle_local_conflict uid) (\<lambda>stop.
     if stop then emit_current uid else download_content sha256 remote uid source tot)))))"

section \<open>Remote to remote\<close>

function relay_loop ::
  "'r RemoteFilesystem \<Rightarrow> 'r RemoteFilesystem \<Rightarrow> TransferJob \<Rightarrow> uuid \<Rightarrow> nat \<Rightarrow> nat \<Rightarrow> rat \<Rightarrow> ProgressCadence
   \<Rightarrow> nat \<Rightarrow> ('r, 'l, nat) wact" where
  "relay_loop source destination job uid tot starting_offset started cadence offset w =
     (if offset < tot then
        and_then (ensure_running uid) (\<lambda>_.
        and_then (transfer_limits job) (\<lambda>lims.
        and_then (throttle job uid (min (tot - offset) (transfer_chunk_size lims)) lims) (\<lambda>_.
        and_then (with_remote (read_chunk source (job_source_path job) offset
                    (min (tot - offset) (transfer_chunk_size lims)))) (\<lambda>buf w.
        if buf = [] \<or> min (tot - offset) (transfer_chunk_size lims) < length buf
        then (Inl (new_error IoError ''The source returned an invalid streaming chunk''), w) else
        and_then (with_remote (write_chunk destination (job_partial_path job) offset buf)) (\<lambda>_.
        and_then (record_progress uid (offset + length buf) starting_offset started cadence) (\<lambda>cadence'.
        relay_loop source destination job uid tot starting_offset started cadence' (offset + length buf)))
          w)))) w
      else (Inr offset, w))"
  by pat_completeness auto
termination
  by (relation "measure (\<lambda>(_, _, _, _, tot, _, _, _, offset, _). tot - offset)") (auto simp: diff_less_mono2)

declare upload_loop.simps [simp del] download_loop.simps [simp del] relay_loop.simps [simp del]

definition verify_relay ::
  "(bytes \<Rightarrow> bytes) \<Rightarrow> 'r RemoteFilesystem \<Rightarrow> 'r RemoteFilesystem \<Rightarrow> TransferJob \<Rightarrow> nat
   \<Rightarrow> ('r, 'l, TransferVerification) wact" where
  "verify_relay sha256 source destination job tot =
     and_then (remote_size destination (job_partial_path job)) (\<lambda>size.
     if size \<noteq> Some tot then err (verification_error tot size)
     else if tot \<le> MAX_SHA256_VERIFICATION_BYTES then
       and_then (hash_remote_file sha256 source (job_source_path job) tot) (\<lambda>source_hash.
       and_then (hash_remote_file sha256 destination (job_partial_path job) tot) (\<lambda>destination_hash.
       if source_hash \<noteq> destination_hash
       then err (new_error Conflict
              ''SHA-256 verification failed; the destination partial file was retained'')
       else ok Sha256Verified))
     else ok SizeVerified)"

definition relay_content ::
  "(bytes \<Rightarrow> bytes) \<Rightarrow> 'r RemoteFilesystem \<Rightarrow> 'r RemoteFilesystem \<Rightarrow> uuid \<Rightarrow> FileEntry \<Rightarrow> nat
   \<Rightarrow> ('r, 'l, unit) wact" where
  "relay_content sha256 source destination uid meta tot =
     and_then (job_snapshot uid) (\<lambda>job.
     and_then (resume_offset destination (job_partial_path job) tot) (\<lambda>offset.
     and_then instant (\<lambda>started.
     and_then instant (\<lambda>now.
     and_then (relay_loop source destination job uid tot offset started (new_cadence now) offset) (\<lambda>_.
     and_then (with_remote (sync_file destination (job_partial_path job))) (\<lambda>_.
     and_then (verify_relay sha256 source destination job tot) (\<lambda>verification.
     and_then (set_verification uid verification) (\<lambda>_.
     and_then (commit_remote destination uid) (\<lambda>_.
     and_then
       (case (job_preserve_permissions job \<and> cap_chmod (capabilities destination), ent_permissions meta) of
          (True, Some mode) \<Rightarrow> with_remote (set_permissions destination (job_destination_path job) mode)
        | _ \<Rightarrow> ok ()) (\<lambda>_.
     complete uid))))))))))"

definition remote_to_remote ::
  "(bytes \<Rightarrow> bytes) \<Rightarrow> 'r RemoteFilesystem \<Rightarrow> 'r RemoteFilesystem \<Rightarrow> uuid \<Rightarrow> ('r, 'l, unit) wact" where
  "remote_to_remote sha256 source destination uid =
     and_then (job_snapshot uid) (\<lambda>first.
     and_then (with_remote (metadata source (job_source_path first))) (\<lambda>entry.
     and_then (lift_result (known_size ''The source server did not report a file size'' entry))
       (\<lambda>(meta, tot).
     and_then (set_total uid tot) (\<lambda>_.
     and_then (handle_remote_conflict destination uid) (\<lambda>stop.
     if stop then emit_current uid else relay_content sha256 source destination uid meta tot)))))"

section \<open>The task of a job\<close>

text \<open>\<^verbatim>\<open>sessions\<close> is a hash map: \<open>w_sessions\<close> lists it in its iteration order.\<close>

definition session_client ::
  "uuid option \<Rightarrow> uuid \<Rightarrow> ('r, 'l, 'r RemoteFilesystem) wact" where
  "session_client session_id profile_id =
     and_then (gets w_sessions) (\<lambda>sessions.
     case (case Option.bind session_id (map_of sessions) of
             Some session \<Rightarrow> Some session
           | None \<Rightarrow> List.find (\<lambda>session. sess_profile_id session = profile_id) (map snd sessions)) of
       Some session \<Rightarrow> ok (sess_client session)
     | None \<Rightarrow> err (new_error ConnectionClosed
         ''Reconnect both routed sessions before resuming this transfer''))"

fun protocol_debug :: "Protocol \<Rightarrow> string" where
  "protocol_debug Sftp = ''Sftp''"
| "protocol_debug Ftp = ''Ftp''"
| "protocol_debug Ftps = ''Ftps''"

text \<open>\<^verbatim>\<open>{:?}://{}:{}\<close> of the protocol, the lower-case host (hosts are ASCII) and the port.\<close>

definition endpoint_of :: "ConnectionProfile \<Rightarrow> string" where
  "endpoint_of p = protocol_debug (prof_protocol p) @ ''://'' @ to_ascii_lowercase (prof_host p)
     @ '':'' @ show_nat (unat (prof_port p))"

definition job_endpoint :: "TransferJob \<Rightarrow> ('r, 'l, string) wact" where
  "job_endpoint job =
     and_then (with_db (get_profile (job_profile_id job))) (\<lambda>profile.
     case job_source_profile_id job of
       None \<Rightarrow> ok (endpoint_of profile)
     | Some source_id \<Rightarrow> and_then (with_db (get_profile source_id))
         (\<lambda>source. ok (endpoint_of source @ '' -> '' @ endpoint_of profile)))"

text \<open>The permit of the scheduler: acquired, and dropped when \<open>m\<close> returns.\<close>

definition with_permit :: "uuid \<Rightarrow> string \<Rightarrow> ('r, 'l, 'a) wact \<Rightarrow> ('r, 'l, 'a) wact" where
  "with_permit uid endpoint m = (\<lambda>w.
     case m (w\<lparr>w_permits := (uid, endpoint) # w_permits w\<rparr>) of
       (r, w') \<Rightarrow> (r, w'\<lparr>w_permits := remove1 (uid, endpoint) (w_permits w')\<rparr>))"

definition begin_running :: "datetime \<Rightarrow> uuid \<Rightarrow> TransferJob queue_act" where
  "begin_running now uid = (\<lambda>q. case get_job q uid of
       None \<Rightarrow> (Inl job_not_found, q)
     | Some job \<Rightarrow> update_and_get uid
         (if job_state job \<in> {Queued, Interrupted}
          then and_then (transition now uid Running) (\<lambda>_. set_error now uid None) else ok ()) q)"

definition dispatch :: "(bytes \<Rightarrow> bytes) \<Rightarrow> TransferJob \<Rightarrow> uuid \<Rightarrow> ('r, 'l, unit) wact" where
  "dispatch sha256 job uid = (case job_direction job of
       Upload \<Rightarrow> and_then (session_client (job_destination_session_id job) (job_profile_id job))
         (\<lambda>remote. upload sha256 remote uid)
     | Download \<Rightarrow> and_then (session_client (job_source_session_id job) (job_profile_id job))
         (\<lambda>remote. download sha256 remote uid)
     | RemoteToRemote \<Rightarrow> (case job_source_profile_id job of
         None \<Rightarrow> err (new_error InternalError ''The source route is missing'')
       | Some source_profile_id \<Rightarrow>
           and_then (session_client (job_source_session_id job) source_profile_id) (\<lambda>source.
           and_then (session_client (job_destination_session_id job) (job_profile_id job)) (\<lambda>destination.
           remote_to_remote sha256 source destination uid))))"

definition run :: "(bytes \<Rightarrow> bytes) \<Rightarrow> uuid \<Rightarrow> ('r, 'l, unit) wact" where
  "run sha256 uid =
     and_then (job_snapshot uid) (\<lambda>queued_job.
     and_then (job_endpoint queued_job) (\<lambda>endpoint.
     with_permit uid endpoint (clock (\<lambda>now.
       and_then (with_queue (begin_running now uid)) (\<lambda>job.
       and_then (persist_transfer job) (\<lambda>_.
       and_then (emit (progress_from_job job)) (\<lambda>_.
       dispatch sha256 job uid)))))))"

section \<open>Retries and failure\<close>

definition retry_delay :: "u8 \<Rightarrow> nat" where
  "retry_delay try_no = min (min u64_max (2 ^ (unat try_no - 1))) 30"

text \<open>The critical section of \<^verbatim>\<open>prepare_retry\<close>; an error stands for \<^verbatim>\<open>return None\<close>.\<close>

definition retry_message :: "string \<Rightarrow> u8 \<Rightarrow> u8 \<Rightarrow> string" where
  "retry_message text try_no limit =
     text @ '' Retrying in '' @ show_nat (retry_delay try_no) @ ''s ('' @ show_nat (unat try_no)
       @ ''/'' @ show_nat (unat limit) @ '').''"

definition begin_retry :: "datetime \<Rightarrow> uuid \<Rightarrow> u8 \<Rightarrow> AppError \<Rightarrow> (TransferJob \<times> nat) queue_act" where
  "begin_retry now uid limit error = (\<lambda>q. case get_job q uid of
       None \<Rightarrow> (Inl job_not_found, q)
     | Some job \<Rightarrow>
         if job_state job \<noteq> Running \<or> limit \<le> job_retry_count job then (Inl error, q)
         else let try_no = saturating_inc8 (job_retry_count job) in
           and_then (update_and_get uid
             (and_then (transition now uid Interrupted) (\<lambda>_.
              and_then (increment_retry now uid) (\<lambda>_.
              and_then (record_retry now uid (message error)) (\<lambda>_.
              set_error now uid (Some (retry_message (message error) try_no limit)))))))
             (\<lambda>updated. ok (updated, retry_delay try_no)) q)"

definition prepare_retry :: "uuid \<Rightarrow> AppError \<Rightarrow> ('r, 'l, nat option) wact" where
  "prepare_retry uid error =
     (if \<not> retryable error then ok None
      else and_then (gets (\<lambda>w. pref_automatic_retry_limit (w_prefs w))) (\<lambda>limit. clock (\<lambda>now.
        and_then (attempt
          (and_then (with_queue (begin_retry now uid limit error)) (\<lambda>(updated, delay).
           and_then (persist_transfer updated) (\<lambda>_.
           and_then (diagnose (TransferRetried (job_direction updated) (job_retry_count updated) limit
                      (code error))) (\<lambda>_.
           and_then (emit (progress_from_job updated)) (\<lambda>_. ok delay))))))
        (\<lambda>r. ok (case r of Inl _ \<Rightarrow> None | Inr delay \<Rightarrow> Some delay)))))"

text \<open>The critical section of \<^verbatim>\<open>fail\<close>: \<open>None\<close> for the early return.\<close>

definition failure_state :: "AppError \<Rightarrow> TransferState" where
  "failure_state error =
     (if code error \<in> {ConnectionClosed, AuthenticationFailed} then WaitingForAuthentication else Failed)"

definition begin_fail :: "datetime \<Rightarrow> uuid \<Rightarrow> AppError \<Rightarrow> TransferJob option queue_act" where
  "begin_fail now uid error = (\<lambda>q. case get_job q uid of
       None \<Rightarrow> (Inr None, q)
     | Some job \<Rightarrow>
         if job_state job \<in> {Paused, Cancelled, WaitingForConflict} then (Inr None, q)
         else and_then (update_and_get uid
           (and_then (set_error now uid (Some (message error))) (\<lambda>_.
            if job_state job \<in> {Running, Interrupted} then transition now uid (failure_state error)
            else ok ()))) (\<lambda>updated. ok (Some updated)) q)"

definition fail :: "uuid \<Rightarrow> AppError \<Rightarrow> ('r, 'l, unit) wact" where
  "fail uid error = clock (\<lambda>now.
     and_then (with_queue (begin_fail now uid error)) (\<lambda>r. case r of
       None \<Rightarrow> ok ()
     | Some job \<Rightarrow>
         and_then (diagnose (TransferFailed (job_direction job) (code error))) (\<lambda>_.
         and_then (persist_transfer job) (\<lambda>_. emit (progress_from_job job)))))"

text \<open>The profiles are reconnected in order; an error that may be retried is ignored, any other fails
  the job and ends the task (\<open>True\<close>).\<close>

fun reconnect_all ::
  "(uuid \<Rightarrow> ('r, 'l, unit) wact) \<Rightarrow> uuid \<Rightarrow> uuid list \<Rightarrow> ('r, 'l) World \<Rightarrow> bool \<times> ('r, 'l) World" where
  "reconnect_all reconnect uid [] w = (False, w)"
| "reconnect_all reconnect uid (profile # rest) w = (case reconnect profile w of
       (Inl e, w') \<Rightarrow> if \<not> retryable e then (True, snd (fail uid e w')) else reconnect_all reconnect uid rest w'
     | (Inr _, w') \<Rightarrow> reconnect_all reconnect uid rest w')"

definition profiles_of_job :: "TransferJob \<Rightarrow> uuid list" where
  "profiles_of_job job = (case job_source_profile_id job of Some s \<Rightarrow> [s] | None \<Rightarrow> []) @ [job_profile_id job]"

fun task_loop ::
  "nat \<Rightarrow> (bytes \<Rightarrow> bytes) \<Rightarrow> (uuid \<Rightarrow> ('r, 'l, unit) wact) \<Rightarrow> uuid \<Rightarrow> ('r, 'l) World
   \<Rightarrow> ('r, 'l) World option" where
  "task_loop 0 sha256 reconnect uid w = None"
| "task_loop (Suc fuel) sha256 reconnect uid w = (case run sha256 uid w of
       (Inr _, w1) \<Rightarrow> Some w1
     | (Inl e, w1) \<Rightarrow> (case prepare_retry uid e w1 of
         (Inr (Some delay), w2) \<Rightarrow> (case job_snapshot uid w2 of
             (Inl _, w3) \<Rightarrow> Some w3
           | (Inr job, w3) \<Rightarrow> (case reconnect_all reconnect uid (profiles_of_job job) w3 of
               (True, w4) \<Rightarrow> Some w4
             | (False, w4) \<Rightarrow> task_loop fuel sha256 reconnect uid w4))
       | (_, w2) \<Rightarrow> Some (snd (fail uid e w2))))"

definition spawn ::
  "nat \<Rightarrow> (bytes \<Rightarrow> bytes) \<Rightarrow> (uuid \<Rightarrow> ('r, 'l, unit) wact) \<Rightarrow> uuid \<Rightarrow> ('r, 'l) World
   \<Rightarrow> ('r, 'l) World option" where
  "spawn fuel sha256 reconnect uid w = (case job_snapshot uid w of
       (Inr job, w1) \<Rightarrow>
         task_loop fuel sha256 reconnect uid (snd (diagnose (TransferStarted (job_direction job)) w1))
     | (Inl _, w1) \<Rightarrow> task_loop fuel sha256 reconnect uid w1)"

section \<open>Concrete runs\<close>

text \<open>The definitions a concrete run of a transfer unfolds, and the loops one round at a time.\<close>

lemmas task_defs = upload_def upload_content_def download_def download_content_def remote_to_remote_def relay_content_def
  job_snapshot_def with_queue_def interfere_def get_job_def with_disk_def with_remote_def with_db_def
  set_total_def clock_def update_and_get_def update_total_def job_mut_def persist_transfer_def
  save_transfer_def with_connection_def execute_def upsert_transfer_def transfer_to_row_def upsert_def merge_transfer_def
  handle_remote_conflict_def handle_local_conflict_def resume_offset_def remote_size_def instant_def polls_def
  new_cadence_def ensure_running_def transfer_limits_def bandwidth_limits_def active_schedule_def
  throttle_def strictest_limit_def positive_def by_direction_def transfer_chunk_size_def record_progress_def
  update_progress_def exceeds_total_def average_speed_def emit_def emit_current_def progress_from_job_def
  verify_upload_def verify_download_def verify_relay_def hash_local_file_def hash_remote_file_def set_verification_def
  set_job_verification_def commit_remote_def commit_local_def swap_in_def remote_present_def backup_path_def
  preserve_upload_metadata_def preserve_download_metadata_def complete_def world_transition_def transition_def
  is_valid_transition_def diagnose_def known_size_def create_parent_def
  CHUNK_SIZE_def MIN_THROTTLED_CHUNK_SIZE_def THROTTLE_CHECKS_PER_SECOND_def MAX_SHA256_VERIFICATION_BYTES_def
  PROGRESS_EMIT_INTERVAL_def PROGRESS_PERSIST_INTERVAL_def u64_max_def

lemmas loop_steps = upload_loop.simps download_loop.simps relay_loop.simps read_local_file.simps read_remote_file.simps

end
