(* ===== verification/Memory_Store.thy ===== *)
theory Memory_Store
  imports Filesystems
begin

text \<open>
  A store in memory that behaves as the interfaces of \<^verbatim>\<open>Filesystems\<close> require, with a script of faults:
  an operation is carried out, refused, or carried out with its answer lost. It stands for a
  server and for a disk wherever a concrete run of the program is evaluated, and shows that the laws of
  the interfaces can hold together.
\<close>

datatype fault = Fine | Refused | LostReply

record store =
  st_files :: "string \<rightharpoonup> bytes"
  st_faults :: "fault list"

definition faulty :: "'e \<Rightarrow> (store, 'e, 'a) eff \<Rightarrow> (store, 'e, 'a) eff" where
  "faulty e m = (\<lambda>s. case st_faults s of
      [] \<Rightarrow> m s
    | Fine # fs \<Rightarrow> m (s\<lparr>st_faults := fs\<rparr>)
    | Refused # fs \<Rightarrow> (Inl e, s\<lparr>st_faults := fs\<rparr>)
    | LostReply # fs \<Rightarrow> (case m (s\<lparr>st_faults := fs\<rparr>) of (_, s') \<Rightarrow> (Inl e, s')))"

lemma faulty_cases:
  assumes "faulty e m s = (r, s')"
  obtains (ran) t where "st_files t = st_files s" "m t = (r, s')"
  | (refused) "r = Inl e" "st_files s' = st_files s"
  | (unheard) t r' where "r = Inl e" "st_files t = st_files s" "m t = (r', s')"
proof (cases "st_faults s")
  case Nil
  with assms ran[of s] show thesis by (simp add: faulty_def)
next
  case (Cons f fs)
  let ?t = "s\<lparr>st_faults := fs\<rparr>"
  obtain r1 s1 where step: "m ?t = (r1, s1)" by fastforce
  show thesis
  proof (cases f)
    case Fine
    with assms Cons ran[of ?t] show thesis by (simp add: faulty_def)
  next
    case Refused
    with assms Cons refused show thesis by (auto simp: faulty_def)
  next
    case LostReply
    with assms Cons step unheard[of ?t r1] show thesis by (simp add: faulty_def)
  qed
qed

lemma faulty_Inr:
  assumes "faulty e m s = (Inr a, s')"
  obtains t where "st_files t = st_files s" "m t = (Inr a, s')"
  using assms by (rule faulty_cases) auto

lemma faulty_same:
  assumes "\<And>t. st_files (snd (m t)) = st_files t"
  shows "st_files (snd (faulty e m s)) = st_files s"
proof -
  obtain r s' where run: "faulty e m s = (r, s')" by fastforce
  from this have "st_files s' = st_files s"
    by (rule faulty_cases) (use assms in \<open>metis snd_conv\<close>)+
  with run show ?thesis by simp
qed

lemma faulty_only:
  assumes "\<And>t. st_files t = st_files s \<Longrightarrow> R (st_files (snd (m t)))" "R (st_files s)"
  shows "R (st_files (snd (faulty e m s)))"
proof -
  obtain r s' where run: "faulty e m s = (r, s')" by fastforce
  from this have "R (st_files s')"
    by (rule faulty_cases) (use assms in \<open>metis snd_conv\<close>)+
  with run show ?thesis by simp
qed

section \<open>Operations\<close>

definition st_read :: "string \<Rightarrow> nat \<Rightarrow> nat \<Rightarrow> 'e \<Rightarrow> (store, 'e, bytes) eff" where
  "st_read p offset n missing = (\<lambda>s. case st_files s p of
      None \<Rightarrow> (Inl missing, s) | Some c \<Rightarrow> (Inr (take n (drop offset c)), s))"

definition st_splice :: "bytes \<Rightarrow> nat \<Rightarrow> bytes \<Rightarrow> bytes" where
  "st_splice c offset data =
     take offset c @ replicate (offset - length c) (CHR 0x00) @ data @ drop (offset + length data) c"

definition st_write :: "string \<Rightarrow> nat \<Rightarrow> bytes \<Rightarrow> (store, 'e, unit) eff" where
  "st_write p offset data =
     modify (\<lambda>s. s\<lparr>st_files := (st_files s)(p \<mapsto> st_splice (content (st_files s p)) offset data)\<rparr>)"

definition st_move :: "bool \<Rightarrow> 'e \<Rightarrow> 'e \<Rightarrow> string \<Rightarrow> string \<Rightarrow> (store, 'e, unit) eff" where
  "st_move replace missing exists_already p q = (\<lambda>s. case st_files s p of
      None \<Rightarrow> (Inl missing, s)
    | Some c \<Rightarrow> if \<not> replace \<and> st_files s q \<noteq> None then (Inl exists_already, s)
                else (Inr (), s\<lparr>st_files := moved p q c (st_files s)\<rparr>))"

definition st_delete :: "'e \<Rightarrow> string \<Rightarrow> (store, 'e, unit) eff" where
  "st_delete missing p = (\<lambda>s. case st_files s p of
      None \<Rightarrow> (Inl missing, s) | Some _ \<Rightarrow> (Inr (), s\<lparr>st_files := (st_files s)(p := None)\<rparr>))"

definition st_entry :: "string \<Rightarrow> bytes \<Rightarrow> FileEntry" where
  "st_entry p c = \<lparr>ent_path = p, ent_name = p, ent_kind = File, ent_size = Some (length c),
     ent_modified_at = Some 0, ent_permissions = Some 420, ent_symlink_target = None, ent_hidden = False\<rparr>"

definition lost :: AppError where
  "lost = as_retryable (new_error IoError ''The remote file operation failed'')"

definition unsupported :: "(store, 'a) act" where
  "unsupported = err (new_error Unsupported ''Unsupported'')"

text \<open>A server that refuses to move a file onto another one.\<close>

definition mem_remote :: "store RemoteFilesystem" where
  "mem_remote = \<lparr>capabilities = \<lparr>cap_chmod = True, cap_symlinks = True, cap_fsync = True, cap_resume = True,
                                  cap_atomic_rename = False\<rparr>,
     disconnect = ok (), list_directory = (\<lambda>_. ok []),
     metadata = (\<lambda>p. faulty lost (gets (\<lambda>s. map_option (st_entry p) (st_files s p)))),
     create_directory = (\<lambda>_. ok ()),
     rename = (\<lambda>p q. faulty lost (st_move False lost lost p q)),
     remove_file = (\<lambda>p. faulty lost (st_delete lost p)),
     remove_directory = (\<lambda>_. ok ()), set_permissions = (\<lambda>_ _. faulty lost (ok ())),
     create_symlink = no_symlinks,
     read_chunk = (\<lambda>p offset n. faulty lost (st_read p offset n lost)),
     write_chunk = (\<lambda>p offset data. faulty lost (st_write p offset data)),
     sync_file = (\<lambda>_. faulty lost (ok ())),
     read_privileged = (\<lambda>_ _. unsupported), write_privileged = (\<lambda>_ _ _. unsupported),
     create_privileged = (\<lambda>_ _ _. unsupported), delete_privileged = (\<lambda>_ _ _. unsupported),
     package_directory = (\<lambda>_ _. unsupported), execute_commands = (\<lambda>_ _. unsupported)\<rparr>"

definition no_such_file :: io_error where
  "no_such_file = \<lparr>io_kind = IoNotFound, io_text = ''No such file or directory''\<rparr>"

definition disk_error :: io_error where
  "disk_error = \<lparr>io_kind = IoOther, io_text = ''Input/output error''\<rparr>"

definition st_meta :: "bytes \<Rightarrow> local_metadata" where
  "st_meta c = \<lparr>lm_is_dir = False, lm_is_file = True, lm_is_symlink = False, lm_len = length c,
     lm_mode = 420, lm_modified = 0\<rparr>"

definition st_stat :: "string \<Rightarrow> (store, local_metadata) io" where
  "st_stat p = (\<lambda>s. case st_files s p of None \<Rightarrow> (Inl no_such_file, s) | Some c \<Rightarrow> (Inr (st_meta c), s))"

definition st_whole :: "string \<Rightarrow> (store, bytes) io" where
  "st_whole p = (\<lambda>s. case st_files s p of None \<Rightarrow> (Inl no_such_file, s) | Some c \<Rightarrow> (Inr c, s))"

definition file_exists :: io_error where
  "file_exists = \<lparr>io_kind = IoAlreadyExists, io_text = ''File exists''\<rparr>"

definition mem_disk :: "store LocalFs" where
  "mem_disk = \<lparr>l_is_dir = (\<lambda>_. ok False), l_read_dir = (\<lambda>_. ok []),
     l_symlink_metadata = st_stat, l_metadata = (\<lambda>p. faulty disk_error (st_stat p)),
     l_read_link = (\<lambda>_. err disk_error),
     l_try_exists = (\<lambda>p. faulty disk_error (gets (\<lambda>s. st_files s p \<noteq> None))),
     l_create = (\<lambda>p. faulty disk_error (modify (\<lambda>s. s\<lparr>st_files := (st_files s)(p \<mapsto> [])\<rparr>))),
     l_open = (\<lambda>p. faulty disk_error (and_then (st_stat p) (\<lambda>_. ok ()))),
     l_open_rw = (\<lambda>p. faulty disk_error
       (modify (\<lambda>s. s\<lparr>st_files := (st_files s)(p \<mapsto> content (st_files s p))\<rparr>))),
     l_read_at = (\<lambda>p offset n. faulty disk_error (st_read p offset n no_such_file)),
     l_write_at = (\<lambda>p offset data. faulty disk_error (st_write p offset data)),
     l_set_len = (\<lambda>p n. faulty disk_error
       (modify (\<lambda>s. s\<lparr>st_files := (st_files s)(p \<mapsto> st_splice (take n (content (st_files s p))) n [])\<rparr>))),
     l_sync = (\<lambda>_. faulty disk_error (ok ())),
     l_rename = (\<lambda>p q. faulty disk_error (st_move True no_such_file disk_error p q)),
     l_remove_file = (\<lambda>p. faulty disk_error (st_delete no_such_file p)),
     l_create_dir = (\<lambda>_. ok ()), l_create_dir_all = (\<lambda>_. faulty disk_error (ok ())),
     l_set_permissions = (\<lambda>_ _. faulty disk_error (ok ())), l_set_modified = (\<lambda>_ _. faulty disk_error (ok ())),
     l_read = (\<lambda>p. faulty disk_error (st_whole p)),
     l_write = (\<lambda>p data. faulty disk_error (modify (\<lambda>s. s\<lparr>st_files := (st_files s)(p \<mapsto> data)\<rparr>))),
     l_create_new = (\<lambda>p. faulty disk_error (\<lambda>s. if st_files s p \<noteq> None then (Inl file_exists, s)
        else (Inr (), s\<lparr>st_files := (st_files s)(p \<mapsto> [])\<rparr>))),
     l_remove_dir_all = (\<lambda>_. faulty disk_error (ok ())), l_symlink = (\<lambda>_ _. err disk_error)\<rparr>"

section \<open>The laws hold\<close>

lemma st_read_same [simp]: "snd (st_read p offset n e s) = s"
  by (simp add: st_read_def split: option.split)

lemma st_stat_same [simp]: "snd (st_stat p s) = s"
  by (simp add: st_stat_def split: option.split)

lemma st_splice_overwritten: "offset \<le> length c \<Longrightarrow> overwritten c offset data (st_splice c offset data)"
  by (auto simp: overwritten_def st_splice_def)

lemma st_splice_nothing [simp]: "n \<le> length c \<Longrightarrow> st_splice (take n c) n [] = take n c"
  by (simp add: st_splice_def)

lemma st_move_Inr:
  "st_move b e1 e2 p q s = (Inr u, s') \<Longrightarrow> st_files s p = Some c \<Longrightarrow> st_files s' = moved p q c (st_files s)"
  by (auto simp: st_move_def split: option.splits if_splits)

lemma st_move_any:
  "st_move b e1 e2 p q s = (r, s') \<Longrightarrow> st_files s p = Some c \<Longrightarrow>
   st_files s' = st_files s \<or> st_files s' = moved p q c (st_files s)"
  by (auto simp: st_move_def split: option.splits if_splits)

lemma st_delete_any:
  "st_delete e p s = (r, s') \<Longrightarrow> st_files s' = st_files s \<or> st_files s' = (st_files s)(p := None)"
  by (auto simp: st_delete_def split: option.splits)

lemma st_delete_Inr: "st_delete e p s = (Inr u, s') \<Longrightarrow> st_files s' = (st_files s)(p := None)"
  by (auto simp: st_delete_def split: option.splits)

lemma st_read_Inr:
  "st_read p offset n e s = (Inr buf, s') \<Longrightarrow> st_files s p = Some c \<Longrightarrow> buf = take n (drop offset c)"
  by (auto simp: st_read_def)

lemma faulty_move_Inl:
  assumes "faulty e (st_move b e1 e2 p q) s = (Inl e', s')" "st_files s p = Some c"
  shows "st_files s' = st_files s \<or> st_files s' = moved p q c (st_files s)"
  using assms(1) by (rule faulty_cases) (use assms(2) st_move_any in fastforce)+

lemma faulty_move_Inr:
  assumes "faulty e (st_move b e1 e2 p q) s = (Inr u, s')" "st_files s p = Some c"
  shows "st_files s' = moved p q c (st_files s)"
  using assms(1) by (rule faulty_Inr) (use assms(2) st_move_Inr in fastforce)

lemma faulty_delete_Inl:
  assumes "faulty e (st_delete e1 p) s = (Inl e', s')"
  shows "st_files s' = st_files s \<or> st_files s' = (st_files s)(p := None)"
  using assms by (rule faulty_cases) (use st_delete_any in fastforce)+

lemma faulty_delete_Inr:
  assumes "faulty e (st_delete e1 p) s = (Inr u, s')"
  shows "st_files s' = (st_files s)(p := None)"
  using assms by (rule faulty_Inr) (use st_delete_Inr in fastforce)

lemma faulty_read:
  assumes "faulty e (st_read p offset n e1) s = (Inr buf, s')" "st_files s p = Some c"
  shows "buf = take n (drop offset c)"
  using assms(1) by (rule faulty_Inr) (use assms(2) st_read_Inr in fastforce)

lemma faulty_write:
  assumes "faulty e (st_write p offset data) s = (Inr u, s')"
  shows "st_files s' = (st_files s)(p \<mapsto> st_splice (content (st_files s p)) offset data)"
  using assms by (rule faulty_Inr) (auto simp: st_write_def run_simps)

lemmas mem_laws = faulty_move_Inl faulty_move_Inr faulty_delete_Inl faulty_delete_Inr faulty_read
  faulty_write

lemma faulty_write_only:
  "q \<noteq> p \<Longrightarrow> st_files (snd (faulty e (st_write p offset data) s)) q = st_files s q"
  by (rule faulty_only) (simp_all add: st_write_def run_simps)

lemma faulty_write_ok:
  assumes "faulty e (st_write p offset data) s = (Inr u, s')" "offset \<le> length (content (st_files s p))"
  shows "\<exists>c. st_files s' p = Some c \<and> overwritten (content (st_files s p)) offset data c"
  using faulty_write[OF assms(1)] st_splice_overwritten[OF assms(2)] by auto

lemma faulty_write_at:
  assumes "faulty e (st_write p offset data) s = (Inr u, s')" "st_files s p = Some c" "offset \<le> length c"
  shows "\<exists>c'. st_files s' = (st_files s)(p \<mapsto> c') \<and> overwritten c offset data c'"
  using faulty_write[OF assms(1)] st_splice_overwritten[OF assms(3)] assms(2) by auto

interpretation mem_server: remote_filesystem mem_remote st_files
proof (unfold_locales, goal_cases)
  case (2 p s s') then show ?case by (auto simp: mem_remote_def run_simps elim!: faulty_Inr)
next
  case 3
  then show ?case by (auto simp: mem_remote_def run_simps st_entry_def elim!: faulty_Inr)
qed (auto simp: mem_remote_def run_simps faulty_write_only take_is_prefix intro!: faulty_same
       dest: mem_laws faulty_write_ok)

interpretation mem_disk: local_filesystem mem_disk st_files
proof (unfold_locales, goal_cases)
  case (9 p s meta s' c)
  then show ?case
    by (auto simp: mem_disk_def st_stat_def st_meta_def split: option.splits elim!: faulty_Inr)
next
  case (10 p s s') then show ?case by (auto simp: mem_disk_def run_simps elim!: faulty_Inr)
next
  case 13 then show ?case by (auto simp: mem_disk_def run_simps elim!: faulty_Inr)
next
  case 14 then show ?case by (auto simp: mem_disk_def run_simps elim!: faulty_Inr)
next
  case 15 then show ?case by (simp add: mem_disk_def faulty_write_at)
qed (auto simp: mem_disk_def run_simps st_stat_def take_is_prefix split: option.splits intro!: faulty_same dest: mem_laws)

text \<open>How the store computes on concrete arguments.\<close>

lemmas memory_defs = mem_remote_def mem_disk_def faulty_def st_stat_def st_whole_def st_meta_def st_entry_def st_read_def st_write_def
  st_splice_def st_move_def st_delete_def moved_def

end
