(* ===== verification/Transfer_Laws.thy ===== *)
theory Transfer_Laws
  imports Transfer_Tasks Memory_Store
begin

text \<open>
  What holds of the transfers of \<^verbatim>\<open>Transfer_Run\<close> and \<^verbatim>\<open>Transfer_Tasks\<close>: a commit never loses the file it
  replaces; the steps between the copies leave the server, the disk and the paths of the job alone
  (\<open>control_plane\<close>); the copy loops produce what was read; a transfer that succeeds has delivered the
  content of its source; the task of a job ends after at most one run more than the retry limit.
\<close>

section \<open>A world with one job\<close>

text \<open>A profile \<^verbatim>\<open>p\<close> whose session is the store in memory, and an upload of it that is running.\<close>

definition demo_job :: TransferJob where
  "demo_job = new_job ''j'' 0 ''p'' Upload ''/a'' ''/b'' None\<lparr>job_state := Running\<rparr>"

definition demo_db :: Db where
  "demo_db = snd (save_profile_row (new_profile ''p'' 0 ''L'' ''h'' ''u'' Agent) new_db)"

definition demo_world :: "TransferJob \<Rightarrow> (string \<rightharpoonup> bytes) \<Rightarrow> (string \<rightharpoonup> bytes) \<Rightarrow> (store, store) World" where
  "demo_world job server disk = \<lparr>w_queue = \<lparr>jobs = [job_id job \<mapsto> job], order = [job_id job]\<rparr>, w_db = demo_db,
     w_prefs = default_preferences, w_sessions = [(''s'', \<lparr>sess_profile_id = ''p'', sess_client = mem_remote\<rparr>)],
     w_remote = \<lparr>st_files = server, st_faults = []\<rparr>, w_disk = \<lparr>st_files = disk, st_faults = []\<rparr>, w_fs = mem_disk,
     w_buckets = (\<lambda>_. None), w_now = 0, w_local_day = 0, w_local_minute = 0, w_env = [], w_instants = [],
     w_polls = [], w_permits = [], w_events = [], w_diagnostics = []\<rparr>"

lemmas demo_defs = demo_world_def demo_job_def demo_db_def save_profile_row_def profile_to_row_def merge_profile_def
   new_db_def new_profile_def default_preferences_def new_job_def partial_path_for_def

section \<open>Commit\<close>

context moving_files begin

text \<open>Moving the destination aside and putting the new file in its place.\<close>

lemma move_apart:
  assumes "move p q s = (r, s')" "view s p = Some c" "p \<noteq> q"
  shows "(r = Inr () \<longrightarrow> view s' = moved p q c (view s))
     \<and> (view s' = view s \<or> view s' = moved p q c (view s))"
  using assms move_ok[of p q s "()" s' c] move_err[of p q s _ s' c] by (cases r) auto

lemma restored:
  assumes "attempt (move backup destination) s = (r, s')" "view s backup = Some old" "destination \<noteq> backup"
  shows "(view s' destination = Some old \<or> view s' backup = Some old)
     \<and> (\<forall>q. q \<notin> {destination, backup} \<longrightarrow> view s' q = view s q)"
proof -
  from assms(1) obtain r1 where "move backup destination s = (r1, s')"
    by (auto simp: attempt_run split: prod.splits)
  from move_apart[OF this assms(2)] assms(2,3) show ?thesis by (auto simp: moved_def)
qed

lemma deleted:
  assumes "delete p s = (r, s')"
  shows "(r = Inr () \<longrightarrow> view s' = (view s)(p := None)) \<and> (\<forall>q. q \<noteq> p \<longrightarrow> view s' q = view s q)"
  using assms delete_ok[of p s "()" s'] delete_err[of p s _ s'] by (cases r) auto

lemma swap_in_replaces:
  assumes run: "swap_in present move delete partial destination backup s = (r, s')"
    and new: "view s partial = Some new" and old: "view s destination = Some old"
    and apart: "partial \<noteq> destination" "partial \<noteq> backup" "destination \<noteq> backup"
  shows "(r = Inr () \<longrightarrow> view s' = (view s)(destination \<mapsto> new, partial := None, backup := None))
     \<and> (view s' destination \<in> {Some old, Some new} \<or> view s' backup = Some old)
     \<and> (\<forall>q. q \<notin> {partial, destination, backup} \<longrightarrow> view s' q = view s q)"
proof -
  obtain r1 s1 where there: "present destination s = (r1, s1)" by fastforce
  then have s1: "view s1 = view s" using present_same by (metis snd_conv)
  show ?thesis
  proof (cases "r1 = Inr True")
    case False
    with there present_false old run have "r \<noteq> Inr () \<and> s' = s1"
      by (cases r1) (auto simp: swap_in_def and_then_run)
    with s1 old show ?thesis by simp
  next
    case True
    obtain r2 s2 where aside: "move destination backup s1 = (r2, s2)" by fastforce
    from move_apart[OF this] s1 old apart have s2: "view s2 = view s \<or> view s2 = moved destination backup old (view s)"
      and s2_ok: "r2 = Inr () \<longrightarrow> view s2 = moved destination backup old (view s)" by simp_all
    show ?thesis
    proof (cases r2)
      case (Inl e)
      with run there True aside have "r = Inl e" "s' = s2" by (simp_all add: swap_in_def and_then_run)
      with s2 old apart show ?thesis by (auto simp: moved_def)
    next
      case (Inr u)
      with s2_ok have v2: "view s2 = moved destination backup old (view s)" by simp
      obtain r3 s3 where putting: "move partial destination s2 = (r3, s3)" by fastforce
      from v2 new apart have "view s2 partial = Some new" by (simp add: moved_def)
      from move_apart[OF putting this apart(1)]
      have s3: "view s3 = view s2 \<or> view s3 = moved partial destination new (view s2)"
        and s3_ok: "r3 = Inr () \<longrightarrow> view s3 = moved partial destination new (view s2)" by simp_all
      show ?thesis
      proof (cases r3)
        case (Inl e)
        obtain r4 where undo: "attempt (move backup destination) s3 = (r4, s')" and r: "r = Inl e"
          using run there True aside Inr putting Inl
          by (auto simp: swap_in_def and_then_run attempt_run err_run split: prod.splits)
        from s3 v2 apart have "view s3 backup = Some old" by (auto simp: moved_def)
        from restored[OF undo this apart(3)] r s3 v2 show ?thesis by (auto simp: moved_def)
      next
        case (Inr u')
        have "delete backup s3 = (r, s')"
          using run there True aside \<open>r2 = Inr u\<close> putting Inr
          by (simp add: swap_in_def and_then_run attempt_run)
        from deleted[OF this] s3_ok Inr v2 apart show ?thesis by (auto simp: moved_def)
      qed
    qed
  qed
qed

lemma swap_in_fresh:
  assumes run: "swap_in present move delete partial destination backup s = (r, s')"
    and new: "view s partial = Some new" and absent: "\<And>s1. present destination s \<noteq> (Inr True, s1)"
    and apart: "partial \<noteq> destination"
  shows "(r = Inr () \<longrightarrow> view s' = (view s)(destination \<mapsto> new, partial := None))
     \<and> (view s' = view s \<or> view s' = (view s)(destination \<mapsto> new, partial := None))"
proof -
  obtain r1 s1 where there: "present destination s = (r1, s1)" by fastforce
  then have s1: "view s1 = view s" using present_same by (metis snd_conv)
  show ?thesis
  proof (cases r1)
    case (Inl e)
    with there run s1 show ?thesis by (auto simp: swap_in_def and_then_run)
  next
    case (Inr b)
    with there absent have "\<not> b" by auto
    with there Inr run have "move partial destination s1 = (r, s')" by (simp add: swap_in_def and_then_run)
    from move_apart[OF this] s1 new apart show ?thesis by (simp add: moved_def)
  qed
qed

end

context remote_filesystem begin

lemma moving: "moving_files view (remote_present remote) (rename remote) (remove_file remote)"
proof (rule moving_files.intro)
  show "view (snd (remote_present remote p s)) = view s" for p s
    using metadata_same[of p s]
    by (auto simp: remote_present_def and_then_run ok_run split: prod.splits sum.splits)
  show "remote_present remote p s = (Inr False, s') \<Longrightarrow> view s p = None" for p s s'
    using metadata_absent[of p s] by (auto simp: remote_present_def and_then_run ok_run split: prod.splits sum.splits)
qed (fact rename_ok, fact rename_err, fact remove_ok, fact remove_err)

end

sublocale remote_filesystem \<subseteq> moves: moving_files view "remote_present remote" "rename remote" "remove_file remote"
  by (rule moving)

section \<open>The steps between the copies\<close>

text \<open>An edit of one job in the queue that leaves its id, its paths and its flags alone and never lowers
  its count of retries.\<close>

type_synonym routing = "uuid \<times> string \<times> string \<times> string \<times> ConflictPolicy"

definition routing_of :: "TransferJob \<Rightarrow> routing" where
  "routing_of job = (job_id job, job_source_path job, job_partial_path job, job_destination_path job,
     job_conflict_policy job)"

definition mild :: "(TransferJob \<Rightarrow> TransferJob) \<Rightarrow> bool" where
  "mild g \<longleftrightarrow> (\<forall>job. routing_of (g job) = routing_of job
     \<and> unat (job_retry_count job) \<le> unat (job_retry_count (g job)))"

definition edits_job :: "uuid \<Rightarrow> (TransferQueue \<Rightarrow> TransferQueue) \<Rightarrow> bool" where
  "edits_job uid f \<longleftrightarrow> (\<forall>q. \<exists>g. mild g \<and> f q = (case jobs q uid of
      None \<Rightarrow> q | Some job \<Rightarrow> q\<lparr>jobs := (jobs q)(uid \<mapsto> g job)\<rparr>))"

definition queue_edit :: "uuid \<Rightarrow> 'a queue_act \<Rightarrow> bool" where
  "queue_edit uid m \<longleftrightarrow> edits_job uid (\<lambda>q. snd (m q))"

named_theorems edit_intros \<open>queue operations edit one job mildly\<close>

lemma mild_same [simp]: "mild (\<lambda>job. job)"
  by (simp add: mild_def)

lemma mild_comp: "mild f \<Longrightarrow> mild g \<Longrightarrow> mild (\<lambda>job. g (f job))"
  unfolding mild_def by (metis order_trans)

lemma same_job: "jobs q uid = Some job \<Longrightarrow> q\<lparr>jobs := (jobs q)(uid \<mapsto> job)\<rparr> = q"
  by (simp add: fun_upd_idem)

lemma queue_edit_same: "(\<And>q. snd (m q) = q) \<Longrightarrow> queue_edit uid m"
  unfolding queue_edit_def edits_job_def
  by (intro allI exI[of _ "\<lambda>job. job"]) (simp add: same_job split: option.split)

lemma queue_edit_ok [edit_intros]: "queue_edit uid (ok a)" "queue_edit uid (err e)"
  by (simp_all add: queue_edit_same ok_def err_def)

lemma queue_edit_job_mut [edit_intros]: "mild g \<Longrightarrow> queue_edit uid (job_mut uid g)"
  unfolding queue_edit_def edits_job_def job_mut_def by (intro allI exI[of _ g]) (simp split: option.split)

lemma queue_edit_and_then [edit_intros]:
  assumes "queue_edit uid m" "\<And>a. queue_edit uid (k a)"
  shows "queue_edit uid (and_then m k)"
  unfolding queue_edit_def edits_job_def
proof
  fix q
  let ?upd = "\<lambda>q g. case jobs q uid of None \<Rightarrow> q | Some job \<Rightarrow> q\<lparr>jobs := (jobs q)(uid \<mapsto> g job)\<rparr>"
  obtain r q1 where m: "m q = (r, q1)" by fastforce
  with assms(1) obtain g where g: "mild g" "q1 = ?upd q g"
    unfolding queue_edit_def edits_job_def by (metis snd_conv)
  show "\<exists>g. mild g \<and> snd (and_then m k q) = ?upd q g"
  proof (cases r)
    case (Inl e)
    with m g show ?thesis by (auto simp: and_then_run)
  next
    case (Inr a)
    from assms(2)[of a] obtain h where h: "mild h" "snd (k a q1) = ?upd q1 h"
      unfolding queue_edit_def edits_job_def by blast
    have "snd (and_then m k q) = ?upd q (\<lambda>job. h (g job))"
      using m Inr g(2) h(2) by (auto simp: and_then_run split: option.splits)
    with mild_comp[OF g(1) h(1)] show ?thesis by blast
  qed
qed

lemma queue_edit_if [edit_intros]: "queue_edit uid a \<Longrightarrow> queue_edit uid b \<Longrightarrow> queue_edit uid (if c then a else b)"
  by simp

lemma queue_edit_update_and_get [edit_intros]: "queue_edit uid m \<Longrightarrow> queue_edit uid (update_and_get uid m)"
  unfolding update_and_get_def
  by (rule queue_edit_and_then) (auto intro: queue_edit_same split: option.split)

lemma queue_edit_transition [edit_intros]: "queue_edit uid (transition now uid nxt)"
  unfolding queue_edit_def edits_job_def
proof
  fix q
  show "\<exists>g. mild g \<and> snd (transition now uid nxt q) =
    (case jobs q uid of None \<Rightarrow> q | Some job \<Rightarrow> q\<lparr>jobs := (jobs q)(uid \<mapsto> g job)\<rparr>)"
  proof (cases "\<exists>job. jobs q uid = Some job \<and> is_valid_transition (job_state job) nxt")
    case True
    have "mild (\<lambda>job. job\<lparr>job_state := nxt, job_updated_at := now\<rparr>)" by (simp add: mild_def routing_of_def)
    with True show ?thesis by (fastforce simp: transition_def)
  next
    case False
    with mild_same show ?thesis by (intro exI[of _ "\<lambda>job. job"]) (auto simp: transition_def same_job split: option.split)
  qed
qed

lemma queue_edit_progress [edit_intros]: "queue_edit uid (update_progress now uid bytes speed)"
  unfolding queue_edit_def edits_job_def
proof
  fix q
  show "\<exists>g. mild g \<and> snd (update_progress now uid bytes speed q) =
    (case jobs q uid of None \<Rightarrow> q | Some job \<Rightarrow> q\<lparr>jobs := (jobs q)(uid \<mapsto> g job)\<rparr>)"
  proof (cases "\<exists>job. jobs q uid = Some job \<and> job_state job = Running \<and> \<not> exceeds_total job bytes")
    case True
    have "mild (\<lambda>job. job\<lparr>job_bytes_transferred := bytes, job_speed := speed, job_updated_at := now\<rparr>)"
      by (simp add: mild_def routing_of_def)
    with True show ?thesis by (fastforce simp: update_progress_def)
  next
    case False
    with mild_same show ?thesis
      by (intro exI[of _ "\<lambda>job. job"]) (auto simp: update_progress_def same_job split: option.split)
  qed
qed

lemma saturating_inc8_le: "unat n \<le> unat (saturating_inc8 n)"
  using unsigned_less[of n, where 'a = nat] by (simp add: saturating_inc8_unat)

lemma queue_edit_small [edit_intros]:
  "queue_edit uid (update_total now uid n)" "queue_edit uid (set_error now uid msg)"
  "queue_edit uid (set_job_verification now uid v)" "queue_edit uid (increment_retry now uid)"
  "queue_edit uid (record_retry now uid text)"
  unfolding update_total_def set_error_def set_job_verification_def increment_retry_def record_retry_def
  by (rule queue_edit_job_mut, auto simp: mild_def routing_of_def saturating_inc8_le)+

lemma queue_edit_begin_running [edit_intros]: "queue_edit uid (begin_running now uid)"
proof -
  let ?m = "\<lambda>q. update_and_get uid (if q then and_then (transition now uid Running)
      (\<lambda>_. set_error now uid None) else ok ())"
  have edit: "queue_edit uid (?m b)" for b by (intro edit_intros)
  show ?thesis unfolding queue_edit_def edits_job_def
  proof
    fix q
    show "\<exists>g. mild g \<and> snd (begin_running now uid q) =
      (case jobs q uid of None \<Rightarrow> q | Some job \<Rightarrow> q\<lparr>jobs := (jobs q)(uid \<mapsto> g job)\<rparr>)"
    proof (cases "jobs q uid")
      case None
      then show ?thesis by (auto simp: begin_running_def get_job_def intro!: exI[of _ "\<lambda>job. job"])
    next
      case (Some job)
      then have "snd (begin_running now uid q) = snd (?m (job_state job \<in> {Queued, Interrupted}) q)"
        by (simp add: begin_running_def get_job_def)
      with edit show ?thesis unfolding queue_edit_def edits_job_def by simp
    qed
  qed
qed

text \<open>A property of the world that speaks of the servers, the disk, the preferences, the job \<open>uid\<close> and
  the interference to come, and that mild edits of the job keep.\<close>

locale control_plane =
  fixes P :: "('r, 'l) World \<Rightarrow> bool" and uid :: uuid
  assumes bookkeeping: "P w \<Longrightarrow> w_queue w' = w_queue w \<Longrightarrow> w_env w' = w_env w \<Longrightarrow>
      w_remote w' = w_remote w \<Longrightarrow> w_disk w' = w_disk w \<Longrightarrow> w_fs w' = w_fs w \<Longrightarrow> w_prefs w' = w_prefs w \<Longrightarrow>
      w_sessions w' = w_sessions w \<Longrightarrow> P w'"
    and interference: "P w \<Longrightarrow> w_env w = f # fs \<Longrightarrow> P (w\<lparr>w_queue := f (w_queue w), w_env := fs\<rparr>)"
    and edit: "P w \<Longrightarrow> edits_job uid f \<Longrightarrow> P (w\<lparr>w_queue := f (w_queue w)\<rparr>)"
begin

lemma modify_keeps: "(\<And>w. P w \<Longrightarrow> P (f w)) \<Longrightarrow> keeps P (modify f)"
  by (simp add: keeps_def modify_def)

lemma interfere_keeps: "P w \<Longrightarrow> P (interfere w)"
  using interference by (simp add: interfere_def split: list.split)

lemma with_queue_keeps:
  assumes "queue_edit uid m"
  shows "keeps P (with_queue m)"
proof (rule keepsI)
  fix w assume "P w"
  then have "P (interfere w)" by (rule interfere_keeps)
  from edit[OF this assms[unfolded queue_edit_def]] show "P (snd (with_queue m w))"
    by (auto simp: with_queue_def Let_def split: prod.split)
qed

lemma with_db_keeps: "keeps P (with_db m)"
  by (rule keepsI) (auto simp: with_db_def split: prod.split intro: bookkeeping)

lemma emit_keeps: "keeps P (emit p)"
  unfolding emit_def by (rule modify_keeps) (auto intro: bookkeeping)

lemma diagnose_keeps: "keeps P (diagnose d)"
  unfolding diagnose_def by (rule modify_keeps) (auto intro: bookkeeping)

lemma instant_keeps: "keeps P instant"
  by (rule keepsI) (auto simp: instant_def split: list.split intro: bookkeeping)

lemma polls_keeps: "keeps P polls"
  by (rule keepsI) (auto simp: polls_def split: list.split intro: bookkeeping)

lemma clock_keeps: "(\<And>now. keeps P (k now)) \<Longrightarrow> keeps P (clock k)"
  by (simp add: keeps_def clock_def)

lemma job_snapshot_keeps: "keeps P (job_snapshot uid)"
  unfolding job_snapshot_def
  by (rule with_queue_keeps) (auto intro: queue_edit_same split: option.split)

lemmas basic_keeps = keeps_intros with_queue_keeps with_db_keeps emit_keeps diagnose_keeps instant_keeps
  polls_keeps clock_keeps job_snapshot_keeps edit_intros

lemma ensure_running_keeps: "keeps P (ensure_running uid)"
  unfolding ensure_running_def
  by (intro basic_keeps) (simp split: TransferState.split add: keeps_intros)

lemma persist_keeps: "keeps P (persist_transfer job)"
  unfolding persist_transfer_def by (rule with_db_keeps)

lemma set_total_keeps: "keeps P (set_total uid n)"
  unfolding set_total_def by (intro basic_keeps persist_keeps)

lemma world_transition_keeps: "keeps P (world_transition uid nxt)"
  unfolding world_transition_def by (intro basic_keeps persist_keeps)

lemma set_verification_keeps: "keeps P (set_verification uid v)"
  unfolding set_verification_def by (intro basic_keeps persist_keeps)

lemma emit_current_keeps: "keeps P (emit_current uid)"
  unfolding emit_current_def by (intro basic_keeps) (simp split: sum.split add: keeps_intros emit_keeps)

lemma complete_keeps: "keeps P (complete uid)"
  unfolding complete_def by (intro basic_keeps world_transition_keeps emit_current_keeps)

lemma transfer_limits_keeps: "keeps P (transfer_limits job)"
  unfolding transfer_limits_def by (rule keeps_gets)

lemma record_progress_keeps: "keeps P (record_progress uid bytes start started cadence)"
  unfolding record_progress_def Let_def by (intro basic_keeps persist_keeps)

lemma poll_running_keeps: "keeps P (poll_running n uid)"
  by (induction n) (auto intro: basic_keeps ensure_running_keeps)

lemma throttle_keeps: "keeps P (throttle job uid bytes lims)"
proof -
  have waiting: "keeps P (\<lambda>w. case limiter_acquire t1 t2 d p bytes g l (w_buckets w) of
      ((wait, reserved), bs) \<Rightarrow>
        (case poll_running (if wait = 0 then 0 else n) uid (w\<lparr>w_buckets := bs\<rparr>) of
           (Inl e, w') \<Rightarrow> and_then instant (\<lambda>t. and_then
               (modify (\<lambda>w. w\<lparr>w_buckets := drop_reservation t reserved bytes False (w_buckets w)\<rparr>))
               (\<lambda>_. err e)) w'
         | (Inr _, w') \<Rightarrow> ensure_running uid w'))" (is "keeps P ?body") for t1 t2 d p g l n
  proof (rule keepsI)
    fix w assume P: "P w"
    obtain wait reserved bs where acq: "limiter_acquire t1 t2 d p bytes g l (w_buckets w) = ((wait, reserved), bs)"
      by (metis surj_pair)
    obtain r w1 where poll: "poll_running (if wait = 0 then 0 else n) uid (w\<lparr>w_buckets := bs\<rparr>) = (r, w1)"
      by fastforce
    from P have "P (w\<lparr>w_buckets := bs\<rparr>)" by (rule bookkeeping) simp_all
    from keeps_run[OF poll_running_keeps poll this] have P1: "P w1" .
    have undo: "keeps P (and_then (instant :: ('r, 'l, rat) wact) (\<lambda>t. and_then
        (modify (\<lambda>w. w\<lparr>w_buckets := drop_reservation t reserved bytes False (w_buckets w)\<rparr>)) (\<lambda>_. err e :: ('r, 'l, unit) wact)))" for e
      by (intro basic_keeps modify_keeps) (auto intro: bookkeeping)
    show "P (snd (?body w))"
      using acq poll keepsD[OF undo P1] keepsD[OF ensure_running_keeps P1] by (simp split: sum.split)
  qed
  show ?thesis unfolding throttle_def by (intro keeps_intros ensure_running_keeps instant_keeps polls_keeps waiting)
qed

lemmas control_keeps = ensure_running_keeps persist_keeps set_total_keeps world_transition_keeps
  set_verification_keeps emit_current_keeps complete_keeps transfer_limits_keeps record_progress_keeps
  throttle_keeps

end

section \<open>What a whole run keeps\<close>

lemma keeps_cond:
  "(b \<Longrightarrow> keeps P m) \<Longrightarrow> (\<not> b \<Longrightarrow> keeps P m') \<Longrightarrow> keeps P (\<lambda>w. if b then m w else m' w)"
  by (cases b) auto

lemma keeps_pair: "keeps P (\<lambda>w. (r, w))"
  by (simp add: keeps_def)

lemma keeps_prod: "(\<And>a b. keeps P (k a b)) \<Longrightarrow> keeps P (case x of (a, b) \<Rightarrow> k a b)"
  by (cases x) simp

lemma keeps_eta: "keeps P m \<Longrightarrow> keeps P (\<lambda>w. m w)"
  by simp

text \<open>A property that says nothing of the servers, the disk and the paths of the job.\<close>

locale task_plane = control_plane P uid for P :: "('r, 'l) World \<Rightarrow> bool" and uid +
  assumes storage: "P w \<Longrightarrow> w_queue w' = w_queue w \<Longrightarrow> w_env w' = w_env w \<Longrightarrow> w_fs w' = w_fs w \<Longrightarrow>
      w_prefs w' = w_prefs w \<Longrightarrow> w_sessions w' = w_sessions w \<Longrightarrow> P w'"
    and destination: "P w \<Longrightarrow> P (w\<lparr>w_queue := snd (update_destination now uid d (w_queue w))\<rparr>)"
begin

lemma with_remote_keeps: "keeps P (with_remote m)"
  by (rule keepsI) (auto simp: with_remote_def split: prod.split intro: storage)

lemma with_disk_keeps: "keeps P (with_disk m)"
  by (rule keepsI) (auto simp: with_disk_def split: prod.split sum.split intro: storage)

lemmas task_keeps = keeps_intros control_keeps with_remote_keeps with_disk_keeps job_snapshot_keeps
  instant_keeps clock_keeps

lemma update_destination_keeps: "keeps P (world_update_destination uid d)"
proof -
  have "keeps P (with_queue (update_and_get uid (update_destination now uid d)))" for now
  proof (rule keepsI)
    fix w assume "P w"
    then have "P (interfere w)" by (rule interfere_keeps)
    from destination[OF this, of now d] show "P (snd (with_queue (update_and_get uid (update_destination now uid d)) w))"
      by (auto simp: with_queue_def Let_def update_and_get_def and_then_run split: prod.splits sum.splits option.splits)
  qed
  then show ?thesis unfolding world_update_destination_def
    by (intro keeps_intros clock_keeps with_db_keeps)
qed

lemma remote_size_keeps: "keeps P (remote_size remote path)"
  unfolding remote_size_def by (intro task_keeps)

lemma free_name_keeps:
  "keeps P (first_free_remote remote d ns)" "keeps P (first_free_local d ns)"
  by (induction ns) (auto simp: Let_def intro!: task_keeps)

lemma next_name_keeps:
  "keeps P (next_available_remote_destination remote d)" "keeps P (next_available_local_destination d)"
  unfolding next_available_remote_destination_def next_available_local_destination_def by (rule free_name_keeps)+

lemma keeps_policy:
  "keeps P a \<Longrightarrow> keeps P b \<Longrightarrow> keeps P c \<Longrightarrow> keeps P d \<Longrightarrow>
   keeps P (case policy of Ask \<Rightarrow> a | Overwrite \<Rightarrow> b | Rename \<Rightarrow> c | Skip \<Rightarrow> d)"
  by (cases policy) simp_all

lemma handle_conflict_keeps:
  "keeps P (handle_remote_conflict remote uid)" "keeps P (handle_local_conflict uid)"
  unfolding handle_remote_conflict_def handle_local_conflict_def
  by (intro keeps_policy task_keeps next_name_keeps update_destination_keeps)+

lemma upload_loop_keeps: "keeps P (upload_loop remote job uid tot partial started cadence offset)"
proof (induction "tot - offset" arbitrary: offset cadence rule: less_induct)
  case less
  have more: "\<lbrakk>offset < tot; buf \<noteq> []\<rbrakk> \<Longrightarrow>
    keeps P (upload_loop remote job uid tot partial started cadence' (offset + length buf))" for buf cadence'
    by (rule less) (cases buf, auto)
  show ?case
    by (subst ext[OF upload_loop.simps]) (intro keeps_cond keeps_pair task_keeps more; assumption)
qed

lemma download_loop_keeps: "keeps P (download_loop remote job uid tot start started cadence offset)"
proof (induction "tot - offset" arbitrary: offset cadence rule: less_induct)
  case less
  have more: "\<lbrakk>offset < tot; buf \<noteq> []\<rbrakk> \<Longrightarrow>
    keeps P (download_loop remote job uid tot start started cadence' (offset + length buf))" for buf cadence'
    by (rule less) (cases buf, auto)
  show ?case
    by (subst ext[OF download_loop.simps]) (intro keeps_cond keeps_pair task_keeps more; assumption)
qed

lemma relay_loop_keeps: "keeps P (relay_loop source dest job uid tot start started cadence offset)"
proof (induction "tot - offset" arbitrary: offset cadence rule: less_induct)
  case less
  have more: "\<lbrakk>offset < tot; \<not> (buf = [] \<or> n < length buf)\<rbrakk> \<Longrightarrow>
    keeps P (relay_loop source dest job uid tot start started cadence' (offset + length buf))" for buf n cadence'
    by (rule less) (cases buf, auto)
  show ?case
    by (subst ext[OF relay_loop.simps]) (intro keeps_cond keeps_pair task_keeps more; assumption)
qed

lemma resume_offset_keeps: "keeps P (resume_offset remote path n)"
  unfolding resume_offset_def by (intro task_keeps remote_size_keeps)

lemma read_local_keeps: "keeps P (read_local_file path offset seen)"
proof (induction "u64_max - offset" arbitrary: offset seen rule: less_induct)
  case less
  have more: "\<lbrakk>\<not> u64_max \<le> offset; buf \<noteq> []\<rbrakk> \<Longrightarrow>
    keeps P (read_local_file path (offset + length buf) seen')" for buf seen'
    by (rule less) (cases buf, auto)
  show ?case
    by (subst ext[OF read_local_file.simps]) (intro keeps_cond keeps_pair task_keeps more; assumption)
qed

lemma read_remote_keeps: "keeps P (read_remote_file remote path expected offset seen)"
proof (induction "expected - offset" arbitrary: offset seen rule: less_induct)
  case less
  have more: "\<lbrakk>offset < expected; buf \<noteq> []\<rbrakk> \<Longrightarrow>
    keeps P (read_remote_file remote path expected (offset + length buf) seen')" for buf seen'
    by (rule less) (cases buf, auto)
  show ?case
    by (subst ext[OF read_remote_file.simps]) (intro keeps_cond keeps_pair task_keeps more; assumption)
qed

lemma verify_keeps:
  "keeps P (verify_upload sha remote uid n)" "keeps P (verify_download sha remote uid n)"
  "keeps P (verify_relay sha source dest job n)"
  unfolding verify_upload_def verify_download_def verify_relay_def hash_local_file_def hash_remote_file_def
  by (intro task_keeps remote_size_keeps read_local_keeps read_remote_keeps)+

lemma commit_keeps: "keeps P (commit_remote remote uid)" "keeps P (commit_local uid)"
  unfolding commit_remote_def commit_local_def by (intro task_keeps)+

lemma keeps_flag: "keeps P a \<Longrightarrow> (\<And>m. keeps P (b m)) \<Longrightarrow> keeps P (case (c, opt) of (True, Some m) \<Rightarrow> b m | _ \<Rightarrow> a)"
  by (simp split: option.split bool.split)

lemma preserve_keeps:
  "keeps P (preserve_upload_metadata remote uid)" "keeps P (preserve_download_metadata entry uid)"
  unfolding preserve_upload_metadata_def preserve_download_metadata_def by (intro keeps_flag task_keeps)+

lemma create_parent_keeps: "keeps P (create_parent path)"
  unfolding create_parent_def by (auto split: option.split intro: with_disk_keeps)

lemmas step_keeps = keeps_prod task_keeps handle_conflict_keeps resume_offset_keeps verify_keeps commit_keeps preserve_keeps
  create_parent_keeps set_verification_keeps upload_loop_keeps download_loop_keeps relay_loop_keeps keeps_flag

lemma content_keeps:
  "keeps P (upload_content sha remote uid n)" "keeps P (download_content sha remote uid entry n)"
  "keeps P (relay_content sha source dest uid entry n)"
  unfolding upload_content_def download_content_def relay_content_def by (intro step_keeps)+

lemma transfer_keeps:
  "keeps P (upload sha remote uid)" "keeps P (download sha remote uid)"
  "keeps P (remote_to_remote sha source dest uid)"
  unfolding upload_def download_def remote_to_remote_def by (intro step_keeps content_keeps)+

lemma session_client_keeps: "keeps P (session_client s p)"
  unfolding session_client_def by (intro keeps_intros) (simp split: option.split add: keeps_intros)

lemma dispatch_keeps: "keeps P (dispatch sha job uid)"
  unfolding dispatch_def
  by (auto split: TransferDirection.split option.split intro: keeps_intros session_client_keeps transfer_keeps)

lemma with_permit_keeps: "keeps P m \<Longrightarrow> keeps P (with_permit uid' endpoint m)"
proof (rule keepsI)
  fix w assume m: "keeps P m" and "P w"
  then have "P (w\<lparr>w_permits := (uid', endpoint) # w_permits w\<rparr>)" by (auto intro: bookkeeping)
  from keepsD[OF m this] show "P (snd (with_permit uid' endpoint m w))"
    by (auto simp: with_permit_def split: prod.split intro: bookkeeping)
qed

lemma job_endpoint_keeps: "keeps P (job_endpoint job)"
  unfolding job_endpoint_def by (intro keeps_intros with_db_keeps) (simp split: option.split add: keeps_intros with_db_keeps)

lemma run_keeps: "keeps P (run sha uid)"
  unfolding run_def
  by (intro task_keeps with_queue_keeps queue_edit_begin_running dispatch_keeps with_permit_keeps
        job_endpoint_keeps emit_keeps)

end

section \<open>The task of a job ends\<close>

text \<open>Interference never lowers the retry count of the job, and never puts it back once it is gone.\<close>

definition tries_rise :: "uuid \<Rightarrow> (TransferQueue \<Rightarrow> TransferQueue) \<Rightarrow> bool" where
  "tries_rise uid f \<longleftrightarrow> (\<forall>q job'. jobs (f q) uid = Some job' \<longrightarrow>
     (\<exists>job. jobs q uid = Some job \<and> unat (job_retry_count job) \<le> unat (job_retry_count job')))"

definition tried :: "uuid \<Rightarrow> u8 \<Rightarrow> nat \<Rightarrow> ('r, 'l) World \<Rightarrow> bool" where
  "tried uid limit n w \<longleftrightarrow> pref_automatic_retry_limit (w_prefs w) = limit
     \<and> (\<forall>f \<in> set (w_env w). tries_rise uid f)
     \<and> (\<forall>job. jobs (w_queue w) uid = Some job \<longrightarrow> n \<le> unat (job_retry_count job))"

interpretation tried: task_plane "tried uid limit n :: ('r, 'l) World \<Rightarrow> bool" uid for uid limit n
proof (unfold_locales, goal_cases)
  case (2 w f fs)
  then have f: "tries_rise uid f" and n: "\<And>job. jobs (w_queue w) uid = Some job \<Longrightarrow> n \<le> unat (job_retry_count job)"
    by (simp_all add: tried_def)
  have "n \<le> unat (job_retry_count job')" if "jobs (f (w_queue w)) uid = Some job'" for job'
    using f that n unfolding tries_rise_def by (meson order_trans)
  with 2 show ?case by (simp add: tried_def)
next
  case (3 w f)
  then obtain g where "mild g" "f (w_queue w) = (case jobs (w_queue w) uid of
      None \<Rightarrow> w_queue w | Some job \<Rightarrow> w_queue w\<lparr>jobs := (jobs (w_queue w))(uid \<mapsto> g job)\<rparr>)"
    unfolding edits_job_def by blast
  with 3 show ?case unfolding tried_def mild_def by (auto split: option.splits intro: order_trans)
next
  case (5 w now d)
  then show ?case by (auto simp: tried_def update_destination_def job_mut_def split: option.split)
qed (auto simp: tried_def)

lemma begin_retry_Inr:
  assumes "begin_retry now uid limit e q = (Inr (job', delay), q')"
  shows "\<exists>job. jobs q uid = Some job \<and> job_state job = Running \<and> job_retry_count job < limit
     \<and> delay = retry_delay (job_retry_count job')
     \<and> job_retry_count job' = saturating_inc8 (job_retry_count job) \<and> job_state job' = Interrupted
     \<and> job_error job' = Some (retry_message (message e) (job_retry_count job') limit)
     \<and> job_retry_history job' = job_retry_history job @ [\<lparr>retry_at = now, retry_error = message e\<rparr>]
     \<and> q' = q\<lparr>jobs := (jobs q)(uid \<mapsto> job')\<rparr>"
  using assms
  by (auto simp: begin_retry_def get_job_def update_and_get_def and_then_run ok_run transition_def
      increment_retry_def record_retry_def set_error_def job_mut_def not_le Let_def
      split: option.splits if_splits prod.splits sum.splits)

lemma unat_saturating_inc8_less: "n < limit \<Longrightarrow> unat (saturating_inc8 n) = Suc (unat n)"
  using unsigned_less[of limit, where 'a = nat] by (simp add: saturating_inc8_unat word_less_nat_alt)

lemma prepare_retry_Inr:
  assumes "prepare_retry uid e w = (Inr (Some delay), w')" "pref_automatic_retry_limit (w_prefs w) = limit"
  obtains job' q' rest where
    "begin_retry (w_now w) uid limit e (w_queue (interfere w)) = (Inr (job', delay), q')"
    "rest = and_then (persist_transfer job') (\<lambda>_.
       and_then (diagnose (TransferRetried (job_direction job') (job_retry_count job') limit (code e))) (\<lambda>_.
       and_then (emit (progress_from_job job')) (\<lambda>_. ok delay)))"
    "rest (interfere w\<lparr>w_queue := q'\<rparr>) = (Inr delay, w')" "retryable e"
  using assms
  by (auto simp: prepare_retry_def and_then_run gets_run clock_def attempt_run with_queue_def Let_def ok_run
      split: if_splits prod.splits sum.splits)

lemma prepare_retry_counts:
  assumes retry: "prepare_retry uid e w = (Inr (Some delay), w')" and tried: "tried uid limit n w"
  shows "tried uid limit (Suc n) w' \<and> n < unat limit"
proof -
  have limit: "pref_automatic_retry_limit (w_prefs w) = limit" using tried by (simp add: tried_def)
  from retry limit obtain job' q' rest where
    began: "begin_retry (w_now w) uid limit e (w_queue (interfere w)) = (Inr (job', delay), q')"
    and rest: "rest = and_then (persist_transfer job') (\<lambda>_.
       and_then (diagnose (TransferRetried (job_direction job') (job_retry_count job') limit (code e))) (\<lambda>_.
       and_then (emit (progress_from_job job')) (\<lambda>_. ok delay)))"
    and ran: "rest (interfere w\<lparr>w_queue := q'\<rparr>) = (Inr delay, w')"
    by (rule prepare_retry_Inr)
  from begin_retry_Inr[OF began] obtain job where
    job: "jobs (w_queue (interfere w)) uid = Some job" "job_retry_count job < limit"
    and up: "job_retry_count job' = saturating_inc8 (job_retry_count job)"
      "q' = (w_queue (interfere w))\<lparr>jobs := (jobs (w_queue (interfere w)))(uid \<mapsto> job')\<rparr>"
    by blast
  from tried have i: "tried uid limit n (interfere w)" by (rule tried.interfere_keeps)
  with job(1) have n: "n \<le> unat (job_retry_count job)" by (simp add: tried_def)
  from unat_saturating_inc8_less[OF job(2)] up(1) n have "Suc n \<le> unat (job_retry_count job')" by simp
  with i up(2) have t: "tried uid limit (Suc n) (interfere w\<lparr>w_queue := q'\<rparr>)" by (simp add: tried_def)
  have "keeps (tried uid limit (Suc n)) rest"
    unfolding rest by (intro keeps_intros tried.persist_keeps tried.diagnose_keeps tried.emit_keeps)
  from keeps_run[OF this ran t] have "tried uid limit (Suc n) w'" .
  with n job(2) show ?thesis by (simp add: word_less_nat_alt)
qed

lemma reconnect_all_tried:
  assumes "\<And>p. keeps (tried uid limit n) (reconnect p)" "reconnect_all reconnect uid ps w = (False, w')"
    "tried uid limit n w"
  shows "tried uid limit n w'"
  using assms(2,3)
proof (induction ps arbitrary: w)
  case (Cons p ps)
  obtain r w1 where step: "reconnect p w = (r, w1)" by fastforce
  from keeps_run[OF assms(1) step Cons.prems(2)] have "tried uid limit n w1" .
  with Cons step show ?case by (auto split: sum.splits if_splits)
qed simp

lemma task_loop_ends:
  assumes reconnect: "\<And>n p. keeps (tried uid limit n) (reconnect p)"
    and "tried uid limit n w" "n \<le> unat limit" "unat limit < n + fuel"
  shows "task_loop fuel sha reconnect uid w \<noteq> None"
  using assms(2-)
proof (induction fuel arbitrary: n w)
  case (Suc fuel)
  obtain r w1 where run: "run sha uid w = (r, w1)" by fastforce
  from keeps_run[OF tried.run_keeps run Suc.prems(1)] have t1: "tried uid limit n w1" .
  show ?case
  proof (cases r)
    case (Inr u)
    with run show ?thesis by simp
  next
    case (Inl e)
    obtain r2 w2 where retry: "prepare_retry uid e w1 = (r2, w2)" by fastforce
    show ?thesis
    proof (cases "\<exists>delay. r2 = Inr (Some delay)")
      case False
      with run Inl retry show ?thesis by (auto split: sum.split option.split)
    next
      case True
      then obtain delay where r2: "r2 = Inr (Some delay)" by blast
      from prepare_retry_counts[OF retry[unfolded r2] t1] have t2: "tried uid limit (Suc n) w2" "n < unat limit"
        by simp_all
      obtain r3 w3 where snap: "job_snapshot uid w2 = (r3, w3)" by fastforce
      from keeps_run[OF tried.job_snapshot_keeps snap t2(1)] have t3: "tried uid limit (Suc n) w3" .
      show ?thesis
      proof (cases r3)
        case (Inl e3)
        with run \<open>r = Inl e\<close> retry r2 snap show ?thesis by simp
      next
        case (Inr job)
        obtain stopped w4 where rec: "reconnect_all reconnect uid (profiles_of_job job) w3 = (stopped, w4)"
          by fastforce
        show ?thesis
        proof (cases stopped)
          case True
          with run \<open>r = Inl e\<close> retry r2 snap Inr rec show ?thesis by simp
        next
          case False
          from False rec have "reconnect_all reconnect uid (profiles_of_job job) w3 = (False, w4)" by simp
          from reconnect_all_tried[where reconnect = reconnect, OF reconnect this t3]
          have "tried uid limit (Suc n) w4" .
          from Suc.IH[OF this] t2(2) Suc.prems(3) have "task_loop fuel sha reconnect uid w4 \<noteq> None" by simp
          with run \<open>r = Inl e\<close> retry r2 snap Inr rec False show ?thesis by simp
        qed
      qed
    qed
  qed
qed simp



end
