(* ===== verification/Transfer_Delivery.thy ===== *)
theory Transfer_Delivery
  imports Transfer_Laws
begin

text \<open>
  What a transfer that reports success has done to the files, on servers and disks that obey the
  interfaces of \<^verbatim>\<open>Filesystems\<close>. The other tasks and commands may change the queue at every lock, but they
  leave the paths and the conflict policy of this job alone; nobody else writes the files it touches.
\<close>

section \<open>Assertions about successful runs\<close>

definition attains :: "('w \<Rightarrow> bool) \<Rightarrow> ('w, 'e, 'a) eff \<Rightarrow> ('a \<Rightarrow> 'w \<Rightarrow> bool) \<Rightarrow> bool" where
  "attains P m Q \<longleftrightarrow> (\<forall>w a w'. P w \<longrightarrow> m w = (Inr a, w') \<longrightarrow> Q a w')"

lemma attainsI: "(\<And>w a w'. P w \<Longrightarrow> m w = (Inr a, w') \<Longrightarrow> Q a w') \<Longrightarrow> attains P m Q"
  by (simp add: attains_def)

lemma attainsD: "attains P m Q \<Longrightarrow> m w = (Inr a, w') \<Longrightarrow> P w \<Longrightarrow> Q a w'"
  by (simp add: attains_def)

lemma attains_and_then:
  assumes "attains P m R" "\<And>a. attains (R a) (k a) Q"
  shows "attains P (and_then m k) Q"
proof (rule attainsI)
  fix w b w' assume "P w" "and_then m k w = (Inr b, w')"
  then show "Q b w'" using assms by (auto elim!: and_then_InrD simp: attains_def)
qed

lemma attains_keeps: "keeps P m \<Longrightarrow> attains P m (\<lambda>_. P)"
  by (auto simp: attains_def dest: keeps_run)

lemma attains_step: "keeps P m \<Longrightarrow> (\<And>a. attains P (k a) Q) \<Longrightarrow> attains P (and_then m k) Q"
  by (rule attains_and_then[OF attains_keeps])

lemma attains_pure: "(\<phi> \<Longrightarrow> attains P m Q) \<Longrightarrow> attains (\<lambda>w. \<phi> \<and> P w) m Q"
  by (auto simp: attains_def)

lemma attains_ex: "(\<And>x. attains (P x) m Q) \<Longrightarrow> attains (\<lambda>w. \<exists>x. P x w) m Q"
  unfolding attains_def by blast

lemma attains_post: "attains P m Q \<Longrightarrow> (\<And>a w. Q a w \<Longrightarrow> Q' a w) \<Longrightarrow> attains P m Q'"
  unfolding attains_def by blast

lemma attains_pre: "attains P' m Q \<Longrightarrow> (\<And>w. P w \<Longrightarrow> P' w) \<Longrightarrow> attains P m Q"
  unfolding attains_def by blast

lemma attains_ok: "(\<And>w. P w \<Longrightarrow> Q a w) \<Longrightarrow> attains P (ok a) Q"
  by (simp add: attains_def ok_def)

lemma attains_err: "attains P (err e) Q"
  by (simp add: attains_def err_def)

lemma attains_if: "(b \<Longrightarrow> attains P m Q) \<Longrightarrow> (\<not> b \<Longrightarrow> attains P m' Q) \<Longrightarrow> attains P (if b then m else m') Q"
  by simp

lemma attains_cond:
  "(b \<Longrightarrow> attains P m Q) \<Longrightarrow> (\<not> b \<Longrightarrow> attains P m' Q) \<Longrightarrow> attains P (\<lambda>w. if b then m w else m' w) Q"
  by (cases b) auto

lemma attains_Inr: "(\<And>w. P w \<Longrightarrow> Q a w) \<Longrightarrow> attains P (\<lambda>w. (Inr a, w)) Q"
  by (simp add: attains_def)

lemma attains_Inl: "attains P (\<lambda>w. (Inl e, w)) Q"
  by (simp add: attains_def)

section \<open>The standing of a job\<close>

definition keeps_routing :: "uuid \<Rightarrow> (TransferQueue \<Rightarrow> TransferQueue) \<Rightarrow> bool" where
  "keeps_routing uid f \<longleftrightarrow> (\<forall>q job'. jobs (f q) uid = Some job' \<longrightarrow>
     (\<exists>job. jobs q uid = Some job \<and> routing_of job' = routing_of job))"

text \<open>The job has the routing \<open>route\<close>, and the files of the server and of the disk are \<open>vr\<close> and \<open>vl\<close>.\<close>

definition standing ::
  "('r \<Rightarrow> string \<rightharpoonup> bytes) \<Rightarrow> ('l \<Rightarrow> string \<rightharpoonup> bytes) \<Rightarrow> 'l LocalFs \<Rightarrow> uuid \<Rightarrow> routing
   \<Rightarrow> (string \<rightharpoonup> bytes) \<Rightarrow> (string \<rightharpoonup> bytes) \<Rightarrow> ('r, 'l) World \<Rightarrow> bool" where
  "standing rview lview fs uid route vr vl w \<longleftrightarrow>
     (\<forall>job. jobs (w_queue w) uid = Some job \<longrightarrow> routing_of job = route)
     \<and> (\<forall>f \<in> set (w_env w). keeps_routing uid f)
     \<and> w_fs w = fs \<and> rview (w_remote w) = vr \<and> lview (w_disk w) = vl"

interpretation standing: control_plane "standing rview lview fs uid route vr vl" uid
  for rview lview fs uid route vr vl
proof (unfold_locales, goal_cases)
  case (2 w f rest)
  then have f: "keeps_routing uid f" and r: "\<And>job. jobs (w_queue w) uid = Some job \<Longrightarrow> routing_of job = route"
    by (simp_all add: standing_def)
  have "routing_of job' = route" if "jobs (f (w_queue w)) uid = Some job'" for job'
    using f that r unfolding keeps_routing_def by metis
  with 2 show ?case by (simp add: standing_def)
next
  case (3 w f)
  then obtain g where "mild g" "f (w_queue w) = (case jobs (w_queue w) uid of
      None \<Rightarrow> w_queue w | Some job \<Rightarrow> w_queue w\<lparr>jobs := (jobs (w_queue w))(uid \<mapsto> g job)\<rparr>)"
    unfolding edits_job_def by blast
  with 3 show ?case unfolding standing_def mild_def by (auto split: option.splits)
qed (auto simp: standing_def)

lemma snapshot_attains:
  "attains (standing rview lview fs uid route vr vl) (job_snapshot uid)
     (\<lambda>job w. routing_of job = route \<and> standing rview lview fs uid route vr vl w)"
proof (rule attainsI)
  fix w job w'
  assume st: "standing rview lview fs uid route vr vl w" and run: "job_snapshot uid w = (Inr job, w')"
  from run have w': "w' = interfere w" "jobs (w_queue (interfere w)) uid = Some job"
    by (auto simp: job_snapshot_def with_queue_def Let_def get_job_def split: option.splits)
  from standing.interfere_keeps[OF st] w' show "routing_of job = route \<and> standing rview lview fs uid route vr vl w'"
    by (simp add: standing_def)
qed

text \<open>A step on the server, or on the disk.\<close>

lemma remote_attains:
  assumes "\<And>s a s'. rview s = vr \<Longrightarrow> m s = (Inr a, s') \<Longrightarrow> R a (rview s')"
  shows "attains (standing rview lview fs uid route vr vl) (with_remote m)
     (\<lambda>a w. \<exists>vr'. R a vr' \<and> standing rview lview fs uid route vr' vl w)"
proof (rule attainsI)
  fix w a w'
  assume st: "standing rview lview fs uid route vr vl w" and run: "with_remote m w = (Inr a, w')"
  from run obtain s' where m: "m (w_remote w) = (Inr a, s')" "w' = w\<lparr>w_remote := s'\<rparr>"
    by (auto simp: with_remote_def split: prod.splits)
  with st have "standing rview lview fs uid route (rview s') vl w'" by (simp add: standing_def)
  moreover from assms[OF _ m(1)] st have "R a (rview s')" by (simp add: standing_def)
  ultimately show "\<exists>vr'. R a vr' \<and> standing rview lview fs uid route vr' vl w'" by blast
qed

lemma disk_attains:
  assumes "\<And>s a s'. lview s = vl \<Longrightarrow> m fs s = (Inr a, s') \<Longrightarrow> R a (lview s')"
  shows "attains (standing rview lview fs uid route vr vl) (with_disk m)
     (\<lambda>a w. \<exists>vl'. R a vl' \<and> standing rview lview fs uid route vr vl' w)"
proof (rule attainsI)
  fix w a w'
  assume st: "standing rview lview fs uid route vr vl w" and run: "with_disk m w = (Inr a, w')"
  from st have fs: "w_fs w = fs" by (simp add: standing_def)
  from run fs obtain s' where m: "m fs (w_disk w) = (Inr a, s')" "w' = w\<lparr>w_disk := s'\<rparr>"
    by (auto simp: with_disk_def split: prod.splits sum.splits)
  with st have "standing rview lview fs uid route vr (lview s') w'" by (simp add: standing_def)
  moreover from assms[OF _ m(1)] st have "R a (lview s')" by (simp add: standing_def)
  ultimately show "\<exists>vl'. R a vl' \<and> standing rview lview fs uid route vr vl' w'" by blast
qed

text \<open>\<dots> that only looks.\<close>

lemma remote_looks:
  assumes "\<And>s a s'. rview s = vr \<Longrightarrow> m s = (Inr a, s') \<Longrightarrow> rview s' = vr \<and> R a"
  shows "attains (standing rview lview fs uid route vr vl) (with_remote m)
     (\<lambda>a w. R a \<and> standing rview lview fs uid route vr vl w)"
  by (rule attains_post[OF remote_attains[where R = "\<lambda>a v. v = vr \<and> R a"]]) (use assms in auto)

lemma disk_looks:
  assumes "\<And>s a s'. lview s = vl \<Longrightarrow> m fs s = (Inr a, s') \<Longrightarrow> lview s' = vl \<and> R a"
  shows "attains (standing rview lview fs uid route vr vl) (with_disk m)
     (\<lambda>a w. R a \<and> standing rview lview fs uid route vr vl w)"
  by (rule attains_post[OF disk_attains[where R = "\<lambda>a v. v = vl \<and> R a"]]) (use assms in auto)

section \<open>Both ends of a transfer\<close>

lemma chunk_positive: "0 < transfer_chunk_size lims"
  by (auto simp: transfer_chunk_size_def CHUNK_SIZE_def MIN_THROTTLED_CHUNK_SIZE_def less_max_iff_disj
      split: option.split)

lemma overwritten_extends:
  assumes "overwritten X offset buf X'" "offset \<le> length X" "take offset X = take n P @ take (offset - n) (drop n c)"
    "prefix buf (drop offset c)" "n \<le> offset" "n \<le> length P"
  shows "take (offset + length buf) X' = take n P @ take (offset + length buf - n) (drop n c)
     \<and> offset + length buf \<le> length X' \<and> length X' \<le> max (length X) (offset + length buf)"
proof -
  from assms(4) obtain rest where rest: "drop offset c = buf @ rest" by (auto simp: prefix_def)
  from assms(5) have "drop offset c = drop (offset - n) (drop n c)" by simp
  with rest have "take (offset - n + length buf) (drop n c) = take (offset - n) (drop n c) @ buf"
    by (metis append_eq_conv_conj take_add)
  moreover have "offset + length buf - n = offset - n + length buf" using assms(5) by simp
  ultimately have "take (offset + length buf) X' = take n P @ take (offset + length buf - n) (drop n c)"
    using assms(1,3) by (simp add: overwritten_def)
  moreover have "offset + length buf \<le> length X'"
  proof -
    have "length (take (offset + length buf) X') = offset + length buf"
      using assms(1,2) by (simp add: overwritten_def)
    then show ?thesis by simp
  qed
  ultimately show ?thesis using assms(1) by (simp add: overwritten_def)
qed

lemma chunk_progress:
  assumes "offset \<le> length c" "prefix buf (drop offset c)" "buf \<noteq> []"
  shows "offset + length buf \<le> length c" "length c - (offset + length buf) < length c - offset"
    "drop offset c = buf @ drop (offset + length buf) c"
proof -
  from assms(2) obtain rest where rest: "drop offset c = buf @ rest" by (auto simp: prefix_def)
  then have "length (drop offset c) = length buf + length rest" by simp
  with assms(1,3) show le: "offset + length buf \<le> length c" by simp
  from assms(3) have "0 < length buf" by simp
  with le show "length c - (offset + length buf) < length c - offset" by linarith
  from rest have "rest = drop (length buf) (drop offset c)" by simp
  with rest show "drop offset c = buf @ drop (offset + length buf) c" by (simp add: add.commute)
qed

text \<open>What a verification that succeeds has established of the copy \<open>X\<close> of \<open>c\<close>.\<close>

definition verified :: "(bytes \<Rightarrow> bytes) \<Rightarrow> bytes \<Rightarrow> bytes \<Rightarrow> bool" where
  "verified sha c X \<longleftrightarrow> length X = length c \<and> (length c \<le> MAX_SHA256_VERIFICATION_BYTES \<longrightarrow> sha X = sha c)"

lemma small_file: "length c \<le> MAX_SHA256_VERIFICATION_BYTES \<Longrightarrow> length c < u64_max"
  by (simp add: MAX_SHA256_VERIFICATION_BYTES_def u64_max_def)

text \<open>How far a partial file has been copied: it held \<open>P\<close>, of which the first \<open>n\<close> bytes were kept.\<close>

definition copied :: "string \<Rightarrow> (string \<rightharpoonup> bytes) \<Rightarrow> nat \<Rightarrow> bytes \<Rightarrow> nat \<Rightarrow> (string \<rightharpoonup> bytes) \<Rightarrow> bool" where
  "copied part v0 n c offset v \<longleftrightarrow> n \<le> offset \<and> n \<le> length (content (v0 part))
     \<and> offset \<le> length (content (v part))
     \<and> take offset (content (v part)) = take n (content (v0 part)) @ take (offset - n) (drop n c)
     \<and> (offset = n \<longrightarrow> v = v0) \<and> (\<forall>q. q \<noteq> part \<longrightarrow> v q = v0 q)"

lemma copied_start: "n \<le> length (content (v part)) \<Longrightarrow> copied part v n c n v"
  by (simp add: copied_def)

lemma copied_more:
  assumes "copied part v0 n c offset v" "overwritten (content (v part)) offset buf X" "prefix buf (drop offset c)"
    "buf \<noteq> []"
  shows "copied part v0 n c (offset + length buf) (v(part \<mapsto> X))"
proof -
  have offs: "n \<le> offset" "n \<le> length (content (v0 part))" "offset \<le> length (content (v part))"
      "take offset (content (v part)) = take n (content (v0 part)) @ take (offset - n) (drop n c)"
      "\<forall>q. q \<noteq> part \<longrightarrow> v q = v0 q"
    using assms(1) by (auto simp: copied_def)
  from offs(1) assms(4) have "offset + length buf \<noteq> n" by (cases buf) auto
  with overwritten_extends[OF assms(2) offs(3) offs(4) assms(3) offs(1) offs(2)] offs
  show ?thesis by (simp add: copied_def)
qed

text \<open>The new file stands at its destination; its partial file is gone, and nothing but these two and the
  backup has changed.\<close>

definition placed :: "string \<Rightarrow> string \<Rightarrow> string \<Rightarrow> bytes \<Rightarrow> (string \<rightharpoonup> bytes) \<Rightarrow> (string \<rightharpoonup> bytes) \<Rightarrow> bool" where
  "placed part dst backup X v0 v \<longleftrightarrow> v dst = Some X \<and> v part = None
     \<and> (\<forall>q. q \<notin> {part, dst, backup} \<longrightarrow> v q = v0 q)"

locale transfer_ends = server: remote_filesystem remote rview + disk: local_filesystem fs lview
  for remote :: "'r RemoteFilesystem" and rview :: "'r \<Rightarrow> string \<rightharpoonup> bytes"
    and fs :: "'l LocalFs" and lview :: "'l \<Rightarrow> string \<rightharpoonup> bytes" +
  fixes uid :: uuid
begin

abbreviation st where "st \<equiv> standing rview lview fs uid"

lemma metadata_looks:
  assumes "plain remote rview p"
  shows "attains (st route vr vl) (with_remote (metadata remote p))
    (\<lambda>entry w. (case entry of None \<Rightarrow> vr p = None
        | Some e \<Rightarrow> vr p \<noteq> None \<and> (ent_size e = None \<or> ent_size e = Some (length (content (vr p))))) \<and> st route vr vl w)"
proof (rule remote_looks)
  fix s entry s'
  assume v: "rview s = vr" and run: "metadata remote p s = (Inr entry, s')"
  from run server.metadata_same[of p s] v have same: "rview s' = vr" by simp
  show "rview s' = vr \<and> (case entry of None \<Rightarrow> vr p = None
        | Some e \<Rightarrow> vr p \<noteq> None \<and> (ent_size e = None \<or> ent_size e = Some (length (content (vr p)))))"
  proof (cases entry)
    case None
    with run v server.metadata_absent same show ?thesis by auto
  next
    case (Some e)
    from assms run Some v have e: "ent_kind e = File" "vr p \<noteq> None" unfolding plain_def by blast+
    then obtain c where c: "vr p = Some c" by blast
    from server.metadata_size[of p s e s' c] run Some e v c same show ?thesis by (cases "ent_size e") auto
  qed
qed

lemma remote_size_looks:
  assumes "plain remote rview p"
  shows "attains (st route vr vl) (remote_size remote p)
    (\<lambda>size w. (\<forall>n. size = Some n \<longrightarrow> vr p \<noteq> None \<and> n = length (content (vr p))) \<and> st route vr vl w)"
  unfolding remote_size_def
proof (rule attains_and_then[OF metadata_looks[OF assms]], rule attains_pure, rule attains_ok, rule conjI)
  fix entry w n
  assume "case entry of None \<Rightarrow> vr p = None
      | Some e \<Rightarrow> vr p \<noteq> None \<and> (ent_size e = None \<or> ent_size e = Some (length (content (vr p))))"
  then show "\<forall>n. (case entry of Some e \<Rightarrow> ent_size e | None \<Rightarrow> None) = Some n \<longrightarrow>
      vr p \<noteq> None \<and> n = length (content (vr p))"
    by (cases entry) auto
qed

lemma resume_looks:
  assumes "plain remote rview p"
  shows "attains (st route vr vl) (resume_offset remote p bound)
    (\<lambda>n w. (n \<le> length (content (vr p)) \<and> n \<le> bound) \<and> st route vr vl w)"
  unfolding resume_offset_def
proof (rule attains_and_then[OF remote_size_looks[OF assms]], rule attains_pure, rule attains_ok, rule conjI)
  fix size w
  assume "\<forall>n. size = Some n \<longrightarrow> vr p \<noteq> None \<and> n = length (content (vr p))"
  then show "min (case size of Some n \<Rightarrow> n | None \<Rightarrow> 0) bound \<le> length (content (vr p))
      \<and> min (case size of Some n \<Rightarrow> n | None \<Rightarrow> 0) bound \<le> bound"
    by (cases size) auto
qed

lemma local_read_looks:
  "attains (st route vr vl) (with_disk (\<lambda>fs. l_read_at fs p offset n))
    (\<lambda>buf w. (\<forall>c. vl p = Some c \<longrightarrow> prefix buf (drop offset c) \<and> (buf = [] \<longrightarrow> 0 < n \<longrightarrow> length c \<le> offset))
      \<and> st route vr vl w)"
proof (rule disk_looks)
  fix s buf s'
  assume v: "lview s = vl" and run: "l_read_at fs p offset n s = (Inr buf, s')"
  from run disk.reads_same(4)[of p offset n s] v have "lview s' = vl" by simp
  with v run disk.read_prefix disk.read_some show "lview s' = vl \<and> (\<forall>c. vl p = Some c \<longrightarrow>
      prefix buf (drop offset c) \<and> (buf = [] \<longrightarrow> 0 < n \<longrightarrow> length c \<le> offset))" by blast
qed

lemma remote_read_looks:
  "attains (st route vr vl) (with_remote (read_chunk remote p offset n))
    (\<lambda>buf w. (\<forall>c. vr p = Some c \<longrightarrow> prefix buf (drop offset c)) \<and> st route vr vl w)"
proof (rule remote_looks)
  fix s buf s'
  assume v: "rview s = vr" and run: "read_chunk remote p offset n s = (Inr buf, s')"
  from run server.read_same[of p offset n s] v have "rview s' = vr" by simp
  with v run server.read_prefix show "rview s' = vr \<and> (\<forall>c. vr p = Some c \<longrightarrow> prefix buf (drop offset c))"
    by blast
qed

lemma remote_write_attains:
  assumes "offset \<le> length (content (vr p))"
  shows "attains (st route vr vl) (with_remote (write_chunk remote p offset buf))
    (\<lambda>_ w. \<exists>c. overwritten (content (vr p)) offset buf c \<and> st route (vr(p \<mapsto> c)) vl w)"
proof (rule attains_post[OF remote_attains[where
        R = "\<lambda>_ v. \<exists>c. v = vr(p \<mapsto> c) \<and> overwritten (content (vr p)) offset buf c"]])
  fix s u s'
  assume v: "rview s = vr" and run: "write_chunk remote p offset buf s = (Inr u, s')"
  from server.write_ok[OF run] v assms obtain c where
    c: "rview s' p = Some c" "overwritten (content (vr p)) offset buf c" by auto
  moreover have "rview s' = vr(p \<mapsto> c)"
    using c(1) run v server.write_only[of _ p offset buf s] by (intro ext) (metis fun_upd_apply snd_conv)
  ultimately show "\<exists>c. rview s' = vr(p \<mapsto> c) \<and> overwritten (content (vr p)) offset buf c" by blast
qed auto

lemma upload_loop_copies:
  assumes route: "routing_of job = (j, src, part, dst, policy)" and src: "vl src = Some c"
    and "offset \<le> length c"
  shows "attains (\<lambda>w. \<exists>v. copied part v0 n c offset v \<and> st route v vl w)
    (upload_loop remote job uid (length c) start started cadence offset)
    (\<lambda>_ w. \<exists>v. copied part v0 n c (length c) v \<and> st route v vl w)"
  using assms(3)
proof (induction "length c - offset" arbitrary: offset cadence rule: less_induct)
  case less
  have paths: "job_source_path job = src" "job_partial_path job = part" using route by (auto simp: routing_of_def)
  let ?I = "\<lambda>o' w. \<exists>v. copied part v0 n c o' v \<and> st route v vl w"
  let ?Q = "\<lambda>_ w. \<exists>v. copied part v0 n c (length c) v \<and> st route v vl w"
  have more: "attains (?I (offset + length buf))
      (upload_loop remote job uid (length c) start started cadence' (offset + length buf)) ?Q"
    if "offset < length c" "buf \<noteq> []" "prefix buf (drop offset c)" for buf cadence'
  proof -
    from prefix_length_le[OF that(3)] that(1) have "offset + length buf \<le> length c" by simp
    then show ?thesis by (intro less.hyps) (use that(1,2) in \<open>auto intro: diff_less_mono2\<close>)
  qed
  show ?case
  proof (subst ext[OF upload_loop.simps], rule attains_cond, goal_cases)
    case 1
    show ?case
    proof (rule attains_ex, rule attains_pure, rule attains_step[OF standing.ensure_running_keeps],
        rule attains_step[OF standing.transfer_limits_keeps])
      fix v lims
      assume I: "copied part v0 n c offset v"
      then have fits: "offset \<le> length (content (v part))" by (simp add: copied_def)
      show "attains (st route v vl) (and_then (with_disk (\<lambda>fs. l_read_at fs (job_source_path job) offset
          (min (transfer_chunk_size lims) CHUNK_SIZE))) (\<lambda>buf w. if buf = [] then (Inr offset, w) else
            and_then (throttle job uid (length buf) lims) (\<lambda>_.
            and_then (with_remote (write_chunk remote (job_partial_path job) offset buf)) (\<lambda>_.
            and_then (record_progress uid (offset + length buf) start started cadence) (\<lambda>cadence'.
            upload_loop remote job uid (length c) start started cadence' (offset + length buf)))) w)) ?Q"
        unfolding paths
      proof (rule attains_and_then[OF local_read_looks], rule attains_pure, rule attains_cond)
        fix buf
        assume "\<forall>c. vl src = Some c \<longrightarrow> prefix buf (drop offset c)
            \<and> (buf = [] \<longrightarrow> 0 < min (transfer_chunk_size lims) CHUNK_SIZE \<longrightarrow> length c \<le> offset)" "buf = []"
        with src 1 chunk_positive[of lims] have False by (simp add: CHUNK_SIZE_def)
        then show "attains (st route v vl) (\<lambda>w. (Inr offset, w)) ?Q" ..
      next
        fix buf
        assume buf: "\<forall>c. vl src = Some c \<longrightarrow> prefix buf (drop offset c)
            \<and> (buf = [] \<longrightarrow> 0 < min (transfer_chunk_size lims) CHUNK_SIZE \<longrightarrow> length c \<le> offset)" "buf \<noteq> []"
        with src have pre: "prefix buf (drop offset c)" by simp
        show "attains (st route v vl) (and_then (throttle job uid (length buf) lims) (\<lambda>_.
            and_then (with_remote (write_chunk remote part offset buf)) (\<lambda>_.
            and_then (record_progress uid (offset + length buf) start started cadence) (\<lambda>cadence'.
            upload_loop remote job uid (length c) start started cadence' (offset + length buf))))) ?Q"
          by (rule attains_step[OF standing.throttle_keeps],
              rule attains_and_then[OF remote_write_attains[where vr = v and p = part, OF fits]],
              rule attains_ex, rule attains_pure, rule attains_step[OF standing.record_progress_keeps],
              rule attains_pre[OF more[OF 1 buf(2) pre]], blast intro: copied_more[OF I _ pre buf(2)])
      qed
    qed
  next
    case 2
    with less.prems have "offset = length c" by simp
    then show ?case by (intro attains_Inr) simp
  qed
qed

lemma open_looks:
  "attains (st route vr vl) (with_disk (\<lambda>fs. l_open fs p)) (\<lambda>_ w. True \<and> st route vr vl w)"
proof (rule disk_looks)
  fix s a s'
  assume "lview s = vl" "l_open fs p s = (Inr a, s')"
  with disk.reads_same(3)[of p s] show "lview s' = vl \<and> True" by simp
qed

lemma read_local_whole:
  assumes "vl p = Some c" "length c < u64_max" "offset \<le> length c"
  shows "attains (st route vr vl) (read_local_file p offset seen)
    (\<lambda>a w. a = seen @ drop offset c \<and> st route vr vl w)"
  using assms(3)
proof (induction "length c - offset" arbitrary: offset seen rule: less_induct)
  case less
  show ?case
  proof (subst ext[OF read_local_file.simps], rule attains_cond, goal_cases)
    case 1
    with less.prems assms(2) show ?case by simp
  next
    case 2
    show ?case
    proof (rule attains_and_then[OF local_read_looks], rule attains_pure, rule attains_cond)
      fix buf
      assume "\<forall>c. vl p = Some c \<longrightarrow> prefix buf (drop offset c)
          \<and> (buf = [] \<longrightarrow> 0 < CHUNK_SIZE \<longrightarrow> length c \<le> offset)" "buf = []"
      with assms(1) have "length c \<le> offset" by (simp add: CHUNK_SIZE_def)
      then show "attains (st route vr vl) (\<lambda>w. (Inr seen, w)) (\<lambda>a w. a = seen @ drop offset c \<and> st route vr vl w)"
        by (intro attains_Inr) simp
    next
      fix buf
      assume buf: "\<forall>c. vl p = Some c \<longrightarrow> prefix buf (drop offset c)
          \<and> (buf = [] \<longrightarrow> 0 < CHUNK_SIZE \<longrightarrow> length c \<le> offset)" "buf \<noteq> []"
      with assms(1) have "prefix buf (drop offset c)" by simp
      note more = chunk_progress[OF less.prems this buf(2)]
      from less.hyps[OF more(2) more(1), of "seen @ buf"] more(3)
      show "attains (st route vr vl) (read_local_file p (offset + length buf) (seen @ buf))
          (\<lambda>a w. a = seen @ drop offset c \<and> st route vr vl w)" by simp
    qed
  qed
qed

lemma read_remote_whole:
  assumes "vr p = Some c" "offset \<le> length c"
  shows "attains (st route vr vl) (read_remote_file remote p (length c) offset seen)
    (\<lambda>a w. a = seen @ drop offset c \<and> st route vr vl w)"
  using assms(2)
proof (induction "length c - offset" arbitrary: offset seen rule: less_induct)
  case less
  show ?case
  proof (subst ext[OF read_remote_file.simps], rule attains_cond, goal_cases)
    case 1
    show ?case
    proof (rule attains_and_then[OF remote_read_looks], rule attains_pure, rule attains_cond)
      fix buf
      assume buf: "\<forall>c. vr p = Some c \<longrightarrow> prefix buf (drop offset c)" "buf \<noteq> []"
      with assms(1) have "prefix buf (drop offset c)" by simp
      note more = chunk_progress[OF less.prems this buf(2)]
      from less.hyps[OF more(2) more(1), of "seen @ buf"] more(3)
      show "attains (st route vr vl) (read_remote_file remote p (length c) (offset + length buf) (seen @ buf))
          (\<lambda>a w. a = seen @ drop offset c \<and> st route vr vl w)" by simp
    qed (rule attains_Inl)
  next
    case 2
    with less.prems show ?case by (intro attains_Inr) simp
  qed
qed

lemma hash_local_looks:
  assumes "vl p = Some c" "length c < u64_max"
  shows "attains (st route vr vl) (hash_local_file sha p) (\<lambda>a w. a = sha c \<and> st route vr vl w)"
  unfolding hash_local_file_def
  by (rule attains_and_then[OF open_looks], rule attains_pure,
      rule attains_and_then[OF read_local_whole[where vl = vl, OF assms]], simp, rule attains_pure, rule attains_ok) simp

lemma hash_remote_looks:
  assumes "vr p = Some c" "length c = n"
  shows "attains (st route vr vl) (hash_remote_file sha remote p n) (\<lambda>a w. a = sha c \<and> st route vr vl w)"
  unfolding hash_remote_file_def assms(2)[symmetric]
  by (rule attains_and_then[OF read_remote_whole[where vr = vr, OF assms(1)]], simp, rule attains_pure,
      rule attains_ok) simp

lemma verify_upload_looks:
  assumes "route = (j, src, part, dst, policy)" "vl src = Some c" "plain remote rview part"
  shows "attains (st route vr vl) (verify_upload sha remote uid (length c))
    (\<lambda>_ w. (\<exists>X. vr part = Some X \<and> verified sha c X) \<and> st route vr vl w)"
  unfolding verify_upload_def
proof (rule attains_and_then[OF snapshot_attains], rule attains_pure)
  fix job
  assume "routing_of job = route"
  then have paths: "job_source_path job = src" "job_partial_path job = part"
    using assms(1) by (auto simp: routing_of_def)
  let ?Q = "\<lambda>_ w. (\<exists>X. vr part = Some X \<and> verified sha c X) \<and> st route vr vl w"
  show "attains (st route vr vl) (and_then (remote_size remote (job_partial_path job)) (\<lambda>size.
     if size \<noteq> Some (length c) then err (verification_error (length c) size)
     else and_then
       (if length c \<le> MAX_SHA256_VERIFICATION_BYTES then
          and_then (hash_local_file sha (job_source_path job)) (\<lambda>local_hash.
          and_then (hash_remote_file sha remote (job_partial_path job) (length c)) (\<lambda>remote_hash.
          if local_hash \<noteq> remote_hash
          then err (new_error Conflict
                 ''SHA-256 verification failed; the uploaded partial file was retained'')
          else ok Sha256Verified))
        else ok SizeVerified)
       (\<lambda>verification. set_verification uid verification))) ?Q"
    unfolding paths
  proof (rule attains_and_then[OF remote_size_looks[OF assms(3)]], rule attains_pure, rule attains_if[OF attains_err])
    fix size
    assume size: "\<forall>n. size = Some n \<longrightarrow> vr part \<noteq> None \<and> n = length (content (vr part))" "\<not> size \<noteq> Some (length c)"
    then obtain X where X: "vr part = Some X" "length X = length c" by auto
    show "attains (st route vr vl) (and_then
       (if length c \<le> MAX_SHA256_VERIFICATION_BYTES then
          and_then (hash_local_file sha src) (\<lambda>local_hash.
          and_then (hash_remote_file sha remote part (length c)) (\<lambda>remote_hash.
          if local_hash \<noteq> remote_hash
          then err (new_error Conflict
                 ''SHA-256 verification failed; the uploaded partial file was retained'')
          else ok Sha256Verified))
        else ok SizeVerified)
       (\<lambda>verification. set_verification uid verification)) ?Q"
    proof (rule attains_and_then[where R = "\<lambda>_ w. verified sha c X \<and> st route vr vl w"], rule attains_if, goal_cases)
      case 1
      show ?case
        by (rule attains_and_then[OF hash_local_looks[where vl = vl, OF assms(2) small_file[OF 1]]], rule attains_pure,
            rule attains_and_then[OF hash_remote_looks[where vr = vr, OF X]], rule attains_pure,
            rule attains_if[OF attains_err], rule attains_ok) (simp add: verified_def X)
    next
      case 2
      with X show ?case by (intro attains_ok) (simp add: verified_def)
    next
      case (3 a)
      show ?case
        by (rule attains_pure, rule attains_post[OF attains_keeps[OF standing.set_verification_keeps]])
          (use X in blast)
    qed
  qed
qed

lemma backup_apart: "dst \<noteq> dst @ ''.siftlane-backup-'' @ j" "dst @ ''.siftlane-backup-'' @ j \<noteq> dst"
  by simp_all

lemma commit_remote_attains:
  assumes route: "route = (j, src, part, dst, policy)" and new: "vr part = Some X"
    and apart: "part \<noteq> dst" "part \<noteq> dst @ ''.siftlane-backup-'' @ j" and dst: "plain remote rview dst"
  shows "attains (st route vr vl) (commit_remote remote uid)
    (\<lambda>_ w. \<exists>v. placed part dst (dst @ ''.siftlane-backup-'' @ j) X vr v \<and> st route v vl w)"
  unfolding commit_remote_def
proof (rule attains_and_then[OF snapshot_attains], rule attains_pure)
  fix job
  let ?backup = "dst @ ''.siftlane-backup-'' @ j"
  assume "routing_of job = route"
  then have paths: "job_partial_path job = part" "job_destination_path job = dst" "backup_path job = ?backup"
    using route by (auto simp: routing_of_def backup_path_def)
  show "attains (st route vr vl) (with_remote (swap_in (remote_present remote) (rename remote) (remove_file remote)
       (job_partial_path job) (job_destination_path job) (backup_path job)))
    (\<lambda>_ w. \<exists>v. placed part dst ?backup X vr v \<and> st route v vl w)"
    unfolding paths
  proof (rule remote_attains[where R = "\<lambda>_ v. placed part dst ?backup X vr v"])
    fix s a s'
    assume v: "rview s = vr" and run: "swap_in (remote_present remote) (rename remote) (remove_file remote)
       part dst ?backup s = (Inr a, s')"
    show "placed part dst ?backup X vr (rview s')"
    proof (cases "vr dst")
      case (Some old)
      from server.moves.swap_in_replaces[OF run] v new Some apart show ?thesis by (auto simp: placed_def)
    next
      case None
      have "\<And>s1. remote_present remote dst s \<noteq> (Inr True, s1)"
        using dst v None unfolding plain_def
        by (fastforce simp: remote_present_def and_then_run ok_run split: prod.splits sum.splits)
      from server.moves.swap_in_fresh[OF run _ this] v new apart show ?thesis by (auto simp: placed_def)
    qed
  qed
qed

lemma handle_conflict_passes:
  assumes route: "route = (j, src, part, dst, policy)" and dst: "plain remote rview dst"
    and free: "vr dst = None \<or> policy = Overwrite"
  shows "attains (st route vr vl) (handle_remote_conflict remote uid) (\<lambda>stop w. \<not> stop \<and> st route vr vl w)"
  unfolding handle_remote_conflict_def
proof (rule attains_and_then[OF snapshot_attains], rule attains_pure)
  fix job
  assume "routing_of job = route"
  then have paths: "job_destination_path job = dst" "job_conflict_policy job = policy"
    using route by (auto simp: routing_of_def)
  show "attains (st route vr vl) (and_then (with_remote (metadata remote (job_destination_path job))) (\<lambda>entry.
     if entry = None then ok False
     else case job_conflict_policy job of
            Ask \<Rightarrow> and_then (world_transition uid WaitingForConflict) (\<lambda>_. ok True)
          | Skip \<Rightarrow> and_then (world_transition uid Completed) (\<lambda>_. ok True)
          | Overwrite \<Rightarrow> ok False
          | Rename \<Rightarrow> and_then (next_available_remote_destination remote (job_destination_path job))
              (\<lambda>destination. and_then (world_update_destination uid destination) (\<lambda>_. ok False))))
     (\<lambda>stop w. \<not> stop \<and> st route vr vl w)"
    unfolding paths
  proof (rule attains_and_then[OF metadata_looks[OF dst]], rule attains_pure, rule attains_if, goal_cases)
    case 1
    show ?case by (rule attains_ok) simp
  next
    case (2 entry)
    with free have "policy = Overwrite" by (cases entry) auto
    then show ?case by (auto intro: attains_ok)
  qed
qed

lemma preserve_upload_looks:
  "attains (st route vr vl) (preserve_upload_metadata remote uid) (\<lambda>_ w. True \<and> st route vr vl w)"
  unfolding preserve_upload_metadata_def
proof (rule attains_and_then[OF snapshot_attains], rule attains_pure, rule attains_if, goal_cases)
  case 1
  show ?case by (rule attains_ok) simp
next
  case (2 job)
  have meta: "attains (st route vr vl) (with_disk (\<lambda>fs. l_metadata fs p)) (\<lambda>_ w. True \<and> st route vr vl w)" for p
  proof (rule disk_looks)
    fix s a s'
    assume "lview s = vl" "l_metadata fs p s = (Inr a, s')"
    with disk.reads_same(1)[of p s] show "lview s' = vl \<and> True" by simp
  qed
  have chmod: "attains (st route vr vl) (with_remote (set_permissions remote p m)) (\<lambda>_ w. True \<and> st route vr vl w)" for p m
  proof (rule remote_looks)
    fix s a s'
    assume "rview s = vr" "set_permissions remote p m s = (Inr a, s')"
    with server.permissions_same[of p m s] show "rview s' = vr \<and> True" by simp
  qed
  show ?case by (rule attains_and_then[OF meta], rule attains_pure, rule chmod)
qed

lemma sync_looks:
  "attains (st route vr vl) (with_remote (sync_file remote p)) (\<lambda>_ w. True \<and> st route vr vl w)"
proof (rule remote_looks)
  fix s a s'
  assume "rview s = vr" "sync_file remote p s = (Inr a, s')"
  with server.sync_same[of p s] show "rview s' = vr \<and> True" by simp
qed

text \<open>The size of the source, as it is when the transfer starts.\<close>

lemma source_size_looks:
  assumes "vl p = Some c"
  shows "attains (st route vr vl) (with_disk (\<lambda>fs. l_metadata fs p)) (\<lambda>meta w. lm_len meta = length c \<and> st route vr vl w)"
proof (rule disk_looks)
  fix s a s'
  assume "lview s = vl" "l_metadata fs p s = (Inr a, s')"
  with disk.reads_same(1)[of p s] disk.metadata_len[of p s a s' c] assms show "lview s' = vl \<and> lm_len a = length c" by auto
qed

lemma upload_content_attains:
  assumes route: "route = (j, src, part, dst, policy)" and src: "vl src = Some c"
    and plain: "plain remote rview part" "plain remote rview dst"
    and apart: "part \<noteq> dst" "part \<noteq> dst @ ''.siftlane-backup-'' @ j"
  shows "attains (st route vr vl) (upload_content sha remote uid (length c))
    (\<lambda>_ w. \<exists>n v1 X v. copied part vr n c (length c) v1 \<and> v1 part = Some X \<and> verified sha c X
        \<and> placed part dst (dst @ ''.siftlane-backup-'' @ j) X v1 v \<and> st route v vl w)"
    (is "attains _ _ ?Q")
  unfolding upload_content_def
proof (rule attains_and_then[OF snapshot_attains], rule attains_pure)
  fix job
  assume jr: "routing_of job = route"
  then have paths: "job_source_path job = src" "job_partial_path job = part"
    using route by (auto simp: routing_of_def)
  note copies = upload_loop_copies[OF jr[unfolded route], where vl = vl, OF src]
  have tail: "attains (st route v1 vl) (and_then (with_remote (sync_file remote part)) (\<lambda>_.
     and_then (verify_upload sha remote uid (length c)) (\<lambda>_.
     and_then (commit_remote remote uid) (\<lambda>_.
     and_then (preserve_upload_metadata remote uid) (\<lambda>_. complete uid))))) ?Q"
    if v1: "copied part vr n c (length c) v1" for v1 n
  proof (rule attains_and_then[OF sync_looks], rule attains_pure,
      rule attains_and_then[OF verify_upload_looks[where vl = vl, OF route src plain(1)]], rule attains_pure,
      elim exE conjE)
    fix X
    assume X: "v1 part = Some X" "verified sha c X"
    show "attains (st route v1 vl) (and_then (commit_remote remote uid) (\<lambda>_.
       and_then (preserve_upload_metadata remote uid) (\<lambda>_. complete uid))) ?Q"
      by (rule attains_and_then[OF commit_remote_attains[where vr = v1, OF route X(1) apart plain(2)]], rule attains_ex,
          rule attains_pure, rule attains_and_then[OF preserve_upload_looks], rule attains_pure,
          rule attains_post[OF attains_keeps[OF standing.complete_keeps]]) (use v1 X in blast)
  qed
  show "attains (st route vr vl) (and_then (resume_offset remote (job_partial_path job) (length c)) (\<lambda>partial_size.
     and_then (with_disk (\<lambda>fs. l_open fs (job_source_path job))) (\<lambda>_.
     and_then instant (\<lambda>started.
     and_then instant (\<lambda>now.
     and_then (upload_loop remote job uid (length c) partial_size started (new_cadence now) partial_size) (\<lambda>_.
     and_then (with_remote (sync_file remote (job_partial_path job))) (\<lambda>_.
     and_then (verify_upload sha remote uid (length c)) (\<lambda>_.
     and_then (commit_remote remote uid) (\<lambda>_.
     and_then (preserve_upload_metadata remote uid) (\<lambda>_.
     complete uid)))))))))) ?Q"
    unfolding paths
  proof (rule attains_and_then[OF resume_looks[OF plain(1)]], rule attains_pure,
      rule attains_and_then[OF open_looks], rule attains_pure,
      rule attains_step[OF standing.instant_keeps], rule attains_step[OF standing.instant_keeps], goal_cases)
    case (1 n _ started now)
    then have n: "n \<le> length (content (vr part))" "n \<le> length c" by simp_all
    show ?case
      by (rule attains_and_then[OF attains_pre[OF copies[OF n(2), where ?v0.0 = vr and n = n]]],
          use copied_start[of n vr part c, OF n(1)] in blast, rule attains_ex, rule attains_pure, rule tail)
  qed
qed

lemma upload_attains:
  assumes route: "route = (j, src, part, dst, policy)" and src: "vl src = Some c"
    and plain: "plain remote rview part" "plain remote rview dst"
    and apart: "part \<noteq> dst" "part \<noteq> dst @ ''.siftlane-backup-'' @ j"
    and free: "vr dst = None \<or> policy = Overwrite"
  shows "attains (st route vr vl) (upload sha remote uid)
    (\<lambda>_ w. \<exists>n v1 X v. copied part vr n c (length c) v1 \<and> v1 part = Some X \<and> verified sha c X
        \<and> placed part dst (dst @ ''.siftlane-backup-'' @ j) X v1 v \<and> st route v vl w)"
    (is "attains _ _ ?Q")
  unfolding upload_def
proof (rule attains_and_then[OF snapshot_attains], rule attains_pure)
  fix first
  assume "routing_of first = route"
  then have first: "job_source_path first = src" using route by (simp add: routing_of_def)
  show "attains (st route vr vl) (and_then (with_disk (\<lambda>fs. l_metadata fs (job_source_path first))) (\<lambda>source_meta.
     and_then (set_total uid (lm_len source_meta)) (\<lambda>_.
     and_then (handle_remote_conflict remote uid) (\<lambda>stop.
     if stop then emit_current uid else upload_content sha remote uid (lm_len source_meta))))) ?Q"
    unfolding first
  proof (rule attains_and_then[OF source_size_looks[where vl = vl, OF src]], rule attains_pure,
      rule attains_step[OF standing.set_total_keeps],
      rule attains_and_then[OF handle_conflict_passes[where vr = vr, OF route plain(2) free]], rule attains_pure, goal_cases)
    case 1
    with upload_content_attains[where vr = vr and vl = vl, OF route src plain apart] show ?case by simp
  qed
qed

end

interpretation mem_ends: transfer_ends mem_remote st_files mem_disk st_files uid for uid
  by intro_locales

section \<open>Uploads\<close>

lemma copied_whole:
  assumes "copied part v0 n c (length c) v" "v part = Some X" "length X = length c" "prefix (content (v0 part)) c"
  shows "X = c"
proof -
  from assms(1-3) have n: "n \<le> length c" "n \<le> length (content (v0 part))"
    and X: "X = take n (content (v0 part)) @ drop n c" by (simp_all add: copied_def)
  from assms(4) obtain rest where "c = content (v0 part) @ rest" by (auto simp: prefix_def)
  with n(2) have "take n (content (v0 part)) = take n c" by simp
  with X show ?thesis by simp
qed

lemma own_partial_apart:
  assumes "own_partial job"
  shows "job_partial_path job \<noteq> job_destination_path job"
    "job_partial_path job \<noteq> job_destination_path job @ ''.siftlane-backup-'' @ job_id job"
  using assms by (simp_all add: own_partial_def partial_path_for_def)

lemma standing_start:
  assumes "jobs (w_queue w) uid = Some job" "\<forall>f \<in> set (w_env w). keeps_routing uid f"
  shows "standing rview lview (w_fs w) uid (job_id job, job_source_path job, job_partial_path job,
      job_destination_path job, job_conflict_policy job) (rview (w_remote w)) (lview (w_disk w)) w"
  using assms by (simp add: standing_def routing_of_def)

lemma upload_run:
  assumes "remote_filesystem remote rview" "local_filesystem (w_fs w) lview"
    and job: "jobs (w_queue w) uid = Some job" "own_partial job" and env: "\<forall>f \<in> set (w_env w). keeps_routing uid f"
    and src: "lview (w_disk w) (job_source_path job) = Some c"
    and plain: "plain remote rview (job_partial_path job)" "plain remote rview (job_destination_path job)"
    and free: "rview (w_remote w) (job_destination_path job) = None \<or> job_conflict_policy job = Overwrite"
    and run: "upload sha remote uid w = (Inr (), w')"
  obtains n v1 X where "copied (job_partial_path job) (rview (w_remote w)) n c (length c) v1"
    "v1 (job_partial_path job) = Some X" "verified sha c X"
    "placed (job_partial_path job) (job_destination_path job) (backup_path job) X v1 (rview (w_remote w'))"
    "lview (w_disk w') = lview (w_disk w)"
proof -
  have ends: "transfer_ends remote rview (w_fs w) lview" using assms(1,2) by (simp add: transfer_ends_def)
  from attainsD[OF transfer_ends.upload_attains[where vl = "lview (w_disk w)" and vr = "rview (w_remote w)",
        OF ends refl src plain own_partial_apart[OF job(2)] free] run standing_start[OF job(1) env]]
  show ?thesis using that unfolding standing_def backup_path_def by blast
qed

text \<open>
  C1: An upload that reports success has put at its destination a file as long as the source; if the
  digests were compared (sources up to 64 MiB) the digests agree, and if what an earlier attempt had left
  is the beginning of the source, or nothing was left, the file is the source. The partial file is
  gone, no other file of the server but a backup of the destination has changed, and nothing on the disk
  has, for a job whose destination is free or that overwrites. Server and disk obey their interfaces,
  and nobody else redirects the job.
\<close>

theorem upload_delivers:
  assumes "remote_filesystem remote rview" "local_filesystem (w_fs w) lview"
    and job: "jobs (w_queue w) uid = Some job" "own_partial job" and env: "\<forall>f \<in> set (w_env w). keeps_routing uid f"
    and src: "lview (w_disk w) (job_source_path job) = Some c"
    and plain: "plain remote rview (job_partial_path job)" "plain remote rview (job_destination_path job)"
    and free: "rview (w_remote w) (job_destination_path job) = None \<or> job_conflict_policy job = Overwrite"
    and run: "upload sha remote uid w = (Inr (), w')"
  shows "(\<exists>X. rview (w_remote w') (job_destination_path job) = Some X \<and> length X = length c
      \<and> (length c \<le> MAX_SHA256_VERIFICATION_BYTES \<longrightarrow> sha X = sha c)
      \<and> (prefix (content (rview (w_remote w) (job_partial_path job))) c \<longrightarrow> X = c))
    \<and> rview (w_remote w') (job_partial_path job) = None
    \<and> (\<forall>q. q \<notin> {job_partial_path job, job_destination_path job, backup_path job} \<longrightarrow>
         rview (w_remote w') q = rview (w_remote w) q)
    \<and> lview (w_disk w') = lview (w_disk w)"
proof -
  obtain n v1 X where r: "copied (job_partial_path job) (rview (w_remote w)) n c (length c) v1"
    "v1 (job_partial_path job) = Some X" "verified sha c X"
    "placed (job_partial_path job) (job_destination_path job) (backup_path job) X v1 (rview (w_remote w'))"
    "lview (w_disk w') = lview (w_disk w)"
    using upload_run[OF assms(1,2) job env src plain free run] by blast
  from r(3) have len: "length X = length c" by (simp add: verified_def)
  from r(1) have "\<forall>q. q \<noteq> job_partial_path job \<longrightarrow> v1 q = rview (w_remote w) q" by (simp add: copied_def)
  with r(3-5) copied_whole[OF r(1,2) len] show ?thesis by (simp add: placed_def verified_def)
qed

lemma plain_memory: "plain mem_remote st_files p"
  by (auto simp: plain_def mem_remote_def st_entry_def run_simps elim!: faulty_Inr)

lemma demo_standing:
  "jobs (w_queue (demo_world job server disk)) (job_id job) = Some job" "w_env (demo_world job server disk) = []"
  "w_fs (demo_world job server disk) = mem_disk" "st_files (w_remote (demo_world job server disk)) = server"
  "st_files (w_disk (demo_world job server disk)) = disk"
  by (simp_all add: demo_world_def)

lemma demo_job_simps:
  "job_id demo_job = ''j''" "own_partial demo_job" "job_source_path demo_job = ''/a''"
  "job_destination_path demo_job = ''/b''" "job_partial_path demo_job = ''/b.siftlane-part-j''"
  by (simp_all add: demo_job_def new_job_def own_partial_def partial_path_for_def)

lemma upload_delivers_witness:
  "\<exists>X. st_files (w_remote (snd (upload (\<lambda>x. x) mem_remote ''j''
      (demo_world demo_job [''/b.siftlane-part-j'' \<mapsto> ''x''] [''/a'' \<mapsto> ''xyz''])))) ''/b'' = Some X \<and> X = ''xyz''"
proof -
  let ?w = "demo_world demo_job [''/b.siftlane-part-j'' \<mapsto> ''x''] [''/a'' \<mapsto> ''xyz'']"
  have "fst (upload (\<lambda>x. x) mem_remote ''j'' ?w) = Inr ()"
    by (simp add: task_defs memory_defs demo_defs run_simps loop_steps)
  then have run: "upload (\<lambda>x. x) mem_remote ''j'' ?w = (Inr (), snd (upload (\<lambda>x. x) mem_remote ''j'' ?w))"
    by (metis prod.collapse)
  have "local_filesystem (w_fs ?w) st_files"
    using mem_disk.local_filesystem_axioms by (simp add: demo_standing)
  from upload_delivers[OF mem_server.remote_filesystem_axioms this _ demo_job_simps(2) _ _ plain_memory plain_memory _ run,
      of "''xyz''"] demo_standing(1)[of demo_job] show ?thesis by (simp add: demo_standing demo_job_simps)
qed

text \<open>
  An empty file can never be uploaded: when no partial file stands on the server, the upload of a
  source of length 0 does not report success. The copy loop, which would create the partial file, is
  not entered, and the verification then finds no file.
\<close>

theorem empty_upload_fails:
  assumes "remote_filesystem remote rview" "local_filesystem (w_fs w) lview"
    and job: "jobs (w_queue w) uid = Some job" "own_partial job" and env: "\<forall>f \<in> set (w_env w). keeps_routing uid f"
    and src: "lview (w_disk w) (job_source_path job) = Some []"
    and plain: "plain remote rview (job_partial_path job)" "plain remote rview (job_destination_path job)"
    and free: "rview (w_remote w) (job_destination_path job) = None \<or> job_conflict_policy job = Overwrite"
    and absent: "rview (w_remote w) (job_partial_path job) = None"
  shows "fst (upload sha remote uid w) \<noteq> Inr ()"
proof
  assume "fst (upload sha remote uid w) = Inr ()"
  then obtain w' where run: "upload sha remote uid w = (Inr (), w')" by (metis prod.collapse)
  obtain n v1 X where "copied (job_partial_path job) (rview (w_remote w)) n [] (length ([] :: bytes)) v1"
    "v1 (job_partial_path job) = Some X"
    using upload_run[OF assms(1,2) job env src plain free run] by blast
  with absent show False by (simp add: copied_def)
qed

lemma empty_upload_fails_witness:
  "fst (upload (\<lambda>x. x) mem_remote ''j'' (demo_world demo_job Map.empty [''/a'' \<mapsto> []])) \<noteq> Inr ()"
proof (rule empty_upload_fails)
  show "remote_filesystem mem_remote st_files" by (rule mem_server.remote_filesystem_axioms)
  show "local_filesystem (w_fs (demo_world demo_job Map.empty [''/a'' \<mapsto> []])) st_files"
    using mem_disk.local_filesystem_axioms by (simp add: demo_standing)
  show "jobs (w_queue (demo_world demo_job Map.empty [''/a'' \<mapsto> []])) ''j'' = Some demo_job"
    using demo_standing(1)[of demo_job] by (simp add: demo_job_simps)
qed (simp_all add: demo_standing demo_job_simps plain_memory)

end
