(* ===== verification/Transfer_Download.thy ===== *)
theory Transfer_Download
  imports Transfer_Delivery
begin

text \<open>
  What a download that reports success has done to the files of the disk: the mirror image of the
  uploads of \<^verbatim>\<open>Transfer_Delivery\<close>, with the partial file truncated to the resumed offset first.
\<close>

section \<open>The steps of a download\<close>

context transfer_ends begin

lemma local_write_attains:
  assumes "vl p = Some c" "offset \<le> length c"
  shows "attains (st route vr vl) (with_disk (\<lambda>fs. l_write_at fs p offset buf))
    (\<lambda>_ w. \<exists>c'. overwritten c offset buf c' \<and> st route vr (vl(p \<mapsto> c')) w)"
proof (rule attains_post[OF disk_attains[where R = "\<lambda>_ v. \<exists>c'. v = vl(p \<mapsto> c') \<and> overwritten c offset buf c'"]])
  fix s u s'
  assume "lview s = vl" "l_write_at fs p offset buf s = (Inr u, s')"
  with disk.write_ok[of p offset buf s u s' c] assms
  show "\<exists>c'. lview s' = vl(p \<mapsto> c') \<and> overwritten c offset buf c'" by auto
qed auto

lemma download_loop_copies:
  assumes route: "routing_of job = (j, src, part, dst, policy)" and src: "vr src = Some c"
    and "offset \<le> length c"
  shows "attains (\<lambda>w. \<exists>v. (copied part v0 n c offset v \<and> v part \<noteq> None) \<and> st route vr v w)
    (download_loop remote job uid (length c) start started cadence offset)
    (\<lambda>_ w. \<exists>v. (copied part v0 n c (length c) v \<and> v part \<noteq> None) \<and> st route vr v w)"
  using assms(3)
proof (induction "length c - offset" arbitrary: offset cadence rule: less_induct)
  case less
  have paths: "job_source_path job = src" "job_partial_path job = part" using route by (auto simp: routing_of_def)
  let ?I = "\<lambda>o' w. \<exists>v. (copied part v0 n c o' v \<and> v part \<noteq> None) \<and> st route vr v w"
  show ?case
  proof (subst ext[OF download_loop.simps], rule attains_cond, goal_cases)
    case 1
    show ?case unfolding paths
    proof (rule attains_ex, rule attains_pure, rule attains_step[OF standing.ensure_running_keeps],
        rule attains_step[OF standing.transfer_limits_keeps], rule attains_step[OF standing.throttle_keeps],
        rule attains_and_then[OF remote_read_looks], rule attains_pure, rule attains_cond, rule attains_Inl)
      fix v lims buf
      assume I: "copied part v0 n c offset v \<and> v part \<noteq> None"
        and buf: "\<forall>c. vr src = Some c \<longrightarrow> prefix buf (drop offset c)" "buf \<noteq> []"
      from I obtain p where p: "v part = Some p" "offset \<le> length p" by (auto simp: copied_def)
      from buf src have pre: "prefix buf (drop offset c)" by simp
      note more = chunk_progress[OF less.prems pre buf(2)]
      have step: "?I (offset + length buf) w"
        if "overwritten p offset buf c'" "st route vr (v(part \<mapsto> c')) w" for c' w
        using copied_more[OF conjunct1[OF I] _ pre buf(2)] that p by fastforce
      show "attains (st route vr v) (and_then (with_disk (\<lambda>fs. l_write_at fs part offset buf)) (\<lambda>_.
          and_then (record_progress uid (offset + length buf) start started cadence) (\<lambda>cadence'.
          download_loop remote job uid (length c) start started cadence' (offset + length buf)))) (\<lambda>_. ?I (length c))"
        by (rule attains_and_then[OF local_write_attains[where vl = v, OF p]], rule attains_ex, rule attains_pure,
            rule attains_step[OF standing.record_progress_keeps],
            rule attains_pre[OF less.hyps[OF more(2) more(1)]]) (rule step)
    qed
  next
    case 2
    with less.prems have "offset = length c" by simp
    then show ?case by (intro attains_Inr) simp
  qed
qed

lemma disk_only_looks:
  "attains (st route vr vl) (with_disk (\<lambda>fs. l_sync fs p)) (\<lambda>_ w. True \<and> st route vr vl w)"
  "attains (st route vr vl) (with_disk (\<lambda>fs. l_set_permissions fs p m)) (\<lambda>_ w. True \<and> st route vr vl w)"
  "attains (st route vr vl) (with_disk (\<lambda>fs. l_set_modified fs p t)) (\<lambda>_ w. True \<and> st route vr vl w)"
  "attains (st route vr vl) (with_disk (\<lambda>fs. l_create_dir_all fs p)) (\<lambda>_ w. True \<and> st route vr vl w)"
proof (rule disk_looks, goal_cases)
  case (1 s a s') then show ?case using disk.reads_same(5)[of p s] by simp
next
  show "attains (st route vr vl) (with_disk (\<lambda>fs. l_set_permissions fs p m)) (\<lambda>_ w. True \<and> st route vr vl w)"
  proof (rule disk_looks, goal_cases)
    case (1 s a s') then show ?case using disk.reads_same(6)[of p m s] by simp
  qed
  show "attains (st route vr vl) (with_disk (\<lambda>fs. l_set_modified fs p t)) (\<lambda>_ w. True \<and> st route vr vl w)"
  proof (rule disk_looks, goal_cases)
    case (1 s a s') then show ?case using disk.reads_same(7)[of p t s] by simp
  qed
  show "attains (st route vr vl) (with_disk (\<lambda>fs. l_create_dir_all fs p)) (\<lambda>_ w. True \<and> st route vr vl w)"
  proof (rule disk_looks, goal_cases)
    case (1 s a s') then show ?case using disk.reads_same(8)[of p s] by simp
  qed
qed

lemma create_parent_looks: "attains (st route vr vl) (create_parent p) (\<lambda>_ w. True \<and> st route vr vl w)"
  unfolding create_parent_def by (auto split: option.split intro: disk_only_looks(4)[simplified])

lemma open_rw_attains:
  "attains (st route vr vl) (with_disk (\<lambda>fs. l_open_rw fs p)) (\<lambda>_ w. st route vr (vl(p \<mapsto> content (vl p))) w)"
proof (rule attains_post[OF disk_attains[where R = "\<lambda>_ v. v = vl(p \<mapsto> content (vl p))"]])
  fix s a s'
  assume "lview s = vl" "l_open_rw fs p s = (Inr a, s')"
  with disk.open_ok[of p s a s'] show "lview s' = vl(p \<mapsto> content (vl p))" by simp
qed auto

lemma set_len_attains:
  assumes "vl p = Some c" "n \<le> length c"
  shows "attains (st route vr vl) (with_disk (\<lambda>fs. l_set_len fs p n)) (\<lambda>_ w. st route vr (vl(p \<mapsto> take n c)) w)"
proof (rule attains_post[OF disk_attains[where R = "\<lambda>_ v. v = vl(p \<mapsto> take n c)"]])
  fix s a s'
  assume "lview s = vl" "l_set_len fs p n s = (Inr a, s')"
  with disk.set_len_ok[of p n s a s' c] assms show "lview s' = vl(p \<mapsto> take n c)" by simp
qed auto

lemma local_present_looks:
  "attains (st route vr vl) (with_disk (\<lambda>fs. l_try_exists fs p)) (\<lambda>b w. (\<not> b \<longrightarrow> vl p = None) \<and> st route vr vl w)"
proof (rule disk_looks)
  fix s b s'
  assume v: "lview s = vl" and run: "l_try_exists fs p s = (Inr b, s')"
  from run v disk.reads_same(2)[of p s] disk.exists_false[of p s s'] show "lview s' = vl \<and> (\<not> b \<longrightarrow> vl p = None)"
    by (cases b) auto
qed

lemma verify_download_looks:
  assumes route: "route = (j, src, part, dst, policy)" and src: "vr src = Some c" and plain: "plain remote rview src"
    and part: "vl part = Some X"
  shows "attains (st route vr vl) (verify_download sha remote uid (length c))
    (\<lambda>_ w. verified sha c X \<and> st route vr vl w)"
  unfolding verify_download_def
proof (rule attains_and_then[OF snapshot_attains], rule attains_pure)
  fix job
  assume "routing_of job = route"
  then have paths: "job_source_path job = src" "job_partial_path job = part"
    using route by (auto simp: routing_of_def)
  let ?Q = "\<lambda>_ w. verified sha c X \<and> st route vr vl w"
  have hashes: "attains (st route vr vl) (and_then
       (if length c \<le> MAX_SHA256_VERIFICATION_BYTES then
          and_then (hash_local_file sha part) (\<lambda>local_hash.
          and_then (hash_remote_file sha remote src (length c)) (\<lambda>remote_hash.
          if local_hash \<noteq> remote_hash
          then err (new_error Conflict
                 ''SHA-256 verification failed; the downloaded partial file was retained'')
          else ok Sha256Verified))
        else ok SizeVerified)
       (\<lambda>verification. set_verification uid verification)) ?Q" if X: "length X = length c"
  proof (rule attains_and_then[where R = "\<lambda>_ w. verified sha c X \<and> st route vr vl w"], rule attains_if, goal_cases)
    case 1
    with X have small: "length X < u64_max" by (intro small_file) simp
    show ?case
      by (rule attains_and_then[OF hash_local_looks[where vl = vl, OF part small]], rule attains_pure,
          rule attains_and_then[OF hash_remote_looks[where vr = vr, OF src refl]], rule attains_pure,
          rule attains_if[OF attains_err], rule attains_ok) (simp add: verified_def X)
  next
    case 2
    with X show ?case by (intro attains_ok) (simp add: verified_def)
  next
    case (3 a)
    show ?case
      by (rule attains_pure, rule attains_post[OF attains_keeps[OF standing.set_verification_keeps]]) simp
  qed
  show "attains (st route vr vl) (and_then (with_disk (\<lambda>fs. l_metadata fs (job_partial_path job))) (\<lambda>local_meta.
     and_then (remote_size remote (job_source_path job)) (\<lambda>size.
     if lm_len local_meta \<noteq> length c \<or> size \<noteq> Some (length c) then err (verification_error (length c) size)
     else and_then
       (if length c \<le> MAX_SHA256_VERIFICATION_BYTES then
          and_then (hash_local_file sha (job_partial_path job)) (\<lambda>local_hash.
          and_then (hash_remote_file sha remote (job_source_path job) (length c)) (\<lambda>remote_hash.
          if local_hash \<noteq> remote_hash
          then err (new_error Conflict
                 ''SHA-256 verification failed; the downloaded partial file was retained'')
          else ok Sha256Verified))
        else ok SizeVerified)
       (\<lambda>verification. set_verification uid verification)))) ?Q"
    unfolding paths
    by (rule attains_and_then[OF source_size_looks[where vl = vl, OF part]], rule attains_pure,
        rule attains_and_then[OF remote_size_looks[OF plain]], rule attains_pure, rule attains_if[OF attains_err],
        rule hashes) simp
qed

lemma commit_local_attains:
  assumes route: "route = (j, src, part, dst, policy)" and new: "vl part = Some X"
    and apart: "part \<noteq> dst" "part \<noteq> dst @ ''.siftlane-backup-'' @ j"
    and files: "\<forall>s s'. l_try_exists fs dst s = (Inr True, s') \<longrightarrow> lview s dst \<noteq> None"
  shows "attains (st route vr vl) (commit_local uid)
    (\<lambda>_ w. \<exists>v. placed part dst (dst @ ''.siftlane-backup-'' @ j) X vl v \<and> st route vr v w)"
  unfolding commit_local_def
proof (rule attains_and_then[OF snapshot_attains], rule attains_pure)
  fix job
  let ?backup = "dst @ ''.siftlane-backup-'' @ j"
  assume "routing_of job = route"
  then have paths: "job_partial_path job = part" "job_destination_path job = dst" "backup_path job = ?backup"
    using route by (auto simp: routing_of_def backup_path_def)
  show "attains (st route vr vl) (with_disk (\<lambda>fs. swap_in (l_try_exists fs) (l_rename fs) (l_remove_file fs)
       (job_partial_path job) (job_destination_path job) (backup_path job)))
    (\<lambda>_ w. \<exists>v. placed part dst ?backup X vl v \<and> st route vr v w)"
    unfolding paths
  proof (rule disk_attains[where R = "\<lambda>_ v. placed part dst ?backup X vl v"])
    fix s a s'
    assume v: "lview s = vl" and run: "swap_in (l_try_exists fs) (l_rename fs) (l_remove_file fs)
       part dst ?backup s = (Inr a, s')"
    show "placed part dst ?backup X vl (lview s')"
    proof (cases "vl dst")
      case (Some old)
      from disk.moves.swap_in_replaces[OF run] v new Some apart show ?thesis by (auto simp: placed_def)
    next
      case None
      have "\<And>s1. l_try_exists fs dst s \<noteq> (Inr True, s1)" using files v None by metis
      from disk.moves.swap_in_fresh[OF run _ this] v new apart show ?thesis by (auto simp: placed_def)
    qed
  qed
qed

lemma attains_flag:
  "attains P a Q \<Longrightarrow> (\<And>m. attains P (b m) Q) \<Longrightarrow> attains P (case (c, opt) of (True, Some m) \<Rightarrow> b m | _ \<Rightarrow> a) Q"
  by (simp split: option.split bool.split)

lemma preserve_download_looks:
  "attains (st route vr vl) (preserve_download_metadata entry uid) (\<lambda>_ w. True \<and> st route vr vl w)"
  unfolding preserve_download_metadata_def
  by (rule attains_and_then[OF snapshot_attains], rule attains_pure, rule attains_and_then, rule attains_flag,
      rule attains_ok[where Q = "\<lambda>_ w. True \<and> st route vr vl w"], simp, rule disk_only_looks(2), rule attains_pure,
      rule attains_flag, rule attains_ok, simp, rule disk_only_looks(3))

lemma handle_local_passes:
  assumes route: "route = (j, src, part, dst, policy)"
    and files: "\<forall>s s'. l_try_exists fs dst s = (Inr True, s') \<longrightarrow> lview s dst \<noteq> None"
    and free: "vl dst = None \<or> policy = Overwrite"
  shows "attains (st route vr vl) (handle_local_conflict uid) (\<lambda>stop w. \<not> stop \<and> st route vr vl w)"
  unfolding handle_local_conflict_def
proof (rule attains_and_then[OF snapshot_attains], rule attains_pure)
  fix job
  assume "routing_of job = route"
  then have paths: "job_destination_path job = dst" "job_conflict_policy job = policy"
    using route by (auto simp: routing_of_def)
  have seen: "attains (st route vr vl) (with_disk (\<lambda>fs. l_try_exists fs dst))
      (\<lambda>b w. (b \<longrightarrow> vl dst \<noteq> None) \<and> st route vr vl w)"
  proof (rule disk_looks)
    fix s b s'
    assume v: "lview s = vl" and run: "l_try_exists fs dst s = (Inr b, s')"
    with disk.reads_same(2)[of dst s] files show "lview s' = vl \<and> (b \<longrightarrow> vl dst \<noteq> None)" by (cases b) auto
  qed
  show "attains (st route vr vl) (and_then (with_disk (\<lambda>fs. l_try_exists fs (job_destination_path job))) (\<lambda>present.
     if \<not> present then ok False
     else case job_conflict_policy job of
            Ask \<Rightarrow> and_then (world_transition uid WaitingForConflict) (\<lambda>_. ok True)
          | Skip \<Rightarrow> and_then (world_transition uid Completed) (\<lambda>_. ok True)
          | Overwrite \<Rightarrow> ok False
          | Rename \<Rightarrow> and_then (next_available_local_destination (job_destination_path job))
              (\<lambda>destination. and_then (world_update_destination uid destination) (\<lambda>_. ok False))))
     (\<lambda>stop w. \<not> stop \<and> st route vr vl w)"
    unfolding paths
  proof (rule attains_and_then[OF seen], rule attains_pure, rule attains_if, goal_cases)
    case 1
    show ?case by (rule attains_ok) simp
  next
    case (2 b)
    with free have "policy = Overwrite" by auto
    then show ?case by (auto intro: attains_ok)
  qed
qed

lemma download_content_attains:
  assumes route: "route = (j, src, part, dst, policy)" and src: "vr src = Some c" and plain: "plain remote rview src"
    and apart: "part \<noteq> dst" "part \<noteq> dst @ ''.siftlane-backup-'' @ j"
    and files: "\<forall>s s'. l_try_exists fs dst s = (Inr True, s') \<longrightarrow> lview s dst \<noteq> None"
  shows "attains (st route vr vl) (download_content sha remote uid entry (length c))
    (\<lambda>_ w. \<exists>n v1 X v. n \<le> length (content (vl part)) \<and> copied part (vl(part \<mapsto> take n (content (vl part)))) n c (length c) v1
        \<and> v1 part = Some X \<and> verified sha c X
        \<and> placed part dst (dst @ ''.siftlane-backup-'' @ j) X v1 v \<and> st route vr v w)"
    (is "attains _ _ ?Q")
  unfolding download_content_def
proof (rule attains_and_then[OF snapshot_attains], rule attains_pure)
  fix job
  assume jr: "routing_of job = route"
  then have paths: "job_source_path job = src" "job_partial_path job = part"
    using route by (auto simp: routing_of_def)
  let ?P = "content (vl part)" let ?n = "min (length ?P) (length c)"
  let ?v0 = "vl(part \<mapsto> take ?n ?P)"
  note copies = download_loop_copies[OF jr[unfolded route], where vr = vr, OF src]
  have tail: "attains (st route vr v1) (and_then (with_disk (\<lambda>fs. l_sync fs part)) (\<lambda>_.
     and_then (verify_download sha remote uid (length c)) (\<lambda>_.
     and_then (commit_local uid) (\<lambda>_.
     and_then (preserve_download_metadata entry uid) (\<lambda>_. complete uid))))) ?Q"
    if v1: "copied part ?v0 ?n c (length c) v1" "v1 part = Some X" for v1 X
    by (rule attains_and_then[OF disk_only_looks(1)], rule attains_pure,
        rule attains_and_then[OF verify_download_looks[where vr = vr and vl = v1, OF route src plain v1(2)]],
        rule attains_pure, rule attains_and_then[OF commit_local_attains[where vl = v1, OF route v1(2) apart files]],
        rule attains_ex, rule attains_pure, rule attains_and_then[OF preserve_download_looks],
        rule attains_pure, rule attains_post[OF attains_keeps[OF standing.complete_keeps]])
      (use v1 min.cobounded1 in blast)
  have tails: "attains (st route vr v1) (and_then (with_disk (\<lambda>fs. l_sync fs part)) (\<lambda>_.
     and_then (verify_download sha remote uid (length c)) (\<lambda>_.
     and_then (commit_local uid) (\<lambda>_.
     and_then (preserve_download_metadata entry uid) (\<lambda>_. complete uid))))) ?Q"
    if "copied part ?v0 ?n c (length c) v1 \<and> v1 part \<noteq> None" for v1
    using that tail by blast
  show "attains (st route vr vl) (and_then (create_parent (job_partial_path job)) (\<lambda>_.
     and_then (with_disk (\<lambda>fs. l_open_rw fs (job_partial_path job))) (\<lambda>_.
     and_then (with_disk (\<lambda>fs. l_metadata fs (job_partial_path job))) (\<lambda>meta.
     and_then (with_disk (\<lambda>fs. l_set_len fs (job_partial_path job) (min (lm_len meta) (length c)))) (\<lambda>_.
     and_then instant (\<lambda>started.
     and_then instant (\<lambda>now.
     and_then (download_loop remote job uid (length c) (min (lm_len meta) (length c)) started (new_cadence now)
                 (min (lm_len meta) (length c))) (\<lambda>_.
     and_then (with_disk (\<lambda>fs. l_sync fs (job_partial_path job))) (\<lambda>_.
     and_then (verify_download sha remote uid (length c)) (\<lambda>_.
     and_then (commit_local uid) (\<lambda>_.
     and_then (preserve_download_metadata entry uid) (\<lambda>_.
     complete uid)))))))))))) ?Q"
    unfolding paths
  proof (rule attains_and_then[OF create_parent_looks], rule attains_pure, rule attains_and_then[OF open_rw_attains],
      rule attains_and_then[OF source_size_looks[where vl = "vl(part \<mapsto> ?P)" and p = part, OF fun_upd_same]],
      rule attains_pure, goal_cases)
    case (1 _ _ meta)
    have v0: "(vl(part \<mapsto> ?P))(part \<mapsto> take ?n ?P) = ?v0" by simp
    have len: "attains (st route vr (vl(part \<mapsto> ?P))) (with_disk (\<lambda>fs. l_set_len fs part ?n)) (\<lambda>_ w. st route vr ?v0 w)"
      using set_len_attains[where vl = "vl(part \<mapsto> ?P)" and p = part and n = ?n, OF fun_upd_same] v0 by simp
    have start: "\<exists>v. (copied part ?v0 ?n c ?n v \<and> v part \<noteq> None) \<and> st route vr v w" if "st route vr ?v0 w" for w
      using copied_start[of ?n ?v0 part c] that by auto
    show ?case
      unfolding 1
      by (rule attains_and_then[OF len], rule attains_step[OF standing.instant_keeps],
          rule attains_step[OF standing.instant_keeps],
          rule attains_and_then[OF attains_pre[OF copies[OF min.cobounded2, where ?v0.0 = ?v0 and n = ?n]]],
          erule start, rule attains_ex, rule attains_pure, rule tails)
  qed
qed

lemma source_entry_looks:
  assumes plain: "plain remote rview src" and src: "vr src = Some c"
  shows "attains (st route vr vl) (and_then (with_remote (metadata remote src)) (\<lambda>entry. lift_result (known_size text entry)))
    (\<lambda>r w. snd r = length c \<and> st route vr vl w)"
proof (rule attains_and_then[OF metadata_looks[where vr = vr, OF plain]], rule attains_pure, goal_cases)
  case (1 entry)
  then show ?case using src
    by (auto simp: attains_def lift_result_def known_size_def split: option.splits)
qed

lemma download_attains:
  assumes route: "route = (j, src, part, dst, policy)" and src: "vr src = Some c" and plain: "plain remote rview src"
    and apart: "part \<noteq> dst" "part \<noteq> dst @ ''.siftlane-backup-'' @ j"
    and files: "\<forall>s s'. l_try_exists fs dst s = (Inr True, s') \<longrightarrow> lview s dst \<noteq> None"
    and free: "vl dst = None \<or> policy = Overwrite"
  shows "attains (st route vr vl) (download sha remote uid)
    (\<lambda>_ w. \<exists>n v1 X v. n \<le> length (content (vl part)) \<and> copied part (vl(part \<mapsto> take n (content (vl part)))) n c (length c) v1
        \<and> v1 part = Some X \<and> verified sha c X
        \<and> placed part dst (dst @ ''.siftlane-backup-'' @ j) X v1 v \<and> st route vr v w)"
    (is "attains _ _ ?Q")
  unfolding download_def
proof (rule attains_and_then[OF snapshot_attains], rule attains_pure)
  fix first
  assume "routing_of first = route"
  then have first: "job_source_path first = src" using route by (simp add: routing_of_def)
  have assoc: "and_then (and_then m k) h = and_then m (\<lambda>a. and_then (k a) h)" for m :: "('r, 'l, 'a) wact" and k h
    by (rule ext) (simp add: and_then_def split: prod.split sum.split)
  show "attains (st route vr vl) (and_then (with_remote (metadata remote (job_source_path first))) (\<lambda>entry.
     and_then (lift_result (known_size ''The remote server did not report a file size'' entry))
       (\<lambda>(source, tot).
     and_then (set_total uid tot) (\<lambda>_.
     and_then (handle_local_conflict uid) (\<lambda>stop.
     if stop then emit_current uid else download_content sha remote uid source tot))))) ?Q"
    unfolding first
  proof (subst assoc[symmetric], rule attains_and_then[OF source_entry_looks[where vr = vr, OF plain src]], rule attains_pure, goal_cases)
    case (1 r)
    obtain entry tot where r: "r = (entry, tot)" by fastforce
    show ?case using 1 unfolding r prod.case snd_conv
      by (intro attains_step[OF standing.set_total_keeps])
        (rule attains_and_then[OF handle_local_passes[where vl = vl, OF route files free]], rule attains_pure,
         simp only: if_False simp_thms, rule download_content_attains[where vr = vr and vl = vl, OF route src plain apart files])
  qed
qed

end

section \<open>Downloads\<close>

text \<open>
  C2: A download that reports success has put at its destination a file as long as the server's; if the
  digests were compared (up to 64 MiB) the digests agree, and if what an earlier attempt had left is the
  beginning of the source, the file is the source. The partial file is gone, no other file of the disk
  but a backup of the destination has changed, and nothing on the server has, for a source that is a
  regular file and a job whose destination is free or that overwrites.
\<close>

theorem download_delivers:
  assumes "remote_filesystem remote rview" "local_filesystem (w_fs w) lview"
    and job: "jobs (w_queue w) uid = Some job" "own_partial job" and env: "\<forall>f \<in> set (w_env w). keeps_routing uid f"
    and src: "rview (w_remote w) (job_source_path job) = Some c"
    and plain: "plain remote rview (job_source_path job)"
    and files: "\<forall>s s'. l_try_exists (w_fs w) (job_destination_path job) s = (Inr True, s') \<longrightarrow>
        lview s (job_destination_path job) \<noteq> None"
    and free: "lview (w_disk w) (job_destination_path job) = None \<or> job_conflict_policy job = Overwrite"
    and run: "download sha remote uid w = (Inr (), w')"
  shows "(\<exists>X. lview (w_disk w') (job_destination_path job) = Some X \<and> length X = length c
      \<and> (length c \<le> MAX_SHA256_VERIFICATION_BYTES \<longrightarrow> sha X = sha c)
      \<and> (prefix (content (lview (w_disk w) (job_partial_path job))) c \<longrightarrow> X = c))
    \<and> lview (w_disk w') (job_partial_path job) = None
    \<and> (\<forall>q. q \<notin> {job_partial_path job, job_destination_path job, backup_path job} \<longrightarrow>
         lview (w_disk w') q = lview (w_disk w) q)
    \<and> rview (w_remote w') = rview (w_remote w)"
proof -
  let ?part = "job_partial_path job" let ?vl = "lview (w_disk w)"
  have ends: "transfer_ends remote rview (w_fs w) lview" using assms(1,2) by (simp add: transfer_ends_def)
  note done_by = transfer_ends.download_attains[where vr = "rview (w_remote w)" and vl = ?vl,
        OF ends refl src plain own_partial_apart[OF job(2)] files free]
  from attainsD[OF done_by run standing_start[OF job(1) env]]
  obtain n v1 X where r: "n \<le> length (content (?vl ?part))"
    "copied ?part (?vl(?part \<mapsto> take n (content (?vl ?part)))) n c (length c) v1"
    "v1 ?part = Some X" "verified sha c X"
    "placed ?part (job_destination_path job) (backup_path job) X v1 (lview (w_disk w'))"
    "rview (w_remote w') = rview (w_remote w)"
    unfolding standing_def backup_path_def by blast
  from r(4) have len: "length X = length c" by (simp add: verified_def)
  from r(2) have others: "\<forall>q. q \<noteq> ?part \<longrightarrow> v1 q = ?vl q" by (simp add: copied_def)
  have "X = c" if "prefix (content (?vl ?part)) c"
  proof (rule copied_whole[OF r(2,3) len])
    show "prefix (content ((?vl(?part \<mapsto> take n (content (?vl ?part)))) ?part)) c"
      using that take_is_prefix prefix_order.order_trans by simp blast
  qed
  with r len others show ?thesis by (simp add: placed_def verified_def)
qed

lemma download_delivers_witness:
  "\<exists>X. st_files (w_disk (snd (download (\<lambda>x. x) mem_remote ''j''
      (demo_world (demo_job\<lparr>job_direction := Download\<rparr>) [''/a'' \<mapsto> ''xyz''] [''/b.siftlane-part-j'' \<mapsto> ''x''])))) ''/b''
     = Some X \<and> X = ''xyz''"
proof -
  let ?w = "demo_world (demo_job\<lparr>job_direction := Download\<rparr>) [''/a'' \<mapsto> ''xyz''] [''/b.siftlane-part-j'' \<mapsto> ''x'']"
  have "fst (download (\<lambda>x. x) mem_remote ''j'' ?w) = Inr ()"
    by (simp add: task_defs memory_defs demo_defs run_simps loop_steps rsplit_once_def)
  then have run: "download (\<lambda>x. x) mem_remote ''j'' ?w = (Inr (), snd (download (\<lambda>x. x) mem_remote ''j'' ?w))"
    by (metis prod.collapse)
  have disk: "local_filesystem (w_fs ?w) st_files"
    using mem_disk.local_filesystem_axioms by (simp add: demo_standing)
  have files: "\<forall>s s'. l_try_exists (w_fs ?w) p s = (Inr True, s') \<longrightarrow> st_files s p \<noteq> None" for p
    by (auto simp: demo_standing mem_disk_def run_simps elim!: faulty_Inr)
  have job: "jobs (w_queue ?w) ''j'' = Some (demo_job\<lparr>job_direction := Download\<rparr>)"
    by (simp add: demo_world_def demo_job_simps)
  have own: "own_partial (demo_job\<lparr>job_direction := Download\<rparr>)" by (simp add: own_partial_def demo_job_simps partial_path_for_def)
  from download_delivers[OF mem_server.remote_filesystem_axioms disk job own _ _ plain_memory files _ run, of "''xyz''"]
  show ?thesis by (simp add: demo_standing demo_job_simps)
qed

end
