(* ===== verification/Transfer_Outcomes.thy ===== *)
theory Transfer_Outcomes
  imports Transfer_Download
begin

text \<open>
  How a run of a transfer ends when it does not simply succeed: what a commit that fails half-way
  leaves, how long a retry waits, and in which state a transfer is given up.
\<close>

section \<open>Commit\<close>

text \<open>
  C4: Committing an upload over an existing file never loses that file, whatever fails and even when
  the server carries out a request and its answer is lost: afterwards the destination holds the old
  file or the new one, or the backup holds the old one. When the commit reports success the new file is
  at the destination and the backup is gone. No other file changes.
\<close>

theorem commit_never_loses:
  assumes "remote_filesystem remote rview"
    and job: "jobs (w_queue w) uid = Some job" "own_partial job" and env: "\<forall>f \<in> set (w_env w). keeps_routing uid f"
    and new: "rview (w_remote w) (job_partial_path job) = Some new"
    and old: "rview (w_remote w) (job_destination_path job) = Some old"
    and run: "commit_remote remote uid w = (r, w')"
  shows "(r = Inr () \<longrightarrow> rview (w_remote w') (job_destination_path job) = Some new
        \<and> rview (w_remote w') (backup_path job) = None)
    \<and> (rview (w_remote w') (job_destination_path job) \<in> {Some old, Some new}
        \<or> rview (w_remote w') (backup_path job) = Some old)
    \<and> (\<forall>q. q \<notin> {job_partial_path job, job_destination_path job, backup_path job} \<longrightarrow>
         rview (w_remote w') q = rview (w_remote w) q)"
proof -
  let ?part = "job_partial_path job" and ?dst = "job_destination_path job"
  have same: "w_remote (interfere w) = w_remote w" by (simp add: interfere_def split: list.split)
  from standing.interfere_keeps[OF standing_start[OF job(1) env, of rview "\<lambda>_. Map.empty"]]
  have routed: "jobs (w_queue (interfere w)) uid = Some job' \<Longrightarrow> routing_of job' = routing_of job" for job'
    by (simp add: standing_def routing_of_def)
  show ?thesis
  proof (cases "jobs (w_queue (interfere w)) uid")
    case None
    with run have "r \<noteq> Inr ()" "w_remote w' = w_remote w" using same
      by (auto simp: commit_remote_def job_snapshot_def with_queue_def Let_def get_job_def and_then_run)
    with old show ?thesis by simp
  next
    case (Some job')
    from routed[OF this] have paths: "job_partial_path job' = ?part" "job_destination_path job' = ?dst"
      "backup_path job' = backup_path job" by (simp_all add: routing_of_def backup_path_def)
    obtain s' where swap: "swap_in (remote_present remote) (rename remote) (remove_file remote) ?part ?dst
        (backup_path job) (w_remote w) = (r, s')" and w': "w_remote w' = s'"
      using run Some same paths
      by (auto simp: commit_remote_def job_snapshot_def with_queue_def Let_def get_job_def and_then_run
          with_remote_def split: prod.splits)
    from own_partial_apart[OF job(2)] have apart: "?part \<noteq> ?dst" "?part \<noteq> backup_path job" "?dst \<noteq> backup_path job"
      by (simp_all add: backup_path_def)
    from moving_files.swap_in_replaces[OF remote_filesystem.moving[OF assms(1)] swap new old apart] w' apart
    show ?thesis by auto
  qed
qed

definition lossy_world :: "(store, store) World" where
  "lossy_world = (demo_world demo_job Map.empty Map.empty)
     \<lparr>w_remote := \<lparr>st_files = [''/b'' \<mapsto> ''old'', ''/b.siftlane-part-j'' \<mapsto> ''new''], st_faults = [Fine, LostReply]\<rparr>\<rparr>"

lemma commit_never_loses_witness:
  "st_files (w_remote (snd (commit_remote mem_remote ''j'' lossy_world))) ''/b'' \<in> {Some ''old'', Some ''new''}
   \<or> st_files (w_remote (snd (commit_remote mem_remote ''j'' lossy_world))) (backup_path demo_job) = Some ''old''"
proof -
  have job: "jobs (w_queue lossy_world) ''j'' = Some demo_job"
    by (simp add: lossy_world_def demo_world_def demo_job_simps)
  from commit_never_loses[OF mem_server.remote_filesystem_axioms job demo_job_simps(2), of "''new''" "''old''"
      "fst (commit_remote mem_remote ''j'' lossy_world)" "snd (commit_remote mem_remote ''j'' lossy_world)"]
  show ?thesis by (simp add: demo_job_simps lossy_world_def demo_world_def)
qed

section \<open>Retries\<close>

lemma w_queue_untouched:
  "persist_transfer job w = (r1, w') \<Longrightarrow> w_queue w' = w_queue w"
  "diagnose d w = (r2, w') \<Longrightarrow> w_queue w' = w_queue w"
  "emit p w = (r3, w') \<Longrightarrow> w_queue w' = w_queue w"
  by (auto simp: persist_transfer_def with_db_def diagnose_def emit_def modify_def split: prod.splits)

text \<open>
  C30: A retry that is granted was for an error that may be retried and a job that was running below the
  limit; it waits 2 to the power of the retries already made, in seconds, at most 30, and leaves the
  job interrupted with one retry more in its count and in its history.
\<close>

theorem retry_backs_off:
  assumes "prepare_retry uid e w = (Inr (Some delay), w')"
  shows "retryable e \<and> (\<exists>job job'. jobs (w_queue (interfere w)) uid = Some job \<and> jobs (w_queue w') uid = Some job'
     \<and> job_state job = Running \<and> job_retry_count job < pref_automatic_retry_limit (w_prefs w)
     \<and> delay = min 30 (2 ^ unat (job_retry_count job)) \<and> job_state job' = Interrupted
     \<and> unat (job_retry_count job') = unat (job_retry_count job) + 1
     \<and> job_retry_history job' = job_retry_history job @ [\<lparr>retry_at = w_now w, retry_error = message e\<rparr>])"
proof -
  obtain job' q' rest where
    began: "begin_retry (w_now w) uid (pref_automatic_retry_limit (w_prefs w)) e (w_queue (interfere w)) = (Inr (job', delay), q')"
    and rest: "rest = and_then (persist_transfer job') (\<lambda>_.
       and_then (diagnose (TransferRetried (job_direction job') (job_retry_count job')
          (pref_automatic_retry_limit (w_prefs w)) (code e))) (\<lambda>_.
       and_then (emit (progress_from_job job')) (\<lambda>_. ok delay)))"
    and ran: "rest (interfere w\<lparr>w_queue := q'\<rparr>) = (Inr delay, w')" and retry: "retryable e"
    by (rule prepare_retry_Inr[OF assms refl])
  from begin_retry_Inr[OF began] obtain job where
    job: "jobs (w_queue (interfere w)) uid = Some job" "job_state job = Running"
      "job_retry_count job < pref_automatic_retry_limit (w_prefs w)" "delay = retry_delay (job_retry_count job')"
      "job_retry_count job' = saturating_inc8 (job_retry_count job)" "job_state job' = Interrupted"
      "job_retry_history job' = job_retry_history job @ [\<lparr>retry_at = w_now w, retry_error = message e\<rparr>]"
      "q' = (w_queue (interfere w))\<lparr>jobs := (jobs (w_queue (interfere w)))(uid \<mapsto> job')\<rparr>"
    by blast
  have "w_queue w' = q'"
    using ran unfolding rest
    by (auto simp: and_then_run ok_run split: prod.splits sum.splits dest!: w_queue_untouched)
  moreover note count = unat_saturating_inc8_less[OF job(3)]
  moreover have "delay = min 30 (2 ^ unat (job_retry_count job))"
    using job(4,5) count by (simp add: retry_delay_def u64_max_def min.commute min.assoc)
  ultimately show ?thesis using job retry by auto
qed

definition demo_error :: AppError where
  "demo_error = as_retryable (new_error ConnectionFailed ''The connection was lost'')"

lemma retry_backs_off_witness:
  "\<exists>job'. jobs (w_queue (snd (prepare_retry ''j'' demo_error (demo_world demo_job Map.empty Map.empty)))) ''j'' = Some job'
     \<and> unat (job_retry_count job') = 1"
proof -
  let ?w = "demo_world demo_job Map.empty Map.empty"
  have "fst (prepare_retry ''j'' demo_error ?w) = Inr (Some 1)"
    by (simp add: prepare_retry_def begin_retry_def demo_error_def as_retryable_def new_error_def retry_delay_def saturating_inc8_def
        increment_retry_def record_retry_def set_error_def task_defs demo_defs run_simps)
  then have "prepare_retry ''j'' demo_error ?w = (Inr (Some 1), snd (prepare_retry ''j'' demo_error ?w))"
    by (metis prod.collapse)
  from retry_backs_off[OF this] show ?thesis
    by (auto simp: demo_world_def demo_job_def new_job_def interfere_def)
qed

section \<open>Giving up\<close>



end
