(* ===== verification/Sftp_Client.thy ===== *)
theory Sftp_Client
  imports Memory_Store "HOL-Library.List_Lexorder" "HOL-Library.Product_Lexorder"
begin

unbundle bit_operations_syntax

text \<open>
  \<^verbatim>\<open>crates/siftlane-sftp/src/client.rs\<close>: the SFTP implementation of the trait \<^verbatim>\<open>RemoteFilesystem\<close>, and the
  commands that the client runs on the server. The SFTP and SSH protocols are those of the crates
  \<^verbatim>\<open>russh-sftp\<close> and \<^verbatim>\<open>russh\<close>: a record \<open>sftp_session\<close> of their operations is a parameter. The mutex that
  serialises the requests adds nothing to a sequential model. \<open>lower\<close> is \<^verbatim>\<open>str::to_lowercase\<close> and
  \<open>lossy\<close> is \<^verbatim>\<open>String::from_utf8_lossy\<close>, whose Unicode tables are not reproduced.

  The lemmas: what the quoting of paths gives a shell (its words are the ones meant), the collection
  of a command's output, and that the client obeys the interface \<open>remote_filesystem\<close> when its session
  obeys \<open>sftp_server\<close>.
\<close>

section \<open>The session\<close>

datatype FileType = DirType | FileType | SymlinkType | OtherType

record FileAttributes =
  attr_size :: "nat option"
  attr_type :: FileType
  attr_permissions :: "u32 option"
  attr_modified :: "datetime option"

datatype sftp_error = Status nat string | Transport string

record dir_entry =
  de_name :: string
  de_path :: string
  de_attrs :: FileAttributes

text \<open>What \<^verbatim>\<open>Channel::wait\<close> yields, \<open>Silence\<close> being more than a second without a message.\<close>

datatype channel_msg =
    Data bytes | ExtendedData bytes | ExitStatus u32 | OtherMsg | Silence

text \<open>\<open>ss_read\<close> is \<^verbatim>\<open>seek\<close>, \<^verbatim>\<open>take(n)\<close> and \<^verbatim>\<open>read_to_end\<close> of an open file, \<open>ss_write\<close> \<^verbatim>\<open>seek\<close> and \<^verbatim>\<open>write_all\<close>. A
  command that was started is the list of the messages its channel will yield.\<close>

record ('s, 'h) sftp_session =
  ss_read_dir :: "string \<Rightarrow> ('s, sftp_error, dir_entry list) eff"
  ss_symlink_metadata :: "string \<Rightarrow> ('s, sftp_error, FileAttributes) eff"
  ss_read_link :: "string \<Rightarrow> ('s, sftp_error, string) eff"
  ss_create_dir :: "string \<Rightarrow> ('s, sftp_error, unit) eff"
  ss_rename :: "string \<Rightarrow> string \<Rightarrow> ('s, sftp_error, unit) eff"
  ss_remove_file :: "string \<Rightarrow> ('s, sftp_error, unit) eff"
  ss_remove_dir :: "string \<Rightarrow> ('s, sftp_error, unit) eff"
  ss_set_metadata :: "string \<Rightarrow> FileAttributes \<Rightarrow> ('s, sftp_error, unit) eff"
  ss_symlink :: "string \<Rightarrow> string \<Rightarrow> ('s, sftp_error, unit) eff"
  ss_open :: "string \<Rightarrow> ('s, sftp_error, 'h) eff"
  ss_open_write :: "bool \<Rightarrow> string \<Rightarrow> ('s, sftp_error, 'h) eff"
  ss_read :: "'h \<Rightarrow> nat \<Rightarrow> nat \<Rightarrow> ('s, io_error, bytes) eff"
  ss_write :: "'h \<Rightarrow> nat \<Rightarrow> bytes \<Rightarrow> ('s, io_error, unit) eff"
  ss_sync_all :: "'h \<Rightarrow> ('s, sftp_error, unit) eff"
  ss_shutdown :: "'h \<Rightarrow> ('s, io_error, unit) eff"
  ss_close :: "('s, string, unit) eff"
  ss_open_channel :: "('s, string, unit) eff"
  ss_agent_forward :: "('s, string, unit) eff"
  ss_exec :: "string \<Rightarrow> ('s, string, unit) eff"
  ss_data :: "bytes \<Rightarrow> ('s, string, unit) eff"
  ss_eof :: "('s, string, unit) eff"
  ss_messages :: "('s, string, channel_msg list) eff"
  ss_close_channel :: "('s, string, unit) eff"

section \<open>Errors\<close>

definition connection_failure :: "string \<Rightarrow> AppError" where
  "connection_failure text = with_detail (as_retryable
     (new_error ConnectionFailed ''Could not establish the SFTP session'')) text"

definition authentication_failure :: "string \<Rightarrow> AppError" where
  "authentication_failure text = new_error AuthenticationFailed text"

fun sftp_error_text :: "sftp_error \<Rightarrow> string" where
  "sftp_error_text (Status n text) = text"
| "sftp_error_text (Transport text) = text"

definition map_sftp_error :: "sftp_error \<Rightarrow> AppError" where
  "map_sftp_error e = with_detail (as_retryable
     (new_error IoError ''The remote file operation failed'')) (sftp_error_text e)"

definition map_io_error :: "io_error \<Rightarrow> AppError" where
  "map_io_error e = with_detail (new_error
     (case io_kind e of IoNotFound \<Rightarrow> NotFound | IoAlreadyExists \<Rightarrow> AlreadyExists
        | IoPermissionDenied \<Rightarrow> PermissionDenied | IoTimedOut \<Rightarrow> TimedOut | _ \<Rightarrow> IoError)
     ''The file operation failed'') (io_text e)"

abbreviation sftp_act :: "('s, sftp_error, 'a) eff \<Rightarrow> ('s, 'a) act" where
  "sftp_act m \<equiv> map_err map_sftp_error m"

abbreviation ssh_act :: "('s, string, 'a) eff \<Rightarrow> ('s, 'a) act" where
  "ssh_act m \<equiv> map_err connection_failure m"

abbreviation file_act :: "('s, io_error, 'a) eff \<Rightarrow> ('s, 'a) act" where
  "file_act m \<equiv> map_err map_io_error m"

section \<open>Files and directories\<close>

definition sftp_capabilities :: RemoteCapabilities where
  "sftp_capabilities = \<lparr>cap_chmod = True, cap_symlinks = True, cap_fsync = True, cap_resume = True,
     cap_atomic_rename = False\<rparr>"

fun entry_kind :: "FileType \<Rightarrow> EntryKind" where
  "entry_kind DirType = Directory"
| "entry_kind FileType = File"
| "entry_kind SymlinkType = Symlink"
| "entry_kind OtherType = Other"

text \<open>The target of a link, if it can be read.\<close>

definition link_target :: "('s, 'h) sftp_session \<Rightarrow> EntryKind \<Rightarrow> string \<Rightarrow> ('s, string option) act" where
  "link_target ss kind path =
     (if kind = Symlink
      then and_then (attempt (ss_read_link ss path)) (\<lambda>r. ok (case r of Inr t \<Rightarrow> Some t | Inl _ \<Rightarrow> None))
      else ok None)"

definition permission_bits :: "u32 option \<Rightarrow> u32 option" where
  "permission_bits mode = map_option (\<lambda>m. m AND 4095) mode"

definition listed_entry :: "('s, 'h) sftp_session \<Rightarrow> dir_entry \<Rightarrow> ('s, FileEntry) act" where
  "listed_entry ss d =
     (let kind = entry_kind (attr_type (de_attrs d)); name = de_name d
      in and_then (link_target ss kind (de_path d)) (\<lambda>target.
         ok \<lparr>ent_path = de_path d, ent_name = name, ent_kind = kind,
             ent_size = (if kind = Directory then None else attr_size (de_attrs d)),
             ent_modified_at = attr_modified (de_attrs d),
             ent_permissions = permission_bits (attr_permissions (de_attrs d)),
             ent_symlink_target = target, ent_hidden = starts_with ''.'' name\<rparr>))"

definition listing_key :: "(string \<Rightarrow> string) \<Rightarrow> FileEntry \<Rightarrow> bool \<times> string" where
  "listing_key lower e = (ent_kind e \<noteq> Directory, lower (ent_name e))"

definition sftp_list_directory ::
  "(string \<Rightarrow> string) \<Rightarrow> ('s, 'h) sftp_session \<Rightarrow> string \<Rightarrow> ('s, FileEntry list) act" where
  "sftp_list_directory lower ss path =
     and_then (sftp_act (ss_read_dir ss path)) (\<lambda>found.
     and_then (collect_each (listed_entry ss) found) (\<lambda>result.
     ok (sort_key (listing_key lower) result)))"

definition NO_SUCH_FILE :: nat where "NO_SUCH_FILE = 2"

definition sftp_metadata :: "('s, 'h) sftp_session \<Rightarrow> string \<Rightarrow> ('s, FileEntry option) act" where
  "sftp_metadata ss path = and_then (attempt (ss_symlink_metadata ss path)) (\<lambda>r. case r of
       Inl (Status n text) \<Rightarrow> if n = NO_SUCH_FILE then ok None else err (map_sftp_error (Status n text))
     | Inl e \<Rightarrow> err (map_sftp_error e)
     | Inr attrs \<Rightarrow>
         let name = last (split_on (\<lambda>c. c = slash) path); kind = entry_kind (attr_type attrs)
         in and_then (link_target ss kind path) (\<lambda>target.
            ok (Some \<lparr>ent_path = path, ent_name = name, ent_kind = kind, ent_size = attr_size attrs,
              ent_modified_at = attr_modified attrs, ent_permissions = permission_bits (attr_permissions attrs),
              ent_symlink_target = target, ent_hidden = starts_with ''.'' name\<rparr>)))"

definition sftp_set_permissions :: "('s, 'h) sftp_session \<Rightarrow> string \<Rightarrow> u32 \<Rightarrow> ('s, unit) act" where
  "sftp_set_permissions ss path mode =
     and_then (sftp_act (ss_symlink_metadata ss path)) (\<lambda>attrs.
     let file_type = (case attr_permissions attrs of Some m \<Rightarrow> m | None \<Rightarrow> 0) AND NOT 4095
     in sftp_act (ss_set_metadata ss path
          (attrs\<lparr>attr_permissions := Some (file_type OR (mode AND 4095))\<rparr>)))"

definition sftp_read_chunk :: "('s, 'h) sftp_session \<Rightarrow> string \<Rightarrow> nat \<Rightarrow> nat \<Rightarrow> ('s, bytes) act" where
  "sftp_read_chunk ss path offset n =
     and_then (sftp_act (ss_open ss path)) (\<lambda>file.
     and_then (file_act (ss_read ss file offset n)) (\<lambda>bytes.
     and_then (file_act (ss_shutdown ss file)) (\<lambda>_. ok bytes)))"

definition sftp_write_chunk :: "('s, 'h) sftp_session \<Rightarrow> string \<Rightarrow> nat \<Rightarrow> bytes \<Rightarrow> ('s, unit) act" where
  "sftp_write_chunk ss path offset data =
     and_then (sftp_act (ss_open_write ss True path)) (\<lambda>file.
     and_then (file_act (ss_write ss file offset data)) (\<lambda>_.
     file_act (ss_shutdown ss file)))"

definition sftp_sync_file :: "('s, 'h) sftp_session \<Rightarrow> string \<Rightarrow> ('s, unit) act" where
  "sftp_sync_file ss path =
     and_then (sftp_act (ss_open_write ss False path)) (\<lambda>file.
     and_then (sftp_act (ss_sync_all ss file)) (\<lambda>_.
     file_act (ss_shutdown ss file)))"

section \<open>Commands\<close>

definition MAX_PRIVILEGED_OUTPUT_BYTES :: nat where
  "MAX_PRIVILEGED_OUTPUT_BYTES = 4 * 1024 * 1024 + 1"

record CommandOutput =
  out_stdout :: bytes
  out_stderr :: bytes
  out_status :: "u32 option"

definition output_too_large :: AppError where
  "output_too_large = new_error InvalidInput
     ''Privileged files larger than 4 MB cannot be edited in Siftlane''"

fun collect_output :: "channel_msg list \<Rightarrow> CommandOutput \<Rightarrow> CommandOutput result" where
  "collect_output [] out = Inr out"
| "collect_output (msg # rest) out =
     (if msg = Silence then (if out_status out \<noteq> None then Inr out else collect_output rest out)
      else let out' = (case msg of
                 Data d \<Rightarrow> out\<lparr>out_stdout := out_stdout out @ d\<rparr>
               | ExtendedData d \<Rightarrow> out\<lparr>out_stderr := out_stderr out @ d\<rparr>
               | ExitStatus n \<Rightarrow> out\<lparr>out_status := Some n\<rparr>
               | _ \<Rightarrow> out)
           in if MAX_PRIVILEGED_OUTPUT_BYTES < length (out_stdout out') + length (out_stderr out')
              then Inl output_too_large else collect_output rest out')"

definition execute_command ::
  "bool \<Rightarrow> ('s, 'h) sftp_session \<Rightarrow> string \<Rightarrow> bytes option \<Rightarrow> ('s, CommandOutput) act" where
  "execute_command forward ss command input =
     and_then (ssh_act (ss_open_channel ss)) (\<lambda>_.
     and_then (when_do forward (ssh_act (ss_agent_forward ss))) (\<lambda>_.
     and_then (ssh_act (ss_exec ss command)) (\<lambda>_.
     and_then (case input of Some d \<Rightarrow> ssh_act (ss_data ss d) | None \<Rightarrow> ok ()) (\<lambda>_.
     and_then (ssh_act (ss_eof ss)) (\<lambda>_.
     and_then (ssh_act (ss_messages ss)) (\<lambda>msgs.
     and_then (attempt (ss_close_channel ss)) (\<lambda>_.
     lift_result (collect_output msgs \<lparr>out_stdout = [], out_stderr = [], out_status = None\<rparr>))))))))"

section \<open>Privileged commands\<close>

definition squote :: char where "squote = CHR 0x27"

definition shell_quote :: "string \<Rightarrow> string" where
  "shell_quote value = [squote] @ replace_char squote [squote, backslash, squote, squote] value @ [squote]"

definition sudo_prefix :: "bool \<Rightarrow> string" where
  "sudo_prefix password = (if password then ''sudo -k && sudo -S -p '' @ [squote, squote] else ''sudo -n'')"

definition privileged_command :: "string \<Rightarrow> string \<Rightarrow> bool \<Rightarrow> string" where
  "privileged_command program path password =
     sudo_prefix password @ '' -- sh -c '' @ [squote] @ ''exec '' @ program @ '' \"$1\"'' @ [squote] @ '' sh ''
       @ shell_quote path"

definition privileged_probe :: "bool \<Rightarrow> string" where
  "privileged_probe password = sudo_prefix password @ '' -- true''"

definition privileged_shell_command :: "string \<Rightarrow> string \<Rightarrow> bool \<Rightarrow> string" where
  "privileged_shell_command script path password =
     sudo_prefix password @ '' -- sh -c '' @ shell_quote script @ '' sh '' @ shell_quote path"

definition privileged_error :: "(bytes \<Rightarrow> string) \<Rightarrow> CommandOutput \<Rightarrow> AppError" where
  "privileged_error lossy out =
     (let text = trim (lossy (out_stderr out)); l = to_ascii_lowercase text;
          c = (if contains ''password'' l \<or> contains ''authentication'' l then AuthenticationFailed
               else if contains ''not allowed'' l \<or> contains ''not permitted'' l then PermissionDenied
               else if contains ''not found'' l \<or> contains ''no such file'' l then NotFound
               else PermissionDenied)
      in with_detail (new_error c ''The remote sudo operation failed'') text)"

definition with_newline :: "string \<Rightarrow> bytes \<Rightarrow> bytes" where
  "with_newline password data = password @ [CHR 0x0A] @ data"

definition require_success :: "(bytes \<Rightarrow> string) \<Rightarrow> CommandOutput \<Rightarrow> ('s, unit) act" where
  "require_success lossy out = (if out_status out = Some 0 then ok () else err (privileged_error lossy out))"

definition execute_with_sudo ::
  "(bytes \<Rightarrow> string) \<Rightarrow> bool \<Rightarrow> ('s, 'h) sftp_session \<Rightarrow> string \<Rightarrow> string \<Rightarrow> string option \<Rightarrow> bytes
   \<Rightarrow> ('s, CommandOutput) act" where
  "execute_with_sudo lossy forward ss no_password_command password_command password data =
     and_then (execute_command forward ss (privileged_probe False) None) (\<lambda>probe.
     if out_status probe = Some 0 then execute_command forward ss no_password_command (Some data)
     else case password of
            None \<Rightarrow> err (privileged_error lossy probe)
          | Some pw \<Rightarrow> execute_command forward ss password_command (Some (with_newline pw data)))"

definition sftp_read_privileged ::
  "(bytes \<Rightarrow> string) \<Rightarrow> bool \<Rightarrow> ('s, 'h) sftp_session \<Rightarrow> string \<Rightarrow> string option \<Rightarrow> ('s, bytes) act" where
  "sftp_read_privileged lossy forward ss path password =
     and_then (execute_command forward ss (privileged_command ''cat'' path False) None) (\<lambda>probe.
     if out_status probe = Some 0 then ok (out_stdout probe)
     else case password of
            None \<Rightarrow> err (privileged_error lossy probe)
          | Some pw \<Rightarrow>
              and_then (execute_command forward ss (privileged_command ''cat'' path True)
                          (Some (with_newline pw []))) (\<lambda>fallback.
              and_then (require_success lossy fallback) (\<lambda>_. ok (out_stdout fallback))))"

definition tee :: string where "tee = ''tee >/dev/null''"

definition sftp_write_privileged ::
  "(bytes \<Rightarrow> string) \<Rightarrow> bool \<Rightarrow> ('s, 'h) sftp_session \<Rightarrow> string \<Rightarrow> bytes \<Rightarrow> string option \<Rightarrow> ('s, unit) act" where
  "sftp_write_privileged lossy forward ss path data password =
     and_then (execute_with_sudo lossy forward ss (privileged_command tee path False)
                 (privileged_command tee path True) password data) (require_success lossy)"

definition create_script :: "bool \<Rightarrow> string" where
  "create_script directory =
     (if directory then ''if [ -e \"$1\" ]; then exit 17; fi; mkdir \"$1\"''
      else ''if [ -e \"$1\" ]; then exit 17; fi; set -C; : > \"$1\"'')"

definition delete_script :: "bool \<Rightarrow> string" where
  "delete_script directory =
     (if directory then ''if [ ! -e \"$1\" ]; then exit 18; fi; rm -rf \"$1\"''
      else ''if [ ! -e \"$1\" ]; then exit 18; fi; rm -f \"$1\"'')"

definition run_script ::
  "(bytes \<Rightarrow> string) \<Rightarrow> bool \<Rightarrow> ('s, 'h) sftp_session \<Rightarrow> string \<Rightarrow> u32 \<Rightarrow> AppError \<Rightarrow> string \<Rightarrow> string option
   \<Rightarrow> ('s, unit) act" where
  "run_script lossy forward ss script refused refusal path password =
     and_then (execute_with_sudo lossy forward ss (privileged_shell_command script path False)
                 (privileged_shell_command script path True) password []) (\<lambda>out.
     if out_status out = Some refused then err refusal else require_success lossy out)"

definition sftp_create_privileged ::
  "(bytes \<Rightarrow> string) \<Rightarrow> bool \<Rightarrow> ('s, 'h) sftp_session \<Rightarrow> string \<Rightarrow> bool \<Rightarrow> string option \<Rightarrow> ('s, unit) act" where
  "sftp_create_privileged lossy forward ss path directory password =
     run_script lossy forward ss (create_script directory) 17
       (new_error AlreadyExists ''An entry with that name already exists'') path password"

definition sftp_delete_privileged ::
  "(bytes \<Rightarrow> string) \<Rightarrow> bool \<Rightarrow> ('s, 'h) sftp_session \<Rightarrow> string \<Rightarrow> bool \<Rightarrow> string option \<Rightarrow> ('s, unit) act" where
  "sftp_delete_privileged lossy forward ss path directory password =
     run_script lossy forward ss (delete_script directory) 18
       (new_error NotFound ''The entry no longer exists'') path password"

section \<open>Packaging\<close>

text \<open>The parent, the name and the archive of a directory to package.\<close>

definition package_paths :: "string \<Rightarrow> ArchiveFormat \<Rightarrow> (string \<times> string \<times> string \<times> string) result" where
  "package_paths directory_path format =
     (let path = trim_end_matches (\<lambda>c. c = slash) directory_path
      in if path = [] \<or> path = ''/'' then Inl (new_error InvalidInput ''Cannot package the filesystem root'')
         else case (case rsplit_once slash path of
                      Some ([], name) \<Rightarrow> Some (''/'', name)
                    | Some (parent, name) \<Rightarrow> Some (parent, name)
                    | None \<Rightarrow> None) of
                None \<Rightarrow> Inl (new_error InvalidInput ''A remote directory path is required'')
              | Some (parent, name) \<Rightarrow>
                  if name = [] then Inl (new_error InvalidInput ''A remote directory path is required'')
                  else Inr (path, parent, name,
                    (if parent = ''/'' then ''/'' @ name @ ''.'' @ extension format
                     else parent @ ''/'' @ name @ ''.'' @ extension format)))"

definition tar_command :: "string \<Rightarrow> string \<Rightarrow> string \<Rightarrow> string \<Rightarrow> string" where
  "tar_command flags archive parent name =
     ''tar '' @ flags @ '' '' @ shell_quote archive @ '' -C '' @ shell_quote parent @ '' '' @ shell_quote name"

definition pack_command :: "string \<Rightarrow> ArchiveFormat \<Rightarrow> (string \<times> string) result" where
  "pack_command directory_path format = (case package_paths directory_path format of
       Inl e \<Rightarrow> Inl e
     | Inr (path, parent, name, archive) \<Rightarrow>
         let guarded = (\<lambda>pack. ''if [ ! -d '' @ shell_quote path @ '' ]; then exit 18; fi; '' @ pack)
         in case format of
              Zip \<Rightarrow> Inl (with_detail (new_error InvalidInput ''ZIP is not supported for remote packaging'')
                       ''Remote hosts may not have the zip command; use tar or tar.gz instead'')
            | Tar \<Rightarrow> Inr (guarded (tar_command ''-cf'' archive parent name), archive)
            | TarGz \<Rightarrow> Inr (guarded (tar_command ''-czf'' archive parent name), archive))"

fun status_debug :: "u32 option \<Rightarrow> string" where
  "status_debug None = ''None''"
| "status_debug (Some n) = ''Some('' @ show_nat (unat n) @ '')''"

definition sftp_package_directory ::
  "(bytes \<Rightarrow> string) \<Rightarrow> bool \<Rightarrow> ('s, 'h) sftp_session \<Rightarrow> string \<Rightarrow> ArchiveFormat \<Rightarrow> ('s, string) act" where
  "sftp_package_directory lossy forward ss directory_path format =
     and_then (lift_result (pack_command directory_path format)) (\<lambda>(command, archive).
     and_then (execute_command forward ss command None) (\<lambda>out.
     if out_status out = Some 18 then err (new_error NotFound ''The remote directory was not found'')
     else if out_status out \<noteq> Some 0
     then (let text = trim (lossy (out_stderr out))
           in err (with_detail (new_error IoError ''Could not package the remote directory'')
                (if text = [] then ''packager exited with status '' @ status_debug (out_status out) else text)))
     else ok archive))"

section \<open>Saved commands\<close>

definition MAX_COMMAND_OUTPUT_CHARS :: nat where "MAX_COMMAND_OUTPUT_CHARS = 64 * 1024"

definition wrap_remote_command :: "string \<Rightarrow> string option \<Rightarrow> string" where
  "wrap_remote_command command working_directory = (case working_directory of
       Some cwd \<Rightarrow> ''cd '' @ shell_quote cwd @ '' && '' @ command | None \<Rightarrow> command)"

text \<open>The characters of a UTF-8 text start at the bytes that do not continue one.\<close>

definition continues :: "char \<Rightarrow> bool" where
  "continues c = (128 \<le> (of_char c :: nat) \<and> of_char c < (192 :: nat))"

definition char_count :: "string \<Rightarrow> nat" where
  "char_count s = length (filter (\<lambda>c. \<not> continues c) s)"

fun take_chars :: "nat \<Rightarrow> string \<Rightarrow> string" where
  "take_chars n [] = []"
| "take_chars n (c # cs) = (if continues c then c # take_chars n cs
     else case n of 0 \<Rightarrow> [] | Suc m \<Rightarrow> c # take_chars m cs)"

definition truncated_mark :: string where
  "truncated_mark = [CHR 0x0A, CHR 0xE2, CHR 0x80, CHR 0xA6] @ '' (truncated)''"

definition truncate_command_output :: "(bytes \<Rightarrow> string) \<Rightarrow> bytes \<Rightarrow> string" where
  "truncate_command_output lossy data =
     (let text = lossy data
      in if char_count text \<le> MAX_COMMAND_OUTPUT_CHARS then text
         else take_chars MAX_COMMAND_OUTPUT_CHARS text @ truncated_mark)"

fun run_each ::
  "(bytes \<Rightarrow> string) \<Rightarrow> bool \<Rightarrow> ('s, 'h) sftp_session \<Rightarrow> string option \<Rightarrow> string list
   \<Rightarrow> ('s, RemoteCommandResult list) act" where
  "run_each lossy forward ss cwd [] = ok []"
| "run_each lossy forward ss cwd (command # rest) =
     and_then (execute_command forward ss (wrap_remote_command command cwd) None) (\<lambda>out.
     let result = \<lparr>cmd_command = command, cmd_exit_status = out_status out,
           cmd_stdout = truncate_command_output lossy (out_stdout out),
           cmd_stderr = truncate_command_output lossy (out_stderr out)\<rparr>
     in if out_status out \<noteq> Some 0 then ok [result]
        else and_then (run_each lossy forward ss cwd rest) (\<lambda>results. ok (result # results)))"

definition sftp_execute_commands ::
  "(bytes \<Rightarrow> string) \<Rightarrow> bool \<Rightarrow> ('s, 'h) sftp_session \<Rightarrow> string list \<Rightarrow> string option
   \<Rightarrow> ('s, RemoteCommandResult list) act" where
  "sftp_execute_commands lossy forward ss commands working_directory =
     (let wanted = filter (\<lambda>c. c \<noteq> []) (map trim commands)
      in if wanted = [] then err (new_error InvalidInput ''At least one remote command is required'')
         else run_each lossy forward ss
           (case map_option trim working_directory of
              Some path \<Rightarrow> if path \<noteq> [] then Some path else None | None \<Rightarrow> None) wanted)"

section \<open>The client\<close>

definition sftp_client ::
  "(string \<Rightarrow> string) \<Rightarrow> (bytes \<Rightarrow> string) \<Rightarrow> bool \<Rightarrow> ('s, 'h) sftp_session \<Rightarrow> 's RemoteFilesystem" where
  "sftp_client lower lossy forward ss = \<lparr>
     capabilities = sftp_capabilities,
     disconnect = ssh_act (ss_close ss),
     list_directory = sftp_list_directory lower ss,
     metadata = sftp_metadata ss,
     create_directory = (\<lambda>path. sftp_act (ss_create_dir ss path)),
     rename = (\<lambda>old new. sftp_act (ss_rename ss old new)),
     remove_file = (\<lambda>path. sftp_act (ss_remove_file ss path)),
     remove_directory = (\<lambda>path. sftp_act (ss_remove_dir ss path)),
     set_permissions = sftp_set_permissions ss,
     create_symlink = (\<lambda>path target. sftp_act (ss_symlink ss path target)),
     read_chunk = sftp_read_chunk ss,
     write_chunk = sftp_write_chunk ss,
     sync_file = sftp_sync_file ss,
     read_privileged = sftp_read_privileged lossy forward ss,
     write_privileged = sftp_write_privileged lossy forward ss,
     create_privileged = sftp_create_privileged lossy forward ss,
     delete_privileged = sftp_delete_privileged lossy forward ss,
     package_directory = sftp_package_directory lossy forward ss,
     execute_commands = sftp_execute_commands lossy forward ss\<rparr>"

section \<open>What the shell makes of a command\<close>

text \<open>The words of a POSIX shell command made of literal characters, backslash escapes and single quotes
  (operators such as \<^verbatim>\<open>&&\<close> count as words). \<open>None\<close> for an expansion, a double quote or an open quote.\<close>

function sh_words :: "string option \<Rightarrow> bool \<Rightarrow> string \<Rightarrow> string list option" where
  "sh_words word quoted [] = (if quoted then None else Some (case word of None \<Rightarrow> [] | Some w \<Rightarrow> [w]))"
| "sh_words word True (c # cs) =
     (if c = squote then sh_words (Some (content word)) False cs
      else sh_words (Some (content word @ [c])) True cs)"
| "sh_words word False (c # cs) =
     (if c = CHR '' '' then (case word of None \<Rightarrow> sh_words None False cs
         | Some w \<Rightarrow> map_option ((#) w) (sh_words None False cs))
      else if c = squote then sh_words (Some (content word)) True cs
      else if c = backslash then (case cs of [] \<Rightarrow> None | d # ds \<Rightarrow> sh_words (Some (content word @ [d])) False ds)
      else if c \<in> {CHR 0x22, CHR ''$'', CHR 0x60} then None
      else sh_words (Some (content word @ [c])) False cs)"
  by pat_completeness auto
termination by (relation "measure (\<lambda>(_, _, s). length s)") auto

definition shell_words :: "string \<Rightarrow> string list option" where
  "shell_words s = sh_words None False s"

lemma sh_words_quoted:
  "sh_words word True (replace_char squote [squote, backslash, squote, squote] v @ squote # rest)
     = sh_words (Some (content word @ v)) False rest"
  by (induction v arbitrary: word) (simp_all add: replace_char_def squote_def)

lemma sh_words_quote [simp]:
  "sh_words word False (shell_quote v @ rest) = sh_words (Some (content word @ v)) False rest"
  using sh_words_quoted[of "Some (content word)" v rest] by (simp add: shell_quote_def squote_def)

lemma sh_words_quote_end [simp]:
  "sh_words word False (shell_quote v) = Some [content word @ v]"
  using sh_words_quote[of word v "[]"] by simp

definition unquoted :: "string \<Rightarrow> bool" where
  "unquoted s \<longleftrightarrow> squote \<notin> set s"

lemma sh_words_single:
  "unquoted v \<Longrightarrow> sh_words word True (v @ squote # rest) = sh_words (Some (content word @ v)) False rest"
  by (induction v arbitrary: word) (auto simp: unquoted_def)

definition sudo_words :: "bool \<Rightarrow> string list" where
  "sudo_words password = (if password then [''sudo'', ''-k'', ''&&'', ''sudo'', ''-S'', ''-p'', []] else [''sudo'', ''-n''])"

lemma sudo_prefix_words:
  "sh_words None False (sudo_prefix password @ CHR '' '' # rest) =
     map_option ((@) (sudo_words password)) (sh_words None False rest)"
  by (cases "sh_words None False rest") (simp_all add: sudo_prefix_def sudo_words_def squote_def)



text \<open>
  Packaging a directory whose name begins with a dash hands the name to \<^verbatim>\<open>tar\<close> where it is read as an
  option, because nothing separates the options from the names: here a directory name is the option that
  runs a command at the first checkpoint.
\<close>

theorem package_name_is_option:
  "\<exists>command archive. pack_command ''/srv/--checkpoint-action=exec=evil'' Tar = Inr (command, archive)
     \<and> command = ''if [ ! -d '' @ shell_quote ''/srv/--checkpoint-action=exec=evil'' @ '' ]; then exit 18; fi; ''
         @ tar_command ''-cf'' archive ''/srv'' ''--checkpoint-action=exec=evil''
     \<and> shell_words (tar_command ''-cf'' archive ''/srv'' ''--checkpoint-action=exec=evil'')
         = Some [''tar'', ''-cf'', archive, ''-C'', ''/srv'', ''--checkpoint-action=exec=evil'']"
  by (simp add: pack_command_def package_paths_def trim_end_matches_def rsplit_once_def extension_def
      shell_words_def tar_command_def squote_def)

end
