(* ===== verification/Sftp_Laws.thy ===== *)
theory Sftp_Laws
  imports Sftp_Client Transfer_Download
begin

text \<open>
  The SFTP client as a provider of the interface \<open>remote_filesystem\<close>: it obeys the laws when its session
  obeys those of \<open>sftp_server\<close>, which state the documented behaviour of the SFTP requests. The
  interpretation on a session in memory carries the theorems about transfers over to the client.
\<close>

section \<open>The session's contract\<close>

text \<open>\<open>target\<close> is the path an open file was opened at.\<close>

locale sftp_server =
  fixes ss :: "('s, 'h) sftp_session" and view :: "'s \<Rightarrow> string \<rightharpoonup> bytes" and target :: "'h \<Rightarrow> string"
    and lower :: "string \<Rightarrow> string" and lossy :: "bytes \<Rightarrow> string" and forward :: bool
  assumes looks_same:
      "view (snd (ss_symlink_metadata ss p s)) = view s" "view (snd (ss_read_link ss p s)) = view s"
      "view (snd (ss_open ss p s)) = view s" "view (snd (ss_read ss h offset n s)) = view s"
      "view (snd (ss_shutdown ss h s)) = view s" "view (snd (ss_sync_all ss h s)) = view s"
      "view (snd (ss_set_metadata ss p attrs s)) = view s" "view (snd (ss_open_write ss False p s)) = view s"
    and absent: "ss_symlink_metadata ss p s = (Inl (Status NO_SUCH_FILE text), s') \<Longrightarrow> view s p = None"
    and size: "ss_symlink_metadata ss p s = (Inr attrs, s') \<Longrightarrow> view s p = Some c \<Longrightarrow>
      attr_type attrs = FileType \<Longrightarrow> attr_size attrs = Some n \<Longrightarrow> n = length c"
    and open_target: "ss_open ss p s = (Inr h, s') \<Longrightarrow> target h = p"
    and write_target: "ss_open_write ss creating p s = (Inr h, s') \<Longrightarrow> target h = p"
    and open_keeps: "content (view (snd (ss_open_write ss creating p s)) q) = content (view s q)"
      "q \<noteq> p \<Longrightarrow> view (snd (ss_open_write ss creating p s)) q = view s q"
    and read: "ss_read ss h offset n s = (Inr buf, s') \<Longrightarrow> view s (target h) = Some c \<Longrightarrow>
      prefix buf (drop offset c) \<and> length buf \<le> n"
    and write_ok: "ss_write ss h offset data s = (Inr u, s') \<Longrightarrow> offset \<le> length (content (view s (target h))) \<Longrightarrow>
      \<exists>c. view s' (target h) = Some c \<and> overwritten (content (view s (target h))) offset data c"
    and write_only: "q \<noteq> target h \<Longrightarrow> view (snd (ss_write ss h offset data s)) q = view s q"
    and rename_ok: "ss_rename ss p q s = (Inr u, s') \<Longrightarrow> view s p = Some c \<Longrightarrow> p \<noteq> q \<Longrightarrow>
      view s' = moved p q c (view s)"
    and rename_err: "ss_rename ss p q s = (Inl e, s') \<Longrightarrow> view s p = Some c \<Longrightarrow> p \<noteq> q \<Longrightarrow>
      view s' = view s \<or> view s' = moved p q c (view s)"
    and remove_ok: "ss_remove_file ss p s = (Inr u, s') \<Longrightarrow> view s' = (view s)(p := None)"
    and remove_err: "ss_remove_file ss p s = (Inl e, s') \<Longrightarrow>
      view s' = view s \<or> view s' = (view s)(p := None)"
begin

abbreviation client where "client \<equiv> sftp_client lower lossy forward ss"

lemma map_err_cases:
  assumes "map_err f m s = (r, s')"
  obtains (failed) e where "m s = (Inl e, s')" "r = Inl (f e)" | (went) a where "m s = (Inr a, s')" "r = Inr a"
  using assms by (auto simp: map_err_run split: prod.splits sum.splits)

lemma metadata_view: "view (snd (metadata client p s)) = view s"
  using looks_same(1)[of p s] looks_same(2)
  by (auto simp: sftp_client_def sftp_metadata_def and_then_run attempt_run link_target_def ok_run err_run Let_def
      split: prod.splits sum.splits sftp_error.splits) (metis snd_conv)+

lemma read_chunk_view: "view (snd (read_chunk client p offset n s)) = view s"
proof -
  have "view s1 = view s" if "ss_open ss p s = (r, s1)" for r s1
    using looks_same(3)[of p s] that by simp
  moreover have "view s2 = view s1" if "ss_read ss h offset n s1 = (r, s2)" for h r s1 s2
    using looks_same(4)[of h offset n s1] that by simp
  moreover have "view s2 = view s1" if "ss_shutdown ss h s1 = (r, s2)" for h r s1 s2
    using looks_same(5)[of h s1] that by simp
  ultimately show ?thesis
    by (auto simp: sftp_client_def sftp_read_chunk_def and_then_run map_err_run ok_run split: prod.splits sum.splits)
       (metis+)?
qed

lemma metadata_some:
  assumes "metadata client p s = (Inr (Some entry), s')"
  shows "\<exists>attrs s1. ss_symlink_metadata ss p s = (Inr attrs, s1) \<and> ent_size entry = attr_size attrs
    \<and> ent_kind entry = entry_kind (attr_type attrs)"
  using assms
  by (auto simp: sftp_client_def sftp_metadata_def and_then_run attempt_run link_target_def ok_run err_run Let_def
      split: prod.splits sum.splits sftp_error.splits if_splits)

lemma metadata_none:
  assumes "metadata client p s = (Inr None, s')"
  shows "\<exists>text s1. ss_symlink_metadata ss p s = (Inl (Status NO_SUCH_FILE text), s1)"
  using assms
  by (auto simp: sftp_client_def sftp_metadata_def and_then_run attempt_run link_target_def ok_run err_run Let_def
      split: prod.splits sum.splits sftp_error.splits if_splits)

lemma same_run:
  "ss_open ss p s = (r1, s') \<Longrightarrow> view s' = view s" "ss_read ss h offset n s = (r2, s') \<Longrightarrow> view s' = view s"
  "ss_shutdown ss h s = (r3, s') \<Longrightarrow> view s' = view s" "ss_sync_all ss h s = (r4, s') \<Longrightarrow> view s' = view s"
  "ss_symlink_metadata ss p s = (r5, s') \<Longrightarrow> view s' = view s"
  "ss_set_metadata ss p attrs s = (r6, s') \<Longrightarrow> view s' = view s"
  "ss_open_write ss False p s = (r7, s') \<Longrightarrow> view s' = view s"
  using looks_same(3)[of p s] looks_same(4)[of h offset n s] looks_same(5)[of h s] looks_same(6)[of h s]
    looks_same(1)[of p s] looks_same(7)[of p attrs s] looks_same(8)[of p s] by simp_all

lemma read_chunk_prefix:
  assumes "read_chunk client p offset n s = (Inr buf, s')" "view s p = Some c"
  shows "prefix buf (drop offset c) \<and> length buf \<le> n"
  using assms open_target same_run(1)
  by (auto simp: sftp_client_def sftp_read_chunk_def and_then_run map_err_run ok_run split: prod.splits sum.splits
      dest!: read[where c = c])

lemma write_chunk_ok:
  assumes "write_chunk client p offset data s = (Inr u, s')" "offset \<le> length (content (view s p))"
  shows "\<exists>c. view s' p = Some c \<and> overwritten (content (view s p)) offset data c"
proof -
  from assms(1) obtain h s1 s2 u2 where steps: "ss_open_write ss True p s = (Inr h, s1)"
    "ss_write ss h offset data s1 = (Inr u2, s2)" "\<exists>r. ss_shutdown ss h s2 = (r, s')"
    by (auto simp: sftp_client_def sftp_write_chunk_def and_then_run map_err_run split: prod.splits sum.splits)
  from write_target[OF steps(1)] have h: "target h = p" .
  from open_keeps(1)[of True p s p] steps(1) have old: "content (view s1 p) = content (view s p)" by simp
  from write_ok[OF steps(2)] h old assms(2) obtain c where
    "view s2 p = Some c" "overwritten (content (view s p)) offset data c" by auto
  with same_run(3) steps(3) show ?thesis by metis
qed

lemma write_chunk_only:
  assumes "q \<noteq> p"
  shows "view (snd (write_chunk client p offset data s)) q = view s q"
proof -
  obtain r s1 where op: "ss_open_write ss True p s = (r, s1)" by fastforce
  with open_keeps(2)[OF assms, of True s] have s1: "view s1 q = view s q" by simp
  have s2: "view s2 q = view s1 q" if "r = Inr h" "ss_write ss h offset data s1 = (r2, s2)" for h r2 s2
    using write_only[of q h offset data s1] write_target[of True p s h s1] that op assms by simp
  show ?thesis
  proof (cases r)
    case (Inl e)
    with op s1 show ?thesis by (simp add: sftp_client_def sftp_write_chunk_def and_then_run map_err_run)
  next
    case (Inr h)
    obtain r2 s2 where wr: "ss_write ss h offset data s1 = (r2, s2)" by fastforce
    obtain r3 s3 where sh: "ss_shutdown ss h s2 = (r3, s3)" by fastforce
    from same_run(3)[OF sh] s2[OF Inr wr] s1 op Inr wr sh show ?thesis
      by (cases r2; cases r3) (simp_all add: sftp_client_def sftp_write_chunk_def and_then_run map_err_run)
  qed
qed

lemma sync_file_view: "view (snd (sync_file client p s)) = view s"
  by (auto simp: sftp_client_def sftp_sync_file_def and_then_run map_err_run split: prod.splits sum.splits
      dest!: same_run)

lemma set_permissions_view: "view (snd (set_permissions client p mode s)) = view s"
  by (auto simp: sftp_client_def sftp_set_permissions_def and_then_run map_err_run Let_def split: prod.splits sum.splits
      dest!: same_run)

lemma entry_kind_file: "entry_kind t = File \<Longrightarrow> t = FileType"
  by (cases t) simp_all

lemma obeys: "remote_filesystem client view"
proof (rule remote_filesystem.intro)
  show "metadata client p s = (Inr None, s') \<Longrightarrow> view s p = None" for p s s'
    using metadata_none absent by blast
  show "metadata client p s = (Inr (Some entry), s') \<Longrightarrow> view s p = Some c \<Longrightarrow> ent_kind entry = File \<Longrightarrow>
      ent_size entry = Some n \<Longrightarrow> n = length c" for p s entry s' c n
    using metadata_some entry_kind_file size by metis
  show "rename client p q s = (Inr u, s') \<Longrightarrow> view s p = Some c \<Longrightarrow> p \<noteq> q \<Longrightarrow> view s' = moved p q c (view s)"
    for p q s u s' c
    by (auto simp: sftp_client_def map_err_run split: prod.splits sum.splits intro: rename_ok)
  show "rename client p q s = (Inl e, s') \<Longrightarrow> view s p = Some c \<Longrightarrow> p \<noteq> q \<Longrightarrow>
      view s' = view s \<or> view s' = moved p q c (view s)" for p q s e s' c
    using rename_err by (auto simp: sftp_client_def map_err_run split: prod.splits sum.splits)
  show "remove_file client p s = (Inr u, s') \<Longrightarrow> view s' = (view s)(p := None)" for p s u s'
    by (auto simp: sftp_client_def map_err_run split: prod.splits sum.splits intro: remove_ok)
  show "remove_file client p s = (Inl e, s') \<Longrightarrow> view s' = view s \<or> view s' = (view s)(p := None)" for p s e s'
    using remove_err by (auto simp: sftp_client_def map_err_run split: prod.splits sum.splits)
qed (fact metadata_view, fact read_chunk_view, fact read_chunk_prefix, fact write_chunk_ok, fact write_chunk_only,
    fact sync_file_view, fact set_permissions_view)

end

sublocale sftp_server \<subseteq> client: remote_filesystem "sftp_client lower lossy forward ss" view
  by (rule obeys)

section \<open>A session in memory\<close>

text \<open>The requests of a session on the store of \<^verbatim>\<open>Memory_Store\<close>; an open file is its path.\<close>

definition refused :: sftp_error where "refused = Transport ''Session closed''"
definition no_file :: sftp_error where "no_file = Status NO_SUCH_FILE ''No such file''"

definition mem_attrs :: "bytes \<Rightarrow> FileAttributes" where
  "mem_attrs c = \<lparr>attr_size = Some (length c), attr_type = FileType, attr_permissions = Some 33188, attr_modified = Some 0\<rparr>"

definition mem_lstat :: "string \<Rightarrow> (store, sftp_error, FileAttributes) eff" where
  "mem_lstat p = (\<lambda>s. case st_files s p of None \<Rightarrow> (Inl no_file, s) | Some c \<Rightarrow> (Inr (mem_attrs c), s))"

definition mem_open :: "string \<Rightarrow> (store, sftp_error, string) eff" where
  "mem_open p = (\<lambda>s. if st_files s p = None then (Inl no_file, s) else (Inr p, s))"

definition mem_open_write :: "bool \<Rightarrow> string \<Rightarrow> (store, sftp_error, string) eff" where
  "mem_open_write creating p = (\<lambda>s. if st_files s p = None
     then (if creating then (Inr p, s\<lparr>st_files := (st_files s)(p \<mapsto> [])\<rparr>) else (Inl no_file, s)) else (Inr p, s))"

definition mem_session :: "(store, string) sftp_session" where
  "mem_session = \<lparr>ss_read_dir = (\<lambda>_. ok []), ss_symlink_metadata = (\<lambda>p. faulty refused (mem_lstat p)),
     ss_read_link = (\<lambda>_. err no_file), ss_create_dir = (\<lambda>_. ok ()),
     ss_rename = (\<lambda>p q. faulty refused (st_move False no_file refused p q)),
     ss_remove_file = (\<lambda>p. faulty refused (st_delete no_file p)), ss_remove_dir = (\<lambda>_. ok ()),
     ss_set_metadata = (\<lambda>_ _. faulty refused (ok ())), ss_symlink = (\<lambda>_ _. err refused),
     ss_open = (\<lambda>p. faulty refused (mem_open p)),
     ss_open_write = (\<lambda>creating p. faulty refused (mem_open_write creating p)),
     ss_read = (\<lambda>h offset n. faulty disk_error (st_read h offset n no_such_file)),
     ss_write = (\<lambda>h offset data. faulty disk_error (st_write h offset data)),
     ss_sync_all = (\<lambda>_. faulty refused (ok ())), ss_shutdown = (\<lambda>_. faulty disk_error (ok ())),
     ss_close = ok (), ss_open_channel = ok (), ss_agent_forward = ok (), ss_exec = (\<lambda>_. ok ()),
     ss_data = (\<lambda>_. ok ()), ss_eof = ok (), ss_messages = ok [ExitStatus 0], ss_close_channel = ok ()\<rparr>"

lemma mem_lstat_same: "snd (mem_lstat p s) = s"
  by (simp add: mem_lstat_def split: option.split)

lemma mem_open_same: "snd (mem_open p s) = s"
  by (simp add: mem_open_def)

lemma mem_open_Inr: "mem_open p s = (Inr h, s') \<Longrightarrow> h = p" "mem_open_write b p s = (Inr h, s') \<Longrightarrow> h = p"
  by (auto simp: mem_open_def mem_open_write_def split: if_splits)

lemma mem_open_write_False: "snd (mem_open_write False p s) = s"
  by (simp add: mem_open_write_def)

lemma mem_open_write_content: "content (st_files (snd (mem_open_write b p s)) q) = content (st_files s q)"
  by (auto simp: mem_open_write_def)

lemma mem_open_write_only: "q \<noteq> p \<Longrightarrow> st_files (snd (mem_open_write b p s)) q = st_files s q"
  by (auto simp: mem_open_write_def)

interpretation mem_sftp: sftp_server mem_session st_files "\<lambda>h. h" lower lossy forward for lower lossy forward
proof (rule sftp_server.intro, goal_cases)
  case (8 p s) show ?case
    by (simp add: mem_session_def) (rule faulty_same, simp add: mem_open_write_False)
next
  case (9 p s t s')
  then show ?case
    by (auto simp: mem_session_def mem_lstat_def refused_def split: option.splits elim!: faulty_cases)
next
  case (10 p s attrs s' c n)
  then show ?case
    by (auto simp: mem_session_def mem_lstat_def mem_attrs_def split: option.splits elim!: faulty_Inr)
next
  case (11 p s h s')
  then show ?case by (auto simp: mem_session_def elim!: faulty_Inr dest: mem_open_Inr)
next
  case (12 b p s h s')
  then show ?case by (auto simp: mem_session_def elim!: faulty_Inr dest: mem_open_Inr)
next
  case (13 b p s q)
  show ?case unfolding mem_session_def sftp_session.select_convs
    by (rule faulty_only) (simp_all add: mem_open_write_content)
next
  case (14 q p b s)
  show ?case unfolding mem_session_def sftp_session.select_convs
    by (rule faulty_only) (use 14 in \<open>simp_all add: mem_open_write_only\<close>)
qed (auto simp: mem_session_def run_simps mem_lstat_same mem_open_same faulty_write_only take_is_prefix
      intro!: faulty_same dest: mem_laws faulty_write_ok)

section \<open>Transfers over SFTP\<close>

definition mem_client :: "store RemoteFilesystem" where
  "mem_client = sftp_client (\<lambda>name. name) (\<lambda>data. data) False mem_session"

lemma plain_mem_client: "plain mem_client st_files p"
  by (auto simp: plain_def mem_client_def sftp_client_def sftp_metadata_def mem_session_def mem_lstat_def
      mem_attrs_def link_target_def run_simps no_file_def NO_SUCH_FILE_def Let_def
      split: prod.splits sum.splits sftp_error.splits option.splits if_splits elim!: faulty_cases)



section \<open>A linked source\<close>

text \<open>A server on which \<^verbatim>\<open>/a\<close> is a link to the file \<^verbatim>\<open>/t\<close>: \<^verbatim>\<open>lstat\<close> describes the link, whose size is the
  length of its text, and opening it opens the file.\<close>

definition linked_session :: "(store, string) sftp_session" where
  "linked_session = mem_session\<lparr>
     ss_symlink_metadata := (\<lambda>p. if p = ''/a''
       then ok \<lparr>attr_size = Some 2, attr_type = SymlinkType, attr_permissions = Some 41471, attr_modified = Some 0\<rparr>
       else mem_lstat p),
     ss_read_link := (\<lambda>p. if p = ''/a'' then ok ''/t'' else err no_file),
     ss_open := (\<lambda>p. mem_open (if p = ''/a'' then ''/t'' else p))\<rparr>"

definition linked_client :: "store RemoteFilesystem" where
  "linked_client = sftp_client (\<lambda>name. name) (\<lambda>data. data) False linked_session"

text \<open>
  Downloading a link over SFTP truncates: the size of the source is taken from \<^verbatim>\<open>lstat\<close>, which
  measures the text of the link, while the content is that of the file it names. Here a file of eleven
  bytes behind a link of two is stored as its first two bytes, and the job completes with its digest
  verified, because both hashes cover two bytes.
\<close>

theorem linked_download_truncated:
  "\<exists>job. fst (download (\<lambda>data. data) linked_client ''j''
          (demo_world (demo_job\<lparr>job_direction := Download\<rparr>) [''/t'' \<mapsto> ''hello world''] Map.empty)) = Inr ()
    \<and> st_files (w_disk (snd (download (\<lambda>data. data) linked_client ''j''
          (demo_world (demo_job\<lparr>job_direction := Download\<rparr>) [''/t'' \<mapsto> ''hello world''] Map.empty)))) ''/b'' = Some ''he''
    \<and> jobs (w_queue (snd (download (\<lambda>data. data) linked_client ''j''
          (demo_world (demo_job\<lparr>job_direction := Download\<rparr>) [''/t'' \<mapsto> ''hello world''] Map.empty)))) ''j'' = Some job
    \<and> job_state job = Completed \<and> job_verification job = Sha256Verified"
  by (simp add: linked_client_def sftp_client_def linked_session_def mem_session_def sftp_metadata_def sftp_read_chunk_def
      link_target_def mem_open_def mem_lstat_def permission_bits_def task_defs memory_defs demo_defs run_simps loop_steps
      rsplit_once_def Let_def starts_with_def)

end
