(* ===== verification/Ssh_Connect.thy ===== *)
theory Ssh_Connect
  imports Sftp_Client
begin

text \<open>
  \<^verbatim>\<open>crates/siftlane-sftp/src/client.rs\<close>: how a session is established. A stream is opened, directly or
  through a SOCKS5 or HTTP proxy and through a bastion, the SSH handshake shows the key of the server to
  the verifier, the user is authenticated and the SFTP subsystem is started.

  The TCP sockets and the crate \<^verbatim>\<open>russh\<close> are a parameter, the record \<open>ssh_library\<close> of the operations
  the client calls over a network state \<open>'n\<close>, with streams \<open>'h\<close> and sessions \<open>'s\<close>. Of the library the
  locale \<open>secure_shell\<close> assumes what its documentation says: the handshake fails when the handler refuses
  the key of the server, and nothing but an authentication request sends a credential.
  The locale \<open>byte_stream\<close> says what reading and writing do to the bytes of a stream.
\<close>

section \<open>Keys and options\<close>

record ObservedHostKey =
  obs_host :: string
  obs_port :: u16
  obs_algorithm :: string
  obs_fingerprint :: string

datatype HostKeyDecision = Trusted | Unknown | Changed

datatype SftpAuth =
    PasswordAuth string
  | PrivateKeyAuth string "string option"
  | AgentAuth

record SftpProxyJump =
  jump_host :: string
  jump_port :: u16
  jump_username :: string
  jump_auth :: SftpAuth

record SftpConnectOptions =
  opt_host :: string
  opt_port :: u16
  opt_username :: string
  opt_auth :: SftpAuth
  opt_connect_timeout :: nat
  opt_response_timeout :: nat
  opt_keepalive_interval :: nat
  opt_proxy :: "SshProxy option"
  opt_proxy_jump :: "SftpProxyJump option"
  opt_agent_forwarding :: bool
  opt_algorithms :: SshAlgorithmPolicy

definition with_defaults :: "string \<Rightarrow> string \<Rightarrow> SftpAuth \<Rightarrow> SftpConnectOptions" where
  "with_defaults host username auth = \<lparr>opt_host = host, opt_port = 22, opt_username = username, opt_auth = auth,
     opt_connect_timeout = 15, opt_response_timeout = 30, opt_keepalive_interval = 30, opt_proxy = None,
     opt_proxy_jump = None, opt_agent_forwarding = False,
     opt_algorithms = \<lparr>key_exchange = [], host_keys = [], ciphers = [], macs = []\<rparr>\<rparr>"

record SftpConnectError =
  sce_error :: AppError
  sce_host_key :: "ObservedHostKey option"

section \<open>The library\<close>

text \<open>What the client reads of a public key and of a private key.\<close>

record PublicKey =
  pk_algorithm :: string
  pk_fingerprint :: string

record PrivateKey =
  sk_is_rsa :: bool
  sk_text :: string

datatype AgentIdentity = PublicIdentity bool string | CertificateIdentity bool string

fun identity_is_rsa :: "AgentIdentity \<Rightarrow> bool" where
  "identity_is_rsa (PublicIdentity rsa text) = rsa"
| "identity_is_rsa (CertificateIdentity rsa text) = rsa"

datatype net_error = Elapsed | Failure string

text \<open>The four preference lists of \<^verbatim>\<open>russh::Preferred\<close>, and the part of \<^verbatim>\<open>client::Config\<close> that is set.\<close>

record ClientConfig =
  cfg_keepalive_interval :: nat
  cfg_keepalive_max :: nat
  cfg_nodelay :: bool
  cfg_kex :: "string list"
  cfg_key :: "string list"
  cfg_cipher :: "string list"
  cfg_mac :: "string list"

text \<open>\<open>lib_kex\<close> runs the handshake up to the key of the server, which is handed to the handler; \<open>lib_accept\<close>
  goes on with the handler's answer. Operations under a \<^verbatim>\<open>timeout\<close> may report \<open>Elapsed\<close>.\<close>

record ('n, 'h, 's) ssh_library =
  lib_tcp :: "string \<Rightarrow> u16 \<Rightarrow> ('n, net_error, 'h) eff"
  lib_nodelay :: "'h \<Rightarrow> ('n, string, unit) eff"
  lib_write :: "'h \<Rightarrow> bytes \<Rightarrow> ('n, string, unit) eff"
  lib_read_exact :: "'h \<Rightarrow> nat \<Rightarrow> ('n, string, bytes) eff"
  lib_kex :: "ClientConfig \<Rightarrow> 'h \<Rightarrow> ('n, net_error, PublicKey \<times> 's) eff"
  lib_accept :: "'s \<Rightarrow> bool \<Rightarrow> ('n, net_error, unit) eff"
  lib_password :: "'s \<Rightarrow> string \<Rightarrow> string \<Rightarrow> ('n, string, bool) eff"
  lib_load_key :: "string \<Rightarrow> string option \<Rightarrow> ('n, string, PrivateKey) eff"
  lib_rsa_hash :: "'s \<Rightarrow> ('n, string, string option option) eff"
  lib_publickey :: "'s \<Rightarrow> string \<Rightarrow> PrivateKey \<Rightarrow> string option \<Rightarrow> ('n, string, bool) eff"
  lib_agent :: "('n, string, unit) eff"
  lib_identities :: "('n, string, AgentIdentity list) eff"
  lib_identity :: "'s \<Rightarrow> string \<Rightarrow> AgentIdentity \<Rightarrow> string option \<Rightarrow> ('n, string, bool) eff"
  lib_tunnel :: "'s \<Rightarrow> string \<Rightarrow> u32 \<Rightarrow> ('n, string, 'h) eff"
  lib_session_channel :: "'s \<Rightarrow> ('n, string, unit) eff"
  lib_subsystem :: "'s \<Rightarrow> string \<Rightarrow> ('n, string, unit) eff"
  lib_sftp :: "'s \<Rightarrow> ('n, string, unit) eff"

type_synonym ('n, 'a) dial = "('n, SftpConnectError, 'a) eff"

definition connect_timeout_error :: SftpConnectError where
  "connect_timeout_error =
     \<lparr>sce_error = as_retryable (new_error TimedOut ''The SSH connection timed out''), sce_host_key = None\<rparr>"

definition plain_error :: "AppError \<Rightarrow> SftpConnectError" where
  "plain_error e = \<lparr>sce_error = e, sce_host_key = None\<rparr>"

abbreviation dial_act :: "('n, 'a) act \<Rightarrow> ('n, 'a) dial" where
  "dial_act m \<equiv> map_err plain_error m"

abbreviation auth_act :: "('n, string, 'a) eff \<Rightarrow> ('n, 'a) act" where
  "auth_act m \<equiv> map_err authentication_failure m"

section \<open>Algorithms\<close>

definition invalid_algorithm :: "string \<Rightarrow> AppError" where
  "invalid_algorithm kind =
     new_error InvalidInput (''The SSH '' @ kind @ '' policy contains an unsupported algorithm'')"

text \<open>\<open>supported kind name\<close> is what \<^verbatim>\<open>Name::try_from\<close> or \<^verbatim>\<open>parse\<close> of the crate makes of a name.\<close>

fun parse_names :: "string list \<Rightarrow> string \<Rightarrow> (string \<Rightarrow> string option) \<Rightarrow> string list result" where
  "parse_names [] kind parser = Inr []"
| "parse_names (name # names) kind parser = (case parser name of
      None \<Rightarrow> Inl (invalid_algorithm kind)
    | Some n \<Rightarrow> (case parse_names names kind parser of Inl e \<Rightarrow> Inl e | Inr ns \<Rightarrow> Inr (n # ns)))"

definition preferred :: "string list \<Rightarrow> string list \<Rightarrow> string \<Rightarrow> (string \<Rightarrow> string option) \<Rightarrow> string list result" where
  "preferred defaults names kind parser = (if names = [] then Inr defaults else parse_names names kind parser)"

definition ssh_config ::
  "ClientConfig \<Rightarrow> (string \<Rightarrow> string \<Rightarrow> string option) \<Rightarrow> nat \<Rightarrow> SshAlgorithmPolicy \<Rightarrow> ClientConfig result" where
  "ssh_config defaults supported keepalive_interval policy =
     (case preferred (cfg_kex defaults) (key_exchange policy) ''key exchange'' (supported ''key exchange'') of
        Inl e \<Rightarrow> Inl e | Inr kex \<Rightarrow>
      (case preferred (cfg_key defaults) (host_keys policy) ''host key'' (supported ''host key'') of
        Inl e \<Rightarrow> Inl e | Inr key \<Rightarrow>
      (case preferred (cfg_cipher defaults) (ciphers policy) ''cipher'' (supported ''cipher'') of
        Inl e \<Rightarrow> Inl e | Inr cipher \<Rightarrow>
      (case preferred (cfg_mac defaults) (macs policy) ''MAC'' (supported ''MAC'') of
        Inl e \<Rightarrow> Inl e | Inr mac \<Rightarrow>
      Inr (defaults\<lparr>cfg_keepalive_interval := keepalive_interval, cfg_keepalive_max := 3, cfg_nodelay := True,
             cfg_kex := kex, cfg_key := key, cfg_cipher := cipher, cfg_mac := mac\<rparr>)))))"

section \<open>Streams and proxies\<close>

definition byte :: "nat \<Rightarrow> char" where "byte n = char_of n"

definition be_bytes :: "u16 \<Rightarrow> bytes" where
  "be_bytes port = [byte (unat port div 256), byte (unat port mod 256)]"

definition socks5_request :: "string \<Rightarrow> u16 \<Rightarrow> bytes" where
  "socks5_request host port = [byte 5, byte 1, byte 0, byte 3, byte (length host)] @ host @ be_bytes port"

text \<open>The length of the address in a reply, which ends in the address and a port.\<close>

definition socks5_address ::
  "('n, 'h, 's) ssh_library \<Rightarrow> 'h \<Rightarrow> char \<Rightarrow> ('n, nat) act" where
  "socks5_address lib stream kind =
     (if kind = byte 1 then ok 4
      else if kind = byte 3 then and_then (ssh_act (lib_read_exact lib stream 1)) (\<lambda>l. ok (of_char (hd l)))
      else if kind = byte 4 then ok 16
      else err (connection_failure ''The SOCKS5 proxy returned an invalid address''))"

definition socks5_connect ::
  "('n, 'h, 's) ssh_library \<Rightarrow> 'h \<Rightarrow> string \<Rightarrow> u16 \<Rightarrow> ('n, unit) act" where
  "socks5_connect lib stream host port =
     (if 255 < length host
      then err (new_error InvalidInput ''The SOCKS destination hostname is too long'')
      else and_then (ssh_act (lib_write lib stream [byte 5, byte 1, byte 0])) (\<lambda>_.
       and_then (ssh_act (lib_read_exact lib stream 2)) (\<lambda>greeting.
       if greeting \<noteq> [byte 5, byte 0]
       then err (connection_failure ''The SOCKS5 proxy requires an unsupported authentication method'')
       else and_then (ssh_act (lib_write lib stream (socks5_request host port))) (\<lambda>_.
       and_then (ssh_act (lib_read_exact lib stream 4)) (\<lambda>response.
       if response ! 0 \<noteq> byte 5 \<or> response ! 1 \<noteq> byte 0
       then err (connection_failure (''The SOCKS5 proxy rejected the destination (code ''
              @ show_nat (of_char (response ! 1)) @ '')''))
       else and_then (socks5_address lib stream (response ! 3)) (\<lambda>n.
       and_then (ssh_act (lib_read_exact lib stream (n + 2))) (\<lambda>_. ok ())))))))"

definition crlf :: string where "crlf = [CHR 0x0D, CHR 0x0A]"

definition http_request :: "string \<Rightarrow> u16 \<Rightarrow> string" where
  "http_request host port =
     (let authority = host @ '':'' @ show_nat (unat port)
      in ''CONNECT '' @ authority @ '' HTTP/1.1'' @ crlf @ ''Host: '' @ authority @ crlf
           @ ''Proxy-Connection: keep-alive'' @ crlf @ crlf)"

function read_head :: "('n, 'h, 's) ssh_library \<Rightarrow> 'h \<Rightarrow> bytes \<Rightarrow> 'n \<Rightarrow> bytes result \<times> 'n" where
  "read_head lib stream response n =
     (if ends_with (crlf @ crlf) response then (Inr response, n)
      else if 16 * 1024 \<le> length response
      then (Inl (connection_failure ''The HTTP proxy returned an oversized response''), n)
      else case ssh_act (lib_read_exact lib stream 1) n of
             (Inl e, n') \<Rightarrow> (Inl e, n')
           | (Inr buf, n') \<Rightarrow> read_head lib stream (response @ [hd buf]) n')"
  by pat_completeness auto
termination by (relation "measure (\<lambda>(_, _, response, _). 16 * 1024 - length response)") auto

declare read_head.simps [simp del]

definition http_accepted :: "string \<Rightarrow> bool" where
  "http_accepted status = (case text_lines status of
      [] \<Rightarrow> False
    | line # _ \<Rightarrow> (case split_whitespace line of _ # c # _ \<Rightarrow> c = ''200'' | _ \<Rightarrow> False))"

definition http_connect ::
  "(bytes \<Rightarrow> string) \<Rightarrow> ('n, 'h, 's) ssh_library \<Rightarrow> 'h \<Rightarrow> string \<Rightarrow> u16 \<Rightarrow> ('n, unit) act" where
  "http_connect lossy lib stream host port =
     and_then (ssh_act (lib_write lib stream (http_request host port))) (\<lambda>_.
     and_then (read_head lib stream []) (\<lambda>response.
     if http_accepted (lossy response) then ok ()
     else err (connection_failure ''The HTTP proxy rejected the CONNECT request'')))"

definition open_tcp_stream ::
  "(bytes \<Rightarrow> string) \<Rightarrow> ('n, 'h, 's) ssh_library \<Rightarrow> string \<Rightarrow> u16 \<Rightarrow> SshProxy option \<Rightarrow> ('n, 'h) act" where
  "open_tcp_stream lossy lib host port via =
     and_then (map_err (\<lambda>e. case e of
           Elapsed \<Rightarrow> as_retryable (new_error TimedOut ''The TCP connection timed out'')
         | Failure text \<Rightarrow> connection_failure text)
        (case via of Some p \<Rightarrow> lib_tcp lib (proxy_host p) (proxy_port p) | None \<Rightarrow> lib_tcp lib host port))
     (\<lambda>stream.
     and_then (ssh_act (lib_nodelay lib stream)) (\<lambda>_.
     and_then (case via of
         None \<Rightarrow> ok ()
       | Some p \<Rightarrow> (case proxy_kind p of
             Socks5 \<Rightarrow> socks5_connect lib stream host port
           | HttpConnect \<Rightarrow> http_connect lossy lib stream host port))
     (\<lambda>_. ok stream)))"

section \<open>The key of the server\<close>

type_synonym verifier = "ObservedHostKey \<Rightarrow> HostKeyDecision"

definition observe :: "string \<Rightarrow> u16 \<Rightarrow> PublicKey \<Rightarrow> ObservedHostKey" where
  "observe host port key = \<lparr>obs_host = host, obs_port = port, obs_algorithm = pk_algorithm key,
     obs_fingerprint = pk_fingerprint key\<rparr>"

text \<open>The answer of the handler, and the observation that it leaves.\<close>

definition check_server_key ::
  "verifier \<Rightarrow> string \<Rightarrow> u16 \<Rightarrow> PublicKey \<Rightarrow> bool \<times> (ObservedHostKey \<times> HostKeyDecision)" where
  "check_server_key classify host port key =
     (let observed = observe host port key; decision = classify observed
      in (decision = Trusted, (observed, decision)))"

definition connect_error :: "string \<Rightarrow> (ObservedHostKey \<times> HostKeyDecision) option \<Rightarrow> SftpConnectError" where
  "connect_error text observation = (case observation of
      Some (key, Unknown) \<Rightarrow>
        \<lparr>sce_error = new_error HostKeyUnknown ''The server host key is not trusted'', sce_host_key = Some key\<rparr>
    | Some (key, Changed) \<Rightarrow>
        \<lparr>sce_error = new_error HostKeyChanged ''The server host key differs from the trusted key'',
         sce_host_key = Some key\<rparr>
    | _ \<Rightarrow> plain_error (connection_failure text))"

definition dial_error :: "(ObservedHostKey \<times> HostKeyDecision) option \<Rightarrow> net_error \<Rightarrow> SftpConnectError" where
  "dial_error observation e = (case e of Elapsed \<Rightarrow> connect_timeout_error | Failure text \<Rightarrow> connect_error text observation)"

text \<open>\<^verbatim>\<open>timeout(connect_timeout, client::connect_stream(config, stream, handler))\<close> and the handling of its
  result, for the bastion and for the destination.\<close>

definition connect_ssh ::
  "('n, 'h, 's) ssh_library \<Rightarrow> verifier \<Rightarrow> ClientConfig \<Rightarrow> string \<Rightarrow> u16 \<Rightarrow> 'h
   \<Rightarrow> ('n, 's \<times> ObservedHostKey) dial" where
  "connect_ssh lib classify config host port stream =
     and_then (map_err (dial_error None) (lib_kex lib config stream)) (\<lambda>(key, session).
     case check_server_key classify host port key of (accepted, observation) \<Rightarrow>
       and_then (map_err (dial_error (Some observation)) (lib_accept lib session accepted)) (\<lambda>_.
       ok (session, fst observation)))"

section \<open>Authentication\<close>

definition rsa_hash :: "('n, 'h, 's) ssh_library \<Rightarrow> 's \<Rightarrow> bool \<Rightarrow> ('n, string option) act" where
  "rsa_hash lib session is_rsa =
     (if is_rsa then and_then (auth_act (lib_rsa_hash lib session)) (\<lambda>h. ok (Option.bind h (\<lambda>x. x))) else ok None)"

fun try_identities ::
  "('n, 'h, 's) ssh_library \<Rightarrow> 's \<Rightarrow> string \<Rightarrow> AgentIdentity list \<Rightarrow> ('n, bool) act" where
  "try_identities lib session username [] = err (authentication_failure ''No identity in the SSH agent was accepted'')"
| "try_identities lib session username (identity # rest) =
     and_then (rsa_hash lib session (identity_is_rsa identity)) (\<lambda>hash.
     and_then (auth_act (lib_identity lib session username identity hash)) (\<lambda>success.
     if success then ok True else try_identities lib session username rest))"

definition authenticate_with_agent :: "('n, 'h, 's) ssh_library \<Rightarrow> 's \<Rightarrow> string \<Rightarrow> ('n, bool) act" where
  "authenticate_with_agent lib session username =
     and_then (map_err (\<lambda>text. authentication_failure (''SSH agent unavailable: '' @ text)) (lib_agent lib)) (\<lambda>_.
     and_then (auth_act (lib_identities lib)) (try_identities lib session username))"

definition authenticate :: "('n, 'h, 's) ssh_library \<Rightarrow> 's \<Rightarrow> string \<Rightarrow> SftpAuth \<Rightarrow> ('n, unit) act" where
  "authenticate lib session username auth =
     and_then (case auth of
         PasswordAuth password \<Rightarrow> auth_act (lib_password lib session username password)
       | PrivateKeyAuth path passphrase \<Rightarrow>
           and_then (map_err (\<lambda>text. authentication_failure (''Could not open the selected private key: '' @ text))
             (lib_load_key lib path passphrase)) (\<lambda>key.
           and_then (rsa_hash lib session (sk_is_rsa key)) (\<lambda>hash.
           auth_act (lib_publickey lib session username key hash)))
       | AgentAuth \<Rightarrow> authenticate_with_agent lib session username)
     (\<lambda>success. if success then ok ()
        else err (authentication_failure ''The server rejected the selected authentication method''))"

section \<open>Connecting\<close>

record 's SftpConnection =
  conn_ssh :: 's
  conn_jump :: "'s option"
  conn_observed :: "ObservedHostKey list"
  conn_agent_forwarding :: bool
  conn_response_timeout :: nat

text \<open>The stream to the destination, with the session of the bastion and its key.\<close>

definition dial_destination ::
  "(bytes \<Rightarrow> string) \<Rightarrow> ('n, 'h, 's) ssh_library \<Rightarrow> verifier \<Rightarrow> ClientConfig \<Rightarrow> SftpConnectOptions
   \<Rightarrow> ('n, 'h \<times> ('s \<times> ObservedHostKey) option) dial" where
  "dial_destination lossy lib classify config options = (case opt_proxy_jump options of
      None \<Rightarrow>
        and_then (dial_act (open_tcp_stream lossy lib (opt_host options) (opt_port options) (opt_proxy options)))
          (\<lambda>stream. ok (stream, None))
    | Some jump \<Rightarrow>
        and_then (dial_act (open_tcp_stream lossy lib (jump_host jump) (jump_port jump) (opt_proxy options)))
          (\<lambda>stream.
        and_then (connect_ssh lib classify config (jump_host jump) (jump_port jump) stream) (\<lambda>(session, key).
        and_then (dial_act (authenticate lib session (jump_username jump) (jump_auth jump))) (\<lambda>_.
        and_then (map_err (\<lambda>text. plain_error (connection_failure
              (''The bastion could not reach the destination: '' @ text)))
            (lib_tunnel lib session (opt_host options) (ucast (opt_port options)))) (\<lambda>tunnel.
        ok (tunnel, Some (session, key)))))))"

definition start_sftp :: "('n, 'h, 's) ssh_library \<Rightarrow> 's \<Rightarrow> ('n, unit) act" where
  "start_sftp lib session =
     and_then (ssh_act (lib_session_channel lib session)) (\<lambda>_.
     and_then (ssh_act (lib_subsystem lib session ''sftp'')) (\<lambda>_.
     ssh_act (lib_sftp lib session)))"

definition sftp_connect ::
  "ClientConfig \<Rightarrow> (string \<Rightarrow> string \<Rightarrow> string option) \<Rightarrow> (bytes \<Rightarrow> string) \<Rightarrow> ('n, 'h, 's) ssh_library
   \<Rightarrow> SftpConnectOptions \<Rightarrow> verifier \<Rightarrow> ('n, 's SftpConnection) dial" where
  "sftp_connect defaults supported lossy lib options classify =
     and_then (dial_act (lift_result
        (ssh_config defaults supported (opt_keepalive_interval options) (opt_algorithms options)))) (\<lambda>config.
     and_then (dial_destination lossy lib classify config options) (\<lambda>(stream, jump).
     and_then (connect_ssh lib classify config (opt_host options) (opt_port options) stream) (\<lambda>(session, key).
     and_then (dial_act (authenticate lib session (opt_username options) (opt_auth options))) (\<lambda>_.
     and_then (dial_act (start_sftp lib session)) (\<lambda>_.
     ok \<lparr>conn_ssh = session, conn_jump = map_option fst jump,
         conn_observed = (case jump of Some (_, k) \<Rightarrow> [k] | None \<Rightarrow> []) @ [key],
         conn_agent_forwarding = opt_agent_forwarding options,
         conn_response_timeout = opt_response_timeout options\<rparr>)))))"

section \<open>Agent forwarding\<close>

datatype ForwardReply = AdministrativelyProhibited | ConnectFailed | ForwardAccepted

text \<open>The answer to a server that opens a channel to the agent: \<open>socket\<close> is \<^verbatim>\<open>SSH_AUTH_SOCK\<close>, \<open>reachable\<close> whether
  the agent's socket can be connected to.\<close>

definition server_channel_open_agent_forward :: "bool \<Rightarrow> string option \<Rightarrow> (string \<Rightarrow> bool) \<Rightarrow> ForwardReply" where
  "server_channel_open_agent_forward allowed socket reachable =
     (if \<not> allowed then AdministrativelyProhibited
      else case socket of
             None \<Rightarrow> ConnectFailed
           | Some path \<Rightarrow> if reachable path then ForwardAccepted else ConnectFailed)"

end
