(* ===== verification/Host_Keys.thy ===== *)
theory Host_Keys
  imports Ssh_Connect Storage
begin

text \<open>
  Which host keys are trusted: the verifier of \<^verbatim>\<open>state.rs\<close>, and from \<^verbatim>\<open>commands.rs\<close> the reading of an OpenSSH
  \<^verbatim>\<open>known_hosts\<close> file and the normalisation of an algorithm policy. What \<^verbatim>\<open>PublicKey::from_openssh\<close> makes of the
  text of a key is the parameter \<open>openssh\<close>: its algorithm and its SHA-256 fingerprint.
\<close>

section \<open>The verifier\<close>

definition at_endpoint :: "ObservedHostKey \<Rightarrow> TrustedHostKey \<Rightarrow> bool" where
  "at_endpoint observed known \<longleftrightarrow> key_host known = obs_host observed \<and> key_port known = obs_port observed"

definition same_key :: "ObservedHostKey \<Rightarrow> TrustedHostKey \<Rightarrow> bool" where
  "same_key observed known \<longleftrightarrow>
     key_algorithm known = obs_algorithm observed \<and> key_fingerprint known = obs_fingerprint observed"

definition stored_classify :: "TrustedHostKey list \<Rightarrow> verifier" where
  "stored_classify keys observed =
     (let matching_host = filter (at_endpoint observed) keys
      in if list_ex (same_key observed) matching_host then Trusted
         else if matching_host = [] then Unknown else Changed)"

definition trusted_key :: "datetime \<Rightarrow> ObservedHostKey \<Rightarrow> TrustedHostKey" where
  "trusted_key now key = \<lparr>key_host = obs_host key, key_port = obs_port key, key_algorithm = obs_algorithm key,
     key_fingerprint = obs_fingerprint key, key_first_seen_at = now, key_last_seen_at = now\<rparr>"

section \<open>Reading a known hosts file\<close>

definition parse_known_host_pattern :: "string \<Rightarrow> (string \<times> u16) option" where
  "parse_known_host_pattern pattern =
     (if starts_with ''|'' pattern \<or> starts_with ''!'' pattern \<or> CHR ''*'' \<in> set pattern \<or> CHR ''?'' \<in> set pattern
         \<or> pattern = [] then None
      else case Option.bind (strip_prefix ''['' pattern) (rsplit_str '']:'') of
             Some (host, port) \<Rightarrow> map_option (\<lambda>n. (host, word_of_nat n)) (parse_uint 65535 port)
           | None \<Rightarrow> Some (pattern, 22))"

text \<open>The keys of one line, and how much it adds to the count of the skipped lines.\<close>

definition parse_known_hosts_line ::
  "(string \<Rightarrow> PublicKey option) \<Rightarrow> string \<Rightarrow> ObservedHostKey list \<times> nat" where
  "parse_known_hosts_line openssh raw =
     (let line = trim raw
      in if line = [] \<or> starts_with ''#'' line then ([], 0)
         else let fields = split_whitespace line
         in if length fields < 3 \<or> starts_with ''@'' (fields ! 0) then ([], 1)
            else case openssh (fields ! 1 @ '' '' @ fields ! 2) of
                   None \<Rightarrow> ([], 1)
                 | Some key \<Rightarrow>
                     let hosts = List.map_filter parse_known_host_pattern (split_on (\<lambda>c. c = CHR '','') (fields ! 0))
                     in (map (\<lambda>(host, port). observe host port key) hosts, if hosts = [] then 1 else 0))"

definition parse_known_hosts ::
  "(string \<Rightarrow> PublicKey option) \<Rightarrow> string \<Rightarrow> ObservedHostKey list \<times> nat" where
  "parse_known_hosts openssh contents =
     (let parsed = map (parse_known_hosts_line openssh) (text_lines contents)
      in (concat (map fst parsed), sum_list (map snd parsed)))"

section \<open>Algorithm policies\<close>

text \<open>Names are trimmed; empty ones and repetitions are dropped, the first occurrence stays.\<close>

definition push_name :: "string \<Rightarrow> string list \<Rightarrow> string list" where
  "push_name raw normalized =
     (let name = trim raw in if name \<noteq> [] \<and> name \<notin> set normalized then normalized @ [name] else normalized)"

definition normalize_names :: "string list \<Rightarrow> string list" where
  "normalize_names names = fold push_name names []"

definition normalize_algorithm_policy :: "SshAlgorithmPolicy \<Rightarrow> SshAlgorithmPolicy" where
  "normalize_algorithm_policy policy = \<lparr>key_exchange = normalize_names (key_exchange policy),
     host_keys = normalize_names (host_keys policy), ciphers = normalize_names (ciphers policy),
     macs = normalize_names (macs policy)\<rparr>"

end
