(* ===== verification/App_State.thy ===== *)
theory App_State
  imports Host_Keys Transfer_Tasks
begin

text \<open>
  \<^verbatim>\<open>src-tauri/src/state.rs\<close> and \<^verbatim>\<open>secrets.rs\<close>: the state that the commands of the window share, on top of the
  \<open>World\<close> of the transfers, and the credential store of the operating system. Host-key prompts, searches and
  external edits are kept by identifier. \<open>a_uuids\<close> are the identifiers that \<^verbatim>\<open>Uuid::new_v4\<close> gives out, of which \<open>a_issued\<close> were used, \<open>a_spawned\<close> lists the
  transfer tasks that were started. The credential store is a map from entries to secrets with a script of
  failures. Of the program's diagnostic log only the switch is part of this state.
\<close>

section \<open>The state\<close>

datatype SecretKind = PasswordKind | PassphraseKind

record PendingHostKey =
  pend_key :: ObservedHostKey
  pend_profile :: ConnectionProfile
  pend_auth :: SftpAuth
  pend_supplied_secret :: "(SecretKind \<times> string) option"
  pend_preferences :: Preferences

record ExternalEditRecord =
  edit_id :: uuid
  edit_session_id :: uuid
  edit_remote_path :: string
  edit_name :: string
  edit_local_path :: string
  edit_original :: bytes
  edit_observed_hash :: bytes

record ('r, 'l) App =
  a_world :: "('r, 'l) World"
  a_pending :: "uuid \<rightharpoonup> PendingHostKey"
  a_keyring :: "string \<rightharpoonup> string"
  a_keyring_faults :: "string option list"
  a_uuids :: "nat \<Rightarrow> uuid"
  a_issued :: nat
  a_last_reconnect :: "uuid \<rightharpoonup> rat"
  a_searches :: "uuid \<rightharpoonup> bool"
  a_edits :: "uuid \<rightharpoonup> ExternalEditRecord"
  a_edit_root :: string
  a_scheduler :: SchedulerState
  a_spawned :: "uuid list"
  a_home :: "string option"
  a_diagnostics_enabled :: bool

type_synonym ('r, 'l, 'a) app = "(('r, 'l) App, 'a) act"

definition in_world :: "('r, 'l, 'a) wact \<Rightarrow> ('r, 'l, 'a) app" where
  "in_world m = zoom a_world (\<lambda>w a. a\<lparr>a_world := w\<rparr>) m"

abbreviation in_db :: "'a db_act \<Rightarrow> ('r, 'l, 'a) app" where
  "in_db m \<equiv> in_world (with_db m)"

text \<open>An operation of the disk with its own error, before a caller says what it means.\<close>

definition on_disk :: "('l LocalFs \<Rightarrow> ('l, 'a) io) \<Rightarrow> (('r, 'l) World, io_error, 'a) eff" where
  "on_disk m = (\<lambda>w. case m (w_fs w) (w_disk w) of (r, d) \<Rightarrow> (r, w\<lparr>w_disk := d\<rparr>))"

lemma with_disk_on_disk: "with_disk m = map_err local_io_error (on_disk m)"
  by (rule ext) (simp add: with_disk_def on_disk_def map_err_run split: prod.split sum.split)

definition on_local :: "(io_error \<Rightarrow> AppError) \<Rightarrow> ('l LocalFs \<Rightarrow> ('l, 'a) io) \<Rightarrow> ('r, 'l, 'a) app" where
  "on_local f m = in_world (map_err f (on_disk m))"

definition read_clock :: "('r, 'l, datetime) app" where
  "read_clock = gets (\<lambda>a. w_now (a_world a))"

definition new_uuid :: "('r, 'l, uuid) app" where
  "new_uuid = (\<lambda>a. (Inr (a_uuids a (a_issued a)), a\<lparr>a_issued := Suc (a_issued a)\<rparr>))"

definition spawn_task :: "uuid \<Rightarrow> ('r, 'l, unit) app" where
  "spawn_task uid = modify (\<lambda>a. a\<lparr>a_spawned := a_spawned a @ [uid]\<rparr>)"

section \<open>The credential store\<close>

definition suffix_of :: "SecretKind \<Rightarrow> string" where
  "suffix_of kind = (case kind of PasswordKind \<Rightarrow> ''password'' | PassphraseKind \<Rightarrow> ''key-passphrase'')"

definition secret_entry :: "uuid \<Rightarrow> SecretKind \<Rightarrow> string" where
  "secret_entry profile_id kind = ''connection/'' @ profile_id @ ''/'' @ suffix_of kind"

definition secret_error :: "string \<Rightarrow> AppError" where
  "secret_error text = with_detail (new_error SecretStoreUnavailable
     ''The operating system credential store is unavailable'') text"

definition with_keyring :: "(('r, 'l) App, string, 'a) eff \<Rightarrow> ('r, 'l, 'a) app" where
  "with_keyring m = (\<lambda>a. case a_keyring_faults a of
       Some text # rest \<Rightarrow> (Inl (secret_error text), a\<lparr>a_keyring_faults := rest\<rparr>)
     | faults \<Rightarrow> map_err secret_error m (a\<lparr>a_keyring_faults := tl faults\<rparr>))"

definition get_secret :: "uuid \<Rightarrow> SecretKind \<Rightarrow> ('r, 'l, string option) app" where
  "get_secret profile_id kind = with_keyring (gets (\<lambda>a. a_keyring a (secret_entry profile_id kind)))"

definition set_secret :: "uuid \<Rightarrow> SecretKind \<Rightarrow> string \<Rightarrow> ('r, 'l, unit) app" where
  "set_secret profile_id kind secret =
     with_keyring (modify (\<lambda>a. a\<lparr>a_keyring := (a_keyring a)(secret_entry profile_id kind \<mapsto> secret)\<rparr>))"

definition delete_secret :: "uuid \<Rightarrow> SecretKind \<Rightarrow> ('r, 'l, unit) app" where
  "delete_secret profile_id kind =
     with_keyring (modify (\<lambda>a. a\<lparr>a_keyring := (a_keyring a)(secret_entry profile_id kind := None)\<rparr>))"

text \<open>Failures of the store are ignored here.\<close>

definition delete_profile_secrets :: "uuid \<Rightarrow> ('r, 'l, unit) app" where
  "delete_profile_secrets profile_id =
     and_then (attempt (delete_secret profile_id PasswordKind)) (\<lambda>_.
     and_then (attempt (delete_secret profile_id PassphraseKind)) (\<lambda>_. ok ()))"

section \<open>Sessions\<close>

text \<open>The map of the sessions in the order of its iteration, which the standard library leaves open; a new
  entry comes first here.\<close>

definition find_session :: "uuid \<Rightarrow> ('r, 'l, 'r SessionRecord option) app" where
  "find_session session_id = gets (\<lambda>a. map_of (w_sessions (a_world a)) session_id)"

definition insert_session :: "uuid \<Rightarrow> 'r SessionRecord \<Rightarrow> ('r, 'l, unit) app" where
  "insert_session session_id session = in_world (modify (\<lambda>w.
     w\<lparr>w_sessions := (session_id, session) # filter (\<lambda>s. fst s \<noteq> session_id) (w_sessions w)\<rparr>))"

definition remove_session :: "uuid \<Rightarrow> ('r, 'l, unit) app" where
  "remove_session session_id = in_world (modify (\<lambda>w.
     w\<lparr>w_sessions := filter (\<lambda>s. fst s \<noteq> session_id) (w_sessions w)\<rparr>))"

definition command_client :: "AppError \<Rightarrow> uuid \<Rightarrow> ('r, 'l, 'r RemoteFilesystem) app" where
  "command_client missing session_id = and_then (find_session session_id) (\<lambda>found. case found of
       Some session \<Rightarrow> ok (sess_client session) | None \<Rightarrow> err missing)"

definition open_client :: "uuid \<Rightarrow> ('r, 'l, 'r RemoteFilesystem) app" where
  "open_client session_id = command_client
     (new_error ConnectionClosed ''The remote session is not connected'') session_id"

definition profile_client :: "uuid \<Rightarrow> ('r, 'l, 'r RemoteFilesystem) app" where
  "profile_client profile_id = and_then (gets (\<lambda>a. List.find (\<lambda>s. sess_profile_id s = profile_id)
       (map snd (w_sessions (a_world a))))) (\<lambda>found. case found of
       Some session \<Rightarrow> ok (sess_client session)
     | None \<Rightarrow> err (new_error ConnectionClosed
         ''Reconnect the profile before queuing a directory transfer''))"

definition disconnect_session :: "uuid \<Rightarrow> ('r, 'l, unit) app" where
  "disconnect_session session_id =
     and_then (find_session session_id) (\<lambda>found.
     and_then (remove_session session_id) (\<lambda>_. case found of
       Some session \<Rightarrow> in_world (with_remote (disconnect (sess_client session)))
     | None \<Rightarrow> err (new_error NotFound ''Session not found'')))"

abbreviation on_server :: "('r, 'a) act \<Rightarrow> ('r, 'l, 'a) app" where
  "on_server m \<equiv> in_world (with_remote m)"

text \<open>The lock of the queue is held over several operations.\<close>

definition locked :: "('r, 'l, 'a) wact \<Rightarrow> ('r, 'l, 'a) wact" where
  "locked m = (\<lambda>w. m (interfere w))"

definition on_queue :: "'a queue_act \<Rightarrow> ('r, 'l, 'a) wact" where
  "on_queue m = zoom w_queue (\<lambda>q w. w\<lparr>w_queue := q\<rparr>) m"

section \<open>Starting up\<close>

text \<open>\<^verbatim>\<open>AppState::initialize\<close> on the database as \<^verbatim>\<open>Storage::open\<close> leaves it: the preferences and the stored
  transfers are read, everything else starts empty.\<close>

definition initialize :: "('r, 'l, unit) app" where
  "initialize =
     and_then (in_db load_preferences) (\<lambda>prefs.
     and_then (in_db load_transfers) (\<lambda>jobs_list.
     modify (\<lambda>a. a\<lparr>
       a_world := (a_world a)\<lparr>w_prefs := prefs, w_queue := restore jobs_list, w_sessions := [],
         w_buckets := (\<lambda>_. None)\<rparr>,
       a_diagnostics_enabled := pref_diagnostics_enabled prefs, a_pending := Map.empty, a_last_reconnect := Map.empty, a_searches := Map.empty, a_edits := Map.empty,
       a_scheduler := new_scheduler (pref_global_parallel_transfers prefs)
         (pref_per_host_parallel_transfers prefs)\<rparr>)))"

end
