(* ===== verification/Ftp_Client.thy ===== *)
theory Ftp_Client
  imports Paths Memory_Store "HOL-Library.List_Lexorder" "HOL-Library.Product_Lexorder"
begin

text \<open>
  \<^verbatim>\<open>crates/siftlane-ftp/src/lib.rs\<close>: the implementation of the trait \<^verbatim>\<open>RemoteFilesystem\<close> for FTP and explicit
  FTPS. The control and data connections are those of the crate \<^verbatim>\<open>suppaftp\<close>: a record \<open>ftp_library\<close> of its
  operations over a state \<open>'n\<close>, with control connections \<open>'c\<close> and data connections \<open>'d\<close>, is a parameter, and
  so are the crate's parser of one line of a POSIX listing (\<open>posix\<close>), the date parser of \<^verbatim>\<open>chrono\<close>
  (\<open>stamp\<close>) and Unicode lower case (\<open>lower\<close>). A plain and a TLS connection differ in how they are opened only.
\<close>

section \<open>The library\<close>

datatype FtpSecurity = PlainFtp | ExplicitTls

record FtpConnectOptions =
  ftp_host :: string
  ftp_port :: u16
  ftp_username :: string
  ftp_password :: string
  ftp_security :: FtpSecurity
  ftp_connect_timeout :: nat

datatype FtpError = FtpConnection string | FtpResponse nat string | FtpOther string

fun ftp_error_text :: "FtpError \<Rightarrow> string" where
  "ftp_error_text (FtpConnection text) = text"
| "ftp_error_text (FtpResponse status text) = text"
| "ftp_error_text (FtpOther text) = text"

text \<open>What the client reads of a line that the crate has parsed.\<close>

record listed_file =
  lf_name :: string
  lf_is_directory :: bool
  lf_is_file :: bool
  lf_is_symlink :: bool
  lf_size :: nat
  lf_modified :: datetime
  lf_symlink :: "string option"

text \<open>\<open>ftp_open\<close> reports \<open>None\<close> when the timeout passes. \<open>ftp_read\<close> is \<^verbatim>\<open>take(n)\<close> and \<^verbatim>\<open>read_to_end\<close> of a data
  connection, \<open>ftp_write\<close> its \<^verbatim>\<open>write_all\<close>.\<close>

record ('n, 'c, 'd) ftp_library =
  ftp_open :: "string \<Rightarrow> ('n, FtpError option, 'c) eff"
  ftp_secure :: "'c \<Rightarrow> string \<Rightarrow> ('n, FtpError, 'c) eff"
  ftp_login :: "'c \<Rightarrow> string \<Rightarrow> string \<Rightarrow> ('n, FtpError, unit) eff"
  ftp_quit :: "'c \<Rightarrow> ('n, FtpError, unit) eff"
  ftp_mlsd :: "'c \<Rightarrow> string \<Rightarrow> ('n, FtpError, string list) eff"
  ftp_list :: "'c \<Rightarrow> string \<Rightarrow> ('n, FtpError, string list) eff"
  ftp_nlst :: "'c \<Rightarrow> string \<Rightarrow> ('n, FtpError, string list) eff"
  ftp_mlst :: "'c \<Rightarrow> string \<Rightarrow> ('n, FtpError, string) eff"
  ftp_mkdir :: "'c \<Rightarrow> string \<Rightarrow> ('n, FtpError, unit) eff"
  ftp_rename :: "'c \<Rightarrow> string \<Rightarrow> string \<Rightarrow> ('n, FtpError, unit) eff"
  ftp_rm :: "'c \<Rightarrow> string \<Rightarrow> ('n, FtpError, unit) eff"
  ftp_rmdir :: "'c \<Rightarrow> string \<Rightarrow> ('n, FtpError, unit) eff"
  ftp_rest :: "'c \<Rightarrow> nat \<Rightarrow> ('n, FtpError, unit) eff"
  ftp_retr :: "'c \<Rightarrow> string \<Rightarrow> ('n, FtpError, 'd) eff"
  ftp_read :: "'d \<Rightarrow> nat \<Rightarrow> ('n, string, bytes) eff"
  ftp_retr_end :: "'c \<Rightarrow> 'd \<Rightarrow> ('n, FtpError, unit) eff"
  ftp_stor :: "'c \<Rightarrow> string \<Rightarrow> ('n, FtpError, 'd) eff"
  ftp_write :: "'d \<Rightarrow> bytes \<Rightarrow> ('n, string, unit) eff"
  ftp_stor_end :: "'c \<Rightarrow> 'd \<Rightarrow> ('n, FtpError, unit) eff"

section \<open>Errors\<close>

text \<open>Status 550 is \<^verbatim>\<open>Status::FileUnavailable\<close>.\<close>

definition file_unavailable :: nat where "file_unavailable = 550"

definition is_missing :: "FtpError \<Rightarrow> bool" where
  "is_missing e = (case e of FtpResponse status text \<Rightarrow> status = file_unavailable | _ \<Rightarrow> False)"

definition timed_out :: AppError where
  "timed_out = as_retryable (new_error TimedOut ''The FTP connection timed out'')"

definition map_ftp_error :: "FtpError \<Rightarrow> AppError" where
  "map_ftp_error e =
     (let c = (case e of FtpConnection text \<Rightarrow> ConnectionFailed
               | FtpResponse status text \<Rightarrow> if status = file_unavailable then NotFound else IoError
               | _ \<Rightarrow> IoError);
          text = (if c = ConnectionFailed then ''Could not establish the FTP session''
                  else if c = NotFound then ''The remote FTP path was not found''
                  else ''The FTP server could not complete the operation'');
          app_error = with_detail (new_error c text) (ftp_error_text e)
      in if c = ConnectionFailed then as_retryable app_error else app_error)"

abbreviation ftp_act :: "('n, FtpError, 'a) eff \<Rightarrow> ('n, 'a) act" where
  "ftp_act m \<equiv> map_err map_ftp_error m"

section \<open>Connecting\<close>

definition ftp_connect :: "('n, 'c, 'd) ftp_library \<Rightarrow> FtpConnectOptions \<Rightarrow> ('n, 'c) act" where
  "ftp_connect lib options =
     and_then (map_err (\<lambda>e. case e of None \<Rightarrow> timed_out | Some e \<Rightarrow> map_ftp_error e)
       (ftp_open lib (ftp_host options @ '':'' @ show_nat (unat (ftp_port options))))) (\<lambda>stream.
     and_then (case ftp_security options of
         PlainFtp \<Rightarrow> ok stream
       | ExplicitTls \<Rightarrow> ftp_act (ftp_secure lib stream (ftp_host options))) (\<lambda>stream.
     and_then (ftp_act (ftp_login lib stream (ftp_username options) (ftp_password options))) (\<lambda>_.
     ok stream)))"

section \<open>Listings\<close>

text \<open>One fact of a machine listing; \<open>None\<close> drops the line.\<close>

record mlsx_facts =
  mf_kind :: EntryKind
  mf_size :: "nat option"
  mf_modified :: "datetime option"

definition parse_fact ::
  "(string \<Rightarrow> datetime option) \<Rightarrow> string \<Rightarrow> mlsx_facts \<Rightarrow> mlsx_facts option" where
  "parse_fact stamp item facts =
     (case split_once (CHR ''='') item of
        None \<Rightarrow> Some facts
      | Some (key, value) \<Rightarrow>
          let k = to_ascii_lowercase key
          in if k = ''type'' then
               (let t = to_ascii_lowercase value
                in if t = ''file'' then Some (facts\<lparr>mf_kind := File\<rparr>)
                   else if t = ''dir'' then Some (facts\<lparr>mf_kind := Directory\<rparr>)
                   else if t = ''cdir'' \<or> t = ''pdir'' then None
                   else Some (facts\<lparr>mf_kind := Other\<rparr>))
             else if k = ''size'' then Some (facts\<lparr>mf_size := parse_uint u64_max value\<rparr>)
             else if k = ''modify'' then Some (facts\<lparr>mf_modified := stamp value\<rparr>)
             else Some facts)"

fun parse_facts :: "(string \<Rightarrow> datetime option) \<Rightarrow> string list \<Rightarrow> mlsx_facts \<Rightarrow> mlsx_facts option" where
  "parse_facts stamp [] facts = Some facts"
| "parse_facts stamp (item # rest) facts =
     (if item = [] then parse_facts stamp rest facts
      else case parse_fact stamp item facts of None \<Rightarrow> None | Some f \<Rightarrow> parse_facts stamp rest f)"

definition dot_name :: "string \<Rightarrow> bool" where
  "dot_name name \<longleftrightarrow> name = ''.'' \<or> name = ''..''"

definition parse_mlsx :: "(string \<Rightarrow> datetime option) \<Rightarrow> string \<Rightarrow> string \<Rightarrow> FileEntry option" where
  "parse_mlsx stamp value directory =
     (case split_once (CHR '' '') (trim value) of
        None \<Rightarrow> None
      | Some (facts, name) \<Rightarrow>
          if name = [] \<or> dot_name name then None
          else case parse_facts stamp (split_on (\<lambda>c. c = CHR '';'') facts)
                      \<lparr>mf_kind = Other, mf_size = None, mf_modified = None\<rparr> of
                 None \<Rightarrow> None
               | Some f \<Rightarrow> Some \<lparr>ent_path = ftp_join_path directory name, ent_name = name, ent_kind = mf_kind f,
                   ent_size = (if mf_kind f = Directory then None else mf_size f), ent_modified_at = mf_modified f,
                   ent_permissions = None, ent_symlink_target = None, ent_hidden = starts_with ''.'' name\<rparr>)"

definition fallback_entry :: "string \<Rightarrow> string \<Rightarrow> FileEntry option" where
  "fallback_entry directory raw =
     (let name = last (split_on (\<lambda>c. c = slash) (trim raw))
      in if name \<noteq> [] \<and> \<not> dot_name name
         then Some \<lparr>ent_path = ftp_join_path directory name, ent_name = name, ent_kind = Other, ent_size = None,
                ent_modified_at = None, ent_permissions = None, ent_symlink_target = None,
                ent_hidden = starts_with ''.'' name\<rparr>
         else None)"

definition legacy_list_entry :: "(string \<Rightarrow> listed_file option) \<Rightarrow> string \<Rightarrow> string \<Rightarrow> FileEntry option" where
  "legacy_list_entry posix directory line =
     (case posix line of
        None \<Rightarrow> None
      | Some file \<Rightarrow>
          let name = lf_name file in
          if dot_name name then None
          else let kind = (if lf_is_directory file then Directory else if lf_is_file file then File
                           else if lf_is_symlink file then Symlink else Other)
            in Some \<lparr>ent_path = ftp_join_path directory name, ent_name = name, ent_kind = kind,
                 ent_size = (if kind = File then Some (lf_size file) else None),
                 ent_modified_at = Some (lf_modified file), ent_permissions = None,
                 ent_symlink_target = lf_symlink file, ent_hidden = starts_with ''.'' name\<rparr>)"

definition list_legacy ::
  "(string \<Rightarrow> listed_file option) \<Rightarrow> ('n, 'c, 'd) ftp_library \<Rightarrow> 'c \<Rightarrow> string \<Rightarrow> ('n, FileEntry list) act" where
  "list_legacy posix lib stream path =
     and_then (attempt (ftp_list lib stream path)) (\<lambda>r. case r of
         Inr ls \<Rightarrow> ok (List.map_filter (legacy_list_entry posix path) ls)
       | Inl _ \<Rightarrow> and_then (ftp_act (ftp_nlst lib stream path)) (\<lambda>names.
           ok (List.map_filter (fallback_entry path) names)))"

section \<open>Chunks\<close>

definition ftp_io :: "('n, string, 'a) eff \<Rightarrow> ('n, FtpError, 'a) eff" where
  "ftp_io m = map_err FtpConnection m"

definition ftp_read_chunk ::
  "('n, 'c, 'd) ftp_library \<Rightarrow> 'c \<Rightarrow> string \<Rightarrow> nat \<Rightarrow> nat \<Rightarrow> ('n, FtpError, bytes) eff" where
  "ftp_read_chunk lib stream path offset n =
     and_then (when_do (0 < offset) (ftp_rest lib stream offset)) (\<lambda>_.
     and_then (ftp_retr lib stream path) (\<lambda>data.
     and_then (ftp_io (ftp_read lib data n)) (\<lambda>bytes.
     and_then (ftp_retr_end lib stream data) (\<lambda>_. ok bytes))))"

definition ftp_write_chunk ::
  "('n, 'c, 'd) ftp_library \<Rightarrow> 'c \<Rightarrow> string \<Rightarrow> nat \<Rightarrow> bytes \<Rightarrow> ('n, FtpError, unit) eff" where
  "ftp_write_chunk lib stream path offset bytes =
     and_then (when_do (0 < offset) (ftp_rest lib stream offset)) (\<lambda>_.
     and_then (ftp_stor lib stream path) (\<lambda>data.
     and_then (ftp_io (ftp_write lib data bytes)) (\<lambda>_.
     ftp_stor_end lib stream data)))"

section \<open>The client\<close>

text \<open>The client holds its connection until it is disconnected: the state is the connection with the network.\<close>

type_synonym ('n, 'c) ftp_state = "'c option \<times> 'n"

definition with_session :: "('c \<Rightarrow> ('n, 'a) act) \<Rightarrow> (('n, 'c) ftp_state, 'a) act" where
  "with_session operation = (\<lambda>(session, n). case session of
       None \<Rightarrow> (Inl (new_error ConnectionClosed ''The FTP session is not connected''), (session, n))
     | Some stream \<Rightarrow> (case operation stream n of (r, n') \<Rightarrow> (r, (session, n'))))"

definition ftp_disconnect :: "('n, 'c, 'd) ftp_library \<Rightarrow> (('n, 'c) ftp_state, unit) act" where
  "ftp_disconnect lib = (\<lambda>(session, n). case session of
       None \<Rightarrow> (Inr (), (None, n))
     | Some stream \<Rightarrow> (case ftp_act (ftp_quit lib stream) n of (r, n') \<Rightarrow> (r, (None, n'))))"

definition ftp_listing_key :: "(string \<Rightarrow> string) \<Rightarrow> FileEntry \<Rightarrow> bool \<times> string" where
  "ftp_listing_key lower e = (ent_kind e \<noteq> Directory, lower (ent_name e))"

definition ftp_list_directory ::
  "(string \<Rightarrow> string) \<Rightarrow> (string \<Rightarrow> datetime option) \<Rightarrow> (string \<Rightarrow> listed_file option) \<Rightarrow> ('n, 'c, 'd) ftp_library
   \<Rightarrow> string \<Rightarrow> 'c \<Rightarrow> ('n, FileEntry list) act" where
  "ftp_list_directory lower stamp posix lib path stream =
     and_then (attempt (ftp_mlsd lib stream path)) (\<lambda>r.
     and_then (case r of
         Inr ls \<Rightarrow> ok (List.map_filter (\<lambda>line. parse_mlsx stamp line path) ls)
       | Inl _ \<Rightarrow> list_legacy posix lib stream path) (\<lambda>entries.
     ok (sort_key (ftp_listing_key lower) entries)))"

definition ftp_metadata ::
  "(string \<Rightarrow> datetime option) \<Rightarrow> ('n, 'c, 'd) ftp_library \<Rightarrow> string \<Rightarrow> 'c \<Rightarrow> ('n, FileEntry option) act" where
  "ftp_metadata stamp lib path stream =
     and_then (attempt (ftp_mlst lib stream path)) (\<lambda>r. case r of
         Inr value \<Rightarrow> ok (parse_mlsx stamp value (ftp_parent_path path))
       | Inl e \<Rightarrow> if is_missing e then ok None else err (map_ftp_error e))"

definition ftp_capabilities :: RemoteCapabilities where
  "ftp_capabilities = \<lparr>cap_chmod = False, cap_symlinks = False, cap_fsync = False, cap_resume = True,
     cap_atomic_rename = False\<rparr>"

definition not_supported :: "string \<Rightarrow> ('s, 'a) act" where
  "not_supported text = err (new_error Unsupported text)"

definition ftp_client ::
  "(string \<Rightarrow> string) \<Rightarrow> (string \<Rightarrow> datetime option) \<Rightarrow> (string \<Rightarrow> listed_file option) \<Rightarrow> ('n, 'c, 'd) ftp_library
   \<Rightarrow> ('n, 'c) ftp_state RemoteFilesystem" where
  "ftp_client lower stamp posix lib = \<lparr>
     capabilities = ftp_capabilities,
     disconnect = ftp_disconnect lib,
     list_directory = (\<lambda>path. with_session (ftp_list_directory lower stamp posix lib path)),
     metadata = (\<lambda>path. with_session (ftp_metadata stamp lib path)),
     create_directory = (\<lambda>path. with_session (\<lambda>stream. ftp_act (ftp_mkdir lib stream path))),
     rename = (\<lambda>old new. with_session (\<lambda>stream. ftp_act (ftp_rename lib stream old new))),
     remove_file = (\<lambda>path. with_session (\<lambda>stream. ftp_act (ftp_rm lib stream path))),
     remove_directory = (\<lambda>path. with_session (\<lambda>stream. ftp_act (ftp_rmdir lib stream path))),
     set_permissions = (\<lambda>path mode. not_supported ''FTP servers do not provide portable permission changes''),
     create_symlink = no_symlinks,
     read_chunk = (\<lambda>path offset n. with_session (\<lambda>stream. ftp_act (ftp_read_chunk lib stream path offset n))),
     write_chunk = (\<lambda>path offset data. with_session (\<lambda>stream. ftp_act (ftp_write_chunk lib stream path offset data))),
     sync_file = (\<lambda>path. ok ()),
     read_privileged = (\<lambda>path pw. not_supported ''FTP connections do not support sudo editing''),
     write_privileged = (\<lambda>path data pw. not_supported ''FTP connections do not support sudo editing''),
     create_privileged = (\<lambda>path dir pw. not_supported ''FTP connections do not support sudo file operations''),
     delete_privileged = (\<lambda>path dir pw. not_supported ''FTP connections do not support sudo file operations''),
     package_directory = (\<lambda>path format. not_supported ''Packaging remote directories requires an SFTP connection''),
     execute_commands = (\<lambda>commands cwd. not_supported ''Running remote commands requires an SFTP connection'')\<rparr>"

section \<open>Reading a machine listing\<close>

text \<open>A line as RFC 3659 has a server send it for a file or a directory.\<close>

definition mlsx_line :: "EntryKind \<Rightarrow> nat \<Rightarrow> string \<Rightarrow> string \<Rightarrow> string" where
  "mlsx_line kind n time name =
     ''type='' @ (if kind = Directory then ''dir'' else ''file'') @ '';size='' @ show_nat n @ '';modify='' @ time @ ''; '' @ name"

lemma digits_free:
  "\<not> is_digit c \<Longrightarrow> c \<notin> set (show_nat n)"
  using show_nat_digits[of n] by (auto simp: list_all_iff)

lemma split_once_skip: "c \<notin> set a \<Longrightarrow> split_once c (a @ b) = map_option (\<lambda>(x, y). (a @ x, y)) (split_once c b)"
  by (induction a) (auto simp: option.map_comp comp_def case_prod_unfold option.map_ident)



section \<open>Files longer than a chunk\<close>

text \<open>A server that reports, when the data connection is closed, whether all of the file had been taken (status 426 where
  it had not). \<open>marker\<close> is the restart position, \<open>rest_of\<close> what a data connection has still to deliver.\<close>

locale reporting_server =
  fixes lib :: "('n, 'c, 'd) ftp_library" and view :: "'n \<Rightarrow> string \<rightharpoonup> bytes" and marker :: "'n \<Rightarrow> nat"
    and rest_of :: "'d \<Rightarrow> 'n \<Rightarrow> bytes"
  assumes rest_ok: "ftp_rest lib c k n = (Inr u, n') \<Longrightarrow> marker n' = k \<and> view n' = view n"
    and retr_ok: "ftp_retr lib c p n = (Inr d, n') \<Longrightarrow> view n p = Some file \<Longrightarrow> rest_of d n' = drop (marker n) file"
    and read_ok: "ftp_read lib d k n = (Inr buf, n') \<Longrightarrow> buf = take k (rest_of d n) \<and> rest_of d n' = drop k (rest_of d n)"
    and cut_reported: "rest_of d n \<noteq> [] \<Longrightarrow> isl (fst (ftp_retr_end lib c d n))"
begin

lemma long_read_fails:
  assumes "view n p = Some file" "0 < offset \<or> marker n = 0" "offset + k < length file"
  shows "isl (fst (ftp_read_chunk lib c p offset k n))"
proof (rule ccontr)
  assume "\<not> ?thesis"
  then obtain buf n' where "ftp_read_chunk lib c p offset k n = (Inr buf, n')"
    by (metis isl_def obj_sumE prod.collapse)
  then obtain u n1 d n2 b n3 v n4 where
    s0: "when_do (0 < offset) (ftp_rest lib c offset) n = (Inr u, n1)"
    and s1: "ftp_retr lib c p n1 = (Inr d, n2)" and s2: "ftp_io (ftp_read lib d k) n2 = (Inr b, n3)"
    and s3: "ftp_retr_end lib c d n3 = (Inr v, n4)"
    unfolding ftp_read_chunk_def by (auto elim!: and_then_InrD)
  have "marker n1 = offset \<and> view n1 = view n"
    using s0 assms(2) rest_ok by (cases "0 < offset") (auto simp: when_do_run)
  with retr_ok[OF s1] assms(1) have "rest_of d n2 = drop offset file" by simp
  moreover have "rest_of d n3 = drop k (rest_of d n2)"
    using s2 read_ok by (auto simp: ftp_io_def map_err_run split: prod.splits sum.splits)
  ultimately have "rest_of d n3 \<noteq> []" using assms(3) by simp
  from cut_reported[OF this, of c] s3 show False by simp
qed

end

text \<open>A server in memory of this kind: the files, the restart position, and what the open data connection delivers.\<close>

definition cut_reply :: FtpError where "cut_reply = FtpResponse 426 ''Failure writing network stream.''"

definition mem_ftp :: "((string \<rightharpoonup> bytes) \<times> nat \<times> bytes, unit, unit) ftp_library" where
  "mem_ftp = \<lparr>ftp_open = (\<lambda>_. ok ()), ftp_secure = (\<lambda>c _. ok c), ftp_login = (\<lambda>_ _ _. ok ()), ftp_quit = (\<lambda>_. ok ()),
     ftp_mlsd = (\<lambda>_ _. ok []), ftp_list = (\<lambda>_ _. ok []), ftp_nlst = (\<lambda>_ _. ok []),
     ftp_mlst = (\<lambda>_ p (v, m, d). case v p of None \<Rightarrow> (Inl (FtpResponse 550 ''No such file''), (v, 0, d))
        | Some c \<Rightarrow> (Inr (mlsx_line File (length c) ''20260101000000'' p), (v, 0, d))),
     ftp_mkdir = (\<lambda>_ _. ok ()), ftp_rename = (\<lambda>_ _ _. ok ()), ftp_rm = (\<lambda>_ _. ok ()), ftp_rmdir = (\<lambda>_ _. ok ()),
     ftp_rest = (\<lambda>_ k (v, m, d). (Inr (), (v, k, d))),
     ftp_retr = (\<lambda>_ p (v, m, d). case v p of None \<Rightarrow> (Inl (FtpResponse 550 ''No such file''), (v, 0, d))
        | Some c \<Rightarrow> (Inr (), (v, 0, drop m c))),
     ftp_read = (\<lambda>_ k (v, m, d). (Inr (take k d), (v, m, drop k d))),
     ftp_retr_end = (\<lambda>_ _ (v, m, d). if d = [] then (Inr (), (v, m, [])) else (Inl cut_reply, (v, m, []))),
     ftp_stor = (\<lambda>_ _. ok ()), ftp_write = (\<lambda>_ _. ok ()), ftp_stor_end = (\<lambda>_ _. ok ())\<rparr>"

interpretation mem_reporting: reporting_server mem_ftp fst "\<lambda>n. fst (snd n)" "\<lambda>d n. snd (snd n)"
  by unfold_locales (auto simp: mem_ftp_def split: option.splits if_splits)

text \<open>
  On a server that reports an aborted transfer, the client cannot read the first part of a file that
  is longer than the requested chunk: it closes the data connection after the chunk and waits for the
  reply of a complete transfer, so the call fails. Downloads and digest checks read in chunks of 4 MiB,
  so they fail for every longer file.
\<close>

theorem ftp_long_reads_fail:
  assumes "reporting_server lib view marker rest_of"
    and "view n p = Some file" "0 < offset \<or> marker n = 0" "offset + k < length file"
  shows "isl (fst (read_chunk (ftp_client lower stamp posix lib) p offset k (Some c, n)))"
  using reporting_server.long_read_fails[OF assms, of c]
  by (auto simp: ftp_client_def with_session_def map_err_run isl_def split: prod.splits sum.splits)

lemma ftp_long_reads_fail_witness:
  "isl (fst (read_chunk (ftp_client (\<lambda>x. x) (\<lambda>_. None) (\<lambda>_. None) mem_ftp) ''/a'' 0 3 (Some (), ([''/a'' \<mapsto> ''abcde''], 0, []))))"
  by (rule ftp_long_reads_fail[OF mem_reporting.reporting_server_axioms], simp, simp, simp)

end
