(* ===== verification/Profiles.thy ===== *)
theory Profiles
  imports App_State Ftp_Client
begin

text \<open>
  The commands of \<^verbatim>\<open>src-tauri/src/commands.rs\<close> about profiles, connections and trust: normalising and saving
  a profile, resolving its credentials, connecting, the prompt for a host key, reconnecting for a
  transfer, importing a \<^verbatim>\<open>known_hosts\<close> file, bookmarks and saved actions. \<open>lower\<close> is \<^verbatim>\<open>str::to_lowercase\<close>.

  The two clients are a parameter, the record \<open>backend\<close>: the SSH library with what it needs, how a connection
  becomes a client, and how an FTP client is obtained. They act on the state of the servers, \<open>w_remote\<close>.
\<close>

section \<open>Normalising a profile\<close>

definition non_empty :: "string \<Rightarrow> string option" where
  "non_empty s = (if s = [] then None else Some s)"

text \<open>\<^verbatim>\<open>Vec::dedup_by\<close>: an element is dropped when it equals the last one that was kept.\<close>

fun dedup_by :: "('a \<Rightarrow> 'a \<Rightarrow> bool) \<Rightarrow> 'a list \<Rightarrow> 'a list" where
  "dedup_by same [] = []"
| "dedup_by same [x] = [x]"
| "dedup_by same (x # y # ys) = (if same y x then dedup_by same (x # ys) else x # dedup_by same (y # ys))"

definition normalize_tags :: "(string \<Rightarrow> string) \<Rightarrow> string list \<Rightarrow> string list" where
  "normalize_tags lower tags =
     dedup_by eq_ignore_ascii_case (sort_key lower (filter (\<lambda>t. t \<noteq> []) (map trim tags)))"

definition is_hex_digit :: "char \<Rightarrow> bool" where
  "is_hex_digit c = (byte_in 48 57 c \<or> byte_in 65 70 c \<or> byte_in 97 102 c)"

definition valid_color :: "string \<Rightarrow> bool" where
  "valid_color color = (starts_with ''#'' color \<and> length color = 7 \<and> list_all is_hex_digit (drop 1 color))"

definition trim_fields :: "(string \<Rightarrow> string) \<Rightarrow> string \<Rightarrow> ConnectionProfile \<Rightarrow> ConnectionProfile" where
  "trim_fields lower remote_path p = p\<lparr>prof_label := trim (prof_label p), prof_host := trim (prof_host p),
     prof_username := trim (prof_username p), prof_initial_remote_path := remote_path,
     prof_folder := Option.bind (prof_folder p) (\<lambda>f. non_empty (trim f)),
     prof_tags := normalize_tags lower (prof_tags p), prof_notes := trim (prof_notes p),
     prof_color := Option.bind (prof_color p) (\<lambda>c. non_empty (to_ascii_lowercase (trim c)))\<rparr>"

definition too_long :: "ConnectionProfile \<Rightarrow> bool" where
  "too_long p = ((case prof_folder p of Some f \<Rightarrow> 80 < length f | None \<Rightarrow> False) \<or> 20 < length (prof_tags p)
     \<or> list_ex (\<lambda>t. 40 < length t) (prof_tags p) \<or> 4000 < length (prof_notes p))"

definition auth_error :: "ConnectionProfile \<Rightarrow> AppError option" where
  "auth_error p = (case (prof_protocol p, prof_auth p) of
      (Sftp, Anonymous) \<Rightarrow> Some (new_error InvalidInput ''SFTP does not support anonymous authentication'')
    | (Sftp, _) \<Rightarrow> None
    | (_, PrivateKey _ _) \<Rightarrow> Some (new_error InvalidInput
        ''FTP and FTPS connections use a password or anonymous sign-in'')
    | (_, Agent) \<Rightarrow> Some (new_error InvalidInput
        ''FTP and FTPS connections use a password or anonymous sign-in'')
    | _ \<Rightarrow> None)"

text \<open>The checks, in the order of the source; the first that fails is the error.\<close>

definition profile_error :: "ConnectionProfile \<Rightarrow> AppError option" where
  "profile_error p =
     (if prof_label p = [] \<or> prof_host p = [] \<or> prof_username p = []
      then Some (new_error InvalidInput ''Name, host, and username are required'')
      else if prof_port p = 0 then Some (new_error InvalidInput ''Port must be between 1 and 65535'')
      else if too_long p
      then Some (new_error InvalidInput ''Profile folders, tags, or notes exceed their supported length'')
      else if (case prof_color p of Some c \<Rightarrow> \<not> valid_color c | None \<Rightarrow> False)
      then Some (new_error InvalidInput ''Profile color must use #RRGGBB format'')
      else if auth_error p \<noteq> None then auth_error p
      else if prof_protocol p \<noteq> Sftp \<and> prof_ssh_options p \<noteq> default_ssh_options
      then Some (new_error InvalidInput
        ''SSH routing and algorithm settings are available only for SFTP profiles'')
      else if proxy_jump_profile_id (prof_ssh_options p) = Some (prof_id p)
      then Some (new_error InvalidInput ''A profile cannot use itself as a bastion'')
      else None)"

definition normalize_proxy :: "SshProxy option \<Rightarrow> SshProxy option result" where
  "normalize_proxy via = (case via of
      None \<Rightarrow> Inr None
    | Some p \<Rightarrow>
        let q = p\<lparr>proxy_host := trim (proxy_host p)\<rparr>
        in if proxy_host q = [] \<or> proxy_port q = 0
           then Inl (new_error InvalidInput ''Proxy host and port are required'') else Inr (Some q))"

definition normalize_profile ::
  "(string \<Rightarrow> string) \<Rightarrow> datetime \<Rightarrow> ConnectionProfile \<Rightarrow> ConnectionProfile result" where
  "normalize_profile lower now profile =
     (case normalize_remote_path (prof_initial_remote_path profile) of
        Inl e \<Rightarrow> Inl e
      | Inr path \<Rightarrow>
          let p = trim_fields lower path profile
          in case profile_error p of
               Some e \<Rightarrow> Inl e
             | None \<Rightarrow> (case normalize_proxy (proxy (prof_ssh_options p)) of
                 Inl e \<Rightarrow> Inl e
               | Inr via \<Rightarrow> Inr (p\<lparr>prof_ssh_options := (prof_ssh_options p)\<lparr>proxy := via,
                     algorithms := normalize_algorithm_policy (algorithms (prof_ssh_options p))\<rparr>,
                   prof_updated_at := now\<rparr>)))"

section \<open>Profiles\<close>

definition list_profiles_command :: "('r, 'l, ConnectionProfile list) app" where
  "list_profiles_command = in_db list_profiles"

definition save_profile :: "(string \<Rightarrow> string) \<Rightarrow> ConnectionProfile \<Rightarrow> ('r, 'l, ConnectionProfile) app" where
  "save_profile lower profile =
     and_then read_clock (\<lambda>now.
     and_then (lift_result (normalize_profile lower now profile)) (\<lambda>p.
     and_then (in_db (save_profile_row p)) (\<lambda>_. ok p)))"

definition delete_profile :: "uuid \<Rightarrow> ('r, 'l, unit) app" where
  "delete_profile profile_id =
     and_then (in_db (delete_profile_row profile_id)) (\<lambda>_.
     and_then (delete_profile_secrets profile_id) (\<lambda>_.
     in_world (modify (\<lambda>w. w\<lparr>w_sessions :=
       filter (\<lambda>s. sess_profile_id (snd s) \<noteq> profile_id) (w_sessions w)\<rparr>))))"

section \<open>Credentials\<close>

definition expand_home_path :: "string option \<Rightarrow> string \<Rightarrow> string" where
  "expand_home_path home path =
     (case (case strip_prefix ''~/'' path of Some r \<Rightarrow> Some r | None \<Rightarrow> strip_prefix (CHR ''~'' # [backslash]) path) of
        None \<Rightarrow> path
      | Some relative \<Rightarrow> (case home of
          None \<Rightarrow> path
        | Some h \<Rightarrow> if starts_with ''/'' relative then relative
                    else if h = [] \<or> ends_with ''/'' h then h @ relative else h @ ''/'' @ relative))"

definition is_file :: "string \<Rightarrow> ('r, 'l, bool) app" where
  "is_file path = and_then (attempt (on_local local_io_error (\<lambda>fs. l_metadata fs path))) (\<lambda>r.
     ok (case r of Inr m \<Rightarrow> lm_is_file m | Inl _ \<Rightarrow> False))"

text \<open>The store is read even when a credential was supplied.\<close>

definition or_stored ::
  "uuid \<Rightarrow> SecretKind \<Rightarrow> string option \<Rightarrow> ('r, 'l, string option) app" where
  "or_stored profile_id kind supplied =
     and_then (get_secret profile_id kind) (\<lambda>stored.
     ok (case supplied of Some v \<Rightarrow> Some v | None \<Rightarrow> stored))"

definition required_password :: "string option \<Rightarrow> ('r, 'l, string) app" where
  "required_password secret = (case secret of
      Some s \<Rightarrow> ok s | None \<Rightarrow> err (new_error AuthenticationFailed ''A password is required''))"

definition resolve_sftp_auth ::
  "ConnectionProfile \<Rightarrow> string option \<Rightarrow> ('r, 'l, SftpAuth \<times> (SecretKind \<times> string) option) app" where
  "resolve_sftp_auth profile credential = (case prof_auth profile of
      Password _ \<Rightarrow>
        and_then (or_stored (prof_id profile) PasswordKind credential) (\<lambda>secret.
        and_then (required_password secret) (\<lambda>s.
        ok (PasswordAuth s, map_option (Pair PasswordKind) credential)))
    | PrivateKey path _ \<Rightarrow>
        and_then (gets a_home) (\<lambda>home.
        let key = expand_home_path home path in
        and_then (is_file key) (\<lambda>there.
        if \<not> there then err (with_detail (new_error NotFound
          ''Private key file was not found. Choose it again in the connection settings.'') key)
        else and_then (or_stored (prof_id profile) PassphraseKind credential) (\<lambda>passphrase.
        ok (PrivateKeyAuth key passphrase, map_option (Pair PassphraseKind) credential))))
    | Agent \<Rightarrow> ok (AgentAuth, None)
    | Anonymous \<Rightarrow> err (new_error InvalidInput ''SFTP does not support anonymous authentication''))"

definition resolve_ftp_password ::
  "ConnectionProfile \<Rightarrow> string option \<Rightarrow> ('r, 'l, string \<times> (SecretKind \<times> string) option) app" where
  "resolve_ftp_password profile credential = (case prof_auth profile of
      Anonymous \<Rightarrow> ok (''anonymous@'', None)
    | Password _ \<Rightarrow>
        and_then (or_stored (prof_id profile) PasswordKind credential) (\<lambda>secret.
        and_then (required_password secret) (\<lambda>s. ok (s, map_option (Pair PasswordKind) credential)))
    | _ \<Rightarrow> err (new_error InvalidInput ''FTP and FTPS connections use a password or anonymous sign-in''))"

definition remembers :: "AuthRef \<Rightarrow> bool" where
  "remembers auth = (case auth of Anonymous \<Rightarrow> False | Password r \<Rightarrow> r | PrivateKey _ r \<Rightarrow> r | Agent \<Rightarrow> False)"

definition persist_supplied_secret ::
  "ConnectionProfile \<Rightarrow> (SecretKind \<times> string) option \<Rightarrow> ('r, 'l, unit) app" where
  "persist_supplied_secret profile supplied = (case supplied of
      None \<Rightarrow> ok ()
    | Some (kind, secret) \<Rightarrow> when_do (remembers (prof_auth profile)) (set_secret (prof_id profile) kind secret))"

section \<open>Connecting\<close>

record ('r, 'h, 's) backend =
  be_ssh :: "('r, 'h, 's) ssh_library"
  be_defaults :: ClientConfig
  be_supported :: "string \<Rightarrow> string \<Rightarrow> string option"
  be_lossy :: "bytes \<Rightarrow> string"
  be_sftp :: "'s SftpConnection \<Rightarrow> 'r RemoteFilesystem"
  be_ftp :: "FtpConnectOptions \<Rightarrow> ('r, 'r RemoteFilesystem) act"

text \<open>The transfers that wait for the profile are queued again under one lock, then started.\<close>

definition resume_jobs :: "uuid \<Rightarrow> ('r, 'l, uuid list) wact" where
  "resume_jobs profile_id = locked (\<lambda>w.
     let uids = map job_id (filter (\<lambda>job. job_profile_id job = profile_id
           \<and> job_state job \<in> {Interrupted, WaitingForAuthentication}) (list_jobs (w_queue w)))
     in and_then (for_each (\<lambda>uid. clock (\<lambda>now.
          and_then (on_queue (update_and_get uid (transition now uid Queued))) persist_transfer)) uids)
          (\<lambda>_. ok uids) w)"

definition resume_profile_transfers :: "uuid \<Rightarrow> ('r, 'l, unit) app" where
  "resume_profile_transfers profile_id = and_then (in_world (resume_jobs profile_id)) (for_each spawn_task)"

definition resolve_jump ::
  "ConnectionProfile \<Rightarrow> ('r, 'l, SftpProxyJump option \<times> TrustedHostKey list) app" where
  "resolve_jump profile = (case proxy_jump_profile_id (prof_ssh_options profile) of
      None \<Rightarrow> ok (None, [])
    | Some profile_id \<Rightarrow>
        and_then (in_db (get_profile profile_id)) (\<lambda>jump.
        if prof_protocol jump \<noteq> Sftp
        then err (new_error InvalidInput ''The selected bastion must be an SFTP profile'')
        else if proxy_jump_profile_id (prof_ssh_options jump) \<noteq> None
        then err (new_error InvalidInput ''Nested ProxyJump profiles are not supported'')
        else and_then (in_db (host_keys_of (prof_host jump) (prof_port jump))) (\<lambda>keys.
        and_then (map_err (\<lambda>e. with_detail (new_error (code e)
            ''The bastion profile needs a saved credential before it can be used'') (message e))
            (resolve_sftp_auth jump None)) (\<lambda>(auth, _).
        ok (Some \<lparr>jump_host = prof_host jump, jump_port = prof_port jump, jump_username = prof_username jump,
                  jump_auth = auth\<rparr>, keys)))))"

definition connect_options ::
  "ConnectionProfile \<Rightarrow> SftpAuth \<Rightarrow> Preferences \<Rightarrow> SftpProxyJump option \<Rightarrow> SftpConnectOptions" where
  "connect_options profile auth prefs jump = \<lparr>opt_host = prof_host profile, opt_port = prof_port profile,
     opt_username = prof_username profile, opt_auth = auth,
     opt_connect_timeout = pref_connect_timeout_seconds prefs,
     opt_response_timeout = pref_response_timeout_seconds prefs,
     opt_keepalive_interval = pref_keepalive_seconds prefs, opt_proxy = proxy (prof_ssh_options profile),
     opt_proxy_jump = jump, opt_agent_forwarding = (agent_forwarding (prof_ssh_options profile) = Allow),
     opt_algorithms = algorithms (prof_ssh_options profile)\<rparr>"

definition register_session ::
  "ConnectionProfile \<Rightarrow> 'r RemoteFilesystem \<Rightarrow> bool \<Rightarrow> ('r, 'l, ConnectResult) app" where
  "register_session profile client resume =
     and_then new_uuid (\<lambda>session_id.
     and_then (insert_session session_id \<lparr>sess_profile_id = prof_id profile, sess_client = client\<rparr>) (\<lambda>_.
     and_then (when_do resume (resume_profile_transfers (prof_id profile))) (\<lambda>_.
     ok (Connected session_id))))"

definition ask_for_trust :: "PendingHostKey \<Rightarrow> ErrorCode \<Rightarrow> ('r, 'l, ConnectResult) app" where
  "ask_for_trust pending c =
     and_then new_uuid (\<lambda>challenge_uid.
     and_then (modify (\<lambda>a. a\<lparr>a_pending := (a_pending a)(challenge_uid \<mapsto> pending)\<rparr>)) (\<lambda>_.
     let key = pend_key pending in
     ok (NeedsHostTrust \<lparr>challenge_id = challenge_uid, challenge_host = obs_host key, challenge_port = obs_port key,
       challenge_algorithm = obs_algorithm key, challenge_fingerprint = obs_fingerprint key,
       challenge_changed = (c = HostKeyChanged)\<rparr>)))"

definition connect_sftp_with_auth ::
  "('r, 'h, 's) backend \<Rightarrow> ConnectionProfile \<Rightarrow> SftpAuth \<Rightarrow> (SecretKind \<times> string) option \<Rightarrow> Preferences \<Rightarrow> bool
   \<Rightarrow> ('r, 'l, ConnectResult) app" where
  "connect_sftp_with_auth be profile auth supplied prefs resume =
     and_then (in_db (host_keys_of (prof_host profile) (prof_port profile))) (\<lambda>own_keys.
     and_then (resolve_jump profile) (\<lambda>(jump, jump_keys).
     and_then (in_world (\<lambda>w. case sftp_connect (be_defaults be) (be_supported be) (be_lossy be) (be_ssh be)
           (connect_options profile auth prefs jump) (stored_classify (own_keys @ jump_keys)) (w_remote w) of
           (r, s) \<Rightarrow> (Inr r, w\<lparr>w_remote := s\<rparr>)))
       (\<lambda>outcome. case outcome of
         Inr connection \<Rightarrow>
           and_then read_clock (\<lambda>now.
           and_then (for_each (\<lambda>key. in_db (touch_host_key (trusted_key now key))) (conn_observed connection)) (\<lambda>_.
           and_then (persist_supplied_secret profile supplied) (\<lambda>_.
           register_session profile (be_sftp be connection) resume)))
       | Inl e \<Rightarrow> (case sce_host_key e of
             None \<Rightarrow> err (sce_error e)
           | Some key \<Rightarrow> ask_for_trust \<lparr>pend_key = key, pend_profile = profile, pend_auth = auth,
               pend_supplied_secret = supplied, pend_preferences = prefs\<rparr> (code (sce_error e))))))"

definition connect_sftp ::
  "('r, 'h, 's) backend \<Rightarrow> ConnectionProfile \<Rightarrow> string option \<Rightarrow> Preferences \<Rightarrow> bool \<Rightarrow> ('r, 'l, ConnectResult) app" where
  "connect_sftp be profile credential prefs resume =
     and_then (resolve_sftp_auth profile credential) (\<lambda>(auth, supplied).
     connect_sftp_with_auth be profile auth supplied prefs resume)"

definition connect_ftp ::
  "('r, 'h, 's) backend \<Rightarrow> ConnectionProfile \<Rightarrow> string option \<Rightarrow> Preferences \<Rightarrow> bool \<Rightarrow> ('r, 'l, ConnectResult) app" where
  "connect_ftp be profile credential prefs resume =
     and_then (resolve_ftp_password profile credential) (\<lambda>(password, supplied).
     and_then (on_server (be_ftp be \<lparr>ftp_host = prof_host profile, ftp_port = prof_port profile,
         ftp_username = prof_username profile, ftp_password = password,
         ftp_security = (if prof_protocol profile = Ftps then ExplicitTls else PlainFtp),
         ftp_connect_timeout = pref_connect_timeout_seconds prefs\<rparr>)) (\<lambda>client.
     and_then (persist_supplied_secret profile supplied) (\<lambda>_.
     register_session profile client resume)))"

definition connect_by_protocol ::
  "('r, 'h, 's) backend \<Rightarrow> ConnectionProfile \<Rightarrow> string option \<Rightarrow> Preferences \<Rightarrow> bool \<Rightarrow> ('r, 'l, ConnectResult) app" where
  "connect_by_protocol be profile credential prefs resume =
     (if prof_protocol profile = Sftp then connect_sftp be profile credential prefs resume
      else connect_ftp be profile credential prefs resume)"

definition connect_profile ::
  "('r, 'h, 's) backend \<Rightarrow> uuid \<Rightarrow> string option \<Rightarrow> ('r, 'l, ConnectResult) app" where
  "connect_profile be profile_id credential =
     and_then (in_db (get_profile profile_id)) (\<lambda>profile.
     and_then (gets (\<lambda>a. w_prefs (a_world a))) (\<lambda>prefs.
     connect_by_protocol be profile credential prefs True))"

section \<open>Trust\<close>

definition trust_host_key_command ::
  "('r, 'h, 's) backend \<Rightarrow> uuid \<Rightarrow> bool \<Rightarrow> ('r, 'l, ConnectResult option) app" where
  "trust_host_key_command be challenge accept =
     and_then (gets (\<lambda>a. a_pending a challenge)) (\<lambda>found.
     and_then (modify (\<lambda>a. a\<lparr>a_pending := (a_pending a)(challenge := None)\<rparr>)) (\<lambda>_.
     case found of
       None \<Rightarrow> err (new_error NotFound ''Host-key challenge expired'')
     | Some pending \<Rightarrow>
         if \<not> accept then ok None
         else and_then read_clock (\<lambda>now.
           and_then (in_db (trust_host_key (trusted_key now (pend_key pending)))) (\<lambda>_.
           and_then (connect_sftp_with_auth be (pend_profile pending) (pend_auth pending)
                       (pend_supplied_secret pending) (pend_preferences pending) True) (\<lambda>r.
           ok (Some r))))))"

definition list_trusted_hosts :: "('r, 'l, TrustedHostKey list) app" where
  "list_trusted_hosts = in_db list_host_keys"

definition remove_trusted_host :: "string \<Rightarrow> u16 \<Rightarrow> string \<Rightarrow> ('r, 'l, unit) app" where
  "remove_trusted_host host port algorithm = in_db (remove_host_key (trim host) port (trim algorithm))"

definition known_hosts_missing :: "io_error \<Rightarrow> AppError" where
  "known_hosts_missing e = with_detail (new_error NotFound ''The known_hosts file was not found'') (io_text e)"

definition known_hosts_unreadable :: "string \<Rightarrow> AppError" where
  "known_hosts_unreadable text = with_detail (new_error IoError ''Could not read the known_hosts file'') text"

definition invalid_text :: string where "invalid_text = ''stream did not contain valid UTF-8''"

definition import_known_hosts ::
  "(string \<Rightarrow> PublicKey option) \<Rightarrow> string \<Rightarrow> ('r, 'l, KnownHostsImportSummary) app" where
  "import_known_hosts openssh path =
     and_then (on_local known_hosts_missing (\<lambda>fs. l_metadata fs path)) (\<lambda>meta.
     if 4 * 1024 * 1024 < lm_len meta
     then err (new_error InvalidInput ''known_hosts imports are limited to 4 MB'')
     else and_then (on_local (\<lambda>e. known_hosts_unreadable (io_text e)) (\<lambda>fs. l_read fs path)) (\<lambda>contents.
     if \<not> utf8_valid contents then err (known_hosts_unreadable invalid_text)
     else (case parse_known_hosts openssh contents of (keys, left_out) \<Rightarrow>
       and_then read_clock (\<lambda>now.
       and_then (for_each (\<lambda>key. in_db (trust_host_key (trusted_key now key))) keys) (\<lambda>_.
       ok \<lparr>imported = length keys,
           skipped = (if keys = [] \<and> left_out = 0 \<and> trim contents \<noteq> []
             then length (filter (\<lambda>line. trim line \<noteq> []) (text_lines contents)) else left_out)\<rparr>)))))"

section \<open>Reconnecting for a transfer\<close>

text \<open>\<open>instant_now\<close> is the reading of the monotonic clock. Two sessions hold the same client when the records are
  the same (\<^verbatim>\<open>Arc::ptr_eq\<close>), which cannot be the case for a client that was just made.\<close>

definition replace_sessions ::
  "uuid \<Rightarrow> (uuid \<times> 'r SessionRecord) list \<Rightarrow> ('r, 'l, 'r RemoteFilesystem) app" where
  "replace_sessions session_id stale =
     and_then (find_session session_id) (\<lambda>found. case found of
       None \<Rightarrow> err (new_error InternalError ''The reconnected session was not registered'')
     | Some fresh \<Rightarrow>
         and_then (remove_session session_id) (\<lambda>_.
         and_then (in_world (modify (\<lambda>w. w\<lparr>w_sessions := map (\<lambda>(uid, s).
             (uid, if uid \<in> fst ` set stale then s\<lparr>sess_client := sess_client fresh\<rparr> else s)) (w_sessions w)\<rparr>))) (\<lambda>_.
         ok (sess_client fresh))))"

definition reconnect_profile_for_transfer ::
  "('r, 'h, 's) backend \<Rightarrow> rat \<Rightarrow> uuid \<Rightarrow> ('r, 'l, unit) app" where
  "reconnect_profile_for_transfer be instant_now profile_id =
     and_then (gets (\<lambda>a. case a_last_reconnect a profile_id of Some t \<Rightarrow> instant_now - t < 5 | None \<Rightarrow> False)) (\<lambda>recent.
     and_then (gets (\<lambda>a. filter (\<lambda>s. sess_profile_id (snd s) = profile_id) (w_sessions (a_world a)))) (\<lambda>stale.
     if recent \<and> stale \<noteq> [] then ok ()
     else and_then (in_db (get_profile profile_id)) (\<lambda>profile.
       and_then (gets (\<lambda>a. w_prefs (a_world a))) (\<lambda>prefs.
       and_then (connect_by_protocol be profile None prefs False) (\<lambda>result. case result of
           Connected session_id \<Rightarrow>
             and_then (when_do (stale \<noteq> []) (and_then (replace_sessions session_id stale) (\<lambda>_.
               for_each (\<lambda>s. and_then (attempt (on_server (disconnect (sess_client (snd s))))) (\<lambda>_. ok ())) stale))) (\<lambda>_.
             modify (\<lambda>a. a\<lparr>a_last_reconnect := (a_last_reconnect a)(profile_id \<mapsto> instant_now)\<rparr>))
         | NeedsCredential _ \<Rightarrow> err (new_error AuthenticationFailed
             ''Reconnect this profile to continue the transfer'')
         | NeedsHostTrust _ \<Rightarrow> err (new_error HostKeyChanged
             ''The server host key requires review before reconnecting''))))))"

section \<open>Bookmarks and saved actions\<close>

definition save_favorite :: "Favorite \<Rightarrow> ('r, 'l, Favorite) app" where
  "save_favorite favorite =
     (let label = trim (fav_label favorite) in
      if label = [] then err (new_error InvalidInput ''A bookmark label is required'')
      else and_then (lift_result (normalize_favorite_path (fav_path favorite) (fav_side favorite))) (\<lambda>path.
      let f = favorite\<lparr>fav_label := label, fav_path := path\<rparr> in
      case fav_profile_id favorite of
        None \<Rightarrow> err (new_error InvalidInput ''Bookmarks must belong to a connection'')
      | Some profile_id \<Rightarrow>
          and_then (in_db (get_profile profile_id)) (\<lambda>_.
          and_then (in_db (find_favorite (Some profile_id) (fav_side f) (fav_path f))) (\<lambda>existing.
          let g = (case existing of Some e \<Rightarrow> f\<lparr>fav_id := fav_id e\<rparr> | None \<Rightarrow> f) in
          and_then (in_db (save_favorite_row g)) (\<lambda>_. ok g)))))"

definition save_saved_action :: "SavedAction \<Rightarrow> ('r, 'l, SavedAction) app" where
  "save_saved_action action =
     (let label = trim (act_label action) in
      if label = [] then err (new_error InvalidInput ''A label is required'')
      else and_then read_clock (\<lambda>now.
        let a = action\<lparr>act_label := label, act_updated_at := now\<rparr> in
        and_then (in_db (save_action_row a)) (\<lambda>_. ok a)))"

end
