(* ===== verification/Ssh_Laws.thy ===== *)
theory Ssh_Laws
  imports Ssh_Connect
begin

text \<open>
  What the connection keeps to, whatever the network does: credentials go to servers whose key was
  trusted, and a proxy's reply is consumed to its last byte and no further. The contracts of the SSH
  library and of a stream are locales, interpreted on a network of named servers.
\<close>

section \<open>What an operation appends to a log\<close>

definition appends :: "('n \<Rightarrow> 'x list) \<Rightarrow> ('x \<Rightarrow> bool) \<Rightarrow> ('n, 'e, 'a) eff \<Rightarrow> bool" where
  "appends log P m \<longleftrightarrow> (\<forall>n. \<exists>new. log (snd (m n)) = log n @ new \<and> (\<forall>x \<in> set new. P x))"

named_theorems appends_intros \<open>what operations append to a log\<close>

lemma appends_quiet: "(\<And>n. log (snd (m n)) = log n) \<Longrightarrow> appends log P m"
  by (auto simp: appends_def)

lemma appends_one: "(\<And>n. log (snd (m n)) \<in> {log n, log n @ [x]}) \<Longrightarrow> P x \<Longrightarrow> appends log P m"
  unfolding appends_def by (metis append_Nil2 emptyE empty_set insertE list.set(2))

lemma appends_ok [appends_intros]: "appends log P (ok a)"
  by (simp add: appends_quiet ok_def)

lemma appends_err [appends_intros]: "appends log P (err e)"
  by (simp add: appends_quiet err_def)

lemma appends_lift_result [appends_intros]: "appends log P (lift_result r)"
  by (simp add: appends_quiet lift_result_def)

lemma appends_map_err [appends_intros]: "appends log P m \<Longrightarrow> appends log P (map_err f m)"
proof -
  have "snd (map_err f m n) = snd (m n)" for n by (auto simp: map_err_run split: prod.split sum.split)
  then show "appends log P m \<Longrightarrow> ?thesis" by (simp add: appends_def)
qed

lemma appends_if [appends_intros]: "appends log P a \<Longrightarrow> appends log P b \<Longrightarrow> appends log P (if c then a else b)"
  by simp

lemma appends_and_then_on:
  assumes "appends log P m" "\<And>a n n'. m n = (Inr a, n') \<Longrightarrow> appends log P (k a)"
  shows "appends log P (and_then m k)"
  unfolding appends_def
proof
  fix n
  obtain new where new: "log (snd (m n)) = log n @ new" "\<forall>x \<in> set new. P x"
    using assms(1) by (auto simp: appends_def)
  show "\<exists>new. log (snd (and_then m k n)) = log n @ new \<and> (\<forall>x \<in> set new. P x)"
  proof (cases "m n")
    case (Pair r n')
    show ?thesis
    proof (cases r)
      case (Inl e)
      with Pair new show ?thesis by (auto simp: and_then_run)
    next
      case (Inr a)
      with assms(2)[of n a n'] Pair obtain more
        where "log (snd (k a n')) = log n' @ more" "\<forall>x \<in> set more. P x" by (auto simp: appends_def)
      with Pair Inr new show ?thesis by (intro exI[of _ "new @ more"]) (auto simp: and_then_run)
    qed
  qed
qed

lemma appends_and_then [appends_intros]:
  "appends log P m \<Longrightarrow> (\<And>a. appends log P (k a)) \<Longrightarrow> appends log P (and_then m k)"
  by (rule appends_and_then_on)

section \<open>The contract of the library\<close>

datatype Credential =
    SentPassword string string
  | SentSignature string string
  | SentIdentity string AgentIdentity

text \<open>\<open>server_key s\<close> is the key that the server of the session proved to have, \<open>sent\<close> the credentials that
  have been sent, with the session they were sent in.\<close>

locale secure_shell =
  fixes lib :: "('n, 'h, 's) ssh_library" and server_key :: "'s \<Rightarrow> PublicKey"
    and sent :: "'n \<Rightarrow> ('s \<times> Credential) list"
  assumes kex_key: "lib_kex lib config h n = (Inr (key, s), n') \<Longrightarrow> server_key s = key"
    and refused_fails: "\<forall>s n. isl (fst (lib_accept lib s False n))"
    and quiet: "sent (snd (lib_tcp lib host port n)) = sent n" "sent (snd (lib_nodelay lib h n)) = sent n"
      "sent (snd (lib_write lib h data n)) = sent n" "sent (snd (lib_read_exact lib h k n)) = sent n"
      "sent (snd (lib_kex lib config h n)) = sent n" "sent (snd (lib_accept lib s accepted n)) = sent n"
      "sent (snd (lib_load_key lib path passphrase n)) = sent n" "sent (snd (lib_rsa_hash lib s n)) = sent n"
      "sent (snd (lib_agent lib n)) = sent n" "sent (snd (lib_identities lib n)) = sent n"
      "sent (snd (lib_tunnel lib s host wide n)) = sent n" "sent (snd (lib_session_channel lib s n)) = sent n"
      "sent (snd (lib_subsystem lib s name n)) = sent n" "sent (snd (lib_sftp lib s n)) = sent n"
    and password_sent: "sent (snd (lib_password lib s user pw n)) \<in> {sent n, sent n @ [(s, SentPassword user pw)]}"
    and key_sent: "sent (snd (lib_publickey lib s user sk hash n))
      \<in> {sent n, sent n @ [(s, SentSignature user (sk_text sk))]}"
    and identity_sent: "sent (snd (lib_identity lib s user ident hash n))
      \<in> {sent n, sent n @ [(s, SentIdentity user ident)]}"

text \<open>The credentials that an authentication setting stands for.\<close>

fun credential_of :: "string \<Rightarrow> SftpAuth \<Rightarrow> Credential \<Rightarrow> bool" where
  "credential_of username (PasswordAuth password) c = (c = SentPassword username password)"
| "credential_of username (PrivateKeyAuth path passphrase) c = (\<exists>text. c = SentSignature username text)"
| "credential_of username AgentAuth c = (\<exists>identity. c = SentIdentity username identity)"

context secure_shell
begin

lemma quiet_appends [appends_intros]:
  "appends sent P (lib_tcp lib host port)" "appends sent P (lib_nodelay lib h)"
  "appends sent P (lib_write lib h data)" "appends sent P (lib_read_exact lib h k)"
  "appends sent P (lib_kex lib config h)" "appends sent P (lib_accept lib s accepted)"
  "appends sent P (lib_load_key lib path passphrase)" "appends sent P (lib_rsa_hash lib s)"
  "appends sent P (lib_agent lib)" "appends sent P (lib_identities lib)"
  "appends sent P (lib_tunnel lib s host wide)" "appends sent P (lib_session_channel lib s)"
  "appends sent P (lib_subsystem lib s name)" "appends sent P (lib_sftp lib s)"
  by (rule appends_quiet, rule quiet)+

lemma authentication_appends:
  "P (s, SentPassword user pw) \<Longrightarrow> appends sent P (lib_password lib s user pw)"
  "P (s, SentSignature user (sk_text sk)) \<Longrightarrow> appends sent P (lib_publickey lib s user sk hash)"
  "P (s, SentIdentity user ident) \<Longrightarrow> appends sent P (lib_identity lib s user ident hash)"
  by (rule appends_one, rule password_sent key_sent identity_sent, assumption)+

lemma read_head_appends [appends_intros]: "appends sent P (read_head lib h response)"
proof (rule appends_quiet)
  show "sent (snd (read_head lib h response n)) = sent n" for n
  proof (induction "16 * 1024 - length response" arbitrary: response n rule: less_induct)
    case less
    show ?case
    proof (cases "ends_with (crlf @ crlf) response \<or> 16 * 1024 \<le> length response")
      case False
      show ?thesis
      proof (cases "lib_read_exact lib h 1 n")
        case (Pair r n')
        with False less[of "response @ [hd buf]" n' for buf] quiet(4)[of h 1 n] show ?thesis
          by (cases r) (auto simp: read_head.simps[of lib h response n] map_err_run)
      qed
    qed (auto simp: read_head.simps[of lib h response n])
  qed
qed

lemma open_tcp_stream_appends: "appends sent P (open_tcp_stream lossy lib host port via)"
  unfolding open_tcp_stream_def socks5_connect_def socks5_address_def http_connect_def Let_def
  by (intro appends_intros | (split option.split SshProxyKind.split, intro conjI allI impI))+

lemma connect_ssh_appends: "appends sent P (connect_ssh lib classify config host port stream)"
  unfolding connect_ssh_def check_server_key_def Let_def
  by (intro appends_intros | (split prod.split, intro allI impI))+

text \<open>A handshake that succeeds showed a key that the verifier trusts.\<close>

lemma connect_ssh_trusted:
  assumes "connect_ssh lib classify config host port stream n = (Inr (s, key), n')"
  shows "key = observe host port (server_key s) \<and> classify key = Trusted"
proof -
  obtain pk session n1 where kex: "lib_kex lib config stream n = (Inr (pk, session), n1)"
    and rest: "map_err (dial_error (Some (observe host port pk, classify (observe host port pk))))
        (lib_accept lib session (classify (observe host port pk) = Trusted)) n1 = (Inr (), n')"
    and res: "s = session" "key = observe host port pk"
    using assms unfolding connect_ssh_def check_server_key_def Let_def
    by (auto simp: and_then_run map_err_run ok_run split: prod.splits sum.splits)
  from rest refused_fails[rule_format, of session n1] have "classify (observe host port pk) = Trusted"
    by (cases "classify (observe host port pk) = Trusted") (auto simp: map_err_run split: prod.splits sum.splits)
  with res kex_key[OF kex] show ?thesis by simp
qed

text \<open>The key in an error is one that is not trusted.\<close>

lemma connect_ssh_refusal:
  assumes "connect_ssh lib classify config host port stream n = (Inl e, n')" "sce_host_key e = Some key"
  shows "classify key = Unknown \<and> code (sce_error e) = HostKeyUnknown
    \<or> classify key = Changed \<and> code (sce_error e) = HostKeyChanged"
  using assms unfolding connect_ssh_def check_server_key_def Let_def
  by (auto simp: and_then_run map_err_run ok_run dial_error_def connect_timeout_error_def connect_error_def plain_error_def
      new_error_def split: prod.splits sum.splits net_error.splits HostKeyDecision.splits)

lemma try_identities_appends:
  "(\<And>ident. P (s, SentIdentity username ident)) \<Longrightarrow> appends sent P (try_identities lib s username idents)"
  by (induction idents) (auto simp: rsa_hash_def intro!: appends_intros authentication_appends)

lemma authenticate_appends:
  assumes "\<And>c. credential_of username auth c \<Longrightarrow> P (s, c)"
  shows "appends sent P (authenticate lib s username auth)"
proof (cases auth)
  case (PasswordAuth pw)
  with assms show ?thesis by (auto simp: authenticate_def intro!: appends_intros authentication_appends)
next
  case (PrivateKeyAuth path passphrase)
  with assms show ?thesis
    by (auto simp: authenticate_def rsa_hash_def intro!: appends_intros authentication_appends)
next
  case AgentAuth
  with assms show ?thesis
    by (auto simp: authenticate_def authenticate_with_agent_def intro!: appends_intros try_identities_appends)
qed

end

section \<open>Credentials\<close>

text \<open>What may be sent for the options: a credential of the destination in a session whose server showed a
  key trusted for the destination, or one of the bastion in a session trusted for the bastion.\<close>

definition may_send ::
  "SftpConnectOptions \<Rightarrow> verifier \<Rightarrow> ('s \<Rightarrow> PublicKey) \<Rightarrow> 's \<times> Credential \<Rightarrow> bool" where
  "may_send options classify server_key = (\<lambda>(s, c).
     (credential_of (opt_username options) (opt_auth options) c
        \<and> classify (observe (opt_host options) (opt_port options) (server_key s)) = Trusted)
     \<or> (\<exists>jump. opt_proxy_jump options = Some jump \<and> credential_of (jump_username jump) (jump_auth jump) c
        \<and> classify (observe (jump_host jump) (jump_port jump) (server_key s)) = Trusted))"

definition refusal :: "verifier \<Rightarrow> SftpConnectError \<Rightarrow> bool" where
  "refusal classify e \<longleftrightarrow> (\<forall>key. sce_host_key e = Some key \<longrightarrow>
     classify key = Unknown \<and> code (sce_error e) = HostKeyUnknown
     \<or> classify key = Changed \<and> code (sce_error e) = HostKeyChanged)"

context secure_shell
begin

lemma dial_destination_appends:
  "appends sent (may_send options classify server_key) (dial_destination lossy lib classify config options)"
proof (cases "opt_proxy_jump options")
  case None
  then show ?thesis
    by (auto simp: dial_destination_def intro!: appends_intros open_tcp_stream_appends)
next
  case (Some jump)
  then show ?thesis
    by (auto simp: dial_destination_def may_send_def dest!: connect_ssh_trusted
        intro!: appends_intros open_tcp_stream_appends appends_and_then_on[OF connect_ssh_appends]
          authenticate_appends)
qed

lemma destination_authenticate_appends:
  "classify (observe (opt_host options) (opt_port options) (server_key s)) = Trusted \<Longrightarrow>
   appends sent (may_send options classify server_key) (authenticate lib s (opt_username options) (opt_auth options))"
  by (rule authenticate_appends) (simp add: may_send_def)

lemma sftp_connect_appends:
  "appends sent (may_send options classify server_key) (sftp_connect defaults supported lossy lib options classify)"
  by (auto simp: sftp_connect_def start_sftp_def dest!: connect_ssh_trusted
      intro!: appends_intros dial_destination_appends appends_and_then_on[OF connect_ssh_appends]
        destination_authenticate_appends split: prod.splits)

text \<open>Errors without a key are not about a key.\<close>

lemma plain_refusal: "refusal classify (plain_error e)"
  by (simp add: refusal_def plain_error_def)

lemma map_plain_refusal: "map_err (\<lambda>x. plain_error (f x)) m n = (Inl e, n') \<Longrightarrow> refusal classify e"
  by (auto simp: map_err_run plain_refusal split: prod.splits sum.splits)

lemma dial_destination_refusal:
  "dial_destination lossy lib classify config options n = (Inl e, n') \<Longrightarrow> refusal classify e"
  using connect_ssh_refusal
  by (auto simp: dial_destination_def refusal_def plain_error_def and_then_run map_err_run ok_run
      split: option.splits prod.splits sum.splits) 

lemma dial_destination_trusted:
  "dial_destination lossy lib classify config options n = (Inr (stream, jump), n') \<Longrightarrow>
   jump = Some (s, key) \<Longrightarrow> classify key = Trusted"
  by (auto simp: dial_destination_def and_then_run map_err_run ok_run dest!: connect_ssh_trusted
      split: option.splits prod.splits sum.splits)

lemma sftp_connect_refusal:
  "sftp_connect defaults supported lossy lib options classify n = (Inl e, n') \<Longrightarrow> refusal classify e"
  using connect_ssh_refusal dial_destination_refusal
  by (auto simp: sftp_connect_def refusal_def plain_error_def and_then_run map_err_run ok_run lift_result_run
      split: prod.splits sum.splits)

lemma sftp_connect_trusted:
  "sftp_connect defaults supported lossy lib options classify n = (Inr c, n') \<Longrightarrow>
   \<forall>key \<in> set (conn_observed c). classify key = Trusted"
  by (auto simp: sftp_connect_def and_then_run map_err_run ok_run lift_result_run
      dest!: connect_ssh_trusted dest: dial_destination_trusted
      split: prod.splits sum.splits option.splits)

end

section \<open>A network\<close>

text \<open>Servers by host and port with their keys; a stream is the address at its far end, a session is that
  address with the key. Every credential that is offered is accepted, and recorded.\<close>

type_synonym address = "string \<times> u16"

record net_state =
  net_servers :: "address \<rightharpoonup> PublicKey"
  net_incoming :: bytes
  net_outgoing :: bytes
  net_sent :: "((address \<times> PublicKey) \<times> Credential) list"

definition net_offer :: "address \<times> PublicKey \<Rightarrow> Credential \<Rightarrow> (net_state, string, bool) eff" where
  "net_offer s c = and_then (modify (\<lambda>n. n\<lparr>net_sent := net_sent n @ [(s, c)]\<rparr>)) (\<lambda>_. ok True)"

definition net_read :: "nat \<Rightarrow> (net_state, string, bytes) eff" where
  "net_read k = (\<lambda>n. if length (net_incoming n) < k then (Inl ''early eof'', n)
     else (Inr (take k (net_incoming n)), n\<lparr>net_incoming := drop k (net_incoming n)\<rparr>))"

definition net_key :: "address \<Rightarrow> (net_state, net_error, PublicKey \<times> address \<times> PublicKey) eff" where
  "net_key a = (\<lambda>n. case net_servers n a of
      None \<Rightarrow> (Inl Elapsed, n) | Some key \<Rightarrow> (Inr (key, a, key), n))"

definition net_library :: "(net_state, address, address \<times> PublicKey) ssh_library" where
  "net_library = \<lparr>
     lib_tcp = (\<lambda>host port n. if net_servers n (host, port) = None then (Inl (Failure ''refused''), n)
        else (Inr (host, port), n)),
     lib_nodelay = (\<lambda>h. ok ()),
     lib_write = (\<lambda>h data. modify (\<lambda>n. n\<lparr>net_outgoing := net_outgoing n @ data\<rparr>)),
     lib_read_exact = (\<lambda>h. net_read),
     lib_kex = (\<lambda>config. net_key),
     lib_accept = (\<lambda>s accepted. if accepted then ok () else err (Failure ''Unknown server key'')),
     lib_password = (\<lambda>s user pw. net_offer s (SentPassword user pw)),
     lib_load_key = (\<lambda>path passphrase. ok \<lparr>sk_is_rsa = False, sk_text = path\<rparr>),
     lib_rsa_hash = (\<lambda>s. ok None),
     lib_publickey = (\<lambda>s user sk hash. net_offer s (SentSignature user (sk_text sk))),
     lib_agent = ok (), lib_identities = ok [],
     lib_identity = (\<lambda>s user ident hash. net_offer s (SentIdentity user ident)),
     lib_tunnel = (\<lambda>s host wide. ok (host, ucast wide)),
     lib_session_channel = (\<lambda>s. ok ()), lib_subsystem = (\<lambda>s name. ok ()), lib_sftp = (\<lambda>s. ok ())\<rparr>"

lemmas net_defs = net_library_def net_offer_def net_read_def net_key_def

interpretation net: secure_shell net_library snd net_sent
  by unfold_locales (auto simp: net_defs run_simps split: option.splits if_splits)

section \<open>Streams\<close>

text \<open>What reading and writing do to the two directions of a stream, when they succeed.\<close>

locale byte_stream =
  fixes lib :: "('n, 'h, 's) ssh_library" and stream :: 'h and incoming outgoing :: "'n \<Rightarrow> bytes"
  assumes write_ok: "lib_write lib stream data n = (Inr u, n') \<Longrightarrow>
      outgoing n' = outgoing n @ data \<and> incoming n' = incoming n"
    and read_ok: "lib_read_exact lib stream k n = (Inr buf, n') \<Longrightarrow>
      length buf = k \<and> incoming n = buf @ incoming n' \<and> outgoing n' = outgoing n"

interpretation net_bytes: byte_stream net_library a net_incoming net_outgoing
  by unfold_locales (auto simp: net_defs run_simps split: if_splits)

text \<open>The replies of a SOCKS5 proxy that grants the request (RFC 1928): a method, and an address of one of three kinds
  with a port.\<close>

definition socks5_granted :: "bytes \<Rightarrow> bool" where
  "socks5_granted reply \<longleftrightarrow> (\<exists>reserved kind address port.
     reply = [byte 5, byte 0] @ [byte 5, byte 0, reserved, kind] @ address @ port \<and> length port = 2
     \<and> (kind = byte 1 \<and> length address = 4 \<or> kind = byte 4 \<and> length address = 16
        \<or> kind = byte 3 \<and> address \<noteq> [] \<and> length address = 1 + of_char (hd address)))"

text \<open>The head of an HTTP response: it ends at its first blank line.\<close>

definition http_head :: "bytes \<Rightarrow> bool" where
  "http_head head \<longleftrightarrow> ends_with (crlf @ crlf) head
     \<and> (\<forall>k < length head. \<not> ends_with (crlf @ crlf) (take k head))"

context byte_stream
begin

lemma ssh_write:
  assumes "ssh_act (lib_write lib stream data) n = (Inr u, n')"
  shows "outgoing n' = outgoing n @ data \<and> incoming n' = incoming n"
  using assms write_ok by (auto simp: map_err_run split: prod.splits sum.splits)

lemma ssh_read:
  assumes "ssh_act (lib_read_exact lib stream k) n = (Inr buf, n')"
  shows "length buf = k \<and> incoming n = buf @ incoming n' \<and> outgoing n' = outgoing n"
  using assms read_ok by (auto simp: map_err_run split: prod.splits sum.splits)

lemma socks5_address_read:
  assumes "socks5_address lib stream kind n = (Inr k, n')"
  shows "outgoing n' = outgoing n \<and> (\<exists>pre. incoming n = pre @ incoming n' \<and> (kind = byte 1 \<and> pre = [] \<and> k = 4
    \<or> kind = byte 4 \<and> pre = [] \<and> k = 16 \<or> kind = byte 3 \<and> (\<exists>c. pre = [c] \<and> k = of_char c)))"
  using assms unfolding socks5_address_def
  by (auto simp: ok_run err_run length_Suc_conv split: if_splits elim!: and_then_InrD dest!: ssh_read)

lemma socks5_exact:
  assumes "socks5_connect lib stream host port n = (Inr u, n')"
  shows "outgoing n' = outgoing n @ [byte 5, byte 1, byte 0] @ socks5_request host port"
    and "\<exists>reply. incoming n = reply @ incoming n' \<and> socks5_granted reply"
proof -
  have "\<not> 255 < length host" using assms by (auto simp: socks5_connect_def err_run split: if_splits)
  then obtain u1 n1 g n2 u2 n3 r n4 k n5 b where
    w1: "ssh_act (lib_write lib stream [byte 5, byte 1, byte 0]) n = (Inr u1, n1)"
    and r1: "ssh_act (lib_read_exact lib stream 2) n1 = (Inr g, n2)" and g: "g = [byte 5, byte 0]"
    and w2: "ssh_act (lib_write lib stream (socks5_request host port)) n2 = (Inr u2, n3)"
    and r2: "ssh_act (lib_read_exact lib stream 4) n3 = (Inr r, n4)" and r: "r ! 0 = byte 5" "r ! 1 = byte 0"
    and a: "socks5_address lib stream (r ! 3) n4 = (Inr k, n5)"
    and r3: "ssh_act (lib_read_exact lib stream (k + 2)) n5 = (Inr b, n')"
    using assms unfolding socks5_connect_def
    by (auto simp: ok_run err_run split: if_splits elim!: and_then_InrD)
  note steps = ssh_write[OF w1] ssh_read[OF r1] ssh_write[OF w2] ssh_read[OF r2] socks5_address_read[OF a] ssh_read[OF r3]
  show "outgoing n' = outgoing n @ [byte 5, byte 1, byte 0] @ socks5_request host port" using steps by simp
  from steps(4) obtain x where x: "r = [byte 5, byte 0, x, r ! 3]"
    using r by (auto simp: length_Suc_conv numeral_eq_Suc)
  from steps(5) obtain pre where pre: "incoming n4 = pre @ incoming n5"
    "r ! 3 = byte 1 \<and> pre = [] \<and> k = 4 \<or> r ! 3 = byte 4 \<and> pre = [] \<and> k = 16
     \<or> r ! 3 = byte 3 \<and> (\<exists>c. pre = [c] \<and> k = of_char c)" by auto
  have "incoming n = (g @ r @ pre @ b) @ incoming n'" using steps pre(1) by simp
  moreover have "socks5_granted (g @ r @ pre @ b)"
  proof -
    have "g @ r @ pre @ b = [byte 5, byte 0] @ [byte 5, byte 0, x, r ! 3] @ (pre @ take k b) @ drop k b"
      using g x by (simp add: append_assoc[symmetric] del: append_assoc) (simp)
    moreover have "length (drop k b) = 2" "length (take k b) = k" using steps(6) by simp_all
    ultimately show ?thesis using pre(2) unfolding socks5_granted_def by fastforce
  qed
  ultimately show "\<exists>reply. incoming n = reply @ incoming n' \<and> socks5_granted reply" by blast
qed

lemma read_head_exact:
  assumes "read_head lib stream seen n = (Inr head, n')" "\<forall>k < length seen. \<not> ends_with (crlf @ crlf) (take k seen)"
  shows "outgoing n' = outgoing n \<and> (\<exists>more. head = seen @ more \<and> incoming n = more @ incoming n') \<and> http_head head"
  using assms
proof (induction "16 * 1024 - length seen" arbitrary: seen n rule: less_induct)
  case less
  show ?case
  proof (cases "ends_with (crlf @ crlf) seen \<or> 16 * 1024 \<le> length seen")
    case True
    with less(2,3) show ?thesis by (auto simp: read_head.simps[of lib stream seen n] http_head_def split: if_splits)
  next
    case False
    with less(2) obtain buf n1 where r: "ssh_act (lib_read_exact lib stream 1) n = (Inr buf, n1)"
      and rest: "read_head lib stream (seen @ [hd buf]) n1 = (Inr head, n')"
      by (auto simp: read_head.simps[of lib stream seen n] split: prod.splits sum.splits)
    have old: "\<forall>k < length (seen @ [hd buf]). \<not> ends_with (crlf @ crlf) (take k (seen @ [hd buf]))"
    proof (intro allI impI)
      fix k assume "k < length (seen @ [hd buf])"
      then show "\<not> ends_with (crlf @ crlf) (take k (seen @ [hd buf]))"
        using less(3) False by (cases "k = length seen") (auto simp: not_le)
    qed
    from ssh_read[OF r] obtain c where "buf = [c]" "incoming n = c # incoming n1" "outgoing n1 = outgoing n"
      by (auto simp: length_Suc_conv)
    moreover have "16 * 1024 - length (seen @ [hd buf]) < 16 * 1024 - length seen" using False by auto
    ultimately show ?thesis using less(1)[OF _ rest old] by fastforce
  qed
qed

lemma http_exact:
  assumes "http_connect lossy lib stream host port n = (Inr u, n')"
  shows "outgoing n' = outgoing n @ http_request host port"
    and "\<exists>head. incoming n = head @ incoming n' \<and> http_head head \<and> http_accepted (lossy head)"
proof -
  from assms obtain u1 n1 head where w: "ssh_act (lib_write lib stream (http_request host port)) n = (Inr u1, n1)"
    and h: "read_head lib stream [] n1 = (Inr head, n')" and ok: "http_accepted (lossy head)"
    unfolding http_connect_def by (auto simp: ok_run err_run split: if_splits elim!: and_then_InrD)
  from ssh_write[OF w] read_head_exact[OF h] ok
  show "outgoing n' = outgoing n @ http_request host port"
    and "\<exists>head. incoming n = head @ incoming n' \<and> http_head head \<and> http_accepted (lossy head)" by auto
qed

end

section \<open>Properties\<close>


text \<open>A bastion with a trusted key, and behind it a server with another key than the stored one.\<close>

definition demo_key :: "string \<Rightarrow> PublicKey" where
  "demo_key text = \<lparr>pk_algorithm = ''ssh-ed25519'', pk_fingerprint = text\<rparr>"

definition demo_net :: net_state where
  "demo_net = \<lparr>net_servers = [(''bastion'', 22) \<mapsto> demo_key ''A'', (''files'', 22) \<mapsto> demo_key ''B''],
     net_incoming = [], net_outgoing = [], net_sent = []\<rparr>"

definition demo_options :: SftpConnectOptions where
  "demo_options = (with_defaults ''files'' ''me'' (PasswordAuth ''secret''))
     \<lparr>opt_proxy_jump := Some \<lparr>jump_host = ''bastion'', jump_port = 22, jump_username = ''hop'',
        jump_auth = PasswordAuth ''hopsecret''\<rparr>\<rparr>"

definition demo_classify :: verifier where
  "demo_classify key = (if obs_fingerprint key = ''A'' then Trusted else Changed)"

definition demo_config :: ClientConfig where
  "demo_config = \<lparr>cfg_keepalive_interval = 0, cfg_keepalive_max = 0, cfg_nodelay = False, cfg_kex = [], cfg_key = [],
     cfg_cipher = [], cfg_mac = []\<rparr>"

lemma demo_connect:
  "sftp_connect demo_config (\<lambda>kind name. None) (\<lambda>x. x) net_library demo_options demo_classify demo_net =
     (Inl \<lparr>sce_error = new_error HostKeyChanged ''The server host key differs from the trusted key'',
           sce_host_key = Some (observe ''files'' 22 (demo_key ''B''))\<rparr>,
      demo_net\<lparr>net_sent := [(((''bastion'', 22), demo_key ''A''), SentPassword ''hop'' ''hopsecret'')]\<rparr>)"
  by (simp add: sftp_connect_def dial_destination_def connect_ssh_def check_server_key_def authenticate_def
      open_tcp_stream_def ssh_config_def preferred_def demo_options_def with_defaults_def demo_net_def demo_classify_def
      demo_key_def observe_def net_defs run_simps dial_error_def connect_error_def)


text \<open>
  Both proxy protocols send exactly the request for the destination and consume exactly the proxy's
  reply: a SOCKS5 grant with its address, or an HTTP head up to its first blank line with status 200. What
  the destination sends after it is left for the SSH handshake.
\<close>

theorem proxies_consume_their_reply:
  assumes "byte_stream lib stream incoming outgoing"
  shows "(socks5_connect lib stream host port n = (Inr u, n') \<longrightarrow>
      outgoing n' = outgoing n @ [byte 5, byte 1, byte 0] @ socks5_request host port
      \<and> (\<exists>reply. incoming n = reply @ incoming n' \<and> socks5_granted reply))
    \<and> (http_connect lossy lib stream host port n = (Inr u, n') \<longrightarrow>
      outgoing n' = outgoing n @ http_request host port
      \<and> (\<exists>head. incoming n = head @ incoming n' \<and> http_head head \<and> http_accepted (lossy head)))"
  using byte_stream.socks5_exact[OF assms, where ?host=host and ?port=port and ?n=n and ?u=u and ?n'=n']
    byte_stream.http_exact[OF assms, where ?lossy=lossy and ?host=host and ?port=port and ?n=n and ?u=u and ?n'=n'] by simp

definition demo_reply :: "string \<Rightarrow> net_state" where
  "demo_reply reply = demo_net\<lparr>net_incoming := reply @ ''SSH-2.0-x''\<rparr>"

lemma demo_socks:
  "socks5_connect net_library (''proxy'', 1080) ''files'' 22
     (demo_reply ([byte 5, byte 0, byte 5, byte 0, byte 0, byte 3, byte 2] @ ''ab'' @ [byte 1, byte 2]))
   = (Inr (), (demo_reply [])\<lparr>net_outgoing := [byte 5, byte 1, byte 0] @ socks5_request ''files'' 22\<rparr>)"
  by (simp add: socks5_connect_def socks5_address_def demo_reply_def demo_net_def net_defs run_simps byte_def)

lemma proxies_consume_their_reply_witness:
  "\<exists>reply. net_incoming (demo_reply ([byte 5, byte 0, byte 5, byte 0, byte 0, byte 3, byte 2] @ ''ab'' @ [byte 1, byte 2]))
     = reply @ ''SSH-2.0-x'' \<and> socks5_granted reply"
  using proxies_consume_their_reply[OF net_bytes.byte_stream_axioms] demo_socks by (fastforce simp: demo_reply_def)

end
