(* ===== verification/Profile_Laws.thy ===== *)
theory Profile_Laws
  imports Profiles Ssh_Laws Transfer_Laws
begin

text \<open>
  What the commands about profiles keep: the normal form of a stored profile, and that a host key becomes
  trusted only where the user said so, in a prompt or by importing a \<^verbatim>\<open>known_hosts\<close> file.
\<close>

section \<open>The normal form of a profile\<close>

lemma trim_Nil [simp]: "trim [] = []"
  using set_trim[of "[]"] by simp

lemma dedup_by_set: "set (dedup_by same xs) \<subseteq> set xs"
  by (induction same xs rule: dedup_by.induct) auto

lemma dedup_by_hd: "xs \<noteq> [] \<Longrightarrow> dedup_by same xs \<noteq> [] \<and> hd (dedup_by same xs) = hd xs"
  by (induction same xs rule: dedup_by.induct) auto

lemma dedup_by_sorted: "sorted (map f xs) \<Longrightarrow> sorted (map f (dedup_by same xs))"
proof (induction same xs rule: dedup_by.induct)
  case (3 same x y ys)
  show ?case
  proof (cases "same y x")
    case False
    have "f x \<le> f z" if "z \<in> set (dedup_by same (y # ys))" for z
      using that dedup_by_set[of same "y # ys"] 3(3) by auto
    with 3 False show ?thesis by simp
  qed (use 3 in auto)
qed auto

text \<open>No element equals the one before it.\<close>

fun apart :: "('a \<Rightarrow> 'a \<Rightarrow> bool) \<Rightarrow> 'a list \<Rightarrow> bool" where
  "apart same (x # y # ys) = (\<not> same y x \<and> apart same (y # ys))"
| "apart same _ = True"

lemma dedup_by_apart: "apart same (dedup_by same xs)"
proof (induction same xs rule: dedup_by.induct)
  case (3 same x y ys)
  then show ?case using dedup_by_hd[of "y # ys" same]
    by (cases "dedup_by same (y # ys)") auto
qed auto

lemma dedup_by_id: "apart same xs \<Longrightarrow> dedup_by same xs = xs"
  by (induction same xs rule: apart.induct) auto

definition tags_normal :: "(string \<Rightarrow> string) \<Rightarrow> string list \<Rightarrow> bool" where
  "tags_normal lower tags \<longleftrightarrow> (\<forall>t \<in> set tags. trim t = t \<and> t \<noteq> []) \<and> sorted (map lower tags)
     \<and> apart eq_ignore_ascii_case tags"

lemma normalize_tags_normal: "tags_normal lower (normalize_tags lower tags)"
  using dedup_by_set[of eq_ignore_ascii_case "sort_key lower (filter (\<lambda>t. t \<noteq> []) (map trim tags))"]
  by (auto simp: tags_normal_def normalize_tags_def dedup_by_apart dedup_by_sorted)

lemma normalize_tags_id:
  assumes "tags_normal lower tags"
  shows "normalize_tags lower tags = tags"
proof -
  have "map trim tags = tags" using assms by (intro map_idI) (simp add: tags_normal_def)
  moreover have "filter (\<lambda>t. t \<noteq> []) tags = tags" using assms by (simp add: tags_normal_def filter_id_conv)
  moreover have "sort_key lower tags = tags" using assms by (simp add: tags_normal_def sort_key_id_if_sorted)
  ultimately show ?thesis using assms by (simp add: normalize_tags_def dedup_by_id tags_normal_def)
qed

definition names_normal :: "string list \<Rightarrow> bool" where
  "names_normal names \<longleftrightarrow> distinct names \<and> (\<forall>n \<in> set names. trim n = n \<and> n \<noteq> [])"

lemma push_name_normal: "names_normal acc \<Longrightarrow> names_normal (push_name raw acc)"
  by (auto simp: push_name_def names_normal_def Let_def)

lemma fold_push_normal: "names_normal acc \<Longrightarrow> names_normal (fold push_name names acc)"
  by (induction names arbitrary: acc) (simp_all add: push_name_normal)

lemma fold_push_id: "names_normal (acc @ names) \<Longrightarrow> fold push_name names acc = acc @ names"
  by (induction names arbitrary: acc) (auto simp: push_name_def names_normal_def)

lemma normalize_names_normal: "names_normal (normalize_names names)"
  unfolding normalize_names_def by (rule fold_push_normal) (simp add: names_normal_def)

lemma normalize_names_id: "names_normal names \<Longrightarrow> normalize_names names = names"
  by (simp add: normalize_names_def fold_push_id)

definition policy_normal :: "SshAlgorithmPolicy \<Rightarrow> bool" where
  "policy_normal p \<longleftrightarrow> names_normal (key_exchange p) \<and> names_normal (host_keys p) \<and> names_normal (ciphers p)
     \<and> names_normal (macs p)"

lemma normalize_policy_normal: "policy_normal (normalize_algorithm_policy p)"
  by (simp add: policy_normal_def normalize_algorithm_policy_def normalize_names_normal)

lemma normalize_policy_id: "policy_normal p \<Longrightarrow> normalize_algorithm_policy p = p"
  by (simp add: policy_normal_def normalize_algorithm_policy_def normalize_names_id)

text \<open>What a stored profile satisfies.\<close>

definition profile_normal :: "(string \<Rightarrow> string) \<Rightarrow> ConnectionProfile \<Rightarrow> bool" where
  "profile_normal lower p \<longleftrightarrow>
     trim (prof_label p) = prof_label p \<and> prof_label p \<noteq> [] \<and> trim (prof_host p) = prof_host p \<and> prof_host p \<noteq> []
     \<and> trim (prof_username p) = prof_username p \<and> prof_username p \<noteq> [] \<and> prof_port p \<noteq> 0
     \<and> canonical (prof_initial_remote_path p) \<and> nul \<notin> set (prof_initial_remote_path p)
     \<and> (\<forall>f. prof_folder p = Some f \<longrightarrow> trim f = f \<and> f \<noteq> [] \<and> length f \<le> 80)
     \<and> tags_normal lower (prof_tags p) \<and> length (prof_tags p) \<le> 20 \<and> (\<forall>t \<in> set (prof_tags p). length t \<le> 40)
     \<and> trim (prof_notes p) = prof_notes p \<and> length (prof_notes p) \<le> 4000
     \<and> (\<forall>c. prof_color p = Some c \<longrightarrow> valid_color c \<and> to_ascii_lowercase c = c)
     \<and> auth_error p = None \<and> (prof_protocol p \<noteq> Sftp \<longrightarrow> prof_ssh_options p = default_ssh_options)
     \<and> proxy_jump_profile_id (prof_ssh_options p) \<noteq> Some (prof_id p)
     \<and> (\<forall>v. proxy (prof_ssh_options p) = Some v \<longrightarrow> trim (proxy_host v) = proxy_host v \<and> proxy_host v \<noteq> []
          \<and> proxy_port v \<noteq> 0)
     \<and> policy_normal (algorithms (prof_ssh_options p))"

lemma lowercase_twice [simp]: "to_ascii_lowercase (to_ascii_lowercase s) = to_ascii_lowercase s"
proof -
  have "ascii_lower_char (ascii_lower_char c) = ascii_lower_char c" for c
  proof (cases "is_ascii_upper c")
    case True
    then have "\<not> is_ascii_upper (char_of (of_char c + 32 :: nat))"
      by (simp add: is_ascii_upper_def)
    with True show ?thesis by (simp add: ascii_lower_char_def)
  qed (simp add: ascii_lower_char_def)
  then show ?thesis by (simp add: to_ascii_lowercase_def)
qed

lemma valid_color_trim: "valid_color c \<Longrightarrow> trim c = c"
proof -
  assume v: "valid_color c"
  then have "c \<noteq> []" "hd c = CHR ''#''" by (cases c; simp add: valid_color_def starts_with_def)+
  moreover have "is_hex_digit (last c)"
  proof -
    have "last c = last (drop 1 c)" "drop 1 c \<noteq> []" using v by (auto simp: valid_color_def)
    then show ?thesis using v by (metis last_in_set list_all_iff valid_color_def)
  qed
  ultimately show ?thesis
    by (intro trim_id) (auto simp: whitespace_def is_hex_digit_def byte_in_def)
qed

lemma normalize_proxy_Inr:
  "normalize_proxy via = Inr via' \<Longrightarrow> normalize_proxy via' = Inr via'
     \<and> (\<forall>v. via' = Some v \<longrightarrow> trim (proxy_host v) = proxy_host v \<and> proxy_host v \<noteq> [] \<and> proxy_port v \<noteq> 0)"
  by (auto simp: normalize_proxy_def Let_def split: option.splits if_splits)

lemma normalize_Inr:
  assumes "normalize_profile lower now profile = Inr p"
  obtains path q via where "normalize_remote_path (prof_initial_remote_path profile) = Inr path"
    "q = trim_fields lower path profile" "profile_error q = None" "normalize_proxy (proxy (prof_ssh_options q)) = Inr via"
    "p = q\<lparr>prof_ssh_options := (prof_ssh_options q)\<lparr>proxy := via,
        algorithms := normalize_algorithm_policy (algorithms (prof_ssh_options q))\<rparr>, prof_updated_at := now\<rparr>"
  using assms by (auto simp: normalize_profile_def Let_def split: sum.splits option.splits)

lemma trim_fields_id:
  assumes "profile_normal lower p"
  shows "trim_fields lower (prof_initial_remote_path p) p = p"
proof -
  have "Option.bind (prof_folder p) (\<lambda>f. non_empty (trim f)) = prof_folder p"
    using assms by (cases "prof_folder p") (auto simp: profile_normal_def non_empty_def)
  moreover have "Option.bind (prof_color p) (\<lambda>c. non_empty (to_ascii_lowercase (trim c))) = prof_color p"
  proof (cases "prof_color p")
    case (Some c)
    with assms have "valid_color c" "to_ascii_lowercase c = c" by (auto simp: profile_normal_def)
    with Some show ?thesis by (auto simp: valid_color_trim non_empty_def valid_color_def)
  qed simp
  ultimately show ?thesis using assms
    by (simp add: trim_fields_def profile_normal_def normalize_tags_id)
qed

lemma profile_error_normal: "profile_normal lower p \<Longrightarrow> profile_error p = None"
  by (auto simp: profile_error_def profile_normal_def too_long_def list_ex_iff split: option.split)

lemma normalize_normal:
  assumes "normalize_profile lower now profile = Inr p"
  shows "profile_normal lower p"
proof -
  obtain path q via where path: "normalize_remote_path (prof_initial_remote_path profile) = Inr path"
    and q: "q = trim_fields lower path profile" and ok: "profile_error q = None"
    and via: "normalize_proxy (proxy (prof_ssh_options q)) = Inr via"
    and p: "p = q\<lparr>prof_ssh_options := (prof_ssh_options q)\<lparr>proxy := via,
        algorithms := normalize_algorithm_policy (algorithms (prof_ssh_options q))\<rparr>, prof_updated_at := now\<rparr>"
    using assms by (rule normalize_Inr)
  have checks: "prof_label q \<noteq> []" "prof_host q \<noteq> []" "prof_username q \<noteq> []" "prof_port q \<noteq> 0" "\<not> too_long q"
    "\<forall>c. prof_color q = Some c \<longrightarrow> valid_color c" "auth_error q = None"
    "prof_protocol q \<noteq> Sftp \<longrightarrow> prof_ssh_options q = default_ssh_options"
    "proxy_jump_profile_id (prof_ssh_options q) \<noteq> Some (prof_id q)"
    using ok by (auto simp: profile_error_def split: if_splits option.splits)
  have auth: "auth_error p = auth_error q" by (simp add: p auth_error_def)
  have plain: "prof_ssh_options p = default_ssh_options" if "prof_protocol p \<noteq> Sftp"
    using that checks(8) via
    by (auto simp: p default_ssh_options_def default_algorithms_def normalize_proxy_def
        normalize_algorithm_policy_def normalize_names_def)
  have colour: "to_ascii_lowercase c = c" if "prof_color q = Some c" for c
    using that by (auto simp: q trim_fields_def non_empty_def Option.bind_eq_Some_conv split: if_splits)
  have folder: "trim f = f \<and> f \<noteq> []" if "prof_folder q = Some f" for f
    using that by (auto simp: q trim_fields_def non_empty_def Option.bind_eq_Some_conv split: if_splits)
  have short: "length f \<le> 80" if "prof_folder q = Some f" for f
    using that checks(5) by (auto simp: too_long_def)
  have texts: "trim (prof_label q) = prof_label q" "trim (prof_host q) = prof_host q"
    "trim (prof_username q) = prof_username q" "trim (prof_notes q) = prof_notes q"
    "prof_initial_remote_path q = path" "tags_normal lower (prof_tags q)"
    by (simp_all add: q trim_fields_def normalize_tags_normal)
  show ?thesis unfolding profile_normal_def auth
    using checks texts colour folder short plain normalized_path[OF path] normalize_proxy_Inr[OF via] normalize_policy_normal
    by (auto simp: p too_long_def list_ex_iff not_less)
qed

lemma normalize_again:
  assumes "profile_normal lower p" "trim (prof_initial_remote_path p) = prof_initial_remote_path p"
    "normalize_remote_path (prof_initial_remote_path p) = Inr (prof_initial_remote_path p)" "prof_updated_at p = now"
  shows "normalize_profile lower now p = Inr p"
proof -
  have "normalize_proxy (proxy (prof_ssh_options p)) = Inr (proxy (prof_ssh_options p))"
    using assms(1) by (auto simp: profile_normal_def normalize_proxy_def split: option.split)
  moreover have "normalize_algorithm_policy (algorithms (prof_ssh_options p)) = algorithms (prof_ssh_options p)"
    using assms(1) by (simp add: profile_normal_def normalize_policy_id)
  ultimately show ?thesis using assms trim_fields_id[OF assms(1)] profile_error_normal[OF assms(1)]
    by (simp add: normalize_profile_def Let_def)
qed

section \<open>Trust\<close>

text \<open>The pinned keys: who is trusted with which fingerprint.\<close>

definition pins :: "('r, 'l) App \<Rightarrow> ((string \<times> u16 \<times> string) \<times> string) set" where
  "pins a = (\<lambda>k. (host_key_id k, key_fingerprint k)) ` set (known_hosts (w_db (a_world a)))"

definition pin_of :: "ObservedHostKey \<Rightarrow> (string \<times> u16 \<times> string) \<times> string" where
  "pin_of key = ((obs_host key, obs_port key, obs_algorithm key), obs_fingerprint key)"

abbreviation pinned :: "((string \<times> u16 \<times> string) \<times> string) set \<Rightarrow> ('r, 'l) App \<Rightarrow> bool" where
  "pinned K a \<equiv> pins a = K"

definition db_pinned :: "((string \<times> u16 \<times> string) \<times> string) set \<Rightarrow> Db \<Rightarrow> bool" where
  "db_pinned K db \<longleftrightarrow> (\<lambda>k. (host_key_id k, key_fingerprint k)) ` set (known_hosts db) = K"

lemma pins_world:
  fixes m :: "('r, 'l, 'x) wact"
  assumes "keeps (\<lambda>w. db_pinned K (w_db w)) m"
  shows "keeps (pinned K) (in_world m)"
proof (rule keepsI)
  fix a :: "('r, 'l) App" assume "pinned K a"
  then have "db_pinned K (w_db (snd (m (a_world a))))"
    using keepsD[OF assms, of "a_world a"] by (simp add: pins_def db_pinned_def)
  then show "pinned K (snd (in_world m a))"
    by (cases "m (a_world a)") (simp add: in_world_def zoom_run pins_def db_pinned_def)
qed

lemma pins_db:
  assumes "keeps (db_pinned K) m"
  shows "keeps (\<lambda>w :: ('r, 'l) World. db_pinned K (w_db w)) (with_db m)"
proof (rule keepsI)
  fix w :: "('r, 'l) World" assume "db_pinned K (w_db w)"
  with keepsD[OF assms] show "db_pinned K (w_db (snd (with_db m w)))"
    by (cases "m (w_db w)") (auto simp: with_db_def, metis snd_conv)
qed

lemma db_pinned_faults [simp]: "db_pinned K (db\<lparr>db_faults := fs\<rparr>) = db_pinned K db"
  by (simp add: db_pinned_def)

lemma keeps_connection:
  assumes "keeps (db_pinned K) m"
  shows "keeps (db_pinned K) (with_connection m)"
proof (rule keepsI)
  fix db assume db: "db_pinned K db"
  have "db_pinned K (snd (map_err storage_error m (db\<lparr>db_faults := fs\<rparr>)))" for fs
    using keepsD[OF keeps_map_err[OF assms], of "db\<lparr>db_faults := fs\<rparr>"] db by simp
  then show "db_pinned K (snd (with_connection m db))"
    using db by (auto simp: with_connection_def split: list.split option.split)
qed

text \<open>Rewriting the rows of a table other than \<^verbatim>\<open>known_hosts\<close> keeps the pins, and so does recording when a key
  was seen.\<close>

lemma pins_edit: "(\<And>db. known_hosts (f db) = known_hosts db) \<Longrightarrow> keeps (db_pinned K) (modify f)"
  by (simp add: keeps_def modify_def db_pinned_def)

lemma pins_execute: "(\<And>db db'. stmt db = Inr db' \<Longrightarrow> known_hosts db' = known_hosts db) \<Longrightarrow> keeps (db_pinned K) (execute stmt)"
  by (auto simp: keeps_def execute_def db_pinned_def split: sum.split)

lemma touch_pins: "keeps (db_pinned K) (touch_host_key key)"
proof -
  let ?g = "\<lambda>k. if host_key_id k = host_key_id key \<and> key_fingerprint k = key_fingerprint key
      then k\<lparr>key_last_seen_at := key_last_seen_at key\<rparr> else k"
  have "(\<lambda>k. (host_key_id k, key_fingerprint k)) ` set (map ?g rows) = (\<lambda>k. (host_key_id k, key_fingerprint k)) ` set rows" for rows
    unfolding set_map image_image by (rule image_cong) (auto simp: host_key_id_def)
  then show ?thesis unfolding touch_host_key_def
    by (intro keeps_connection keepsI) (simp add: modify_run db_pinned_def)
qed

lemma read_pins:
  "keeps (db_pinned K) (get_profile uid)" "keeps (db_pinned K) (host_keys_of host port)"
  "keeps (db_pinned K) (save_transfer job)"
proof -
  show "keeps (db_pinned K) (get_profile uid)" unfolding get_profile_def
    by (intro keeps_map_err keeps_connection keepsI) (simp split: option.split)
  show "keeps (db_pinned K) (host_keys_of host port)" unfolding host_keys_of_def
    by (intro keeps_connection keeps_gets)
  show "keeps (db_pinned K) (save_transfer job)" unfolding save_transfer_def
    by (intro keeps_connection pins_execute) (auto simp: upsert_transfer_def split: if_splits)
qed

lemmas pins_intros = keeps_intros pins_world pins_db touch_pins read_pins

lemma pins_other:
  "keeps (pinned K) (get_secret uid kind)" "keeps (pinned K) (set_secret uid kind secret)"
  "keeps (pinned K) new_uuid" "keeps (pinned K) (spawn_task uid)"
  "keeps (pinned K) (insert_session sid session)" "keeps (pinned K) (remove_session sid)"
  by (auto simp: keeps_def pins_def get_secret_def set_secret_def with_keyring_def map_err_run run_simps new_uuid_def
      spawn_task_def insert_session_def remove_session_def in_world_def zoom_run
      split: list.split option.split prod.split sum.split)

lemma pins_local: "keeps (\<lambda>w. db_pinned K (w_db w)) (on_disk m)" "keeps (\<lambda>w. db_pinned K (w_db w)) (with_remote op)"
  by (auto simp: keeps_def on_disk_def with_remote_def split: prod.split)

lemma pins_modify: "(\<And>a. a_world (f a) = a_world a) \<Longrightarrow> keeps (pinned K) (modify f)"
  by (simp add: keeps_def modify_def pins_def)

lemma keeps_clock: "(\<And>now. keeps P (k now)) \<Longrightarrow> keeps P (clock k)"
  by (simp add: keeps_def clock_def)

lemma keeps_at: "(\<And>w. keeps P (m w)) \<Longrightarrow> keeps P (\<lambda>w. m w w)"
  by (simp add: keeps_def)

lemma pins_queue:
  "keeps (\<lambda>w. db_pinned K (w_db w)) (on_queue m)"
  "keeps (\<lambda>w. db_pinned K (w_db w)) n \<Longrightarrow> keeps (\<lambda>w. db_pinned K (w_db w)) (locked n)"
  by (auto simp: keeps_def on_queue_def locked_def interfere_def zoom_run split: prod.split list.split)

lemma pins_requeue:
  "keeps (\<lambda>w. db_pinned K (w_db w)) (for_each (\<lambda>uid. clock (\<lambda>now.
     and_then (on_queue (update_and_get uid (transition now uid Queued))) persist_transfer)) uids)"
  unfolding persist_transfer_def
  by (intro keeps_for_each keeps_clock keeps_and_then pins_queue pins_db read_pins)

lemma pins_resume: "keeps (pinned K) (resume_profile_transfers uid)"
proof -
  have "keeps (\<lambda>w. db_pinned K (w_db w)) (resume_jobs uid)"
    unfolding resume_jobs_def Let_def
    by (rule pins_queue, rule keeps_at, rule keeps_and_then, rule pins_requeue, rule keeps_ok)
  then show ?thesis unfolding resume_profile_transfers_def
    by (intro keeps_and_then pins_world keeps_for_each pins_other)
qed

lemma pins_resolve: "keeps (pinned K) (resolve_sftp_auth profile credential)"
  "keeps (pinned K) (resolve_ftp_password profile credential)"
  unfolding resolve_sftp_auth_def resolve_ftp_password_def or_stored_def required_password_def is_file_def on_local_def Let_def
  by (intro pins_intros pins_other pins_local | (split AuthRef.split option.split prod.split sum.split, intro conjI allI impI))+

lemma pins_jump: "keeps (pinned K) (resolve_jump profile)"
  unfolding resolve_jump_def
  by (intro pins_intros pins_resolve | (split option.split prod.split, intro conjI allI impI))+

lemma pins_register: "keeps (pinned K) (register_session profile client resume)"
  unfolding register_session_def by (intro keeps_intros pins_other pins_resume)

lemma pins_remember: "keeps (pinned K) (persist_supplied_secret profile supplied)"
  unfolding persist_supplied_secret_def
  by (intro keeps_intros pins_other | (split option.split prod.split, intro conjI allI impI))+

lemma pins_ask: "keeps (pinned K) (ask_for_trust pending c)"
  unfolding ask_for_trust_def Let_def by (intro keeps_intros pins_other pins_modify) simp

lemma pins_dial:
  "keeps (\<lambda>w. db_pinned K (w_db w)) (\<lambda>w. case f (w_remote w) of (r, s) \<Rightarrow> (Inr r, w\<lparr>w_remote := s\<rparr>))"
  by (simp add: keeps_def split: prod.split)

lemma pins_connect_auth: "keeps (pinned K) (connect_sftp_with_auth be profile auth supplied prefs resume)"
  unfolding connect_sftp_with_auth_def read_clock_def
  by (intro pins_intros pins_dial pins_jump pins_register pins_remember pins_ask
      | (split option.split prod.split sum.split, intro conjI allI impI))+

lemma pins_server: "keeps (pinned K) (on_server m)"
  by (intro pins_world) (rule pins_local)

lemma pins_sftp: "keeps (pinned K) (connect_sftp be profile credential prefs resume)"
  unfolding connect_sftp_def
  by (intro keeps_and_then pins_resolve) (simp add: pins_connect_auth split: prod.split)

lemma pins_ftp: "keeps (pinned K) (connect_ftp be profile credential prefs resume)"
  unfolding connect_ftp_def
  by (intro keeps_and_then pins_resolve)
    (auto split: prod.split intro!: keeps_and_then pins_server pins_remember pins_register)

lemma pins_by_protocol: "keeps (pinned K) (connect_by_protocol be profile credential prefs resume)"
  unfolding connect_by_protocol_def by (intro keeps_if pins_sftp pins_ftp)

lemma pins_connect: "keeps (pinned K) (connect_profile be uid credential)"
  unfolding connect_profile_def by (intro pins_intros pins_by_protocol)

lemma pins_replace: "keeps (pinned K) (replace_sessions sid stale)"
proof -
  have "keeps (pinned K) (in_world (modify (\<lambda>w. w\<lparr>w_sessions := f (w_sessions w)\<rparr>)))" for f
    by (rule pins_world) (simp add: keeps_def modify_def)
  then show ?thesis unfolding replace_sessions_def find_session_def
    by (intro keeps_intros) (auto split: option.split intro!: keeps_intros pins_other)
qed

lemma pins_reconnect: "keeps (pinned K) (reconnect_profile_for_transfer be t uid)"
  unfolding reconnect_profile_for_transfer_def
  by (intro pins_intros pins_by_protocol)
    (auto split: ConnectResult.split intro!: keeps_intros pins_replace pins_server pins_modify)

text \<open>What is kept of any pins is kept of the pins there are.\<close>

lemma pins_any: "(\<And>K. keeps (pinned K) m) \<Longrightarrow> pins (snd (m a)) = pins a"
  by (auto simp: keeps_def)

text \<open>The pins after one key was accepted: only its own entry is new, and those of other endpoints and
  algorithms stay.\<close>

definition accepts :: "(string \<times> u16 \<times> string) \<times> string \<Rightarrow> ((string \<times> u16 \<times> string) \<times> string) set
  \<Rightarrow> ((string \<times> u16 \<times> string) \<times> string) set \<Rightarrow> bool" where
  "accepts new K K' \<longleftrightarrow> K' \<subseteq> insert new K \<and> {pin \<in> K. fst pin \<noteq> fst new} \<subseteq> K'"

lemma accepts_refl [simp]: "accepts new K K"
  by (auto simp: accepts_def)

lemma host_key_id_seen [simp]: "host_key_id (k\<lparr>key_last_seen_at := t\<rparr>) = host_key_id k"
  by (simp add: host_key_id_def)

lemma image_rows_touched:
  "(\<lambda>k. (host_key_id k, key_fingerprint k)) ` set (map (\<lambda>k. if P k then k\<lparr>key_last_seen_at := t\<rparr> else k) rows)
   = (\<lambda>k. (host_key_id k, key_fingerprint k)) ` set rows"
  unfolding set_map image_image by (rule image_cong) auto

lemma trust_row:
  "accepts (host_key_id key, key_fingerprint key) ((\<lambda>k. (host_key_id k, key_fingerprint k)) ` set (known_hosts db))
     ((\<lambda>k. (host_key_id k, key_fingerprint k)) ` set (known_hosts (snd (trust_host_key key db))))"
  unfolding trust_host_key_def with_connection_def
  by (auto simp: map_err_run modify_run accepts_def image_iff split: list.split option.split) metis+

lemma pin_of_trusted [simp]: "(host_key_id (trusted_key now key), key_fingerprint (trusted_key now key)) = pin_of key"
  by (simp add: trusted_key_def host_key_id_def pin_of_def)

lemma trust_accepts: "accepts (pin_of key) (pins a) (pins (snd (in_db (trust_host_key (trusted_key now key)) a)))"
  using trust_row[of "trusted_key now key" "w_db (a_world a)"]
  by (auto simp: in_world_def zoom_run with_db_def pins_def split: prod.split)

text \<open>What one step adds by accepting a key, the others keep.\<close>

lemma accepts_then:
  fixes m :: "('r, 'l, 'a) app" and k :: "'a \<Rightarrow> ('r, 'l, 'b) app"
  assumes "accepts new (pins a) (pins (snd (m a)))" "\<And>x K. keeps (pinned K) (k x)"
  shows "accepts new (pins a) (pins (snd (and_then m k a)))"
  using assms(1) pins_any[OF assms(2)]
  by (cases "m a") (auto simp: and_then_run split: sum.split)

lemma kept_then:
  assumes "\<And>K. keeps (pinned K) m" "\<And>x a. accepts new (pins a) (pins (snd (k x a)))"
  shows "accepts new (pins a) (pins (snd (and_then m k a)))"
proof -
  obtain r a' where m: "m a = (r, a')" by fastforce
  have "pins a' = pins a" using pins_any[OF assms(1), of a] m by simp
  then show ?thesis using assms(2)[of a'] m by (auto simp: and_then_run split: sum.split)
qed

lemma accept_steps:
  fixes be :: "('r, 'h, 's) backend" and b :: "('r, 'l) App"
  shows "accepts (pin_of key) (pins b) (pins (snd (and_then read_clock (\<lambda>now.
      and_then (in_db (trust_host_key (trusted_key now key))) (\<lambda>_.
      and_then (connect_sftp_with_auth be profile auth supplied prefs True) (\<lambda>r. ok (Some r)))) b)))"
  unfolding read_clock_def
  by (rule kept_then, rule keeps_gets, rule accepts_then, rule trust_accepts)
    (intro keeps_intros pins_connect_auth)

lemma trust_command_accepts:
  assumes "a_pending a challenge = Some pending"
  shows "accepts (pin_of (pend_key pending)) (pins a) (pins (snd (trust_host_key_command be challenge True a)))"
proof -
  have "pins (a\<lparr>a_pending := p\<rparr>) = pins a" for p by (simp add: pins_def)
  with accept_steps[of "pend_key pending" "a\<lparr>a_pending := (a_pending a)(challenge := None)\<rparr>" be] assms
  show ?thesis by (simp add: trust_host_key_command_def gets_run modify_run and_then_run[of "gets _"]
      and_then_run[of "modify _"] ok_run)
qed

lemma trust_command_refused:
  assumes "a_pending a challenge = None \<or> \<not> accept"
  shows "pins (snd (trust_host_key_command be challenge accept a)) = pins a"
  using assms by (auto simp: trust_host_key_command_def run_simps pins_def split: option.split)

section \<open>Saving a profile\<close>

lemma with_connection_Inr:
  assumes "with_connection m db = (Inr x, db')"
  shows "m (db\<lparr>db_faults := tl (db_faults db)\<rparr>) = (Inr x, db')"
  using assms by (auto simp: with_connection_def map_err_run split: list.splits option.splits prod.splits sum.splits)

lemma in_db_Inr:
  assumes "in_db m a = (Inr x, a')"
  obtains db' where "m (w_db (a_world a)) = (Inr x, db')" "a' = a\<lparr>a_world := (a_world a)\<lparr>w_db := db'\<rparr>\<rparr>"
  using assms by (auto simp: in_world_def zoom_run with_db_def split: prod.splits)

lemma save_row_Inr:
  assumes "db_ok db" "save_profile_row p db = (Inr u, db')"
  shows "profile_in uid db' = (if uid = prof_id p then Some p else profile_in uid db)"
proof -
  have db': "db' = db\<lparr>db_faults := tl (db_faults db), connection_profiles :=
      upsert pr_id merge_profile (profile_to_row p) (connection_profiles db)\<rparr>"
    using with_connection_Inr[OF assms(2)[unfolded save_profile_row_def]] by (simp add: modify_run)
  have "distinct (map pr_id (connection_profiles db))" using assms(1) by (simp add: db_ok_def)
  from profiles.get_put[OF this] show ?thesis unfolding db' profile_in_def by simp
qed

lemma save_profile_Inr:
  assumes "save_profile lower profile a = (Inr p, a')"
  obtains db' where "normalize_profile lower (w_now (a_world a)) profile = Inr p"
    "save_profile_row p (w_db (a_world a)) = (Inr (), db')" "a' = a\<lparr>a_world := (a_world a)\<lparr>w_db := db'\<rparr>\<rparr>"
  using assms unfolding save_profile_def read_clock_def
  by (auto simp: ok_run gets_run lift_result_run elim!: and_then_InrD in_db_Inr)

section \<open>Importing\<close>

lemma trust_row_there:
  assumes "trust_host_key key db = (Inr u, db')"
  shows "(host_key_id key, key_fingerprint key) \<in> (\<lambda>k. (host_key_id k, key_fingerprint k)) ` set (known_hosts db')"
proof -
  let ?row = "find_row (\<lambda>k. host_key_id k = host_key_id key) (known_hosts db)"
  note run = with_connection_Inr[OF assms[unfolded trust_host_key_def], symmetric]
  show ?thesis
  proof (cases "map_option key_fingerprint ?row = Some (key_fingerprint key)")
    case True
    then obtain k where k: "k \<in> set (known_hosts db)" "host_key_id k = host_key_id key"
      "key_fingerprint k = key_fingerprint key" by (auto dest: find_row_Some)
    have "known_hosts db' = map (\<lambda>k. if host_key_id k = host_key_id key
        then k\<lparr>key_last_seen_at := key_last_seen_at key\<rparr> else k) (known_hosts db)"
      using run True by (simp add: modify_run)
    from arg_cong[OF this, of "\<lambda>rows. (\<lambda>k. (host_key_id k, key_fingerprint k)) ` set rows"]
    have "(\<lambda>k. (host_key_id k, key_fingerprint k)) ` set (known_hosts db') = (\<lambda>k. (host_key_id k, key_fingerprint k)) ` set (known_hosts db)"
      unfolding image_rows_touched .
    then show ?thesis using k(1) by (simp only: k(2,3)[symmetric]) (rule imageI)
  next
    case False
    then have "\<not> (\<exists>k. ?row = Some k \<and> key_fingerprint k = key_fingerprint key)" by auto
    with run show ?thesis by (simp add: modify_run if_not_P)
  qed
qed

text \<open>The keys accepted one after the other: the last one of an endpoint and an algorithm counts.\<close>

lemma trust_all:
  assumes "for_each (\<lambda>key. in_db (trust_host_key (trusted_key now key))) keys a = (Inr u, a')"
  shows "pins a' \<subseteq> pin_of ` set keys \<union> pins a
    \<and> (\<forall>pin \<in> pins a. fst pin \<notin> fst ` pin_of ` set keys \<longrightarrow> pin \<in> pins a')
    \<and> (\<forall>before key after. keys = before @ key # after \<longrightarrow>
         (\<forall>later \<in> set after. fst (pin_of later) = fst (pin_of key) \<longrightarrow> pin_of later = pin_of key) \<longrightarrow> pin_of key \<in> pins a')"
  using assms
proof (induction keys arbitrary: a rule: list.induct)
  case (Cons x xs)
  from Cons.prems obtain a1 where one: "in_db (trust_host_key (trusted_key now x)) a = (Inr (), a1)"
    and rest: "for_each (\<lambda>key. in_db (trust_host_key (trusted_key now key))) xs a1 = (Inr u, a')"
    by (auto elim!: and_then_InrD)
  have acc: "accepts (pin_of x) (pins a) (pins a1)" using trust_accepts[of x a now] one by simp
  have new: "pin_of x \<in> pins a1"
    using one trust_row_there[of "trusted_key now x"] by (auto simp: pins_def elim!: in_db_Inr)
  note ih = Cons.IH[OF rest]
  have "pin_of key \<in> pins a'" if split: "x # xs = before @ key # after"
    and last: "\<forall>later \<in> set after. fst (pin_of later) = fst (pin_of key) \<longrightarrow> pin_of later = pin_of key" for before key after
  proof (cases before)
    case (Cons y ys)
    then show ?thesis using ih split last by simp
  next
    case Nil
    show ?thesis
    proof (cases "fst (pin_of x) \<in> fst ` pin_of ` set xs")
      case True
      then obtain k where "k \<in> set xs" "pin_of k = pin_of x" using last split Nil by auto
      then obtain b c where "xs = b @ k # c" by (meson split_list)
      then show ?thesis using ih last split Nil \<open>pin_of k = pin_of x\<close> by fastforce
    next
      case False
      then show ?thesis using ih new split Nil by auto
    qed
  qed
  moreover have "pins a' \<subseteq> pin_of ` set (x # xs) \<union> pins a" using ih acc by (auto simp: accepts_def)
  moreover have "\<forall>pin \<in> pins a. fst pin \<notin> fst ` pin_of ` set (x # xs) \<longrightarrow> pin \<in> pins a'"
    using ih acc by (auto simp: accepts_def)
  ultimately show ?case by blast
qed (auto simp: ok_run)

lemma on_local_Inr:
  assumes "on_local f m a = (Inr x, a')"
  shows "\<exists>d'. m (w_fs (a_world a)) (w_disk (a_world a)) = (Inr x, d') \<and> a' = a\<lparr>a_world := (a_world a)\<lparr>w_disk := d'\<rparr>\<rparr>"
  using assms by (auto simp: on_local_def in_world_def zoom_run map_err_run on_disk_def split: prod.splits sum.splits)

lemma pinned_trusted: "pin_of key \<in> pins a \<Longrightarrow> stored_classify (known_hosts (w_db (a_world a))) key = Trusted"
  by (auto simp: pins_def stored_classify_def pin_of_def host_key_id_def at_endpoint_def same_key_def list_ex_iff Let_def)

section \<open>Properties\<close>


definition demo_app :: "(string \<rightharpoonup> bytes) \<Rightarrow> (store, store) App" where
  "demo_app disk = \<lparr>a_world = (demo_world demo_job Map.empty disk)\<lparr>w_now := 7\<rparr>, a_pending = Map.empty, a_keyring = Map.empty,
     a_keyring_faults = [], a_uuids = (\<lambda>n. CHR ''u'' # show_nat n), a_issued = 0, a_last_reconnect = Map.empty, a_searches = Map.empty,
     a_edits = Map.empty, a_edit_root = ''/edits'', a_scheduler = new_scheduler 2 2, a_spawned = [], a_home = None,
     a_diagnostics_enabled = False\<rparr>"

definition typed_profile :: ConnectionProfile where
  "typed_profile = (new_profile ''p'' 0 ''L'' ''h'' ''u'' Agent)\<lparr>prof_label := '' web '',
     prof_initial_remote_path := ''/a//b/'', prof_tags := ['' b'', ''a'', ''A''], prof_color := Some ''#AB12ef''\<rparr>"

definition clean_profile :: ConnectionProfile where
  "clean_profile = typed_profile\<lparr>prof_label := ''web'', prof_initial_remote_path := ''/a/b'',
     prof_tags := [''A'', ''b''], prof_color := Some ''#ab12ef'', prof_updated_at := 7\<rparr>"

lemma demo_normalize: "normalize_profile (\<lambda>s. s) 7 typed_profile = Inr clean_profile"
  by code_simp

lemma demo_now: "w_now (a_world (demo_app disk)) = 7"
  by (simp add: demo_app_def)

lemma demo_save:
  "save_profile (\<lambda>s. s) typed_profile (demo_app Map.empty)
     = (Inr clean_profile, snd (save_profile (\<lambda>s. s) typed_profile (demo_app Map.empty)))"
  by (simp add: save_profile_def read_clock_def demo_now demo_normalize run_simps)
    (simp add: demo_app_def demo_defs in_world_def zoom_run with_db_def with_connection_def run_simps)




definition known_hosts_text :: string where
  "known_hosts_text = ''h1,[h2]:2222 ssh-ed25519 AAAA'' @ [char_of (10 :: nat)] @ ''*.x ssh-ed25519 BBBB''"

definition demo_openssh :: "string \<Rightarrow> PublicKey option" where
  "demo_openssh text = Some \<lparr>pk_algorithm = takeWhile (\<lambda>c. c \<noteq> CHR '' '') text, pk_fingerprint = text\<rparr>"

definition imported_keys :: "ObservedHostKey list" where
  "imported_keys = [observe ''h1'' 22 (the (demo_openssh ''ssh-ed25519 AAAA'')),
     observe ''h2'' 2222 (the (demo_openssh ''ssh-ed25519 AAAA''))]"

lemma demo_patterns:
  "parse_known_host_pattern ''[h2]:2222'' = Some (''h2'', 2222)" "parse_known_host_pattern ''h1'' = Some (''h1'', 22)"
  "parse_known_host_pattern ''*.x'' = None"
proof -
  have "parse_uint 65535 ''2222'' = Some 2222" by (simp add: parse_uint_def is_digit_def read_digits_def digit_val_def)
  moreover have "Option.bind (strip_prefix ''['' ''[h2]:2222'') (rsplit_str '']:'') = Some (''h2'', ''2222'')" by code_simp
  ultimately show "parse_known_host_pattern ''[h2]:2222'' = Some (''h2'', 2222)"
    by (simp add: parse_known_host_pattern_def starts_with_def)
qed (simp_all add: parse_known_host_pattern_def starts_with_def strip_prefix_def)

lemma demo_lines:
  "text_lines known_hosts_text = [''h1,[h2]:2222 ssh-ed25519 AAAA'', ''*.x ssh-ed25519 BBBB'']"
  "trim ''h1,[h2]:2222 ssh-ed25519 AAAA'' = ''h1,[h2]:2222 ssh-ed25519 AAAA''"
  "trim ''*.x ssh-ed25519 BBBB'' = ''*.x ssh-ed25519 BBBB''"
  "split_whitespace ''h1,[h2]:2222 ssh-ed25519 AAAA'' = [''h1,[h2]:2222'', ''ssh-ed25519'', ''AAAA'']"
  "split_whitespace ''*.x ssh-ed25519 BBBB'' = [''*.x'', ''ssh-ed25519'', ''BBBB'']"
  "split_on (\<lambda>c. c = CHR '','') ''h1,[h2]:2222'' = [''h1'', ''[h2]:2222'']" "split_on (\<lambda>c. c = CHR '','') ''*.x'' = [''*.x'']"
  by code_simp+

lemma demo_parse: "parse_known_hosts demo_openssh known_hosts_text = (imported_keys, 1)"
  unfolding parse_known_hosts_def demo_lines(1) parse_known_hosts_line_def
  by (simp add: demo_lines demo_patterns imported_keys_def demo_openssh_def starts_with_def)

lemma demo_utf8: "utf8_valid known_hosts_text"
  by code_simp

lemma demo_import:
  "import_known_hosts demo_openssh ''/k'' (demo_app [''/k'' \<mapsto> known_hosts_text])
     = (Inr \<lparr>imported = 2, skipped = 1\<rparr>,
        snd (import_known_hosts demo_openssh ''/k'' (demo_app [''/k'' \<mapsto> known_hosts_text])))"
proof -
  have "length known_hosts_text < 100" by (simp add: known_hosts_text_def)
  then show ?thesis
    by (simp add: import_known_hosts_def read_clock_def on_local_def demo_parse demo_utf8 run_simps
        demo_app_def demo_world_def demo_db_def memory_defs on_disk_def in_world_def with_db_def
        trust_host_key_def save_profile_row_def new_db_def with_connection_def imported_keys_def)
qed


end
