(* ===== verification/Transfer_Commands.thy ===== *)
theory Transfer_Commands
  imports Profiles Scheduler Transfer_Plan
begin

text \<open>
  The commands of \<^verbatim>\<open>src-tauri/src/commands.rs\<close> about preferences and transfers: starting one, starting those of a
  folder, pausing, resuming, cancelling, ordering, and answering a conflict. A blocking task of the
  runtime always finishes here; the diagnostic log is not part of the state.
\<close>

definition persist_transfer_jobs :: "TransferJob list \<Rightarrow> ('r, 'l, unit) app" where
  "persist_transfer_jobs js = in_db (save_transfers js)"

definition lock_queue :: "'a queue_act \<Rightarrow> ('r, 'l, 'a) app" where
  "lock_queue m = in_world (with_queue m)"

definition on_scheduler :: "(SchedulerState \<Rightarrow> SchedulerState) \<Rightarrow> ('r, 'l, unit) app" where
  "on_scheduler f = modify (\<lambda>a. a\<lparr>a_scheduler := f (a_scheduler a)\<rparr>)"

section \<open>Preferences\<close>

definition get_preferences :: "('r, 'l, Preferences) app" where
  "get_preferences = gets (\<lambda>a. w_prefs (a_world a))"

definition preferences_error :: "Preferences \<Rightarrow> AppError option" where
  "preferences_error prefs =
     (if pref_global_parallel_transfers prefs = 0 \<or> pref_per_host_parallel_transfers prefs = 0
      then Some (new_error InvalidInput ''Transfer concurrency must be at least one'')
      else if 12 < pref_global_parallel_transfers prefs \<or> 12 < pref_per_host_parallel_transfers prefs
        \<or> 10 < pref_automatic_retry_limit prefs
      then Some (new_error InvalidInput ''Transfer concurrency cannot exceed 12 and retries cannot exceed 10'')
      else None)"

definition save_preferences :: "Preferences \<Rightarrow> ('r, 'l, unit) app" where
  "save_preferences prefs = (case preferences_error prefs of
      Some e \<Rightarrow> err e
    | None \<Rightarrow>
        and_then (in_db (save_preferences_row prefs)) (\<lambda>_.
        and_then (modify (\<lambda>a. a\<lparr>a_world := (a_world a)\<lparr>w_prefs := prefs\<rparr>\<rparr>)) (\<lambda>_.
        and_then (on_scheduler (update_limits (pref_global_parallel_transfers prefs)
          (pref_per_host_parallel_transfers prefs))) (\<lambda>_.
        modify (\<lambda>a. a\<lparr>a_diagnostics_enabled := pref_diagnostics_enabled prefs\<rparr>)))))"

section \<open>The list\<close>

definition list_transfers :: "('r, 'l, TransferJob list) app" where
  "list_transfers = lock_queue (gets list_jobs)"

definition clear_transfers :: "TransferListFilter \<Rightarrow> ('r, 'l, TransferJob list) app" where
  "clear_transfers flt =
     and_then read_clock (\<lambda>now.
     and_then (lock_queue (\<lambda>q. case clear_filter now flt q of (removed, q') \<Rightarrow> (Inr (removed, list_jobs q'), q')))
       (\<lambda>(removed, remaining).
     and_then (in_db (delete_transfers removed)) (\<lambda>_. ok remaining)))"

section \<open>Starting a transfer\<close>

record TransferDraft =
  td_profile_id :: uuid
  td_direction :: TransferDirection
  td_source_path :: string
  td_destination_path :: string
  td_conflict_policy :: "ConflictPolicy option"
  td_symlink_policy :: "SymlinkPolicy option"
  td_preserve_modified_time :: "bool option"
  td_preserve_permissions :: "bool option"

definition unwrap_or :: "'a \<Rightarrow> 'a option \<Rightarrow> 'a" where
  "unwrap_or x v = (case v of Some y \<Rightarrow> y | None \<Rightarrow> x)"

definition link_io_error :: "string \<Rightarrow> io_error \<Rightarrow> AppError" where
  "link_io_error msg e = with_detail (new_error IoError msg) (io_text e)"

text \<open>The text of the link at the source, when the source is a link.\<close>

definition link_source :: "'r RemoteFilesystem \<Rightarrow> TransferDraft \<Rightarrow> ('r, 'l, string option) app" where
  "link_source remote draft = (case td_direction draft of
      Upload \<Rightarrow>
        and_then (on_local (link_io_error ''Could not inspect local symbolic link'')
          (\<lambda>fs. l_symlink_metadata fs (td_source_path draft))) (\<lambda>meta.
        if lm_is_symlink meta
        then and_then (attempt (on_local local_io_error (\<lambda>fs. l_read_link fs (td_source_path draft))))
          (\<lambda>r. ok (case r of Inr target \<Rightarrow> Some target | Inl _ \<Rightarrow> None))
        else ok None)
    | Download \<Rightarrow>
        and_then (on_server (metadata remote (td_source_path draft))) (\<lambda>found.
        ok (case found of Some entry \<Rightarrow> if ent_kind entry = Symlink then ent_symlink_target entry else None
            | None \<Rightarrow> None))
    | RemoteToRemote \<Rightarrow> ok None)"

definition link_destination_taken :: "'r RemoteFilesystem \<Rightarrow> TransferDraft \<Rightarrow> ('r, 'l, bool) app" where
  "link_destination_taken remote draft = (case td_direction draft of
      Upload \<Rightarrow> and_then (on_server (metadata remote (td_destination_path draft))) (\<lambda>found. ok (found \<noteq> None))
    | Download \<Rightarrow> and_then (attempt (on_local local_io_error (\<lambda>fs. l_metadata fs (td_destination_path draft))))
        (\<lambda>r. ok (case r of Inr _ \<Rightarrow> True | Inl _ \<Rightarrow> False))
    | RemoteToRemote \<Rightarrow> ok False)"

definition create_link :: "'r RemoteFilesystem \<Rightarrow> TransferDirection \<Rightarrow> string \<Rightarrow> string \<Rightarrow> ('r, 'l, unit) app" where
  "create_link remote direction path target = (case direction of
      Upload \<Rightarrow> on_server (create_symlink remote path target)
    | _ \<Rightarrow> on_local (link_io_error ''Could not create local symbolic link'') (\<lambda>fs. l_symlink fs target path))"

definition queue_job :: "TransferJob \<Rightarrow> ('r, 'l, unit) app" where
  "queue_job job = and_then (lock_queue (enqueue job)) (\<lambda>_. persist_transfer_jobs [job])"

definition draft_job :: "uuid \<Rightarrow> datetime \<Rightarrow> TransferDraft \<Rightarrow> TransferJob" where
  "draft_job uid now draft =
     (new_job uid now (td_profile_id draft) (td_direction draft) (td_source_path draft) (td_destination_path draft) None)
       \<lparr>job_conflict_policy := unwrap_or Ask (td_conflict_policy draft),
        job_symlink_policy := unwrap_or SkipLink (td_symlink_policy draft),
        job_preserve_modified_time := unwrap_or False (td_preserve_modified_time draft),
        job_preserve_permissions := unwrap_or False (td_preserve_permissions draft)\<rparr>"

definition start_job :: "TransferDraft \<Rightarrow> ('r, 'l, TransferJob) app" where
  "start_job draft =
     and_then read_clock (\<lambda>now. and_then new_uuid (\<lambda>uid.
     let job = draft_job uid now draft in
     and_then (queue_job job) (\<lambda>_. and_then (spawn_task uid) (\<lambda>_. ok job))))"

definition copy_link :: "'r RemoteFilesystem \<Rightarrow> TransferDraft \<Rightarrow> string \<Rightarrow> ('r, 'l, TransferJob) app" where
  "copy_link remote draft target =
     and_then (link_destination_taken remote draft) (\<lambda>taken.
     if taken then err (new_error AlreadyExists
       ''Review or remove the existing destination before copying this symbolic link'')
     else and_then (create_link remote (td_direction draft) (td_destination_path draft) target) (\<lambda>_.
       and_then read_clock (\<lambda>now. and_then new_uuid (\<lambda>uid.
       let job = (new_job uid now (td_profile_id draft) (td_direction draft) (td_source_path draft)
             (td_destination_path draft) (Some 0))\<lparr>job_state := Completed, job_symlink_policy := CopyLink\<rparr>
       in and_then (queue_job job) (\<lambda>_. ok job)))))"

definition enqueue_transfer :: "TransferDraft \<Rightarrow> ('r, 'l, TransferJob) app" where
  "enqueue_transfer draft =
     (if td_direction draft = RemoteToRemote
      then err (new_error InvalidInput ''Use the remote-to-remote transfer command for two remote sessions'')
      else if td_source_path draft = [] \<or> td_destination_path draft = []
      then err (new_error InvalidInput ''Source and destination are required'')
      else if td_symlink_policy draft = Some CopyLink
      then and_then (profile_client (td_profile_id draft)) (\<lambda>remote.
           and_then (link_source remote draft) (\<lambda>target. case target of
             Some t \<Rightarrow> copy_link remote draft t | None \<Rightarrow> start_job draft))
      else start_job draft)"

section \<open>Between two servers\<close>

record RemoteTransferDraft =
  rd_source_session_id :: uuid
  rd_destination_session_id :: uuid
  rd_source_path :: string
  rd_destination_path :: string
  rd_conflict_policy :: "ConflictPolicy option"

definition session_or :: "string \<Rightarrow> uuid \<Rightarrow> ('r, 'l, 'r SessionRecord) app" where
  "session_or msg session_id = and_then (find_session session_id) (\<lambda>found. case found of
      Some session \<Rightarrow> ok session | None \<Rightarrow> err (new_error ConnectionClosed msg))"

definition profile_endpoint :: "ConnectionProfile \<Rightarrow> string" where
  "profile_endpoint profile = prof_label profile @ '' ('' @ prof_host profile @ '':'' @ show_nat (unat (prof_port profile)) @ '')''"

definition remote_source_size :: "'r SessionRecord \<Rightarrow> string \<Rightarrow> ('r, 'l, nat) app" where
  "remote_source_size source path =
     and_then (on_server (metadata (sess_client source) path)) (\<lambda>found. case found of
       None \<Rightarrow> err (new_error NotFound ''The source file no longer exists'')
     | Some entry \<Rightarrow>
         if ent_kind entry \<noteq> File
         then err (new_error Unsupported ''Remote-to-remote transfer currently supports regular files'')
         else (case ent_size entry of
             None \<Rightarrow> err (new_error Unsupported ''The source server did not report a file size'')
           | Some n \<Rightarrow> ok n))"

definition enqueue_remote_transfer :: "RemoteTransferDraft \<Rightarrow> ('r, 'l, TransferJob) app" where
  "enqueue_remote_transfer draft =
     (if rd_source_session_id draft = rd_destination_session_id draft
      then err (new_error InvalidInput ''Choose a different destination session'')
      else and_then (lift_result (normalize_remote_path (rd_source_path draft))) (\<lambda>source_path.
      and_then (lift_result (normalize_remote_path (rd_destination_path draft))) (\<lambda>destination_path.
      and_then (session_or ''The source session is disconnected'' (rd_source_session_id draft)) (\<lambda>source.
      and_then (session_or ''The destination session is disconnected'' (rd_destination_session_id draft)) (\<lambda>destination.
      and_then (remote_source_size source source_path) (\<lambda>bytes_total.
      and_then (in_db (get_profile (sess_profile_id source))) (\<lambda>source_profile.
      and_then (in_db (get_profile (sess_profile_id destination))) (\<lambda>destination_profile.
      and_then read_clock (\<lambda>now. and_then new_uuid (\<lambda>uid.
      let job = (new_remote_to_remote uid now (sess_profile_id source) (rd_source_session_id draft)
            (profile_endpoint source_profile) (sess_profile_id destination) (rd_destination_session_id draft)
            (profile_endpoint destination_profile) source_path destination_path bytes_total)
            \<lparr>job_conflict_policy := unwrap_or Ask (rd_conflict_policy draft)\<rparr>
      in and_then (queue_job job) (\<lambda>_. and_then (spawn_task uid) (\<lambda>_. ok job))))))))))))"

section \<open>A folder\<close>

record DirectoryTransferDraft =
  dd_profile_id :: uuid
  dd_direction :: TransferDirection
  dd_source_path :: string
  dd_destination_path :: string
  dd_conflict_policy :: "ConflictPolicy option"
  dd_mode :: TransferPlanMode
  dd_symlink_policy :: "SymlinkPolicy option"
  dd_preserve_modified_time :: "bool option"
  dd_preserve_permissions :: "bool option"

definition ensure_remote_directories :: "'r RemoteFilesystem \<Rightarrow> TransferPlan \<Rightarrow> ('r, unit) act" where
  "ensure_remote_directories remote plan = for_each (\<lambda>path.
     and_then (metadata remote path) (\<lambda>found.
     if found \<noteq> None then ok ()
     else and_then (attempt (create_directory remote path)) (\<lambda>r. case r of
         Inr _ \<Rightarrow> ok () | Inl e \<Rightarrow> if code e = AlreadyExists then ok () else err e))) (directories plan)"

definition folder_io_error :: "io_error \<Rightarrow> AppError" where
  "folder_io_error e = with_detail (new_error (if io_kind e = IoPermissionDenied then PermissionDenied else IoError)
     ''Could not create a local destination folder'') (io_text e)"

definition ensure_local_directories :: "TransferPlan \<Rightarrow> ('r, 'l, unit) app" where
  "ensure_local_directories plan =
     for_each (\<lambda>path. on_local folder_io_error (\<lambda>fs. l_create_dir_all fs path)) (directories plan)"

text \<open>\<open>in_time\<close> tells whether the scan of a remote folder ends within the 120 seconds it is given. The disk is
  planned with the errors that \<^verbatim>\<open>plan_local_directory\<close> itself makes.\<close>

definition make_plan :: "bool \<Rightarrow> 'r RemoteFilesystem \<Rightarrow> DirectoryTransferDraft \<Rightarrow> ('r, 'l, TransferPlan) app" where
  "make_plan in_time remote draft =
     (let policy = unwrap_or SkipLink (dd_symlink_policy draft) in
      case dd_direction draft of
        Upload \<Rightarrow>
          and_then (in_world (\<lambda>w. case plan_local_directory (w_fs w) (dd_source_path draft) (dd_destination_path draft)
              True (dd_mode draft) policy (w_disk w) of (r, d) \<Rightarrow> (r, w\<lparr>w_disk := d\<rparr>))) (\<lambda>plan.
          and_then (on_server (ensure_remote_directories remote plan)) (\<lambda>_. ok plan))
      | _ \<Rightarrow>
          and_then (lift_result (normalize_remote_path (dd_source_path draft))) (\<lambda>source.
          if \<not> in_time then err (new_error TimedOut ''Scanning this folder for transfer took too long'')
          else and_then (on_server (plan_remote_directory remote source (dd_destination_path draft) False
              (dd_mode draft) policy)) (\<lambda>plan.
          and_then (ensure_local_directories plan) (\<lambda>_. ok plan))))"

definition copy_planned_link :: "'r RemoteFilesystem \<Rightarrow> TransferDirection \<Rightarrow> PlannedSymlink \<Rightarrow> ('r, 'l, unit) app" where
  "copy_planned_link remote direction link =
     and_then (if direction = Upload then and_then (on_server (metadata remote (ps_destination_path link)))
         (\<lambda>found. ok (found \<noteq> None)) else ok False) (\<lambda>taken.
     if taken then err (new_error AlreadyExists (''Review the existing destination '' @ ps_destination_path link))
     else create_link remote direction (ps_destination_path link) (ps_target link))"

definition planned_job :: "uuid \<Rightarrow> uuid \<Rightarrow> datetime \<Rightarrow> DirectoryTransferDraft \<Rightarrow> PlannedFile \<Rightarrow> TransferJob" where
  "planned_job batch uid now draft f =
     (new_job uid now (dd_profile_id draft) (dd_direction draft) (pf_source_path f) (pf_destination_path f) None)
       \<lparr>job_batch_id := Some batch, job_conflict_policy := unwrap_or Ask (dd_conflict_policy draft),
        job_symlink_policy := unwrap_or SkipLink (dd_symlink_policy draft),
        job_preserve_modified_time := unwrap_or False (dd_preserve_modified_time draft),
        job_preserve_permissions := unwrap_or False (dd_preserve_permissions draft)\<rparr>"

text \<open>All jobs of the folder are queued under one lock.\<close>

definition queue_one :: "uuid \<Rightarrow> DirectoryTransferDraft \<Rightarrow> PlannedFile \<Rightarrow> ('r, 'l, TransferJob) app" where
  "queue_one batch draft f = and_then read_clock (\<lambda>now. and_then new_uuid (\<lambda>uid.
     let job = planned_job batch uid now draft f
     in and_then (in_world (on_queue (enqueue job))) (\<lambda>_. ok job)))"

definition queue_planned :: "uuid \<Rightarrow> DirectoryTransferDraft \<Rightarrow> PlannedFile list \<Rightarrow> ('r, 'l, TransferJob list) app" where
  "queue_planned batch draft planned =
     and_then (in_world (\<lambda>w. (Inr (), interfere w))) (\<lambda>_. collect_each (queue_one batch draft) planned)"

definition enqueue_directory_transfer :: "bool \<Rightarrow> DirectoryTransferDraft \<Rightarrow> ('r, 'l, TransferJob list) app" where
  "enqueue_directory_transfer in_time draft =
     (if dd_direction draft = RemoteToRemote
      then err (new_error InvalidInput ''Remote directory transfers are not supported yet'')
      else if dd_source_path draft = [] \<or> dd_destination_path draft = []
      then err (new_error InvalidInput ''Source and destination are required'')
      else and_then (profile_client (dd_profile_id draft)) (\<lambda>remote.
      and_then (make_plan in_time remote draft) (\<lambda>plan.
      and_then (for_each (copy_planned_link remote (dd_direction draft)) (symlinks plan)) (\<lambda>_.
      and_then new_uuid (\<lambda>batch.
      and_then (queue_planned batch draft (files plan)) (\<lambda>js.
      and_then (persist_transfer_jobs js) (\<lambda>_.
      and_then (for_each (\<lambda>job. spawn_task (job_id job)) js) (\<lambda>_. ok js))))))))"

section \<open>Controlling transfers\<close>

datatype TransferAction = PauseTransfer | ResumeTransfer | CancelTransfer | RetryTransfer

definition action_state :: "TransferAction \<Rightarrow> TransferState" where
  "action_state action = (case action of PauseTransfer \<Rightarrow> Paused | CancelTransfer \<Rightarrow> Cancelled
     | ResumeTransfer \<Rightarrow> Queued | RetryTransfer \<Rightarrow> Queued)"

definition control_transfer :: "uuid \<Rightarrow> TransferAction \<Rightarrow> ('r, 'l, TransferJob) app" where
  "control_transfer uid action =
     and_then read_clock (\<lambda>now.
     and_then (lock_queue (update_and_get uid (and_then (transition now uid (action_state action))
         (\<lambda>_. set_error now uid None)))) (\<lambda>job.
     and_then (persist_transfer_jobs [job]) (\<lambda>_.
     and_then (when_do (action \<in> {ResumeTransfer, RetryTransfer}) (spawn_task uid)) (\<lambda>_. ok job))))"

definition action_candidate :: "TransferAction \<Rightarrow> TransferState \<Rightarrow> bool" where
  "action_candidate action s = (case action of
      PauseTransfer \<Rightarrow> s \<in> {Running, Queued}
    | ResumeTransfer \<Rightarrow> s \<in> {Paused, Interrupted}
    | CancelTransfer \<Rightarrow> \<not> is_terminal s
    | RetryTransfer \<Rightarrow> s = Failed)"

definition control_all_transfers :: "TransferAction \<Rightarrow> ('r, 'l, TransferJob list) app" where
  "control_all_transfers action =
     and_then (lock_queue (gets (\<lambda>q. map job_id (filter (\<lambda>job. action_candidate action (job_state job)) (list_jobs q)))))
       (\<lambda>candidates.
     and_then (for_each (\<lambda>uid. and_then (control_transfer uid action) (\<lambda>_. ok ())) candidates) (\<lambda>_.
     lock_queue (gets list_jobs)))"

definition set_transfer_priority :: "uuid \<Rightarrow> TransferPriority \<Rightarrow> ('r, 'l, TransferJob list) app" where
  "set_transfer_priority uid priority =
     and_then read_clock (\<lambda>now.
     and_then (lock_queue (and_then (update_and_get uid (set_priority now uid priority)) (\<lambda>job.
         gets (\<lambda>q. (job, list_jobs q))))) (\<lambda>(job, js).
     and_then (persist_transfer_jobs [job]) (\<lambda>_.
     and_then (on_scheduler (set_waiting_order (map job_id js))) (\<lambda>_. ok js))))"

definition reorder_transfer :: "uuid \<Rightarrow> uuid option \<Rightarrow> ('r, 'l, TransferJob list) app" where
  "reorder_transfer uid before =
     and_then (lock_queue (and_then (reorder uid before) (\<lambda>_. gets list_jobs))) (\<lambda>js.
     and_then (on_scheduler (set_waiting_order (map job_id js))) (\<lambda>_. ok js))"

section \<open>Conflicts\<close>

definition conflict_targets :: "uuid \<Rightarrow> bool \<Rightarrow> TransferJob \<Rightarrow> TransferQueue \<Rightarrow> uuid list" where
  "conflict_targets uid whole_batch current q = map job_id (filter (\<lambda>job.
     job_id job = uid \<or> (whole_batch \<and> job_batch_id current \<noteq> None \<and> job_batch_id job = job_batch_id current
       \<and> \<not> is_terminal (job_state job))) (list_jobs q))"

text \<open>One target: its new job, and whether its task has to be started again.\<close>

definition settle_conflict :: "datetime \<Rightarrow> ConflictPolicy \<Rightarrow> uuid \<Rightarrow> (TransferJob \<times> bool) queue_act" where
  "settle_conflict now policy uid =
     and_then (update_and_get uid (update_conflict_policy now uid policy)) (\<lambda>job.
     if job_state job = WaitingForConflict
     then and_then (update_and_get uid (transition now uid Queued)) (\<lambda>job'. ok (job', True))
     else ok (job, False))"

definition resolve_conflict_locked :: "datetime \<Rightarrow> uuid \<Rightarrow> ConflictPolicy \<Rightarrow> bool \<Rightarrow> (TransferJob \<times> bool) list queue_act" where
  "resolve_conflict_locked now uid policy whole_batch = (\<lambda>q. case get_job q uid of
      None \<Rightarrow> (Inl job_not_found, q)
    | Some current \<Rightarrow>
        if job_state current \<noteq> WaitingForConflict
        then (Inl (new_error Conflict ''The transfer is not waiting for a conflict decision''), q)
        else collect_each (settle_conflict now policy) (conflict_targets uid whole_batch current q) q)"

definition resolve_transfer_conflict :: "uuid \<Rightarrow> ConflictPolicy \<Rightarrow> bool option \<Rightarrow> ('r, 'l, TransferJob list) app" where
  "resolve_transfer_conflict uid policy apply_to_batch =
     (if policy = Ask then err (new_error InvalidInput ''Choose skip, overwrite, or keep both'')
      else and_then read_clock (\<lambda>now.
      and_then (lock_queue (resolve_conflict_locked now uid policy (unwrap_or False apply_to_batch))) (\<lambda>settled_jobs.
      and_then (persist_transfer_jobs (map fst settled_jobs)) (\<lambda>_.
      and_then (for_each (\<lambda>(job, again). when_do again (spawn_task (job_id job))) settled_jobs) (\<lambda>_.
      ok (map fst settled_jobs))))))"

end
