(* ===== verification/Transfer_Command_Laws.thy ===== *)
theory Transfer_Command_Laws
  imports Transfer_Commands Profile_Laws
begin

text \<open>
  What the transfer commands keep and what they achieve: the queue, the database and the scheduler after
  a command, for a whole folder, for a batch of conflicts, and where an error leaves something behind.
\<close>

section \<open>The consistent states\<close>

text \<open>Other tasks and commands act on the queue between two steps of a command. They keep it well formed and do not
  use the identifiers of this command.\<close>

definition polite :: "(nat \<Rightarrow> uuid) \<Rightarrow> (TransferQueue \<Rightarrow> TransferQueue) \<Rightarrow> bool" where
  "polite uuids f \<longleftrightarrow> (\<forall>q. queue_wf q \<longrightarrow> queue_wf (f q) \<and>
     (\<forall>n. uuids n \<in> dom (jobs (f q)) \<longrightarrow> uuids n \<in> dom (jobs q)))"

definition app_ok :: "('r, 'l) App \<Rightarrow> bool" where
  "app_ok a \<longleftrightarrow> queue_wf (w_queue (a_world a)) \<and> db_ok (w_db (a_world a)) \<and> inj (a_uuids a)
     \<and> (\<forall>n \<ge> a_issued a. a_uuids a n \<notin> dom (jobs (w_queue (a_world a))))
     \<and> (\<forall>f \<in> set (w_env (a_world a)). polite (a_uuids a) f)"

text \<open>The part of it that lives in the world, for the identifiers from \<open>n\<close> on.\<close>

definition world_ok :: "(nat \<Rightarrow> uuid) \<Rightarrow> nat \<Rightarrow> ('r, 'l) World \<Rightarrow> bool" where
  "world_ok uuids n w \<longleftrightarrow> queue_wf (w_queue w) \<and> db_ok (w_db w) \<and> (\<forall>k \<ge> n. uuids k \<notin> dom (jobs (w_queue w)))
     \<and> (\<forall>f \<in> set (w_env w). polite uuids f)"

lemma app_ok_world: "app_ok a \<longleftrightarrow> inj (a_uuids a) \<and> world_ok (a_uuids a) (a_issued a) (a_world a)"
  by (auto simp: app_ok_def world_ok_def)

lemma ok_in_world:
  fixes m :: "('r, 'l, 'x) wact"
  assumes "\<And>uuids n. keeps (world_ok uuids n) m"
  shows "keeps app_ok (in_world m)"
proof (rule keepsI)
  fix a :: "('r, 'l) App" assume ok: "app_ok a"
  obtain r w where m: "m (a_world a) = (r, w)" by fastforce
  from ok have "world_ok (a_uuids a) (a_issued a) w"
    using keeps_run[OF assms m] by (auto simp: app_ok_world)
  with ok m show "app_ok (snd (in_world m a))" by (simp add: in_world_def zoom_run app_ok_world)
qed

lemma interfere_ok:
  assumes "world_ok uuids n w"
  shows "world_ok uuids n (interfere w)"
proof (cases "w_env w")
  case (Cons f fs)
  with assms have f: "polite uuids f" and wf: "queue_wf (w_queue w)" by (simp_all add: world_ok_def)
  then have "queue_wf (f (w_queue w))" by (simp add: polite_def)
  moreover have "uuids k \<notin> dom (jobs (f (w_queue w)))" if "n \<le> k" for k
    using f wf assms that by (auto simp: polite_def world_ok_def)
  ultimately show ?thesis using assms Cons by (simp add: world_ok_def interfere_def)
qed (use assms in \<open>simp add: interfere_def\<close>)

text \<open>What an operation on the queue may do under the lock: keep it well formed and add no job.\<close>

definition calm :: "uuid set \<Rightarrow> TransferQueue \<Rightarrow> bool" where
  "calm D q \<longleftrightarrow> queue_wf q \<and> dom (jobs q) \<subseteq> D"

lemma calm_world:
  assumes "\<And>D. keeps (calm D) m" "world_ok uuids n w" "m (w_queue w) = (r, q)"
  shows "world_ok uuids n (w\<lparr>w_queue := q\<rparr>)"
proof -
  have "calm (dom (jobs (w_queue w))) (w_queue w)" using assms(2) by (simp add: calm_def world_ok_def)
  from keeps_run[OF assms(1,3) this] have "queue_wf q" "dom (jobs q) \<subseteq> dom (jobs (w_queue w))"
    by (simp_all add: calm_def)
  with assms(2) show ?thesis by (auto simp: world_ok_def)
qed

lemma ok_with_queue:
  assumes "\<And>D. keeps (calm D) m"
  shows "keeps (world_ok uuids n) (with_queue m)"
proof (rule keepsI)
  fix w assume "world_ok uuids n w"
  then have ok: "world_ok uuids n (interfere w)" by (rule interfere_ok)
  obtain r q where m: "m (w_queue (interfere w)) = (r, q)" by fastforce
  from calm_world[OF assms ok m] m show "world_ok uuids n (snd (with_queue m w))"
    by (simp add: with_queue_def Let_def)
qed

lemma ok_with_db:
  assumes "keeps db_ok m"
  shows "keeps (world_ok uuids n) (with_db m)"
proof (rule keepsI)
  fix w assume w: "world_ok uuids n w"
  obtain r db where m: "m (w_db w) = (r, db)" by fastforce
  from keeps_run[OF assms m] w m show "world_ok uuids n (snd (with_db m w))"
    by (simp add: with_db_def world_ok_def)
qed

lemma ok_outside:
  "keeps (world_ok uuids n) (on_disk d)" "keeps (world_ok uuids n) (with_remote s)"
  by (auto simp: keeps_def on_disk_def with_remote_def world_ok_def split: prod.split)

lemma ok_modify: "(\<And>a. app_ok (f a) = app_ok a) \<Longrightarrow> keeps app_ok (modify f)"
  by (simp add: keeps_def modify_def)

lemma ok_scheduler: "keeps app_ok (on_scheduler f)" "keeps app_ok (spawn_task uid)"
  unfolding on_scheduler_def spawn_task_def by (rule ok_modify, simp add: app_ok_def)+

lemma calm_step:
  assumes "\<And>q. queue_wf q \<Longrightarrow> queue_wf (snd (m q))" "\<And>q. dom (jobs (snd (m q))) = dom (jobs q)"
  shows "keeps (calm D) m"
  using assms by (simp add: keeps_def calm_def)

lemma same_jobs:
  "dom (jobs (snd (job_mut uid f q))) = dom (jobs q)"
  "dom (jobs (snd (transition now uid nxt q))) = dom (jobs q)"
  "dom (jobs (snd (set_priority now uid p q))) = dom (jobs q)"
  "dom (jobs (snd (reorder uid before q))) = dom (jobs q)"
  by (auto simp: job_mut_jobs transition_def set_priority_run reorder_def Let_def split: option.splits if_splits)

lemma calm_ops:
  "(\<And>job. job_id (f job) = job_id job) \<Longrightarrow> keeps (calm D) (job_mut uid f)"
  "keeps (calm D) (transition now uid nxt)" "keeps (calm D) (set_priority now uid p)"
  "keeps (calm D) (reorder uid before)"
  by (rule calm_step, simp_all add: job_mut_wf transition_wf set_priority_wf reorder_wf same_jobs)+

lemma calm_get: "keeps (calm D) (\<lambda>q. case get_job q uid of None \<Rightarrow> (Inl e, q) | Some job \<Rightarrow> (Inr job, q))"
  by (simp add: keeps_def split: option.split)

lemma calm_update: "keeps (calm D) m \<Longrightarrow> keeps (calm D) (update_and_get uid m)"
  unfolding update_and_get_def by (intro keeps_and_then calm_get)

lemma keeps_collect: "(\<And>x. keeps P (f x)) \<Longrightarrow> keeps P (collect_each f xs)"
  by (induction xs) (auto intro: keeps_intros)

lemma calm_clear: "keeps (calm D) (\<lambda>q. case clear_filter now flt q of (ids, q') \<Rightarrow> (Inr (ids, list_jobs q'), q'))"
proof (rule keepsI)
  fix q assume c: "calm D q"
  then have wf: "queue_wf q" by (simp add: calm_def)
  have "dom (jobs (snd (clear_filter now flt q))) \<subseteq> dom (jobs q)"
    unfolding clear_filter_run[OF wf] by (auto simp: restrict_map_def split: if_splits)
  then have "calm D (snd (clear_filter now flt q))" using c clear_filter_wf[OF wf, of now flt] by (auto simp: calm_def)
  then show "calm D (snd (case clear_filter now flt q of (ids, q') \<Rightarrow> (Inr (ids, list_jobs q'), q')))"
    by (cases "clear_filter now flt q") simp
qed

section \<open>What every command keeps\<close>

lemma and_then_assoc: "and_then (and_then m f) g = and_then m (\<lambda>x. and_then (f x) g)"
  by (rule ext) (simp add: and_then_run split: prod.split sum.split)

lemma ok_lock: "(\<And>D. keeps (calm D) m) \<Longrightarrow> keeps app_ok (lock_queue m)"
  unfolding lock_queue_def by (rule ok_in_world, rule ok_with_queue)

lemma ok_db: "keeps db_ok m \<Longrightarrow> keeps app_ok (in_db m)"
  by (rule ok_in_world, rule ok_with_db)

lemma ok_local: "keeps app_ok (on_local f m)"
  unfolding on_local_def by (rule ok_in_world, rule keeps_map_err, rule ok_outside)

lemma ok_server: "keeps app_ok (on_server m)"
  by (rule ok_in_world, rule ok_outside)

lemma ok_find: "keeps app_ok (find_session sid)" "keeps app_ok (profile_client uid)"
  unfolding find_session_def profile_client_def
  by (intro keeps_intros | simp split: option.split add: keeps_intros)+

lemma ok_uuid: "keeps app_ok new_uuid"
proof (rule keepsI)
  fix a :: "('a, 'b) App" assume "app_ok a"
  then show "app_ok (snd (new_uuid a))" by (simp add: new_uuid_def app_ok_def)
qed

lemma read_db_ok:
  "keeps db_ok (get_profile uid)" "keeps db_ok (save_transfers js)" "keeps db_ok (delete_transfers uids)"
  "keeps db_ok (save_preferences_row prefs)"
proof -
  show "keeps db_ok (get_profile uid)" unfolding get_profile_def
    by (intro keeps_map_err keeps_with_connection keepsI) (simp split: option.split)
qed (intro storage_calls_ok)+

lemma ok_persist: "keeps app_ok (persist_transfer_jobs js)"
  unfolding persist_transfer_jobs_def by (rule ok_db, rule read_db_ok)

lemma ok_clock: "keeps app_ok read_clock"
  unfolding read_clock_def by (rule keeps_gets)

text \<open>Taking an identifier and queueing a job under it.\<close>

lemma enqueue_fresh:
  assumes "inj uuids" "world_ok uuids n w" "job_id job = uuids n"
  shows "world_ok uuids (Suc n) (w\<lparr>w_queue := snd (enqueue job (w_queue w))\<rparr>)"
proof -
  have "jobs (w_queue w) (uuids n) = None" using assms(2) by (auto simp: world_ok_def)
  then have "queue_wf (snd (enqueue job (w_queue w)))"
    using assms(2,3) by (intro enqueue_wf) (simp_all add: world_ok_def)
  moreover have "uuids k \<noteq> uuids n" if "Suc n \<le> k" for k using injD[OF assms(1), of k n] that by auto
  ultimately show ?thesis using assms(2,3) by (auto simp: world_ok_def enqueue_def)
qed

lemma ok_new_job:
  assumes "\<And>uid. job_id (j uid) = uid" "\<And>uid. keeps app_ok (k uid)"
  shows "keeps app_ok (and_then new_uuid (\<lambda>uid. and_then (lock_queue (enqueue (j uid))) (\<lambda>_. k uid)))"
proof (rule keepsI)
  fix a :: "('a, 'b) App" assume ok: "app_ok a"
  let ?n = "a_issued a" let ?uid = "a_uuids a ?n"
  let ?w = "interfere (a_world a)"
  let ?a = "a\<lparr>a_issued := Suc ?n, a_world := ?w\<lparr>w_queue := snd (enqueue (j ?uid) (w_queue ?w))\<rparr>\<rparr>"
  have "world_ok (a_uuids a) ?n ?w" using ok by (intro interfere_ok) (simp add: app_ok_world)
  then have "app_ok ?a" using ok assms(1) by (simp add: app_ok_world enqueue_fresh)
  then have "app_ok (snd (k ?uid ?a))" by (rule keepsD[OF assms(2)])
  then show "app_ok (snd (and_then new_uuid (\<lambda>uid. and_then (lock_queue (enqueue (j uid))) (\<lambda>_. k uid)) a))"
    by (simp add: and_then_run new_uuid_def lock_queue_def in_world_def zoom_run with_queue_def enqueue_def Let_def)
qed

lemma ok_plan_job:
  assumes "\<And>uid. job_id (j uid) = uid" "\<And>uid. keeps app_ok (k uid)"
  shows "keeps app_ok (and_then new_uuid (\<lambda>uid. and_then (in_world (on_queue (enqueue (j uid)))) (\<lambda>_. k uid)))"
proof (rule keepsI)
  fix a :: "('a, 'b) App" assume ok: "app_ok a"
  let ?n = "a_issued a" let ?uid = "a_uuids a ?n"
  let ?a = "a\<lparr>a_issued := Suc ?n, a_world := (a_world a)\<lparr>w_queue := snd (enqueue (j ?uid) (w_queue (a_world a)))\<rparr>\<rparr>"
  have "app_ok ?a" using ok assms(1) by (simp add: app_ok_world enqueue_fresh)
  then have "app_ok (snd (k ?uid ?a))" by (rule keepsD[OF assms(2)])
  then show "app_ok (snd (and_then new_uuid (\<lambda>uid. and_then (in_world (on_queue (enqueue (j uid)))) (\<lambda>_. k uid)) a))"
    by (simp add: and_then_run new_uuid_def in_world_def zoom_run on_queue_def enqueue_def Let_def)
qed

lemmas ok_intros = keeps_intros ok_lock ok_db ok_local ok_server ok_find ok_persist ok_clock ok_scheduler read_db_ok
  calm_ops calm_get calm_update calm_clear keeps_collect

lemma ok_queue_job:
  assumes "\<And>uid. job_id (j uid) = uid" "\<And>uid. keeps app_ok (k uid)"
  shows "keeps app_ok (and_then new_uuid (\<lambda>uid. and_then (queue_job (j uid)) (\<lambda>_. k uid)))"
  unfolding queue_job_def and_then_assoc
  by (rule ok_new_job[OF assms(1)]) (intro keeps_and_then ok_persist assms(2))

lemma ok_start_job: "keeps app_ok (start_job draft)"
  unfolding start_job_def Let_def
  by (intro keeps_and_then ok_clock ok_queue_job ok_scheduler keeps_ok) (simp add: draft_job_def new_job_def)

lemma ok_create_link: "keeps app_ok (create_link remote direction path aim)"
  unfolding create_link_def by (simp split: TransferDirection.split add: ok_intros)

lemma ok_copy_link: "keeps app_ok (copy_link remote draft target)"
proof -
  have taken: "keeps app_ok (link_destination_taken remote draft)"
    unfolding link_destination_taken_def by (simp split: TransferDirection.split add: ok_intros)
  show ?thesis unfolding copy_link_def Let_def
    by (intro keeps_and_then keeps_if keeps_err taken ok_create_link ok_clock ok_queue_job keeps_ok) (simp add: new_job_def)
qed

lemma ok_enqueue_transfer: "keeps app_ok (enqueue_transfer draft)"
proof -
  have source: "keeps app_ok (link_source remote draft)" for remote
    unfolding link_source_def by (auto split: TransferDirection.split intro!: ok_intros)
  show ?thesis unfolding enqueue_transfer_def
    by (intro keeps_if keeps_err keeps_and_then ok_find source ok_start_job)
      (simp split: option.split add: ok_copy_link ok_start_job)
qed

lemma ok_session: "keeps app_ok (session_or msg sid)"
  unfolding session_or_def by (intro keeps_and_then ok_find) (simp split: option.split add: keeps_intros)

lemma ok_enqueue_remote: "keeps app_ok (enqueue_remote_transfer draft)"
proof -
  have size: "keeps app_ok (remote_source_size source path)" for source path
    unfolding remote_source_size_def
    by (intro keeps_and_then ok_server) (simp split: option.split add: keeps_intros)
  show ?thesis unfolding enqueue_remote_transfer_def Let_def
    by (intro keeps_if keeps_err keeps_and_then keeps_lift_result ok_session size ok_db read_db_ok ok_clock
        ok_queue_job ok_scheduler keeps_ok) (simp add: new_remote_to_remote_def new_job_def)
qed

lemma ok_disk: "keeps app_ok (in_world (\<lambda>w. case f w (w_disk w) of (r, d) \<Rightarrow> (r, w\<lparr>w_disk := d\<rparr>)))"
  by (rule ok_in_world) (auto simp: keeps_def world_ok_def split: prod.split)

lemma ok_local_directories: "keeps app_ok (ensure_local_directories plan)"
  unfolding ensure_local_directories_def by (intro keeps_for_each ok_local)

lemma ok_make_plan: "keeps app_ok (make_plan in_time remote draft)"
  by (cases "dd_direction draft")
    (auto simp: make_plan_def Let_def
      intro!: keeps_and_then ok_disk ok_server keeps_lift_result keeps_err ok_local_directories keeps_ok)

lemma ok_planned_link: "keeps app_ok (copy_planned_link remote direction link)"
  unfolding copy_planned_link_def
  by (intro keeps_and_then keeps_if keeps_err keeps_ok ok_server ok_create_link)

lemma ok_queue_planned: "keeps app_ok (queue_planned batch draft planned)"
proof -
  have "keeps app_ok (in_world (\<lambda>w. (Inr (), interfere w)))"
    by (rule ok_in_world) (simp add: keeps_def interfere_ok)
  then show ?thesis unfolding queue_planned_def queue_one_def Let_def
    by (intro keeps_and_then keeps_collect ok_clock ok_plan_job keeps_ok) (simp_all add: planned_job_def new_job_def)
qed

lemma ok_enqueue_directory: "keeps app_ok (enqueue_directory_transfer in_time draft)"
  unfolding enqueue_directory_transfer_def
  by (intro keeps_if keeps_err keeps_and_then ok_find ok_make_plan keeps_for_each ok_planned_link ok_uuid
      ok_queue_planned ok_persist ok_scheduler keeps_ok)

lemma ok_control: "keeps app_ok (control_transfer uid action)"
  unfolding control_transfer_def set_error_def
  by (intro keeps_and_then ok_clock ok_lock calm_update calm_ops ok_persist keeps_when_do ok_scheduler keeps_ok) simp

lemma ok_gets: "keeps app_ok (lock_queue (gets f))"
  by (intro ok_lock keeps_gets)

lemma ok_control_all: "keeps app_ok (control_all_transfers action)"
  unfolding control_all_transfers_def
  by (intro keeps_and_then ok_gets keeps_for_each ok_control keeps_ok)

lemma ok_ordering: "keeps app_ok (set_transfer_priority uid p)" "keeps app_ok (reorder_transfer uid before)"
proof -
  have "keeps app_ok (lock_queue (and_then (update_and_get uid (set_priority now uid p)) (\<lambda>job. gets (\<lambda>q. (job, list_jobs q)))))" for now
    by (intro ok_lock keeps_and_then calm_update calm_ops keeps_gets)
  then show "keeps app_ok (set_transfer_priority uid p)"
    unfolding set_transfer_priority_def
    by (intro keeps_and_then ok_clock) (auto split: prod.split intro!: keeps_and_then ok_persist ok_scheduler keeps_ok)
  show "keeps app_ok (reorder_transfer uid before)" unfolding reorder_transfer_def
    by (intro keeps_and_then ok_lock calm_ops keeps_gets ok_scheduler keeps_ok)
qed

lemma calm_settle: "keeps (calm D) (settle_conflict now policy uid)"
  unfolding settle_conflict_def update_conflict_policy_def
  by (intro keeps_and_then keeps_if calm_update calm_ops keeps_ok) simp

lemma calm_resolve: "keeps (calm D) (resolve_conflict_locked now uid policy whole)"
proof (rule keepsI)
  fix q assume "calm D q"
  moreover have "keeps (calm D) (collect_each (settle_conflict now policy) xs)" for xs
    by (intro keeps_collect calm_settle)
  ultimately show "calm D (snd (resolve_conflict_locked now uid policy whole q))"
    by (simp add: resolve_conflict_locked_def keepsD split: option.split)
qed

lemma ok_resolve: "keeps app_ok (resolve_transfer_conflict uid policy whole)"
  unfolding resolve_transfer_conflict_def
  by (intro keeps_if keeps_err keeps_and_then ok_clock ok_lock calm_resolve ok_persist keeps_for_each keeps_ok)
    (auto split: prod.split intro!: keeps_when_do ok_scheduler)

lemma ok_clear: "keeps app_ok (clear_transfers flt)"
  unfolding clear_transfers_def
  by (intro keeps_and_then ok_clock ok_lock calm_clear)
    (auto split: prod.split intro!: keeps_and_then ok_db read_db_ok keeps_ok)

lemma ok_save_preferences: "keeps app_ok (save_preferences prefs)"
proof -
  have "keeps app_ok (modify (\<lambda>a. a\<lparr>a_world := (a_world a)\<lparr>w_prefs := prefs\<rparr>\<rparr>))"
    "keeps app_ok (modify (\<lambda>a. a\<lparr>a_diagnostics_enabled := b\<rparr>))" for b
    by (rule ok_modify, simp add: app_ok_def)+
  then show ?thesis unfolding save_preferences_def
    by (auto split: option.split intro!: keeps_err keeps_and_then ok_db read_db_ok ok_scheduler)
qed

section \<open>The rows of several jobs\<close>

lemma upsert_transfer_Inr:
  assumes "db_ok db" "upsert_transfer (transfer_to_row job) db = Inr db'"
  shows "transfer_in uid db' = (if uid = job_id job then Some job else transfer_in uid db)"
proof -
  have db': "transfer_jobs db' = upsert tr_id merge_transfer (transfer_to_row job) (transfer_jobs db)"
    using assms(2) by (auto simp: upsert_transfer_def split: if_splits)
  have "distinct (map tr_id (transfer_jobs db))" using assms(1) by (simp add: db_ok_def)
  from transfers.get_put[OF this] show ?thesis by (simp add: transfer_in_def db')
qed

lemma upsert_transfers_Inr:
  assumes "db_ok db" "try_fold upsert_transfer (map transfer_to_row js) db = Inr db'" "distinct (map job_id js)"
  shows "(\<forall>job \<in> set js. transfer_in (job_id job) db' = Some job)
    \<and> (\<forall>uid. uid \<notin> job_id ` set js \<longrightarrow> transfer_in uid db' = transfer_in uid db)"
  using assms
proof (induction js arbitrary: db)
  case (Cons job js)
  then obtain db1 where up: "upsert_transfer (transfer_to_row job) db = Inr db1"
    and rest: "try_fold upsert_transfer (map transfer_to_row js) db1 = Inr db'"
    by (auto split: sum.splits)
  have "db_ok db1" using upsert_transfer_ok[OF Cons.prems(1) up] .
  from Cons.IH[OF this rest] Cons.prems(3) upsert_transfer_Inr[OF Cons.prems(1) up] show ?case by auto
qed simp

lemma save_transfers_Inr:
  assumes "save_transfers js db = (Inr u, db')" "db_ok db" "distinct (map job_id js)"
  shows "(\<forall>job \<in> set js. transfer_in (job_id job) db' = Some job)
    \<and> (\<forall>uid. uid \<notin> job_id ` set js \<longrightarrow> transfer_in uid db' = transfer_in uid db)"
proof (cases "js = []")
  case False
  let ?db = "db\<lparr>db_faults := tl (db_faults db)\<rparr>"
  from with_connection_Inr[OF assms(1)[unfolded save_transfers_def if_not_P[OF False]]]
  have "try_fold upsert_transfer (map transfer_to_row js) ?db = Inr db'"
    by (auto simp: execute_def split: sum.splits)
  from upsert_transfers_Inr[OF _ this assms(3)] assms(2) show ?thesis by (simp add: transfer_in_def)
qed (use assms in \<open>simp add: save_transfers_def ok_run\<close>)

lemma persist_jobs_Inr:
  assumes "persist_transfer_jobs js a = (Inr u, a')" "app_ok a" "distinct (map job_id js)"
  shows "(\<forall>job \<in> set js. transfer_in (job_id job) (w_db (a_world a')) = Some job)
    \<and> (\<exists>db. a' = a\<lparr>a_world := (a_world a)\<lparr>w_db := db\<rparr>\<rparr>)"
proof -
  obtain db where "save_transfers js (w_db (a_world a)) = (Inr u, db)" "a' = a\<lparr>a_world := (a_world a)\<lparr>w_db := db\<rparr>\<rparr>"
    using assms(1) unfolding persist_transfer_jobs_def by (rule in_db_Inr)
  with save_transfers_Inr[OF this(1) _ assms(3)] assms(2) show ?thesis by (auto simp: app_ok_def)
qed

lemma spawn_all: "for_each (\<lambda>job. spawn_task (job_id job)) js a = (Inr (), a\<lparr>a_spawned := a_spawned a @ map job_id js\<rparr>)"
  by (induction js arbitrary: a) (simp_all add: ok_run and_then_run spawn_task_def modify_run)

section \<open>A folder\<close>

definition add_jobs :: "TransferJob list \<Rightarrow> TransferQueue \<Rightarrow> TransferQueue" where
  "add_jobs js q = q\<lparr>order := order q @ map job_id js, jobs := jobs q ++ map_of (map (\<lambda>job. (job_id job, job)) js)\<rparr>"

lemma add_jobs_Cons:
  assumes "job_id job \<notin> job_id ` set js"
  shows "add_jobs js (snd (enqueue job q)) = add_jobs (job # js) q"
proof -
  have "job_id job \<notin> dom (map_of (map (\<lambda>job. (job_id job, job)) js))"
    using assms by (auto simp: dom_map_of_conv_image_fst image_image)
  then show ?thesis by (simp add: add_jobs_def enqueue_def map_add_upd_left)
qed

lemma queue_one_run:
  "queue_one batch draft f a =
     (let uid = a_uuids a (a_issued a); job = planned_job batch uid (w_now (a_world a)) draft f
      in (Inr job, a\<lparr>a_issued := Suc (a_issued a), a_world := (a_world a)\<lparr>w_queue := snd (enqueue job (w_queue (a_world a)))\<rparr>\<rparr>))"
  by (simp add: queue_one_def read_clock_def gets_run and_then_run new_uuid_def in_world_def zoom_run on_queue_def
      enqueue_def ok_run Let_def)

lemma planned_job_simps [simp]:
  "job_id (planned_job batch uid now draft f) = uid" "job_batch_id (planned_job batch uid now draft f) = Some batch"
  "job_source_path (planned_job batch uid now draft f) = pf_source_path f"
  "job_destination_path (planned_job batch uid now draft f) = pf_destination_path f"
  "job_state (planned_job batch uid now draft f) = Queued"
  "job_profile_id (planned_job batch uid now draft f) = dd_profile_id draft"
  by (simp_all add: planned_job_def new_job_def)

lemma queue_planned_each:
  assumes "inj (a_uuids a)" "collect_each (queue_one batch draft) planned a = (Inr js, a')"
  shows "map (\<lambda>j. (job_source_path j, job_destination_path j)) js = map (\<lambda>f. (pf_source_path f, pf_destination_path f)) planned
    \<and> map job_id js = map (a_uuids a) [a_issued a ..< a_issued a + length js]
    \<and> (\<forall>j \<in> set js. job_batch_id j = Some batch \<and> job_state j = Queued \<and> job_profile_id j = dd_profile_id draft)
    \<and> a' = a\<lparr>a_issued := a_issued a + length js,
            a_world := (a_world a)\<lparr>w_queue := add_jobs js (w_queue (a_world a))\<rparr>\<rparr>"
  using assms
proof (induction planned arbitrary: a js)
  case Nil
  then show ?case by (simp add: ok_run add_jobs_def)
next
  case (Cons f fs)
  let ?uid = "a_uuids a (a_issued a)"
  let ?job = "planned_job batch ?uid (w_now (a_world a)) draft f"
  let ?a = "a\<lparr>a_issued := Suc (a_issued a), a_world := (a_world a)\<lparr>w_queue := snd (enqueue ?job (w_queue (a_world a)))\<rparr>\<rparr>"
  from Cons.prems(2) obtain js' where js: "js = ?job # js'" and rest: "collect_each (queue_one batch draft) fs ?a = (Inr js', a')"
    by (auto simp: and_then_run queue_one_run[of batch draft f a] ok_run Let_def split: prod.splits sum.splits)
  have inj: "inj (a_uuids ?a)" using Cons.prems(1) by simp
  note ih = Cons.IH[OF inj rest]
  from ih have "set (map job_id js') = a_uuids a ` {Suc (a_issued a) ..< Suc (a_issued a) + length js'}"
    by (simp del: upt_Suc)
  then have "?uid \<notin> set (map job_id js')" using inj_eq[OF Cons.prems(1)] by auto
  then have "add_jobs js' (snd (enqueue ?job (w_queue (a_world a)))) = add_jobs (?job # js') (w_queue (a_world a))"
    by (intro add_jobs_Cons) simp
  moreover have "[a_issued a..<Suc (a_issued a + length js')] = a_issued a # [Suc (a_issued a)..<Suc (a_issued a) + length js']"
    by (simp add: upt_rec del: upt_Suc)
  ultimately show ?case using ih by (simp add: js del: upt_Suc)
qed

text \<open>The steps before the queueing leave the queue alone.\<close>

definition aside :: "TransferQueue \<Rightarrow> uuid list \<Rightarrow> ('r, 'l) App \<Rightarrow> bool" where
  "aside q started a \<longleftrightarrow> app_ok a \<and> w_queue (a_world a) = q \<and> w_env (a_world a) = [] \<and> a_spawned a = started"

lemma aside_outside: "keeps (aside q started) (on_local f m)" "keeps (aside q started) (on_server n)"
  "keeps (aside q started) (in_world (\<lambda>w. case g w (w_disk w) of (r, d) \<Rightarrow> (r, w\<lparr>w_disk := d\<rparr>)))"
  by (auto simp: keeps_def aside_def app_ok_def on_local_def in_world_def zoom_run map_err_run on_disk_def with_remote_def
      split: prod.split sum.split)

lemma aside_uuid: "keeps (aside q started) new_uuid"
proof (rule keepsI)
  fix a :: "('a, 'b) App" assume a: "aside q started a"
  then have "app_ok (snd (new_uuid a))" by (intro keepsD[OF ok_uuid]) (simp add: aside_def)
  with a show "aside q started (snd (new_uuid a))" by (simp add: aside_def new_uuid_def)
qed

lemma aside_client: "keeps (aside q started) (profile_client uid)"
  unfolding profile_client_def by (intro keeps_and_then keeps_gets) (simp split: option.split add: keeps_intros)

lemma aside_plan: "keeps (aside q started) (make_plan in_time remote draft)"
  by (cases "dd_direction draft")
    (auto simp: make_plan_def ensure_local_directories_def Let_def
      intro!: keeps_and_then aside_outside keeps_lift_result keeps_err keeps_for_each keeps_ok)

lemma aside_link: "keeps (aside q started) (copy_planned_link remote direction link)"
  unfolding copy_planned_link_def create_link_def
  by (auto split: TransferDirection.split intro!: keeps_and_then aside_outside keeps_if keeps_err keeps_ok)

lemma aside_links: "keeps (aside q started) (for_each (copy_planned_link remote direction) links)"
  by (intro keeps_for_each aside_link)

lemma enqueue_directory_steps:
  assumes "enqueue_directory_transfer in_time draft a = (Inr js, a')"
  obtains remote plan batch a1 a2 a3 a4 a5 a6 where
    "profile_client (dd_profile_id draft) a = (Inr remote, a1)" "make_plan in_time remote draft a1 = (Inr plan, a2)"
    "for_each (copy_planned_link remote (dd_direction draft)) (symlinks plan) a2 = (Inr (), a3)"
    "new_uuid a3 = (Inr batch, a4)" "queue_planned batch draft (files plan) a4 = (Inr js, a5)"
    "persist_transfer_jobs js a5 = (Inr (), a6)" "a' = a6\<lparr>a_spawned := a_spawned a6 @ map job_id js\<rparr>"
    "dd_direction draft \<noteq> RemoteToRemote"
  using assms unfolding enqueue_directory_transfer_def
  by (auto simp: ok_run err_run spawn_all split: if_splits elim!: and_then_InrD)

section \<open>Locking and running\<close>

lemma lock_queue_alone: "w_env (a_world a) = [] \<Longrightarrow> lock_queue m a = (case m (w_queue (a_world a)) of
    (r, q) \<Rightarrow> (r, a\<lparr>a_world := (a_world a)\<lparr>w_queue := q\<rparr>\<rparr>))"
  by (simp add: lock_queue_def in_world_def zoom_run with_queue_def interfere_def Let_def split: prod.split)

lemma list_jobs_ids: "queue_wf q \<Longrightarrow> map job_id (list_jobs q) = order q"
proof -
  assume wf: "queue_wf q"
  have "map job_id (List.map_filter (jobs q) xs) = xs" if "set xs \<subseteq> dom (jobs q)" for xs
    using that queue_wfD(3)[OF wf] by (induction xs) (auto simp: List.map_filter_simps)
  then show ?thesis using queue_wfD(2)[OF wf] by (simp add: list_jobs_def)
qed

lemma persist_keeps_queue:
  assumes "persist_transfer_jobs js a = (r, a')"
  shows "\<exists>db. a' = a\<lparr>a_world := (a_world a)\<lparr>w_db := db\<rparr>\<rparr>"
  using assms by (auto simp: persist_transfer_jobs_def in_world_def zoom_run with_db_def split: prod.splits)

lemma priority_steps:
  assumes "set_transfer_priority uid p a = (Inr js, a')" "w_env (a_world a) = []"
  obtains q' db where "set_priority (w_now (a_world a)) uid p (w_queue (a_world a)) = (Inr (), q')" "js = list_jobs q'"
    "jobs (w_queue (a_world a)) uid \<noteq> None"
    "a' = a\<lparr>a_world := (a_world a)\<lparr>w_queue := q', w_db := db\<rparr>,
      a_scheduler := set_waiting_order (map job_id js) (a_scheduler a)\<rparr>"
  using assms
  by (auto simp: set_transfer_priority_def read_clock_def gets_run lock_queue_alone update_and_get_def on_scheduler_def
      modify_run ok_run set_priority_run Let_def get_job_def split: prod.splits option.splits sum.splits
      elim!: and_then_InrD dest!: persist_keeps_queue)

section \<open>Answering a conflict\<close>

definition settled_job :: "datetime \<Rightarrow> ConflictPolicy \<Rightarrow> TransferJob \<Rightarrow> TransferJob" where
  "settled_job now policy job = (if job_state job = WaitingForConflict
     then job\<lparr>job_conflict_policy := policy, job_updated_at := now, job_state := Queued\<rparr>
     else job\<lparr>job_conflict_policy := policy, job_updated_at := now\<rparr>)"

text \<open>The jobs an answer applies to.\<close>

definition answered :: "uuid \<Rightarrow> bool option \<Rightarrow> TransferQueue \<Rightarrow> uuid \<Rightarrow> bool" where
  "answered uid whole q k \<longleftrightarrow> k = uid \<or> (whole = Some True \<and> (\<exists>b current job. jobs q uid = Some current
     \<and> job_batch_id current = Some b \<and> jobs q k = Some job \<and> job_batch_id job = Some b \<and> \<not> is_terminal (job_state job)))"

lemma list_jobs_map: "queue_wf q \<Longrightarrow> list_jobs q = map (\<lambda>k. the (jobs q k)) (order q)"
proof -
  assume wf: "queue_wf q"
  have "List.map_filter (jobs q) xs = map (\<lambda>k. the (jobs q k)) xs" if "set xs \<subseteq> dom (jobs q)" for xs
    using that by (induction xs) (auto simp: List.map_filter_simps)
  then show ?thesis using queue_wfD(2)[OF wf] by (simp add: list_jobs_def)
qed

lemma picked_ids:
  assumes "queue_wf q"
  shows "map job_id (filter P (list_jobs q)) = filter (\<lambda>k. P (the (jobs q k))) (order q)"
proof -
  have "job_id (the (jobs q k)) = k" if "k \<in> set (order q)" for k
    using that queue_wfD[OF assms] by auto
  then show ?thesis unfolding list_jobs_map[OF assms] filter_map map_map o_def
    by (intro map_idI) auto
qed

lemma conflict_targets_answered:
  assumes "queue_wf q" "jobs q uid = Some current"
  shows "conflict_targets uid (unwrap_or False whole) current q = filter (answered uid whole q) (order q)"
  unfolding conflict_targets_def picked_ids[OF assms(1)]
  using queue_wfD[OF assms(1)] assms(2)
  by (intro filter_cong) (auto simp: answered_def unwrap_or_def split: option.splits)

lemma settle_conflict_run:
  assumes "settle_conflict now policy uid q = (Inr r, q')"
  shows "\<exists>job. jobs q uid = Some job \<and> r = (settled_job now policy job, job_state job = WaitingForConflict)
    \<and> jobs q' = (jobs q)(uid \<mapsto> settled_job now policy job) \<and> order q' = order q"
proof (cases "jobs q uid")
  case None
  with assms show ?thesis
    by (simp add: settle_conflict_def update_and_get_def update_conflict_policy_def job_mut_def and_then_run)
next
  case (Some job)
  with assms show ?thesis
    by (auto simp: settle_conflict_def update_and_get_def update_conflict_policy_def job_mut_def and_then_run get_job_def
        transition_def is_valid_transition_def ok_run settled_job_def split: if_splits)
qed

lemma settle_all:
  assumes "collect_each (settle_conflict now policy) uids q = (Inr rs, q')" "distinct uids"
  shows "order q' = order q
    \<and> rs = map (\<lambda>uid. (settled_job now policy (the (jobs q uid)), job_state (the (jobs q uid)) = WaitingForConflict)) uids
    \<and> (\<forall>uid. jobs q' uid = (if uid \<in> set uids then map_option (settled_job now policy) (jobs q uid) else jobs q uid))"
  using assms
proof (induction uids arbitrary: q rs)
  case (Cons uid uids)
  from Cons.prems(1) obtain r q1 rs' where one: "settle_conflict now policy uid q = (Inr r, q1)"
    and rest: "collect_each (settle_conflict now policy) uids q1 = (Inr rs', q')" and rs: "rs = r # rs'"
    by (auto simp: ok_run elim!: and_then_InrD)
  from settle_conflict_run[OF one] obtain job where job: "jobs q uid = Some job"
    "r = (settled_job now policy job, job_state job = WaitingForConflict)"
    "jobs q1 = (jobs q)(uid \<mapsto> settled_job now policy job)" "order q1 = order q" by blast
  have ih: "order q' = order q1" "rs' = map (\<lambda>uid. (settled_job now policy (the (jobs q1 uid)),
      job_state (the (jobs q1 uid)) = WaitingForConflict)) uids"
    "\<forall>uid. jobs q' uid = (if uid \<in> set uids then map_option (settled_job now policy) (jobs q1 uid) else jobs q1 uid)"
    using Cons.IH[OF rest] Cons.prems(2) by simp_all
  moreover have "jobs q1 k = jobs q k" if "k \<in> set uids" for k using Cons.prems(2) job(3) that by auto
  ultimately show ?case using ih Cons.prems(2) job by (auto simp: rs)
qed (simp add: ok_run)

lemma spawn_settled:
  "for_each (\<lambda>(job, again). when_do again (spawn_task (job_id job))) rs a
     = (Inr (), a\<lparr>a_spawned := a_spawned a @ map (job_id \<circ> fst) (filter snd rs)\<rparr>)"
proof (induction rs arbitrary: a)
  case (Cons r rs)
  then show ?case by (cases r) (simp add: and_then_run when_do_run spawn_task_def modify_run)
qed (simp add: ok_run)

lemma resolve_steps:
  assumes "resolve_transfer_conflict uid policy whole a = (Inr js, a')" "w_env (a_world a) = []"
  obtains current rs q' db where "jobs (w_queue (a_world a)) uid = Some current" "job_state current = WaitingForConflict"
    "policy \<noteq> Ask" "collect_each (settle_conflict (w_now (a_world a)) policy)
       (conflict_targets uid (unwrap_or False whole) current (w_queue (a_world a))) (w_queue (a_world a)) = (Inr rs, q')"
    "js = map fst rs"
    "a' = a\<lparr>a_world := (a_world a)\<lparr>w_queue := q', w_db := db\<rparr>,
       a_spawned := a_spawned a @ map (job_id \<circ> fst) (filter snd rs)\<rparr>"
  using assms
  by (auto simp: resolve_transfer_conflict_def read_clock_def gets_run err_run ok_run lock_queue_alone
      resolve_conflict_locked_def get_job_def spawn_settled split: if_splits prod.splits option.splits
      elim!: and_then_InrD dest!: persist_keeps_queue)

section \<open>Pausing and resuming\<close>

lemma control_locked:
  assumes "jobs q uid = Some job" "update_and_get uid (and_then (transition now uid nxt) (\<lambda>_. set_error now uid None)) q = (Inr j, q')"
  shows "q' = q\<lparr>jobs := (jobs q)(uid \<mapsto> job\<lparr>job_state := nxt, job_error := None, job_updated_at := now\<rparr>)\<rparr>"
  using assms by (auto simp: update_and_get_def and_then_run transition_def set_error_def job_mut_def get_job_def split: if_splits)

lemma control_steps:
  assumes "control_transfer uid action a = (Inr j, a')" "w_env (a_world a) = []" "jobs (w_queue (a_world a)) uid = Some job"
  shows "jobs (w_queue (a_world a')) = (jobs (w_queue (a_world a)))
      (uid \<mapsto> job\<lparr>job_state := action_state action, job_error := None, job_updated_at := w_now (a_world a)\<rparr>)"
    "w_env (a_world a') = []" "a_spawned a' = a_spawned a @ (if action \<in> {ResumeTransfer, RetryTransfer} then [uid] else [])"
  using assms(1,2)
  by (auto simp: control_transfer_def read_clock_def gets_run ok_run when_do_run lock_queue_alone
      spawn_task_def modify_run split: if_splits prod.splits elim!: and_then_InrD dest!: persist_keeps_queue control_locked[OF assms(3)])

section \<open>Properties\<close>


text \<open>
  C21: A folder transfer that succeeds queued exactly the files of its plan, in that order and behind the jobs
  there were: one waiting job per file, under new identifiers and one batch, each stored as it is queued,
  and one task started for each.
\<close>

theorem folder_transfer_queues_plan:
  assumes "app_ok a" "w_env (a_world a) = []" "enqueue_directory_transfer in_time draft a = (Inr js, a')"
  shows "\<exists>remote plan c. profile_client (dd_profile_id draft) a = (Inr remote, a)
    \<and> make_plan in_time remote draft a = (Inr plan, c)
    \<and> map (\<lambda>j. (job_source_path j, job_destination_path j)) js
        = map (\<lambda>f. (pf_source_path f, pf_destination_path f)) (files plan)
    \<and> w_queue (a_world a') = add_jobs js (w_queue (a_world a))
    \<and> distinct (map job_id js) \<and> set (map job_id js) \<inter> dom (jobs (w_queue (a_world a))) = {}
    \<and> (\<forall>j \<in> set js. transfer_in (job_id j) (w_db (a_world a')) = Some j \<and> job_state j = Queued)
    \<and> (\<exists>batch. \<forall>j \<in> set js. job_batch_id j = Some batch)
    \<and> a_spawned a' = a_spawned a @ map job_id js"
proof -
  obtain remote plan batch a1 a2 a3 a4 a5 a6 where client: "profile_client (dd_profile_id draft) a = (Inr remote, a1)"
    and plan: "make_plan in_time remote draft a1 = (Inr plan, a2)"
    and links: "for_each (copy_planned_link remote (dd_direction draft)) (symlinks plan) a2 = (Inr (), a3)"
    and batch: "new_uuid a3 = (Inr batch, a4)" and queued: "queue_planned batch draft (files plan) a4 = (Inr js, a5)"
    and saved: "persist_transfer_jobs js a5 = (Inr (), a6)" and a': "a' = a6\<lparr>a_spawned := a_spawned a6 @ map job_id js\<rparr>"
    using assms(3) by (rule enqueue_directory_steps)
  have "aside (w_queue (a_world a)) (a_spawned a) a" using assms(1,2) by (simp add: aside_def)
  then have a4: "aside (w_queue (a_world a)) (a_spawned a) a4"
    using keeps_run[OF aside_client client] keeps_run[OF aside_plan plan] keeps_run[OF aside_links links]
      keeps_run[OF aside_uuid batch] by blast
  then have ok4: "app_ok a4" by (simp add: aside_def)
  then have inj: "inj (a_uuids a4)" by (simp add: app_ok_def)
  have "a1 = a" using client by (auto simp: profile_client_def and_then_run gets_run ok_run err_run split: option.splits)
  have "collect_each (queue_one batch draft) (files plan) a4 = (Inr js, a5)"
    using queued a4 by (simp add: queue_planned_def and_then_run in_world_def zoom_run interfere_def aside_def)
  note js = queue_planned_each[OF inj this]
  have ids: "set (map job_id js) = a_uuids a4 ` {a_issued a4 ..< a_issued a4 + length js}" "distinct (map job_id js)"
    using js inj by (simp_all add: distinct_map inj_on_subset[OF inj] del: upt_Suc)
  have ok5: "app_ok a5" using keeps_run[OF ok_queue_planned queued ok4] .
  from persist_jobs_Inr[OF saved ok5 ids(2)] obtain db where
    "\<forall>job \<in> set js. transfer_in (job_id job) (w_db (a_world a6)) = Some job" "a6 = a5\<lparr>a_world := (a_world a5)\<lparr>w_db := db\<rparr>\<rparr>"
    by blast
  moreover have "set (map job_id js) \<inter> dom (jobs (w_queue (a_world a))) = {}"
    using ok4 a4 unfolding ids by (auto simp: app_ok_def aside_def)
  ultimately show ?thesis using js ids(2) plan client a4 unfolding \<open>a1 = a\<close> by (auto simp: a' aside_def)
qed


text \<open>
  C24: A change of priority reaches the scheduler: the tasks that wait for a slot stay the same and are put in
  descending order of priority, so the next slot goes to one of the highest that fits.
\<close>

theorem priority_reaches_scheduler:
  assumes "set_transfer_priority uid p a = (Inr js, a')" "app_ok a" "w_env (a_world a) = []"
    "length (order (w_queue (a_world a))) < u64_max"
  shows "mset (waiting (a_scheduler a')) = mset (waiting (a_scheduler a))
    \<and> job_priority_of (w_queue (a_world a')) uid = p
    \<and> sorted_wrt (\<lambda>x y. {fst x, fst y} \<subseteq> dom (jobs (w_queue (a_world a'))) \<longrightarrow>
        job_priority_of (w_queue (a_world a')) (fst y) \<le> job_priority_of (w_queue (a_world a')) (fst x))
        (waiting (a_scheduler a'))"
proof -
  obtain q' db where prio: "set_priority (w_now (a_world a)) uid p (w_queue (a_world a)) = (Inr (), q')"
    and js: "js = list_jobs q'" and known: "jobs (w_queue (a_world a)) uid \<noteq> None"
    and a': "a' = a\<lparr>a_world := (a_world a)\<lparr>w_queue := q', w_db := db\<rparr>,
      a_scheduler := set_waiting_order (map job_id js) (a_scheduler a)\<rparr>"
    using assms(1,3) by (rule priority_steps)
  have wf: "queue_wf q'" using set_priority_wf[of "w_queue (a_world a)" "w_now (a_world a)" uid p] assms(2) prio
    by (simp add: app_ok_def)
  obtain job where "jobs (w_queue (a_world a)) uid = Some job" using known by auto
  note sorted = set_priority_sorts[OF this prio]
  then have n: "length (order q') < u64_max" using assms(4) by (metis size_mset)
  have ids: "map job_id js = order q'" using list_jobs_ids[OF wf] by (simp add: js)
  note waiting = set_waiting_order_sorts[OF queue_wfD(1)[OF wf] n, of "a_scheduler a"]
  have "job_priority_of q' (fst y) \<le> job_priority_of q' (fst x)"
    if rank: "\<forall>i j. i < length (order q') \<longrightarrow> order q' ! i = fst x \<longrightarrow> j < length (order q') \<longrightarrow> order q' ! j = fst y \<longrightarrow> i \<le> j"
      and there: "{fst x, fst y} \<subseteq> dom (jobs q')" for x y :: "uuid \<times> string"
  proof -
    from there queue_wfD(2)[OF wf] have "fst x \<in> set (order q')" "fst y \<in> set (order q')" by auto
    then obtain i j where ij: "i < length (order q')" "order q' ! i = fst x" "j < length (order q')" "order q' ! j = fst y"
      by (metis in_set_conv_nth)
    with rank have "i \<le> j" by blast
    moreover have "sorted_wrt (\<lambda>a b. job_priority_of q' b \<le> job_priority_of q' a) (order q')" using sorted by blast
    ultimately show ?thesis using sorted_wrt_nth_less[of _ "order q'" i j] ij by (cases "i = j") auto
  qed
  with waiting have "sorted_wrt (\<lambda>x y. {fst x, fst y} \<subseteq> dom (jobs q') \<longrightarrow>
      job_priority_of q' (fst y) \<le> job_priority_of q' (fst x)) (waiting (set_waiting_order (order q') (a_scheduler a)))"
    by (elim conjE) (rule sorted_wrt_mono_rel[rotated], assumption, blast)
  with waiting sorted show ?thesis by (simp add: a' ids)
qed

lemma demo_app_ok: "app_ok (demo_app disk)"
  by (auto simp: app_ok_def demo_app_def demo_defs queue_wf_def db_ok_def with_connection_def run_simps upsert_def inj_def)

lemma priority_reaches_scheduler_witness:
  "job_priority_of (w_queue (a_world (snd (set_transfer_priority ''j'' High (demo_app Map.empty))))) ''j'' = High"
proof -
  let ?a = "demo_app Map.empty"
  have "set_transfer_priority ''j'' High ?a = (Inr (list_jobs (w_queue (a_world (snd (set_transfer_priority ''j'' High ?a))))),
      snd (set_transfer_priority ''j'' High ?a))"
    by (simp add: set_transfer_priority_def read_clock_def lock_queue_def in_world_def with_queue_def interfere_def
        update_and_get_def set_priority_run get_job_def persist_transfer_jobs_def with_db_def save_transfers_def
        with_connection_def execute_def upsert_transfer_def transfer_to_row_def on_scheduler_def demo_app_def demo_defs
        run_simps Let_def priority_key_def upsert_def)
  from priority_reaches_scheduler[OF this demo_app_ok] show ?thesis
    by (simp add: demo_app_def demo_world_def u64_max_def)
qed

definition folder_server :: "unit RemoteFilesystem" where
  "folder_server = listing_server ''/srv'' [file_entry ''/srv/f'' ''f'' File]"

definition folder_app :: "(unit, store) App" where
  "folder_app = \<lparr>a_world = \<lparr>w_queue = empty_queue, w_db = demo_db, w_prefs = default_preferences,
       w_sessions = [(''s'', \<lparr>sess_profile_id = ''p'', sess_client = folder_server\<rparr>)], w_remote = (),
       w_disk = \<lparr>st_files = Map.empty, st_faults = []\<rparr>, w_fs = mem_disk, w_buckets = (\<lambda>_. None), w_now = 7,
       w_local_day = 0, w_local_minute = 0, w_env = [], w_instants = [], w_polls = [], w_permits = [],
       w_events = [], w_diagnostics = []\<rparr>,
     a_pending = Map.empty, a_keyring = Map.empty, a_keyring_faults = [], a_uuids = (\<lambda>n. CHR ''u'' # show_nat n),
     a_issued = 0, a_last_reconnect = Map.empty, a_searches = Map.empty, a_edits = Map.empty, a_edit_root = ''/edits'',
     a_scheduler = new_scheduler 2 2, a_spawned = [], a_home = None, a_diagnostics_enabled = False\<rparr>"

definition folder_draft :: DirectoryTransferDraft where
  "folder_draft = \<lparr>dd_profile_id = ''p'', dd_direction = Download, dd_source_path = ''/srv'', dd_destination_path = ''/home/u'',
     dd_conflict_policy = None, dd_mode = ContentsOnly, dd_symlink_policy = None, dd_preserve_modified_time = None,
     dd_preserve_permissions = None\<rparr>"

lemma folder_plan:
  "plan_remote_directory folder_server ''/srv'' ''/home/u'' False ContentsOnly SkipLink ()
      = (Inr \<lparr>directories = [], files = [\<lparr>pf_source_path = ''/srv/f'', pf_destination_path = ''/home/u/f''\<rparr>],
              symlinks = []\<rparr>, ())"
  by (simp add: folder_server_def plan_eval parent_relative_def trim_matches_def trim_start_matches_def
      rsplit_once_def dirs_of_file_def)

lemma folder_app_ok: "app_ok folder_app"
  by (auto simp: app_ok_def folder_app_def demo_defs empty_queue_def queue_wf_def db_ok_def with_connection_def run_simps
      upsert_def inj_def)

lemma srv_path: "normalize_remote_path ''/srv'' = Inr ''/srv''"
  by (simp add: normalize_remote_path_def trim_def trim_start_def trim_end_def trim_front.simps drop_one_def
      whitespace_def starts_with_def)

lemma folder_plan_made:
  "make_plan True folder_server folder_draft folder_app = (Inr \<lparr>directories = [],
     files = [\<lparr>pf_source_path = ''/srv/f'', pf_destination_path = ''/home/u/f''\<rparr>], symlinks = []\<rparr>, folder_app)"
  by (simp add: make_plan_def folder_draft_def srv_path run_simps in_world_def with_remote_def folder_app_def folder_plan
      ensure_local_directories_def Let_def unwrap_or_def)

lemma folder_client: "profile_client ''p'' folder_app = (Inr folder_server, folder_app)"
  by (simp add: profile_client_def run_simps folder_app_def)

lemma folder_draft_simps:
  "dd_profile_id folder_draft = ''p''" "dd_direction folder_draft = Download" "dd_source_path folder_draft = ''/srv''"
  "dd_destination_path folder_draft = ''/home/u''"
  by (simp_all add: folder_draft_def)

lemma folder_run:
  "\<exists>js. enqueue_directory_transfer True folder_draft folder_app = (Inr js, snd (enqueue_directory_transfer True folder_draft folder_app))"
  by (simp add: enqueue_directory_transfer_def folder_draft_simps folder_client folder_plan_made and_then_run)
    (simp add: run_simps new_uuid_def queue_planned_def queue_one_def read_clock_def in_world_def interfere_def on_queue_def
      enqueue_def planned_job_def persist_transfer_jobs_def with_db_def save_transfers_def with_connection_def execute_def
      upsert_transfer_def transfer_to_row_def spawn_task_def folder_app_def demo_defs Let_def upsert_def folder_draft_simps)

lemma folder_transfer_queues_plan_witness:
  "\<exists>js. w_queue (a_world (snd (enqueue_directory_transfer True folder_draft folder_app))) = add_jobs js empty_queue
     \<and> map (\<lambda>j. (job_source_path j, job_destination_path j)) js = [(''/srv/f'', ''/home/u/f'')]"
proof -
  obtain js where run: "enqueue_directory_transfer True folder_draft folder_app
      = (Inr js, snd (enqueue_directory_transfer True folder_draft folder_app))" using folder_run by blast
  have "w_env (a_world folder_app) = []" "w_queue (a_world folder_app) = empty_queue" by (simp_all add: folder_app_def)
  with folder_transfer_queues_plan[OF folder_app_ok _ run] show ?thesis
    by (auto simp: folder_draft_simps folder_client folder_plan_made)
qed

text \<open>
  C23: Answering a conflict, for one job or for its batch, gives exactly the jobs it applies to the chosen policy;
  of those, the ones that wait for the answer are queued again and a task is started for each, in the
  order of the list. No other job changes.
\<close>

theorem conflict_answer_settles_batch:
  assumes "resolve_transfer_conflict uid policy whole a = (Inr js, a')" "app_ok a" "w_env (a_world a) = []"
    and "q = w_queue (a_world a)" "q' = w_queue (a_world a')"
  shows "policy \<noteq> Ask \<and> order q' = order q
    \<and> (\<forall>k. jobs q' k = (if answered uid whole q k
          then map_option (settled_job (w_now (a_world a)) policy) (jobs q k) else jobs q k))
    \<and> a_spawned a' = a_spawned a @ filter (\<lambda>k. answered uid whole q k
        \<and> job_state (the (jobs q k)) = WaitingForConflict) (order q)
    \<and> js = map (\<lambda>k. the (jobs q' k)) (filter (answered uid whole q) (order q))"
proof -
  have wf: "queue_wf q" using assms(2,4) by (simp add: app_ok_def)
  obtain current rs q1 db where current: "jobs q uid = Some current" and policy: "policy \<noteq> Ask"
    and each: "collect_each (settle_conflict (w_now (a_world a)) policy)
       (conflict_targets uid (unwrap_or False whole) current q) q = (Inr rs, q1)"
    and js: "js = map fst rs"
    and a': "a' = a\<lparr>a_world := (a_world a)\<lparr>w_queue := q1, w_db := db\<rparr>,
       a_spawned := a_spawned a @ map (job_id \<circ> fst) (filter snd rs)\<rparr>"
    using assms(1,3) unfolding assms(4) by (rule resolve_steps)
  have q1: "q1 = q'" by (simp add: assms(5) a')
  note each = each[unfolded conflict_targets_answered[OF wf current] q1]
  let ?ids = "filter (answered uid whole q) (order q)"
  have "distinct ?ids" using queue_wfD(1)[OF wf] by simp
  note all = settle_all[OF each this]
  have known: "the (jobs q' k) = settled_job (w_now (a_world a)) policy (the (jobs q k))"
    "job_id (settled_job (w_now (a_world a)) policy (the (jobs q k))) = k" if "k \<in> set ?ids" for k
    using that all queue_wfD[OF wf] by (auto simp: settled_job_def)
  have rs: "rs = map (\<lambda>k. (settled_job (w_now (a_world a)) policy (the (jobs q k)), job_state (the (jobs q k)) = WaitingForConflict)) ?ids"
    using all by blast
  have started: "map (job_id \<circ> fst) (filter snd rs)
      = filter (\<lambda>k. answered uid whole q k \<and> job_state (the (jobs q k)) = WaitingForConflict) (order q)"
    unfolding rs filter_map map_map o_def filter_filter using known(2)
    by (simp add: conj_commute) (rule map_idI, auto)
  have list: "js = map (\<lambda>k. the (jobs q' k)) ?ids"
    unfolding js rs map_map o_def using known(1) by simp
  have none: "jobs q k = None" if "k \<notin> set (order q)" for k using that queue_wfD(2)[OF wf] by auto
  have "jobs q' k = (if answered uid whole q k then map_option (settled_job (w_now (a_world a)) policy) (jobs q k) else jobs q k)" for k
    using all none[of k] by auto
  with all policy started list show ?thesis by (simp add: a')
qed

definition conflict_app :: "(store, store) App" where
  "conflict_app = (demo_app Map.empty)\<lparr>a_world :=
     (demo_world (demo_job\<lparr>job_state := WaitingForConflict\<rparr>) Map.empty Map.empty)\<rparr>"

lemma conflict_app_ok: "app_ok conflict_app"
  by (auto simp: app_ok_def conflict_app_def demo_app_def demo_defs queue_wf_def db_ok_def with_connection_def run_simps
      upsert_def inj_def)

lemma conflict_run:
  "\<exists>js. resolve_transfer_conflict ''j'' Overwrite None conflict_app
     = (Inr js, snd (resolve_transfer_conflict ''j'' Overwrite None conflict_app))"
  by (simp add: resolve_transfer_conflict_def read_clock_def lock_queue_def in_world_def with_queue_def interfere_def
      resolve_conflict_locked_def conflict_targets_def settle_conflict_def update_conflict_policy_def update_and_get_def
      transition_def is_valid_transition_def job_mut_def get_job_def persist_transfer_jobs_def with_db_def save_transfers_def
      with_connection_def execute_def upsert_transfer_def transfer_to_row_def spawn_task_def conflict_app_def demo_app_def
      demo_defs run_simps Let_def upsert_def list_jobs_def List.map_filter_def unwrap_or_def)

lemma conflict_answer_settles_batch_witness:
  "a_spawned (snd (resolve_transfer_conflict ''j'' Overwrite None conflict_app)) = [''j'']"
proof -
  obtain js where "resolve_transfer_conflict ''j'' Overwrite None conflict_app
     = (Inr js, snd (resolve_transfer_conflict ''j'' Overwrite None conflict_app))" using conflict_run by blast
  from conflict_answer_settles_batch[OF this conflict_app_ok _ refl refl] show ?thesis
    by (simp add: conflict_app_def demo_app_def demo_defs answered_def)
qed

text \<open>
  A transfer whose job cannot be stored is reported as an error, but it stays in the list: it is queued,
  no task was started for it, and none will be until the user acts on it.
\<close>

theorem unstored_transfer_stays_queued:
  assumes "enqueue_transfer draft a = (Inl e, a')" "w_env (a_world a) = []"
    "td_direction draft \<noteq> RemoteToRemote" "td_source_path draft \<noteq> []" "td_destination_path draft \<noteq> []"
    "td_symlink_policy draft \<noteq> Some CopyLink"
  shows "w_queue (a_world a') = snd (enqueue (draft_job (a_uuids a (a_issued a)) (w_now (a_world a)) draft) (w_queue (a_world a)))
    \<and> a_spawned a' = a_spawned a"
proof -
  have "start_job draft a = (Inl e, a')" using assms by (simp add: enqueue_transfer_def)
  then show ?thesis using assms(2)
    by (auto simp: start_job_def read_clock_def new_uuid_def queue_job_def lock_queue_alone run_simps enqueue_def
        spawn_task_def Let_def split: prod.splits sum.splits dest!: persist_keeps_queue)
qed

definition lost_draft :: TransferDraft where
  "lost_draft = \<lparr>td_profile_id = ''gone'', td_direction = Upload, td_source_path = ''/a'', td_destination_path = ''/b'',
     td_conflict_policy = None, td_symlink_policy = None, td_preserve_modified_time = None, td_preserve_permissions = None\<rparr>"

lemma lost_run:
  "\<exists>e. enqueue_transfer lost_draft (demo_app Map.empty) = (Inl e, snd (enqueue_transfer lost_draft (demo_app Map.empty)))"
  by (simp add: enqueue_transfer_def lost_draft_def start_job_def draft_job_def queue_job_def read_clock_def new_uuid_def
      lock_queue_def in_world_def with_queue_def interfere_def enqueue_def persist_transfer_jobs_def with_db_def
      save_transfers_def with_connection_def execute_def upsert_transfer_def transfer_to_row_def demo_app_def demo_defs
      run_simps Let_def upsert_def unwrap_or_def)

lemma unstored_transfer_stays_queued_witness:
  "order (w_queue (a_world (snd (enqueue_transfer lost_draft (demo_app Map.empty))))) = [''j'', ''u0'']
   \<and> a_spawned (snd (enqueue_transfer lost_draft (demo_app Map.empty))) = []"
proof -
  obtain e where run: "enqueue_transfer lost_draft (demo_app Map.empty) = (Inl e, snd (enqueue_transfer lost_draft (demo_app Map.empty)))"
    using lost_run by blast
  have "w_env (a_world (demo_app Map.empty)) = []" by (simp add: demo_app_def demo_world_def)
  note stays = unstored_transfer_stays_queued[OF run this]
  have zero: "show_nat 0 = ''0''" by code_simp
  have "a_uuids (demo_app Map.empty) (a_issued (demo_app Map.empty)) = ''u0''"
    "order (w_queue (a_world (demo_app Map.empty))) = [''j'']" "a_spawned (demo_app Map.empty) = []"
    by (simp_all add: demo_app_def demo_world_def demo_job_def new_job_def zero)
  moreover have "td_direction lost_draft \<noteq> RemoteToRemote" "td_source_path lost_draft \<noteq> []"
    "td_destination_path lost_draft \<noteq> []" "td_symlink_policy lost_draft \<noteq> Some CopyLink"
    by (simp_all add: lost_draft_def)
  ultimately show ?thesis using stays by (simp add: enqueue_def draft_job_def new_job_def)
qed

text \<open>
  Cancelling all transfers stops at the first one that waits for an answer or for a sign-in: such a transfer
  cannot be cancelled, the command fails, and when it is the first of the list no transfer is cancelled.
\<close>

theorem cancel_all_stops_at_waiting:
  assumes "w_env (a_world a) = []" "queue_wf (w_queue (a_world a))" "list_jobs (w_queue (a_world a)) = job # rest"
    "job_state job \<in> {WaitingForConflict, WaitingForAuthentication}"
  shows "\<exists>e. control_all_transfers CancelTransfer a = (Inl e, a)"
proof -
  have "job_id job # map job_id rest = order (w_queue (a_world a))"
    using list_jobs_ids[OF assms(2)] assms(3) by simp
  moreover have "job = the (jobs (w_queue (a_world a)) (job_id job))"
    using list_jobs_map[OF assms(2)] assms(3) calculation by (metis list.inject list.simps(9))
  ultimately have "jobs (w_queue (a_world a)) (job_id job) = Some job"
    using queue_wfD(2)[OF assms(2)] by (metis domD list.set_intros(1) option.sel)
  then have "\<exists>e. control_transfer (job_id job) CancelTransfer a = (Inl e, a)"
    using assms(1,4)
    by (auto simp: control_transfer_def read_clock_def gets_run and_then_run lock_queue_alone update_and_get_def
        action_state_def transition_def is_valid_transition_def)
  then show ?thesis using assms
    by (auto simp: control_all_transfers_def and_then_run lock_queue_alone gets_run action_candidate_def)
qed

lemma cancel_all_stops_at_waiting_witness:
  "\<exists>e. control_all_transfers CancelTransfer conflict_app = (Inl e, conflict_app)"
proof -
  have "w_env (a_world conflict_app) = []" "queue_wf (w_queue (a_world conflict_app))"
    "list_jobs (w_queue (a_world conflict_app)) = [demo_job\<lparr>job_state := WaitingForConflict\<rparr>]"
    using conflict_app_ok
    by (simp_all add: app_ok_def conflict_app_def demo_app_def demo_defs list_jobs_def List.map_filter_def)
  from cancel_all_stops_at_waiting[OF this] show ?thesis by simp
qed

text \<open>
  A transfer that is paused and resumed before its task has looked at it again is run by two tasks: a second
  one is started, and as soon as it has marked the job as running, the check of the first one passes.
\<close>

theorem pause_resume_runs_two_tasks:
  assumes "w_env (a_world a) = []" "jobs (w_queue (a_world a)) uid = Some job" "job_state job = Running"
    "control_transfer uid PauseTransfer a = (Inr j1, a1)" "control_transfer uid ResumeTransfer a1 = (Inr j2, a2)"
    "with_queue (update_and_get uid (transition now uid Running)) (a_world a2) = (r, w)"
  shows "a_spawned a2 = a_spawned a @ [uid] \<and> fst (ensure_running uid w) = Inr ()"
proof -
  note one = control_steps[OF assms(4,1,2)]
  from one have "w_env (a_world a1) = []" "jobs (w_queue (a_world a1)) uid
      = Some (job\<lparr>job_state := Paused, job_error := None, job_updated_at := w_now (a_world a)\<rparr>)"
    by (auto simp: action_state_def)
  note two = control_steps[OF assms(5) this]
  from one two have "a_spawned a2 = a_spawned a @ [uid]" by simp
  moreover have "\<exists>job2. jobs (w_queue (a_world a2)) uid = Some job2 \<and> job_state job2 = Queued"
    and "w_env (a_world a2) = []" using one two by (auto simp: action_state_def)
  ultimately show ?thesis using assms(6)
    by (auto simp: with_queue_def interfere_def update_and_get_def and_then_run transition_def is_valid_transition_def
        get_job_def ensure_running_def job_snapshot_def ok_run Let_def)
qed

lemma control_runs:
  "\<exists>j. control_transfer ''j'' PauseTransfer (demo_app Map.empty) = (Inr j, snd (control_transfer ''j'' PauseTransfer (demo_app Map.empty)))"
  "\<exists>j. control_transfer ''j'' ResumeTransfer (snd (control_transfer ''j'' PauseTransfer (demo_app Map.empty)))
     = (Inr j, snd (control_transfer ''j'' ResumeTransfer (snd (control_transfer ''j'' PauseTransfer (demo_app Map.empty)))))"
  by (simp_all add: control_transfer_def read_clock_def lock_queue_def in_world_def with_queue_def interfere_def
      update_and_get_def transition_def is_valid_transition_def set_error_def job_mut_def get_job_def action_state_def
      persist_transfer_jobs_def with_db_def save_transfers_def with_connection_def execute_def upsert_transfer_def
      transfer_to_row_def spawn_task_def demo_app_def demo_defs run_simps Let_def upsert_def merge_transfer_def)

lemma pause_resume_runs_two_tasks_witness:
  "a_spawned (snd (control_transfer ''j'' ResumeTransfer (snd (control_transfer ''j'' PauseTransfer (demo_app Map.empty))))) = [''j'']"
proof -
  obtain j1 j2 where runs: "control_transfer ''j'' PauseTransfer (demo_app Map.empty) = (Inr j1, snd (control_transfer ''j'' PauseTransfer (demo_app Map.empty)))"
    "control_transfer ''j'' ResumeTransfer (snd (control_transfer ''j'' PauseTransfer (demo_app Map.empty)))
     = (Inr j2, snd (control_transfer ''j'' ResumeTransfer (snd (control_transfer ''j'' PauseTransfer (demo_app Map.empty)))))"
    using control_runs by blast
  have "w_env (a_world (demo_app Map.empty)) = []" "jobs (w_queue (a_world (demo_app Map.empty))) ''j'' = Some demo_job"
    "job_state demo_job = Running" "a_spawned (demo_app Map.empty) = []"
    by (simp_all add: demo_app_def demo_world_def demo_job_def new_job_def)
  with pause_resume_runs_two_tasks[OF _ _ _ runs prod.collapse[symmetric]] show ?thesis by simp
qed

end
