(* ===== verification/Local_Paths.thy ===== *)
theory Local_Paths
  imports Paths
begin

text \<open>
  \<^verbatim>\<open>Path::parent\<close> of the standard library on Unix, as text: the pieces between slashes that are no
  component (empty ones, and a dot that does not begin the path) vanish around the place where the path is
  cut, and stay elsewhere.
\<close>

definition trim_pieces :: "string list \<Rightarrow> string list" where
  "trim_pieces ps = trim_end_matches (\<lambda>p. p = '''' \<or> p = ''.'') ps"

fun leading_pieces :: "string list \<Rightarrow> string list" where
  "leading_pieces [] = []"
| "leading_pieces (p # ps) = (if p = '''' then [] else p # trim_pieces ps)"

definition path_parent :: "string \<Rightarrow> string option" where
  "path_parent path =
     (let pieces = split_on (\<lambda>c. c = slash) path
      in if starts_with ''/'' path then
           (case rev (trim_pieces (tl pieces)) of
              [] \<Rightarrow> None
            | _ # before \<Rightarrow> Some (''/'' @ join ''/'' (trim_pieces (rev before))))
         else
           (case rev (leading_pieces pieces) of
              [] \<Rightarrow> None
            | _ # before \<Rightarrow> Some (join ''/'' (leading_pieces (rev before)))))"

lemma path_parent_examples:
  "path_parent ''/a/b'' = Some ''/a''" "path_parent ''/a//b/.'' = Some ''/a''"
  "path_parent ''/a'' = Some ''/''" "path_parent ''//'' = None" "path_parent ''a'' = Some ''''"
  "path_parent ''./a'' = Some ''.''" "path_parent '''' = None"
  by (simp_all add: path_parent_def Let_def starts_with_def trim_pieces_def trim_end_matches_def)

text \<open>A name pushed onto an absolute directory has that directory as its parent.\<close>

lemma trim_pieces_plain: "list_all plain_segment ps \<Longrightarrow> trim_pieces ps = ps"
  unfolding trim_pieces_def
  by (rule trim_end_matches_id) (auto simp: list_all_iff plain_segment_def dest!: last_in_set)

lemma path_parent_push:
  assumes segs: "list_all plain_segment segs" and seg: "plain_segment seg"
  shows "path_parent (''/'' @ join ''/'' (segs @ [seg])) = Some (''/'' @ join ''/'' segs)"
proof -
  have pieces: "split_on (\<lambda>c. c = slash) (join ''/'' (segs @ [seg])) = segs @ [seg]"
    by (rule split_on_join) (use segs seg in \<open>auto simp: list_all_iff plain_segment_def\<close>)
  have ends: "trim_pieces (segs @ [seg]) = segs @ [seg]" "trim_pieces segs = segs"
    by (rule trim_pieces_plain, simp add: segs seg)+
  show ?thesis by (simp add: path_parent_def starts_with_def pieces ends)
qed

text \<open>A parent is shorter than its path, so that walking up ends.\<close>

lemma trim_pieces_prefix: "\<exists>ys. ps = trim_pieces ps @ ys"
  unfolding trim_pieces_def trim_end_matches_def
  by (metis (no_types, lifting) append_Nil2 dropWhile_eq_Nil_conv rev_append rev_rev_ident takeWhile_dropWhile_id)

lemma length_join_prefix: "length (join sep ps) \<le> length (join sep (ps @ qs))"
proof (induction sep ps rule: join.induct)
  case (2 sep s)
  then show ?case by (cases qs) auto
qed auto

lemma length_join_snoc: "ps \<noteq> [] \<Longrightarrow> length (join [c] (ps @ [p])) = length (join [c] ps) + 1 + length p"
  by (simp add: join_append)

lemma trim_pieces_last: "trim_pieces ps = qs @ [p] \<Longrightarrow> p \<noteq> ''''"
  using trim_end_matches_last[of "\<lambda>p. p = '''' \<or> p = ''.''" ps] by (auto simp: trim_pieces_def)

lemma join_shorter:
  assumes "ps = qs @ [p] @ rest" "p \<noteq> ''''"
  shows "length (join ''/'' (trim_pieces qs)) < length (join ''/'' ps)"
proof -
  obtain ys where "qs = trim_pieces qs @ ys" using trim_pieces_prefix by blast
  then have "length (join ''/'' (trim_pieces qs)) \<le> length (join ''/'' qs)" by (metis length_join_prefix)
  also have "\<dots> < length (join ''/'' (qs @ [p]))" using assms(2) by (cases "qs = []") (auto simp: length_join_snoc)
  also have "\<dots> \<le> length (join ''/'' ps)" using length_join_prefix[of "''/''" "qs @ [p]" rest] assms(1) by simp
  finally show ?thesis .
qed

lemma path_parent_shorter:
  assumes "path_parent path = Some parent"
  shows "length parent < length path"
proof -
  define pieces where "pieces = split_on (\<lambda>c. c = slash) path"
  have path: "path = join ''/'' pieces" unfolding pieces_def by (simp add: join_split_on)
  show ?thesis
  proof (cases "starts_with ''/'' path")
    case True
    then obtain rest where rest: "path = slash # rest" by (cases path) (auto simp: starts_with_def)
    then have ps: "pieces = '''' # split_on (\<lambda>c. c = slash) rest" by (simp add: pieces_def)
    obtain p before where cut: "rev (trim_pieces (tl pieces)) = p # before"
      and parent: "parent = ''/'' @ join ''/'' (trim_pieces (rev before))"
      using assms True unfolding path_parent_def Let_def pieces_def[symmetric] by (auto split: list.splits)
    from cut have cut': "trim_pieces (tl pieces) = rev before @ [p]" by (metis rev.simps(2) rev_swap)
    obtain ys where "tl pieces = trim_pieces (tl pieces) @ ys" using trim_pieces_prefix by blast
    then have "tl pieces = rev before @ [p] @ ys" using cut' by simp
    from join_shorter[OF this trim_pieces_last[OF cut']]
    have "length (join ''/'' (trim_pieces (rev before))) < length rest" using ps by (simp add: join_split_on)
    then show ?thesis using parent rest by simp
  next
    case False
    obtain p before where cut: "rev (leading_pieces pieces) = p # before"
      and parent: "parent = join ''/'' (leading_pieces (rev before))"
      using assms False unfolding path_parent_def Let_def pieces_def[symmetric] by (auto split: list.splits)
    then obtain h t where ht: "pieces = h # t" "h \<noteq> ''''"
      by (cases pieces) (auto split: if_splits)
    from cut ht have cut': "h # trim_pieces t = rev before @ [p]" by (metis leading_pieces.simps(2) rev.simps(2) rev_swap)
    obtain ys where ys: "t = trim_pieces t @ ys" using trim_pieces_prefix by blast
    show ?thesis
    proof (cases "rev before")
      case Nil
      then show ?thesis using parent path ht by (cases t) auto
    next
      case (Cons h' qs)
      with cut' have q: "h' = h" "trim_pieces t = qs @ [p]" by auto
      have "t = qs @ [p] @ ys" using ys q(2) by simp
      from join_shorter[OF this trim_pieces_last[OF q(2)]]
      have "length (join ''/'' (trim_pieces qs)) < length (join ''/'' t)" .
      then have "length (join ''/'' (h # trim_pieces qs)) < length (join ''/'' (h # t))"
        by (cases "trim_pieces qs"; cases t) auto
      then show ?thesis using parent Cons q(1) ht path by simp
    qed
  qed
qed

text \<open>\<^verbatim>\<open>Path::extension\<close>: what follows the last dot of the name, unless the name begins with its only dot.\<close>

definition path_extension :: "string \<Rightarrow> string option" where
  "path_extension path = (case file_name path of
      None \<Rightarrow> None
    | Some name \<Rightarrow> (case rsplit_once (CHR ''.'') name of
        Some (stem, ext) \<Rightarrow> if stem = '''' then None else Some ext
      | None \<Rightarrow> None))"


end
