(* ===== verification/Search.thy ===== *)
theory Search
  imports App_State Transfer_Plan Local_Paths
begin

text \<open>
  \<^verbatim>\<open>src-tauri/src/search.rs\<close>: the search for entries by name, on the local disk and on a server, and the commands
  that start and cancel one. The state of a walk is \<open>WalkState\<close>: \<open>ws_sent\<close> is what \<^verbatim>\<open>on_progress\<close> was called
  with, \<open>ws_polls\<close> are the values that the next readings of the cancel flag see. Both walks have the same loop,
  which is \<open>search_loop\<close> over the two steps in which they differ: reading a directory, and looking at one item
  of it. It ends since every round that goes on visits one more directory. \<open>lower\<close> is \<^verbatim>\<open>str::to_lowercase\<close>.
\<close>

section \<open>Names\<close>

definition MAX_SEARCH_DEPTH :: nat where "MAX_SEARCH_DEPTH = 32"
definition MAX_SEARCH_MATCHES :: nat where "MAX_SEARCH_MATCHES = 500"
definition MAX_SEARCH_VISITED :: nat where "MAX_SEARCH_VISITED = 1500"
definition PROGRESS_BATCH :: nat where "PROGRESS_BATCH = 40"

definition SKIP_DIRECTORIES :: "string list" where
  "SKIP_DIRECTORIES = [''.git'', ''.hg'', ''.svn'', ''.jj'', ''node_modules'', ''target'', ''dist'', ''build'',
     ''out'', ''.next'', ''.nuxt'', ''.output'', ''.turbo'', ''.cache'', ''.venv'', ''venv'', ''__pycache__'',
     ''.pytest_cache'', ''.mypy_cache'', ''.idea'', ''.vscode'', ''Pods'', ''Carthage'', ''vendor'']"

definition should_skip_directory :: "string \<Rightarrow> bool" where
  "should_skip_directory name = list_ex (eq_ignore_ascii_case name) SKIP_DIRECTORIES"

definition name_matches :: "(string \<Rightarrow> string) \<Rightarrow> string \<Rightarrow> string \<Rightarrow> bool" where
  "name_matches lower name query_lower =
     (if query_lower = '''' then False else contains query_lower (lower name))"

definition local_parent_path :: "string \<Rightarrow> string" where
  "local_parent_path path = (case path_parent path of
      Some parent \<Rightarrow> if parent = '''' then ''/'' else parent
    | None \<Rightarrow> ''/'')"

section \<open>The state of a walk\<close>

record SearchMatch =
  match_path :: string
  match_name :: string
  match_kind :: EntryKind
  match_parent_path :: string

record SearchProgress =
  sp_search_id :: uuid
  sp_matches :: "SearchMatch list"
  sp_visited :: nat
  sp_truncated :: bool
  sp_done :: bool
  sp_cancelled :: bool
  sp_error :: "string option"

record WalkState =
  ws_search_id :: uuid
  ws_query :: string
  ws_polls :: "bool list"
  ws_matches :: "SearchMatch list"
  ws_pending :: "SearchMatch list"
  ws_visited :: nat
  ws_truncated :: bool
  ws_sent :: "SearchProgress list"

definition to_match :: "FileEntry \<Rightarrow> string \<Rightarrow> SearchMatch" where
  "to_match entry parent_path = \<lparr>match_path = ent_path entry, match_name = ent_name entry,
     match_kind = ent_kind entry, match_parent_path = parent_path\<rparr>"

definition new_walk :: "(string \<Rightarrow> string) \<Rightarrow> uuid \<Rightarrow> string \<Rightarrow> bool list \<Rightarrow> WalkState" where
  "new_walk lower search_id query readings = \<lparr>ws_search_id = search_id, ws_query = lower query, ws_polls = readings,
     ws_matches = [], ws_pending = [], ws_visited = 0, ws_truncated = False, ws_sent = []\<rparr>"

text \<open>A reading of the flag; after the script the flag stays clear.\<close>

definition is_cancelled :: "WalkState \<Rightarrow> bool \<times> WalkState" where
  "is_cancelled st = (case ws_polls st of
      [] \<Rightarrow> (False, st) | reading # readings \<Rightarrow> (reading, st\<lparr>ws_polls := readings\<rparr>))"

definition flush :: "bool \<Rightarrow> bool \<Rightarrow> WalkState \<Rightarrow> WalkState" where
  "flush done_flag cancelled st =
     (if ws_pending st = [] \<and> \<not> done_flag \<and> \<not> cancelled then st
      else st\<lparr>ws_pending := [], ws_sent := ws_sent st @ [\<lparr>sp_search_id = ws_search_id st,
        sp_matches = ws_pending st, sp_visited = ws_visited st, sp_truncated = ws_truncated st,
        sp_done = done_flag, sp_cancelled = cancelled, sp_error = None\<rparr>]\<rparr>)"

definition push_match :: "SearchMatch \<Rightarrow> WalkState \<Rightarrow> WalkState" where
  "push_match item st =
     (if MAX_SEARCH_MATCHES \<le> length (ws_matches st) then st\<lparr>ws_truncated := True\<rparr>
      else let st = st\<lparr>ws_matches := ws_matches st @ [item], ws_pending := ws_pending st @ [item]\<rparr>;
               st = (if PROGRESS_BATCH \<le> length (ws_pending st) then flush False False st else st)
           in if MAX_SEARCH_MATCHES \<le> length (ws_matches st) then st\<lparr>ws_truncated := True\<rparr> else st)"

definition finish :: "bool \<Rightarrow> WalkState \<Rightarrow> WalkState" where
  "finish cancelled st = flush True cancelled st"

section \<open>One directory\<close>

text \<open>What the walks do with one entry of a directory: record a match, and keep a directory for later. The
  flag says that the walk is full. The two lists are the directories whose names match, and the others.\<close>

type_synonym children = "string list \<times> string list"

definition note_entry ::
  "(string \<Rightarrow> string) \<Rightarrow> FileEntry \<Rightarrow> string \<Rightarrow> children \<Rightarrow> WalkState \<Rightarrow> bool \<times> children \<times> WalkState" where
  "note_entry lower entry parent kept st =
     (let hit = name_matches lower (ent_name entry) (ws_query st);
          st = (if hit then push_match (to_match entry parent) st else st);
          (preferred, other) = kept
      in if hit \<and> ws_truncated st then (True, kept, st)
         else if ent_kind entry = Directory \<and> \<not> should_skip_directory (ent_name entry) then
           (False, if hit then (preferred @ [ent_path entry], other) else (preferred, other @ [ent_path entry]), st)
         else (False, kept, st))"

text \<open>The loop over the items of a directory. \<open>look\<close> gives the entry of an item with its parent, or nothing
  for an item that is passed over. No value is returned when the search was cancelled.\<close>

fun scan_items ::
  "(string \<Rightarrow> string) \<Rightarrow> ('i \<Rightarrow> ('s, (FileEntry \<times> string) option) act) \<Rightarrow> 'i list \<Rightarrow> children \<Rightarrow> WalkState
     \<Rightarrow> 's \<Rightarrow> (AppError + children option) \<times> WalkState \<times> 's" where
  "scan_items lower look [] kept st s = (Inr (Some kept), st, s)"
| "scan_items lower look (item # items) kept st s =
     (let (stop, st) = is_cancelled st
      in if stop then (Inr None, finish True st, s)
         else case look item s of
                (Inl e, s) \<Rightarrow> (Inl e, st, s)
              | (Inr None, s) \<Rightarrow> scan_items lower look items kept st s
              | (Inr (Some (entry, parent)), s) \<Rightarrow>
                  let (full, kept, st) = note_entry lower entry parent kept st
                  in if full then (Inr (Some kept), st, s) else scan_items lower look items kept st s)"

section \<open>The walk\<close>

text \<open>Directories that do not match go to the end of the queue, those that match to its front.\<close>

definition enqueue_children :: "(string \<times> nat) list \<Rightarrow> nat \<Rightarrow> children \<Rightarrow> (string \<times> nat) list" where
  "enqueue_children queue depth kept =
     map (\<lambda>path. (path, depth)) (fst kept) @ queue @ map (\<lambda>path. (path, depth)) (snd kept)"

lemma finish_visited [simp]: "ws_visited (finish c st) = ws_visited st" "ws_visited (flush d c st) = ws_visited st"
  by (simp_all add: finish_def flush_def)

lemma is_cancelled_visited: "is_cancelled st = (b, st') \<Longrightarrow> ws_visited st' = ws_visited st"
  by (auto simp: is_cancelled_def split: list.splits)

lemma push_match_visited [simp]: "ws_visited (push_match m st) = ws_visited st"
  by (simp add: push_match_def Let_def)

text \<open>What holds of the walk through a directory: readings of the flag and matches keep it.\<close>

lemma note_entry_state:
  "note_entry lower entry parent kept st = (full, kept', st') \<Longrightarrow>
     st' = st \<or> st' = push_match (to_match entry parent) st"
  by (auto simp: note_entry_def Let_def split: prod.splits if_splits)

lemma scan_items_rule:
  assumes poll: "\<And>st b st'. is_cancelled st = (b, st') \<Longrightarrow> P st \<Longrightarrow> P st'"
    and push: "\<And>st m. P st \<Longrightarrow> P (push_match m st)"
  shows "scan_items lower look items kept st s = (r, st', s') \<Longrightarrow> P st \<Longrightarrow>
     if r = Inr None then \<exists>st0. P st0 \<and> st' = finish True st0 else P st'"
proof (induction items arbitrary: kept st s)
  case (Cons item items)
  obtain b st1 where poll1: "is_cancelled st = (b, st1)" by (cases "is_cancelled st")
  have P1: "P st1" by (rule poll[OF poll1 Cons.prems(2)])
  show ?case
  proof (cases b)
    case True
    then show ?thesis using Cons.prems(1) poll1 P1 by auto
  next
    case False
    obtain looked s1 where look1: "look item s = (looked, s1)" by (cases "look item s")
    show ?thesis
    proof (cases looked)
      case (Inl e)
      then show ?thesis using Cons.prems(1) poll1 P1 False look1 by auto
    next
      case (Inr found)
      show ?thesis
      proof (cases found)
        case None
        then show ?thesis using Cons.prems(1) poll1 P1 False look1 Inr Cons.IH[of kept st1 s1] by simp
      next
        case (Some ep)
        obtain full kept1 st2 where noted: "note_entry lower (fst ep) (snd ep) kept st1 = (full, kept1, st2)"
          by (cases "note_entry lower (fst ep) (snd ep) kept st1") auto
        have "P st2" using note_entry_state[OF noted] P1 push by metis
        then show ?thesis
          using Cons.prems(1) poll1 P1 False look1 Inr Some noted Cons.IH[of kept1 st2 s1]
          by (cases ep; cases full) auto
      qed
    qed
  qed
qed auto

lemma scan_items_visited:
  assumes "scan_items lower look items kept st s = (r, st', s')"
  shows "ws_visited st' = ws_visited st"
  using scan_items_rule[of "\<lambda>x. ws_visited x = ws_visited st", OF _ _ assms]
  by (auto simp: is_cancelled_visited split: if_splits)

text \<open>\<open>open_dir\<close> reads a directory at a depth; no value means that the directory is passed over.\<close>

function search_loop ::
  "(string \<Rightarrow> string) \<Rightarrow> (string \<Rightarrow> nat \<Rightarrow> ('s, 'i list option) act)
     \<Rightarrow> (string \<Rightarrow> 'i \<Rightarrow> ('s, (FileEntry \<times> string) option) act) \<Rightarrow> (string \<times> nat) list \<Rightarrow> WalkState
     \<Rightarrow> 's \<Rightarrow> (AppError + unit) \<times> WalkState \<times> 's" where
  "search_loop lower open_dir look [] st s = (Inr (), finish False st, s)"
| "search_loop lower open_dir look ((current, depth) # queue) st s =
     (let (stop, st) = is_cancelled st
      in if stop then (Inr (), finish True st, s)
         else if MAX_SEARCH_DEPTH < depth \<or> MAX_SEARCH_VISITED \<le> ws_visited st
         then (Inr (), finish False (st\<lparr>ws_truncated := True\<rparr>), s)
         else if ws_truncated st then (Inr (), finish False st, s)
         else let st = st\<lparr>ws_visited := ws_visited st + 1\<rparr>
              in case open_dir current depth s of
                   (Inl e, s) \<Rightarrow> (Inl e, st, s)
                 | (Inr None, s) \<Rightarrow> search_loop lower open_dir look queue st s
                 | (Inr (Some items), s) \<Rightarrow>
                     (case scan_items lower (look current) items ([], []) st s of
                        (Inl e, st, s) \<Rightarrow> (Inl e, st, s)
                      | (Inr None, st, s) \<Rightarrow> (Inr (), st, s)
                      | (Inr (Some kept), st, s) \<Rightarrow>
                          let st = (if ws_pending st \<noteq> [] then flush False False st else st)
                          in if ws_truncated st then (Inr (), finish False st, s)
                             else search_loop lower open_dir look (enqueue_children queue (depth + 1) kept) st s))"
  by pat_completeness auto
termination
proof (relation "measure (\<lambda>(_, _, _, _, st, _). MAX_SEARCH_VISITED - ws_visited st)", goal_cases)
  case (2 lower open_dir look current depth queue st s stopped stop st1 st2 opened opt s1)
  then have "ws_visited st1 = ws_visited st" by (metis is_cancelled_visited prod.collapse)
  with 2 show ?case by simp linarith
next
  case (3 lower open_dir look current depth queue st s stopped stop st1 st2 opened opt s1 items scanned r3 w st3 s3 kept st4)
  then have "is_cancelled st = (False, st1)"
    and "scan_items lower (look current) items ([], []) st2 opt = (Inr (Some st3), s3, kept)" by simp_all
  then have "ws_visited st1 = ws_visited st" "ws_visited s3 = ws_visited st2"
    by (blast intro: is_cancelled_visited scan_items_visited)+
  with 3 show ?case by simp linarith
qed simp

declare search_loop.simps [simp del]

definition remote_open_dir :: "'r RemoteFilesystem \<Rightarrow> string \<Rightarrow> nat \<Rightarrow> ('r, FileEntry list option) act" where
  "remote_open_dir client current depth =
     and_then (attempt (list_directory client current)) (\<lambda>listed. case listed of
       Inr entries \<Rightarrow> ok (Some entries)
     | Inl error \<Rightarrow> if depth = 0 then err error else ok None)"

definition remote_look :: "string \<Rightarrow> FileEntry \<Rightarrow> ('r, (FileEntry \<times> string) option) act" where
  "remote_look current entry = ok (if ent_kind entry = Symlink \<or> ent_kind entry = Other then None
     else Some (entry, remote_parent_path (ent_path entry)))"

definition search_remote ::
  "(string \<Rightarrow> string) \<Rightarrow> 'r RemoteFilesystem \<Rightarrow> uuid \<Rightarrow> string \<Rightarrow> string \<Rightarrow> bool list \<Rightarrow> 'r
     \<Rightarrow> (AppError + unit) \<times> WalkState \<times> 'r" where
  "search_remote lower client search_id root_path query readings s =
     (let st = new_walk lower search_id query readings
      in if ws_query st = '''' then (Inr (), finish False st, s)
         else search_loop lower (remote_open_dir client) remote_look [(root_path, 0)] st s)"

definition local_open_dir :: "'l LocalFs \<Rightarrow> string \<Rightarrow> nat \<Rightarrow> ('l, (io_error + string) list option) act" where
  "local_open_dir fs current depth =
     and_then (map_err (io_error_as IoError ''Could not read the local directory'') (l_read_dir fs current))
       (\<lambda>items. ok (Some items))"

definition kind_of :: "local_metadata \<Rightarrow> EntryKind" where
  "kind_of file_type = (if lm_is_symlink file_type then Symlink
     else if lm_is_dir file_type then Directory
     else if lm_is_file file_type then File else Other)"

definition local_look ::
  "'l LocalFs \<Rightarrow> string \<Rightarrow> io_error + string \<Rightarrow> ('l, (FileEntry \<times> string) option) act" where
  "local_look fs current item =
     (case item of
        Inl e \<Rightarrow> err (io_error_as IoError ''Could not read a local directory entry'' e)
      | Inr name \<Rightarrow>
          let path = path_push current name
          in and_then (attempt (l_symlink_metadata fs path)) (\<lambda>file_type. case file_type of
               Inl _ \<Rightarrow> ok None
             | Inr file_type \<Rightarrow>
                 let kind = kind_of file_type
                 in ok (if kind = Symlink \<or> kind = Other then None
                    else Some (\<lparr>ent_path = path, ent_name = name, ent_kind = kind, ent_size = None,
                      ent_modified_at = None, ent_permissions = None, ent_symlink_target = None,
                      ent_hidden = starts_with ''.'' name\<rparr>, local_parent_path path))))"

definition search_local ::
  "(string \<Rightarrow> string) \<Rightarrow> 'l LocalFs \<Rightarrow> uuid \<Rightarrow> string \<Rightarrow> string \<Rightarrow> bool list \<Rightarrow> 'l
     \<Rightarrow> (AppError + unit) \<times> WalkState \<times> 'l" where
  "search_local lower fs search_id root_path query readings s =
     (let st = new_walk lower search_id query readings
      in if ws_query st = '''' then (Inr (), finish False st, s)
         else case l_is_dir fs root_path s of
                (Inr True, s) \<Rightarrow> search_loop lower (local_open_dir fs) (local_look fs) [(root_path, 0)] st s
              | (_, s) \<Rightarrow> (Inl (new_error NotFound ''The search root directory was not found''), st, s))"

section \<open>The commands\<close>

text \<open>A command registers the search with a clear flag and hands a task to the runtime, which is returned here
  beside the identifier. A task takes the readings of its flag and returns the events it emitted.\<close>

type_synonym ('r, 'l) search_task = "bool list \<Rightarrow> ('r, 'l, SearchProgress list) app"

definition failure_event :: "uuid \<Rightarrow> string \<Rightarrow> SearchProgress" where
  "failure_event search_id text = \<lparr>sp_search_id = search_id, sp_matches = [], sp_visited = 0,
     sp_truncated = False, sp_done = True, sp_cancelled = False, sp_error = Some text\<rparr>"

definition search_events :: "uuid \<Rightarrow> (AppError \<Rightarrow> string) \<Rightarrow> AppError + unit \<Rightarrow> WalkState \<Rightarrow> SearchProgress list" where
  "search_events search_id text_of r st = ws_sent st @
     (case r of Inr _ \<Rightarrow> [] | Inl error \<Rightarrow> [failure_event search_id (text_of error)])"

definition register_search :: "uuid \<Rightarrow> ('r, 'l, unit) app" where
  "register_search search_id = modify (\<lambda>a. a\<lparr>a_searches := (a_searches a)(search_id \<mapsto> False)\<rparr>)"

definition forget_search :: "uuid \<Rightarrow> ('r, 'l, unit) app" where
  "forget_search search_id = modify (\<lambda>a. a\<lparr>a_searches := (a_searches a)(search_id := None)\<rparr>)"

definition local_search_task ::
  "(string \<Rightarrow> string) \<Rightarrow> uuid \<Rightarrow> string \<Rightarrow> string \<Rightarrow> ('r, 'l) search_task" where
  "local_search_task lower search_id root_path query readings =
     and_then (on_local local_io_error (\<lambda>fs s. case search_local lower fs search_id root_path query readings s of
         (r, st, s) \<Rightarrow> (Inr (search_events search_id message r st), s))) (\<lambda>events.
     and_then (forget_search search_id) (\<lambda>_. ok events))"

definition start_search_local ::
  "(string \<Rightarrow> string) \<Rightarrow> string \<Rightarrow> string \<Rightarrow> ('r, 'l, uuid \<times> ('r, 'l) search_task) app" where
  "start_search_local lower root_path query =
     and_then new_uuid (\<lambda>search_id.
     and_then (register_search search_id) (\<lambda>_.
     ok (search_id, local_search_task lower search_id root_path (trim query))))"

definition remote_search_message :: "AppError \<Rightarrow> string" where
  "remote_search_message error = (case detail error of
      Some note_text \<Rightarrow> if note_text \<noteq> '''' then message error @ '' ('' @ note_text @ '')'' else message error
    | None \<Rightarrow> message error)"

definition remote_search_task ::
  "(string \<Rightarrow> string) \<Rightarrow> 'r RemoteFilesystem \<Rightarrow> uuid \<Rightarrow> string \<Rightarrow> string \<Rightarrow> ('r, 'l) search_task" where
  "remote_search_task lower client search_id root_path query readings =
     and_then (on_server (\<lambda>s. case search_remote lower client search_id root_path query readings s of
         (r, st, s) \<Rightarrow> (Inr (search_events search_id remote_search_message r st), s))) (\<lambda>events.
     and_then (forget_search search_id) (\<lambda>_. ok events))"

definition start_search_remote ::
  "(string \<Rightarrow> string) \<Rightarrow> uuid \<Rightarrow> string \<Rightarrow> string \<Rightarrow> ('r, 'l, uuid \<times> ('r, 'l) search_task) app" where
  "start_search_remote lower session_id root_path query =
     and_then (open_client session_id) (\<lambda>client.
     and_then (lift_result (normalize_remote_path root_path)) (\<lambda>root_path.
     and_then new_uuid (\<lambda>search_id.
     and_then (register_search search_id) (\<lambda>_.
     ok (search_id, remote_search_task lower client search_id root_path (trim query))))))"

definition cancel_search :: "uuid \<Rightarrow> ('r, 'l, unit) app" where
  "cancel_search search_id = modify (\<lambda>a. case a_searches a search_id of
       Some _ \<Rightarrow> a\<lparr>a_searches := (a_searches a)(search_id \<mapsto> True)\<rparr>
     | None \<Rightarrow> a)"

end
