(* ===== verification/Search_Laws.thy ===== *)
theory Search_Laws
  imports Search
begin

text \<open>
  What a search reports. A rule of induction for the runs of the loop, the invariant of the walk (its bounds, and
  that every match is in exactly one event or still pending), and for a server whose listings do not change the
  comparison with the set of entries that can be reached from the root.
\<close>

section \<open>Runs of the loop\<close>

definition visited_one :: "WalkState \<Rightarrow> WalkState" where
  "visited_one st = st\<lparr>ws_visited := ws_visited st + 1\<rparr>"

definition flushed :: "WalkState \<Rightarrow> WalkState" where
  "flushed st = (if ws_pending st \<noteq> [] then flush False False st else st)"

lemma search_loop_runs [consumes 1, case_names empty cancelled cut full unread skipped failed stopped filled went_on]:
  assumes "search_loop lower od look queue st s = (r, st', s')"
    and "\<And>st s. Q [] st s (Inr ()) (finish False st) s"
    and "\<And>current depth queue st s st1. is_cancelled st = (True, st1) \<Longrightarrow>
      Q ((current, depth) # queue) st s (Inr ()) (finish True st1) s"
    and "\<And>current depth queue st s st1. is_cancelled st = (False, st1) \<Longrightarrow>
      MAX_SEARCH_DEPTH < depth \<or> MAX_SEARCH_VISITED \<le> ws_visited st1 \<Longrightarrow>
      Q ((current, depth) # queue) st s (Inr ()) (finish False (st1\<lparr>ws_truncated := True\<rparr>)) s"
    and "\<And>current depth queue st s st1. is_cancelled st = (False, st1) \<Longrightarrow> ws_truncated st1 \<Longrightarrow>
      Q ((current, depth) # queue) st s (Inr ()) (finish False st1) s"
    and "\<And>current depth queue st s st1 e s1. is_cancelled st = (False, st1) \<Longrightarrow>
      \<not> MAX_SEARCH_VISITED \<le> ws_visited st1 \<Longrightarrow> od current depth s = (Inl e, s1) \<Longrightarrow>
      Q ((current, depth) # queue) st s (Inl e) (visited_one st1) s1"
    and "\<And>current depth queue st s st1 s1 r st' s'. is_cancelled st = (False, st1) \<Longrightarrow>
      \<not> MAX_SEARCH_VISITED \<le> ws_visited st1 \<Longrightarrow> od current depth s = (Inr None, s1) \<Longrightarrow>
      Q queue (visited_one st1) s1 r st' s' \<Longrightarrow> Q ((current, depth) # queue) st s r st' s'"
    and "\<And>current depth queue st s st1 items e st2 s1 s2. is_cancelled st = (False, st1) \<Longrightarrow>
      \<not> MAX_SEARCH_VISITED \<le> ws_visited st1 \<Longrightarrow> od current depth s = (Inr (Some items), s1) \<Longrightarrow>
      scan_items lower (look current) items ([], []) (visited_one st1) s1 = (Inl e, st2, s2) \<Longrightarrow>
      Q ((current, depth) # queue) st s (Inl e) st2 s2"
    and "\<And>current depth queue st s st1 items st2 s1 s2. is_cancelled st = (False, st1) \<Longrightarrow>
      \<not> MAX_SEARCH_VISITED \<le> ws_visited st1 \<Longrightarrow> od current depth s = (Inr (Some items), s1) \<Longrightarrow>
      scan_items lower (look current) items ([], []) (visited_one st1) s1 = (Inr None, st2, s2) \<Longrightarrow>
      Q ((current, depth) # queue) st s (Inr ()) st2 s2"
    and "\<And>current depth queue st s st1 items kept st2 s1 s2. is_cancelled st = (False, st1) \<Longrightarrow>
      \<not> MAX_SEARCH_VISITED \<le> ws_visited st1 \<Longrightarrow> od current depth s = (Inr (Some items), s1) \<Longrightarrow>
      scan_items lower (look current) items ([], []) (visited_one st1) s1 = (Inr (Some kept), st2, s2) \<Longrightarrow>
      ws_truncated (flushed st2) \<Longrightarrow> Q ((current, depth) # queue) st s (Inr ()) (finish False (flushed st2)) s2"
    and "\<And>current depth queue st s st1 items kept st2 s1 s2 r st' s'. is_cancelled st = (False, st1) \<Longrightarrow>
      \<not> MAX_SEARCH_VISITED \<le> ws_visited st1 \<Longrightarrow> od current depth s = (Inr (Some items), s1) \<Longrightarrow>
      scan_items lower (look current) items ([], []) (visited_one st1) s1 = (Inr (Some kept), st2, s2) \<Longrightarrow>
      \<not> ws_truncated (flushed st2) \<Longrightarrow> Q (enqueue_children queue (depth + 1) kept) (flushed st2) s2 r st' s' \<Longrightarrow>
      Q ((current, depth) # queue) st s r st' s'"
  shows "Q queue st s r st' s'"
  using assms(1)
proof (induction lower\<equiv>lower od\<equiv>od look\<equiv>look queue st s rule: search_loop.induct)
  case (1 st s)
  then show ?case using assms(2) by (auto simp: search_loop.simps)
next
  case (2 current depth queue st s)
  obtain b st1 where poll: "is_cancelled st = (b, st1)" by (cases "is_cancelled st")
  note run = 2(3)[unfolded search_loop.simps Let_def poll prod.case]
  show ?case
  proof (cases "b \<or> MAX_SEARCH_DEPTH < depth \<or> MAX_SEARCH_VISITED \<le> ws_visited st1 \<or> ws_truncated st1")
    case True
    with run poll show ?thesis by (auto split: if_splits intro: assms(3-5))
  next
    case False
    note go = False[simplified]
    obtain opened s1 where opened: "od current depth s = (opened, s1)" by (cases "od current depth s")
    note run = run[unfolded opened prod.case]
    have polled: "is_cancelled st = (False, st1)" "\<not> MAX_SEARCH_VISITED \<le> ws_visited st1"
      using go poll by auto
    show ?thesis
    proof (cases opened)
      case (Inl e)
      then show ?thesis using run go assms(6)[OF polled] opened by (auto simp: visited_one_def)
    next
      case (Inr found)
      show ?thesis
      proof (cases found)
        case None
        then have "search_loop lower od look queue (visited_one st1) s1 = (r, st', s')"
          using run go Inr by (auto simp: visited_one_def)
        then have "Q queue (visited_one st1) s1 r st' s'"
          using 2(1)[OF refl poll[symmetric]] go opened Inr None by (auto simp: visited_one_def)
        then show ?thesis using assms(7)[OF polled] opened Inr None by simp
      next
        case (Some items)
        obtain scanned st2 s2 where
          scan: "scan_items lower (look current) items ([], []) (visited_one st1) s1 = (scanned, st2, s2)"
          by (cases "scan_items lower (look current) items ([], []) (visited_one st1) s1") auto
        have opened1: "od current depth s = (Inr (Some items), s1)" using opened Inr Some by simp
        have st1: "st1\<lparr>ws_visited := ws_visited st1 + 1\<rparr> = visited_one st1" by (simp add: visited_one_def)
        have fl: "(if ws_pending st2 \<noteq> [] then flush False False st2 else st2) = flushed st2"
          by (simp add: flushed_def)
        note run = run[unfolded Inr Some st1 sum.case option.case scan prod.case fl]
        show ?thesis
        proof (cases "scanned = Inr None \<or> (\<exists>e. scanned = Inl e)")
          case True
          with run go assms(8,9)[OF polled opened1] scan show ?thesis by (auto split: if_splits)
        next
          case False
          then obtain kept where kept: "scanned = Inr (Some kept)" by (cases scanned) auto
          note run = run[unfolded kept sum.case option.case fl]
          show ?thesis
          proof (cases "ws_truncated (flushed st2)")
            case True
            with run go assms(10)[OF polled opened1] scan kept show ?thesis by (auto split: if_splits)
          next
            case False
            then have rest: "search_loop lower od look (enqueue_children queue (depth + 1) kept) (flushed st2) s2
                = (r, st', s')" using run go by (auto split: if_splits)
            have "Q (enqueue_children queue (depth + 1) kept) (flushed st2) s2 r st' s'"
              by (rule 2(2)[OF refl poll[symmetric] _ _ _ refl opened[symmetric, unfolded Inr Some] refl refl
                    scan[unfolded kept visited_one_def, symmetric] refl refl refl, folded fl])
                (use go False rest in \<open>auto simp: flushed_def\<close>)
            then show ?thesis using assms(11)[OF polled opened1] scan kept False by auto
          qed
        qed
      qed
    qed
  qed
qed

section \<open>The invariant of a walk\<close>

definition event_ok :: "uuid \<Rightarrow> SearchProgress \<Rightarrow> bool" where
  "event_ok search_id p \<longleftrightarrow> sp_search_id p = search_id \<and> length (sp_matches p) \<le> PROGRESS_BATCH \<and>
     sp_visited p \<le> MAX_SEARCH_VISITED \<and> sp_error p = None"

definition walk_ok :: "uuid \<Rightarrow> WalkState \<Rightarrow> bool" where
  "walk_ok search_id st \<longleftrightarrow> ws_search_id st = search_id \<and> length (ws_matches st) \<le> MAX_SEARCH_MATCHES \<and>
     ws_visited st \<le> MAX_SEARCH_VISITED \<and> length (ws_pending st) < PROGRESS_BATCH \<and>
     concat (map sp_matches (ws_sent st)) @ ws_pending st = ws_matches st \<and>
     (\<forall>p \<in> set (ws_sent st). event_ok search_id p \<and> \<not> sp_done p \<and> \<not> sp_cancelled p)"

text \<open>How a walk ends: one last event, marked as such, with what was pending.\<close>

definition reported :: "uuid \<Rightarrow> SearchProgress list \<Rightarrow> bool" where
  "reported search_id events \<longleftrightarrow> events \<noteq> [] \<and> sp_done (last events) \<and>
     (\<forall>p \<in> set (butlast events). \<not> sp_done p \<and> \<not> sp_cancelled p \<and> sp_error p = None) \<and>
     (\<forall>p \<in> set events. sp_search_id p = search_id \<and> length (sp_matches p) \<le> PROGRESS_BATCH \<and>
        sp_visited p \<le> MAX_SEARCH_VISITED) \<and>
     length (concat (map sp_matches events)) \<le> MAX_SEARCH_MATCHES"

lemma batch_positive: "0 < PROGRESS_BATCH" by (simp add: PROGRESS_BATCH_def)

lemma walk_ok_new: "walk_ok search_id (new_walk lower search_id query readings)"
  by (simp add: walk_ok_def new_walk_def batch_positive)

lemma walk_ok_poll: "is_cancelled st = (b, st') \<Longrightarrow> walk_ok i st \<Longrightarrow> walk_ok i st'"
  by (auto simp: is_cancelled_def walk_ok_def split: list.splits)

lemma walk_ok_flush: "walk_ok i st \<Longrightarrow> walk_ok i (flush False False st)"
  by (auto simp: walk_ok_def flush_def event_ok_def batch_positive)

lemma walk_ok_flushed: "walk_ok i st \<Longrightarrow> walk_ok i (flushed st)"
  by (simp add: flushed_def walk_ok_flush)

lemma walk_ok_truncated: "walk_ok i (st\<lparr>ws_truncated := t\<rparr>) = walk_ok i st"
  by (simp add: walk_ok_def)

lemma walk_ok_visited: "walk_ok i st \<Longrightarrow> \<not> MAX_SEARCH_VISITED \<le> ws_visited st \<Longrightarrow> walk_ok i (visited_one st)"
  by (simp add: walk_ok_def visited_one_def)

lemma walk_ok_push: "walk_ok i st \<Longrightarrow> walk_ok i (push_match m st)"
  unfolding push_match_def Let_def walk_ok_def flush_def event_ok_def by auto

lemma walk_ok_scan:
  assumes "scan_items lower look items kept st s = (res, st', s')" "walk_ok i st"
  shows "if res = Inr None then \<exists>st0. walk_ok i st0 \<and> st' = finish True st0 else walk_ok i st'"
  by (rule scan_items_rule[of "walk_ok i", OF walk_ok_poll walk_ok_push assms])

definition ended :: "uuid \<Rightarrow> 'e + 'a \<Rightarrow> WalkState \<Rightarrow> bool" where
  "ended i r st \<longleftrightarrow> (if isl r then walk_ok i st else \<exists>st0 c. walk_ok i st0 \<and> st = finish c st0)"

lemma ended_simps:
  "ended i (Inl e) st \<longleftrightarrow> walk_ok i st" "ended i (Inr u) st \<longleftrightarrow> (\<exists>st0 c. walk_ok i st0 \<and> st = finish c st0)"
  by (simp_all add: ended_def)

lemma ended_finish: "walk_ok i st \<Longrightarrow> ended i (Inr u) (finish c st)"
  unfolding ended_simps by blast

lemma search_loop_ok:
  assumes "search_loop lower od look queue st s = (r, st', s')" "walk_ok i st"
  shows "ended i r st'"
  using assms
proof (induction rule: search_loop_runs)
  case (skipped current depth queue st s st1 s1 r st' s')
  then show ?case by (simp add: walk_ok_poll walk_ok_visited)
next
  case (failed current depth queue st s st1 items e st2 s1 s2)
  then have "walk_ok i (visited_one st1)" by (simp add: walk_ok_poll walk_ok_visited)
  from walk_ok_scan[OF failed(4) this] show ?case by (simp add: ended_simps)
next
  case (stopped current depth queue st s st1 items st2 s1 s2)
  then have "walk_ok i (visited_one st1)" by (simp add: walk_ok_poll walk_ok_visited)
  from walk_ok_scan[OF stopped(4) this] show ?case by (auto intro: ended_finish)
next
  case (filled current depth queue st s st1 items kept st2 s1 s2)
  then have "walk_ok i (visited_one st1)" by (simp add: walk_ok_poll walk_ok_visited)
  from walk_ok_scan[OF filled(4) this] show ?case by (simp add: walk_ok_flushed ended_finish)
next
  case (went_on current depth queue st s st1 items kept st2 s1 s2 r st' s')
  then have "walk_ok i (visited_one st1)" by (simp add: walk_ok_poll walk_ok_visited)
  from walk_ok_scan[OF went_on(4) this] went_on(6) show ?case by (simp add: walk_ok_flushed)
next
  case (unread current depth queue st s st1 e s1)
  then show ?case by (simp add: ended_simps walk_ok_poll walk_ok_visited)
qed (auto intro!: ended_finish dest: walk_ok_poll simp: walk_ok_truncated)

lemma finished_reported:
  assumes "walk_ok i st"
  shows "reported i (ws_sent (finish c st))" and "concat (map sp_matches (ws_sent (finish c st))) = ws_matches st"
  using assms by (auto simp: walk_ok_def reported_def finish_def flush_def event_ok_def)

lemma failed_reported:
  assumes "walk_ok i st"
  shows "reported i (ws_sent st @ [failure_event i text])"
  using assms by (auto simp: walk_ok_def reported_def failure_event_def event_ok_def dest!: arg_cong[of _ _ length])

lemma events_reported: "ended i r st \<Longrightarrow> reported i (search_events i text_of r st)"
  by (cases r) (auto simp: search_events_def ended_simps finished_reported failed_reported)

lemma search_remote_ok:
  assumes "search_remote lower client i root_path query readings s = (r, st, s')"
  shows "ended i r st"
proof (cases "ws_query (new_walk lower i query readings) = []")
  case True
  then show ?thesis using assms by (auto simp: search_remote_def Let_def ended_finish walk_ok_new)
next
  case False
  then show ?thesis using assms search_loop_ok[OF _ walk_ok_new] by (simp add: search_remote_def Let_def)
qed

lemma search_local_ok:
  assumes "search_local lower fs i root_path query readings s = (r, st, s')"
  shows "ended i r st"
proof (cases "ws_query (new_walk lower i query readings) = []")
  case True
  then show ?thesis using assms by (auto simp: search_local_def Let_def ended_finish walk_ok_new)
next
  case False
  obtain r1 s1 where dir: "l_is_dir fs root_path s = (r1, s1)" by (cases "l_is_dir fs root_path s")
  show ?thesis
  proof (cases "r1 = Inr True")
    case True
    then show ?thesis using assms False dir search_loop_ok[OF _ walk_ok_new] by (simp add: search_local_def Let_def)
  next
    case nd: False
    then have "r = Inl (new_error NotFound ''The search root directory was not found'')"
      "st = new_walk lower i query readings"
      using assms False dir by (auto simp: search_local_def Let_def split: sum.splits bool.splits)
    then show ?thesis by (simp add: ended_simps walk_ok_new)
  qed
qed

text \<open>C20: a search task always ends and tells the window so exactly once, with its last event; it reports at most 500
  matches, in batches of at most 40, visits at most 1500 directories, and is forgotten afterwards. This holds on any
  server and disk, whatever the flag shows.\<close>

theorem searches_report_once:
  "(\<exists>events a'. remote_search_task lower client i root_path query readings a = (Inr events, a')
     \<and> reported i events \<and> a_searches a' i = None)
   \<and> (\<exists>events b'. local_search_task lower i root_path query readings b = (Inr events, b')
     \<and> reported i events \<and> a_searches b' i = None)"
proof -
  obtain r st s where remote: "search_remote lower client i root_path query readings (w_remote (a_world a)) = (r, st, s)"
    by (cases "search_remote lower client i root_path query readings (w_remote (a_world a))") auto
  obtain r1 st1 s1 where disk:
    "search_local lower (w_fs (a_world b)) i root_path query readings (w_disk (a_world b)) = (r1, st1, s1)"
    by (cases "search_local lower (w_fs (a_world b)) i root_path query readings (w_disk (a_world b))") auto
  show ?thesis
    using events_reported[OF search_remote_ok[OF remote]] events_reported[OF search_local_ok[OF disk]]
    by (simp add: remote_search_task_def local_search_task_def run_simps in_world_def with_remote_def remote
        on_local_def on_disk_def disk forget_search_def)
qed

section \<open>What is found on a server whose listings stay the same\<close>

type_synonym listing = "string \<Rightarrow> AppError + FileEntry list"

definition entries_of :: "listing \<Rightarrow> string \<Rightarrow> FileEntry list" where
  "entries_of listing path = (case listing path of Inr entries \<Rightarrow> entries | Inl _ \<Rightarrow> [])"

definition subdirectories :: "FileEntry list \<Rightarrow> string set" where
  "subdirectories entries = {ent_path e | e. e \<in> set entries \<and> ent_kind e = Directory
     \<and> \<not> should_skip_directory (ent_name e)}"

definition hits_in :: "(string \<Rightarrow> string) \<Rightarrow> string \<Rightarrow> FileEntry list \<Rightarrow> SearchMatch set" where
  "hits_in lower query entries = {to_match e (remote_parent_path (ent_path e)) | e. e \<in> set entries
     \<and> ent_kind e \<in> {File, Directory} \<and> name_matches lower (ent_name e) query}"

text \<open>The directories that can be reached, without the ones a search leaves out.\<close>

inductive_set below :: "listing \<Rightarrow> string set \<Rightarrow> string set" for listing start where
  at_start: "d \<in> start \<Longrightarrow> d \<in> below listing start"
| deeper: "d \<in> below listing start \<Longrightarrow> e \<in> subdirectories (entries_of listing d) \<Longrightarrow> e \<in> below listing start"

definition search_hits :: "(string \<Rightarrow> string) \<Rightarrow> string \<Rightarrow> listing \<Rightarrow> string set \<Rightarrow> SearchMatch set" where
  "search_hits lower query listing start =
     (\<Union>d \<in> below listing start. hits_in lower query (entries_of listing d))"

lemma below_mono: "x \<in> below listing a \<Longrightarrow> a \<subseteq> b \<Longrightarrow> x \<in> below listing b"
  by (induction rule: below.induct) (auto intro: below.intros)

lemma below_union: "below listing (a \<union> b) = below listing a \<union> below listing b"
proof (intro equalityI subsetI)
  fix x assume "x \<in> below listing (a \<union> b)"
  then show "x \<in> below listing a \<union> below listing b"
    by induction (auto intro: below.intros)
qed (auto intro: below_mono)

lemma below_one:
  "below listing {d} = insert d (below listing (subdirectories (entries_of listing d)))"
proof (intro equalityI subsetI)
  fix x assume "x \<in> below listing {d}"
  then show "x \<in> insert d (below listing (subdirectories (entries_of listing d)))"
    by induction (auto intro: below.intros)
next
  fix x assume "x \<in> insert d (below listing (subdirectories (entries_of listing d)))"
  moreover have "y \<in> below listing (subdirectories (entries_of listing d)) \<Longrightarrow> y \<in> below listing {d}" for y
    by (induction rule: below.induct) (auto intro: below.intros)
  ultimately show "x \<in> below listing {d}" by (auto intro: below.intros)
qed

lemma search_hits_union:
  "search_hits lower query listing (a \<union> b) = search_hits lower query listing a \<union> search_hits lower query listing b"
  by (auto simp: search_hits_def below_union)

lemma search_hits_step:
  "search_hits lower query listing (insert d a) = hits_in lower query (entries_of listing d) \<union>
     search_hits lower query listing (subdirectories (entries_of listing d)) \<union> search_hits lower query listing a"
  using below_union[of listing "{d}" a] by (auto simp: search_hits_def below_one)

lemma search_hits_empty [simp]: "search_hits lower query listing {} = {}"
  by (auto simp: search_hits_def elim: below.induct)

text \<open>One directory.\<close>

lemma push_match_set:
  "set (ws_matches (push_match m st)) \<subseteq> insert m (set (ws_matches st))"
  "\<not> ws_truncated (push_match m st) \<Longrightarrow> set (ws_matches (push_match m st)) = insert m (set (ws_matches st))"
  "ws_query (push_match m st) = ws_query st"
  by (auto simp: push_match_def Let_def flush_def)

lemma is_cancelled_same:
  "is_cancelled st = (b, st1) \<Longrightarrow> ws_matches st1 = ws_matches st \<and> ws_query st1 = ws_query st \<and> ws_truncated st1 = ws_truncated st"
  by (auto simp: is_cancelled_def split: list.splits)

lemma finish_same [simp]:
  "ws_matches (finish c st) = ws_matches st" "ws_truncated (finish c st) = ws_truncated st"
  "ws_query (finish c st) = ws_query st" "ws_matches (flushed st) = ws_matches st"
  "ws_truncated (flushed st) = ws_truncated st" "ws_query (flushed st) = ws_query st"
  "ws_matches (visited_one st) = ws_matches st" "ws_query (visited_one st) = ws_query st"
  "ws_truncated (visited_one st) = ws_truncated st"
  by (simp_all add: finish_def flush_def flushed_def visited_one_def)

lemma finish_cancelled [simp]: "sp_cancelled (last (ws_sent (finish c st))) = c"
  by (simp add: finish_def flush_def)

lemma note_entry_set:
  assumes "note_entry lower e (remote_parent_path (ent_path e)) kept st = (filled, kept', st')"
    and "ent_kind e = File \<or> ent_kind e = Directory" "\<not> ws_truncated st"
  shows "set (ws_matches st') \<subseteq> set (ws_matches st) \<union> hits_in lower (ws_query st) [e]"
    and "ws_query st' = ws_query st"
    and "filled = ws_truncated st'"
    and "\<not> filled \<Longrightarrow> set (ws_matches st') = set (ws_matches st) \<union> hits_in lower (ws_query st) [e]"
    and "\<not> filled \<Longrightarrow> set (fst kept') \<union> set (snd kept') = set (fst kept) \<union> set (snd kept) \<union> subdirectories [e]"
  using assms push_match_set[of "to_match e (remote_parent_path (ent_path e))" st]
  by (auto simp: note_entry_def Let_def hits_in_def subdirectories_def split: if_splits prod.splits)

lemma hits_in_Cons: "hits_in lower q (e # es) = hits_in lower q [e] \<union> hits_in lower q es"
  by (auto simp: hits_in_def)

lemma subdirectories_Cons: "subdirectories (e # es) = subdirectories [e] \<union> subdirectories es"
  by (auto simp: subdirectories_def)

lemma remote_look_run:
  "remote_look current e s = (Inr (if ent_kind e = Symlink \<or> ent_kind e = Other then None
     else Some (e, remote_parent_path (ent_path e))), s)"
  by (simp add: remote_look_def ok_run)

lemma scan_remote_set:
  assumes "scan_items lower (remote_look current) entries kept st s = (res, st', s')" "\<not> ws_truncated st"
  shows "s' = s \<and> (\<exists>x. res = Inr x) \<and> ws_query st' = ws_query st \<and>
     set (ws_matches st') \<subseteq> set (ws_matches st) \<union> hits_in lower (ws_query st) entries \<and>
     (\<forall>kept'. res = Inr (Some kept') \<longrightarrow> \<not> ws_truncated st' \<longrightarrow>
        set (ws_matches st') = set (ws_matches st) \<union> hits_in lower (ws_query st) entries \<and>
        set (fst kept') \<union> set (snd kept') = set (fst kept) \<union> set (snd kept) \<union> subdirectories entries)"
  using assms
proof (induction entries arbitrary: kept st)
  case Nil
  then show ?case by (auto simp: hits_in_def subdirectories_def)
next
  case (Cons e es)
  obtain b st1 where poll: "is_cancelled st = (b, st1)" by (cases "is_cancelled st")
  note same = is_cancelled_same[OF poll]
  show ?case
  proof (cases b)
    case True
    then show ?thesis using Cons.prems poll same by auto
  next
    case False
    show ?thesis
    proof (cases "ent_kind e = Symlink \<or> ent_kind e = Other")
      case True
      then have none: "hits_in lower q [e] = {}" "subdirectories [e] = {}" for q
        by (auto simp: hits_in_def subdirectories_def)
      show ?thesis
        using Cons.prems(1) Cons.IH[of kept st1] Cons.prems(2) poll same False True none
        by (auto simp: remote_look_run[of current e s] hits_in_Cons[of _ _ e es] subdirectories_Cons[of e es])
    next
      case kind: False
      obtain filled kept1 st2 where
        noted: "note_entry lower e (remote_parent_path (ent_path e)) kept st1 = (filled, kept1, st2)"
        by (cases "note_entry lower e (remote_parent_path (ent_path e)) kept st1") auto
      have k: "ent_kind e = File \<or> ent_kind e = Directory" using kind by (cases "ent_kind e") auto
      have nt: "\<not> ws_truncated st1" using Cons.prems(2) same by simp
      note step = note_entry_set[OF noted k nt]
      show ?thesis
      proof (cases filled)
        case True
        then have "res = Inr (Some kept1)" "st' = st2" "s' = s"
          using Cons.prems(1) poll False kind noted by (auto simp: remote_look_run[of current e s])
        then show ?thesis using step(1-3) True same by (auto simp: hits_in_Cons[of _ _ e es])
      next
        case fits: False
        then have rest: "scan_items lower (remote_look current) es kept1 st2 s = (res, st', s')"
          using Cons.prems(1) poll False kind noted by (auto simp: remote_look_run[of current e s])
        have nt2: "\<not> ws_truncated st2" using step(3) fits by simp
        show ?thesis
          using Cons.IH[OF rest nt2] step(2,4,5) fits same
          by (auto simp: hits_in_Cons[of _ _ e es] subdirectories_Cons[of e es])
      qed
    qed
  qed
qed

lemma remote_open_pure:
  assumes "\<And>p s. list_directory client p s = (listing p, s)"
  shows "remote_open_dir client current depth s = (case listing current of
      Inr entries \<Rightarrow> (Inr (Some entries), s)
    | Inl e \<Rightarrow> (if depth = 0 then Inl e else Inr None, s))"
  by (simp add: remote_open_dir_def run_simps assms split: sum.split)

lemma enqueued: "fst ` set (enqueue_children queue depth kept) = fst ` set queue \<union> set (fst kept) \<union> set (snd kept)"
  by (force simp: enqueue_children_def)

lemma scan_stopped:
  assumes "scan_items lower look items kept st s = (Inr None, st', s')"
  shows "sp_cancelled (last (ws_sent st'))"
  using scan_items_rule[of "\<lambda>_. True", OF _ _ assms] by auto

lemma search_loop_finds:
  assumes "search_loop lower (remote_open_dir client) remote_look queue st s = (r, st', s')"
    and pure: "\<And>p s. list_directory client p s = (listing p, s)"
    and "\<not> ws_truncated st"
  shows "set (ws_matches st') \<subseteq> set (ws_matches st) \<union> search_hits lower (ws_query st) listing (fst ` set queue) \<and>
     (r = Inr () \<longrightarrow> \<not> ws_truncated st' \<longrightarrow> \<not> sp_cancelled (last (ws_sent st')) \<longrightarrow>
      set (ws_matches st') = set (ws_matches st) \<union> search_hits lower (ws_query st) listing (fst ` set queue))"
  using assms(1,3)
proof (induction rule: search_loop_runs)
  case (skipped current depth queue st s st1 s1 r st' s')
  note same = is_cancelled_same[OF skipped(1)]
  have "entries_of listing current = []"
    using skipped(3) by (auto simp: remote_open_pure[OF pure] entries_of_def split: sum.splits if_splits)
  then have "search_hits lower q listing (fst ` set ((current, depth) # queue)) = search_hits lower q listing (fst ` set queue)" for q
    by (simp add: search_hits_step hits_in_def subdirectories_def)
  then show ?case using skipped.IH skipped.prems same by simp
next
  case (failed current depth queue st s st1 items e st2 s1 s2)
  have "\<not> ws_truncated (visited_one st1)" using failed.prems is_cancelled_same[OF failed(1)] by simp
  from scan_remote_set[OF failed(4) this] show ?case by simp
next
  case (stopped current depth queue st s st1 items st2 s1 s2)
  note same = is_cancelled_same[OF stopped(1)]
  have "\<not> ws_truncated (visited_one st1)" using stopped.prems same by simp
  from scan_remote_set[OF stopped(4) this] scan_stopped[OF stopped(4)] stopped(3) same show ?case
    by (auto simp: remote_open_pure[OF pure] search_hits_step entries_of_def split: sum.splits if_splits)
next
  case (filled current depth queue st s st1 items kept st2 s1 s2)
  note same = is_cancelled_same[OF filled(1)]
  have "\<not> ws_truncated (visited_one st1)" using filled.prems same by simp
  from scan_remote_set[OF filled(4) this] filled(3,5) same show ?case
    by (auto simp: remote_open_pure[OF pure] search_hits_step entries_of_def split: sum.splits if_splits)
next
  case (went_on current depth queue st s st1 items kept st2 s1 s2 r st' s')
  note same = is_cancelled_same[OF went_on(1)]
  have listed: "entries_of listing current = items"
    using went_on(3) by (auto simp: remote_open_pure[OF pure] entries_of_def split: sum.splits if_splits)
  have nt: "\<not> ws_truncated (visited_one st1)" "\<not> ws_truncated st2" using went_on.prems went_on(5) same by simp_all
  have scan: "ws_query st2 = ws_query st"
    "set (ws_matches st2) = set (ws_matches st) \<union> hits_in lower (ws_query st) items"
    "set (fst kept) \<union> set (snd kept) = subdirectories items"
    using scan_remote_set[OF went_on(4) nt(1)] nt(2) same by simp_all
  have queue1: "fst ` set (enqueue_children queue (depth + 1) kept) = fst ` set queue \<union> subdirectories items"
    using scan(3) by (simp add: enqueued sup_assoc)
  have hits: "search_hits lower q listing (fst ` set ((current, depth) # queue)) = hits_in lower q items \<union>
      search_hits lower q listing (fst ` set (enqueue_children queue (depth + 1) kept))" for q
    unfolding queue1 by (simp add: search_hits_step listed search_hits_union sup_commute sup_left_commute)
  show ?case using went_on.IH went_on(5) scan unfolding hits by simp blast
qed (auto dest: is_cancelled_same simp: remote_open_pure[OF pure])

lemma search_hits_no_query [simp]: "search_hits lower [] listing start = {}"
  by (simp add: search_hits_def hits_in_def name_matches_def)

lemma new_walk_same [simp]:
  "ws_query (new_walk lower i query readings) = lower query" "ws_matches (new_walk lower i query readings) = []"
  "\<not> ws_truncated (new_walk lower i query readings)"
  by (simp_all add: new_walk_def)

lemma ended_matches:
  assumes "ended i r st"
  shows "set (concat (map sp_matches (search_events i text_of r st))) \<subseteq> set (ws_matches st)"
    and "r = Inr () \<Longrightarrow> concat (map sp_matches (search_events i text_of r st)) = ws_matches st"
    and "r = Inr () \<Longrightarrow> sp_truncated (last (search_events i text_of r st)) = ws_truncated st"
proof -
  show "set (concat (map sp_matches (search_events i text_of r st))) \<subseteq> set (ws_matches st)"
  proof (cases r)
    case (Inl e)
    then have "concat (map sp_matches (ws_sent st)) @ ws_pending st = ws_matches st"
      using assms by (simp add: ended_simps walk_ok_def)
    from arg_cong[OF this, of set] Inl show ?thesis by (auto simp: search_events_def failure_event_def)
  next
    case (Inr u)
    then obtain st0 c where st0: "walk_ok i st0" "st = finish c st0" using assms by (auto simp: ended_simps)
    from finished_reported(2)[OF st0(1), of c] st0(2) Inr show ?thesis by (simp add: search_events_def)
  qed
  assume r: "r = Inr ()"
  then obtain st0 c where st0: "walk_ok i st0" "st = finish c st0" using assms by (auto simp: ended_simps)
  from finished_reported(2)[OF st0(1), of c] st0(2) r
  show "concat (map sp_matches (search_events i text_of r st)) = ws_matches st" by (simp add: search_events_def)
  from st0(2) r show "sp_truncated (last (search_events i text_of r st)) = ws_truncated st"
    by (simp add: search_events_def finish_def flush_def)
qed


text \<open>A server with a directory below the root, and a search for the file in it.\<close>

definition found_entry :: "string \<Rightarrow> string \<Rightarrow> EntryKind \<Rightarrow> FileEntry" where
  "found_entry path name kind = \<lparr>ent_path = path, ent_name = name, ent_kind = kind, ent_size = None,
     ent_modified_at = None, ent_permissions = None, ent_symlink_target = None, ent_hidden = False\<rparr>"

definition small_listing :: listing where
  "small_listing path =
     (if path = ''/'' then Inr [found_entry ''/docs'' ''docs'' Directory, found_entry ''/plan'' ''plan'' Symlink,
        found_entry ''/build'' ''build'' Directory]
      else if path = ''/docs'' then Inr [found_entry ''/docs/plan.txt'' ''plan.txt'' File]
      else if path = ''/build'' then Inr [found_entry ''/build/plan'' ''plan'' File]
      else Inl (new_error NotFound path))"

definition small_server :: "store RemoteFilesystem" where
  "small_server = mem_remote\<lparr>list_directory := \<lambda>p s. (small_listing p, s)\<rparr>"

definition plan_match :: SearchMatch where
  "plan_match = \<lparr>match_path = ''/docs/plan.txt'', match_name = ''plan.txt'', match_kind = File,
     match_parent_path = ''/docs''\<rparr>"

lemma small_names:
  "to_ascii_lowercase ''Plan'' = ''plan''" "to_ascii_lowercase ''docs'' = ''docs''"
  "to_ascii_lowercase ''build'' = ''build''" "to_ascii_lowercase ''plan.txt'' = ''plan.txt''"
  "\<not> should_skip_directory ''docs''" "should_skip_directory ''build''"
  by code_simp+

lemma small_search:
  "\<exists>st. search_remote to_ascii_lowercase small_server ''s'' ''/'' ''Plan'' [] s = (Inr (), st, s)
     \<and> sp_error (last (ws_sent st)) = None \<and> \<not> sp_truncated (last (ws_sent st)) \<and> \<not> sp_cancelled (last (ws_sent st))
     \<and> concat (map sp_matches (ws_sent st)) = [plan_match]"
  by (simp add: search_remote_def new_walk_def search_loop.simps remote_open_dir_def run_simps small_server_def
      small_listing_def found_entry_def is_cancelled_def MAX_SEARCH_DEPTH_def MAX_SEARCH_VISITED_def remote_look_def
      note_entry_def name_matches_def small_names starts_with_def enqueue_children_def
      push_match_def MAX_SEARCH_MATCHES_def PROGRESS_BATCH_def flush_def finish_def to_match_def plan_match_def
      remote_parent_path_def trim_end_matches_def rfind.simps Let_def)


text \<open>A directory below the root that cannot be read ends a local search with an error, while a search on a
  server passes over it.\<close>

theorem unreadable_directory:
  assumes "ws_polls st = []" "\<not> ws_truncated st" "ws_visited st < MAX_SEARCH_VISITED" "0 < depth" "depth \<le> MAX_SEARCH_DEPTH"
    and "l_read_dir fs current d = (Inl e, d')" "list_directory client current s = (Inl f, s')"
  shows "search_loop lower (local_open_dir fs) (local_look fs) ((current, depth) # queue) st d =
      (Inl (io_error_as IoError ''Could not read the local directory'' e), visited_one st, d') \<and>
    search_loop lower (remote_open_dir client) remote_look ((current, depth) # queue) st s =
      search_loop lower (remote_open_dir client) remote_look queue (visited_one st) s'"
  using assms
  by (simp add: search_loop.simps is_cancelled_def local_open_dir_def remote_open_dir_def run_simps visited_one_def)

end
