(* ===== verification/Entry_Commands.thy ===== *)
theory Entry_Commands
  imports App_State Transfer_Plan Local_Paths "HOL-Library.Product_Lexorder"
begin

text \<open>
  \<^verbatim>\<open>src-tauri/src/commands.rs\<close>: the commands of the two file panes. Listings, reading and saving files in the
  editor, previews, creating, renaming and deleting entries, permissions, sizes of directories, and the variants
  that run under \<^verbatim>\<open>sudo\<close>. Commands that use the local disk only are actions on its state; the others act on the
  state of the program. On Unix.

  Programs that are started (\<^verbatim>\<open>sudo\<close>, \<^verbatim>\<open>rustfmt\<close>) are a parameter that takes arguments and standard input and says
  what each stage of the run gave. \<open>lower\<close> is \<^verbatim>\<open>str::to_lowercase\<close>, \<open>lossy\<close> is \<^verbatim>\<open>String::from_utf8_lossy\<close>, \<open>base64\<close> is
  the encoder of the crate of that name. Deleting and measuring directories follow the listings without a bound on
  the depth; deleting takes fuel, measuring is a partial function, and both give no value when they do not return.
\<close>

section \<open>The disk\<close>

definition command_io_error :: "io_error \<Rightarrow> AppError" where
  "command_io_error source = with_detail (new_error
     (case io_kind source of IoNotFound \<Rightarrow> NotFound | IoPermissionDenied \<Rightarrow> PermissionDenied | _ \<Rightarrow> IoError)
     ''The local directory could not be read'') (io_text source)"

text \<open>\<^verbatim>\<open>Path::exists\<close>, \<^verbatim>\<open>is_file\<close> and \<^verbatim>\<open>is_dir\<close>: an error means no.\<close>

definition path_exists :: "'l LocalFs \<Rightarrow> string \<Rightarrow> ('l, 'e, bool) eff" where
  "path_exists fs path = and_then (attempt (l_try_exists fs path)) (\<lambda>found. ok (found = Inr True))"

definition path_is_file :: "'l LocalFs \<Rightarrow> string \<Rightarrow> ('l, 'e, bool) eff" where
  "path_is_file fs path = and_then (attempt (l_metadata fs path)) (\<lambda>found. ok (case found of
     Inr meta \<Rightarrow> lm_is_file meta | Inl _ \<Rightarrow> False))"

definition path_is_dir :: "'l LocalFs \<Rightarrow> string \<Rightarrow> ('l, 'e, bool) eff" where
  "path_is_dir fs path = and_then (attempt (l_is_dir fs path)) (\<lambda>found. ok (found = Inr True))"

definition read_text :: "'l LocalFs \<Rightarrow> string \<Rightarrow> ('l, 'e, string option) eff" where
  "read_text fs path = and_then (attempt (l_read fs path)) (\<lambda>found. ok (case found of
     Inr bytes \<Rightarrow> if utf8_valid bytes then Some bytes else None | Inl _ \<Rightarrow> None))"

section \<open>Listings\<close>

definition list_remote_directory :: "uuid \<Rightarrow> string \<Rightarrow> ('r, 'l, FileEntry list) app" where
  "list_remote_directory session_id path =
     and_then (open_client session_id) (\<lambda>client.
     and_then (lift_result (normalize_remote_path path)) (\<lambda>path. on_server (list_directory client path)))"

definition get_default_local_path :: "string \<Rightarrow> ('r, 'l, string) app" where
  "get_default_local_path unknown = and_then (gets a_home) (\<lambda>home. case home of
       Some path \<Rightarrow> ok path
     | None \<Rightarrow> err (with_detail (new_error IoError ''Could not locate the home directory'') unknown))"

definition local_permissions :: "local_metadata \<Rightarrow> u32 option" where
  "local_permissions meta = Some (and (lm_mode meta) 0xFFF)"

definition local_entry_kind :: "local_metadata \<Rightarrow> EntryKind" where
  "local_entry_kind meta = (if lm_is_symlink meta then Symlink else if lm_is_dir meta then Directory
     else if lm_is_file meta then File else Other)"

definition local_link_target :: "'l LocalFs \<Rightarrow> local_metadata \<Rightarrow> string \<Rightarrow> ('l, 'e, string option) eff" where
  "local_link_target fs meta path = (if lm_is_symlink meta
     then and_then (attempt (l_read_link fs path)) (\<lambda>target. ok (case target of Inr t \<Rightarrow> Some t | Inl _ \<Rightarrow> None))
     else ok None)"

definition local_item :: "'l LocalFs \<Rightarrow> string \<Rightarrow> io_error + string \<Rightarrow> ('l, FileEntry) act" where
  "local_item fs dir item =
     and_then (map_err command_io_error (lift_result item)) (\<lambda>name.
     let path = path_push dir name
     in and_then (map_err command_io_error (l_symlink_metadata fs path)) (\<lambda>meta.
        and_then (local_link_target fs meta path) (\<lambda>target.
        ok \<lparr>ent_path = path, ent_name = name, ent_kind = local_entry_kind meta,
          ent_size = (if lm_is_file meta then Some (lm_len meta) else None),
          ent_modified_at = Some (lm_modified meta), ent_permissions = local_permissions meta,
          ent_symlink_target = target, ent_hidden = starts_with ''.'' name\<rparr>)))"

definition list_local_directory :: "(string \<Rightarrow> string) \<Rightarrow> 'l LocalFs \<Rightarrow> string \<Rightarrow> ('l, FileEntry list) act" where
  "list_local_directory lower fs path =
     and_then (map_err command_io_error (l_read_dir fs path)) (\<lambda>items.
     and_then (collect_each (local_item fs path) items) (\<lambda>entries.
     ok (sort_key (\<lambda>entry. (ent_kind entry \<noteq> Directory, lower (ent_name entry))) entries)))"

section \<open>The branch of a work tree\<close>

definition resolve_git_dir :: "'l LocalFs \<Rightarrow> string \<Rightarrow> string \<Rightarrow> ('l, 'e, string option) eff" where
  "resolve_git_dir fs git_marker worktree =
     and_then (path_is_dir fs git_marker) (\<lambda>is_directory.
     if is_directory then ok (Some git_marker) else
     and_then (path_is_file fs git_marker) (\<lambda>is_file.
     if \<not> is_file then ok None else
     and_then (read_text fs git_marker) (\<lambda>contents.
     ok (case contents of None \<Rightarrow> None | Some contents \<Rightarrow>
       (case List.find (starts_with ''gitdir:'') (text_lines contents) of None \<Rightarrow> None | Some line \<Rightarrow>
          let gitdir = trim (drop (length ''gitdir:'') line)
          in if gitdir = '''' then None
             else if starts_with ''/'' gitdir then Some gitdir else Some (path_push worktree gitdir))))))"

definition is_hexdigit :: "char \<Rightarrow> bool" where
  "is_hexdigit c = (is_digit c \<or> byte_in 0x61 0x66 c \<or> byte_in 0x41 0x46 c)"

definition git_head_label :: "string \<Rightarrow> string option" where
  "git_head_label contents =
     (let head = trim contents
      in case strip_prefix ''ref: refs/heads/'' head of
           Some branch \<Rightarrow> let branch = trim branch in if branch = '''' then None else Some branch
         | None \<Rightarrow> (case strip_prefix ''ref: '' head of
             Some reference \<Rightarrow>
               let name = last (split_on (\<lambda>c. c = slash) (trim reference)) in if name = '''' then None else Some name
           | None \<Rightarrow> if 7 \<le> length head \<and> list_all is_hexdigit head then Some (take 7 head) else None))"

definition read_git_head_label :: "'l LocalFs \<Rightarrow> string \<Rightarrow> ('l, 'e, string option) eff" where
  "read_git_head_label fs git_dir = and_then (read_text fs (path_push git_dir ''HEAD'')) (\<lambda>head.
     ok (case head of None \<Rightarrow> None | Some head \<Rightarrow> git_head_label head))"

text \<open>Going up from a directory to the first one that holds a \<^verbatim>\<open>.git\<close>.\<close>

function find_git_branch :: "'l LocalFs \<Rightarrow> string \<Rightarrow> ('l, 'e, string option) eff" where
  "find_git_branch fs current w =
     and_then (path_exists fs (path_push current ''.git'')) (\<lambda>found w.
       if found then
         and_then (resolve_git_dir fs (path_push current ''.git'') current) (\<lambda>git_dir. case git_dir of
             None \<Rightarrow> ok None | Some git_dir \<Rightarrow> read_git_head_label fs git_dir) w
       else (case path_parent current of
           None \<Rightarrow> (Inr None, w)
         | Some parent \<Rightarrow> find_git_branch fs parent w)) w"
  by pat_completeness auto
termination by (relation "measure (\<lambda>(_, current, _). length current)") (auto simp: path_parent_shorter)

declare find_git_branch.simps [simp del]

definition resolve_local_git_branch :: "'l LocalFs \<Rightarrow> string \<Rightarrow> ('l, 'e, string option) eff" where
  "resolve_local_git_branch fs start =
     and_then (path_is_file fs start) (\<lambda>is_file.
     if is_file then (case path_parent start of None \<Rightarrow> ok None | Some parent \<Rightarrow> find_git_branch fs parent)
     else find_git_branch fs start)"

definition get_local_git_branch :: "'l LocalFs \<Rightarrow> string \<Rightarrow> ('l, string option) act" where
  "get_local_git_branch fs path = resolve_local_git_branch fs path"

section \<open>Files in the editor\<close>

record EditableFile =
  ef_path :: string
  ef_name :: string
  ef_content :: string
  ef_language :: string
  ef_size :: nat
  ef_privileged :: bool

definition MAX_EDITABLE_FILE_BYTES :: nat where "MAX_EDITABLE_FILE_BYTES = 4 * 1024 * 1024"
definition REMOTE_FILE_CHUNK_SIZE :: nat where "REMOTE_FILE_CHUNK_SIZE = 1024 * 1024"

definition too_large_to_edit :: AppError where
  "too_large_to_edit = new_error InvalidInput ''Files larger than 4 MB cannot be edited in Siftlane''"

text \<open>\<^verbatim>\<open>take(limit).read_to_end\<close>: reads until the end of the file or the limit.\<close>

function read_to_limit :: "'l LocalFs \<Rightarrow> string \<Rightarrow> nat \<Rightarrow> nat \<Rightarrow> bytes \<Rightarrow> ('l, bytes) io" where
  "read_to_limit fs path remaining offset got w =
     (if remaining = 0 then (Inr got, w)
      else and_then (l_read_at fs path offset remaining) (\<lambda>buf w.
        if buf = [] then (Inr got, w)
        else read_to_limit fs path (remaining - length buf) (offset + length buf) (got @ buf) w) w)"
  by pat_completeness auto
termination by (relation "measure (\<lambda>(_, _, remaining, _). remaining)") auto

declare read_to_limit.simps [simp del]

definition read_local_bytes_bounded :: "'l LocalFs \<Rightarrow> string \<Rightarrow> nat \<Rightarrow> string \<Rightarrow> ('l, bytes) act" where
  "read_local_bytes_bounded fs path limit limit_message =
     and_then (map_err command_io_error (l_open fs path)) (\<lambda>_.
     and_then (map_err command_io_error (l_metadata fs path)) (\<lambda>meta.
     if \<not> lm_is_file meta
     then err (new_error InvalidInput ''Only regular files can be opened in Siftlane'')
     else if limit < lm_len meta then err (new_error InvalidInput limit_message)
     else and_then (map_err command_io_error (read_to_limit fs path (limit + 1) 0 [])) (\<lambda>bytes.
       if limit < length bytes then err (new_error InvalidInput limit_message) else ok bytes)))"

text \<open>The loop of \<^verbatim>\<open>read_remote_bytes_bounded\<close>; the offset is the number of the bytes that were read.\<close>

definition next_request :: "nat option \<Rightarrow> nat \<Rightarrow> nat \<Rightarrow> nat" where
  "next_request reported limit offset =
     (let hard_remaining = limit + 1 - offset;
          advertised_remaining = (case reported of Some n \<Rightarrow> n - offset | None \<Rightarrow> hard_remaining)
      in min (min hard_remaining advertised_remaining) REMOTE_FILE_CHUNK_SIZE)"

function read_remote_chunks ::
  "'r RemoteFilesystem \<Rightarrow> string \<Rightarrow> nat option \<Rightarrow> nat \<Rightarrow> string \<Rightarrow> bytes \<Rightarrow> ('r, bytes) act" where
  "read_remote_chunks client path reported limit limit_message bytes s =
     (let offset = length bytes; requested = next_request reported limit offset
      in if (case reported of Some n \<Rightarrow> n \<le> offset | None \<Rightarrow> False) \<or> requested = 0 then (Inr bytes, s)
         else and_then (read_chunk client path offset requested) (\<lambda>chunk s.
           if requested < length chunk
           then (Inl (new_error IoError ''The remote server returned an invalid file chunk''), s)
           else if chunk = [] then
             (if (case reported of Some n \<Rightarrow> offset < n | None \<Rightarrow> False)
              then (Inl (new_error IoError ''The remote file ended before its advertised size''), s)
              else (Inr bytes, s))
           else if limit < length (bytes @ chunk) then (Inl (new_error InvalidInput limit_message), s)
           else if reported = None \<and> length chunk < requested then (Inr (bytes @ chunk), s)
           else read_remote_chunks client path reported limit limit_message (bytes @ chunk) s) s)"
  by pat_completeness auto
termination
  by (relation "measure (\<lambda>(_, _, _, limit, _, bytes, _). limit + 1 - length bytes)") (auto simp: diff_less_mono2)

declare read_remote_chunks.simps [simp del]

definition read_remote_bytes_bounded ::
  "'r RemoteFilesystem \<Rightarrow> string \<Rightarrow> nat option \<Rightarrow> nat \<Rightarrow> string \<Rightarrow> ('r, bytes) act" where
  "read_remote_bytes_bounded client path reported limit limit_message =
     (if (case reported of Some n \<Rightarrow> limit < n | None \<Rightarrow> False) then err (new_error InvalidInput limit_message)
      else read_remote_chunks client path reported limit limit_message [])"

definition language_for :: "(string \<Rightarrow> string) \<Rightarrow> string \<Rightarrow> string" where
  "language_for lower name =
     (let ext = lower (case path_extension name of Some e \<Rightarrow> e | None \<Rightarrow> '''')
      in if ext = ''html'' \<or> ext = ''htm'' then ''HTML'' else if ext = ''css'' then ''CSS''
         else if ext = ''ts'' \<or> ext = ''tsx'' then ''TypeScript'' else if ext = ''js'' \<or> ext = ''jsx'' then ''JavaScript''
         else if ext = ''json'' then ''JSON'' else if ext = ''md'' then ''Markdown''
         else if ext = ''rs'' then ''Rust'' else ''Plain text'')"

definition base_name :: "string \<Rightarrow> string \<Rightarrow> string" where
  "base_name fallback path = (case file_name path of Some name \<Rightarrow> name | None \<Rightarrow> fallback)"

definition editable_file :: "(string \<Rightarrow> string) \<Rightarrow> string \<Rightarrow> bytes \<Rightarrow> EditableFile result" where
  "editable_file lower path bytes =
     (let name = base_name ''file.txt'' path
      in if \<not> utf8_valid bytes
         then Inl (new_error InvalidInput ''This file is binary and cannot be edited as text'')
         else Inr \<lparr>ef_path = path, ef_name = name, ef_content = bytes, ef_language = language_for lower name,
           ef_size = length bytes, ef_privileged = False\<rparr>)"

definition open_local_file :: "(string \<Rightarrow> string) \<Rightarrow> 'l LocalFs \<Rightarrow> string \<Rightarrow> ('l, EditableFile) act" where
  "open_local_file lower fs path =
     and_then (read_local_bytes_bounded fs path MAX_EDITABLE_FILE_BYTES
         ''Files larger than 4 MB cannot be edited in Siftlane'') (\<lambda>bytes.
     lift_result (editable_file lower path bytes))"

definition save_local_file :: "'l LocalFs \<Rightarrow> string \<Rightarrow> string \<Rightarrow> ('l, unit) act" where
  "save_local_file fs path body =
     (if MAX_EDITABLE_FILE_BYTES < length body then err too_large_to_edit
      else map_err command_io_error (l_write fs path body))"

text \<open>The metadata of a file that a command is about to read.\<close>

definition existing_entry :: "'r RemoteFilesystem \<Rightarrow> string \<Rightarrow> ('r, FileEntry) act" where
  "existing_entry client path = and_then (metadata client path) (\<lambda>found. case found of
       Some entry \<Rightarrow> ok entry
     | None \<Rightarrow> err (new_error NotFound ''The remote file no longer exists''))"

definition open_remote_file :: "(string \<Rightarrow> string) \<Rightarrow> uuid \<Rightarrow> string \<Rightarrow> ('r, 'l, EditableFile) app" where
  "open_remote_file lower session_id path =
     and_then (lift_result (normalize_remote_path path)) (\<lambda>path.
     and_then (open_client session_id) (\<lambda>client.
     and_then (on_server (existing_entry client path)) (\<lambda>entry.
     and_then (on_server (read_remote_bytes_bounded client path (ent_size entry) MAX_EDITABLE_FILE_BYTES
         ''Files larger than 4 MB cannot be edited in Siftlane'')) (\<lambda>bytes.
     lift_result (editable_file lower path bytes)))))"

definition read_remote_file_privileged ::
  "(string \<Rightarrow> string) \<Rightarrow> uuid \<Rightarrow> string \<Rightarrow> string option \<Rightarrow> ('r, 'l, EditableFile) app" where
  "read_remote_file_privileged lower session_id path sudo_password =
     and_then (lift_result (normalize_remote_path path)) (\<lambda>path.
     and_then (open_client session_id) (\<lambda>client.
     and_then (on_server (read_privileged client path sudo_password)) (\<lambda>bytes.
     if MAX_EDITABLE_FILE_BYTES < length bytes then err too_large_to_edit
     else and_then (lift_result (editable_file lower path bytes)) (\<lambda>f. ok (f\<lparr>ef_privileged := True\<rparr>)))))"

section \<open>Saving a file on a server\<close>

text \<open>The new content goes to a file beside the old one, the old file is moved aside, the new one takes its
  place, and the old one is removed.\<close>

function chunks :: "nat \<Rightarrow> 'a list \<Rightarrow> 'a list list" where
  "chunks n xs = (if xs = [] \<or> n = 0 then [] else take n xs # chunks n (drop n xs))"
  by pat_completeness auto
termination by (relation "measure (\<lambda>(_, xs). length xs)") auto

declare chunks.simps [simp del]

definition write_chunks :: "'r RemoteFilesystem \<Rightarrow> string \<Rightarrow> bytes \<Rightarrow> ('r, unit) act" where
  "write_chunks client temp body =
     (if body = [] then write_chunk client temp 0 []
      else for_each (\<lambda>(offset, chunk). write_chunk client temp (offset * REMOTE_FILE_CHUNK_SIZE) chunk)
        (enumerate 0 (chunks REMOTE_FILE_CHUNK_SIZE body)))"

definition parent_of :: "string \<Rightarrow> string" where
  "parent_of path = (case rsplit_once slash path of
      Some (parent, _) \<Rightarrow> if parent = '''' then ''/'' else parent | None \<Rightarrow> ''/'')"

definition beside :: "string \<Rightarrow> string \<Rightarrow> uuid \<Rightarrow> string result" where
  "beside path mark uid = normalize_remote_path
     (trim_end_matches (\<lambda>c. c = slash) (parent_of path) @ ''/.siftlane-'' @ mark @ ''-'' @ uid @ ''-''
       @ last (split_on (\<lambda>c. c = slash) path))"

definition replace_remote :: "'r RemoteFilesystem \<Rightarrow> string \<Rightarrow> string \<Rightarrow> string \<Rightarrow> ('r, unit) act" where
  "replace_remote client path temp backup =
     and_then (rename client path backup) (\<lambda>_.
     and_then (attempt (rename client temp path)) (\<lambda>moved_in. case moved_in of
       Inl error \<Rightarrow>
         and_then (attempt (rename client backup path)) (\<lambda>_.
         and_then (attempt (remove_file client temp)) (\<lambda>_. err error))
     | Inr _ \<Rightarrow> remove_file client backup))"

definition save_remote_bytes_atomic :: "'r RemoteFilesystem \<Rightarrow> string \<Rightarrow> bytes \<Rightarrow> ('r, 'l, unit) app" where
  "save_remote_bytes_atomic client path body =
     and_then new_uuid (\<lambda>uid.
     and_then (lift_result (beside path ''edit'' uid)) (\<lambda>temp.
     and_then (on_server (write_chunks client temp body)) (\<lambda>_.
     and_then (on_server (sync_file client temp)) (\<lambda>_.
     and_then new_uuid (\<lambda>uid.
     and_then (lift_result (beside path ''backup'' uid)) (\<lambda>backup.
     on_server (replace_remote client path temp backup)))))))"

definition save_remote_file :: "uuid \<Rightarrow> string \<Rightarrow> string \<Rightarrow> ('r, 'l, unit) app" where
  "save_remote_file session_id path body =
     (if MAX_EDITABLE_FILE_BYTES < length body then err too_large_to_edit
      else and_then (lift_result (normalize_remote_path path)) (\<lambda>path.
        and_then (open_client session_id) (\<lambda>client. save_remote_bytes_atomic client path body)))"

definition save_remote_file_privileged ::
  "uuid \<Rightarrow> string \<Rightarrow> string \<Rightarrow> string option \<Rightarrow> ('r, 'l, unit) app" where
  "save_remote_file_privileged session_id path body sudo_password =
     (if MAX_EDITABLE_FILE_BYTES < length body then err too_large_to_edit
      else and_then (lift_result (normalize_remote_path path)) (\<lambda>path.
        and_then (open_client session_id) (\<lambda>client.
        on_server (write_privileged client path body sudo_password))))"

section \<open>Programs\<close>

text \<open>What the stages of a run gave: writing the password and the rest of the input, reading the two outputs,
  and the exit status. A program that cannot be started is an error of the run as a whole.\<close>

record process_run =
  run_password_error :: "io_error option"
  run_input_error :: "io_error option"
  run_stdout :: "io_error + bytes"
  run_stderr :: "io_error + bytes"
  run_success :: "io_error + bool"

type_synonym 'l program = "string list \<Rightarrow> bytes \<Rightarrow> ('l, process_run) io"

definition detailed :: "ErrorCode \<Rightarrow> string \<Rightarrow> io_error \<Rightarrow> AppError" where
  "detailed c text e = with_detail (new_error c text) (io_text e)"

definition local_sudo_spawn_error :: "io_error \<Rightarrow> AppError" where
  "local_sudo_spawn_error = detailed Unsupported ''The local sudo command could not be started''"

definition local_sudo_error :: "(bytes \<Rightarrow> string) \<Rightarrow> bytes \<Rightarrow> AppError" where
  "local_sudo_error lossy stderr =
     (let text = trim (lossy stderr); l = to_ascii_lowercase text;
          c = (if contains ''password'' l \<or> contains ''authentication'' l then AuthenticationFailed
               else if contains ''file exists'' l \<or> contains ''already exists'' l then AlreadyExists
               else if contains ''no such file'' l then NotFound else PermissionDenied)
      in with_detail (new_error c ''The local sudo operation failed'') text)"

definition read_process_output :: "nat \<Rightarrow> io_error + bytes \<Rightarrow> bytes result" where
  "read_process_output limit output = (case output of
      Inl e \<Rightarrow> Inl (detailed IoError ''Could not read the sudo command output'' e)
    | Inr bytes \<Rightarrow> Inr (take limit bytes))"

definition sudo_result :: "(bytes \<Rightarrow> string) \<Rightarrow> bool \<Rightarrow> process_run \<Rightarrow> bytes result" where
  "sudo_result lossy has_password p =
     (case (if has_password then run_password_error p else None) of
        Some e \<Rightarrow> Inl (detailed IoError ''Could not send the sudo password'' e)
      | None \<Rightarrow> (case run_input_error p of
          Some e \<Rightarrow> Inl (detailed IoError ''Could not send the file to sudo'' e)
        | None \<Rightarrow> (case read_process_output (MAX_EDITABLE_FILE_BYTES + 1) (run_stdout p) of
            Inl e \<Rightarrow> Inl e
          | Inr stdout \<Rightarrow> (case read_process_output (64 * 1024) (run_stderr p) of
              Inl e \<Rightarrow> Inl e
            | Inr stderr \<Rightarrow> (case run_success p of
                Inl e \<Rightarrow> Inl (local_sudo_spawn_error e)
              | Inr success \<Rightarrow>
                  if MAX_EDITABLE_FILE_BYTES < length stdout then Inl too_large_to_edit
                  else if \<not> success then Inl (local_sudo_error lossy stderr) else Inr stdout)))))"

definition run_local_sudo ::
  "(bytes \<Rightarrow> string) \<Rightarrow> 'l program \<Rightarrow> string list \<Rightarrow> string option \<Rightarrow> bytes \<Rightarrow> ('l, bytes) act" where
  "run_local_sudo lossy sudo args password body =
     and_then (case password of
         Some _ \<Rightarrow> and_then (map_err local_sudo_spawn_error (sudo [''-k''] [])) (\<lambda>_. ok [''-S'', ''-p'', '''', ''--''])
       | None \<Rightarrow> ok [''-n'', ''--'']) (\<lambda>options.
     and_then (map_err local_sudo_spawn_error (sudo (options @ args) (case password of
         Some secret \<Rightarrow> secret @ [CHR 0x0A] @ body | None \<Rightarrow> body))) (\<lambda>p.
     lift_result (sudo_result lossy (password \<noteq> None) p)))"

definition read_local_file_privileged ::
  "(string \<Rightarrow> string) \<Rightarrow> (bytes \<Rightarrow> string) \<Rightarrow> 'l program \<Rightarrow> string \<Rightarrow> string option \<Rightarrow> ('l, EditableFile) act" where
  "read_local_file_privileged lower lossy sudo path sudo_password =
     and_then (attempt (run_local_sudo lossy sudo [''cat'', path] None [])) (\<lambda>first.
     and_then (case first of
         Inr output \<Rightarrow> ok output
       | Inl error \<Rightarrow> (case sudo_password of
           None \<Rightarrow> err error
         | Some password \<Rightarrow> run_local_sudo lossy sudo [''cat'', path] (Some password) [])) (\<lambda>output.
     if MAX_EDITABLE_FILE_BYTES < length output then err too_large_to_edit
     else and_then (lift_result (editable_file lower path output)) (\<lambda>f. ok (f\<lparr>ef_privileged := True\<rparr>))))"

definition save_local_file_privileged ::
  "(bytes \<Rightarrow> string) \<Rightarrow> 'l program \<Rightarrow> string \<Rightarrow> string \<Rightarrow> string option \<Rightarrow> ('l, unit) act" where
  "save_local_file_privileged lossy sudo path body sudo_password =
     (if MAX_EDITABLE_FILE_BYTES < length body then err too_large_to_edit
      else and_then (attempt (run_local_sudo lossy sudo [''true''] None [])) (\<lambda>probe. case probe of
          Inr _ \<Rightarrow> and_then (run_local_sudo lossy sudo [''tee'', path] None body) (\<lambda>_. ok ())
        | Inl error \<Rightarrow> (case sudo_password of
            None \<Rightarrow> err error
          | Some password \<Rightarrow>
              and_then (run_local_sudo lossy sudo [''tee'', path] (Some password) body) (\<lambda>_. ok ()))))"

definition create_local_entry_privileged ::
  "(bytes \<Rightarrow> string) \<Rightarrow> 'l program \<Rightarrow> string \<Rightarrow> string \<Rightarrow> bool \<Rightarrow> string option \<Rightarrow> ('l, unit) act" where
  "create_local_entry_privileged lossy sudo parent_path name directory sudo_password =
     and_then (lift_result (validate_entry_name name)) (\<lambda>_.
     let path = path_push parent_path name;
         args = (if directory then [''mkdir'', path]
                 else [''sh'', ''-c'', ''set -C; : > \"$1\"'', ''siftlane'', path])
     in and_then (run_local_sudo lossy sudo args sudo_password []) (\<lambda>_. ok ()))"

definition delete_local_entry_privileged ::
  "(bytes \<Rightarrow> string) \<Rightarrow> 'l program \<Rightarrow> string \<Rightarrow> bool \<Rightarrow> string option \<Rightarrow> ('l, unit) act" where
  "delete_local_entry_privileged lossy sudo path directory sudo_password =
     and_then (run_local_sudo lossy sudo [''rm'', if directory then ''-rf'' else ''-f'', ''--'', path] sudo_password [])
       (\<lambda>_. ok ())"

text \<open>\<open>utf8_text\<close> is how the standard library describes bytes that are not text.\<close>

definition format_rust ::
  "(bytes \<Rightarrow> string) \<Rightarrow> (bytes \<Rightarrow> string) \<Rightarrow> 'l program \<Rightarrow> string \<Rightarrow> ('l, string) act" where
  "format_rust lossy utf8_text rustfmt body =
     (if MAX_EDITABLE_FILE_BYTES < length body then err too_large_to_edit
      else and_then (map_err (detailed Unsupported ''rustfmt is not installed on this computer'')
          (rustfmt [''--emit'', ''stdout'', ''--edition'', ''2024''] body)) (\<lambda>p. lift_result
        (case run_input_error p of
           Some e \<Rightarrow> Inl (detailed IoError ''Could not send the file to rustfmt'' e)
         | None \<Rightarrow> (case (run_stdout p, run_stderr p, run_success p) of
             (Inr stdout, Inr stderr, Inr success) \<Rightarrow>
               if \<not> success then Inl (with_detail (new_error InvalidInput ''rustfmt could not format this file'')
                 (trim (lossy stderr)))
               else if utf8_valid stdout then Inr stdout
               else Inl (with_detail (new_error InternalError ''rustfmt returned invalid text'') (utf8_text stdout))
           | (Inl e, _, _) \<Rightarrow> Inl (detailed IoError ''rustfmt could not finish'' e)
           | (_, Inl e, _) \<Rightarrow> Inl (detailed IoError ''rustfmt could not finish'' e)
           | (_, _, Inl e) \<Rightarrow> Inl (detailed IoError ''rustfmt could not finish'' e)))))"

section \<open>Previews\<close>

definition MAX_PREVIEW_FILE_BYTES :: nat where "MAX_PREVIEW_FILE_BYTES = 16 * 1024 * 1024"

record PreviewFile =
  pv_path :: string
  pv_name :: string
  pv_mime :: string
  pv_data_base64 :: string
  pv_size :: nat

definition image_mime_for :: "(string \<Rightarrow> string) \<Rightarrow> string \<Rightarrow> string option" where
  "image_mime_for lower name =
     (let ext = lower (case path_extension name of Some e \<Rightarrow> e | None \<Rightarrow> '''')
      in if ext = ''jpg'' \<or> ext = ''jpeg'' then Some ''image/jpeg''
         else if ext = ''png'' then Some ''image/png'' else None)"

definition too_large_to_preview :: string where
  "too_large_to_preview = ''Images larger than 16 MB cannot be previewed in Siftlane''"

definition preview_file ::
  "(string \<Rightarrow> string) \<Rightarrow> (bytes \<Rightarrow> string) \<Rightarrow> string \<Rightarrow> bytes \<Rightarrow> PreviewFile result" where
  "preview_file lower base64 path bytes =
     (let name = base_name ''image'' path
      in case image_mime_for lower name of
           None \<Rightarrow> Inl (new_error InvalidInput ''Only JPG and PNG images can be previewed'')
         | Some mime \<Rightarrow>
             if MAX_PREVIEW_FILE_BYTES < length bytes then Inl (new_error InvalidInput too_large_to_preview)
             else Inr \<lparr>pv_path = path, pv_name = name, pv_mime = mime, pv_data_base64 = base64 bytes,
               pv_size = length bytes\<rparr>)"

definition read_local_preview ::
  "(string \<Rightarrow> string) \<Rightarrow> (bytes \<Rightarrow> string) \<Rightarrow> 'l LocalFs \<Rightarrow> string \<Rightarrow> ('l, PreviewFile) act" where
  "read_local_preview lower base64 fs path =
     and_then (read_local_bytes_bounded fs path MAX_PREVIEW_FILE_BYTES too_large_to_preview) (\<lambda>bytes.
     lift_result (preview_file lower base64 path bytes))"

definition read_remote_preview ::
  "(string \<Rightarrow> string) \<Rightarrow> (bytes \<Rightarrow> string) \<Rightarrow> uuid \<Rightarrow> string \<Rightarrow> ('r, 'l, PreviewFile) app" where
  "read_remote_preview lower base64 session_id path =
     and_then (lift_result (normalize_remote_path path)) (\<lambda>path.
     and_then (open_client session_id) (\<lambda>client.
     and_then (on_server (existing_entry client path)) (\<lambda>entry.
     and_then (on_server (read_remote_bytes_bounded client path (ent_size entry) MAX_PREVIEW_FILE_BYTES
         too_large_to_preview)) (\<lambda>bytes.
     lift_result (preview_file lower base64 path bytes)))))"

section \<open>Entries\<close>

definition create_local_entry :: "'l LocalFs \<Rightarrow> string \<Rightarrow> string \<Rightarrow> bool \<Rightarrow> ('l, unit) act" where
  "create_local_entry fs parent_path name directory =
     and_then (lift_result (validate_entry_name name)) (\<lambda>_.
     let path = path_push parent_path name
     in map_err command_io_error (if directory then l_create_dir fs path else l_create_new fs path))"

definition delete_local_entry :: "'l LocalFs \<Rightarrow> string \<Rightarrow> bool \<Rightarrow> ('l, unit) act" where
  "delete_local_entry fs path directory =
     map_err command_io_error (if directory then l_remove_dir_all fs path else l_remove_file fs path)"

definition name_taken :: AppError where
  "name_taken = new_error AlreadyExists ''An entry with that name already exists''"

definition rename_local_entry :: "'l LocalFs \<Rightarrow> string \<Rightarrow> string \<Rightarrow> ('l, unit) act" where
  "rename_local_entry fs source target =
     and_then (path_exists fs target) (\<lambda>found.
     if found then err name_taken else map_err command_io_error (l_rename fs source target))"

definition entry_path :: "string \<Rightarrow> string \<Rightarrow> string result" where
  "entry_path parent_path name = (case normalize_remote_path parent_path of
      Inl e \<Rightarrow> Inl e
    | Inr parent \<Rightarrow> normalize_remote_path (trim_end_matches (\<lambda>c. c = slash) parent @ ''/'' @ name))"

definition create_remote_entry :: "uuid \<Rightarrow> string \<Rightarrow> string \<Rightarrow> bool \<Rightarrow> ('r, 'l, unit) app" where
  "create_remote_entry session_id parent_path name directory =
     and_then (lift_result (validate_entry_name name)) (\<lambda>_.
     and_then (lift_result (entry_path parent_path name)) (\<lambda>path.
     and_then (open_client session_id) (\<lambda>client.
     and_then (on_server (metadata client path)) (\<lambda>found.
     if found \<noteq> None then err name_taken
     else on_server (if directory then create_directory client path else write_chunk client path 0 [])))))"

definition create_remote_entry_privileged ::
  "uuid \<Rightarrow> string \<Rightarrow> string \<Rightarrow> bool \<Rightarrow> string option \<Rightarrow> ('r, 'l, unit) app" where
  "create_remote_entry_privileged session_id parent_path name directory sudo_password =
     and_then (lift_result (validate_entry_name name)) (\<lambda>_.
     and_then (lift_result (entry_path parent_path name)) (\<lambda>path.
     and_then (open_client session_id) (\<lambda>client.
     on_server (create_privileged client path directory sudo_password))))"

definition rename_remote_entry :: "uuid \<Rightarrow> string \<Rightarrow> string \<Rightarrow> ('r, 'l, unit) app" where
  "rename_remote_entry session_id source target =
     and_then (open_client session_id) (\<lambda>client.
     and_then (lift_result (normalize_remote_path source)) (\<lambda>source.
     and_then (lift_result (normalize_remote_path target)) (\<lambda>target.
     on_server (rename client source target))))"

text \<open>Deleting a directory with what it holds, depth first in the order of the listings.\<close>

type_synonym ('r, 'a) run = "'r \<Rightarrow> ((AppError + 'a) \<times> 'r) option"

fun remove_entries :: "'r RemoteFilesystem \<Rightarrow> (string \<Rightarrow> ('r, unit) run) \<Rightarrow> FileEntry list \<Rightarrow> ('r, unit) run" where
  "remove_entries client remove_tree [] s = Some (Inr (), s)"
| "remove_entries client remove_tree (entry # entries) s =
     (case (if ent_kind entry = Directory then remove_tree (ent_path entry) s
            else Some (remove_file client (ent_path entry) s)) of
        None \<Rightarrow> None
      | Some (Inl e, s) \<Rightarrow> Some (Inl e, s)
      | Some (Inr _, s) \<Rightarrow> remove_entries client remove_tree entries s)"

fun remove_remote_directory_recursive :: "nat \<Rightarrow> 'r RemoteFilesystem \<Rightarrow> string \<Rightarrow> ('r, unit) run" where
  "remove_remote_directory_recursive 0 client path s = None"
| "remove_remote_directory_recursive (Suc fuel) client path s =
     (case list_directory client path s of
        (Inl e, s) \<Rightarrow> Some (Inl e, s)
      | (Inr entries, s) \<Rightarrow>
          (case remove_entries client (remove_remote_directory_recursive fuel client) entries s of
             None \<Rightarrow> None
           | Some (Inl e, s) \<Rightarrow> Some (Inl e, s)
           | Some (Inr _, s) \<Rightarrow> Some (remove_directory client path s)))"

text \<open>A computation of the server that may not return, as a step of the program.\<close>

definition on_server_run :: "('r, 'a) run \<Rightarrow> (('r, 'l) App, 'a) run" where
  "on_server_run m a = map_option (\<lambda>(r, s). (r, a\<lparr>a_world := (a_world a)\<lparr>w_remote := s\<rparr>\<rparr>)) (m (w_remote (a_world a)))"

definition delete_remote_entry :: "nat \<Rightarrow> uuid \<Rightarrow> string \<Rightarrow> bool \<Rightarrow> (('r, 'l) App, unit) run" where
  "delete_remote_entry fuel session_id path directory a =
     (case and_then (open_client session_id) (\<lambda>client.
           and_then (lift_result (normalize_remote_path path)) (\<lambda>path. ok (client, path))) a of
        (Inl e, a) \<Rightarrow> Some (Inl e, a)
      | (Inr (client, path), a) \<Rightarrow>
          if directory then on_server_run (remove_remote_directory_recursive fuel client path) a
          else Some (on_server (remove_file client path) a))"

definition delete_remote_entry_privileged :: "uuid \<Rightarrow> string \<Rightarrow> bool \<Rightarrow> string option \<Rightarrow> ('r, 'l, unit) app" where
  "delete_remote_entry_privileged session_id path directory sudo_password =
     and_then (lift_result (normalize_remote_path path)) (\<lambda>path.
     and_then (open_client session_id) (\<lambda>client.
     on_server (delete_privileged client path directory sudo_password)))"

section \<open>Permissions\<close>

definition invalid_permissions :: AppError where
  "invalid_permissions = new_error InvalidInput ''Invalid POSIX permissions''"

definition set_remote_permissions :: "uuid \<Rightarrow> string \<Rightarrow> u32 \<Rightarrow> ('r, 'l, unit) app" where
  "set_remote_permissions session_id path permissions =
     (if 0xFFF < permissions then err invalid_permissions
      else and_then (open_client session_id) (\<lambda>client.
        and_then (lift_result (normalize_remote_path path)) (\<lambda>path.
        on_server (set_permissions client path permissions))))"

definition permission_error :: "io_error \<Rightarrow> AppError" where
  "permission_error source = with_detail (new_error
     (case io_kind source of IoNotFound \<Rightarrow> NotFound | IoPermissionDenied \<Rightarrow> PermissionDenied | _ \<Rightarrow> IoError)
     ''Could not change local permissions'') (io_text source)"

definition set_local_permissions :: "'l LocalFs \<Rightarrow> string \<Rightarrow> u32 \<Rightarrow> ('l, unit) act" where
  "set_local_permissions fs path permissions =
     (if 0xFFF < permissions then err invalid_permissions
      else and_then (map_err command_io_error (l_symlink_metadata fs path)) (\<lambda>_.
        map_err permission_error (l_set_permissions fs path permissions)))"

section \<open>Sizes of directories\<close>

fun size_local_items :: "'l LocalFs \<Rightarrow> string \<Rightarrow> (io_error + string) list \<Rightarrow> string list \<Rightarrow> nat \<Rightarrow> 'l
    \<Rightarrow> (string list \<times> nat) \<times> 'l" where
  "size_local_items fs current [] stack tally d = ((stack, tally), d)"
| "size_local_items fs current (Inl _ # items) stack tally d = size_local_items fs current items stack tally d"
| "size_local_items fs current (Inr name # items) stack tally d =
     (let path = path_push current name
      in case l_symlink_metadata fs path d of
           (Inl _, d) \<Rightarrow> size_local_items fs current items stack tally d
         | (Inr meta, d) \<Rightarrow>
             if lm_is_symlink meta then size_local_items fs current items stack tally d
             else if lm_is_dir meta then size_local_items fs current items (path # stack) tally d
             else if lm_is_file meta
             then size_local_items fs current items stack (saturating_add64 tally (lm_len meta)) d
             else size_local_items fs current items stack tally d)"

partial_function (option) local_size :: "'l LocalFs \<Rightarrow> string list \<Rightarrow> nat \<Rightarrow> 'l \<Rightarrow> (nat \<times> 'l) option" where
  "local_size fs stack tally d =
     (case stack of
        [] \<Rightarrow> Some (tally, d)
      | current # rest \<Rightarrow>
          (case l_read_dir fs current d of
             (Inl _, d) \<Rightarrow> local_size fs rest tally d
           | (Inr items, d) \<Rightarrow>
               (case size_local_items fs current items rest tally d of
                  ((stack, tally), d) \<Rightarrow> local_size fs stack tally d)))"

definition local_directory_content_size :: "'l LocalFs \<Rightarrow> string \<Rightarrow> 'l \<Rightarrow> (nat \<times> 'l) option" where
  "local_directory_content_size fs path = local_size fs [path] 0"

definition get_local_directory_size :: "'l LocalFs \<Rightarrow> string \<Rightarrow> ('l, nat) run" where
  "get_local_directory_size fs path d =
     map_option (\<lambda>(tally, d). (Inr tally, d)) (local_directory_content_size fs path d)"

fun size_remote_entries :: "FileEntry list \<Rightarrow> string list \<Rightarrow> nat \<Rightarrow> string list \<times> nat" where
  "size_remote_entries [] stack tally = (stack, tally)"
| "size_remote_entries (entry # entries) stack tally =
     (case ent_kind entry of
        Directory \<Rightarrow> size_remote_entries entries (ent_path entry # stack) tally
      | File \<Rightarrow> size_remote_entries entries stack
          (saturating_add64 tally (case ent_size entry of Some n \<Rightarrow> n | None \<Rightarrow> 0))
      | _ \<Rightarrow> size_remote_entries entries stack tally)"

partial_function (option) remote_size_loop ::
  "'r RemoteFilesystem \<Rightarrow> string list \<Rightarrow> nat \<Rightarrow> 'r \<Rightarrow> ((AppError + nat) \<times> 'r) option" where
  "remote_size_loop client stack tally s =
     (case stack of
        [] \<Rightarrow> Some (Inr tally, s)
      | current # rest \<Rightarrow>
          (case list_directory client current s of
             (Inl e, s) \<Rightarrow> Some (Inl e, s)
           | (Inr entries, s) \<Rightarrow>
               (case size_remote_entries entries rest tally of
                  (stack, tally) \<Rightarrow> remote_size_loop client stack tally s)))"

definition remote_directory_content_size :: "'r RemoteFilesystem \<Rightarrow> string \<Rightarrow> ('r, nat) run" where
  "remote_directory_content_size client path = remote_size_loop client [path] 0"

text \<open>\<open>in_time\<close> tells whether the 120 seconds suffice; a walk that does not return is always cut off.\<close>

definition get_remote_directory_size :: "bool \<Rightarrow> uuid \<Rightarrow> string \<Rightarrow> ('r, 'l, nat) app" where
  "get_remote_directory_size in_time session_id path =
     and_then (open_client session_id) (\<lambda>client.
     and_then (lift_result (normalize_remote_path path)) (\<lambda>path a.
       case (if in_time then on_server_run (remote_directory_content_size client path) a else None) of
         Some (r, a) \<Rightarrow> (r, a)
       | None \<Rightarrow> (Inl (new_error TimedOut ''Calculating this folder size took too long''), a)))"

section \<open>Archives and commands on the server\<close>

definition command_session :: "uuid \<Rightarrow> ('r, 'l, 'r RemoteFilesystem) app" where
  "command_session session_id = command_client (new_error NotFound ''Session not found'') session_id"

definition package_remote_directory :: "uuid \<Rightarrow> string \<Rightarrow> ArchiveFormat \<Rightarrow> ('r, 'l, string) app" where
  "package_remote_directory session_id path format =
     and_then (command_session session_id) (\<lambda>client.
     and_then (lift_result (normalize_remote_path path)) (\<lambda>path.
     on_server (package_directory client path format)))"

definition working_path :: "string option \<Rightarrow> string option result" where
  "working_path working_directory = (case working_directory of
      None \<Rightarrow> Inr None
    | Some path \<Rightarrow> if trim path = '''' then Inr None else map_sum id Some (normalize_remote_path (trim path)))"

definition run_remote_commands ::
  "uuid \<Rightarrow> string list \<Rightarrow> string option \<Rightarrow> ('r, 'l, RemoteCommandResult list) app" where
  "run_remote_commands session_id commands working_directory =
     and_then (lift_result (working_path working_directory)) (\<lambda>cwd.
     and_then (command_session session_id) (\<lambda>client. on_server (execute_commands client commands cwd)))"

end
