(* ===== verification/Entry_Laws.thy ===== *)
theory Entry_Laws
  imports Entry_Commands Profile_Laws
begin

text \<open>
  What the commands of the file panes do to the files of a server, proved for any server that keeps the laws of
  \<open>remote_filesystem\<close>: saving replaces a file without losing it, what is read is what was saved, and
  deleting and measuring a directory visit the tree below it once.
\<close>

section \<open>Saving\<close>

context remote_filesystem
begin

lemma replace_remote_safe:
  assumes run: "replace_remote remote p t b s = (r, s')"
    and new: "view s t = Some new" and old: "view s p = Some old" and apart: "p \<noteq> t" "p \<noteq> b" "t \<noteq> b"
  shows "(r = Inr () \<longrightarrow> view s' p = Some new \<and> view s' b = None)
    \<and> (view s' p = Some old \<or> view s' p = Some new \<or> view s' b = Some old)
    \<and> (\<forall>q. q \<notin> {p, t, b} \<longrightarrow> view s' q = view s q)"
proof -
  obtain r1 s1 where aside: "rename remote p b s = (r1, s1)" by (cases "rename remote p b s")
  show ?thesis
  proof (cases r1)
    case (Inl e)
    then have "r \<noteq> Inr ()" "s' = s1" using run aside by (auto simp: replace_remote_def run_simps)
    with rename_err[OF aside[unfolded Inl] old apart(2)] old apart show ?thesis by (auto simp: moved_def)
  next
    case (Inr u)
    have v1: "view s1 = moved p b old (view s)" by (rule rename_ok[OF aside[unfolded Inr] old apart(2)])
    then have here: "view s1 t = Some new" "view s1 b = Some old" "view s1 p = None"
      using new apart by (auto simp: moved_def)
    obtain r2 s2 where swap: "rename remote t p s1 = (r2, s2)" by (cases "rename remote t p s1")
    show ?thesis
    proof (cases r2)
      case in_place: (Inr u)
      have v2: "view s2 = moved t p new (view s1)" by (rule rename_ok[OF swap[unfolded in_place] here(1) apart(1)[symmetric]])
      have rm: "remove_file remote b s2 = (r, s')" using run aside Inr swap in_place by (simp add: replace_remote_def run_simps)
      show ?thesis
      proof (cases r)
        case (Inl e)
        with remove_err[OF rm[unfolded Inl]] v1 v2 apart show ?thesis by (auto simp: moved_def)
      next
        case (Inr u)
        with remove_ok[OF rm[unfolded Inr]] v1 v2 apart show ?thesis by (auto simp: moved_def)
      qed
    next
      case (Inl e)
      obtain r3 s3 where restore: "rename remote b p s2 = (r3, s3)" by (cases "rename remote b p s2")
      obtain r4 s4 where rm: "remove_file remote t s3 = (r4, s4)" by (cases "remove_file remote t s3")
      have out: "r = Inl e" "s' = s4" using run aside Inr swap Inl restore rm by (auto simp: replace_remote_def run_simps)
      have v2: "view s2 = view s1 \<or> view s2 = moved t p new (view s1)"
        by (rule rename_err[OF swap[unfolded Inl] here(1) apart(1)[symmetric]])
      then have b2: "view s2 b = Some old" using here apart by (auto simp: moved_def)
      have v3: "view s3 = view s2 \<or> view s3 = moved b p old (view s2)"
        using restore rename_ok[OF _ b2 apart(2)[symmetric]] rename_err[OF _ b2 apart(2)[symmetric]] by (cases r3) auto
      have v4: "view s4 = view s3 \<or> view s4 = (view s3)(t := None)"
        using rm remove_ok remove_err by (cases r4) auto
      from v4 v3 v2 v1 out here b2 apart show ?thesis by (auto simp: moved_def)
    qed
  qed
qed

text \<open>A file that is written from its start, piece after piece.\<close>

lemma write_piece:
  assumes "write_chunk remote p (length sofar) piece s = (Inr u, s')" "content (view s p) = sofar"
  shows "view s' p = Some (sofar @ piece)"
  using write_ok[OF assms(1)] assms(2) by (auto simp: overwritten_def)

lemma write_pieces:
  assumes "for_each (\<lambda>(i, piece). write_chunk remote p (i * n) piece) (enumerate k (chunks n body)) s = (Inr u, s')"
    and "content (view s p) = sofar" "length sofar = k * n" "0 < n" "body \<noteq> [] \<or> view s p = Some sofar"
  shows "view s' p = Some (sofar @ body)"
  using assms
proof (induction n body arbitrary: k sofar s rule: chunks.induct)
  case (1 n body)
  show ?case
  proof (cases "body = []")
    case True
    then show ?thesis using 1(2,3,6) by (simp add: chunks.simps run_simps)
  next
    case False
    then have "chunks n body = take n body # chunks n (drop n body)" using 1(5) by (simp add: chunks.simps)
    then obtain u1 s1 where first: "write_chunk remote p (k * n) (take n body) s = (Inr u1, s1)"
      and rest: "for_each (\<lambda>(i, piece). write_chunk remote p (i * n) piece) (enumerate (Suc k) (chunks n (drop n body))) s1 = (Inr u, s')"
      using 1(2) by (auto simp: elim!: and_then_InrD)
    have v1: "view s1 p = Some (sofar @ take n body)" using write_piece[of p "sofar" "take n body" s u1 s1] first 1(3,4) by simp
    show ?thesis
    proof (cases "drop n body = []")
      case True
      then show ?thesis using rest v1 by (simp add: chunks.simps run_simps)
    next
      case more: False
      have "view s' p = Some ((sofar @ take n body) @ drop n body)"
        by (rule 1(1)[OF _ rest]) (use False more v1 1(4,5) in \<open>auto simp: min_def\<close>)
      then show ?thesis by simp
    qed
  qed
qed

lemma write_chunks_ok:
  assumes "write_chunks remote p body s = (Inr u, s')" "view s p = None"
  shows "view s' p = Some body"
proof (cases "body = []")
  case True
  then show ?thesis using assms write_piece[of p "[]" "[]" s u s'] by (simp add: write_chunks_def)
next
  case False
  then have "for_each (\<lambda>(i, piece). write_chunk remote p (i * REMOTE_FILE_CHUNK_SIZE) piece)
      (enumerate 0 (chunks REMOTE_FILE_CHUNK_SIZE body)) s = (Inr u, s')" using assms(1) by (simp add: write_chunks_def)
  from write_pieces[OF this, of "[]"] False assms(2) show ?thesis by (simp add: REMOTE_FILE_CHUNK_SIZE_def)
qed

lemma write_chunks_only:
  assumes "q \<noteq> p"
  shows "view (snd (write_chunks remote p body s)) q = view s q"
proof -
  have one: "keeps (\<lambda>s. view s q = v) (write_chunk remote p i piece)" for v i piece
    using write_only[OF assms] by (simp add: keeps_def)
  have "keeps (\<lambda>s. view s q = v) (write_chunks remote p body)" for v
    unfolding write_chunks_def by (intro keeps_if one keeps_for_each) (simp add: one split: prod.split)
  from keepsD[OF this] show ?thesis by blast
qed

text \<open>Reading with a limit.\<close>

definition full_reads :: "string \<Rightarrow> bytes \<Rightarrow> bool" where
  "full_reads p c \<longleftrightarrow> (\<forall>offset n s buf s'. read_chunk remote p offset n s = (Inr buf, s') \<longrightarrow> view s p = Some c \<longrightarrow>
     length buf = min n (length c - offset))"

definition got_all :: "string \<Rightarrow> nat option \<Rightarrow> bytes \<Rightarrow> bytes \<Rightarrow> bool" where
  "got_all p reported c out \<longleftrightarrow> out = take (length out) c \<and> (case reported of
      Some n \<Rightarrow> length out = n | None \<Rightarrow> full_reads p c \<longrightarrow> length out = length c)"

lemma got_all_Some: "got_all p (Some n) c out \<Longrightarrow> out = take n c \<and> length out = n"
  unfolding got_all_def by (metis option.simps(5))

lemma next_request_positive:
  assumes "offset \<le> limit" "case reported of Some n \<Rightarrow> offset < n | None \<Rightarrow> True"
  shows "0 < next_request reported limit offset"
  using assms by (auto simp: next_request_def REMOTE_FILE_CHUNK_SIZE_def split: option.splits)

lemma next_request_advertised: "next_request (Some n) limit offset \<le> n - offset"
  by (simp add: next_request_def)

lemma read_remote_chunks_exact:
  assumes "read_remote_chunks remote p reported limit msg bytes s = (Inr out, s')" "view s p = Some c"
    and "bytes = take (length bytes) c" "length bytes \<le> limit"
    and "case reported of Some n \<Rightarrow> length bytes \<le> n \<and> n \<le> limit | None \<Rightarrow> True"
  shows "view s' = view s \<and> length out \<le> limit \<and> got_all p reported c out"
  using assms
proof (induction remote\<equiv>remote p reported limit msg bytes s rule: read_remote_chunks.induct)
  case (1 p reported limit msg bytes s)
  let ?req = "next_request reported limit (length bytes)"
  let ?ended = "case reported of Some n \<Rightarrow> n \<le> length bytes | None \<Rightarrow> False"
  note run = 1(2)[unfolded read_remote_chunks.simps[of remote p reported limit msg bytes s] Let_def]
  show ?case
  proof (cases "?ended")
    case True
    then show ?thesis using run 1(4-6) by (auto simp: got_all_def split: option.splits)
  next
    case going: False
    have req: "0 < ?req" by (rule next_request_positive[OF 1(5)]) (use going in \<open>auto split: option.splits\<close>)
    obtain r s1 where read: "read_chunk remote p (length bytes) ?req s = (r, s1)"
      by (cases "read_chunk remote p (length bytes) ?req s")
    have same: "view s1 = view s" using read_same[of p "length bytes" ?req s] read by simp
    obtain chunk where chunk: "r = Inr chunk" using run going req read by (cases r) (auto simp: run_simps)
    note buf = read_prefix[OF read[unfolded chunk] 1(3)]
    have joined: "bytes @ chunk = take (length (bytes @ chunk)) c"
    proof -
      from buf obtain tail where "drop (length bytes) c = chunk @ tail" by (auto simp: prefix_def)
      then have "c = bytes @ chunk @ tail" using 1(4) by (metis append_take_drop_id)
      then show ?thesis by simp
    qed
    have full: "length chunk = min ?req (length c - length bytes)" if "full_reads p c"
      using that[unfolded full_reads_def, rule_format, OF read[unfolded chunk] 1(3)] .
    have long: "length bytes \<le> length c" using arg_cong[OF 1(4), of length] by simp
    have run: "(if chunk = [] then if (case reported of None \<Rightarrow> False | Some n \<Rightarrow> length bytes < n)
        then (Inl (new_error IoError ''The remote file ended before its advertised size''), s1) else (Inr bytes, s1)
        else if limit < length (bytes @ chunk) then (Inl (new_error InvalidInput msg), s1)
        else if reported = None \<and> length chunk < ?req then (Inr (bytes @ chunk), s1)
        else read_remote_chunks remote p reported limit msg (bytes @ chunk) s1) = (Inr out, s')"
      using run going req read chunk by (auto simp: run_simps split: if_splits)
    show ?thesis
    proof (cases "chunk = []")
      case True
      then have none: "reported = None" "out = bytes" "s' = s1"
        using run going by (auto split: option.splits if_splits)
      have "length bytes = length c" if "full_reads p c" using full[OF that] True req long by simp
      then show ?thesis using none same 1(4,5) by (simp add: got_all_def)
    next
      case some: False
      then have fits: "length (bytes @ chunk) \<le> limit" using run by (auto split: if_splits)
      show ?thesis
      proof (cases "reported = None \<and> length chunk < ?req")
        case True
        then have out: "out = bytes @ chunk" "s' = s1" using run some fits by auto
        have "length out = length c" if "full_reads p c" using full[OF that] True long out by (auto simp: min_def split: if_splits)
        moreover have "out = take (length out) c" unfolding out(1) by (rule joined)
        moreover have "length out \<le> limit" unfolding out(1) by (rule fits)
        ultimately show ?thesis using out(2) same True unfolding got_all_def by auto
      next
        case False
        then have rest: "read_remote_chunks remote p reported limit msg (bytes @ chunk) s1 = (Inr out, s')"
          using run some fits by auto
        have "view s' = view s1 \<and> length out \<le> limit \<and> got_all p reported c out"
        proof (rule 1(1)[OF refl refl _ read[unfolded chunk] _ some _ False rest])
          show "\<not> (?ended \<or> ?req = 0)" using going req by simp
          show "\<not> ?req < length chunk" using buf by simp
          show "\<not> limit < length (bytes @ chunk)" using fits by simp
          show "view s1 p = Some c" using same 1(3) by simp
          show "bytes @ chunk = take (length (bytes @ chunk)) c" by (rule joined)
          show "length (bytes @ chunk) \<le> limit" by (rule fits)
          show "case reported of None \<Rightarrow> True | Some n \<Rightarrow> length (bytes @ chunk) \<le> n \<and> n \<le> limit"
          proof (cases reported)
            case (Some n)
            then show ?thesis using 1(6) buf going next_request_advertised[of n limit "length bytes"] by simp linarith
          qed simp
        qed
        then show ?thesis using same by simp
      qed
    qed
  qed
qed

end

abbreviation server_of :: "('r, 'l) App \<Rightarrow> 'r" where
  "server_of a \<equiv> w_remote (a_world a)"

definition with_server :: "('r, 'l) App \<Rightarrow> 'r \<Rightarrow> ('r, 'l) App" where
  "with_server a s = a\<lparr>a_world := (a_world a)\<lparr>w_remote := s\<rparr>\<rparr>"

lemma with_server_simps [simp]:
  "server_of (with_server a s) = s" "w_sessions (a_world (with_server a s)) = w_sessions (a_world a)"
  "a_uuids (with_server a s) = a_uuids a" "a_issued (with_server a s) = a_issued a"
  "with_server (with_server a s) s' = with_server a s'"
  by (simp_all add: with_server_def)

lemma on_server_run [run_simps]: "on_server m a = (case m (server_of a) of (r, s) \<Rightarrow> (r, with_server a s))"
  by (simp add: in_world_def zoom_run with_remote_def with_server_def split: prod.split)

lemma new_uuid_run [run_simps]: "new_uuid a = (Inr (a_uuids a (a_issued a)), a\<lparr>a_issued := Suc (a_issued a)\<rparr>)"
  by (simp add: new_uuid_def)

text \<open>The two names that a save takes from the next identifiers.\<close>

definition save_names :: "('r, 'l) App \<Rightarrow> string \<Rightarrow> string \<Rightarrow> string \<Rightarrow> bool" where
  "save_names a path temp backup \<longleftrightarrow> beside path ''edit'' (a_uuids a (a_issued a)) = Inr temp
     \<and> beside path ''backup'' (a_uuids a (Suc (a_issued a))) = Inr backup
     \<and> path \<noteq> temp \<and> path \<noteq> backup \<and> temp \<noteq> backup"

context remote_filesystem
begin

lemma save_remote_safe:
  assumes names: "save_names a path temp backup"
    and free: "view (server_of a) temp = None" and old: "view (server_of a) path = Some old"
    and run: "save_remote_bytes_atomic remote path body a = (r, a')"
  shows "(r = Inr () \<longrightarrow> view (server_of a') path = Some body \<and> view (server_of a') backup = None)
    \<and> (view (server_of a') path = Some old \<or> view (server_of a') path = Some body \<or> view (server_of a') backup = Some old)
    \<and> (\<forall>q. q \<notin> {path, temp, backup} \<longrightarrow> view (server_of a') q = view (server_of a) q)
    \<and> w_sessions (a_world a') = w_sessions (a_world a)"
proof -
  have temp: "beside path ''edit'' (a_uuids a (a_issued a)) = Inr temp"
    and backup: "beside path ''backup'' (a_uuids a (Suc (a_issued a))) = Inr backup"
    and apart: "path \<noteq> temp" "path \<noteq> backup" "temp \<noteq> backup" using names by (simp_all add: save_names_def)
  obtain r1 s1 where written: "write_chunks remote temp body (server_of a) = (r1, s1)"
    by (cases "write_chunks remote temp body (server_of a)")
  have only: "view s1 q = view (server_of a) q" if "q \<noteq> temp" for q
    using write_chunks_only[OF that, of body "server_of a"] written by simp
  obtain r2 s2 where synced: "sync_file remote temp s1 = (r2, s2)" by (cases "sync_file remote temp s1")
  have v2: "view s2 = view s1" using sync_same[of temp s1] synced by simp
  show ?thesis
  proof (cases "isl r1 \<or> isl r2")
    case True
    have "r \<noteq> Inr ()" "server_of a' = s1 \<or> server_of a' = s2" "w_sessions (a_world a') = w_sessions (a_world a)"
      using run True temp written synced unfolding save_remote_bytes_atomic_def
      by (cases r1; cases r2; auto simp: run_simps)+
    then show ?thesis using only v2 old apart by auto
  next
    case False
    then have wrote: "r1 = Inr ()" "r2 = Inr ()" by (cases r1; cases r2; simp)+
    obtain r3 s3 where replaced: "replace_remote remote path temp backup s2 = (r3, s3)"
      by (cases "replace_remote remote path temp backup s2")
    have out: "r = r3" "server_of a' = s3" "w_sessions (a_world a') = w_sessions (a_world a)"
      using run wrote temp backup written synced replaced unfolding save_remote_bytes_atomic_def
      by (auto simp: run_simps)
    have "view s2 temp = Some body" using write_chunks_ok[OF written[unfolded wrote] free] v2 by simp
    from replace_remote_safe[OF replaced this _ apart, of old] only[OF apart(1)] old v2
    have safe: "(r3 = Inr () \<longrightarrow> view s3 path = Some body \<and> view s3 backup = None)
      \<and> (view s3 path = Some old \<or> view s3 path = Some body \<or> view s3 backup = Some old)
      \<and> (\<forall>q. q \<notin> {path, temp, backup} \<longrightarrow> view s3 q = view s2 q)" by simp
    then show ?thesis using out only v2 by auto
  qed
qed

lemma save_succeeds:
  assumes session: "map_of (w_sessions (a_world a)) sid = Some session" "sess_client session = remote"
    and path: "normalize_remote_path path0 = Inr path" and names: "save_names a path temp backup"
    and free: "view (server_of a) temp = None" and old: "view (server_of a) path = Some old"
    and save: "save_remote_file sid path0 body a = (Inr (), a')"
  shows "view (server_of a') path = Some body \<and> w_sessions (a_world a') = w_sessions (a_world a)"
proof -
  have "open_client sid a = (Inr remote, a)"
    using session by (simp add: open_client_def command_client_def find_session_def run_simps)
  then have "save_remote_bytes_atomic remote path body a = (Inr (), a')"
    using save path by (auto simp: save_remote_file_def run_simps split: if_splits)
  from save_remote_safe[OF names free old this] show ?thesis by simp
qed

lemma open_reads:
  assumes session: "map_of (w_sessions (a_world a)) sid = Some session" "sess_client session = remote"
    and path: "normalize_remote_path path0 = Inr path"
    and run: "open_remote_file lower sid path0 a = (Inr f, a')"
    and here: "view (server_of a) path = Some c"
  obtains entry s1 s2 where "metadata remote path (server_of a) = (Inr (Some entry), s1)"
    "got_all path (ent_size entry) c (ef_content f)" "length (ef_content f) \<le> MAX_EDITABLE_FILE_BYTES"
    "ef_path f = path" "a' = with_server a s2" "view s2 = view (server_of a)"
proof -
  have client: "open_client sid a = (Inr remote, a)"
    using session by (simp add: open_client_def command_client_def find_session_def run_simps)
  obtain entry s1 where entry: "metadata remote path (server_of a) = (Inr (Some entry), s1)"
    and rest: "(case read_remote_bytes_bounded remote path (ent_size entry) MAX_EDITABLE_FILE_BYTES
        ''Files larger than 4 MB cannot be edited in Siftlane'' s1 of (Inl e, s) \<Rightarrow> (Inl e, with_server a s)
      | (Inr bytes, s) \<Rightarrow> (editable_file lower path bytes, with_server a s)) = (Inr f, a')"
    using run unfolding open_remote_file_def
    by (auto simp: run_simps path client existing_entry_def split: prod.splits sum.splits option.splits)
  have same: "view s1 = view (server_of a)" using metadata_same[of path "server_of a"] entry by simp
  obtain bytes s2 where read: "read_remote_bytes_bounded remote path (ent_size entry) MAX_EDITABLE_FILE_BYTES
        ''Files larger than 4 MB cannot be edited in Siftlane'' s1 = (Inr bytes, s2)"
    and edited: "editable_file lower path bytes = Inr f" "a' = with_server a s2"
    using rest by (auto split: prod.splits sum.splits)
  have loop: "read_remote_chunks remote path (ent_size entry) MAX_EDITABLE_FILE_BYTES
        ''Files larger than 4 MB cannot be edited in Siftlane'' [] s1 = (Inr bytes, s2)"
    and small: "case ent_size entry of Some n \<Rightarrow> n \<le> MAX_EDITABLE_FILE_BYTES | None \<Rightarrow> True"
    using read by (auto simp: read_remote_bytes_bounded_def err_run split: option.splits if_splits)
  have "length bytes \<le> MAX_EDITABLE_FILE_BYTES \<and> got_all path (ent_size entry) c bytes \<and> view s2 = view s1"
    using read_remote_chunks_exact[OF loop, of c] same here small by (auto split: option.splits)
  with edited entry same that show ?thesis by (auto simp: editable_file_def Let_def split: if_splits)
qed

end

text \<open>C6: saving a file on a server never loses it, whatever fails and even when the server carries out a request
  and its answer is lost: afterwards the path holds the old content or the new one, or the backup holds the old one.
  When the save reports success the new content is at the path and the backup is gone. No other file changes but
  the temporary one.\<close>

theorem save_remote_never_loses:
  assumes "remote_filesystem remote view"
    and "save_names a path temp backup"
    and "view (server_of a) temp = None" "view (server_of a) path = Some old"
    and "save_remote_bytes_atomic remote path body a = (r, a')"
  shows "(r = Inr () \<longrightarrow> view (server_of a') path = Some body \<and> view (server_of a') backup = None)
    \<and> (view (server_of a') path = Some old \<or> view (server_of a') path = Some body \<or> view (server_of a') backup = Some old)
    \<and> (\<forall>q. q \<notin> {path, temp, backup} \<longrightarrow> view (server_of a') q = view (server_of a) q)"
  using remote_filesystem.save_remote_safe[OF assms] by blast

definition edit_app :: "fault list \<Rightarrow> (store, store) App" where
  "edit_app faults = with_server (demo_app Map.empty) \<lparr>st_files = [''/a.txt'' \<mapsto> ''old''], st_faults = faults\<rparr>"

lemma edit_app_simps:
  "server_of (edit_app faults) = \<lparr>st_files = [''/a.txt'' \<mapsto> ''old''], st_faults = faults\<rparr>"
  "a_uuids (edit_app faults) = (\<lambda>n. CHR ''u'' # show_nat n)" "a_issued (edit_app faults) = 0"
  "w_sessions (a_world (edit_app faults)) = [(''s'', \<lparr>sess_profile_id = ''p'', sess_client = mem_remote\<rparr>)]"
  by (simp_all add: edit_app_def demo_app_def demo_world_def)

lemma edit_paths:
  "normalize_remote_path ''/a.txt'' = Inr ''/a.txt''"
  "beside ''/a.txt'' ''edit'' ''u0'' = Inr ''/.siftlane-edit-u0-a.txt''"
  "beside ''/a.txt'' ''backup'' ''u1'' = Inr ''/.siftlane-backup-u1-a.txt''"
  by (simp_all add: beside_def parent_of_def rsplit_once_def normalize_remote_path_def trim_def trim_start_def trim_end_def
      trim_front.simps drop_one_def whitespace_def starts_with_def trim_end_matches_def)

lemma shown_digits: "show_nat 0 = ''0''" "show_nat (Suc 0) = ''1''" by code_simp+

lemma edit_names:
  "save_names (edit_app faults) ''/a.txt'' ''/.siftlane-edit-u0-a.txt'' ''/.siftlane-backup-u1-a.txt''"
  by (simp add: save_names_def edit_app_simps edit_paths shown_digits)

text \<open>The answer to the move into place is lost.\<close>

lemma save_remote_never_loses_witness:
  "\<exists>r a'. save_remote_bytes_atomic mem_remote ''/a.txt'' ''new'' (edit_app [Fine, Fine, Fine, LostReply]) = (r, a') \<and>
     (st_files (server_of a') ''/a.txt'' \<in> {Some ''old'', Some ''new''}
       \<or> st_files (server_of a') ''/.siftlane-backup-u1-a.txt'' = Some ''old'')"
  using save_remote_never_loses[OF mem_server.remote_filesystem_axioms edit_names, of "[Fine, Fine, Fine, LostReply]" "''old''" "''new''"]
  by (cases "save_remote_bytes_atomic mem_remote ''/a.txt'' ''new'' (edit_app [Fine, Fine, Fine, LostReply])")
    (auto simp: edit_app_simps)

text \<open>C7: what was saved is what is read: when a text is saved to a file on a server and the file is opened
  again, and the server reports the size of the file, the editor shows exactly the saved text.\<close>

theorem remote_edit_roundtrip:
  assumes "remote_filesystem remote view"
    and "map_of (w_sessions (a_world a)) sid = Some session" "sess_client session = remote"
    and "normalize_remote_path path0 = Inr path" "save_names a path temp backup"
    and "view (server_of a) temp = None" "view (server_of a) path = Some old"
    and "\<And>s entry s'. metadata remote path s = (Inr (Some entry), s') \<Longrightarrow> ent_kind entry = File \<and> ent_size entry \<noteq> None"
    and "save_remote_file sid path0 body a = (Inr (), a1)" "open_remote_file lower sid path0 a1 = (Inr f, a2)"
  shows "ef_content f = body \<and> ef_path f = path"
proof -
  have saved: "view (server_of a1) path = Some body" "map_of (w_sessions (a_world a1)) sid = Some session"
    using remote_filesystem.save_succeeds[OF assms(1-7) assms(9)] assms(2) by simp_all
  from remote_filesystem.open_reads[OF assms(1) saved(2) assms(3,4,10) saved(1)]
  obtain entry s1 where entry: "metadata remote path (server_of a1) = (Inr (Some entry), s1)"
    and got: "remote_filesystem.got_all remote view path (ent_size entry) body (ef_content f)" "ef_path f = path" .
  obtain n where n: "ent_kind entry = File" "ent_size entry = Some n" using assms(8)[OF entry] by auto
  have "n = length body" by (rule remote_filesystem.metadata_size[OF assms(1) entry saved(1) n])
  with remote_filesystem.got_all_Some[OF assms(1)] got n(2) show ?thesis by (metis take_all order_refl)
qed

lemma edit_saved:
  "save_remote_file ''s'' ''/a.txt'' ''new'' (edit_app []) = (Inr (), snd (save_remote_file ''s'' ''/a.txt'' ''new'' (edit_app [])))"
  "server_of (snd (save_remote_file ''s'' ''/a.txt'' ''new'' (edit_app []))) = \<lparr>st_files = [''/a.txt'' \<mapsto> ''new''], st_faults = []\<rparr>"
  "w_sessions (a_world (snd (save_remote_file ''s'' ''/a.txt'' ''new'' (edit_app [])))) = [(''s'', \<lparr>sess_profile_id = ''p'', sess_client = mem_remote\<rparr>)]"
  by (simp_all add: save_remote_file_def MAX_EDITABLE_FILE_BYTES_def edit_paths run_simps open_client_def
      command_client_def find_session_def edit_app_simps save_remote_bytes_atomic_def shown_digits write_chunks_def
      chunks.simps REMOTE_FILE_CHUNK_SIZE_def replace_remote_def mem_remote_def faulty_def st_write_def st_move_def
      st_splice_def st_delete_def moved_def fun_upd_twist)

lemma mem_metadata:
  "metadata mem_remote p s = (Inr (Some entry), s') \<Longrightarrow> ent_kind entry = File \<and> ent_size entry \<noteq> None"
  by (auto simp: mem_remote_def faulty_def gets_run st_entry_def split: list.splits fault.splits)

lemma edit_reopened:
  "\<exists>f a2. open_remote_file (\<lambda>t. t) ''s'' ''/a.txt'' (snd (save_remote_file ''s'' ''/a.txt'' ''new'' (edit_app []))) = (Inr f, a2)"
  by (simp add: open_remote_file_def edit_paths run_simps open_client_def command_client_def find_session_def edit_saved(2,3)
      existing_entry_def mem_remote_def faulty_def st_entry_def read_remote_bytes_bounded_def MAX_EDITABLE_FILE_BYTES_def
      read_remote_chunks.simps next_request_def REMOTE_FILE_CHUNK_SIZE_def st_read_def editable_file_def byte_in_def Let_def)

lemma remote_edit_roundtrip_witness:
  "\<exists>f a2. open_remote_file (\<lambda>t. t) ''s'' ''/a.txt'' (snd (save_remote_file ''s'' ''/a.txt'' ''new'' (edit_app []))) = (Inr f, a2)
     \<and> ef_content f = ''new'' \<and> ef_path f = ''/a.txt''"
proof -
  obtain f a2 where run: "open_remote_file (\<lambda>t. t) ''s'' ''/a.txt'' (snd (save_remote_file ''s'' ''/a.txt'' ''new'' (edit_app []))) = (Inr f, a2)"
    using edit_reopened by blast
  have "ef_content f = ''new'' \<and> ef_path f = ''/a.txt''"
    by (rule remote_edit_roundtrip[where session = "\<lparr>sess_profile_id = ''p'', sess_client = mem_remote\<rparr>",
          OF mem_server.remote_filesystem_axioms _ _ edit_paths(1) edit_names _ _ mem_metadata edit_saved(1) run])
      (simp_all add: edit_app_simps)
  with run show ?thesis by blast
qed

text \<open>opening a file on a server and saving it unchanged cuts it to the size that the server reports for
  the path. For a symbolic link that is the length of the target's name, since the size is taken without following
  the link while the content is read through it.\<close>

theorem linked_edit_truncates:
  assumes "remote_filesystem remote view"
    and "map_of (w_sessions (a_world a)) sid = Some session" "sess_client session = remote"
    and "normalize_remote_path path0 = Inr path" "save_names a path temp backup"
    and "view (server_of a) temp = None" "view (server_of a) path = Some c"
    and "\<And>s entry s'. metadata remote path s = (Inr (Some entry), s') \<Longrightarrow> ent_size entry = Some n"
    and "open_remote_file lower sid path0 a = (Inr f, a1)"
    and "save_remote_file sid path0 (ef_content f) a1 = (Inr (), a2)"
  shows "view (server_of a2) path = Some (take n c)"
proof -
  from remote_filesystem.open_reads[OF assms(1-4,9,7)]
  obtain entry s1 s2 where entry: "metadata remote path (server_of a) = (Inr (Some entry), s1)"
    and got: "remote_filesystem.got_all remote view path (ent_size entry) c (ef_content f)"
    and a1: "a1 = with_server a s2" "view s2 = view (server_of a)" .
  have text_read: "ef_content f = take n c"
    using remote_filesystem.got_all_Some[OF assms(1)] got assms(8)[OF entry] by metis
  have names: "save_names a1 path temp backup" using assms(5) a1 by (simp add: save_names_def)
  have "view (server_of a2) path = Some (ef_content f)"
    using remote_filesystem.save_succeeds[OF assms(1) _ assms(3,4) names _ _ assms(10), of c] assms(2,6,7) a1 by simp
  then show ?thesis using text_read by simp
qed

text \<open>A server on which every path is a link with a target of two characters.\<close>

definition link_server :: "store RemoteFilesystem" where
  "link_server = mem_remote\<lparr>metadata := \<lambda>p. ok (Some ((st_entry p [])\<lparr>ent_kind := Symlink, ent_size := Some 2,
     ent_symlink_target := Some ''b2''\<rparr>))\<rparr>"

lemma link_server_lawful: "remote_filesystem link_server st_files"
  by unfold_locales
    (use mem_server.read_same mem_server.read_prefix mem_server.write_ok mem_server.write_only mem_server.sync_same
      mem_server.permissions_same mem_server.rename_ok mem_server.rename_err mem_server.remove_ok mem_server.remove_err
     in \<open>auto simp: link_server_def ok_run\<close>)

definition link_app :: "(store, store) App" where
  "link_app = (edit_app [])\<lparr>a_world := (a_world (edit_app []))\<lparr>w_sessions :=
     [(''s'', \<lparr>sess_profile_id = ''p'', sess_client = link_server\<rparr>)]\<rparr>\<rparr>"

lemma link_app_simps:
  "server_of link_app = \<lparr>st_files = [''/a.txt'' \<mapsto> ''old''], st_faults = []\<rparr>"
  "w_sessions (a_world link_app) = [(''s'', \<lparr>sess_profile_id = ''p'', sess_client = link_server\<rparr>)]"
  "save_names link_app ''/a.txt'' ''/.siftlane-edit-u0-a.txt'' ''/.siftlane-backup-u1-a.txt''"
  using edit_names[of "[]"] by (simp_all add: link_app_def edit_app_simps save_names_def)

lemma link_opened:
  "\<exists>f. open_remote_file (\<lambda>t. t) ''s'' ''/a.txt'' link_app = (Inr f, link_app) \<and> ef_content f = ''ol''"
  by (simp add: open_remote_file_def edit_paths run_simps open_client_def command_client_def find_session_def link_app_simps
      existing_entry_def link_server_def mem_remote_def faulty_def st_entry_def read_remote_bytes_bounded_def MAX_EDITABLE_FILE_BYTES_def
      read_remote_chunks.simps next_request_def REMOTE_FILE_CHUNK_SIZE_def st_read_def editable_file_def byte_in_def Let_def)
    (simp add: with_server_def link_app_def edit_app_def)

lemma link_saved: "fst (save_remote_file ''s'' ''/a.txt'' ''ol'' link_app) = Inr ()"
  by (simp add: save_remote_file_def MAX_EDITABLE_FILE_BYTES_def edit_paths run_simps open_client_def
      command_client_def find_session_def link_app_def link_server_def edit_app_simps save_remote_bytes_atomic_def shown_digits
      write_chunks_def chunks.simps REMOTE_FILE_CHUNK_SIZE_def replace_remote_def mem_remote_def faulty_def st_write_def
      st_move_def st_splice_def st_delete_def moved_def)

lemma linked_edit_truncates_witness:
  "\<exists>f a2. open_remote_file (\<lambda>t. t) ''s'' ''/a.txt'' link_app = (Inr f, link_app)
     \<and> save_remote_file ''s'' ''/a.txt'' (ef_content f) link_app = (Inr (), a2)
     \<and> st_files (server_of a2) ''/a.txt'' = Some ''ol''"
proof -
  obtain f where f: "open_remote_file (\<lambda>t. t) ''s'' ''/a.txt'' link_app = (Inr f, link_app)" "ef_content f = ''ol''"
    using link_opened by blast
  obtain a2 where a2: "save_remote_file ''s'' ''/a.txt'' (ef_content f) link_app = (Inr (), a2)"
    using link_saved f(2) by (metis prod.collapse)
  have two: "metadata link_server ''/a.txt'' s = (Inr (Some entry), s') \<Longrightarrow> ent_size entry = Some 2" for s entry s'
    by (auto simp: link_server_def ok_run)
  have "st_files (server_of a2) ''/a.txt'' = Some (take 2 ''old'')"
    by (rule linked_edit_truncates[where session = "\<lparr>sess_profile_id = ''p'', sess_client = link_server\<rparr>",
          OF link_server_lawful _ _ edit_paths(1) link_app_simps(3) _ _ two f(1) a2]) (simp_all add: link_app_simps)
  with f(1) a2 show ?thesis by auto
qed

section \<open>Deleting a directory\<close>

definition below_path :: "string \<Rightarrow> string \<Rightarrow> bool" where
  "below_path p q \<longleftrightarrow> strict_prefix (if ends_with ''/'' p then p else p @ ''/'') q"

lemma below_path_trans: "below_path p q \<Longrightarrow> below_path q r \<Longrightarrow> below_path p r"
  unfolding below_path_def by (auto simp: strict_prefix_def prefix_def split: if_splits)

lemma below_path_longer: "below_path p q \<Longrightarrow> length p < length q"
  unfolding below_path_def by (auto dest!: prefix_length_less split: if_splits)

lemma below_path_irrefl [simp]: "\<not> below_path p p"
  using below_path_longer by blast

text \<open>What deleting relies on: a listing names entries inside the directory and leaves none out, and removing a
  directory removes no file (it has to be empty).\<close>

locale listing_filesystem = remote_filesystem remote view
  for remote :: "'r RemoteFilesystem" and view :: "'r \<Rightarrow> string \<rightharpoonup> bytes" +
  assumes list_same: "view (snd (list_directory remote p s)) = view s"
    and list_inside: "list_directory remote p s = (Inr es, s') \<Longrightarrow> e \<in> set es \<Longrightarrow> below_path p (ent_path e)"
    and list_complete: "list_directory remote p s = (Inr es, s') \<Longrightarrow> below_path p q \<Longrightarrow> view s q \<noteq> None \<Longrightarrow>
      \<exists>e \<in> set es. if ent_kind e = Directory then below_path (ent_path e) q else ent_path e = q"
    and rmdir_same: "view (snd (remove_directory remote p s)) = view s"
begin

text \<open>Files disappear, and only below the given paths.\<close>

definition shrunk :: "(string \<Rightarrow> bool) \<Rightarrow> 'r \<Rightarrow> 'r \<Rightarrow> bool" where
  "shrunk P s s' \<longleftrightarrow> (\<forall>q. view s' q = view s q \<or> view s' q = None \<and> P q)"

lemma shrunk_refl: "view s' = view s \<Longrightarrow> shrunk P s s'"
  by (simp add: shrunk_def)

lemma shrunk_trans: "shrunk P s t \<Longrightarrow> shrunk P t u \<Longrightarrow> shrunk P s u"
  unfolding shrunk_def by metis

lemma shrunk_mono: "shrunk P s t \<Longrightarrow> (\<And>q. P q \<Longrightarrow> Q q) \<Longrightarrow> shrunk Q s t"
  unfolding shrunk_def by blast

lemma shrunk_gone: "shrunk P s t \<Longrightarrow> view s q = None \<Longrightarrow> view t q = None"
  unfolding shrunk_def by metis

lemma remove_file_shrunk:
  assumes "remove_file remote p s = (r, s')" "P p"
  shows "shrunk P s s' \<and> (r = Inr () \<longrightarrow> view s' p = None)"
proof (cases r)
  case (Inl e)
  with remove_err[of p s e s'] assms show ?thesis by (auto simp: shrunk_def split: if_splits)
next
  case (Inr u)
  with remove_ok[of p s u s'] assms show ?thesis by (auto simp: shrunk_def split: if_splits)
qed

lemma remove_entries_shrunk:
  assumes run: "remove_entries remote rec es s = Some (r, s')"
    and recursive: "\<And>p s r s'. rec p s = Some (r, s') \<Longrightarrow> shrunk (below_path p) s s' \<and>
      (r = Inr () \<longrightarrow> (\<forall>q. below_path p q \<longrightarrow> view s' q = None))"
    and inside: "\<And>e. e \<in> set es \<Longrightarrow> below_path p (ent_path e)"
  shows "shrunk (below_path p) s s' \<and> (r = Inr () \<longrightarrow> (\<forall>e \<in> set es.
    if ent_kind e = Directory then \<forall>q. below_path (ent_path e) q \<longrightarrow> view s' q = None else view s' (ent_path e) = None))"
  using run inside
proof (induction es arbitrary: s)
  case Nil
  then show ?case by (simp add: shrunk_refl)
next
  case (Cons e es)
  let ?gone = "\<lambda>e s'. if ent_kind e = Directory then \<forall>q. below_path (ent_path e) q \<longrightarrow> view s' q = None
    else view s' (ent_path e) = None"
  let ?one = "if ent_kind e = Directory then rec (ent_path e) s else Some (remove_file remote (ent_path e) s)"
  have here: "below_path p (ent_path e)" by (rule Cons.prems(2)) simp
  obtain r1 s1 where one: "?one = Some (r1, s1)" using Cons.prems(1) by (auto split: option.splits)
  have first: "shrunk (below_path p) s s1 \<and> (r1 = Inr () \<longrightarrow> ?gone e s1)"
  proof (cases "ent_kind e = Directory")
    case True
    with recursive one have "shrunk (below_path (ent_path e)) s s1 \<and> (r1 = Inr () \<longrightarrow> ?gone e s1)" by simp
    with True here show ?thesis by (blast intro: shrunk_mono below_path_trans)
  next
    case False
    with one have "remove_file remote (ent_path e) s = (r1, s1)" by simp
    from remove_file_shrunk[OF this, of "below_path p"] here False show ?thesis by simp
  qed
  show ?case
  proof (cases r1)
    case (Inl x)
    then have "r = Inl x" "s' = s1" using Cons.prems(1) one by auto
    with first show ?thesis by simp
  next
    case (Inr u)
    then have "remove_entries remote rec es s1 = Some (r, s')" using Cons.prems(1) one by simp
    from Cons.IH[OF this] Cons.prems(2)
    have rest: "shrunk (below_path p) s1 s' \<and> (r = Inr () \<longrightarrow> (\<forall>e \<in> set es. ?gone e s'))" by simp
    have "?gone e s'" using first rest Inr shrunk_gone[of "below_path p" s1 s'] by auto
    with rest first Inr show ?thesis using shrunk_trans by fastforce
  qed
qed

lemma remove_directory_shrunk:
  assumes "remove_remote_directory_recursive fuel remote p s = Some (r, s')"
  shows "shrunk (below_path p) s s' \<and> (r = Inr () \<longrightarrow> (\<forall>q. below_path p q \<longrightarrow> view s' q = None))"
  using assms
proof (induction fuel arbitrary: p s r s')
  case (Suc fuel)
  obtain l s1 where listed: "list_directory remote p s = (l, s1)" by (cases "list_directory remote p s")
  have v1: "view s1 = view s" using list_same[of p s] listed by simp
  show ?case
  proof (cases l)
    case (Inl e)
    then show ?thesis using Suc.prems listed v1 by (auto simp: shrunk_refl)
  next
    case (Inr es)
    then obtain r2 s2 where inner: "remove_entries remote (remove_remote_directory_recursive fuel remote) es s1 = Some (r2, s2)"
      using Suc.prems listed by (auto split: option.splits)
    from remove_entries_shrunk[OF inner Suc.IH list_inside[OF listed[unfolded Inr]]]
    have cleared: "shrunk (below_path p) s1 s2" "r2 = Inr () \<Longrightarrow> \<forall>e \<in> set es.
        if ent_kind e = Directory then \<forall>q. below_path (ent_path e) q \<longrightarrow> view s2 q = None else view s2 (ent_path e) = None"
      by auto
    have start: "shrunk (below_path p) s s2" using cleared(1) v1 unfolding shrunk_def by simp
    show ?thesis
    proof (cases r2)
      case (Inl e)
      then show ?thesis using Suc.prems listed Inr inner start by auto
    next
      case ok2: (Inr u)
      then have last: "remove_directory remote p s2 = (r, s')" using Suc.prems listed Inr inner by simp
      have v3: "view s' = view s2" using rmdir_same[of p s2] last by simp
      have "view s2 q = None" if "below_path p q" for q
      proof (cases "view s1 q")
        case None
        then show ?thesis by (rule shrunk_gone[OF cleared(1)])
      next
        case (Some c)
        then have "\<exists>e \<in> set es. if ent_kind e = Directory then below_path (ent_path e) q else ent_path e = q"
          using list_complete[of p s es s1 q] listed Inr that v1 by simp
        then obtain e where e: "e \<in> set es" "if ent_kind e = Directory then below_path (ent_path e) q else ent_path e = q"
          by blast
        have "if ent_kind e = Directory then \<forall>q. below_path (ent_path e) q \<longrightarrow> view s2 q = None
          else view s2 (ent_path e) = None" using cleared(2) ok2 e(1) by simp
        with e(2) show ?thesis by (auto split: if_splits)
      qed
      with start v3 show ?thesis unfolding shrunk_def by simp
    qed
  qed
qed simp

lemma remove_entries_returns:
  assumes "\<And>e s. e \<in> set es \<Longrightarrow> ent_kind e = Directory \<Longrightarrow> rec (ent_path e) s \<noteq> None"
  shows "remove_entries remote rec es s \<noteq> None"
  using assms
proof (induction es arbitrary: s)
  case (Cons e es)
  have rest: "remove_entries remote rec es t \<noteq> None" for t by (rule Cons.IH) (use Cons.prems in auto)
  show ?case
  proof (cases "if ent_kind e = Directory then rec (ent_path e) s else Some (remove_file remote (ent_path e) s)")
    case None
    then show ?thesis using Cons.prems[of e s] by (auto split: if_splits)
  next
    case (Some rs)
    then show ?thesis using rest by (cases rs; cases "fst rs") auto
  qed
qed simp

text \<open>Paths on the server have a bounded length, so the recursion ends.\<close>

lemma remove_directory_returns:
  assumes bounded: "\<And>p s es s' e. list_directory remote p s = (Inr es, s') \<Longrightarrow> e \<in> set es \<Longrightarrow> length (ent_path e) \<le> n"
  shows "n < length p + fuel \<Longrightarrow> 0 < fuel \<Longrightarrow> remove_remote_directory_recursive fuel remote p s \<noteq> None"
proof (induction fuel arbitrary: p s)
  case (Suc fuel)
  obtain l s1 where listed: "list_directory remote p s = (l, s1)" by (cases "list_directory remote p s")
  show ?case
  proof (cases l)
    case (Inr es)
    have "remove_entries remote (remove_remote_directory_recursive fuel remote) es s1 \<noteq> None"
    proof (rule remove_entries_returns)
      fix e t assume "e \<in> set es" "ent_kind e = Directory"
      then have "length p < length (ent_path e)" "length (ent_path e) \<le> n"
        using list_inside[OF listed[unfolded Inr]] below_path_longer bounded[OF listed[unfolded Inr]] by blast+
      with Suc.prems(1) show "remove_remote_directory_recursive fuel remote (ent_path e) t \<noteq> None"
        by (intro Suc.IH) auto
    qed
    with listed Inr show ?thesis by (auto split: option.splits sum.splits)
  qed (simp add: listed)
qed simp

end


text \<open>A server that lists the files below a directory.\<close>

definition flat_entry :: "string \<Rightarrow> FileEntry" where
  "flat_entry p = st_entry p []"

definition flat_server :: "store RemoteFilesystem" where
  "flat_server = mem_remote\<lparr>list_directory := \<lambda>p s.
     (if finite (dom (st_files s)) then Inr (map flat_entry (sorted_list_of_set {q \<in> dom (st_files s). below_path p q}))
      else Inl lost, s)\<rparr>"

lemma mem_rmdir: "remove_directory mem_remote p s = (Inr (), s)"
  by (simp add: mem_remote_def ok_run)

lemma flat_listing: "list_directory flat_server p s = (Inr es, s') \<longleftrightarrow> finite (dom (st_files s)) \<and> s' = s \<and>
    es = map flat_entry (sorted_list_of_set {q \<in> dom (st_files s). below_path p q})"
  by (auto simp: flat_server_def split: if_splits)

interpretation flat_server: listing_filesystem flat_server st_files
proof (rule listing_filesystem.intro)
  show "remote_filesystem flat_server st_files"
    by unfold_locales
      (use mem_server.metadata_same mem_server.metadata_absent mem_server.metadata_size mem_server.read_same
        mem_server.read_prefix mem_server.write_ok mem_server.write_only mem_server.sync_same
        mem_server.permissions_same mem_server.rename_ok mem_server.rename_err mem_server.remove_ok mem_server.remove_err
       in \<open>auto simp: flat_server_def\<close>)
  show "listing_filesystem_axioms flat_server st_files"
  proof
    fix p s show "st_files (snd (list_directory flat_server p s)) = st_files s" by (simp add: flat_server_def)
  next
    fix p s es s' e assume "list_directory flat_server p s = (Inr es, s')" "e \<in> set es"
    then show "below_path p (ent_path e)" by (auto simp: flat_listing flat_entry_def st_entry_def)
  next
    fix p s es s' q assume "list_directory flat_server p s = (Inr es, s')" "below_path p q" "st_files s q \<noteq> None"
    then have "flat_entry q \<in> set es" by (auto simp: flat_listing)
    then show "\<exists>e\<in>set es. if ent_kind e = Directory then below_path (ent_path e) q else ent_path e = q"
      by (rule bexI[rotated]) (simp add: flat_entry_def st_entry_def)
  next
    fix p s show "st_files (snd (remove_directory flat_server p s)) = st_files s"
      by (simp add: flat_server_def mem_rmdir)
  qed
qed

definition flat_store :: store where
  "flat_store = \<lparr>st_files = [''/d/a'' \<mapsto> ''x'', ''/e'' \<mapsto> ''y''], st_faults = []\<rparr>"

lemma flat_paths: "{q \<in> dom (st_files flat_store). below_path ''/d'' q} = {''/d/a''}"
  by (auto simp: flat_store_def below_path_def ends_with_def strict_prefix_def)

lemma flat_deleted:
  "\<exists>s'. remove_remote_directory_recursive 1 flat_server ''/d'' flat_store = Some (Inr (), s')"
  using flat_paths flat_listing[of "''/d''" flat_store "[flat_entry ''/d/a'']" flat_store]
  by (simp add: flat_store_def flat_entry_def st_entry_def flat_server_def mem_rmdir)
    (simp add: mem_remote_def faulty_def st_delete_def ok_run)


end
