(* ===== verification/External_Edit.thy ===== *)
theory External_Edit
  imports Entry_Commands
begin

text \<open>
  \<^verbatim>\<open>src-tauri/src/external_edit.rs\<close>: editing a file of a server in a program of the computer. A copy is put into
  a private directory and watched; the window is told when it changes, shows the change, and commits it to the server.
  A round of the watcher has two parts, between which other commands can run: it reads the copy, then it compares and
  records the hash under the lock. \<open>sha256\<close> is the digest function, \<open>utf8_text\<close> describes bytes that are not text.
\<close>

definition MAX_EXTERNAL_EDIT_BYTES :: nat where "MAX_EXTERNAL_EDIT_BYTES = 4 * 1024 * 1024"

record ExternalEditStarted =
  started_edit_id :: uuid
  started_remote_path :: string
  started_name :: string
  started_local_path :: string

record ExternalEditChanged =
  changed_edit_id :: uuid
  changed_remote_path :: string
  changed_name :: string

record ExternalEditChange =
  change_edit_id :: uuid
  change_remote_path :: string
  change_name :: string
  change_original_content :: string
  change_modified_content :: string

definition edit_io_error :: "io_error \<Rightarrow> AppError" where
  "edit_io_error source = with_detail (new_error IoError ''A local file operation failed'') (io_text source)"

definition invalid_utf8 :: "string \<Rightarrow> AppError" where
  "invalid_utf8 source = with_detail
     (new_error InvalidInput ''External editing currently supports UTF-8 text files'') source"

definition edit_permissions :: "local_metadata \<Rightarrow> u32 option" where
  "edit_permissions meta = Some (lm_mode meta)"

definition inspect_local_path :: "'l LocalFs \<Rightarrow> string \<Rightarrow> ('l, FileEntry) act" where
  "inspect_local_path fs path =
     and_then (map_err edit_io_error (l_symlink_metadata fs path)) (\<lambda>meta.
     and_then (lift_result (case file_name path of
         Some name \<Rightarrow> Inr name
       | None \<Rightarrow> Inl (new_error InvalidInput ''The dropped path has no file name''))) (\<lambda>name.
     and_then (local_link_target fs meta path) (\<lambda>target.
     ok \<lparr>ent_path = path, ent_name = name, ent_kind = local_entry_kind meta,
       ent_size = (if lm_is_file meta then Some (lm_len meta) else None),
       ent_modified_at = Some (lm_modified meta), ent_permissions = edit_permissions meta,
       ent_symlink_target = target, ent_hidden = starts_with ''.'' name\<rparr>)))"

section \<open>Starting\<close>

function read_original :: "'r RemoteFilesystem \<Rightarrow> string \<Rightarrow> nat \<Rightarrow> nat \<Rightarrow> bytes \<Rightarrow> ('r, bytes) act" where
  "read_original client path sized offset original s =
     (if offset < sized then
        and_then (read_chunk client path offset (64 * 1024)) (\<lambda>chunk s.
          if chunk = [] then (Inr original, s)
          else read_original client path sized (offset + length chunk) (original @ chunk) s) s
      else (Inr original, s))"
  by pat_completeness auto
termination
  by (relation "measure (\<lambda>(_, _, sized, offset, _). sized - offset)") (auto simp: diff_less_mono2)

declare read_original.simps [simp del]

definition set_private_directory_permissions :: "'l LocalFs \<Rightarrow> string \<Rightarrow> ('l, unit) io" where
  "set_private_directory_permissions fs path = l_set_permissions fs path 0x1C0"

definition set_private_file_permissions :: "'l LocalFs \<Rightarrow> string \<Rightarrow> ('l, unit) io" where
  "set_private_file_permissions fs path = l_set_permissions fs path 0x180"

text \<open>The copy: a private directory with one file.\<close>

definition write_copy :: "string \<Rightarrow> string \<Rightarrow> bytes \<Rightarrow> 'l LocalFs \<Rightarrow> ('l, unit) io" where
  "write_copy edit_dir local_path original fs =
     and_then (l_create_dir fs edit_dir) (\<lambda>_.
     and_then (set_private_directory_permissions fs edit_dir) (\<lambda>_.
     and_then (l_create_new fs local_path) (\<lambda>_.
     and_then (l_write_at fs local_path 0 original) (\<lambda>_.
     and_then (l_sync fs local_path) (\<lambda>_.
     set_private_file_permissions fs local_path)))))"

definition edit_copy_name :: "string \<Rightarrow> string" where
  "edit_copy_name remote_path = base_name ''remote-file.txt'' remote_path"

definition begin_external_edit :: "(bytes \<Rightarrow> bytes) \<Rightarrow> uuid \<Rightarrow> string \<Rightarrow> ('r, 'l, ExternalEditStarted) app" where
  "begin_external_edit sha256 session_id path =
     and_then (lift_result (normalize_remote_path path)) (\<lambda>remote_path.
     and_then (open_client session_id) (\<lambda>client.
     and_then (on_server (existing_entry client remote_path)) (\<lambda>entry.
     let sized = (case ent_size entry of Some n \<Rightarrow> n | None \<Rightarrow> 0)
     in if MAX_EXTERNAL_EDIT_BYTES < sized
        then err (new_error InvalidInput ''Files larger than 4 MB cannot be reviewed safely before external upload'')
        else and_then (on_server (read_original client remote_path sized 0 [])) (\<lambda>original.
          if \<not> utf8_valid original
          then err (new_error InvalidInput ''External editing currently supports UTF-8 text files'')
          else and_then new_uuid (\<lambda>uid.
            and_then (gets a_edit_root) (\<lambda>edit_root.
            let name = edit_copy_name remote_path;
                edit_dir = path_push edit_root uid;
                local_path = path_push edit_dir name
            in and_then (on_local edit_io_error (write_copy edit_dir local_path original)) (\<lambda>_.
               and_then (modify (\<lambda>a. a\<lparr>a_edits := (a_edits a)(uid \<mapsto> \<lparr>edit_id = uid, edit_session_id = session_id,
                   edit_remote_path = remote_path, edit_name = name, edit_local_path = local_path,
                   edit_original = original, edit_observed_hash = sha256 original\<rparr>)\<rparr>)) (\<lambda>_.
               ok \<lparr>started_edit_id = uid, started_remote_path = remote_path, started_name = name,
                 started_local_path = local_path\<rparr>)))))))) "

section \<open>Reviewing and committing\<close>

definition active_edit :: "uuid \<Rightarrow> ('r, 'l, ExternalEditRecord) app" where
  "active_edit uid = and_then (gets (\<lambda>a. a_edits a uid)) (\<lambda>found. case found of
       Some edit \<Rightarrow> ok edit
     | None \<Rightarrow> err (new_error NotFound ''The external edit is no longer active''))"

definition read_copy :: "ExternalEditRecord \<Rightarrow> ('r, 'l, bytes) app" where
  "read_copy edit = and_then (on_local edit_io_error (\<lambda>fs. l_read fs (edit_local_path edit))) (\<lambda>modified.
     if MAX_EXTERNAL_EDIT_BYTES < length modified
     then err (new_error InvalidInput ''The edited file is now larger than the 4 MB review limit'')
     else ok modified)"

definition get_external_edit_change :: "(bytes \<Rightarrow> string) \<Rightarrow> uuid \<Rightarrow> ('r, 'l, ExternalEditChange) app" where
  "get_external_edit_change utf8_text uid =
     and_then (active_edit uid) (\<lambda>edit.
     and_then (read_copy edit) (\<lambda>modified.
     if \<not> utf8_valid (edit_original edit) then err (invalid_utf8 (utf8_text (edit_original edit)))
     else if \<not> utf8_valid modified then err (invalid_utf8 (utf8_text modified))
     else ok \<lparr>change_edit_id = uid, change_remote_path = edit_remote_path edit, change_name = edit_name edit,
       change_original_content = edit_original edit, change_modified_content = modified\<rparr>))"

definition note_committed :: "(bytes \<Rightarrow> bytes) \<Rightarrow> uuid \<Rightarrow> bytes \<Rightarrow> ('r, 'l, unit) app" where
  "note_committed sha256 uid modified = modify (\<lambda>a. case a_edits a uid of
       None \<Rightarrow> a
     | Some active \<Rightarrow> a\<lparr>a_edits := (a_edits a)(uid \<mapsto>
         active\<lparr>edit_original := modified, edit_observed_hash := sha256 modified\<rparr>)\<rparr>)"

definition commit_external_edit ::
  "(bytes \<Rightarrow> bytes) \<Rightarrow> (bytes \<Rightarrow> string) \<Rightarrow> uuid \<Rightarrow> ('r, 'l, unit) app" where
  "commit_external_edit sha256 utf8_text uid =
     and_then (active_edit uid) (\<lambda>edit.
     and_then (read_copy edit) (\<lambda>modified.
     if \<not> utf8_valid modified then err (invalid_utf8 (utf8_text modified))
     else and_then (open_client (edit_session_id edit)) (\<lambda>client.
       and_then (save_remote_bytes_atomic client (edit_remote_path edit) modified) (\<lambda>_.
       note_committed sha256 uid modified))))"

definition end_external_edit :: "uuid \<Rightarrow> ('r, 'l, unit) app" where
  "end_external_edit uid =
     and_then (gets (\<lambda>a. a_edits a uid)) (\<lambda>found.
     and_then (modify (\<lambda>a. a\<lparr>a_edits := (a_edits a)(uid := None)\<rparr>)) (\<lambda>_.
     case found of
       None \<Rightarrow> ok ()
     | Some edit \<Rightarrow> (case path_parent (edit_local_path edit) of
         None \<Rightarrow> ok ()
       | Some directory \<Rightarrow> and_then (in_world (attempt (on_disk (\<lambda>fs. l_remove_dir_all fs directory)))) (\<lambda>removed.
           case removed of
             Inr _ \<Rightarrow> ok ()
           | Inl source \<Rightarrow> if io_kind source = IoNotFound then ok () else err (edit_io_error source)))))"

section \<open>The watcher\<close>

datatype watched = WatchEnds | WatchQuiet | WatchSaw bytes

definition watch_look :: "(bytes \<Rightarrow> bytes) \<Rightarrow> uuid \<Rightarrow> ('r, 'l, watched) app" where
  "watch_look sha256 uid =
     and_then (gets (\<lambda>a. a_edits a uid)) (\<lambda>snapshot. case snapshot of
       None \<Rightarrow> ok WatchEnds
     | Some edit \<Rightarrow> and_then (in_world (attempt (on_disk (\<lambda>fs. l_read fs (edit_local_path edit))))) (\<lambda>contents.
         ok (case contents of
           Inl _ \<Rightarrow> WatchQuiet
         | Inr bytes \<Rightarrow> if sha256 bytes = edit_observed_hash edit then WatchQuiet else WatchSaw (sha256 bytes))))"

definition watch_report :: "uuid \<Rightarrow> bytes \<Rightarrow> ('r, 'l, ExternalEditChanged option) app" where
  "watch_report uid next_hash =
     and_then (gets (\<lambda>a. a_edits a uid)) (\<lambda>found. case found of
       None \<Rightarrow> ok None
     | Some active \<Rightarrow>
         if edit_observed_hash active = next_hash then ok None
         else and_then (modify (\<lambda>a. a\<lparr>a_edits := (a_edits a)(uid \<mapsto> active\<lparr>edit_observed_hash := next_hash\<rparr>)\<rparr>))
           (\<lambda>_. ok (Some \<lparr>changed_edit_id = edit_id active, changed_remote_path = edit_remote_path active,
             changed_name = edit_name active\<rparr>)))"

text \<open>A round that no other command interrupts.\<close>

definition watch_round :: "(bytes \<Rightarrow> bytes) \<Rightarrow> uuid \<Rightarrow> ('r, 'l, ExternalEditChanged option) app" where
  "watch_round sha256 uid = and_then (watch_look sha256 uid) (\<lambda>seen. case seen of
       WatchSaw next_hash \<Rightarrow> watch_report uid next_hash
     | _ \<Rightarrow> ok None)"

end
