(* ===== verification/External_Edit_Laws.thy ===== *)
theory External_Edit_Laws
  imports External_Edit Entry_Laws
begin

text \<open>
  What an external edit copies, what a commit uploads, and when the watcher speaks up.
\<close>

lemma on_local_run [run_simps]:
  "on_local f m a = (case m (w_fs (a_world a)) (w_disk (a_world a)) of
      (Inl e, d) \<Rightarrow> (Inl (f e), a\<lparr>a_world := (a_world a)\<lparr>w_disk := d\<rparr>\<rparr>)
    | (Inr x, d) \<Rightarrow> (Inr x, a\<lparr>a_world := (a_world a)\<lparr>w_disk := d\<rparr>\<rparr>))"
  by (simp add: on_local_def in_world_def zoom_run map_err_run on_disk_def split: prod.split sum.split)

lemma in_world_attempt_disk [run_simps]:
  "in_world (attempt (on_disk m)) a = (case m (w_fs (a_world a)) (w_disk (a_world a)) of
      (r, d) \<Rightarrow> (Inr r, a\<lparr>a_world := (a_world a)\<lparr>w_disk := d\<rparr>\<rparr>))"
  by (simp add: in_world_def zoom_run attempt_run on_disk_def split: prod.split)

section \<open>The copy\<close>

context remote_filesystem
begin

lemma read_original_take:
  assumes "read_original remote p sized (length got) got s = (Inr out, s')" "view s p = Some c"
    and "got = take (length got) c" "length got \<le> length c"
    and full: "\<And>offset n s buf s'. read_chunk remote p offset n s = (Inr buf, s') \<Longrightarrow> view s p = Some c \<Longrightarrow>
      offset < length c \<Longrightarrow> 0 < n \<Longrightarrow> buf \<noteq> []"
  shows "out = take (length out) c \<and> min sized (length c) \<le> length out \<and> view s' = view s"
  using assms(1-4)
proof (induction remote\<equiv>remote p\<equiv>p sized "length got" got s rule: read_original.induct)
  case (1 sized got s)
  note run = 1(2)[unfolded read_original.simps[of remote p sized "length got"]]
  show ?case
  proof (cases "length got < sized")
    case False
    then show ?thesis using run 1(3-5) by auto
  next
    case True
    obtain r s1 where read: "read_chunk remote p (length got) (64 * 1024) s = (r, s1)"
      by (cases "read_chunk remote p (length got) (64 * 1024) s")
    obtain chunk where chunk: "r = Inr chunk" using run True read by (cases r) (auto simp: run_simps)
    have same: "view s1 = view s" using read_same[of p "length got" "64 * 1024" s] read by simp
    obtain tail where "drop (length got) c = chunk @ tail"
      using read_prefix[OF read[unfolded chunk] 1(3)] by (auto simp: prefix_def)
    then have c: "c = got @ chunk @ tail" using 1(4) by (metis append_take_drop_id)
    show ?thesis
    proof (cases "chunk = []")
      case stop: True
      then have out: "out = got" "s' = s1" using run True read chunk by (auto simp: run_simps)
      have "\<not> length got < length c"
        using full[of "length got" "64 * 1024" s chunk s1] read chunk 1(3) stop by auto
      then show ?thesis using out same 1(4,5) by simp
    next
      case False
      then have "read_original remote p sized (length (got @ chunk)) (got @ chunk) s1 = (Inr out, s')"
        using run True read chunk by (auto simp: run_simps)
      then have "out = take (length out) c \<and> min sized (length c) \<le> length out \<and> view s' = view s1"
        using 1(1)[OF True read[unfolded chunk] False _ ] same 1(3) c by simp
      then show ?thesis using same by simp
    qed
  qed
qed

end

section \<open>Committing\<close>

text \<open>C17: a commit that succeeds puts the content that the copy on the disk has at that moment on the server,
  whatever the file on the server holds by then, and the edit goes on from it; it is UTF-8 text of at most 4 MB.\<close>

theorem commit_uploads_copy:
  assumes "remote_filesystem remote view"
    and edit: "a_edits a uid = Some edit"
    and session: "map_of (w_sessions (a_world a)) (edit_session_id edit) = Some session" "sess_client session = remote"
    and names: "save_names a (edit_remote_path edit) temp backup"
    and there: "view (server_of a) temp = None" "view (server_of a) (edit_remote_path edit) = Some before"
    and run: "commit_external_edit sha256 utf8_text uid a = (Inr (), a')"
  shows "\<exists>modified d. l_read (w_fs (a_world a)) (edit_local_path edit) (w_disk (a_world a)) = (Inr modified, d)
    \<and> utf8_valid modified \<and> length modified \<le> MAX_EXTERNAL_EDIT_BYTES
    \<and> view (server_of a') (edit_remote_path edit) = Some modified
    \<and> (a_edits a' uid \<noteq> None \<longrightarrow>
        edit_original (the (a_edits a' uid)) = modified \<and> edit_observed_hash (the (a_edits a' uid)) = sha256 modified)"
proof -
  obtain r d where read: "l_read (w_fs (a_world a)) (edit_local_path edit) (w_disk (a_world a)) = (r, d)"
    by (cases "l_read (w_fs (a_world a)) (edit_local_path edit) (w_disk (a_world a))")
  define b where "b = a\<lparr>a_world := (a_world a)\<lparr>w_disk := d\<rparr>\<rparr>"
  have b: "server_of b = server_of a" "w_sessions (a_world b) = w_sessions (a_world a)" "save_names b = save_names a"
    by (simp_all add: b_def save_names_def fun_eq_iff)
  have client: "open_client (edit_session_id edit) b = (Inr remote, b)"
    using session b by (simp add: open_client_def command_client_def find_session_def run_simps)
  obtain modified where modified: "r = Inr modified" "length modified \<le> MAX_EXTERNAL_EDIT_BYTES" "utf8_valid modified"
    using run edit read by (auto simp: commit_external_edit_def active_edit_def read_copy_def run_simps
        split: sum.splits if_splits)
  obtain a1 where saved: "save_remote_bytes_atomic remote (edit_remote_path edit) modified b = (Inr (), a1)"
    and noted: "note_committed sha256 uid modified a1 = (Inr (), a')"
    using run edit read modified client
    by (auto simp: commit_external_edit_def active_edit_def read_copy_def run_simps b_def[symmetric]
        split: sum.splits prod.splits)
  have "view (server_of a1) (edit_remote_path edit) = Some modified"
    using remote_filesystem.save_remote_safe[OF assms(1) _ _ _ saved, of temp backup before] names there b by simp
  moreover have "server_of a' = server_of a1" "a_edits a' uid \<noteq> None \<longrightarrow>
      edit_original (the (a_edits a' uid)) = modified \<and> edit_observed_hash (the (a_edits a' uid)) = sha256 modified"
    using noted by (auto simp: note_committed_def run_simps split: option.splits)
  ultimately show ?thesis using read modified by auto
qed

text \<open>An edit of which the copy was changed, while the file on the server changed too.\<close>

definition copy_edit :: ExternalEditRecord where
  "copy_edit = \<lparr>edit_id = ''e'', edit_session_id = ''s'', edit_remote_path = ''/a.txt'', edit_name = ''a.txt'',
     edit_local_path = ''/edits/e/a.txt'', edit_original = ''first'', edit_observed_hash = ''first''\<rparr>"

definition copy_app :: "(store, store) App" where
  "copy_app = (edit_app [])\<lparr>a_edits := [''e'' \<mapsto> copy_edit],
     a_world := (a_world (edit_app []))\<lparr>w_disk := \<lparr>st_files = [''/edits/e/a.txt'' \<mapsto> ''mine''], st_faults = []\<rparr>\<rparr>\<rparr>"

lemma copy_app_simps:
  "server_of copy_app = \<lparr>st_files = [''/a.txt'' \<mapsto> ''old''], st_faults = []\<rparr>"
  "w_sessions (a_world copy_app) = [(''s'', \<lparr>sess_profile_id = ''p'', sess_client = mem_remote\<rparr>)]"
  "w_disk (a_world copy_app) = \<lparr>st_files = [''/edits/e/a.txt'' \<mapsto> ''mine''], st_faults = []\<rparr>"
  "w_fs (a_world copy_app) = mem_disk" "a_edits copy_app = [''e'' \<mapsto> copy_edit]"
  "a_uuids copy_app = (\<lambda>n. CHR ''u'' # show_nat n)" "a_issued copy_app = 0"
  "save_names copy_app ''/a.txt'' ''/.siftlane-edit-u0-a.txt'' ''/.siftlane-backup-u1-a.txt''"
  using edit_names[of "[]"]
  by (simp_all add: copy_app_def edit_app_simps save_names_def)
    (simp add: edit_app_def with_server_def demo_app_def demo_world_def)

lemma copy_read: "l_read mem_disk ''/edits/e/a.txt'' \<lparr>st_files = [''/edits/e/a.txt'' \<mapsto> ''mine''], st_faults = []\<rparr>
    = (Inr ''mine'', \<lparr>st_files = [''/edits/e/a.txt'' \<mapsto> ''mine''], st_faults = []\<rparr>)"
  by (simp add: mem_disk_def faulty_def st_whole_def)

lemma copy_committed: "fst (commit_external_edit (\<lambda>b. b) (\<lambda>b. b) ''e'' copy_app) = Inr ()"
  by (simp add: commit_external_edit_def active_edit_def read_copy_def run_simps copy_app_simps copy_edit_def copy_read
      MAX_EXTERNAL_EDIT_BYTES_def byte_in_def open_client_def command_client_def find_session_def
      save_remote_bytes_atomic_def edit_paths shown_digits write_chunks_def chunks.simps REMOTE_FILE_CHUNK_SIZE_def
      note_committed_def mem_remote_def faulty_def st_write_def st_move_def st_splice_def st_delete_def moved_def
      replace_remote_def)

lemma commit_uploads_copy_witness:
  "\<exists>a'. commit_external_edit (\<lambda>b. b) (\<lambda>b. b) ''e'' copy_app = (Inr (), a') \<and> st_files (server_of a') ''/a.txt'' = Some ''mine''"
proof -
  obtain a' where run: "commit_external_edit (\<lambda>b. b) (\<lambda>b. b) ''e'' copy_app = (Inr (), a')"
    using copy_committed by (metis prod.collapse)
  have path: "edit_remote_path copy_edit = ''/a.txt''" "edit_session_id copy_edit = ''s''"
    "edit_local_path copy_edit = ''/edits/e/a.txt''" by (simp_all add: copy_edit_def)
  have "\<exists>modified d. l_read mem_disk ''/edits/e/a.txt'' (w_disk (a_world copy_app)) = (Inr modified, d)
      \<and> st_files (server_of a') ''/a.txt'' = Some modified"
    using commit_uploads_copy[OF mem_server.remote_filesystem_axioms, of copy_app "''e''" copy_edit
        "\<lparr>sess_profile_id = ''p'', sess_client = mem_remote\<rparr>" "''/.siftlane-edit-u0-a.txt''"
        "''/.siftlane-backup-u1-a.txt''" "''old''" "\<lambda>b. b" "\<lambda>b. b" a'] run path
    by (auto simp: copy_app_simps)
  with run show ?thesis by (auto simp: copy_app_simps copy_read)
qed

section \<open>Watching\<close>

text \<open>C18: a round of the watcher announces a change exactly when the copy differs (in its digest) from what
  was last observed, and then the content counts as observed: later rounds are quiet while the copy stays as it is,
  and a content that was recorded between the two parts of a round, as a commit does, is not announced.\<close>

theorem watcher_announces_changes_once:
  assumes "a_edits a uid = Some edit"
    and "l_read (w_fs (a_world a)) (edit_local_path edit) (w_disk (a_world a)) = (Inr bytes, d)"
  shows "\<exists>event a'. watch_round sha256 uid a = (Inr event, a')
    \<and> (event \<noteq> None \<longleftrightarrow> sha256 bytes \<noteq> edit_observed_hash edit)
    \<and> (\<exists>edit'. a_edits a' uid = Some edit' \<and> edit_observed_hash edit' = sha256 bytes \<and> edit_local_path edit' = edit_local_path edit)
    \<and> (\<forall>b d'. a_edits b uid = a_edits a' uid \<longrightarrow>
         l_read (w_fs (a_world b)) (edit_local_path edit) (w_disk (a_world b)) = (Inr bytes, d') \<longrightarrow>
         fst (watch_round sha256 uid b) = Inr None)
    \<and> (\<forall>b edit'. a_edits b uid = Some edit' \<longrightarrow> edit_observed_hash edit' = sha256 bytes \<longrightarrow>
         watch_report uid (sha256 bytes) b = (Inr None, b))"
proof (cases "sha256 bytes = edit_observed_hash edit")
  case True
  with assms show ?thesis by (auto simp: watch_round_def watch_look_def watch_report_def run_simps)
next
  case False
  then have "edit_observed_hash edit \<noteq> sha256 bytes" by auto
  with False assms show ?thesis by (auto simp: watch_round_def watch_look_def watch_report_def run_simps)
qed

lemma watcher_announces_changes_once_witness:
  "\<exists>event a'. watch_round (\<lambda>b. b) ''e'' copy_app = (Inr (Some event), a')"
proof -
  have read: "l_read (w_fs (a_world copy_app)) (edit_local_path copy_edit) (w_disk (a_world copy_app))
      = (Inr ''mine'', \<lparr>st_files = [''/edits/e/a.txt'' \<mapsto> ''mine''], st_faults = []\<rparr>)"
    by (simp add: copy_app_simps copy_edit_def copy_read)
  have "a_edits copy_app ''e'' = Some copy_edit" by (simp add: copy_app_simps)
  from watcher_announces_changes_once[OF this read, of "\<lambda>b. b"] show ?thesis
    by (auto simp: copy_edit_def)
qed

section \<open>What is copied\<close>

text \<open>The copy has the bytes up to the size that the server reports, rounded up to a whole read; without a reported size it is
  empty, whatever the file holds, and committing it empties the file.\<close>

lemma begin_copies_reported_size:
  assumes "begin_external_edit sha256 sid path0 a = (Inr started, a')" "normalize_remote_path path0 = Inr path"
    and "map_of (w_sessions (a_world a)) sid = Some session" "sess_client session = remote"
    and "metadata remote path (server_of a) = (Inr (Some entry), s1)" "ent_size entry = None"
  shows "\<exists>edit. a_edits a' (started_edit_id started) = Some edit \<and> edit_original edit = []
    \<and> edit_local_path edit = started_local_path started"
  using assms
  by (auto simp: begin_external_edit_def run_simps open_client_def command_client_def find_session_def
      existing_entry_def read_original.simps Let_def edit_copy_name_def split: prod.splits sum.splits if_splits)

end
