(* ===== verification/Configuration.thy ===== *)
theory Configuration
  imports Profiles Sftp_Client Local_Paths
begin

text \<open>
  \<^verbatim>\<open>src-tauri/src/configuration.rs\<close>: a configuration is exported to a file and imported from one, with the stored
  credentials when the user gives a passphrase. The crates behind it are records of functions: \<open>codec\<close> is the
  JSON serialisation of a document and of a bundle of credentials, \<open>suite\<close> the key derivation, the authenticated
  cipher and the text encoding. What the operating system's generator gave for the salt and the nonce is a parameter of an export.
  The mode that a new file is opened with is not modelled, the mode that is set after writing is.
\<close>

section \<open>Data\<close>

definition DOCUMENT_FORMAT :: string where "DOCUMENT_FORMAT = ''app.siftlane.configuration''"
definition DOCUMENT_VERSION :: u32 where "DOCUMENT_VERSION = 1"
definition ENCRYPTION_SCHEME :: string where "ENCRYPTION_SCHEME = ''argon2id-aes-256-gcm''"
definition ENCRYPTION_AAD :: bytes where "ENCRYPTION_AAD = ''app.siftlane.configuration/v1/secrets''"
definition MAX_DOCUMENT_BYTES :: nat where "MAX_DOCUMENT_BYTES = 16 * 1024 * 1024"
definition MAX_PROFILES :: nat where "MAX_PROFILES = 2000"
definition MAX_BOOKMARKS :: nat where "MAX_BOOKMARKS = 20000"
definition MAX_ACTIONS :: nat where "MAX_ACTIONS = 10000"

record EncryptedSecrets =
  enc_scheme :: string
  enc_salt_base64 :: string
  enc_nonce_base64 :: string
  enc_ciphertext_base64 :: string

record PortableConfiguration =
  doc_format :: string
  doc_version :: u32
  doc_exported_at :: datetime
  doc_profiles :: "ConnectionProfile list"
  doc_bookmarks :: "Favorite list"
  doc_saved_actions :: "SavedAction list"
  doc_encrypted_secrets :: "EncryptedSecrets option"

record SecretEntry =
  sec_profile_id :: uuid
  sec_password :: "string option"
  sec_private_key_passphrase :: "string option"

type_synonym SecretBundle = "SecretEntry list"

record ConfigurationSummary =
  sum_version :: u32
  sum_profiles :: nat
  sum_bookmarks :: nat
  sum_saved_actions :: nat
  sum_secrets_included :: bool

record ConfigurationImportSummary =
  imp_profiles :: nat
  imp_bookmarks :: nat
  imp_saved_actions :: nat
  imp_secrets_imported :: nat

text \<open>A result of a crate carries the text of its error on the left.\<close>

record codec =
  bundle_json :: "SecretBundle \<Rightarrow> string + bytes"
  bundle_parse :: "bytes \<Rightarrow> string + SecretBundle"
  document_json :: "PortableConfiguration \<Rightarrow> string + bytes"
  document_parse :: "bytes \<Rightarrow> string + PortableConfiguration"

record suite =
  derive :: "string \<Rightarrow> bytes \<Rightarrow> string + bytes"
  seal :: "bytes \<Rightarrow> bytes \<Rightarrow> bytes \<Rightarrow> bytes \<Rightarrow> string + bytes"
  unseal :: "bytes \<Rightarrow> bytes \<Rightarrow> bytes \<Rightarrow> bytes \<Rightarrow> bytes option"
  b64 :: "bytes \<Rightarrow> string"
  unb64 :: "string \<Rightarrow> string + bytes"

section \<open>Errors\<close>

definition file_error :: "io_error \<Rightarrow> AppError" where
  "file_error source = with_detail (new_error IoError ''The configuration file operation failed'') (io_text source)"

definition serialization_error :: "string \<Rightarrow> AppError" where
  "serialization_error source =
     with_detail (new_error InternalError ''Could not serialize the Siftlane configuration'') source"

definition encryption_error :: "string \<Rightarrow> AppError" where
  "encryption_error source =
     with_detail (new_error InternalError ''Could not encrypt the configuration secrets'') source"

definition invalid_metadata :: AppError where
  "invalid_metadata = new_error InvalidInput ''The encrypted configuration metadata is invalid''"

definition decryption_error :: "string \<Rightarrow> AppError" where
  "decryption_error source = with_detail invalid_metadata source"

definition random_error :: "string \<Rightarrow> AppError" where
  "random_error source = with_detail
     (new_error InternalError ''The operating system could not generate secure random data'') source"

definition wrong_passphrase :: AppError where
  "wrong_passphrase = new_error AuthenticationFailed
     ''The configuration passphrase is incorrect or the file was modified''"

definition if_failed :: "('e \<Rightarrow> AppError) \<Rightarrow> 'e + 'a \<Rightarrow> 'a result" where
  "if_failed f r = map_sum f id r"

definition and_also :: "'a result \<Rightarrow> ('a \<Rightarrow> 'b result) \<Rightarrow> 'b result" where
  "and_also r k = (case r of Inl e \<Rightarrow> Inl e | Inr a \<Rightarrow> k a)"

section \<open>Credentials\<close>

definition require_passphrase :: "string option \<Rightarrow> string result" where
  "require_passphrase passphrase =
     (let given = (case passphrase of Some p \<Rightarrow> p | None \<Rightarrow> '''')
      in if char_count given < 12
         then Inl (new_error InvalidInput ''Use an export passphrase with at least 12 characters'')
         else Inr given)"

definition derive_key :: "suite \<Rightarrow> string \<Rightarrow> bytes \<Rightarrow> bytes result" where
  "derive_key su passphrase salt = if_failed encryption_error (derive su passphrase salt)"

definition encrypt_secrets ::
  "codec \<Rightarrow> suite \<Rightarrow> string + bytes \<Rightarrow> string + bytes \<Rightarrow> SecretBundle \<Rightarrow> string \<Rightarrow> EncryptedSecrets result" where
  "encrypt_secrets co su random_salt random_nonce bundle passphrase =
     and_also (if_failed serialization_error (bundle_json co bundle)) (\<lambda>plaintext.
     and_also (if_failed random_error random_salt) (\<lambda>salt.
     and_also (if_failed random_error random_nonce) (\<lambda>nonce.
     and_also (derive_key su passphrase salt) (\<lambda>key.
     and_also (if_failed encryption_error (seal su key nonce ENCRYPTION_AAD plaintext)) (\<lambda>ciphertext.
     Inr \<lparr>enc_scheme = ENCRYPTION_SCHEME, enc_salt_base64 = b64 su salt, enc_nonce_base64 = b64 su nonce,
       enc_ciphertext_base64 = b64 su ciphertext\<rparr>)))))"

definition decode_fixed :: "suite \<Rightarrow> nat \<Rightarrow> string \<Rightarrow> bytes result" where
  "decode_fixed su n value =
     and_also (if_failed decryption_error (unb64 su value)) (\<lambda>decoded.
     if length decoded = n then Inr decoded else Inl invalid_metadata)"

definition decrypt_secrets :: "codec \<Rightarrow> suite \<Rightarrow> EncryptedSecrets \<Rightarrow> string \<Rightarrow> SecretBundle result" where
  "decrypt_secrets co su encrypted passphrase =
     (if enc_scheme encrypted \<noteq> ENCRYPTION_SCHEME
      then Inl (new_error Unsupported ''This encrypted configuration scheme is not supported'')
      else
        and_also (decode_fixed su 16 (enc_salt_base64 encrypted)) (\<lambda>salt.
        and_also (decode_fixed su 12 (enc_nonce_base64 encrypted)) (\<lambda>nonce.
        and_also (if_failed decryption_error (unb64 su (enc_ciphertext_base64 encrypted))) (\<lambda>ciphertext.
        and_also (derive_key su passphrase salt) (\<lambda>key.
        case unseal su key nonce ENCRYPTION_AAD ciphertext of
          None \<Rightarrow> Inl wrong_passphrase
        | Some plaintext \<Rightarrow> if_failed
            (\<lambda>source. with_detail (new_error InvalidInput ''The encrypted secret payload is invalid'') source)
            (bundle_parse co plaintext))))))"

definition collect_entry :: "ConnectionProfile \<Rightarrow> ('r, 'l, SecretEntry) app" where
  "collect_entry profile =
     and_then (case prof_auth profile of
         Password True \<Rightarrow> get_secret (prof_id profile) PasswordKind | _ \<Rightarrow> ok None) (\<lambda>password.
     and_then (case prof_auth profile of
         PrivateKey _ True \<Rightarrow> get_secret (prof_id profile) PassphraseKind | _ \<Rightarrow> ok None) (\<lambda>passphrase.
     ok \<lparr>sec_profile_id = prof_id profile, sec_password = password, sec_private_key_passphrase = passphrase\<rparr>))"

definition collect_secrets :: "ConnectionProfile list \<Rightarrow> ('r, 'l, SecretBundle) app" where
  "collect_secrets profiles =
     and_then (collect_each collect_entry profiles) (\<lambda>entries.
     ok (filter (\<lambda>e. sec_password e \<noteq> None \<or> sec_private_key_passphrase e \<noteq> None) entries))"

section \<open>Documents\<close>

definition validate_document :: "PortableConfiguration \<Rightarrow> unit result" where
  "validate_document document =
     (if doc_format document \<noteq> DOCUMENT_FORMAT
      then Inl (new_error InvalidInput ''This JSON document is not a Siftlane configuration'')
      else if doc_version document \<noteq> DOCUMENT_VERSION
      then Inl (new_error Unsupported (''Configuration version '' @ show_nat (unat (doc_version document))
        @ '' is not supported by this release''))
      else if MAX_PROFILES < length (doc_profiles document) \<or> MAX_BOOKMARKS < length (doc_bookmarks document)
        \<or> MAX_ACTIONS < length (doc_saved_actions document)
      then Inl (new_error InvalidInput ''The configuration contains too many records'')
      else Inr ())"

definition summary :: "PortableConfiguration \<Rightarrow> ConfigurationSummary" where
  "summary document = \<lparr>sum_version = doc_version document, sum_profiles = length (doc_profiles document),
     sum_bookmarks = length (doc_bookmarks document), sum_saved_actions = length (doc_saved_actions document),
     sum_secrets_included = (doc_encrypted_secrets document \<noteq> None)\<rparr>"

definition read_document :: "codec \<Rightarrow> string \<Rightarrow> ('r, 'l, PortableConfiguration) app" where
  "read_document co path =
     and_then (on_local file_error (\<lambda>fs. l_metadata fs path)) (\<lambda>meta.
     if MAX_DOCUMENT_BYTES < lm_len meta
     then err (new_error InvalidInput ''Configuration files larger than 16 MB are not supported'')
     else and_then (on_local file_error (\<lambda>fs. l_read fs path)) (\<lambda>bytes.
       and_then (lift_result (if_failed
           (\<lambda>source. with_detail (new_error InvalidInput ''This is not a valid Siftlane configuration'') source)
           (document_parse co bytes))) (\<lambda>document.
       and_then (lift_result (validate_document document)) (\<lambda>_. ok document))))"

definition write_export :: "string \<Rightarrow> bytes \<Rightarrow> bool \<Rightarrow> ('r, 'l, unit) app" where
  "write_export path bytes private =
     (if file_name path = None then err (new_error InvalidInput ''Choose a file for the configuration export'')
      else
        and_then (case path_parent path of
            Some parent \<Rightarrow> if parent = '''' then ok () else on_local file_error (\<lambda>fs. l_create_dir_all fs parent)
          | None \<Rightarrow> ok ()) (\<lambda>_.
        on_local file_error (\<lambda>fs.
          and_then (l_create fs path) (\<lambda>_.
          and_then (l_write_at fs path 0 bytes) (\<lambda>_.
          and_then (l_sync fs path) (\<lambda>_.
          if private then l_set_permissions fs path 0x180 else ok ()))))))"

section \<open>Export\<close>

definition export_configuration ::
  "codec \<Rightarrow> suite \<Rightarrow> string + bytes \<Rightarrow> string + bytes \<Rightarrow> string \<Rightarrow> bool \<Rightarrow> string option
     \<Rightarrow> ('r, 'l, ConfigurationSummary) app" where
  "export_configuration co su random_salt random_nonce path include_secrets passphrase =
     and_then (in_db list_profiles) (\<lambda>profiles.
     and_then (in_db list_favorites) (\<lambda>bookmarks.
     and_then (in_db list_saved_actions) (\<lambda>saved.
     and_then (if include_secrets then
         and_then (lift_result (require_passphrase passphrase)) (\<lambda>passphrase.
         and_then (collect_secrets profiles) (\<lambda>bundle.
         and_then (lift_result (encrypt_secrets co su random_salt random_nonce bundle passphrase)) (\<lambda>encrypted.
         ok (Some encrypted))))
       else ok None) (\<lambda>encrypted_secrets.
     and_then read_clock (\<lambda>now.
     let document = \<lparr>doc_format = DOCUMENT_FORMAT, doc_version = DOCUMENT_VERSION, doc_exported_at = now,
           doc_profiles = profiles, doc_bookmarks = bookmarks, doc_saved_actions = saved,
           doc_encrypted_secrets = encrypted_secrets\<rparr>
     in and_then (lift_result (validate_document document)) (\<lambda>_.
        and_then (lift_result (if_failed serialization_error (document_json co document))) (\<lambda>bytes.
        and_then (write_export path bytes include_secrets) (\<lambda>_. ok (summary document)))))))))"

definition inspect_configuration :: "codec \<Rightarrow> string \<Rightarrow> ('r, 'l, ConfigurationSummary) app" where
  "inspect_configuration co path = and_then (read_document co path) (\<lambda>document. ok (summary document))"

section \<open>Import\<close>

definition check_bookmark :: "uuid list \<Rightarrow> Favorite \<Rightarrow> ('r, 'l, unit) app" where
  "check_bookmark profile_ids bookmark =
     (if trim (fav_label bookmark) = '''' \<or> trim (fav_path bookmark) = ''''
      then err (new_error InvalidInput ''Imported bookmarks must have a label and path'')
      else case fav_profile_id bookmark of
        None \<Rightarrow> err (new_error InvalidInput ''Imported bookmarks must belong to a profile'')
      | Some profile_id \<Rightarrow>
          if profile_id \<in> set profile_ids then ok ()
          else and_then (attempt (in_db (get_profile profile_id))) (\<lambda>found. case found of
              Inr _ \<Rightarrow> ok ()
            | Inl _ \<Rightarrow> err (new_error InvalidInput ''An imported bookmark refers to a missing profile'')))"

definition validate_related_records :: "uuid list \<Rightarrow> Favorite list \<Rightarrow> SavedAction list \<Rightarrow> ('r, 'l, unit) app" where
  "validate_related_records profile_ids bookmarks saved =
     and_then (for_each (check_bookmark profile_ids) bookmarks) (\<lambda>_.
     if list_ex (\<lambda>action. trim (act_label action) = '''') saved
     then err (new_error InvalidInput ''Imported saved actions must have a label'') else ok ())"

text \<open>The credentials of one profile; the number counts what was stored.\<close>

definition import_secret :: "uuid \<Rightarrow> SecretKind \<Rightarrow> string option \<Rightarrow> nat \<Rightarrow> ('r, 'l, nat) app" where
  "import_secret profile_id kind secret n = (case secret of
      None \<Rightarrow> ok n | Some text_value \<Rightarrow> and_then (set_secret profile_id kind text_value) (\<lambda>_. ok (n + 1)))"

definition import_entry :: "uuid list \<Rightarrow> SecretEntry \<Rightarrow> nat \<Rightarrow> ('r, 'l, nat) app" where
  "import_entry profile_ids entry n =
     and_then (if sec_profile_id entry \<in> set profile_ids then ok True
         else and_then (attempt (in_db (get_profile (sec_profile_id entry)))) (\<lambda>found. ok (\<not> isl found))) (\<lambda>known.
     if \<not> known then ok n
     else and_then (import_secret (sec_profile_id entry) PasswordKind (sec_password entry) n) (\<lambda>n.
       import_secret (sec_profile_id entry) PassphraseKind (sec_private_key_passphrase entry) n))"

definition normalize_now :: "(string \<Rightarrow> string) \<Rightarrow> ConnectionProfile \<Rightarrow> ('r, 'l, ConnectionProfile) app" where
  "normalize_now lower profile = and_then read_clock (\<lambda>now. lift_result (normalize_profile lower now profile))"

definition unseal_bundle ::
  "codec \<Rightarrow> suite \<Rightarrow> EncryptedSecrets option \<Rightarrow> string option \<Rightarrow> ('r, 'l, SecretBundle) app" where
  "unseal_bundle co su secrets passphrase = (case secrets of
       Some encrypted \<Rightarrow>
         and_then (lift_result (require_passphrase passphrase)) (\<lambda>passphrase.
         lift_result (decrypt_secrets co su encrypted passphrase))
     | None \<Rightarrow> ok [])"

definition import_configuration ::
  "(string \<Rightarrow> string) \<Rightarrow> codec \<Rightarrow> suite \<Rightarrow> string \<Rightarrow> string option \<Rightarrow> ('r, 'l, ConfigurationImportSummary) app" where
  "import_configuration lower co su path passphrase =
     and_then (read_document co path) (\<lambda>document.
     and_then (collect_each (normalize_now lower) (doc_profiles document)) (\<lambda>profiles.
     let profile_ids = map prof_id profiles
     in and_then (validate_related_records profile_ids (doc_bookmarks document) (doc_saved_actions document)) (\<lambda>_.
        and_then (unseal_bundle co su (doc_encrypted_secrets document) passphrase) (\<lambda>bundle.
        and_then (for_each (\<lambda>p. in_db (save_profile_row p)) profiles) (\<lambda>_.
        and_then (for_each (\<lambda>f. in_db (save_favorite_row f)) (doc_bookmarks document)) (\<lambda>_.
        and_then (for_each (\<lambda>x. in_db (save_action_row x)) (doc_saved_actions document)) (\<lambda>_.
        and_then (fold_each (import_entry profile_ids) bundle 0) (\<lambda>secrets_imported.
        ok \<lparr>imp_profiles = length profiles, imp_bookmarks = length (doc_bookmarks document),
          imp_saved_actions = length (doc_saved_actions document), imp_secrets_imported = secrets_imported\<rparr>))))))))"

end
