(* ===== verification/Configuration_Laws.thy ===== *)
theory Configuration_Laws
  imports Configuration Profile_Laws External_Edit_Laws
begin

text \<open>
  What a configuration that was exported brings to the computer that imports it, and what neither export nor
  import does: a plain export reads no credential, an import that a check refuses stores nothing.
\<close>

section \<open>What the crates promise\<close>

text \<open>Reading what was serialised gives the value back. A sealed text opens with its own key only, and the
  text encoding is reversible.\<close>

definition codec_ok :: "codec \<Rightarrow> bool" where
  "codec_ok co \<longleftrightarrow> (\<forall>d bs. document_json co d = Inr bs \<longrightarrow> document_parse co bs = Inr d)
     \<and> (\<forall>b bs. bundle_json co b = Inr bs \<longrightarrow> bundle_parse co bs = Inr b)"

definition suite_ok :: "suite \<Rightarrow> bool" where
  "suite_ok su \<longleftrightarrow> (\<forall>pp salt key. derive su pp salt = Inr key \<longrightarrow> length key = 32)
     \<and> (\<forall>key key' nonce aad plain c. length key = 32 \<longrightarrow> length key' = 32 \<longrightarrow> seal su key nonce aad plain = Inr c \<longrightarrow>
          unseal su key' nonce aad c = (if key' = key then Some plain else None))
     \<and> (\<forall>bs. unb64 su (b64 su bs) = Inr bs)"

text \<open>A disk on which files are also written and read as a whole.\<close>

locale whole_files = local_filesystem fs view for fs :: "'l LocalFs" and view :: "'l \<Rightarrow> string \<rightharpoonup> bytes" +
  assumes create_ok: "l_create fs p s = (Inr u, s') \<Longrightarrow> view s' = (view s)(p \<mapsto> [])"
    and read_whole: "l_read fs p s = (Inr c', s') \<Longrightarrow> view s p = Some c \<Longrightarrow> c' = c"
begin

lemma created_then_written:
  assumes "l_create fs p s = (Inr u, s1)" "l_write_at fs p 0 data s1 = (Inr u', s2)"
  shows "view s2 p = Some data"
proof -
  have "view s1 p = Some []" using create_ok[OF assms(1)] by simp
  from write_ok[OF assms(2) this] obtain c where "view s2 p = Some c" "overwritten [] 0 data c" by auto
  moreover from this(2) have "c = data" by (metis add_0 append_Nil list.size(3) max_0L order_refl overwritten_def take_all take_eq_Nil2)
  ultimately show ?thesis by simp
qed

end

interpretation mem_whole: whole_files mem_disk st_files
proof
  fix p s u s' assume "l_create mem_disk p s = (Inr u, s')"
  then show "st_files s' = (st_files s)(p \<mapsto> [])" by (auto simp: mem_disk_def run_simps elim!: faulty_Inr)
next
  fix p s c' s' c assume "l_read mem_disk p s = (Inr c', s')" "st_files s p = Some c"
  then show "c' = c" by (auto simp: mem_disk_def st_whole_def split: option.splits elim!: faulty_Inr)
qed

section \<open>Credentials\<close>

lemma and_also_Inr: "and_also r k = Inr b \<longleftrightarrow> (\<exists>a. r = Inr a \<and> k a = Inr b)"
  by (auto simp: and_also_def split: sum.split)

lemma if_failed_Inr [simp]: "if_failed f r = Inr a \<longleftrightarrow> r = Inr a"
  by (cases r) (simp_all add: if_failed_def)

lemma if_failed_ok [simp]: "if_failed f (Inr a) = Inr a"
  by (simp add: if_failed_def)

lemma and_also_ok [simp]: "and_also (Inr a) k = k a"
  by (simp add: and_also_def)

lemma secrets_sealed:
  assumes "codec_ok co" "suite_ok su" "length salt = 16" "length nonce = 12"
    and "encrypt_secrets co su (Inr salt) (Inr nonce) bundle passphrase = Inr sealed"
    and "derive su passphrase' salt = Inr key'"
  shows "decrypt_secrets co su sealed passphrase' =
    (if Inr key' = derive su passphrase salt then Inr bundle else Inl wrong_passphrase)"
proof -
  from assms(5) obtain plain key c where steps: "bundle_json co bundle = Inr plain" "derive su passphrase salt = Inr key"
      "seal su key nonce ENCRYPTION_AAD plain = Inr c"
    and sealed: "sealed = \<lparr>enc_scheme = ENCRYPTION_SCHEME, enc_salt_base64 = b64 su salt,
      enc_nonce_base64 = b64 su nonce, enc_ciphertext_base64 = b64 su c\<rparr>"
    by (auto simp: encrypt_secrets_def and_also_Inr derive_key_def)
  have "unseal su key' nonce ENCRYPTION_AAD c = (if key' = key then Some plain else None)"
    using assms(2,6) steps by (simp add: suite_ok_def)
  moreover have "bundle_parse co plain = Inr bundle" using assms(1) steps(1) by (simp add: codec_ok_def)
  ultimately show ?thesis using assms(2-4,6) steps(2)
    by (auto simp: decrypt_secrets_def sealed decode_fixed_def suite_ok_def derive_key_def)
qed

definition keeps_credential :: "ConnectionProfile \<Rightarrow> SecretKind \<Rightarrow> bool" where
  "keeps_credential p kind = (case kind of PasswordKind \<Rightarrow> prof_auth p = Password True
     | PassphraseKind \<Rightarrow> (\<exists>key. prof_auth p = PrivateKey key True))"

definition secret_of :: "SecretEntry \<Rightarrow> SecretKind \<Rightarrow> string option" where
  "secret_of e kind = (case kind of PasswordKind \<Rightarrow> sec_password e | PassphraseKind \<Rightarrow> sec_private_key_passphrase e)"

lemma secret_entry_eq [simp]: "secret_entry i kind = secret_entry j kind' \<longleftrightarrow> i = j \<and> kind = kind'"
proof
  assume same: "secret_entry i kind = secret_entry j kind'"
  then have "last (secret_entry i kind) = last (secret_entry j kind')" by simp
  then have "kind = kind'" by (cases kind; cases kind') (simp_all add: secret_entry_def suffix_of_def)
  with same show "i = j \<and> kind = kind'" by (simp add: secret_entry_def)
qed simp

lemma with_keyring_Inr:
  assumes "with_keyring m a = (Inr x, a')"
  shows "\<exists>fs. m (a\<lparr>a_keyring_faults := fs\<rparr>) = (Inr x, a')"
  using assms by (auto simp: with_keyring_def map_err_run split: list.splits option.splits prod.splits sum.splits)

lemma get_secret_Inr:
  assumes "get_secret uid kind a = (Inr x, a')"
  shows "x = a_keyring a (secret_entry uid kind) \<and> (\<exists>fs. a' = a\<lparr>a_keyring_faults := fs\<rparr>)"
  using with_keyring_Inr[OF assms[unfolded get_secret_def]] by (auto simp: gets_run)

lemma set_secret_Inr:
  assumes "set_secret uid kind secret a = (Inr x, a')"
  shows "a_keyring a' = (a_keyring a)(secret_entry uid kind \<mapsto> secret) \<and> a_world a' = a_world a"
  using with_keyring_Inr[OF assms[unfolded set_secret_def]] by (auto simp: modify_run)

text \<open>What a bundle holds for a profile.\<close>

definition bundled :: "(string \<rightharpoonup> string) \<Rightarrow> ConnectionProfile \<Rightarrow> SecretEntry \<Rightarrow> bool" where
  "bundled keyring p e \<longleftrightarrow> sec_profile_id e = prof_id p \<and>
     (\<forall>kind. secret_of e kind = (if keeps_credential p kind then keyring (secret_entry (prof_id p) kind) else None))"

lemma collect_entry_Inr:
  assumes "collect_entry p a = (Inr e, a')"
  shows "bundled (a_keyring a) p e \<and> a_keyring a' = a_keyring a \<and> a_world a' = a_world a"
  using assms unfolding collect_entry_def bundled_def
  by (auto simp: run_simps keeps_credential_def secret_of_def split: AuthRef.splits bool.splits prod.splits sum.splits SecretKind.split
      dest!: get_secret_Inr)

lemma collect_entries_Inr:
  assumes "collect_each collect_entry ps a = (Inr es, a')"
  shows "list_all2 (bundled (a_keyring a)) ps es \<and> a_keyring a' = a_keyring a \<and> a_world a' = a_world a"
  using assms
proof (induction ps arbitrary: a es)
  case (Cons p ps)
  from Cons.prems obtain e a1 rest where "collect_entry p a = (Inr e, a1)" "collect_each collect_entry ps a1 = (Inr rest, a')"
    "es = e # rest" by (auto simp: ok_run elim!: and_then_InrD)
  with Cons.IH[of a1 rest] collect_entry_Inr[of p a e a1] show ?case by auto
qed (simp add: ok_run)

lemma import_secret_Inr:
  assumes "import_secret uid kind secret n a = (Inr m, a')"
  shows "a_keyring a' = (case secret of None \<Rightarrow> a_keyring a | Some s \<Rightarrow> (a_keyring a)(secret_entry uid kind \<mapsto> s))
    \<and> a_world a' = a_world a"
  using assms by (auto simp: import_secret_def ok_run split: option.splits elim!: and_then_InrD dest!: set_secret_Inr)

text \<open>The credential entries that a bundle fills.\<close>

definition filled :: "SecretEntry list \<Rightarrow> string set" where
  "filled bundle = {secret_entry (sec_profile_id e) kind | e kind. e \<in> set bundle \<and> secret_of e kind \<noteq> None}"

lemma import_entry_Inr:
  assumes "import_entry ids e n a = (Inr m, a')" "sec_profile_id e \<in> set ids"
  shows "(\<forall>kind s. secret_of e kind = Some s \<longrightarrow> a_keyring a' (secret_entry (sec_profile_id e) kind) = Some s)
    \<and> (\<forall>key. key \<notin> filled [e] \<longrightarrow> a_keyring a' key = a_keyring a key) \<and> a_world a' = a_world a"
proof -
  from assms obtain n' a1 where "import_secret (sec_profile_id e) PasswordKind (sec_password e) n a = (Inr n', a1)"
    "import_secret (sec_profile_id e) PassphraseKind (sec_private_key_passphrase e) n' a1 = (Inr m, a')"
    by (auto simp: import_entry_def ok_run elim!: and_then_InrD)
  from this[THEN import_secret_Inr] show ?thesis
    by (auto simp: secret_of_def filled_def split: SecretKind.splits option.splits)
qed

lemma import_entries_Inr:
  assumes "fold_each (import_entry ids) entries n a = (Inr m, a')" "sec_profile_id ` set entries \<subseteq> set ids"
    and "distinct (map sec_profile_id entries)"
  shows "(\<forall>e \<in> set entries. \<forall>kind s. secret_of e kind = Some s \<longrightarrow> a_keyring a' (secret_entry (sec_profile_id e) kind) = Some s)
    \<and> (\<forall>key. key \<notin> filled entries \<longrightarrow> a_keyring a' key = a_keyring a key) \<and> a_world a' = a_world a"
  using assms
proof (induction entries arbitrary: n a)
  case (Cons e es)
  from Cons.prems(1) obtain n1 a1 where one: "import_entry ids e n a = (Inr n1, a1)"
    and rest: "fold_each (import_entry ids) es n1 a1 = (Inr m, a')" by (auto elim!: and_then_InrD)
  note ih = Cons.IH[OF rest]
  have one': "(\<forall>kind s. secret_of e kind = Some s \<longrightarrow> a_keyring a1 (secret_entry (sec_profile_id e) kind) = Some s)
    \<and> (\<forall>key. key \<notin> filled [e] \<longrightarrow> a_keyring a1 key = a_keyring a key) \<and> a_world a1 = a_world a"
    using import_entry_Inr[OF one] Cons.prems(2) by simp
  have "secret_entry (sec_profile_id e) kind \<notin> filled es" for kind
    using Cons.prems(3) by (auto simp: filled_def)
  moreover have "filled (e # es) = filled [e] \<union> filled es" by (auto simp: filled_def)
  ultimately show ?case using ih one' Cons.prems(2,3) by auto
qed (simp add: ok_run)

section \<open>Rows\<close>

text \<open>The row of a profile stands under the identifier of the profile, as every row that the storage wrote.\<close>

definition rows_named :: "Db \<Rightarrow> bool" where
  "rows_named db \<longleftrightarrow> (\<forall>row \<in> set (connection_profiles db). pr_id row = prof_id (pr_json row))"

lemma save_rows_named: "keeps rows_named (save_profile_row p)"
  unfolding save_profile_row_def with_connection_def
  by (auto simp: keeps_def rows_named_def run_simps upsert_def merge_profile_def profile_to_row_def
      split: list.split option.split)

lemma in_db_keeps:
  assumes "in_db m a = (Inr x, a')"
  shows "a_keyring a' = a_keyring a"
  using assms by (rule in_db_Inr) auto

text \<open>The profiles of an import, stored one after the other.\<close>

lemma save_all:
  assumes "for_each (\<lambda>p. in_db (save_profile_row p)) ps a = (Inr u, a')" "db_ok (w_db (a_world a))"
    and "distinct (map prof_id ps)"
  shows "(\<forall>p \<in> set ps. profile_in (prof_id p) (w_db (a_world a')) = Some p)
    \<and> (\<forall>uid. uid \<notin> prof_id ` set ps \<longrightarrow> profile_in uid (w_db (a_world a')) = profile_in uid (w_db (a_world a)))
    \<and> a_keyring a' = a_keyring a"
  using assms
proof (induction ps arbitrary: a)
  case (Cons p ps)
  from Cons.prems(1) obtain a1 where one: "in_db (save_profile_row p) a = (Inr (), a1)"
    and rest: "for_each (\<lambda>p. in_db (save_profile_row p)) ps a1 = (Inr u, a')" by (auto elim!: and_then_InrD)
  from one obtain db where db: "save_profile_row p (w_db (a_world a)) = (Inr (), db)"
    and a1: "a1 = a\<lparr>a_world := (a_world a)\<lparr>w_db := db\<rparr>\<rparr>" by (rule in_db_Inr)
  have "db_ok db" using keeps_run[OF storage_calls_ok(1) db Cons.prems(2)] .
  then have "(\<forall>p \<in> set ps. profile_in (prof_id p) (w_db (a_world a')) = Some p)
    \<and> (\<forall>uid. uid \<notin> prof_id ` set ps \<longrightarrow> profile_in uid (w_db (a_world a')) = profile_in uid db) \<and> a_keyring a' = a_keyring a"
    using Cons.IH[OF rest] Cons.prems(3) by (simp add: a1)
  then show ?case using save_row_Inr[OF Cons.prems(2) db] Cons.prems(3) by auto
qed (simp add: ok_run)

text \<open>The other rows of an import leave the profiles and the credentials as they are.\<close>

definition profiles_kept :: "profile_row list \<Rightarrow> (string \<rightharpoonup> string) \<Rightarrow> ('r, 'l) App \<Rightarrow> bool" where
  "profiles_kept rows keyring a \<longleftrightarrow> connection_profiles (w_db (a_world a)) = rows \<and> a_keyring a = keyring"

lemma kept_in_db:
  fixes m :: "'x db_act"
  assumes "\<And>db. connection_profiles (snd (m db)) = connection_profiles db"
  shows "keeps (profiles_kept rows keyring) (in_db m :: ('r, 'l, 'x) app)"
proof (rule keepsI)
  fix a :: "('r, 'l) App" assume "profiles_kept rows keyring a"
  then show "profiles_kept rows keyring (snd (in_db m a))"
    using assms[of "w_db (a_world a)"] by (auto simp: profiles_kept_def in_world_def zoom_run with_db_def split: prod.split)
qed

lemma kept_rows:
  "keeps (profiles_kept rows keyring) (in_db (save_favorite_row f))"
  "keeps (profiles_kept rows keyring) (in_db (save_action_row x))"
  by (rule kept_in_db, auto simp: save_favorite_row_def save_action_row_def with_connection_def run_simps execute_def
      upsert_favorite_def split: list.split option.split sum.split)+

section \<open>The file\<close>

definition make_parent :: "string \<Rightarrow> ('r, 'l, unit) app" where
  "make_parent path = (case path_parent path of
      Some parent \<Rightarrow> if parent = '''' then ok () else on_local file_error (\<lambda>fs. l_create_dir_all fs parent)
    | None \<Rightarrow> ok ())"

lemma make_parent_Inr:
  assumes "make_parent path a = (Inr v, a')"
  shows "\<exists>d. a' = a\<lparr>a_world := (a_world a)\<lparr>w_disk := d\<rparr>\<rparr>"
proof -
  have "\<exists>d. a = a\<lparr>a_world := (a_world a)\<lparr>w_disk := d\<rparr>\<rparr>" by (rule exI[of _ "w_disk (a_world a)"]) simp
  with assms show ?thesis by (auto simp: make_parent_def ok_run split: option.splits if_splits dest!: on_local_Inr)
qed

lemma write_export_Inr:
  assumes "write_export path bytes private a = (Inr u, a')" "whole_files (w_fs (a_world a)) view"
  shows "view (w_disk (a_world a')) path = Some bytes"
proof -
  from assms(1) obtain v a2 where first: "make_parent path a = (Inr v, a2)"
    and whole: "on_local file_error (\<lambda>fs.
          and_then (l_create fs path) (\<lambda>_.
          and_then (l_write_at fs path 0 bytes) (\<lambda>_.
          and_then (l_sync fs path) (\<lambda>_.
          if private then l_set_permissions fs path 0x180 else ok ())))) a2 = (Inr u, a')"
    unfolding write_export_def make_parent_def[symmetric]
    by (auto simp: err_run split: if_splits elim!: and_then_InrD)
  let ?fs = "w_fs (a_world a)"
  from make_parent_Inr[OF first] on_local_Inr[OF whole] obtain d0 d where
    "and_then (l_create ?fs path) (\<lambda>_. and_then (l_write_at ?fs path 0 bytes) (\<lambda>_. and_then (l_sync ?fs path) (\<lambda>_.
          if private then l_set_permissions ?fs path 0x180 else ok ()))) d0 = (Inr u, d)"
    and a': "w_disk (a_world a') = d" by (auto cong: if_cong)
  then obtain d1 d2 d3 u1 u2 u3 where steps: "l_create ?fs path d0 = (Inr u1, d1)" "l_write_at ?fs path 0 bytes d1 = (Inr u2, d2)"
    "l_sync ?fs path d2 = (Inr u3, d3)" "(if private then l_set_permissions ?fs path 0x180 else ok ()) d3 = (Inr u, d)"
    by (elim and_then_InrD)
  have "view d2 path = Some bytes" by (rule whole_files.created_then_written[OF assms(2) steps(1,2)])
  moreover have "view d = view d2"
    using local_filesystem.reads_same(5,6)[OF whole_files.axioms(1)[OF assms(2)]] steps(3,4)
    by (auto simp: ok_run split: if_splits) (metis snd_conv)+
  ultimately show ?thesis by (simp add: a')
qed

lemma in_db_only:
  assumes "in_db m a = (Inr x, a')"
  shows "\<exists>db. a' = a\<lparr>a_world := (a_world a)\<lparr>w_db := db\<rparr>\<rparr>"
  using assms by (rule in_db_Inr) blast

lemma list_profiles_Inr:
  assumes "in_db list_profiles a = (Inr ps, a')"
  shows "mset ps = mset (map pr_json (connection_profiles (w_db (a_world a))))"
  using assms by (auto simp: list_profiles_def gets_run elim!: in_db_Inr dest!: with_connection_Inr)

lemma export_Inr:
  assumes "export_configuration co su (Inr salt) (Inr nonce) path True (Some passphrase) a = (Inr result, a')"
    and "whole_files (w_fs (a_world a)) view"
  obtains profiles entries sealed document bytes where
    "mset profiles = mset (map pr_json (connection_profiles (w_db (a_world a))))"
    "list_all2 (bundled (a_keyring a)) profiles entries"
    "encrypt_secrets co su (Inr salt) (Inr nonce)
       (filter (\<lambda>e. sec_password e \<noteq> None \<or> sec_private_key_passphrase e \<noteq> None) entries) passphrase = Inr sealed"
    "doc_profiles document = profiles" "doc_encrypted_secrets document = Some sealed"
    "document_json co document = Inr bytes" "view (w_disk (a_world a')) path = Some bytes" "result = summary document"
proof -
  from assms(1) obtain profiles a1 bookmarks a2 saved a3 entries a4 sealed now document bytes u where
    one: "in_db list_profiles a = (Inr profiles, a1)" and two: "in_db list_favorites a1 = (Inr bookmarks, a2)"
    and three: "in_db list_saved_actions a2 = (Inr saved, a3)"
    and four: "collect_each collect_entry profiles a3 = (Inr entries, a4)"
    and sealed: "encrypt_secrets co su (Inr salt) (Inr nonce)
       (filter (\<lambda>e. sec_password e \<noteq> None \<or> sec_private_key_passphrase e \<noteq> None) entries) passphrase = Inr sealed"
    and doc: "document = \<lparr>doc_format = DOCUMENT_FORMAT, doc_version = DOCUMENT_VERSION, doc_exported_at = now,
      doc_profiles = profiles, doc_bookmarks = bookmarks, doc_saved_actions = saved, doc_encrypted_secrets = Some sealed\<rparr>"
    and json: "document_json co document = Inr bytes" and five: "write_export path bytes True a4 = (Inr u, a')"
    and fin: "result = summary document"
    unfolding export_configuration_def collect_secrets_def read_clock_def Let_def
    by (auto simp: ok_run gets_run lift_result_run require_passphrase_def split: if_splits elim!: and_then_InrD)
  from in_db_only[OF one] in_db_only[OF two] in_db_only[OF three] have same:
    "a_keyring a3 = a_keyring a" "w_fs (a_world a3) = w_fs (a_world a)" by auto
  note collected = collect_entries_Inr[OF four]
  have "view (w_disk (a_world a')) path = Some bytes"
    using write_export_Inr[OF five, of view] assms(2) collected same by simp
  with that[of profiles entries sealed document bytes] list_profiles_Inr[OF one] collected same sealed doc json fin
  show thesis by simp
qed

section \<open>Checking before storing\<close>

text \<open>The data that an import may not touch before every check of it passed; an answer that SQLite owed is no
  data.\<close>

definition data_of :: "('r, 'l) App \<Rightarrow> Db \<times> (string \<rightharpoonup> string)" where
  "data_of a = ((w_db (a_world a))\<lparr>db_faults := []\<rparr>, a_keyring a)"

abbreviation holding :: "Db \<times> (string \<rightharpoonup> string) \<Rightarrow> ('r, 'l) App \<Rightarrow> bool" where
  "holding D a \<equiv> data_of a = D"

lemma data_disk [simp]: "data_of (a\<lparr>a_world := (a_world a)\<lparr>w_disk := d\<rparr>\<rparr>) = data_of a"
  by (simp add: data_of_def)

lemma holding_local: "keeps (holding D) (on_local f m)"
  by (auto simp: keeps_def on_local_run split: prod.split sum.split)

lemma holding_get_profile: "keeps (holding D) (in_db (get_profile uid))"
  by (auto simp: keeps_def data_of_def in_world_def zoom_run with_db_def get_profile_def with_connection_def map_err_run
      split: prod.splits sum.splits list.splits option.splits)

lemma holding_read: "keeps (holding D) (read_document co path)"
  unfolding read_document_def by (intro keeps_intros holding_local)

lemma holding_check: "keeps (holding D) (validate_related_records ids bookmarks saved)"
  unfolding validate_related_records_def check_bookmark_def
  by (intro keeps_intros holding_get_profile | (split option.split sum.split, intro conjI allI impI))+

lemma keeps_collect_each: "(\<And>x. keeps P (f x)) \<Longrightarrow> keeps P (collect_each f xs)"
  by (induction xs) (auto intro: keeps_intros)

lemma holding_normalize:
  "keeps (holding D) (collect_each (normalize_now lower) ps)"
  unfolding normalize_now_def read_clock_def by (intro keeps_collect_each keeps_intros)

text \<open>An effect that leaves the state as it must be when it fails with other than the given codes.\<close>

definition careful :: "ErrorCode set \<Rightarrow> ('w \<Rightarrow> bool) \<Rightarrow> ('w, 'a) act \<Rightarrow> bool" where
  "careful C P m \<longleftrightarrow> (\<forall>w e w'. P w \<longrightarrow> m w = (Inl e, w') \<longrightarrow> code e \<notin> C \<longrightarrow> P w')"

lemma careful_first: "keeps P m \<Longrightarrow> (\<And>x. careful C P (k x)) \<Longrightarrow> careful C P (and_then m k)"
  unfolding careful_def keeps_def by (auto elim!: and_then_cases)

definition fails_only :: "ErrorCode set \<Rightarrow> ('w, 'a) act \<Rightarrow> bool" where
  "fails_only C m \<longleftrightarrow> (\<forall>w e w'. m w = (Inl e, w') \<longrightarrow> code e \<in> C)"

lemma careful_last: "fails_only C m \<Longrightarrow> careful C P m"
  by (auto simp: careful_def fails_only_def)

lemma fails_only_steps:
  "fails_only C (ok x)" "fails_only C m \<Longrightarrow> (\<And>x. fails_only C (k x)) \<Longrightarrow> fails_only C (and_then m k)"
  "fails_only C (attempt n)"
  by (auto simp: fails_only_def ok_run attempt_run elim!: and_then_cases split: prod.splits) metis

lemma fails_only_each: "(\<And>x. fails_only C (f x)) \<Longrightarrow> fails_only C (for_each f xs)"
  by (induction xs) (auto intro: fails_only_steps)

lemma fails_only_fold: "(\<And>x a. fails_only C (f x a)) \<Longrightarrow> fails_only C (fold_each f xs a)"
  by (induction xs arbitrary: a) (auto intro: fails_only_steps)

lemma fails_only_connection: "StorageError \<in> C \<Longrightarrow> fails_only C (in_db (with_connection m))"
  by (auto simp: fails_only_def in_world_def zoom_run with_db_def with_connection_def map_err_run storage_error_def
      split: prod.splits sum.splits list.splits option.splits)

lemma fails_only_secret: "SecretStoreUnavailable \<in> C \<Longrightarrow> fails_only C (set_secret uid kind s)"
  by (auto simp: fails_only_def set_secret_def with_keyring_def map_err_run modify_run secret_error_def
      split: prod.splits sum.splits list.splits option.splits)

abbreviation storing :: "ErrorCode set" where
  "storing \<equiv> {StorageError, SecretStoreUnavailable}"

lemma storing_fails:
  "fails_only storing (in_db (save_profile_row p))" "fails_only storing (in_db (save_favorite_row f))"
  "fails_only storing (in_db (save_action_row x))" "fails_only storing (import_entry ids e n)"
proof -
  show "fails_only storing (in_db (save_profile_row p))" "fails_only storing (in_db (save_favorite_row f))"
    "fails_only storing (in_db (save_action_row x))"
    unfolding save_profile_row_def save_favorite_row_def save_action_row_def by (simp_all add: fails_only_connection)
  have "fails_only storing (import_secret uid kind s k)" for uid kind s k
    unfolding import_secret_def by (cases s) (auto intro!: fails_only_steps fails_only_secret)
  then show "fails_only storing (import_entry ids e n)"
    unfolding import_entry_def by (auto intro!: fails_only_steps)
qed

lemma import_careful:
  "careful storing (holding D) (import_configuration lower co su path passphrase)"
proof -
  have "keeps (holding D) (unseal_bundle co su secrets passphrase)" for secrets
    unfolding unseal_bundle_def by (cases secrets) (auto intro: keeps_intros)
  then show ?thesis unfolding import_configuration_def Let_def
    by (intro careful_first holding_read holding_normalize holding_check careful_last)
      (auto intro!: fails_only_steps fails_only_each fails_only_fold storing_fails)
qed

section \<open>What an import leaves\<close>

lemma read_document_Inr:
  assumes "read_document co path b = (Inr document, b')" "whole_files (w_fs (a_world b)) view"
    and "view (w_disk (a_world b)) path = Some bytes"
  shows "document_parse co bytes = Inr document \<and> (\<exists>d. b' = b\<lparr>a_world := (a_world b)\<lparr>w_disk := d\<rparr>\<rparr>)"
proof -
  from assms(1) obtain meta b1 got b2 where one: "on_local file_error (\<lambda>fs. l_metadata fs path) b = (Inr meta, b1)"
    and two: "on_local file_error (\<lambda>fs. l_read fs path) b1 = (Inr got, b2)"
    and parse: "document_parse co got = Inr document" "b' = b2"
    by (auto simp: read_document_def ok_run err_run lift_result_run split: if_splits elim!: and_then_InrD)
  from on_local_Inr[OF one] obtain d1 where d1: "l_metadata (w_fs (a_world b)) path (w_disk (a_world b)) = (Inr meta, d1)"
    "b1 = b\<lparr>a_world := (a_world b)\<lparr>w_disk := d1\<rparr>\<rparr>" by blast
  have "view d1 path = Some bytes"
    using local_filesystem.reads_same(1)[OF whole_files.axioms(1)[OF assms(2)], of path "w_disk (a_world b)"] d1(1) assms(3) by simp
  moreover from on_local_Inr[OF two] obtain d2 where "l_read (w_fs (a_world b)) path d1 = (Inr got, d2)"
    "b2 = b\<lparr>a_world := (a_world b)\<lparr>w_disk := d2\<rparr>\<rparr>" by (auto simp: d1(2))
  ultimately show ?thesis using whole_files.read_whole[OF assms(2)] parse by blast
qed

lemma normalize_now_run: "normalize_now lower p b = (normalize_profile lower (w_now (a_world b)) p, b)"
  by (simp add: normalize_now_def read_clock_def run_simps)

lemma normalize_each_Inr:
  assumes "collect_each (normalize_now lower) ps b = (Inr qs, b')"
  shows "b' = b \<and> list_all2 (\<lambda>p q. normalize_profile lower (w_now (a_world b)) p = Inr q) ps qs"
  using assms
proof (induction ps arbitrary: b qs)
  case (Cons p ps)
  from Cons.prems obtain q b1 rest where "normalize_profile lower (w_now (a_world b)) p = Inr q" "b1 = b"
    "collect_each (normalize_now lower) ps b1 = (Inr rest, b')" "qs = q # rest"
    by (auto simp: ok_run normalize_now_run[of lower p b] elim!: and_then_InrD)
  with Cons.IH[of b1 rest] show ?case by simp
qed (simp add: ok_run)

lemma normalize_keeps_id: "normalize_profile lower now p = Inr q \<Longrightarrow> prof_id q = prof_id p"
  by (erule normalize_Inr) (simp add: trim_fields_def)

lemma keeps_fold_each: "(\<And>x a. keeps P (f x a)) \<Longrightarrow> keeps P (fold_each f xs a)"
  by (induction xs arbitrary: a) (auto intro: keeps_intros)

abbreviation stored_rows :: "profile_row list \<Rightarrow> ('r, 'l) App \<Rightarrow> bool" where
  "stored_rows rows a \<equiv> connection_profiles (w_db (a_world a)) = rows"

lemma import_rows: "keeps (stored_rows rows) (fold_each (import_entry ids) entries n)"
proof -
  have "keeps (stored_rows rows) (set_secret uid kind s)" for uid kind s
    by (auto simp: keeps_def set_secret_def with_keyring_def run_simps split: list.split option.split)
  then have secret: "keeps (stored_rows rows) (import_secret uid kind s k)" for uid kind s k
    unfolding import_secret_def by (cases s) (auto intro: keeps_intros)
  have read: "keeps (stored_rows rows) (in_db (get_profile uid))" for uid
    by (auto simp: keeps_def in_world_def zoom_run with_db_def get_profile_def with_connection_def map_err_run
      split: prod.splits sum.splits list.splits option.splits)
  show ?thesis unfolding import_entry_def
    by (intro keeps_fold_each keeps_intros secret read)
qed

lemma import_Inr:
  assumes "import_configuration lower co su path (Some passphrase) b = (Inr result, b')"
    and disk: "whole_files (w_fs (a_world b)) view" "view (w_disk (a_world b)) path = Some bytes"
    and document: "document_parse co bytes = Inr document" "doc_encrypted_secrets document = Some sealed"
  obtains entries profiles where "decrypt_secrets co su sealed passphrase = Inr entries"
    "list_all2 (\<lambda>p q. normalize_profile lower (w_now (a_world b)) p = Inr q) (doc_profiles document) profiles"
    "db_ok (w_db (a_world b)) \<Longrightarrow> distinct (map prof_id profiles) \<Longrightarrow>
       \<forall>q \<in> set profiles. profile_in (prof_id q) (w_db (a_world b')) = Some q"
    "db_ok (w_db (a_world b)) \<Longrightarrow> distinct (map prof_id profiles) \<Longrightarrow>
       \<forall>uid. uid \<notin> prof_id ` set profiles \<longrightarrow> profile_in uid (w_db (a_world b')) = profile_in uid (w_db (a_world b))"
    "sec_profile_id ` set entries \<subseteq> prof_id ` set profiles \<Longrightarrow> distinct (map sec_profile_id entries) \<Longrightarrow>
       distinct (map prof_id profiles) \<Longrightarrow> db_ok (w_db (a_world b)) \<Longrightarrow>
       (\<forall>e \<in> set entries. \<forall>kind s. secret_of e kind = Some s \<longrightarrow> a_keyring b' (secret_entry (sec_profile_id e) kind) = Some s)
       \<and> (\<forall>key. key \<notin> filled entries \<longrightarrow> a_keyring b' key = a_keyring b key)"
    "imp_profiles result = length (doc_profiles document)"
proof -
  from assms(1) obtain document' b1 profiles b2 b3 entries b4 b5 b6 b7 m u1 u2 u3 u4 where
    read: "read_document co path b = (Inr document', b1)"
    and norm: "collect_each (normalize_now lower) (doc_profiles document') b1 = (Inr profiles, b2)"
    and check: "validate_related_records (map prof_id profiles) (doc_bookmarks document') (doc_saved_actions document') b2 = (Inr u1, b3)"
    and secrets: "unseal_bundle co su (doc_encrypted_secrets document') (Some passphrase) b3 = (Inr entries, b4)"
    and save: "for_each (\<lambda>p. in_db (save_profile_row p)) profiles b4 = (Inr u2, b5)"
    and marks: "for_each (\<lambda>f. in_db (save_favorite_row f)) (doc_bookmarks document') b5 = (Inr u3, b6)"
    and saved: "for_each (\<lambda>x. in_db (save_action_row x)) (doc_saved_actions document') b6 = (Inr u4, b7)"
    and fill: "fold_each (import_entry (map prof_id profiles)) entries 0 b7 = (Inr m, b')"
    and result: "imp_profiles result = length profiles"
    unfolding import_configuration_def Let_def
    by (elim and_then_InrD) (rule that, assumption+, auto simp: ok_run)
  have opened: "decrypt_secrets co su sealed passphrase = Inr entries" "b4 = b3" if "document' = document"
    using secrets document(2) that
    by (auto simp: unseal_bundle_def lift_result_run require_passphrase_def split: if_splits elim!: and_then_InrD)
  from read_document_Inr[OF read disk] document(1) have document': "document' = document"
    and now: "w_now (a_world b1) = w_now (a_world b)" by auto
  note normal = normalize_each_Inr[OF norm]
  have "data_of b3 = data_of b"
    using keeps_run[OF holding_read[of "data_of b"] read] keeps_run[OF holding_check[of "data_of b"] check] normal by simp
  then have db3: "(w_db (a_world b3))\<lparr>db_faults := []\<rparr> = (w_db (a_world b))\<lparr>db_faults := []\<rparr>" and ring: "a_keyring b3 = a_keyring b"
    by (simp_all add: data_of_def)
  have wf: "db_ok (w_db (a_world b3)) = db_ok (w_db (a_world b))"
    using arg_cong[OF db3, of db_ok] by simp
  have "connection_profiles (w_db (a_world b3)) = connection_profiles (w_db (a_world b))"
    using arg_cong[OF db3, of connection_profiles] by simp
  then have same: "profile_in uid (w_db (a_world b3)) = profile_in uid (w_db (a_world b))" for uid
    by (simp add: profile_in_def)
  have "profiles_kept (connection_profiles (w_db (a_world b5))) (a_keyring b5) b7"
    using keeps_run[OF keeps_for_each[OF kept_rows(2)] saved] keeps_run[OF keeps_for_each[OF kept_rows(1)] marks]
    by (simp add: profiles_kept_def)
  then have b7: "profile_in uid (w_db (a_world b7)) = profile_in uid (w_db (a_world b5))" "a_keyring b7 = a_keyring b5" for uid
    by (simp_all add: profiles_kept_def profile_in_def)
  have rows: "profile_in uid (w_db (a_world b')) = profile_in uid (w_db (a_world b7))" for uid
    using keeps_run[OF import_rows[of "connection_profiles (w_db (a_world b7))"] fill] by (simp add: profile_in_def)
  show thesis
  proof (rule that)
    show "decrypt_secrets co su sealed passphrase = Inr entries" using opened document' by simp
    show "list_all2 (\<lambda>p q. normalize_profile lower (w_now (a_world b)) p = Inr q) (doc_profiles document) profiles"
      using normal now by (simp add: document')
    show "imp_profiles result = length (doc_profiles document)"
      using result normal by (auto simp: document' dest: list_all2_lengthD)
  next
    assume ok: "db_ok (w_db (a_world b))" and ids: "distinct (map prof_id profiles)"
    then have "db_ok (w_db (a_world b4))" using wf opened(2)[OF document'] by simp
    note stored = save_all[OF save this ids]
    then show "\<forall>q \<in> set profiles. profile_in (prof_id q) (w_db (a_world b')) = Some q"
      "\<forall>uid. uid \<notin> prof_id ` set profiles \<longrightarrow> profile_in uid (w_db (a_world b')) = profile_in uid (w_db (a_world b))"
      using rows b7 same opened(2)[OF document'] by simp_all
  next
    assume sub: "sec_profile_id ` set entries \<subseteq> prof_id ` set profiles" and once: "distinct (map sec_profile_id entries)"
      and ids: "distinct (map prof_id profiles)" and ok: "db_ok (w_db (a_world b))"
    then have "db_ok (w_db (a_world b4))" using wf opened(2)[OF document'] by simp
    from save_all[OF save this ids] have "a_keyring b7 = a_keyring b" using b7 ring opened(2)[OF document'] by simp
    moreover have "sec_profile_id ` set entries \<subseteq> set (map prof_id profiles)" using sub by simp
    note import_entries_Inr[OF fill this once]
    ultimately show "(\<forall>e \<in> set entries. \<forall>kind s. secret_of e kind = Some s \<longrightarrow> a_keyring b' (secret_entry (sec_profile_id e) kind) = Some s)
       \<and> (\<forall>key. key \<notin> filled entries \<longrightarrow> a_keyring b' key = a_keyring b key)" by simp
  qed
qed

section \<open>A plain export\<close>

text \<open>An effect that neither reads nor changes the credential store.\<close>

definition blind :: "('r, 'l, 'x) app \<Rightarrow> bool" where
  "blind m \<longleftrightarrow> (\<forall>a keyring. m (a\<lparr>a_keyring := keyring\<rparr>) = map_prod id (\<lambda>a. a\<lparr>a_keyring := keyring\<rparr>) (m a))"

lemma blind_steps:
  "blind (ok x)" "blind (err e)" "blind (lift_result r)" "blind read_clock" "blind (in_world n)" "blind (on_local f op)"
  "blind m \<Longrightarrow> (\<And>x. blind (k x)) \<Longrightarrow> blind (and_then m k)"
  by (auto simp: blind_def run_simps read_clock_def in_world_def split: prod.splits sum.splits)

lemma blind_write: "blind (write_export path bytes private)"
  unfolding write_export_def make_parent_def[symmetric]
  by (auto simp: make_parent_def intro!: blind_steps split: option.split)

lemma blind_export: "blind (export_configuration co su salt nonce path False passphrase)"
  unfolding export_configuration_def Let_def by (auto intro!: blind_steps blind_write)

section \<open>Properties\<close>

lemma list_all2_partner: "list_all2 R xs ys \<Longrightarrow> x \<in> set xs \<Longrightarrow> \<exists>y \<in> set ys. R x y"
  by (induction rule: list_all2_induct) auto

lemma stored_profile:
  assumes "rows_named db" "db_ok db"
  shows "profile_in uid db = Some p \<longleftrightarrow> p \<in> pr_json ` set (connection_profiles db) \<and> prof_id p = uid"
    and "distinct (map prof_id (map pr_json (connection_profiles db)))"
proof -
  let ?rows = "connection_profiles db"
  have ids: "map prof_id (map pr_json ?rows) = map pr_id ?rows" using assms(1) by (simp add: rows_named_def)
  have once: "distinct (map pr_id ?rows)" using assms(2) by (simp add: db_ok_def)
  with ids show "distinct (map prof_id (map pr_json ?rows))" by metis
  show "profile_in uid db = Some p \<longleftrightarrow> p \<in> pr_json ` set ?rows \<and> prof_id p = uid"
  proof
    assume "profile_in uid db = Some p"
    then show "p \<in> pr_json ` set ?rows \<and> prof_id p = uid"
      using assms(1) by (auto simp: profile_in_def rows_named_def dest: find_row_Some)
  next
    assume "p \<in> pr_json ` set ?rows \<and> prof_id p = uid"
    then obtain row where row: "row \<in> set ?rows" "pr_json row = p" "pr_id row = uid"
      using assms(1) by (auto simp: rows_named_def)
    then obtain r where r: "find_row (\<lambda>row. pr_id row = uid) ?rows = Some r"
      by (cases "find_row (\<lambda>row. pr_id row = uid) ?rows") (auto simp: find_row_None)
    then have "r = row" using find_row_Some[OF r] row once by (metis (mono_tags, lifting) eq_key_imp_eq_value in_set_zipE zip_map1 distinct_map inj_onD)
    with r row show "profile_in uid db = Some p" by (simp add: profile_in_def)
  qed
qed

abbreviation sealed_entries :: "SecretEntry list \<Rightarrow> SecretEntry list" where
  "sealed_entries \<equiv> filter (\<lambda>e. sec_password e \<noteq> None \<or> sec_private_key_passphrase e \<noteq> None)"

lemma bundled_ids: "list_all2 (bundled keyring) profiles entries \<Longrightarrow> map sec_profile_id entries = map prof_id profiles"
  by (induction rule: list_all2_induct) (auto simp: bundled_def)

lemma normalized_ids:
  "list_all2 (\<lambda>p q. normalize_profile lower now p = Inr q) ps qs \<Longrightarrow> map prof_id qs = map prof_id ps"
  by (induction rule: list_all2_induct) (auto simp: normalize_keeps_id)

text \<open>A credential that a profile keeps_credential is in the bundle.\<close>

lemma remembered_bundled:
  assumes "list_all2 (bundled keyring) profiles entries" "p \<in> set profiles"
    and "keeps_credential p kind" "keyring (secret_entry (prof_id p) kind) = Some s"
  obtains e where "e \<in> set (sealed_entries entries)" "sec_profile_id e = prof_id p" "secret_of e kind = Some s"
proof -
  obtain e where e: "e \<in> set entries" "bundled keyring p e" using list_all2_partner[OF assms(1,2)] by blast
  then have s: "secret_of e kind = Some s" "sec_profile_id e = prof_id p" using assms(3,4) by (auto simp: bundled_def)
  with e(1) have "e \<in> set (sealed_entries entries)" by (cases kind) (auto simp: secret_of_def)
  with that s show thesis by blast
qed

text \<open>C13: a configuration that was exported with its credentials and imported on another computer with the same
  passphrase brings every profile there, in normal form and under its identifier, with the credentials that the
  profile is set to remember; profiles and credentials of other identifiers stay as they are.\<close>

theorem configuration_roundtrip:
  assumes crates: "codec_ok co" "suite_ok su" "length salt = 16" "length nonce = 12"
    and disks: "whole_files (w_fs (a_world a)) va" "whole_files (w_fs (a_world b)) vb"
    and rows: "db_ok (w_db (a_world a))" "rows_named (w_db (a_world a))" "db_ok (w_db (a_world b))"
    and exporting: "export_configuration co su (Inr salt) (Inr nonce) path True (Some passphrase) a = (Inr exported, a')"
    and same: "vb (w_disk (a_world b)) path' = va (w_disk (a_world a')) path"
    and importing: "import_configuration lower co su path' (Some passphrase) b = (Inr result, b')"
  shows "(\<forall>uid p. profile_in uid (w_db (a_world a)) = Some p \<longrightarrow>
      (\<exists>q. normalize_profile lower (w_now (a_world b)) p = Inr q \<and> profile_in uid (w_db (a_world b')) = Some q) \<and>
      (\<forall>kind s. keeps_credential p kind \<longrightarrow> a_keyring a (secret_entry uid kind) = Some s \<longrightarrow>
        a_keyring b' (secret_entry uid kind) = Some s))
    \<and> (\<forall>uid. profile_in uid (w_db (a_world a)) = None \<longrightarrow> profile_in uid (w_db (a_world b')) = profile_in uid (w_db (a_world b)) \<and>
      (\<forall>kind. a_keyring b' (secret_entry uid kind) = a_keyring b (secret_entry uid kind)))
    \<and> imp_profiles result = sum_profiles exported"
proof -
  let ?A = "w_db (a_world a)"
  obtain profiles entries sealed document bytes where
    ps: "mset profiles = mset (map pr_json (connection_profiles ?A))" and
    es: "list_all2 (bundled (a_keyring a)) profiles entries" and
    sealed: "encrypt_secrets co su (Inr salt) (Inr nonce) (sealed_entries entries) passphrase = Inr sealed" and
    doc: "doc_profiles document = profiles" "doc_encrypted_secrets document = Some sealed" and
    json: "document_json co document = Inr bytes" and
    written: "va (w_disk (a_world a')) path = Some bytes" and sum: "exported = summary document"
    by (rule export_Inr[OF exporting disks(1)])
  note stored = stored_profile[OF rows(2,1)]
  have set_ps: "set profiles = pr_json ` set (connection_profiles ?A)" using arg_cong[OF ps, of set_mset] by simp
  have dist: "distinct (map prof_id profiles)"
    using stored(2) ps by (metis mset_eq_imp_distinct_iff mset_map)
  have parse: "document_parse co bytes = Inr document" using crates(1) json by (simp add: codec_ok_def)
  have there: "vb (w_disk (a_world b)) path' = Some bytes" using same written by simp
  from sealed obtain key where "derive su passphrase salt = Inr key"
    by (auto simp: encrypt_secrets_def and_also_Inr derive_key_def)
  then have opened: "decrypt_secrets co su sealed passphrase = Inr (sealed_entries entries)"
    using secrets_sealed[OF crates sealed] by simp
  obtain qs bundle_in where in1: "decrypt_secrets co su sealed passphrase = Inr bundle_in" and
    qs: "list_all2 (\<lambda>p q. normalize_profile lower (w_now (a_world b)) p = Inr q) (doc_profiles document) qs" and
    in2: "db_ok (w_db (a_world b)) \<Longrightarrow> distinct (map prof_id qs) \<Longrightarrow>
       \<forall>q \<in> set qs. profile_in (prof_id q) (w_db (a_world b')) = Some q" and
    in3: "db_ok (w_db (a_world b)) \<Longrightarrow> distinct (map prof_id qs) \<Longrightarrow>
       \<forall>uid. uid \<notin> prof_id ` set qs \<longrightarrow> profile_in uid (w_db (a_world b')) = profile_in uid (w_db (a_world b))" and
    in4: "sec_profile_id ` set bundle_in \<subseteq> prof_id ` set qs \<Longrightarrow> distinct (map sec_profile_id bundle_in) \<Longrightarrow>
       distinct (map prof_id qs) \<Longrightarrow> db_ok (w_db (a_world b)) \<Longrightarrow>
       (\<forall>e \<in> set bundle_in. \<forall>kind s. secret_of e kind = Some s \<longrightarrow> a_keyring b' (secret_entry (sec_profile_id e) kind) = Some s)
       \<and> (\<forall>key. key \<notin> filled bundle_in \<longrightarrow> a_keyring b' key = a_keyring b key)" and
    count: "imp_profiles result = length (doc_profiles document)"
    by (rule import_Inr[OF importing disks(2) there parse doc(2)]) (rule that; (assumption | simp))
  have bundle_in: "bundle_in = sealed_entries entries" using in1 opened by simp
  note ids_q = normalized_ids[OF qs, unfolded doc(1)] and ids_e = bundled_ids[OF es]
  have img: "prof_id ` set qs = prof_id ` set profiles" "sec_profile_id ` set entries = prof_id ` set profiles"
    using arg_cong[OF ids_q, of set] arg_cong[OF ids_e, of set] by simp_all
  have dq: "distinct (map prof_id qs)" using dist ids_q by simp
  have db: "distinct (map sec_profile_id bundle_in)"
    using dist ids_e by (simp add: bundle_in distinct_map_filter)
  have sub: "sec_profile_id ` set bundle_in \<subseteq> prof_id ` set qs" using img by (auto simp: bundle_in)
  note keyring = in4[OF sub db dq rows(3)] and saved = in2[OF rows(3) dq] and others = in3[OF rows(3) dq]
  have "(\<exists>q. normalize_profile lower (w_now (a_world b)) p = Inr q \<and> profile_in uid (w_db (a_world b')) = Some q) \<and>
      (\<forall>kind s. keeps_credential p kind \<longrightarrow> a_keyring a (secret_entry uid kind) = Some s \<longrightarrow>
        a_keyring b' (secret_entry uid kind) = Some s)" if "profile_in uid ?A = Some p" for uid p
  proof
    have p: "p \<in> set profiles" "prof_id p = uid" using stored(1) that set_ps by auto
    then obtain q where q: "q \<in> set qs" "normalize_profile lower (w_now (a_world b)) p = Inr q"
      using list_all2_partner[OF qs[unfolded doc(1)]] by blast
    then show "\<exists>q. normalize_profile lower (w_now (a_world b)) p = Inr q \<and> profile_in uid (w_db (a_world b')) = Some q"
      using saved normalize_keeps_id[OF q(2)] p(2) by auto
    show "\<forall>kind s. keeps_credential p kind \<longrightarrow> a_keyring a (secret_entry uid kind) = Some s \<longrightarrow>
        a_keyring b' (secret_entry uid kind) = Some s"
    proof (intro allI impI)
      fix kind s assume "keeps_credential p kind" "a_keyring a (secret_entry uid kind) = Some s"
      then obtain e where "e \<in> set bundle_in" "sec_profile_id e = uid" "secret_of e kind = Some s"
        using remembered_bundled[OF es p(1), of kind s] unfolding p(2) bundle_in by blast
      then show "a_keyring b' (secret_entry uid kind) = Some s" using keyring by blast
    qed
  qed
  moreover have "profile_in uid (w_db (a_world b')) = profile_in uid (w_db (a_world b)) \<and>
      (\<forall>kind. a_keyring b' (secret_entry uid kind) = a_keyring b (secret_entry uid kind))" if "profile_in uid ?A = None" for uid
  proof -
    have no: "uid \<notin> prof_id ` set profiles" using stored(1)[of uid] that set_ps by auto
    then have "secret_entry uid kind \<notin> filled bundle_in" for kind
      using sub img by (auto simp: filled_def)
    then show ?thesis using others keyring no img by simp
  qed
  ultimately show ?thesis using count by (simp add: sum summary_def doc)
qed

text \<open>Two computers for the concrete runs.\<close>

definition demo_profile :: ConnectionProfile where
  "demo_profile = clean_profile\<lparr>prof_auth := Password True\<rparr>"

definition demo_suite :: suite where
  "demo_suite = \<lparr>derive = (\<lambda>passphrase salt. Inr (take 32 (passphrase @ replicate 32 CHR ''0''))),
     seal = (\<lambda>key nonce aad plain. Inr (key @ plain)),
     unseal = (\<lambda>key nonce aad c. if take (length key) c = key then Some (drop (length key) c) else None),
     b64 = (\<lambda>bs. bs), unb64 = Inr\<rparr>"

definition demo_bundle :: SecretBundle where
  "demo_bundle = [\<lparr>sec_profile_id = ''p'', sec_password = Some ''hunter2'', sec_private_key_passphrase = None\<rparr>]"

definition demo_passphrase :: string where "demo_passphrase = ''open sesame please open your door''"
definition demo_salt :: bytes where "demo_salt = replicate 16 CHR ''s''"
definition demo_nonce :: bytes where "demo_nonce = replicate 12 CHR ''n''"

definition demo_document :: PortableConfiguration where
  "demo_document = \<lparr>doc_format = DOCUMENT_FORMAT, doc_version = DOCUMENT_VERSION, doc_exported_at = 7,
     doc_profiles = [demo_profile], doc_bookmarks = [], doc_saved_actions = [],
     doc_encrypted_secrets = Some \<lparr>enc_scheme = ENCRYPTION_SCHEME, enc_salt_base64 = demo_salt,
       enc_nonce_base64 = demo_nonce, enc_ciphertext_base64 = take 32 demo_passphrase @ ''secrets''\<rparr>\<rparr>"

definition demo_codec :: codec where
  "demo_codec = \<lparr>bundle_json = (\<lambda>b. if b = demo_bundle then Inr ''secrets'' else Inl ''''),
     bundle_parse = (\<lambda>bs. if bs = ''secrets'' then Inr demo_bundle else Inl ''''),
     document_json = (\<lambda>d. if d = demo_document then Inr ''doc'' else Inl ''''),
     document_parse = (\<lambda>bs. if bs = ''doc'' then Inr demo_document else Inl '''')\<rparr>"

definition demo_source :: "(store, store) App" where
  "demo_source = (demo_app Map.empty)\<lparr>
     a_world := (a_world (demo_app Map.empty))\<lparr>w_db := new_db\<lparr>connection_profiles := [profile_to_row demo_profile]\<rparr>\<rparr>,
     a_keyring := [secret_entry ''p'' PasswordKind \<mapsto> ''hunter2'']\<rparr>"

definition demo_target :: "(store, store) App" where
  "demo_target = (demo_app [''/c'' \<mapsto> ''doc''])\<lparr>a_world := (a_world (demo_app [''/c'' \<mapsto> ''doc'']))\<lparr>w_db := new_db\<rparr>\<rparr>"

lemma demo_crates: "codec_ok demo_codec" "suite_ok demo_suite" "length demo_salt = 16" "length demo_nonce = 12"
  by (simp_all add: codec_ok_def suite_ok_def demo_codec_def demo_suite_def demo_salt_def demo_nonce_def split: if_split)
    (simp add: min_def)

lemma demo_profile_simps: "prof_id demo_profile = ''p''" "prof_auth demo_profile = Password True"
  by (simp_all add: demo_profile_def clean_profile_def typed_profile_def new_profile_def)

lemma demo_keyring: "get_secret ''p'' PasswordKind demo_source = (Inr (Some ''hunter2''), demo_source)"
  by (simp add: get_secret_def with_keyring_def demo_source_def demo_app_def run_simps)

lemma demo_collect: "collect_secrets [demo_profile] demo_source = (Inr demo_bundle, demo_source)"
  by (simp add: collect_secrets_def collect_entry_def demo_profile_simps run_simps demo_keyring demo_bundle_def)

lemma demo_count: "char_count demo_passphrase = 33"
  by code_simp

lemma demo_world_simps: "w_now (a_world demo_source) = 7" "w_fs (a_world demo_source) = mem_disk"
  "w_disk (a_world demo_source) = \<lparr>st_files = Map.empty, st_faults = []\<rparr>"
  "w_db (a_world demo_source) = new_db\<lparr>connection_profiles := [profile_to_row demo_profile]\<rparr>"
  "w_now (a_world demo_target) = 7" "w_fs (a_world demo_target) = mem_disk"
  "w_disk (a_world demo_target) = \<lparr>st_files = [''/c'' \<mapsto> ''doc''], st_faults = []\<rparr>" "w_db (a_world demo_target) = new_db"
  "a_keyring demo_target = Map.empty" "a_keyring_faults demo_target = []"
  by (simp_all add: demo_source_def demo_target_def demo_app_def demo_world_def)

lemma demo_lists:
  "in_db list_profiles demo_source = (Inr [demo_profile], demo_source)"
  "in_db list_favorites demo_source = (Inr [], demo_source)"
  "in_db list_saved_actions demo_source = (Inr [], demo_source)"
  unfolding in_world_def zoom_run with_db_def demo_world_simps
  by (simp_all add: list_profiles_def list_favorites_def list_saved_actions_def with_connection_def run_simps new_db_def
      profile_to_row_def) (simp_all add: demo_source_def demo_app_def demo_world_def new_db_def profile_to_row_def)

lemma demo_sealed:
  "encrypt_secrets demo_codec demo_suite (Inr demo_salt) (Inr demo_nonce) demo_bundle demo_passphrase
     = Inr (the (doc_encrypted_secrets demo_document))"
  by (simp add: encrypt_secrets_def demo_codec_def demo_suite_def derive_key_def demo_document_def demo_passphrase_def)

lemma demo_path: "path_parent ''/c'' = Some ''/''" "file_name ''/c'' = Some ''c''"
  by code_simp+

lemma demo_written:
  "write_export ''/c'' ''doc'' True demo_source = (Inr (), demo_source\<lparr>a_world := (a_world demo_source)\<lparr>w_disk :=
     \<lparr>st_files = [''/c'' \<mapsto> ''doc''], st_faults = []\<rparr>\<rparr>\<rparr>)"
  by (simp add: write_export_def demo_path on_local_run demo_world_simps run_simps memory_defs)

lemma demo_export:
  "export_configuration demo_codec demo_suite (Inr demo_salt) (Inr demo_nonce) ''/c'' True (Some demo_passphrase) demo_source
     = (Inr (summary demo_document), demo_source\<lparr>a_world := (a_world demo_source)\<lparr>w_disk :=
     \<lparr>st_files = [''/c'' \<mapsto> ''doc''], st_faults = []\<rparr>\<rparr>\<rparr>)"
proof -
  have "document_json demo_codec demo_document = Inr ''doc''" by (simp add: demo_codec_def)
  moreover have "validate_document demo_document = Inr ()"
    by (simp add: validate_document_def demo_document_def MAX_PROFILES_def MAX_BOOKMARKS_def MAX_ACTIONS_def)
  moreover have "demo_document = \<lparr>doc_format = DOCUMENT_FORMAT, doc_version = DOCUMENT_VERSION, doc_exported_at = 7,
     doc_profiles = [demo_profile], doc_bookmarks = [], doc_saved_actions = [],
     doc_encrypted_secrets = Some (the (doc_encrypted_secrets demo_document))\<rparr>"
    by (simp add: demo_document_def)
  ultimately show ?thesis
    by (simp add: export_configuration_def demo_lists and_then_run lift_result_run ok_run require_passphrase_def demo_count
        demo_collect demo_sealed read_clock_def gets_run demo_world_simps Let_def demo_written)
qed

lemma demo_profile_normal: "normalize_profile (\<lambda>s. s) 7 demo_profile = Inr demo_profile"
  by code_simp

lemma demo_read:
  "read_document demo_codec ''/c'' demo_target = (Inr demo_document, demo_target)"
proof -
  have "validate_document demo_document = Inr ()"
    by (simp add: validate_document_def demo_document_def MAX_PROFILES_def MAX_BOOKMARKS_def MAX_ACTIONS_def)
  moreover have "demo_target\<lparr>a_world := (a_world demo_target)\<lparr>w_disk := \<lparr>st_files = [''/c'' \<mapsto> ''doc''], st_faults = []\<rparr>\<rparr>\<rparr> = demo_target"
    by (simp add: demo_target_def demo_app_def demo_world_def)
  ultimately show ?thesis
    by (simp add: read_document_def on_local_run demo_world_simps run_simps memory_defs MAX_DOCUMENT_BYTES_def demo_codec_def)
qed

lemma demo_opened: "decrypt_secrets demo_codec demo_suite (the (doc_encrypted_secrets demo_document)) demo_passphrase = Inr demo_bundle"
  using secrets_sealed[OF demo_crates demo_sealed, of demo_passphrase "take 32 demo_passphrase"]
  by (simp add: demo_suite_def demo_passphrase_def)

lemma demo_restored:
  "fst (import_configuration (\<lambda>s. s) demo_codec demo_suite ''/c'' (Some demo_passphrase) demo_target)
     = Inr \<lparr>imp_profiles = 1, imp_bookmarks = 0, imp_saved_actions = 0, imp_secrets_imported = 1\<rparr>"
proof -
  have doc: "doc_profiles demo_document = [demo_profile]" "doc_bookmarks demo_document = []" "doc_saved_actions demo_document = []"
    "doc_encrypted_secrets demo_document = Some (the (doc_encrypted_secrets demo_document))"
    by (simp_all add: demo_document_def)
  have bundle_simps: "unseal_bundle demo_codec demo_suite (doc_encrypted_secrets demo_document) (Some demo_passphrase) a
      = (Inr demo_bundle, a)" for a :: "(store, store) App"
    using demo_opened demo_count by (subst doc(4)) (simp add: unseal_bundle_def run_simps require_passphrase_def)
  have save: "in_db (save_profile_row demo_profile) demo_target = (Inr (), demo_target\<lparr>a_world := (a_world demo_target)\<lparr>w_db :=
      new_db\<lparr>connection_profiles := [profile_to_row demo_profile]\<rparr>\<rparr>\<rparr>)"
    by (simp add: in_world_def zoom_run with_db_def demo_world_simps save_profile_row_def with_connection_def run_simps new_db_def upsert_def)
  show ?thesis
    by (simp add: import_configuration_def demo_read doc(1,2,3) and_then_run ok_run normalize_now_run[of "\<lambda>s. s" demo_profile] demo_world_simps
        demo_profile_normal Let_def validate_related_records_def bundle_simps save demo_bundle_def import_entry_def
        demo_profile_simps import_secret_def set_secret_def with_keyring_def run_simps)
qed

lemma configuration_roundtrip_witness:
  "a_keyring (snd (import_configuration (\<lambda>s. s) demo_codec demo_suite ''/c'' (Some demo_passphrase) demo_target))
     (secret_entry ''p'' PasswordKind) = Some ''hunter2''"
proof -
  have disks: "whole_files (w_fs (a_world demo_source)) st_files" "whole_files (w_fs (a_world demo_target)) st_files"
    using mem_whole.whole_files_axioms by (simp_all add: demo_world_simps)
  have rows: "db_ok (w_db (a_world demo_source))" "rows_named (w_db (a_world demo_source))" "db_ok (w_db (a_world demo_target))"
    by (simp_all add: demo_world_simps db_ok_def rows_named_def new_db_def profile_to_row_def)
  have imp: "import_configuration (\<lambda>s. s) demo_codec demo_suite ''/c'' (Some demo_passphrase) demo_target
    = (Inr \<lparr>imp_profiles = 1, imp_bookmarks = 0, imp_saved_actions = 0, imp_secrets_imported = 1\<rparr>,
       snd (import_configuration (\<lambda>s. s) demo_codec demo_suite ''/c'' (Some demo_passphrase) demo_target))"
    by (simp add: prod_eq_iff demo_restored)
  have "profile_in ''p'' (w_db (a_world demo_source)) = Some demo_profile" "keeps_credential demo_profile PasswordKind"
    "a_keyring demo_source (secret_entry ''p'' PasswordKind) = Some ''hunter2''"
    by (simp_all add: demo_world_simps profile_in_def profile_to_row_def demo_profile_simps keeps_credential_def) (simp add: demo_source_def)
  with configuration_roundtrip[OF demo_crates disks rows demo_export _ imp] show ?thesis
    by (simp add: demo_world_simps)
qed

text \<open>An import whose credentials do not open.\<close>

lemma import_refused:
  fixes b :: "('r, 'l) App"
  assumes "import_configuration lower co su path passphrase b = (r, b')"
    and "whole_files (w_fs (a_world b)) view" "view (w_disk (a_world b)) path = Some bytes"
    and "document_parse co bytes = Inr document"
    and refuse: "\<And>s :: ('r, 'l) App. isl (fst (unseal_bundle co su (doc_encrypted_secrets document) passphrase s))"
      "\<And>s :: ('r, 'l) App. snd (unseal_bundle co su (doc_encrypted_secrets document) passphrase s) = s"
  shows "isl r \<and> data_of b' = data_of b"
  using assms(1) unfolding import_configuration_def Let_def
proof (cases rule: and_then_cases)
  case failed
  then show ?thesis using keeps_run[OF holding_read failed(1)] by simp
next
  case (went_on document' b1)
  then have "document' = document" and b1: "data_of b1 = data_of b"
    using read_document_Inr[OF went_on(1) assms(2,3)] assms(4) keeps_run[OF holding_read went_on(1)] by auto
  from went_on(2) show ?thesis unfolding \<open>document' = document\<close>
  proof (cases rule: and_then_cases)
    case failed
    then show ?thesis using keeps_run[OF holding_normalize failed(1)] b1 by simp
  next
    case (went_on profiles b2)
    then have b2: "data_of b2 = data_of b" using keeps_run[OF holding_normalize went_on(1)] b1 by simp
    from went_on(2) show ?thesis
    proof (cases rule: and_then_cases)
      case failed
      then show ?thesis using keeps_run[OF holding_check failed(1)] b2 by simp
    next
      case (went_on u b3)
      then have "data_of b3 = data_of b" using keeps_run[OF holding_check went_on(1)] b2 by simp
      with went_on(2) refuse[of b3] show ?thesis
        by (cases "unseal_bundle co su (doc_encrypted_secrets document) passphrase b3")
          (auto simp: and_then_run split: sum.splits)
    qed
  qed
qed

lemma sealed_shut:
  assumes "codec_ok co" "suite_ok su" "length salt = 16" "length nonce = 12"
    and "encrypt_secrets co su (Inr salt) (Inr nonce) bundle passphrase = Inr sealed"
    and "derive su passphrase' salt \<noteq> derive su passphrase salt"
  shows "isl (decrypt_secrets co su sealed passphrase')"
proof (cases "derive su passphrase' salt")
  case (Inl e)
  from assms(5) obtain c where c: "sealed = \<lparr>enc_scheme = ENCRYPTION_SCHEME, enc_salt_base64 = b64 su salt,
    enc_nonce_base64 = b64 su nonce, enc_ciphertext_base64 = c\<rparr>"
    by (auto simp: encrypt_secrets_def and_also_Inr)
  have "decode_fixed su 16 (b64 su salt) = Inr salt" using assms(2,3) by (simp add: decode_fixed_def suite_ok_def)
  with Inl show ?thesis
    by (simp add: decrypt_secrets_def c derive_key_def if_failed_def and_also_def split: sum.split)
next
  case (Inr key)
  with secrets_sealed[OF assms(1-5) Inr] assms(6) show ?thesis by simp
qed

text \<open>C14: a configuration that was exported with its credentials cannot be imported with another passphrase: the
  import fails and neither the database nor the credential store of the computer has changed.\<close>

theorem wrong_passphrase_rejected:
  assumes crates: "codec_ok co" "suite_ok su" "length salt = 16" "length nonce = 12"
    and disks: "whole_files (w_fs (a_world a)) va" "whole_files (w_fs (a_world b)) vb"
    and exporting: "export_configuration co su (Inr salt) (Inr nonce) path True (Some passphrase) a = (Inr exported, a')"
    and same: "vb (w_disk (a_world b)) path' = va (w_disk (a_world a')) path"
    and other: "derive su passphrase' salt \<noteq> derive su passphrase salt"
    and importing: "import_configuration lower co su path' (Some passphrase') b = (r, b')"
  shows "isl r \<and> data_of b' = data_of b"
proof -
  obtain entries sealed document bytes where
    sealed: "encrypt_secrets co su (Inr salt) (Inr nonce)
       (filter (\<lambda>e. sec_password e \<noteq> None \<or> sec_private_key_passphrase e \<noteq> None) entries) passphrase = Inr sealed" and
    doc: "doc_encrypted_secrets document = Some sealed" and json: "document_json co document = Inr bytes" and
    written: "va (w_disk (a_world a')) path = Some bytes"
    by (rule export_Inr[OF exporting disks(1)])
  have parse: "document_parse co bytes = Inr document" using crates(1) json by (simp add: codec_ok_def)
  have there: "vb (w_disk (a_world b)) path' = Some bytes" using same written by simp
  note shut = sealed_shut[OF crates sealed other]
  have "isl (fst (unseal_bundle co su (doc_encrypted_secrets document) (Some passphrase') s))"
    "snd (unseal_bundle co su (doc_encrypted_secrets document) (Some passphrase') s) = s" for s
    using shut by (auto simp: unseal_bundle_def doc run_simps require_passphrase_def split: sum.splits)
  then show ?thesis by (rule import_refused[OF importing disks(2) there parse])
qed

lemma wrong_passphrase_rejected_witness:
  "isl (fst (import_configuration (\<lambda>s. s) demo_codec demo_suite ''/c'' (Some ''not the passphrase'') demo_target))"
proof -
  have disks: "whole_files (w_fs (a_world demo_source)) st_files" "whole_files (w_fs (a_world demo_target)) st_files"
    using mem_whole.whole_files_axioms by (simp_all add: demo_world_simps)
  from wrong_passphrase_rejected[OF demo_crates disks demo_export, of "''/c''" "''not the passphrase''" "\<lambda>s. s"
      "fst (import_configuration (\<lambda>s. s) demo_codec demo_suite ''/c'' (Some ''not the passphrase'') demo_target)"
      "snd (import_configuration (\<lambda>s. s) demo_codec demo_suite ''/c'' (Some ''not the passphrase'') demo_target)"]
  show ?thesis by (simp add: demo_world_simps demo_suite_def demo_passphrase_def)
qed

text \<open>C15: an import that fails for any other reason than that the database or the credential store could not be
  written has changed neither: every check of the file, of the records in it and of the passphrase comes before the
  first change.\<close>

theorem import_checks_before_storing:
  assumes "import_configuration lower co su path passphrase b = (Inl e, b')" "code e \<notin> storing"
  shows "data_of b' = data_of b"
  using import_careful[unfolded careful_def, rule_format, OF refl assms] .

lemma import_checks_before_storing_witness:
  "data_of (snd (import_configuration (\<lambda>s. s) demo_codec demo_suite ''/other'' None demo_target)) = data_of demo_target"
proof -
  have "import_configuration (\<lambda>s. s) demo_codec demo_suite ''/other'' None demo_target = (Inl (file_error no_such_file),
      snd (import_configuration (\<lambda>s. s) demo_codec demo_suite ''/other'' None demo_target))"
    by (simp add: import_configuration_def read_document_def on_local_run demo_world_simps run_simps memory_defs)
  from import_checks_before_storing[OF this] show ?thesis by (simp add: file_error_def)
qed

text \<open>C16: an export without credentials does the same and writes the same file whatever the credential store
  holds, and leaves the store as it is; the passphrase, the crates of the cipher and the random numbers play no
  part in it.\<close>

theorem plain_export_ignores_credentials:
  "export_configuration co su salt nonce path False passphrase (a\<lparr>a_keyring := keyring\<rparr>)
   = map_prod id (\<lambda>a. a\<lparr>a_keyring := keyring\<rparr>) (export_configuration co su' salt' nonce' path False passphrase' a)"
  using blind_export[unfolded blind_def, rule_format] by (simp add: export_configuration_def)

end
