(* ===== verification/Package.thy ===== *)
theory Package
  imports App_State Local_Paths
begin

text \<open>
  \<^verbatim>\<open>src-tauri/src/package.rs\<close>: a local directory is packed into an archive beside it. The crates that walk a
  directory and write archives are a record of functions, \<open>archiver\<close>: \<open>walk_dir\<close> gives what a walk yields, in its
  order, with the items that could not be read on the left; a zip writer and a tar builder stand for the open
  file they write to, named by its path.
\<close>

record 'l archiver =
  walk_dir :: "string \<Rightarrow> 'l \<Rightarrow> (string + string \<times> EntryKind) list"
  zip_add_directory :: "string \<Rightarrow> string \<Rightarrow> ('l, string, unit) eff"
  zip_start_file :: "string \<Rightarrow> string \<Rightarrow> ('l, string, unit) eff"
  zip_write_all :: "string \<Rightarrow> bytes \<Rightarrow> ('l, unit) io"
  zip_finish :: "string \<Rightarrow> ('l, string, unit) eff"
  tar_append_dir_all :: "bool \<Rightarrow> string \<Rightarrow> string \<Rightarrow> string \<Rightarrow> ('l, unit) io"
  tar_into_inner :: "string \<Rightarrow> ('l, unit) io"
  gzip_finish :: "string \<Rightarrow> ('l, unit) io"
  tar_finish :: "string \<Rightarrow> ('l, unit) io"

definition MAX_PACKAGED_FILES :: nat where "MAX_PACKAGED_FILES = 5000"

section \<open>Errors\<close>

definition package_io_error :: "io_error \<Rightarrow> AppError" where
  "package_io_error source = with_detail (new_error
     (case io_kind source of IoNotFound \<Rightarrow> NotFound | IoPermissionDenied \<Rightarrow> PermissionDenied
        | IoAlreadyExists \<Rightarrow> AlreadyExists | _ \<Rightarrow> IoError) ''Could not package the local directory'') (io_text source)"

definition package_zip_error :: "string \<Rightarrow> AppError" where
  "package_zip_error source = with_detail (new_error IoError ''Could not package the local directory'') source"

definition too_many_files :: AppError where
  "too_many_files = new_error InvalidInput
     (''Directories with more than '' @ show_nat MAX_PACKAGED_FILES @ '' files cannot be packaged'')"

section \<open>Zip archives\<close>

text \<open>\<^verbatim>\<open>Path::strip_prefix\<close>: component by component.\<close>

definition path_strip_prefix :: "string \<Rightarrow> string \<Rightarrow> string option" where
  "path_strip_prefix base path =
     (let n = length (components base)
      in if take n (components path) = components base then Some (show_components (drop n (components path))) else None)"

definition archive_name :: "string \<Rightarrow> string \<Rightarrow> string result" where
  "archive_name source path = (case path_strip_prefix source path of
      None \<Rightarrow> Inl (new_error InternalError ''Could not build a relative archive path'')
    | Some relative \<Rightarrow> if utf8_valid relative then Inr (replace_char backslash ''/'' relative)
        else Inl (new_error InvalidInput ''Archive paths must be valid UTF-8''))"

text \<open>The entries of the walk, with the number of files so far. The directory itself has an empty relative path.\<close>

fun zip_entries ::
  "'l LocalFs \<Rightarrow> 'l archiver \<Rightarrow> string \<Rightarrow> string \<Rightarrow> (string \<times> EntryKind) list \<Rightarrow> nat \<Rightarrow> ('l, unit) act" where
  "zip_entries fs ar source archive [] packed = ok ()"
| "zip_entries fs ar source archive ((path, kind) # entries) packed =
     and_then (lift_result (archive_name source path)) (\<lambda>name.
     if name = '''' then zip_entries fs ar source archive entries packed
     else if kind = Directory then
       and_then (map_err package_zip_error (zip_add_directory ar archive (name @ ''/''))) (\<lambda>_.
       zip_entries fs ar source archive entries packed)
     else if kind \<noteq> File then zip_entries fs ar source archive entries packed
     else if MAX_PACKAGED_FILES < packed + 1 then
       and_then (attempt (l_remove_file fs archive)) (\<lambda>_. err too_many_files)
     else
       and_then (map_err package_zip_error (zip_start_file ar archive name)) (\<lambda>_.
       and_then (map_err package_io_error (l_open fs path)) (\<lambda>_.
       and_then (map_err package_io_error (l_read fs path)) (\<lambda>bytes.
       and_then (map_err package_io_error (zip_write_all ar archive bytes)) (\<lambda>_.
       zip_entries fs ar source archive entries (packed + 1))))))"

definition walked :: "(string + string \<times> EntryKind) list \<Rightarrow> (string \<times> EntryKind) list" where
  "walked items = List.map_filter (\<lambda>item. case item of Inl _ \<Rightarrow> None | Inr entry \<Rightarrow> Some entry) items"

definition package_zip :: "'l LocalFs \<Rightarrow> 'l archiver \<Rightarrow> string \<Rightarrow> string \<Rightarrow> ('l, unit) act" where
  "package_zip fs ar source archive =
     and_then (map_err package_io_error (l_create fs archive)) (\<lambda>_.
     and_then (gets (walk_dir ar source)) (\<lambda>items.
     and_then (zip_entries fs ar source archive (walked items) 0) (\<lambda>_.
     map_err package_zip_error (zip_finish ar archive))))"

section \<open>Tar archives\<close>

definition package_tar ::
  "'l LocalFs \<Rightarrow> 'l archiver \<Rightarrow> string \<Rightarrow> string \<Rightarrow> string \<Rightarrow> bool \<Rightarrow> ('l, unit) act" where
  "package_tar fs ar source name archive gzip =
     and_then (gets (walk_dir ar source)) (\<lambda>items.
     if MAX_PACKAGED_FILES < length (filter (\<lambda>entry. snd entry = File) (walked items)) then err too_many_files
     else
       and_then (map_err package_io_error (l_create fs archive)) (\<lambda>_.
       and_then (map_err package_io_error (tar_append_dir_all ar gzip archive name source)) (\<lambda>_.
       if gzip then
         and_then (map_err package_io_error (tar_into_inner ar archive)) (\<lambda>_.
         map_err package_io_error (gzip_finish ar archive))
       else map_err package_io_error (tar_finish ar archive))))"

section \<open>The command\<close>

definition probe :: "('l, bool) io \<Rightarrow> ('l, 'e, bool) eff" where
  "probe m = and_then (attempt m) (\<lambda>found. ok (found = Inr True))"

definition archive_path :: "string \<Rightarrow> string \<Rightarrow> ArchiveFormat \<Rightarrow> string" where
  "archive_path source name format =
     path_push (case path_parent source of Some parent \<Rightarrow> parent | None \<Rightarrow> ''.'') (name @ ''.'' @ extension format)"

definition package_local_directory :: "'l LocalFs \<Rightarrow> 'l archiver \<Rightarrow> string \<Rightarrow> ArchiveFormat \<Rightarrow> ('l, string) act" where
  "package_local_directory fs ar source format =
     and_then (probe (l_is_dir fs source)) (\<lambda>directory.
     if \<not> directory then err (new_error NotFound ''The local directory was not found'')
     else case file_name source of
       None \<Rightarrow> err (new_error InvalidInput ''Cannot package the filesystem root'')
     | Some name \<Rightarrow>
         if \<not> utf8_valid name \<or> name = '''' then err (new_error InvalidInput ''Cannot package the filesystem root'')
         else
           (let archive = archive_path source name format
            in and_then (probe (l_try_exists fs archive)) (\<lambda>there.
               if there then err (new_error AlreadyExists (''Archive already exists at '' @ archive))
               else and_then (case format of
                   Zip \<Rightarrow> package_zip fs ar source archive
                 | Tar \<Rightarrow> package_tar fs ar source name archive False
                 | TarGz \<Rightarrow> package_tar fs ar source name archive True) (\<lambda>_.
               ok archive))))"

text \<open>\<^verbatim>\<open>commands.rs\<close> runs it on a thread of its own; a thread that panics is not modelled.\<close>

definition package_local_command :: "'l archiver \<Rightarrow> string \<Rightarrow> ArchiveFormat \<Rightarrow> ('r, 'l, string) app" where
  "package_local_command ar path format = in_world (\<lambda>w.
     case package_local_directory (w_fs w) ar path format (w_disk w) of (r, d) \<Rightarrow> (r, w\<lparr>w_disk := d\<rparr>))"

end
