(* ===== verification/Diagnostics.thy ===== *)
theory Diagnostics
  imports Package "HOL-Library.Option_ord"
begin

text \<open>
  \<^verbatim>\<open>src-tauri/src/diagnostics.rs\<close>: the diagnostic log, its files, the marker that tells whether the last run
  ended cleanly, and the support bundle. \<open>dg_lines\<close> are the lines given to the log plugin, which writes and rotates
  the log files; the plugin, the file system (\<open>LogFs\<close>), the zip crate, the JSON serialisation, the digest and the
  check of a timestamp are parameters. Time is a number of milliseconds. Locks are never poisoned here, and the
  state is that of Unix.
\<close>

section \<open>Constants\<close>

definition LOG_FILE_STEM :: string where "LOG_FILE_STEM = ''siftlane-diagnostics''"
definition MAX_LOG_FILE_BYTES :: nat where "MAX_LOG_FILE_BYTES = 256 * 1024"
definition LOG_TARGET :: string where "LOG_TARGET = ''siftlane_diagnostics''"
definition ACTIVE_LOG_FILE_NAME :: string where "ACTIVE_LOG_FILE_NAME = ''siftlane-diagnostics.log''"
definition LEGACY_UNFILTERED_LOG_FILE_NAME :: string where "LEGACY_UNFILTERED_LOG_FILE_NAME = ''siftlane.log''"
definition LIFECYCLE_MARKER_FILE_NAME :: string where "LIFECYCLE_MARKER_FILE_NAME = ''siftlane-diagnostics.session''"
definition DIAGNOSTICS_SCHEMA_VERSION :: u8 where "DIAGNOSTICS_SCHEMA_VERSION = 2"
definition SUPPORT_BUNDLE_SCHEMA_VERSION :: u8 where "SUPPORT_BUNDLE_SCHEMA_VERSION = 1"
definition PHASE_STARTING :: u8 where "PHASE_STARTING = 0"
definition PHASE_RUNNING :: u8 where "PHASE_RUNNING = 1"
definition PHASE_SHUTTING_DOWN :: u8 where "PHASE_SHUTTING_DOWN = 2"
definition MAX_SUPPORT_LOG_FILES :: nat where "MAX_SUPPORT_LOG_FILES = 4"

definition SUPPORT_BUNDLE_INCLUDED_DATA :: "string list" where
  "SUPPORT_BUNDLE_INCLUDED_DATA = [''Diagnostic event logs'', ''App and diagnostics schema versions'',
     ''Operating system and CPU architecture'', ''Random session and operation IDs with timings'',
     ''Bundle creation time and diagnostics status'', ''Log filenames, sizes, and SHA-256 checksums'']"

definition SUPPORT_BUNDLE_EXCLUDED_DATA :: "string list" where
  "SUPPORT_BUNDLE_EXCLUDED_DATA = [''Credentials and secret values'', ''Hosts and IP addresses'', ''Usernames'',
     ''Local and remote paths'', ''Filenames transferred by the user'', ''Commands'', ''File contents'',
     ''Free-form error messages'', ''Application configuration and database contents'']"

section \<open>Data\<close>

record build =
  b_version :: string
  b_os :: string
  b_arch :: string

record DiagnosticOperation =
  op_id :: uuid
  op_started_at :: nat

datatype DiagnosticAuth = AnonymousAuth | PasswordAuth | PrivateKeyAuth | AgentAuth

record DiagnosticConnection =
  dc_protocol :: Protocol
  dc_auth :: DiagnosticAuth
  dc_proxy :: bool
  dc_proxy_jump :: bool
  dc_custom_algorithms :: bool

record DiagnosticError =
  de_code :: ErrorCode
  de_retryable :: bool

datatype DiagnosticConnectionOutcome =
    OutcomeConnected | OutcomeHostTrustRequired bool | OutcomeCredentialRequired | OutcomeFailed DiagnosticError

datatype SearchScope = LocalScope | RemoteScope

datatype LogLevel = LevelInfo | LevelWarn | LevelError

record SupportBundleLogFile =
  slf_name :: string
  slf_bytes :: nat
  slf_sha256 :: string

record SupportBundlePreview =
  pv_preview_id :: uuid
  pv_created_at_utc :: string
  pv_bundle_schema_version :: u8
  pv_diagnostics_schema_version :: u8
  pv_app_version :: string
  pv_operating_system :: string
  pv_architecture :: string
  pv_diagnostics_enabled :: bool
  pv_log_files :: "SupportBundleLogFile list"
  pv_total_log_bytes :: nat
  pv_included_data :: "string list"
  pv_excluded_data :: "string list"

record SupportLog =
  slog_name :: string
  slog_contents :: bytes

record SupportBundleSnapshot =
  sn_id :: uuid
  sn_created_at_utc :: string
  sn_diagnostics_enabled :: bool
  sn_app_session_id :: uuid
  sn_files :: "SupportLog list"

record SupportBundleManifest =
  mf_bundle_schema_version :: u8
  mf_diagnostics_schema_version :: u8
  mf_created_at_utc :: string
  mf_app_version :: string
  mf_operating_system :: string
  mf_architecture :: string
  mf_diagnostics_enabled_when_reviewed :: bool
  mf_app_session_id :: uuid
  mf_included_data :: "string list"
  mf_excluded_data :: "string list"
  mf_log_files :: "SupportBundleLogFile list"

text \<open>The metadata with the number of links; an open file is its path, \<open>g_handle_metadata\<close> is the metadata of the
  open file, \<open>g_temp_in\<close> makes a temporary file and \<open>g_persist\<close> moves it.\<close>

record link_metadata = local_metadata +
  lm_nlink :: nat

record 'l LogFs =
  g_symlink_metadata :: "string \<Rightarrow> ('l, link_metadata) io"
  g_handle_metadata :: "string \<Rightarrow> ('l, link_metadata) io"
  g_read_dir :: "string \<Rightarrow> ('l, (io_error + string) list) io"
  g_open :: "string \<Rightarrow> ('l, unit) io"
  g_open_write :: "string \<Rightarrow> ('l, unit) io"
  g_open_truncate :: "string \<Rightarrow> ('l, unit) io"
  g_create_new :: "string \<Rightarrow> ('l, unit) io"
  g_read_to_end :: "string \<Rightarrow> ('l, bytes) io"
  g_write_all :: "string \<Rightarrow> bytes \<Rightarrow> ('l, unit) io"
  g_set_len :: "string \<Rightarrow> nat \<Rightarrow> ('l, unit) io"
  g_sync_all :: "string \<Rightarrow> ('l, unit) io"
  g_remove_file :: "string \<Rightarrow> ('l, unit) io"
  g_create_dir_all :: "string \<Rightarrow> ('l, unit) io"
  g_set_permissions :: "string \<Rightarrow> u32 \<Rightarrow> ('l, unit) io"
  g_canonicalize :: "string \<Rightarrow> ('l, string) io"
  g_temp_in :: "string \<Rightarrow> ('l, string) io"
  g_persist :: "string \<Rightarrow> string \<Rightarrow> ('l, unit) io"

record 'l bundle_crates =
  bc_zip :: "'l archiver"
  bc_sha256_hex :: "bytes \<Rightarrow> string"
  bc_manifest_json :: "SupportBundleManifest \<Rightarrow> string + bytes"

record 'l Diag =
  dg_enabled :: bool
  dg_log_dir :: string
  dg_session :: uuid
  dg_phase :: u8
  dg_unclean :: bool
  dg_snapshot :: "SupportBundleSnapshot option"
  dg_lines :: "(LogLevel \<times> string) list"
  dg_uuids :: "nat \<Rightarrow> uuid"
  dg_issued :: nat
  dg_millis :: nat
  dg_utc :: string
  dg_disk :: 'l

type_synonym ('l, 'a) dact = "('l Diag, 'a) act"

section \<open>What a line says\<close>

definition show_bool :: "bool \<Rightarrow> string" where
  "show_bool b = (if b then ''true'' else ''false'')"

definition auth_of :: "AuthRef \<Rightarrow> DiagnosticAuth" where
  "auth_of auth = (case auth of Anonymous \<Rightarrow> AnonymousAuth | Password _ \<Rightarrow> PasswordAuth
     | PrivateKey _ _ \<Rightarrow> PrivateKeyAuth | Agent \<Rightarrow> AgentAuth)"

definition connection_of :: "ConnectionProfile \<Rightarrow> DiagnosticConnection" where
  "connection_of profile =
     (let a = algorithms (prof_ssh_options profile)
      in \<lparr>dc_protocol = prof_protocol profile, dc_auth = auth_of (prof_auth profile),
          dc_proxy = (proxy (prof_ssh_options profile) \<noteq> None),
          dc_proxy_jump = (proxy_jump_profile_id (prof_ssh_options profile) \<noteq> None),
          dc_custom_algorithms = (key_exchange a \<noteq> [] \<or> host_keys a \<noteq> [] \<or> ciphers a \<noteq> [] \<or> macs a \<noteq> [])\<rparr>)"

definition diagnostic_error :: "AppError \<Rightarrow> DiagnosticError" where
  "diagnostic_error error = \<lparr>de_code = code error, de_retryable = retryable error\<rparr>"

definition outcome_of :: "ConnectResult result \<Rightarrow> DiagnosticConnectionOutcome" where
  "outcome_of result = (case result of
      Inr (Connected _) \<Rightarrow> OutcomeConnected
    | Inr (NeedsHostTrust challenge) \<Rightarrow> OutcomeHostTrustRequired (challenge_changed challenge)
    | Inr (NeedsCredential _) \<Rightarrow> OutcomeCredentialRequired
    | Inl error \<Rightarrow> OutcomeFailed (diagnostic_error error))"

definition auth_name :: "DiagnosticAuth \<Rightarrow> string" where
  "auth_name auth = (case auth of AnonymousAuth \<Rightarrow> ''anonymous'' | PasswordAuth \<Rightarrow> ''password''
     | PrivateKeyAuth \<Rightarrow> ''private_key'' | AgentAuth \<Rightarrow> ''agent'')"

definition protocol_name :: "Protocol \<Rightarrow> string" where
  "protocol_name protocol = (case protocol of Sftp \<Rightarrow> ''sftp'' | Ftp \<Rightarrow> ''ftp'' | Ftps \<Rightarrow> ''ftps'')"

definition transfer_direction_name :: "TransferDirection \<Rightarrow> string" where
  "transfer_direction_name direction = (case direction of Upload \<Rightarrow> ''upload'' | Download \<Rightarrow> ''download''
     | RemoteToRemote \<Rightarrow> ''remote_to_remote'')"

definition error_code_name :: "ErrorCode \<Rightarrow> string" where
  "error_code_name c = (case c of
      InvalidInput \<Rightarrow> ''invalid_input'' | NotFound \<Rightarrow> ''not_found'' | AlreadyExists \<Rightarrow> ''already_exists''
    | PermissionDenied \<Rightarrow> ''permission_denied'' | AuthenticationFailed \<Rightarrow> ''authentication_failed''
    | HostKeyUnknown \<Rightarrow> ''host_key_unknown'' | HostKeyChanged \<Rightarrow> ''host_key_changed''
    | ConnectionFailed \<Rightarrow> ''connection_failed'' | ConnectionClosed \<Rightarrow> ''connection_closed''
    | TimedOut \<Rightarrow> ''timed_out'' | Conflict \<Rightarrow> ''conflict'' | Unsupported \<Rightarrow> ''unsupported''
    | SecretStoreUnavailable \<Rightarrow> ''secret_store_unavailable'' | StorageError \<Rightarrow> ''storage'' | IoError \<Rightarrow> ''io''
    | InternalError \<Rightarrow> ''internal'')"

definition scope_name :: "SearchScope \<Rightarrow> string" where
  "scope_name scope = (case scope of LocalScope \<Rightarrow> ''local'' | RemoteScope \<Rightarrow> ''remote'')"

definition lifecycle_phase_name :: "u8 \<Rightarrow> string" where
  "lifecycle_phase_name phase = (if phase = PHASE_STARTING then ''starting'' else if phase = PHASE_RUNNING then ''running''
     else if phase = PHASE_SHUTTING_DOWN then ''shutting_down'' else ''unknown'')"

definition connection_started_message :: "DiagnosticConnection \<Rightarrow> string" where
  "connection_started_message c = ''event=connection_started protocol='' @ protocol_name (dc_protocol c)
     @ '' auth='' @ auth_name (dc_auth c) @ '' proxy='' @ show_bool (dc_proxy c)
     @ '' proxy_jump='' @ show_bool (dc_proxy_jump c) @ '' custom_algorithms='' @ show_bool (dc_custom_algorithms c)"

definition connection_finished_message :: "Protocol \<Rightarrow> DiagnosticConnectionOutcome \<Rightarrow> nat \<Rightarrow> string" where
  "connection_finished_message protocol outcome duration_ms =
     ''event=connection_finished protocol='' @ protocol_name protocol @ (case outcome of
        OutcomeConnected \<Rightarrow> '' outcome=connected''
      | OutcomeHostTrustRequired changed_key \<Rightarrow> '' outcome=host_trust_required changed_key='' @ show_bool changed_key
      | OutcomeCredentialRequired \<Rightarrow> '' outcome=credential_required''
      | OutcomeFailed error \<Rightarrow> '' outcome=failed error_code='' @ error_code_name (de_code error)
          @ '' retryable='' @ show_bool (de_retryable error))
     @ '' duration_ms='' @ show_nat duration_ms"

text \<open>The file of a panic is told by the crate it is in.\<close>

definition sanitized_panic_location :: "(string \<times> u32) option \<Rightarrow> string \<times> u32" where
  "sanitized_panic_location location = (case location of
      None \<Rightarrow> (''unknown'', 0)
    | Some (path, line) \<Rightarrow>
        (let normal = replace_char backslash ''/'' path
         in (if contains ''crates/siftlane-sftp/'' normal then ''sftp''
             else if contains ''crates/siftlane-ftp/'' normal then ''ftp''
             else if contains ''crates/siftlane-core/'' normal then ''core''
             else if contains ''src-tauri/src/'' normal then ''app_backend''
             else ''dependency_or_runtime'', line)))"

section \<open>Log files\<close>

definition invalid_log_entry :: "string \<Rightarrow> AppError" where
  "invalid_log_entry text = new_error IoError text"

definition diagnostics_io_error :: "io_error \<Rightarrow> AppError" where
  "diagnostics_io_error source = with_detail (new_error IoError ''Could not manage the diagnostic logs'') (io_text source)"

abbreviation managed :: "('l, 'a) io \<Rightarrow> ('l, 'a) act" where
  "managed m \<equiv> map_err diagnostics_io_error m"

definition safe_regular_file :: "link_metadata \<Rightarrow> bool" where
  "safe_regular_file meta \<longleftrightarrow> lm_is_file meta \<and> lm_nlink meta = 1"

definition restrict_directory_permissions :: "'l LogFs \<Rightarrow> string \<Rightarrow> ('l, unit) act" where
  "restrict_directory_permissions fs path = managed (g_set_permissions fs path 0x1C0)"

definition restrict_file_permissions :: "'l LogFs \<Rightarrow> string \<Rightarrow> ('l, unit) act" where
  "restrict_file_permissions fs path = managed (g_set_permissions fs path 0x180)"

text \<open>What the code does with the metadata of a path, with nothing there, and when it cannot be read.\<close>

definition inspect ::
  "'l LogFs \<Rightarrow> string \<Rightarrow> ('l, 'a) act \<Rightarrow> (link_metadata \<Rightarrow> ('l, 'a) act) \<Rightarrow> ('l, 'a) act" where
  "inspect fs path absent there = and_then (attempt (g_symlink_metadata fs path)) (\<lambda>found. case found of
      Inr meta \<Rightarrow> there meta
    | Inl error \<Rightarrow> if io_kind error = IoNotFound then absent else err (diagnostics_io_error error))"

definition remove_log_entry :: "'l LogFs \<Rightarrow> string \<Rightarrow> ('l, unit) act" where
  "remove_log_entry fs path = inspect fs path (ok ()) (\<lambda>meta.
     if lm_is_dir meta then err (invalid_log_entry ''A diagnostic log path unexpectedly contains a directory'')
     else and_then (attempt (g_remove_file fs path)) (\<lambda>removed. case removed of
         Inr _ \<Rightarrow> ok ()
       | Inl error \<Rightarrow> if io_kind error = IoNotFound then ok () else err (diagnostics_io_error error)))"

definition create_private_log :: "'l LogFs \<Rightarrow> string \<Rightarrow> ('l, unit) act" where
  "create_private_log fs path =
     and_then (managed (g_create_new fs path)) (\<lambda>_. restrict_file_permissions fs path)"

definition reset_active_log :: "'l LogFs \<Rightarrow> string \<Rightarrow> ('l, unit) act" where
  "reset_active_log fs path = inspect fs path (create_private_log fs path) (\<lambda>meta.
     if \<not> safe_regular_file meta then
       (if lm_is_dir meta then err (invalid_log_entry ''The active diagnostic log path is a directory'')
        else and_then (managed (g_remove_file fs path)) (\<lambda>_. create_private_log fs path))
     else
       and_then (managed (g_open_write fs path)) (\<lambda>_.
       and_then (managed (g_handle_metadata fs path)) (\<lambda>opened.
       if \<not> safe_regular_file opened then
         and_then (managed (g_remove_file fs path)) (\<lambda>_. create_private_log fs path)
       else
         and_then (managed (g_set_len fs path 0)) (\<lambda>_. restrict_file_permissions fs path))))"

definition secure_active_log :: "'l LogFs \<Rightarrow> string \<Rightarrow> ('l, unit) act" where
  "secure_active_log fs path = inspect fs path (create_private_log fs path) (\<lambda>meta.
     if safe_regular_file meta then restrict_file_permissions fs path
     else if lm_is_dir meta then err (invalid_log_entry ''The diagnostic log path is a directory'')
     else and_then (managed (g_remove_file fs path)) (\<lambda>_. create_private_log fs path))"

definition secure_existing_log :: "'l LogFs \<Rightarrow> string \<Rightarrow> ('l, unit) act" where
  "secure_existing_log fs path = and_then (managed (g_symlink_metadata fs path)) (\<lambda>meta.
     if safe_regular_file meta then restrict_file_permissions fs path
     else if lm_is_dir meta then err (invalid_log_entry ''A retained diagnostic log path is a directory'')
     else managed (g_remove_file fs path))"

datatype DiagnosticsLogKind = ActiveLog | ArchiveLog | BackupLog

text \<open>\<open>stamp\<close> is the check that a text is a time as \<^verbatim>\<open>%Y-%m-%d_%H-%M-%S\<close>.\<close>

definition diagnostics_log_kind :: "(string \<Rightarrow> bool) \<Rightarrow> string \<Rightarrow> DiagnosticsLogKind option" where
  "diagnostics_log_kind stamp path = (case file_name path of
      None \<Rightarrow> None
    | Some name \<Rightarrow>
        if \<not> utf8_valid name then None
        else if name = ACTIVE_LOG_FILE_NAME then Some ActiveLog
        else Option.bind (strip_prefix LOG_FILE_STEM name) (\<lambda>rest.
          Option.bind (strip_prefix ''_'' rest) (\<lambda>rest.
            if (case strip_suffix ''.log'' rest of Some time \<Rightarrow> stamp time | None \<Rightarrow> False) then Some ArchiveLog
            else if (case strip_suffix ''.log.bak'' rest of Some time \<Rightarrow> stamp time | None \<Rightarrow> False) then Some BackupLog
            else None)))"

definition log_directory_unsafe :: AppError where
  "log_directory_unsafe = invalid_log_entry ''The diagnostic log directory is unsafe''"

text \<open>The paths of a directory, each looked at in turn; an item that cannot be read ends the loop.\<close>

definition each_log :: "string \<Rightarrow> (string \<Rightarrow> ('l, unit) act) \<Rightarrow> (io_error + string) list \<Rightarrow> ('l, unit) act" where
  "each_log dir f items = for_each (\<lambda>item.
     and_then (managed (lift_result item)) (\<lambda>name. f (path_push dir name))) items"

definition clear_diagnostics_logs :: "(string \<Rightarrow> bool) \<Rightarrow> 'l LogFs \<Rightarrow> string \<Rightarrow> ('l, unit) act" where
  "clear_diagnostics_logs stamp fs dir = inspect fs dir (ok ()) (\<lambda>meta.
     if lm_is_symlink meta \<or> \<not> lm_is_dir meta then err log_directory_unsafe
     else and_then (managed (g_read_dir fs dir)) (each_log dir (\<lambda>path.
       case diagnostics_log_kind stamp path of
         Some ActiveLog \<Rightarrow> reset_active_log fs path
       | Some _ \<Rightarrow> remove_log_entry fs path
       | None \<Rightarrow> ok ())))"

definition prepare_log_storage :: "(string \<Rightarrow> bool) \<Rightarrow> 'l LogFs \<Rightarrow> string \<Rightarrow> ('l, unit) act" where
  "prepare_log_storage stamp fs dir =
     and_then (managed (g_create_dir_all fs dir)) (\<lambda>_.
     and_then (managed (g_symlink_metadata fs dir)) (\<lambda>meta.
     if lm_is_symlink meta \<or> \<not> lm_is_dir meta then err log_directory_unsafe
     else
       and_then (restrict_directory_permissions fs dir) (\<lambda>_.
       and_then (let legacy = path_push dir LEGACY_UNFILTERED_LOG_FILE_NAME
                 in inspect fs legacy (ok ()) (\<lambda>_. remove_log_entry fs legacy)) (\<lambda>_.
       and_then (secure_active_log fs (path_push dir ACTIVE_LOG_FILE_NAME)) (\<lambda>_.
       and_then (managed (g_read_dir fs dir)) (each_log dir (\<lambda>path.
         case diagnostics_log_kind stamp path of
           Some ArchiveLog \<Rightarrow> secure_existing_log fs path
         | Some BackupLog \<Rightarrow> remove_log_entry fs path
         | _ \<Rightarrow> ok ())))))))"

section \<open>The marker of a running application\<close>

definition create_lifecycle_marker :: "'l LogFs \<Rightarrow> string \<Rightarrow> uuid \<Rightarrow> ('l, unit) act" where
  "create_lifecycle_marker fs path app_session_id =
     and_then (managed (g_create_new fs path)) (\<lambda>_.
     and_then (managed (g_write_all fs path app_session_id)) (\<lambda>_.
     and_then (managed (g_sync_all fs path)) (\<lambda>_. restrict_file_permissions fs path)))"

definition marker_existed :: "'l LogFs \<Rightarrow> string \<Rightarrow> ('l, bool) act" where
  "marker_existed fs path = inspect fs path (ok False) (\<lambda>meta.
     if lm_is_dir meta then err (invalid_log_entry ''The diagnostic lifecycle marker is a directory'')
     else if safe_regular_file meta then ok True
     else and_then (remove_log_entry fs path) (\<lambda>_. ok False))"

definition reset_lifecycle_marker :: "'l LogFs \<Rightarrow> string \<Rightarrow> uuid \<Rightarrow> ('l, bool) act" where
  "reset_lifecycle_marker fs path app_session_id =
     and_then (marker_existed fs path) (\<lambda>existed.
     if existed then
       and_then (managed (g_open_truncate fs path)) (\<lambda>_.
       and_then (managed (g_handle_metadata fs path)) (\<lambda>meta.
       if \<not> safe_regular_file meta then
         and_then (remove_log_entry fs path) (\<lambda>_.
         and_then (create_lifecycle_marker fs path app_session_id) (\<lambda>_. ok True))
       else
         and_then (managed (g_write_all fs path app_session_id)) (\<lambda>_.
         and_then (managed (g_sync_all fs path)) (\<lambda>_.
         and_then (restrict_file_permissions fs path) (\<lambda>_. ok True)))))
     else and_then (create_lifecycle_marker fs path app_session_id) (\<lambda>_. ok False))"

section \<open>The log\<close>

definition on_disk_of :: "('l, 'a) act \<Rightarrow> ('l, 'a) dact" where
  "on_disk_of m = zoom dg_disk (\<lambda>s d. d\<lparr>dg_disk := s\<rparr>) m"

definition log_metadata_allowed :: "string \<Rightarrow> bool \<Rightarrow> bool" where
  "log_metadata_allowed target enabled \<longleftrightarrow> enabled \<and> target = LOG_TARGET"

definition log_line :: "LogLevel \<Rightarrow> string \<Rightarrow> ('l, unit) dact" where
  "log_line level text = modify (\<lambda>d.
     if log_metadata_allowed LOG_TARGET (dg_enabled d) then d\<lparr>dg_lines := dg_lines d @ [(level, text)]\<rparr> else d)"

definition when_enabled :: "('l, unit) dact \<Rightarrow> ('l, unit) dact" where
  "when_enabled m = and_then (gets dg_enabled) (\<lambda>enabled. when_do enabled m)"

text \<open>The words that begin every line, and those that begin the lines of an operation.\<close>

definition session_words :: "'l Diag \<Rightarrow> string" where
  "session_words d = ''schema='' @ show_nat (unat DIAGNOSTICS_SCHEMA_VERSION) @ '' app_session_id='' @ dg_session d @ '' ''"

definition operation_words :: "DiagnosticOperation \<Rightarrow> 'l Diag \<Rightarrow> string" where
  "operation_words operation d = session_words d @ ''operation_id='' @ op_id operation @ '' ''"

definition elapsed_ms :: "DiagnosticOperation \<Rightarrow> 'l Diag \<Rightarrow> nat" where
  "elapsed_ms operation d = dg_millis d - op_started_at operation"

definition say :: "LogLevel \<Rightarrow> ('l Diag \<Rightarrow> string) \<Rightarrow> ('l, unit) dact" where
  "say level text = and_then (gets text) (log_line level)"

definition record_fixed :: "string \<Rightarrow> ('l, unit) dact" where
  "record_fixed event = when_enabled (say LevelInfo (\<lambda>d. session_words d @ ''event='' @ event))"

definition new_operation :: "('l, DiagnosticOperation) dact" where
  "new_operation = (\<lambda>d. (Inr \<lparr>op_id = dg_uuids d (dg_issued d), op_started_at = dg_millis d\<rparr>,
     d\<lparr>dg_issued := Suc (dg_issued d)\<rparr>))"

definition begin_lifecycle :: "'l LogFs \<Rightarrow> ('l, bool) dact" where
  "begin_lifecycle fs = and_then (gets (\<lambda>d. (path_push (dg_log_dir d) LIFECYCLE_MARKER_FILE_NAME, dg_session d)))
     (\<lambda>(path, app_session_id). on_disk_of (reset_lifecycle_marker fs path app_session_id))"

definition end_lifecycle :: "'l LogFs \<Rightarrow> ('l, unit) dact" where
  "end_lifecycle fs = and_then (gets (\<lambda>d. path_push (dg_log_dir d) LIFECYCLE_MARKER_FILE_NAME))
     (\<lambda>path. on_disk_of (remove_log_entry fs path))"

text \<open>\<^verbatim>\<open>Diagnostics::new\<close> on a state that holds the switch and the directory.\<close>

definition new_diagnostics :: "'l LogFs \<Rightarrow> ('l, unit) dact" where
  "new_diagnostics fs =
     and_then (modify (\<lambda>d. d\<lparr>dg_session := dg_uuids d (dg_issued d), dg_issued := Suc (dg_issued d),
       dg_phase := PHASE_STARTING, dg_unclean := False, dg_snapshot := None\<rparr>)) (\<lambda>_.
     and_then (gets dg_enabled) (\<lambda>enabled.
     and_then (if enabled then begin_lifecycle fs else ok False) (\<lambda>previous_exit_unclean.
     modify (\<lambda>d. d\<lparr>dg_unclean := previous_exit_unclean\<rparr>))))"

definition set_enabled :: "'l LogFs \<Rightarrow> bool \<Rightarrow> ('l, unit) dact" where
  "set_enabled fs enabled =
     and_then (gets dg_enabled) (\<lambda>before.
     if before = enabled then ok ()
     else if enabled then
       and_then (attempt (begin_lifecycle fs)) (\<lambda>lifecycle_result.
       and_then (modify (\<lambda>d. d\<lparr>dg_enabled := True\<rparr>)) (\<lambda>_.
       and_then (record_fixed ''diagnostics_enabled'') (\<lambda>_.
       case lifecycle_result of
         Inr True \<Rightarrow> record_fixed ''previous_exit_unclean_detected''
       | Inr False \<Rightarrow> ok ()
       | Inl _ \<Rightarrow> record_fixed ''lifecycle_marker_unavailable'')))
     else
       and_then (record_fixed ''diagnostics_disabled'') (\<lambda>_.
       and_then (attempt (end_lifecycle fs)) (\<lambda>ended.
       and_then (when_do (isl ended) (record_fixed ''lifecycle_marker_cleanup_failed'')) (\<lambda>_.
       modify (\<lambda>d. d\<lparr>dg_enabled := False\<rparr>)))))"

section \<open>Events\<close>

definition record_app_started :: "build \<Rightarrow> ('l, unit) dact" where
  "record_app_started b =
     and_then (modify (\<lambda>d. d\<lparr>dg_phase := PHASE_RUNNING\<rparr>)) (\<lambda>_.
     when_enabled (say LevelInfo (\<lambda>d. session_words d @ ''event=app_started version='' @ b_version b
       @ '' os='' @ b_os b @ '' arch='' @ b_arch b @ '' previous_exit_unclean='' @ show_bool (dg_unclean d))))"

definition record_connection_started :: "DiagnosticConnection \<Rightarrow> ('l, DiagnosticOperation) dact" where
  "record_connection_started connection =
     and_then new_operation (\<lambda>operation.
     and_then (when_enabled (say LevelInfo (\<lambda>d. operation_words operation d @ connection_started_message connection))) (\<lambda>_.
     ok operation))"

definition record_connection_finished ::
  "DiagnosticOperation \<Rightarrow> Protocol \<Rightarrow> DiagnosticConnectionOutcome \<Rightarrow> ('l, unit) dact" where
  "record_connection_finished operation protocol outcome =
     when_enabled (say (case outcome of OutcomeFailed _ \<Rightarrow> LevelWarn | _ \<Rightarrow> LevelInfo) (\<lambda>d.
       operation_words operation d @ connection_finished_message protocol outcome (elapsed_ms operation d)))"

definition record_session_disconnected :: "DiagnosticError option \<Rightarrow> ('l, unit) dact" where
  "record_session_disconnected error =
     when_enabled (and_then new_operation (\<lambda>operation. case error of
       None \<Rightarrow> say LevelInfo (\<lambda>d. operation_words operation d
         @ ''event=session_disconnected outcome=success duration_ms='' @ show_nat (elapsed_ms operation d))
     | Some error \<Rightarrow> say LevelWarn (\<lambda>d. operation_words operation d
         @ ''event=session_disconnected outcome=failed error_code='' @ error_code_name (de_code error)
         @ '' retryable='' @ show_bool (de_retryable error) @ '' duration_ms='' @ show_nat (elapsed_ms operation d))))"

definition record_transfer_started :: "DiagnosticOperation \<Rightarrow> TransferDirection \<Rightarrow> ('l, unit) dact" where
  "record_transfer_started operation direction =
     when_enabled (say LevelInfo (\<lambda>d. operation_words operation d
       @ ''event=transfer_started direction='' @ transfer_direction_name direction))"

definition record_transfer_retry ::
  "DiagnosticOperation \<Rightarrow> TransferDirection \<Rightarrow> u8 \<Rightarrow> u8 \<Rightarrow> DiagnosticError \<Rightarrow> ('l, unit) dact" where
  "record_transfer_retry operation direction tries limit error =
     when_enabled (say LevelWarn (\<lambda>d. operation_words operation d
       @ ''event=transfer_retry direction='' @ transfer_direction_name direction
       @ '' attempt='' @ show_nat (unat tries) @ '' limit='' @ show_nat (unat limit)
       @ '' error_code='' @ error_code_name (de_code error) @ '' elapsed_ms='' @ show_nat (elapsed_ms operation d)))"

definition record_transfer_completed :: "DiagnosticOperation \<Rightarrow> TransferDirection \<Rightarrow> u8 \<Rightarrow> ('l, unit) dact" where
  "record_transfer_completed operation direction retry_count =
     when_enabled (say LevelInfo (\<lambda>d. operation_words operation d
       @ ''event=transfer_finished direction='' @ transfer_direction_name direction
       @ '' outcome=completed retries='' @ show_nat (unat retry_count)
       @ '' duration_ms='' @ show_nat (elapsed_ms operation d)))"

definition record_transfer_failed :: "DiagnosticOperation \<Rightarrow> TransferDirection \<Rightarrow> DiagnosticError \<Rightarrow> ('l, unit) dact" where
  "record_transfer_failed operation direction error =
     when_enabled (say LevelWarn (\<lambda>d. operation_words operation d
       @ ''event=transfer_finished direction='' @ transfer_direction_name direction
       @ '' outcome=failed error_code='' @ error_code_name (de_code error)
       @ '' retryable='' @ show_bool (de_retryable error) @ '' duration_ms='' @ show_nat (elapsed_ms operation d)))"

definition record_search_started :: "SearchScope \<Rightarrow> ('l, DiagnosticOperation) dact" where
  "record_search_started scope =
     and_then new_operation (\<lambda>operation.
     and_then (when_enabled (say LevelInfo (\<lambda>d. operation_words operation d
       @ ''event=search_started scope='' @ scope_name scope))) (\<lambda>_. ok operation))"

definition record_search_finished :: "DiagnosticOperation \<Rightarrow> SearchScope \<Rightarrow> ErrorCode option \<Rightarrow> ('l, unit) dact" where
  "record_search_finished operation scope error =
     when_enabled (case error of
       Some c \<Rightarrow> say LevelWarn (\<lambda>d. operation_words operation d @ ''event=search_finished scope='' @ scope_name scope
         @ '' outcome=failed error_code='' @ error_code_name c @ '' duration_ms='' @ show_nat (elapsed_ms operation d))
     | None \<Rightarrow> say LevelInfo (\<lambda>d. operation_words operation d @ ''event=search_finished scope='' @ scope_name scope
         @ '' outcome=success duration_ms='' @ show_nat (elapsed_ms operation d)))"

definition record_panic :: "(string \<times> u32) option \<Rightarrow> ('l, unit) dact" where
  "record_panic location =
     when_enabled (say LevelError (\<lambda>d. case sanitized_panic_location location of (component, line) \<Rightarrow>
       session_words d @ ''event=panic component='' @ component @ '' line='' @ show_nat (unat line)
       @ '' lifecycle_phase='' @ lifecycle_phase_name (dg_phase d)))"

definition record_clean_shutdown :: "'l LogFs \<Rightarrow> ('l, unit) dact" where
  "record_clean_shutdown fs =
     and_then (gets dg_phase) (\<lambda>phase.
     and_then (modify (\<lambda>d. d\<lparr>dg_phase := PHASE_SHUTTING_DOWN\<rparr>)) (\<lambda>_.
     if phase = PHASE_SHUTTING_DOWN then ok ()
     else
       and_then (record_fixed ''app_shutdown_clean'') (\<lambda>_.
       and_then (attempt (end_lifecycle fs)) (\<lambda>ended.
       when_do (isl ended) (record_fixed ''lifecycle_marker_cleanup_failed'')))))"

text \<open>The log is off while its files are worked on.\<close>

definition with_log_off :: "('l, 'a) act \<Rightarrow> ('l, bool \<times> 'a result) dact" where
  "with_log_off m =
     and_then (gets dg_enabled) (\<lambda>was_enabled.
     and_then (modify (\<lambda>d. d\<lparr>dg_enabled := False\<rparr>)) (\<lambda>_.
     and_then (attempt (on_disk_of m)) (\<lambda>r.
     and_then (modify (\<lambda>d. d\<lparr>dg_enabled := was_enabled\<rparr>)) (\<lambda>_. ok (was_enabled, r)))))"

definition clear_logs :: "(string \<Rightarrow> bool) \<Rightarrow> 'l LogFs \<Rightarrow> ('l, unit) dact" where
  "clear_logs stamp fs =
     and_then (gets dg_log_dir) (\<lambda>dir.
     and_then (with_log_off (clear_diagnostics_logs stamp fs dir)) (\<lambda>(_, r). lift_result r))"

definition active_log_path :: "('l, string) dact" where
  "active_log_path = gets (\<lambda>d. path_push (dg_log_dir d) ACTIVE_LOG_FILE_NAME)"

section \<open>The support bundle\<close>

definition open_diagnostic_log :: "'l LogFs \<Rightarrow> string \<Rightarrow> ('l, unit) act" where
  "open_diagnostic_log fs path =
     and_then (managed (g_symlink_metadata fs path)) (\<lambda>meta.
     if \<not> safe_regular_file meta then err (invalid_log_entry ''A diagnostic log file is unsafe'')
     else managed (g_open fs path))"

definition read_support_log :: "'l LogFs \<Rightarrow> string \<Rightarrow> ('l, SupportLog) act" where
  "read_support_log fs path = (case file_name path of
      None \<Rightarrow> err (invalid_log_entry ''A diagnostic log name is invalid'')
    | Some name \<Rightarrow>
        if \<not> utf8_valid name then err (invalid_log_entry ''A diagnostic log name is invalid'')
        else
          and_then (open_diagnostic_log fs path) (\<lambda>_.
          and_then (managed (g_handle_metadata fs path)) (\<lambda>meta.
          if \<not> safe_regular_file meta then err (invalid_log_entry ''A diagnostic log file is unsafe'')
          else if MAX_LOG_FILE_BYTES < lm_len meta
          then err (invalid_log_entry ''A diagnostic log file exceeds the retention limit'')
          else and_then (managed (g_read_to_end fs path)) (\<lambda>bytes.
            ok \<lparr>slog_name = name, slog_contents = bytes\<rparr>))))"

text \<open>The active log first, the others by descending name.\<close>

definition newest_first :: "(DiagnosticsLogKind \<times> string) list \<Rightarrow> (DiagnosticsLogKind \<times> string) list" where
  "newest_first candidates =
     filter (\<lambda>c. fst c = ActiveLog) candidates
     @ rev (sort_key (\<lambda>c. file_name (snd c)) (rev (filter (\<lambda>c. fst c \<noteq> ActiveLog) candidates)))"

definition find_candidates ::
  "(string \<Rightarrow> bool) \<Rightarrow> string \<Rightarrow> (io_error + string) list \<Rightarrow> ('l, (DiagnosticsLogKind \<times> string) list) act" where
  "find_candidates stamp dir items =
     and_then (collect_each (\<lambda>item. managed (lift_result item)) items) (\<lambda>names.
     ok (List.map_filter (\<lambda>name. let path = path_push dir name
       in map_option (\<lambda>kind. (kind, path)) (diagnostics_log_kind stamp path)) names))"

definition collect_support_logs :: "(string \<Rightarrow> bool) \<Rightarrow> 'l LogFs \<Rightarrow> string \<Rightarrow> ('l, SupportLog list) act" where
  "collect_support_logs stamp fs dir =
     and_then (managed (g_symlink_metadata fs dir)) (\<lambda>meta.
     if lm_is_symlink meta \<or> \<not> lm_is_dir meta then err log_directory_unsafe
     else
       and_then (managed (g_read_dir fs dir)) (\<lambda>items.
       and_then (find_candidates stamp dir items) (\<lambda>candidates.
       collect_each (\<lambda>(_, path). read_support_log fs path)
         (take MAX_SUPPORT_LOG_FILES (newest_first candidates)))))"

definition log_file_of :: "(bytes \<Rightarrow> string) \<Rightarrow> SupportLog \<Rightarrow> SupportBundleLogFile" where
  "log_file_of sha256_hex entry = \<lparr>slf_name = slog_name entry, slf_bytes = length (slog_contents entry),
     slf_sha256 = sha256_hex (slog_contents entry)\<rparr>"

definition bundle_preview :: "build \<Rightarrow> (bytes \<Rightarrow> string) \<Rightarrow> SupportBundleSnapshot \<Rightarrow> SupportBundlePreview" where
  "bundle_preview b sha256_hex snapshot =
     (let log_files = map (log_file_of sha256_hex) (sn_files snapshot)
      in \<lparr>pv_preview_id = sn_id snapshot, pv_created_at_utc = sn_created_at_utc snapshot,
          pv_bundle_schema_version = SUPPORT_BUNDLE_SCHEMA_VERSION,
          pv_diagnostics_schema_version = DIAGNOSTICS_SCHEMA_VERSION, pv_app_version = b_version b,
          pv_operating_system = b_os b, pv_architecture = b_arch b,
          pv_diagnostics_enabled = sn_diagnostics_enabled snapshot, pv_log_files = log_files,
          pv_total_log_bytes = sum_list (map slf_bytes log_files),
          pv_included_data = SUPPORT_BUNDLE_INCLUDED_DATA, pv_excluded_data = SUPPORT_BUNDLE_EXCLUDED_DATA\<rparr>)"

definition support_bundle_preview ::
  "(string \<Rightarrow> bool) \<Rightarrow> build \<Rightarrow> (bytes \<Rightarrow> string) \<Rightarrow> 'l LogFs \<Rightarrow> ('l, SupportBundlePreview) dact" where
  "support_bundle_preview stamp b sha256_hex fs =
     and_then (gets dg_log_dir) (\<lambda>dir.
     and_then (with_log_off (collect_support_logs stamp fs dir)) (\<lambda>(was_enabled, r).
     and_then (lift_result r) (\<lambda>collected.
     and_then (\<lambda>d. (Inr (dg_uuids d (dg_issued d)), d\<lparr>dg_issued := Suc (dg_issued d)\<rparr>)) (\<lambda>uid.
     and_then (gets (\<lambda>d. \<lparr>sn_id = uid, sn_created_at_utc = dg_utc d, sn_diagnostics_enabled = was_enabled,
       sn_app_session_id = dg_session d, sn_files = collected\<rparr>)) (\<lambda>snapshot.
     and_then (modify (\<lambda>d. d\<lparr>dg_snapshot := Some snapshot\<rparr>)) (\<lambda>_.
     ok (bundle_preview b sha256_hex snapshot)))))))"

definition support_bundle_zip_error :: "string \<Rightarrow> AppError" where
  "support_bundle_zip_error source = with_detail (new_error IoError ''Could not create the support bundle'') source"

definition path_starts_with :: "string \<Rightarrow> string \<Rightarrow> bool" where
  "path_starts_with base path \<longleftrightarrow> take (length (components base)) (components path) = components base"

definition validate_support_bundle_destination :: "'l LogFs \<Rightarrow> string \<Rightarrow> string \<Rightarrow> ('l, string) act" where
  "validate_support_bundle_destination fs dir destination =
     (if \<not> (case path_extension destination of
          Some ext \<Rightarrow> utf8_valid ext \<and> eq_ignore_ascii_case ext ''zip'' | None \<Rightarrow> False)
      then err (new_error InvalidInput ''Support bundles must use the .zip extension'')
      else case path_parent destination of
        None \<Rightarrow> err (new_error InvalidInput ''The support bundle destination is invalid'')
      | Some parent \<Rightarrow>
          and_then (managed (g_canonicalize fs parent)) (\<lambda>canonical_parent.
          and_then (managed (g_canonicalize fs dir)) (\<lambda>canonical_log_dir.
          if path_starts_with canonical_log_dir canonical_parent
          then err (new_error InvalidInput ''Support bundles cannot be saved in the diagnostic log directory'')
          else inspect fs destination (ok parent) (\<lambda>meta.
            if \<not> safe_regular_file meta
            then err (new_error InvalidInput ''The support bundle destination is unsafe'') else ok parent))))"

definition manifest_of :: "build \<Rightarrow> (bytes \<Rightarrow> string) \<Rightarrow> SupportBundleSnapshot \<Rightarrow> SupportBundleManifest" where
  "manifest_of b sha256_hex snapshot = \<lparr>mf_bundle_schema_version = SUPPORT_BUNDLE_SCHEMA_VERSION,
     mf_diagnostics_schema_version = DIAGNOSTICS_SCHEMA_VERSION, mf_created_at_utc = sn_created_at_utc snapshot,
     mf_app_version = b_version b, mf_operating_system = b_os b, mf_architecture = b_arch b,
     mf_diagnostics_enabled_when_reviewed = sn_diagnostics_enabled snapshot,
     mf_app_session_id = sn_app_session_id snapshot, mf_included_data = SUPPORT_BUNDLE_INCLUDED_DATA,
     mf_excluded_data = SUPPORT_BUNDLE_EXCLUDED_DATA, mf_log_files = map (log_file_of sha256_hex) (sn_files snapshot)\<rparr>"

definition zip_member :: "'l archiver \<Rightarrow> string \<Rightarrow> string \<Rightarrow> bytes \<Rightarrow> ('l, unit) act" where
  "zip_member ar archive name bytes =
     and_then (map_err support_bundle_zip_error (zip_start_file ar archive name)) (\<lambda>_.
     managed (zip_write_all ar archive bytes))"

definition write_members :: "'l archiver \<Rightarrow> string \<Rightarrow> bytes \<Rightarrow> SupportLog list \<Rightarrow> ('l, unit) act" where
  "write_members ar archive manifest_json logs =
     and_then (zip_member ar archive ''manifest.json'' manifest_json) (\<lambda>_.
     and_then (for_each (\<lambda>entry. zip_member ar archive (''logs/'' @ slog_name entry) (slog_contents entry)) logs) (\<lambda>_.
     map_err support_bundle_zip_error (zip_finish ar archive)))"

text \<open>A temporary file that was not moved is removed when the function returns.\<close>

definition or_drop :: "'l LogFs \<Rightarrow> string \<Rightarrow> ('l, 'a) act \<Rightarrow> ('l, 'a) act" where
  "or_drop fs temp m = and_then (attempt m) (\<lambda>r. case r of
      Inr x \<Rightarrow> ok x | Inl e \<Rightarrow> and_then (attempt (g_remove_file fs temp)) (\<lambda>_. err e))"

definition write_support_bundle ::
  "build \<Rightarrow> 'l bundle_crates \<Rightarrow> 'l LogFs \<Rightarrow> string \<Rightarrow> string \<Rightarrow> SupportBundleSnapshot \<Rightarrow> ('l, unit) act" where
  "write_support_bundle b bc fs dir destination snapshot =
     and_then (validate_support_bundle_destination fs dir destination) (\<lambda>parent.
     and_then (lift_result (map_sum (\<lambda>source. with_detail
         (new_error InternalError ''Could not serialize the support bundle manifest'') source) id
         (bc_manifest_json bc (manifest_of b (bc_sha256_hex bc) snapshot)))) (\<lambda>manifest_json.
     and_then (managed (g_temp_in fs parent)) (\<lambda>temporary.
     and_then (or_drop fs temporary (
       and_then (write_members (bc_zip bc) temporary manifest_json (sn_files snapshot)) (\<lambda>_.
       and_then (managed (g_sync_all fs temporary)) (\<lambda>_.
       managed (g_persist fs temporary destination))))) (\<lambda>_.
     restrict_file_permissions fs destination))))"

definition export_support_bundle ::
  "build \<Rightarrow> 'l bundle_crates \<Rightarrow> 'l LogFs \<Rightarrow> uuid \<Rightarrow> string \<Rightarrow> ('l, unit) dact" where
  "export_support_bundle b bc fs preview_id destination =
     and_then (gets (\<lambda>d. (dg_log_dir d, dg_snapshot d))) (\<lambda>(dir, snapshot). case snapshot of
       Some reviewed \<Rightarrow>
         if sn_id reviewed = preview_id then
           and_then (on_disk_of (write_support_bundle b bc fs dir destination reviewed)) (\<lambda>_.
           modify (\<lambda>d. d\<lparr>dg_snapshot := None\<rparr>))
         else err (new_error InvalidInput ''Review the support bundle again before exporting it'')
     | None \<Rightarrow> err (new_error InvalidInput ''Review the support bundle again before exporting it''))"

end
