(* ===== verification/Diagnostics_Laws.thy ===== *)
theory Diagnostics_Laws
  imports Diagnostics Memory_Store
begin

text \<open>
  What the diagnostic log may say, what a support bundle holds, what clearing the logs leaves, and when the next
  start reports that the last run did not end.
\<close>

section \<open>The words of the log\<close>

text \<open>All that a line can say apart from numbers, identifiers and the build.\<close>

definition log_words :: "string list" where
  "log_words =
     [''app_started'', ''connection_started'', ''connection_finished'', ''session_disconnected'', ''transfer_started'',
      ''transfer_retry'', ''transfer_finished'', ''search_started'', ''search_finished'', ''panic'',
      ''app_shutdown_clean'', ''lifecycle_marker_cleanup_failed'', ''lifecycle_marker_unavailable'',
      ''previous_exit_unclean_detected'', ''diagnostics_enabled'', ''diagnostics_disabled'']
     @ [''true'', ''false'', ''connected'', ''host_trust_required'', ''credential_required'', ''failed'', ''success'', ''completed'']
     @ map auth_name [AnonymousAuth, PasswordAuth, PrivateKeyAuth, AgentAuth] @ map protocol_name [Sftp, Ftp, Ftps]
     @ map transfer_direction_name [Upload, Download, RemoteToRemote] @ map scope_name [LocalScope, RemoteScope]
     @ map error_code_name [InvalidInput, NotFound, AlreadyExists, PermissionDenied, AuthenticationFailed, HostKeyUnknown,
         HostKeyChanged, ConnectionFailed, ConnectionClosed, TimedOut, Conflict, Unsupported, SecretStoreUnavailable,
         StorageError, IoError, InternalError]
     @ [''unknown'', ''sftp'', ''ftp'', ''core'', ''app_backend'', ''dependency_or_runtime'']
     @ [''starting'', ''running'', ''shutting_down'']"

text \<open>The names of its fields.\<close>

definition log_keys :: "string list" where
  "log_keys = [''schema'', ''app_session_id'', ''operation_id'', ''event'', ''version'', ''os'', ''arch'',
     ''previous_exit_unclean'', ''protocol'', ''auth'', ''proxy'', ''proxy_jump'', ''custom_algorithms'',
     ''outcome'', ''changed_key'', ''duration_ms'', ''error_code'', ''retryable'', ''direction'', ''attempt'',
     ''limit'', ''elapsed_ms'', ''retries'', ''scope'', ''component'', ''line'', ''lifecycle_phase'']"

definition show_fields :: "(string \<times> string) list \<Rightarrow> string" where
  "show_fields kvs = join '' '' (map (\<lambda>(key, value). key @ ''='' @ value) kvs)"

definition field_ok :: "uuid set \<Rightarrow> build \<Rightarrow> string \<times> string \<Rightarrow> bool" where
  "field_ok U b field \<longleftrightarrow> fst field \<in> set log_keys
     \<and> (snd field \<in> set log_words \<or> (snd field \<noteq> [] \<and> (\<forall>c \<in> set (snd field). is_digit c))
       \<or> (fst field \<in> {''app_session_id'', ''operation_id''} \<and> snd field \<in> U)
       \<or> field \<in> {(''version'', b_version b), (''os'', b_os b), (''arch'', b_arch b)})"

definition plain_line :: "uuid set \<Rightarrow> build \<Rightarrow> string \<Rightarrow> bool" where
  "plain_line U b line \<longleftrightarrow> (\<exists>kvs. line = show_fields kvs \<and> list_all (field_ok U b) kvs)"

lemma words:
  "auth_name a \<in> set log_words" "protocol_name p \<in> set log_words" "transfer_direction_name t \<in> set log_words"
  "scope_name s \<in> set log_words" "error_code_name c \<in> set log_words" "show_bool v \<in> set log_words"
  "lifecycle_phase_name phase \<in> set log_words" "fst (sanitized_panic_location loc) \<in> set log_words"
  unfolding log_words_def
  by ((cases a; simp), (cases p; simp), (cases t; simp), (cases s; simp), (cases c; simp), simp add: show_bool_def,
    simp add: lifecycle_phase_name_def, simp add: sanitized_panic_location_def Let_def split: option.split prod.split)

lemma key_ok:
  "''schema'' \<in> set log_keys" "''app_session_id'' \<in> set log_keys" "''operation_id'' \<in> set log_keys"
  "''event'' \<in> set log_keys" "''version'' \<in> set log_keys" "''os'' \<in> set log_keys"
  "''arch'' \<in> set log_keys" "''previous_exit_unclean'' \<in> set log_keys"
  "''protocol'' \<in> set log_keys" "''auth'' \<in> set log_keys" "''proxy'' \<in> set log_keys"
  "''proxy_jump'' \<in> set log_keys" "''custom_algorithms'' \<in> set log_keys"
  "''outcome'' \<in> set log_keys" "''changed_key'' \<in> set log_keys" "''duration_ms'' \<in> set log_keys"
  "''error_code'' \<in> set log_keys" "''retryable'' \<in> set log_keys" "''direction'' \<in> set log_keys"
  "''attempt'' \<in> set log_keys" "''limit'' \<in> set log_keys" "''elapsed_ms'' \<in> set log_keys"
  "''retries'' \<in> set log_keys" "''scope'' \<in> set log_keys" "''component'' \<in> set log_keys"
  "''line'' \<in> set log_keys" "''lifecycle_phase'' \<in> set log_keys"
  by (simp_all add: log_keys_def)

lemma number_ok: "key \<in> set log_keys \<Longrightarrow> field_ok U b (key, show_nat n)"
  using show_nat_digits[of n] by (simp add: field_ok_def list_all_iff)

lemma word_ok: "value \<in> set log_words \<Longrightarrow> key \<in> set log_keys \<Longrightarrow> field_ok U b (key, value)"
  by (simp add: field_ok_def)

lemmas fields_ok = number_ok words[THEN word_ok] key_ok

lemma plain_fields: "list_all (field_ok U b) kvs \<Longrightarrow> line = show_fields kvs \<Longrightarrow> plain_line U b line"
  by (auto simp: plain_line_def)

text \<open>The identifiers of a state are among the given ones, and so are those of its lines.\<close>

definition plain_log :: "uuid set \<Rightarrow> build \<Rightarrow> 'l Diag \<Rightarrow> bool" where
  "plain_log U b d \<longleftrightarrow> (\<forall>line \<in> snd ` set (dg_lines d). plain_line U b line) \<and> dg_session d \<in> U \<and> range (dg_uuids d) \<subseteq> U"

lemma keeps_say:
  assumes "\<And>d. plain_log U b d \<Longrightarrow> plain_line U b (f d)"
  shows "keeps (plain_log U b) (say level f)"
  using assms by (auto simp: keeps_def say_def log_line_def run_simps plain_log_def)

text \<open>The beginning of a line.\<close>

definition session_fields :: "'l Diag \<Rightarrow> (string \<times> string) list" where
  "session_fields d = [(''schema'', show_nat (unat DIAGNOSTICS_SCHEMA_VERSION)), (''app_session_id'', dg_session d)]"

lemma session_plain:
  assumes "plain_log U b d" "list_all (field_ok U b) kvs" "kvs \<noteq> []" "rest = show_fields kvs"
  shows "plain_line U b (session_words d @ rest)"
proof (rule plain_fields)
  show "list_all (field_ok U b) (session_fields d @ kvs)"
    using assms(1,2) by (simp add: session_fields_def number_ok key_ok) (simp add: field_ok_def plain_log_def key_ok)
  show "session_words d @ rest = show_fields (session_fields d @ kvs)"
    using assms(3) by (cases kvs) (simp_all add: assms(4) session_words_def session_fields_def show_fields_def)
qed

lemma operation_plain:
  assumes "plain_log U b d" "op_id operation \<in> U" "list_all (field_ok U b) kvs" "kvs \<noteq> []" "rest = show_fields kvs"
  shows "plain_line U b (operation_words operation d @ rest)"
proof -
  have "plain_line U b (session_words d @ (''operation_id='' @ op_id operation @ '' '' @ rest))"
    using assms(2-5)
    by (intro session_plain[OF assms(1), where kvs = "(''operation_id'', op_id operation) # kvs"])
      (auto simp: field_ok_def show_fields_def neq_Nil_conv key_ok)
  then show ?thesis by (simp add: operation_words_def)
qed

lemma keeps_log_steps:
  "keeps (plain_log U b) m \<Longrightarrow> keeps (plain_log U b) (when_enabled m)"
  "(\<And>d. plain_log U b (f d) = plain_log U b d) \<Longrightarrow> keeps (plain_log U b) (modify f)"
  "keeps (plain_log U b) (on_disk_of n)"
  by (auto simp: keeps_def when_enabled_def run_simps on_disk_of_def plain_log_def split: prod.splits)

lemma keeps_operation:
  assumes "\<And>operation. op_id operation \<in> U \<Longrightarrow> keeps (plain_log U b) (k operation)"
  shows "keeps (plain_log U b) (and_then new_operation k)"
proof (rule keepsI)
  fix d :: "'a Diag" assume d: "plain_log U b d"
  let ?op = "\<lparr>op_id = dg_uuids d (dg_issued d), op_started_at = dg_millis d\<rparr>"
  have "op_id ?op \<in> U" using d by (auto simp: plain_log_def)
  moreover have "plain_log U b (d\<lparr>dg_issued := Suc (dg_issued d)\<rparr>)" using d by (simp add: plain_log_def)
  ultimately have "plain_log U b (snd (k ?op (d\<lparr>dg_issued := Suc (dg_issued d)\<rparr>)))" by (rule keepsD[OF assms])
  then show "plain_log U b (snd (and_then new_operation k d))" by (simp add: and_then_run new_operation_def)
qed

lemma keeps_fixed: "event \<in> set log_words \<Longrightarrow> keeps (plain_log U b) (record_fixed event)"
  unfolding record_fixed_def
  by (intro keeps_log_steps keeps_say session_plain[where kvs = "[(''event'', event)]"])
    (simp_all add: word_ok key_ok show_fields_def)

lemma fixed_words:
  "''app_shutdown_clean'' \<in> set log_words" "''lifecycle_marker_cleanup_failed'' \<in> set log_words"
  "''lifecycle_marker_unavailable'' \<in> set log_words" "''previous_exit_unclean_detected'' \<in> set log_words"
  "''diagnostics_enabled'' \<in> set log_words" "''diagnostics_disabled'' \<in> set log_words"
  by (simp_all add: log_words_def)

text \<open>What the program records, from the values that the places which record it have at hand.\<close>

datatype event =
    AppStarted
  | ConnectionStarted ConnectionProfile
  | ConnectionFinished DiagnosticOperation Protocol "ConnectResult result"
  | SessionDisconnected "AppError option"
  | TransferBegan DiagnosticOperation TransferDirection
  | TransferTriedAgain DiagnosticOperation TransferDirection u8 u8 AppError
  | TransferCompleted DiagnosticOperation TransferDirection u8
  | TransferGaveUp DiagnosticOperation TransferDirection AppError
  | SearchStarted SearchScope
  | SearchFinished DiagnosticOperation SearchScope "ErrorCode option"
  | Panicked "(string \<times> u32) option"
  | SwitchedTo bool
  | ShutDown

fun record_event :: "build \<Rightarrow> 'l LogFs \<Rightarrow> event \<Rightarrow> ('l, unit) dact" where
  "record_event b fs AppStarted = record_app_started b"
| "record_event b fs (ConnectionStarted profile) =
     and_then (record_connection_started (connection_of profile)) (\<lambda>_. ok ())"
| "record_event b fs (ConnectionFinished operation protocol result) =
     record_connection_finished operation protocol (outcome_of result)"
| "record_event b fs (SessionDisconnected error) = record_session_disconnected (map_option diagnostic_error error)"
| "record_event b fs (TransferBegan operation direction) = record_transfer_started operation direction"
| "record_event b fs (TransferTriedAgain operation direction tries limit error) =
     record_transfer_retry operation direction tries limit (diagnostic_error error)"
| "record_event b fs (TransferCompleted operation direction retries) = record_transfer_completed operation direction retries"
| "record_event b fs (TransferGaveUp operation direction error) =
     record_transfer_failed operation direction (diagnostic_error error)"
| "record_event b fs (SearchStarted scope) = and_then (record_search_started scope) (\<lambda>_. ok ())"
| "record_event b fs (SearchFinished operation scope error) = record_search_finished operation scope error"
| "record_event b fs (Panicked location) = record_panic location"
| "record_event b fs (SwitchedTo enabled) = set_enabled fs enabled"
| "record_event b fs ShutDown = record_clean_shutdown fs"

fun event_operation :: "event \<Rightarrow> uuid set" where
  "event_operation (ConnectionFinished operation _ _) = {op_id operation}"
| "event_operation (TransferBegan operation _) = {op_id operation}"
| "event_operation (TransferTriedAgain operation _ _ _ _) = {op_id operation}"
| "event_operation (TransferCompleted operation _ _) = {op_id operation}"
| "event_operation (TransferGaveUp operation _ _) = {op_id operation}"
| "event_operation (SearchFinished operation _ _) = {op_id operation}"
| "event_operation _ = {}"

lemma finished_plain:
  assumes "plain_log U b d" "op_id operation \<in> U"
  shows "plain_line U b (operation_words operation d @ connection_finished_message protocol outcome n)"
proof -
  let ?start = "[(''event'', ''connection_finished''), (''protocol'', protocol_name protocol)]"
  have word: "x \<in> set log_words" if "x \<in> {''connection_finished'', ''connected'', ''host_trust_required'', ''credential_required'', ''failed''}" for x
    using that by (auto simp: log_words_def)
  show ?thesis
  proof (cases outcome)
    case OutcomeConnected
    then show ?thesis
      by (intro operation_plain[OF assms, where kvs = "?start @ [(''outcome'', ''connected''), (''duration_ms'', show_nat n)]"])
        (simp_all add: fields_ok word_ok word show_fields_def connection_finished_message_def)
  next
    case (OutcomeHostTrustRequired changed)
    then show ?thesis
      by (intro operation_plain[OF assms, where kvs = "?start @ [(''outcome'', ''host_trust_required''),
          (''changed_key'', show_bool changed), (''duration_ms'', show_nat n)]"])
        (simp_all add: fields_ok word_ok word show_fields_def connection_finished_message_def)
  next
    case OutcomeCredentialRequired
    then show ?thesis
      by (intro operation_plain[OF assms, where kvs = "?start @ [(''outcome'', ''credential_required''), (''duration_ms'', show_nat n)]"])
        (simp_all add: fields_ok word_ok word show_fields_def connection_finished_message_def)
  next
    case (OutcomeFailed error)
    then show ?thesis
      by (intro operation_plain[OF assms, where kvs = "?start @ [(''outcome'', ''failed''), (''error_code'', error_code_name (de_code error)),
          (''retryable'', show_bool (de_retryable error)), (''duration_ms'', show_nat n)]"])
        (simp_all add: fields_ok word_ok word show_fields_def connection_finished_message_def)
  qed
qed

text \<open>A line of an operation that shows fields of the log is plain; what is left are its fields.\<close>

lemma keeps_line:
  assumes "op_id operation \<in> U" "\<And>d. rest d = show_fields (kvs d)"
    "\<And>d. list_all (field_ok U b) (kvs d)" "\<And>d. kvs d \<noteq> []"
  shows "keeps (plain_log U b) (say level (\<lambda>d. operation_words operation d @ rest d))"
  using assms by (intro keeps_say operation_plain[where kvs = "kvs _"])

lemma event_words:
  "''connection_started'' \<in> set log_words" "''session_disconnected'' \<in> set log_words" "''transfer_started'' \<in> set log_words"
  "''transfer_retry'' \<in> set log_words" "''transfer_finished'' \<in> set log_words" "''search_started'' \<in> set log_words"
  "''search_finished'' \<in> set log_words" "''success'' \<in> set log_words" "''failed'' \<in> set log_words"
  "''completed'' \<in> set log_words" "''panic'' \<in> set log_words" "''app_started'' \<in> set log_words"
  by (simp_all add: log_words_def)

lemmas shown = fields_ok word_ok event_words show_fields_def

lemma plain_app_started: "keeps (plain_log U b) (record_app_started b)"
proof -
  have "plain_line U b (session_words d @ ''event=app_started version='' @ b_version b
       @ '' os='' @ b_os b @ '' arch='' @ b_arch b @ '' previous_exit_unclean='' @ show_bool (dg_unclean d))"
    if "plain_log U b d" for d :: "'a Diag"
    using that by (intro session_plain[where kvs = "[(''event'', ''app_started''), (''version'', b_version b), (''os'', b_os b),
        (''arch'', b_arch b), (''previous_exit_unclean'', show_bool (dg_unclean d))]"])
      (simp_all add: shown, simp_all add: field_ok_def key_ok)
  then show ?thesis unfolding record_app_started_def
    by (intro keeps_intros keeps_log_steps keeps_say) (simp_all add: plain_log_def)
qed

lemma plain_connection_started: "keeps (plain_log U b) (record_connection_started c)"
  unfolding record_connection_started_def connection_started_message_def
  by (intro keeps_intros keeps_operation keeps_log_steps,
    rule keeps_line[where kvs = "\<lambda>_. [(''event'', ''connection_started''), (''protocol'', protocol_name (dc_protocol c)),
      (''auth'', auth_name (dc_auth c)), (''proxy'', show_bool (dc_proxy c)), (''proxy_jump'', show_bool (dc_proxy_jump c)),
      (''custom_algorithms'', show_bool (dc_custom_algorithms c))]"]) (simp_all add: shown)

lemma plain_connection_finished:
  "op_id operation \<in> U \<Longrightarrow> keeps (plain_log U b) (record_connection_finished operation protocol outcome)"
  unfolding record_connection_finished_def by (intro keeps_log_steps keeps_say finished_plain)

lemma plain_disconnected: "keeps (plain_log U b) (record_session_disconnected error)"
proof -
  have "keeps (plain_log U b) (say LevelInfo (\<lambda>d. operation_words operation d
         @ ''event=session_disconnected outcome=success duration_ms='' @ show_nat (elapsed_ms operation d)))"
    if "op_id operation \<in> U" for operation
    using that by (rule keeps_line[where kvs = "\<lambda>d. [(''event'', ''session_disconnected''), (''outcome'', ''success''),
            (''duration_ms'', show_nat (elapsed_ms operation d))]"]) (simp_all add: shown)
  moreover have "keeps (plain_log U b) (say LevelWarn (\<lambda>d. operation_words operation d
         @ ''event=session_disconnected outcome=failed error_code='' @ error_code_name (de_code e)
         @ '' retryable='' @ show_bool (de_retryable e) @ '' duration_ms='' @ show_nat (elapsed_ms operation d)))"
    if "op_id operation \<in> U" for operation e
    using that by (rule keeps_line[where kvs = "\<lambda>d. [(''event'', ''session_disconnected''), (''outcome'', ''failed''),
            (''error_code'', error_code_name (de_code e)), (''retryable'', show_bool (de_retryable e)),
            (''duration_ms'', show_nat (elapsed_ms operation d))]"]) (simp_all add: shown)
  ultimately show ?thesis unfolding record_session_disconnected_def
    by (intro keeps_log_steps keeps_operation) (cases error; simp only: option.simps)
qed

lemma plain_transfers:
  assumes "op_id operation \<in> U"
  shows "keeps (plain_log U b) (record_transfer_started operation direction)"
    "keeps (plain_log U b) (record_transfer_retry operation direction tries limit e)"
    "keeps (plain_log U b) (record_transfer_completed operation direction retries)"
    "keeps (plain_log U b) (record_transfer_failed operation direction e)"
proof -
  show "keeps (plain_log U b) (record_transfer_started operation direction)"
    unfolding record_transfer_started_def
    by (intro keeps_log_steps, rule keeps_line[OF assms, where kvs = "\<lambda>_. [(''event'', ''transfer_started''),
      (''direction'', transfer_direction_name direction)]"]) (simp_all add: shown)
  show "keeps (plain_log U b) (record_transfer_retry operation direction tries limit e)"
    unfolding record_transfer_retry_def
    by (intro keeps_log_steps, rule keeps_line[OF assms, where kvs = "\<lambda>d. [(''event'', ''transfer_retry''),
      (''direction'', transfer_direction_name direction), (''attempt'', show_nat (unat tries)), (''limit'', show_nat (unat limit)),
      (''error_code'', error_code_name (de_code e)), (''elapsed_ms'', show_nat (elapsed_ms operation d))]"]) (simp_all add: shown)
  show "keeps (plain_log U b) (record_transfer_completed operation direction retries)"
    unfolding record_transfer_completed_def
    by (intro keeps_log_steps, rule keeps_line[OF assms, where kvs = "\<lambda>d. [(''event'', ''transfer_finished''),
      (''direction'', transfer_direction_name direction), (''outcome'', ''completed''), (''retries'', show_nat (unat retries)),
      (''duration_ms'', show_nat (elapsed_ms operation d))]"]) (simp_all add: shown)
  show "keeps (plain_log U b) (record_transfer_failed operation direction e)"
    unfolding record_transfer_failed_def
    by (intro keeps_log_steps, rule keeps_line[OF assms, where kvs = "\<lambda>d. [(''event'', ''transfer_finished''),
      (''direction'', transfer_direction_name direction), (''outcome'', ''failed''), (''error_code'', error_code_name (de_code e)),
      (''retryable'', show_bool (de_retryable e)), (''duration_ms'', show_nat (elapsed_ms operation d))]"]) (simp_all add: shown)
qed

lemma plain_searches:
  "keeps (plain_log U b) (record_search_started scope)"
  "op_id operation \<in> U \<Longrightarrow> keeps (plain_log U b) (record_search_finished operation scope error)"
proof -
  show "keeps (plain_log U b) (record_search_started scope)"
    unfolding record_search_started_def
    by (intro keeps_intros keeps_operation keeps_log_steps,
      rule keeps_line[where kvs = "\<lambda>_. [(''event'', ''search_started''), (''scope'', scope_name scope)]"]) (simp_all add: shown)
  assume U: "op_id operation \<in> U"
  show "keeps (plain_log U b) (record_search_finished operation scope error)"
  proof (cases error)
    case None
    show ?thesis unfolding record_search_finished_def None option.simps
      by (intro keeps_log_steps, rule keeps_line[OF U, where kvs = "\<lambda>d. [(''event'', ''search_finished''), (''scope'', scope_name scope),
        (''outcome'', ''success''), (''duration_ms'', show_nat (elapsed_ms operation d))]"]) (simp_all add: shown)
  next
    case (Some c)
    show ?thesis unfolding record_search_finished_def Some option.simps
      by (intro keeps_log_steps, rule keeps_line[OF U, where kvs = "\<lambda>d. [(''event'', ''search_finished''), (''scope'', scope_name scope),
        (''outcome'', ''failed''), (''error_code'', error_code_name c), (''duration_ms'', show_nat (elapsed_ms operation d))]"])
        (simp_all add: shown)
  qed
qed

lemma plain_panic: "keeps (plain_log U b) (record_panic location)"
proof -
  obtain component line where at: "sanitized_panic_location location = (component, line)" by fastforce
  then have "component \<in> set log_words" using words(8)[of location] by simp
  then show ?thesis unfolding record_panic_def at prod.case
    by (intro keeps_log_steps keeps_say session_plain[where kvs = "[(''event'', ''panic''), (''component'', component),
      (''line'', show_nat (unat line)), (''lifecycle_phase'', lifecycle_phase_name (dg_phase _))]"]) (simp_all add: shown)
qed

lemma plain_switch: "keeps (plain_log U b) (set_enabled fs enabled)" "keeps (plain_log U b) (record_clean_shutdown fs)"
proof -
  have change: "keeps (plain_log U b) (modify (\<lambda>d. d\<lparr>dg_enabled := v\<rparr>))"
    "keeps (plain_log U b) (modify (\<lambda>d. d\<lparr>dg_phase := phase\<rparr>))" for v phase
    by (rule keeps_log_steps, simp add: plain_log_def)+
  have ends: "keeps (plain_log U b) (end_lifecycle fs)" unfolding end_lifecycle_def
    by (intro keeps_intros keeps_log_steps)
  have begins: "keeps (plain_log U b) (begin_lifecycle fs)" unfolding begin_lifecycle_def
    by (auto intro!: keeps_intros keeps_log_steps split: prod.split)
  show "keeps (plain_log U b) (set_enabled fs enabled)" unfolding set_enabled_def
    by (auto intro!: keeps_intros keeps_fixed[OF fixed_words(2)] keeps_fixed[OF fixed_words(3)] keeps_fixed[OF fixed_words(4)]
        keeps_fixed[OF fixed_words(5)] keeps_fixed[OF fixed_words(6)] change ends begins split: sum.split bool.split)
  show "keeps (plain_log U b) (record_clean_shutdown fs)" unfolding record_clean_shutdown_def
    by (intro keeps_intros change ends keeps_fixed fixed_words)
qed

lemma plain_event: "event_operation e \<subseteq> U \<Longrightarrow> keeps (plain_log U b) (record_event b fs e)"
  by (cases e) (auto intro!: keeps_and_then keeps_ok plain_app_started plain_connection_started plain_connection_finished
    plain_disconnected plain_transfers plain_searches plain_panic plain_switch)

section \<open>The log directory\<close>

text \<open>What is relied on of the file system: \<open>view\<close> is the content of the regular files, which have one link each.\<close>

text \<open>\<open>dir\<close> is the directory of the log.\<close>

locale log_files =
  fixes fs :: "'l LogFs" and view :: "'l \<Rightarrow> string \<rightharpoonup> bytes" and dir :: string
  assumes looks_same: "view (snd (g_symlink_metadata fs p s)) = view s" "view (snd (g_handle_metadata fs p s)) = view s"
      "view (snd (g_read_dir fs p s)) = view s" "view (snd (g_open_write fs p s)) = view s"
      "view (snd (g_sync_all fs p s)) = view s" "view (snd (g_set_permissions fs p mode s)) = view s"
    and meta_safe: "g_symlink_metadata fs p s = (Inr meta, s') \<Longrightarrow> safe_regular_file meta = (view s p \<noteq> None)"
    and meta_dir: "g_symlink_metadata fs p s = (Inr meta, s') \<Longrightarrow> lm_is_dir meta \<Longrightarrow> \<not> lm_is_file meta"
    and meta_absent: "g_symlink_metadata fs p s = (Inl e, s') \<Longrightarrow> io_kind e = IoNotFound \<Longrightarrow> view s p = None"
    and dir_absent: "g_symlink_metadata fs dir s = (Inl e, s') \<Longrightarrow> io_kind e = IoNotFound \<Longrightarrow> plain_segment name \<Longrightarrow>
      view s (path_push dir name) = None"
    and handle_safe: "g_handle_metadata fs p s = (Inr meta, s') \<Longrightarrow> safe_regular_file meta = (view s p \<noteq> None)"
    and create_ok: "g_create_new fs p s = (Inr u, s') \<Longrightarrow> view s' = (view s)(p \<mapsto> [])"
    and truncate_ok: "g_open_truncate fs p s = (Inr u, s') \<Longrightarrow> view s p \<noteq> None \<Longrightarrow> view s' = (view s)(p \<mapsto> [])"
    and write_ok: "g_write_all fs p data s = (Inr u, s') \<Longrightarrow> view s p \<noteq> None \<Longrightarrow> \<exists>c. view s' = (view s)(p \<mapsto> c)"
    and set_len_ok: "g_set_len fs p 0 s = (Inr u, s') \<Longrightarrow> view s p \<noteq> None \<Longrightarrow> view s' = (view s)(p \<mapsto> [])"
    and remove_ok: "g_remove_file fs p s = (Inr u, s') \<Longrightarrow> view s' = (view s)(p := None)"
    and remove_absent: "g_remove_file fs p s = (Inl e, s') \<Longrightarrow> io_kind e = IoNotFound \<Longrightarrow> view s' = (view s)(p := None)"
    and listed: "g_read_dir fs dir s = (Inr items, s') \<Longrightarrow> plain_segment name \<Longrightarrow> view s (path_push dir name) \<noteq> None \<Longrightarrow> Inr name \<in> set items"
begin

lemma inspect_Inr:
  assumes "inspect fs p absent there s = (Inr x, s')"
  obtains (absent) s1 where "view s1 = view s" "view s p = None" "absent s1 = (Inr x, s')"
      "\<And>name. p = dir \<Longrightarrow> plain_segment name \<Longrightarrow> view s (path_push dir name) = None"
  | (there) meta s1 where "view s1 = view s" "safe_regular_file meta = (view s p \<noteq> None)"
      "lm_is_dir meta \<Longrightarrow> view s p = None" "there meta s1 = (Inr x, s')"
proof -
  obtain r s1 where look: "g_symlink_metadata fs p s = (r, s1)" by fastforce
  have same: "view s1 = view s" using looks_same(1)[of p s] look by simp
  show thesis
  proof (cases r)
    case (Inl e)
    then have "io_kind e = IoNotFound" "absent s1 = (Inr x, s')"
      using assms look by (auto simp: inspect_def run_simps split: if_splits)
    with look[unfolded Inl] show thesis by (intro absent[OF same]) (auto dest: meta_absent dir_absent)
  next
    case (Inr meta)
    then have "there meta s1 = (Inr x, s')" using assms look by (simp add: inspect_def run_simps)
    moreover have "safe_regular_file meta = (view s p \<noteq> None)" using meta_safe look Inr by simp
    moreover from this have "view s p = None" if "lm_is_dir meta"
      using that meta_dir look Inr by (auto simp: safe_regular_file_def)
    ultimately show thesis using there[OF same] by blast
  qed
qed

lemma managed_Inr: "managed m s = (Inr x, s') \<longleftrightarrow> m s = (Inr x, s')"
  by (auto simp: map_err_run split: prod.splits sum.splits)

lemma restrict_same: "restrict_file_permissions fs p s = (Inr u, s') \<Longrightarrow> view s' = view s"
  using looks_same(6)[of p "0x180" s] by (auto simp: restrict_file_permissions_def managed_Inr)

lemma remove_entry_Inr:
  assumes "remove_log_entry fs p s = (Inr u, s')"
  shows "view s' = (view s)(p := None)"
  using assms unfolding remove_log_entry_def
proof (cases rule: inspect_Inr)
  case absent
  then show ?thesis by (auto simp: ok_run fun_eq_iff)
next
  case (there meta s1)
  obtain r s2 where removed: "g_remove_file fs p s1 = (r, s2)" by fastforce
  have "s' = s2" "\<And>e. r = Inl e \<Longrightarrow> io_kind e = IoNotFound"
    using there(4) removed by (auto simp: run_simps split: if_splits sum.splits)
  then show ?thesis using removed remove_ok remove_absent there(1) by (cases r) auto
qed

lemma create_private_Inr:
  assumes "create_private_log fs p s = (Inr u, s')"
  shows "view s' = (view s)(p \<mapsto> [])"
  using assms unfolding create_private_log_def
  by (auto simp: managed_Inr dest!: create_ok restrict_same elim!: and_then_InrD)

lemma reset_log_Inr:
  assumes "reset_active_log fs p s = (Inr u, s')"
  shows "view s' = (view s)(p \<mapsto> [])"
  using assms unfolding reset_active_log_def
proof (cases rule: inspect_Inr)
  case absent
  then show ?thesis using create_private_Inr by metis
next
  case (there meta s1)
  show ?thesis
  proof (cases "view s p = None")
    case True
    then obtain s2 u' where "g_remove_file fs p s1 = (Inr u', s2)" "create_private_log fs p s2 = (Inr u, s')"
      using there by (auto simp: managed_Inr err_run split: if_splits elim!: and_then_InrD)
    then show ?thesis using remove_ok create_private_Inr there(1) by fastforce
  next
    case False
    then obtain s2 s3 opened u1 where steps: "g_open_write fs p s1 = (Inr u1, s2)" "g_handle_metadata fs p s2 = (Inr opened, s3)"
      and rest: "(if \<not> safe_regular_file opened then
         and_then (managed (g_remove_file fs p)) (\<lambda>_. create_private_log fs p)
       else and_then (managed (g_set_len fs p 0)) (\<lambda>_. restrict_file_permissions fs p)) s3 = (Inr u, s')"
      using there by (auto simp: managed_Inr elim!: and_then_InrD)
    have same: "view s2 = view s" "view s3 = view s"
      using looks_same(4)[of p s1] looks_same(2)[of p s2] steps there(1) by simp_all
    then have "safe_regular_file opened" using handle_safe[OF steps(2)] False by simp
    with rest obtain s4 u2 where "g_set_len fs p 0 s3 = (Inr u2, s4)" "restrict_file_permissions fs p s4 = (Inr u, s')"
      by (auto simp: managed_Inr elim!: and_then_InrD)
    then show ?thesis using set_len_ok[of p s3 u2 s4] restrict_same same False by simp
  qed
qed

end

text \<open>What clearing leaves of a path of the directory.\<close>

definition cleared :: "DiagnosticsLogKind option \<Rightarrow> bytes option \<Rightarrow> bytes option \<Rightarrow> bool" where
  "cleared kind before after = (case kind of
      Some ActiveLog \<Rightarrow> after = None \<or> after = Some [] | Some _ \<Rightarrow> after = None | None \<Rightarrow> after = before)"

definition clear_log_at :: "(string \<Rightarrow> bool) \<Rightarrow> 'l LogFs \<Rightarrow> string \<Rightarrow> ('l, unit) act" where
  "clear_log_at stamp fs path = (case diagnostics_log_kind stamp path of
      Some ActiveLog \<Rightarrow> reset_active_log fs path | Some _ \<Rightarrow> remove_log_entry fs path | None \<Rightarrow> ok ())"

context log_files
begin

lemma clear_log_at_Inr:
  assumes "clear_log_at stamp fs p s = (Inr u, s')"
  shows "cleared (diagnostics_log_kind stamp p) (view s p) (view s' p) \<and> (\<forall>q. q \<noteq> p \<longrightarrow> view s' q = view s q)"
  using assms by (auto simp: clear_log_at_def cleared_def ok_run split: option.splits DiagnosticsLogKind.splits
      dest!: remove_entry_Inr reset_log_Inr)

lemma clear_each_Inr:
  assumes "each_log dir (clear_log_at stamp fs) items s = (Inr u, s')"
  shows "(\<forall>q. (\<forall>name. Inr name \<in> set items \<longrightarrow> q \<noteq> path_push dir name) \<longrightarrow> view s' q = view s q)
    \<and> (\<forall>name. Inr name \<in> set items \<longrightarrow>
        cleared (diagnostics_log_kind stamp (path_push dir name)) (view s (path_push dir name)) (view s' (path_push dir name)))"
  using assms
proof (induction items arbitrary: s)
  case Nil
  then show ?case by (simp add: each_log_def ok_run)
next
  case (Cons item items)
  from Cons.prems obtain name s1 u1 where item: "item = Inr name" and one: "clear_log_at stamp fs (path_push dir name) s = (Inr u1, s1)"
    and rest: "each_log dir (clear_log_at stamp fs) items s1 = (Inr u, s')"
    by (auto simp: each_log_def managed_Inr lift_result_run elim!: and_then_InrD)
  let ?p = "path_push dir name" and ?kind = "\<lambda>n. diagnostics_log_kind stamp (path_push dir n)"
  note ih = Cons.IH[OF rest] and first = clear_log_at_Inr[OF one]
  have "cleared (?kind n) (view s (path_push dir n)) (view s' (path_push dir n))" if "Inr n \<in> set (item # items)" for n
  proof (cases "path_push dir n = ?p")
    case True
    show ?thesis
    proof (cases "\<exists>m. Inr m \<in> set items \<and> path_push dir m = ?p")
      case again: True
      then have "cleared (?kind n) (view s1 ?p) (view s' ?p)" using ih True by metis
      then show ?thesis using first True by (auto simp: cleared_def split: option.splits DiagnosticsLogKind.splits)
    next
      case False
      then have "view s' ?p = view s1 ?p" using ih by metis
      then show ?thesis using first True by simp
    qed
  next
    case False
    then have "Inr n \<in> set items" using that item by auto
    then show ?thesis using ih first False by metis
  qed
  moreover have "view s' q = view s q" if "\<forall>n. Inr n \<in> set (item # items) \<longrightarrow> q \<noteq> path_push dir n" for q
    using that ih first item by simp
  ultimately show ?case by blast
qed

lemma clear_Inr:
  assumes "clear_diagnostics_logs stamp fs dir s = (Inr u, s')"
  shows "(\<forall>q. (\<forall>name. q \<noteq> path_push dir name) \<longrightarrow> view s' q = view s q)
    \<and> (\<forall>name. plain_segment name \<longrightarrow>
      cleared (diagnostics_log_kind stamp (path_push dir name)) (view s (path_push dir name)) (view s' (path_push dir name)))"
  using assms unfolding clear_diagnostics_logs_def
proof (cases rule: inspect_Inr)
  case (absent s1)
  then have "view s' = view s" by (simp add: ok_run)
  then show ?thesis using absent(4) by (auto simp: cleared_def split: option.split DiagnosticsLogKind.split)
next
  case (there meta s1)
  have one: "(\<lambda>path. case diagnostics_log_kind stamp path of Some ActiveLog \<Rightarrow> reset_active_log fs path
      | Some _ \<Rightarrow> remove_log_entry fs path | None \<Rightarrow> ok ()) = clear_log_at stamp fs"
    by (rule ext) (simp add: clear_log_at_def)
  obtain items s2 where items: "g_read_dir fs dir s1 = (Inr items, s2)" and each: "each_log dir (clear_log_at stamp fs) items s2 = (Inr u, s')"
    using there(4) unfolding one by (auto simp: managed_Inr err_run split: if_splits elim!: and_then_InrD)
  have same: "view s2 = view s" using looks_same(3)[of dir s1] items there(1) by simp
  have "cleared (diagnostics_log_kind stamp (path_push dir name)) (view s (path_push dir name)) (view s' (path_push dir name))"
    if "plain_segment name" for name
  proof (cases "\<exists>n. Inr n \<in> set items \<and> path_push dir n = path_push dir name")
    case True
    then show ?thesis using clear_each_Inr[OF each] same by metis
  next
    case False
    then have "view s' (path_push dir name) = view s (path_push dir name)" using clear_each_Inr[OF each] same by metis
    moreover have "view s (path_push dir name) = None"
      using False listed[OF items that] unfolding there(1) by blast
    ultimately show ?thesis by (auto simp: cleared_def split: option.split DiagnosticsLogKind.split)
  qed
  moreover have "view s' q = view s q" if "\<forall>name. q \<noteq> path_push dir name" for q
    using that clear_each_Inr[OF each] same by metis
  ultimately show ?thesis by blast
qed

text \<open>The marker.\<close>

lemma create_marker_Inr:
  assumes "create_lifecycle_marker fs p uid s = (Inr u, s')"
  shows "view s' p \<noteq> None"
proof -
  from assms obtain s1 s2 s3 u1 u2 u3 where steps: "g_create_new fs p s = (Inr u1, s1)" "g_write_all fs p uid s1 = (Inr u2, s2)"
    "g_sync_all fs p s2 = (Inr u3, s3)" "restrict_file_permissions fs p s3 = (Inr u, s')"
    by (auto simp: create_lifecycle_marker_def managed_Inr elim!: and_then_InrD)
  have "view s2 p \<noteq> None" using create_ok[OF steps(1)] write_ok[OF steps(2)] by auto
  then show ?thesis using looks_same(5)[of p s2] steps(3) restrict_same[OF steps(4)] by simp
qed

lemma marker_existed_Inr:
  assumes "marker_existed fs p s = (Inr existed, s')"
  shows "existed = (view s p \<noteq> None) \<and> view s' = view s"
  using assms unfolding marker_existed_def
proof (cases rule: inspect_Inr)
  case absent
  then show ?thesis by (simp add: ok_run)
next
  case (there meta s1)
  show ?thesis
  proof (cases "safe_regular_file meta")
    case True
    then show ?thesis using there by (auto simp: ok_run err_run split: if_splits)
  next
    case False
    then obtain u where "remove_log_entry fs p s1 = (Inr u, s')" "existed = False"
      using there(4) by (auto simp: ok_run err_run split: if_splits elim!: and_then_InrD)
    then show ?thesis using remove_entry_Inr[of p s1 u s'] there(1,2) False by (auto simp: fun_eq_iff)
  qed
qed

lemma reset_marker_Inr:
  assumes "reset_lifecycle_marker fs p uid s = (Inr existed, s')"
  shows "existed = (view s p \<noteq> None) \<and> view s' p \<noteq> None"
proof -
  from assms obtain before s1 where looked: "marker_existed fs p s = (Inr before, s1)"
    and rest: "(if before then
       and_then (managed (g_open_truncate fs p)) (\<lambda>_.
       and_then (managed (g_handle_metadata fs p)) (\<lambda>meta.
       if \<not> safe_regular_file meta then
         and_then (remove_log_entry fs p) (\<lambda>_. and_then (create_lifecycle_marker fs p uid) (\<lambda>_. ok True))
       else
         and_then (managed (g_write_all fs p uid)) (\<lambda>_.
         and_then (managed (g_sync_all fs p)) (\<lambda>_.
         and_then (restrict_file_permissions fs p) (\<lambda>_. ok True)))))
     else and_then (create_lifecycle_marker fs p uid) (\<lambda>_. ok False)) s1 = (Inr existed, s')"
    by (auto simp: reset_lifecycle_marker_def elim!: and_then_InrD)
  note b = marker_existed_Inr[OF looked]
  show ?thesis
  proof (cases before)
    case False
    then show ?thesis using rest b create_marker_Inr by (auto simp: ok_run elim!: and_then_InrD)
  next
    case True
    then obtain s2 s3 meta u1 where opened: "g_open_truncate fs p s1 = (Inr u1, s2)" "g_handle_metadata fs p s2 = (Inr meta, s3)"
      and rest': "(if \<not> safe_regular_file meta then
         and_then (remove_log_entry fs p) (\<lambda>_. and_then (create_lifecycle_marker fs p uid) (\<lambda>_. ok True))
       else
         and_then (managed (g_write_all fs p uid)) (\<lambda>_.
         and_then (managed (g_sync_all fs p)) (\<lambda>_.
         and_then (restrict_file_permissions fs p) (\<lambda>_. ok True)))) s3 = (Inr existed, s')"
      using rest by (auto simp: managed_Inr elim!: and_then_InrD)
    have there: "view s2 p \<noteq> None" using truncate_ok[OF opened(1)] b True by simp
    have "view s3 = view s2" using looks_same(2)[of p s2] opened(2) by simp
    with there have safe: "safe_regular_file meta" "view s3 p \<noteq> None" using handle_safe[OF opened(2)] by simp_all
    with rest' obtain s4 s5 u2 u3 u4 where steps: "g_write_all fs p uid s3 = (Inr u2, s4)" "g_sync_all fs p s4 = (Inr u3, s5)"
      "restrict_file_permissions fs p s5 = (Inr u4, s')" "existed = True"
      by (auto simp: managed_Inr ok_run elim!: and_then_InrD)
    have "view s4 p \<noteq> None" using write_ok[OF steps(1) safe(2)] by auto
    then have "view s' p \<noteq> None" using looks_same(5)[of p s4] steps(2) restrict_same[OF steps(3)] by simp
    then show ?thesis using b True steps(4) by simp
  qed
qed

end

section \<open>A directory in memory\<close>

type_synonym log_store = "(string \<times> bytes) list"

definition ml_view :: "log_store \<Rightarrow> string \<rightharpoonup> bytes" where
  "ml_view s = (\<lambda>p. if p = ''/logs'' then None else map_of s p)"

definition ml_put :: "string \<Rightarrow> bytes \<Rightarrow> (log_store, unit) io" where
  "ml_put p c = modify (\<lambda>s. (p, c) # filter (\<lambda>e. fst e \<noteq> p) s)"

definition ml_need :: "string \<Rightarrow> (bytes \<Rightarrow> (log_store, 'a) io) \<Rightarrow> (log_store, 'a) io" where
  "ml_need p k = (\<lambda>s. case ml_view s p of None \<Rightarrow> (Inl no_such_file, s) | Some c \<Rightarrow> k c s)"

definition ml_file :: "bytes \<Rightarrow> link_metadata" where
  "ml_file c = \<lparr>lm_is_dir = False, lm_is_file = True, lm_is_symlink = False, lm_len = length c, lm_mode = 384,
     lm_modified = 0, lm_nlink = 1\<rparr>"

definition ml_dir :: link_metadata where
  "ml_dir = \<lparr>lm_is_dir = True, lm_is_file = False, lm_is_symlink = False, lm_len = 0, lm_mode = 448,
     lm_modified = 0, lm_nlink = 2\<rparr>"

definition ml_stat :: "string \<Rightarrow> (log_store, link_metadata) io" where
  "ml_stat p = (if p = ''/logs'' then ok ml_dir else ml_need p (\<lambda>c. ok (ml_file c)))"

definition mem_log :: "log_store LogFs" where
  "mem_log = \<lparr>g_symlink_metadata = ml_stat, g_handle_metadata = ml_stat,
     g_read_dir = (\<lambda>p. gets (\<lambda>s. map Inr (List.map_filter (\<lambda>e. strip_prefix (p @ ''/'') (fst e)) s))),
     g_open = (\<lambda>p. ml_need p (\<lambda>_. ok ())), g_open_write = (\<lambda>p. ml_need p (\<lambda>_. ok ())),
     g_open_truncate = (\<lambda>p. ml_need p (\<lambda>_. ml_put p [])),
     g_create_new = (\<lambda>p s. if p = ''/logs'' \<or> map_of s p \<noteq> None then (Inl file_exists, s) else ml_put p [] s),
     g_read_to_end = (\<lambda>p. ml_need p ok), g_write_all = (\<lambda>p data. ml_need p (\<lambda>c. ml_put p (c @ data))),
     g_set_len = (\<lambda>p n. ml_need p (\<lambda>c. ml_put p (take n c))), g_sync_all = (\<lambda>_. ok ()),
     g_remove_file = (\<lambda>p. ml_need p (\<lambda>_. modify (filter (\<lambda>e. fst e \<noteq> p)))), g_create_dir_all = (\<lambda>_. ok ()),
     g_set_permissions = (\<lambda>_ _. ok ()), g_canonicalize = (\<lambda>p. ok p),
     g_temp_in = (\<lambda>p. and_then (ml_put (p @ ''/.tmp'') []) (\<lambda>_. ok (p @ ''/.tmp''))),
     g_persist = (\<lambda>p q. ml_need p (\<lambda>c. and_then (ml_put q c) (\<lambda>_. modify (filter (\<lambda>e. fst e \<noteq> p)))))\<rparr>"

lemma map_of_without: "map_of (filter (\<lambda>e. fst e \<noteq> p) s) = (map_of s)(p := None)"
  by (induction s) (auto simp: fun_eq_iff)

lemma ml_put_view: "p \<noteq> ''/logs'' \<Longrightarrow> ml_view (snd (ml_put p c s)) = (ml_view s)(p \<mapsto> c)"
  by (auto simp: ml_put_def ml_view_def run_simps map_of_without fun_eq_iff)

lemma ml_need_Inr:
  "ml_need p k s = (Inr x, s') \<longleftrightarrow> (\<exists>c. ml_view s p = Some c \<and> k c s = (Inr x, s'))"
  by (auto simp: ml_need_def split: option.split)

lemma ml_there: "ml_view s p = Some c \<Longrightarrow> p \<noteq> ''/logs''"
  by (auto simp: ml_view_def)

lemma ml_stat_same: "snd (ml_stat p s) = s"
  by (simp add: ml_stat_def ml_need_def run_simps split: option.split)

lemma ml_stat_Inr: "ml_stat p s = (Inr meta, s') \<Longrightarrow> safe_regular_file meta = (ml_view s p \<noteq> None) \<and> (lm_is_dir meta \<longrightarrow> \<not> lm_is_file meta)"
  by (auto simp: ml_stat_def ml_need_def run_simps ml_dir_def ml_file_def safe_regular_file_def ml_view_def split: if_splits option.splits)

lemma ml_listed:
  assumes "plain_segment name" "ml_view s (path_push ''/logs'' name) \<noteq> None"
  shows "name \<in> set (List.map_filter (\<lambda>e. strip_prefix ''/logs/'' (fst e)) s)"
proof -
  have "\<not> starts_with ''/'' name" using assms(1) by (cases name) (auto simp: plain_segment_def starts_with_def)
  then have "path_push ''/logs'' name = ''/logs/'' @ name" by (simp add: path_push_def ends_with_def starts_with_def)
  with assms(2) obtain c where "(''/logs/'' @ name, c) \<in> set s"
    by (auto simp: ml_view_def dest: map_of_SomeD split: if_splits)
  then show ?thesis by (force simp: List.map_filter_def strip_prefix_def)
qed

interpretation mem_log: log_files mem_log ml_view "''/logs''"
proof
  fix p s meta s' assume "g_symlink_metadata mem_log p s = (Inr meta, s')"
  then show "safe_regular_file meta = (ml_view s p \<noteq> None)" "lm_is_dir meta \<Longrightarrow> \<not> lm_is_file meta"
    using ml_stat_Inr by (simp_all add: mem_log_def)
next
  fix p s meta s' assume "g_handle_metadata mem_log p s = (Inr meta, s')"
  then show "safe_regular_file meta = (ml_view s p \<noteq> None)" using ml_stat_Inr by (simp add: mem_log_def)
next
  fix p s e s' assume "g_symlink_metadata mem_log p s = (Inl e, s')"
  then show "ml_view s p = None"
    by (auto simp: mem_log_def ml_stat_def ml_need_def run_simps split: if_splits option.splits)
next
  fix s items s' name assume "g_read_dir mem_log ''/logs'' s = (Inr items, s')" "plain_segment name"
    "ml_view s (path_push ''/logs'' name) \<noteq> None"
  then show "Inr name \<in> set items" using ml_listed[of name s] by (auto simp: mem_log_def run_simps)
next
  fix s e s' and name :: string assume "g_symlink_metadata mem_log ''/logs'' s = (Inl e, s')"
  then show "ml_view s (path_push ''/logs'' name) = None" by (simp add: mem_log_def ml_stat_def run_simps)
qed (auto simp: mem_log_def run_simps ml_stat_same ml_need_def ml_put_def ml_view_def map_of_without fun_eq_iff
    split: option.splits if_splits)

section \<open>From start to shutdown\<close>

text \<open>The events that neither switch the log nor end the run do not touch the files.\<close>

definition passing :: "event \<Rightarrow> bool" where
  "passing e \<longleftrightarrow> e \<noteq> ShutDown \<and> (\<forall>v. e \<noteq> SwitchedTo v)"

abbreviation still_logging :: "'l \<Rightarrow> string \<Rightarrow> 'l Diag \<Rightarrow> bool" where
  "still_logging s dir d \<equiv> dg_disk d = s \<and> dg_log_dir d = dir \<and> dg_enabled d \<and> dg_phase d \<noteq> PHASE_SHUTTING_DOWN"

lemma settled_say: "keeps (still_logging s dir) (say level f)" "keeps (still_logging s dir) m \<Longrightarrow> keeps (still_logging s dir) (when_enabled m)"
  "keeps (still_logging s dir) new_operation" "keeps (still_logging s dir) (modify (\<lambda>d. d\<lparr>dg_phase := PHASE_RUNNING\<rparr>))"
  by (auto simp: keeps_def say_def log_line_def when_enabled_def new_operation_def run_simps PHASE_RUNNING_def PHASE_SHUTTING_DOWN_def)

lemma settled_passing: "passing e \<Longrightarrow> keeps (still_logging s dir) (record_event b fs e)"
  by (cases e) (auto simp: passing_def record_app_started_def record_connection_started_def record_connection_finished_def
      record_session_disconnected_def record_transfer_started_def record_transfer_retry_def record_transfer_completed_def
      record_transfer_failed_def record_search_started_def record_search_finished_def record_panic_def
      intro!: keeps_intros settled_say split: option.split)

lemma keeps_for_each_in: "(\<And>x. x \<in> set xs \<Longrightarrow> keeps P (f x)) \<Longrightarrow> keeps P (for_each f xs)"
  by (induction xs) (auto intro: keeps_intros)

abbreviation marker :: "string \<Rightarrow> string" where
  "marker dir \<equiv> path_push dir LIFECYCLE_MARKER_FILE_NAME"

lemma begin_run: "begin_lifecycle fs d = (case reset_lifecycle_marker fs (marker (dg_log_dir d)) (dg_session d) (dg_disk d) of
    (r, s) \<Rightarrow> (r, d\<lparr>dg_disk := s\<rparr>))"
  by (simp add: begin_lifecycle_def on_disk_of_def run_simps)

lemma end_run: "end_lifecycle fs d = (case remove_log_entry fs (marker (dg_log_dir d)) (dg_disk d) of
    (r, s) \<Rightarrow> (r, d\<lparr>dg_disk := s\<rparr>))"
  by (simp add: end_lifecycle_def on_disk_of_def run_simps)

lemma new_diagnostics_Inr:
  assumes "log_files fs view dir" "new_diagnostics fs d = (Inr u, d')" "dg_enabled d"
  shows "dg_unclean d' = (view (dg_disk d) (marker (dg_log_dir d)) \<noteq> None)
    \<and> view (dg_disk d') (marker (dg_log_dir d)) \<noteq> None \<and> still_logging (dg_disk d') (dg_log_dir d) d'"
proof -
  from assms(2,3) obtain uid existed s where run: "reset_lifecycle_marker fs (marker (dg_log_dir d)) uid (dg_disk d) = (Inr existed, s)"
    and d': "dg_unclean d' = existed" "dg_disk d' = s" "dg_log_dir d' = dg_log_dir d" "dg_enabled d'" "dg_phase d' = PHASE_STARTING"
    by (auto simp: new_diagnostics_def run_simps begin_run split: prod.splits sum.splits)
  from log_files.reset_marker_Inr[OF assms(1) run] d' show ?thesis
    by (simp add: PHASE_STARTING_def PHASE_SHUTTING_DOWN_def)
qed

text \<open>A shutdown whose log ends with its own line has removed the marker.\<close>

lemma shutdown_clean:
  assumes "log_files fs view dir" "still_logging (dg_disk d) (dg_log_dir d) d"
    and "dg_lines (snd (record_clean_shutdown fs d)) = dg_lines d @ [(LevelInfo, session_words d @ ''event=app_shutdown_clean'')]"
  shows "view (dg_disk (snd (record_clean_shutdown fs d))) (marker (dg_log_dir d)) = None"
proof -
  obtain r s where gone: "remove_log_entry fs (marker (dg_log_dir d)) (dg_disk d) = (r, s)" by fastforce
  have "\<not> isl r"
    using assms(2,3) gone by (auto simp: record_clean_shutdown_def run_simps end_run record_fixed_def when_enabled_def say_def
        log_line_def log_metadata_allowed_def split: if_splits)
  then obtain u where r: "r = Inr u" by (cases r) auto
  have "dg_disk (snd (record_clean_shutdown fs d)) = s"
    using assms(2) gone r by (auto simp: record_clean_shutdown_def run_simps end_run record_fixed_def when_enabled_def say_def
        log_line_def log_metadata_allowed_def split: if_splits)
  then show ?thesis using log_files.remove_entry_Inr[OF assms(1) gone[unfolded r]] by simp
qed

section \<open>Properties\<close>

text \<open>C9: whatever profiles, errors, panics and searches the program records, every line of the diagnostic log is a
  list of fields with fixed names, whose values are words of a fixed list, numbers, identifiers that the program drew at
  random and the version and platform of the build: no text of a profile, a path, a message or a detail of an error gets in.\<close>

theorem log_says_nothing_private:
  assumes "\<forall>e \<in> set es. event_operation e \<subseteq> range (dg_uuids d)" "dg_lines d = []"
    and "(level, line) \<in> set (dg_lines (snd (and_then (new_diagnostics fs) (\<lambda>_. for_each (record_event b fs) es) d)))"
  shows "plain_line (range (dg_uuids d)) b line"
proof -
  let ?U = "range (dg_uuids d)"
  let ?start = "\<lambda>d. d\<lparr>dg_session := dg_uuids d (dg_issued d), dg_issued := Suc (dg_issued d),
       dg_phase := PHASE_STARTING, dg_unclean := False, dg_snapshot := None\<rparr>"
  have begins: "keeps (plain_log ?U b) (begin_lifecycle fs)"
    by (auto simp: keeps_def begin_run plain_log_def split: prod.split)
  have clean: "keeps (plain_log ?U b) (modify (\<lambda>d. d\<lparr>dg_unclean := v\<rparr>))" for v
    by (rule keeps_log_steps) (simp add: plain_log_def)
  have events: "keeps (plain_log ?U b) (for_each (record_event b fs) es)"
    using assms(1) by (intro keeps_for_each_in plain_event) blast
  have "keeps (plain_log ?U b) (and_then (and_then (gets dg_enabled) (\<lambda>enabled.
      and_then (if enabled then begin_lifecycle fs else ok False) (\<lambda>previous_exit_unclean.
      modify (\<lambda>d. d\<lparr>dg_unclean := previous_exit_unclean\<rparr>)))) (\<lambda>_. for_each (record_event b fs) es))"
    by (intro keeps_intros begins clean events)
  moreover have "plain_log ?U b (?start d)" using assms(2) by (auto simp: plain_log_def)
  ultimately have "plain_log ?U b (snd (and_then (new_diagnostics fs) (\<lambda>_. for_each (record_event b fs) es) d))"
    by (auto simp: new_diagnostics_def and_then_run modify_run dest!: keepsD)
  then show ?thesis using assms(3) by (auto simp: plain_log_def dest: bspec)
qed

definition demo_diag :: "log_store \<Rightarrow> log_store Diag" where
  "demo_diag s = \<lparr>dg_enabled = True, dg_log_dir = ''/logs'', dg_session = '''', dg_phase = 0, dg_unclean = False,
     dg_snapshot = None, dg_lines = [], dg_uuids = (\<lambda>n. CHR ''u'' # show_nat n), dg_issued = 0, dg_millis = 0,
     dg_utc = ''now'', dg_disk = s\<rparr>"

definition demo_build :: build where
  "demo_build = \<lparr>b_version = ''1.0'', b_os = ''linux'', b_arch = ''x86_64''\<rparr>"

definition demo_session :: "log_store Diag" where
  "demo_session = snd (new_diagnostics mem_log (demo_diag []))"

lemma demo_marker: "path_push ''/logs'' LIFECYCLE_MARKER_FILE_NAME = ''/logs/siftlane-diagnostics.session''"
  by code_simp

lemmas ml_defs = mem_log_def ml_stat_def ml_need_def ml_put_def ml_view_def ml_file_def ml_dir_def safe_regular_file_def
  no_such_file_def file_exists_def restrict_file_permissions_def

lemma demo_start:
  "new_diagnostics mem_log (demo_diag []) = (Inr (), demo_session)"
  "demo_session = (demo_diag [(''/logs/siftlane-diagnostics.session'', ''u0'')])\<lparr>dg_session := ''u0'', dg_issued := 1\<rparr>"
proof -
  have zero: "show_nat 0 = ''0''" by code_simp
  have "new_diagnostics mem_log (demo_diag []) = (Inr (),
    (demo_diag [(''/logs/siftlane-diagnostics.session'', ''u0'')])\<lparr>dg_session := ''u0'', dg_issued := 1\<rparr>)"
    by (simp add: new_diagnostics_def demo_diag_def run_simps begin_run demo_marker reset_lifecycle_marker_def marker_existed_def
        inspect_def create_lifecycle_marker_def ml_defs zero PHASE_STARTING_def)
  then show "new_diagnostics mem_log (demo_diag []) = (Inr (), demo_session)"
    "demo_session = (demo_diag [(''/logs/siftlane-diagnostics.session'', ''u0'')])\<lparr>dg_session := ''u0'', dg_issued := 1\<rparr>"
    by (simp_all add: demo_session_def)
qed

lemma log_says_nothing_private_witness:
  "plain_line (range (dg_uuids (demo_diag []))) demo_build
     (session_words demo_session @ ''event=panic component=unknown line=0 lifecycle_phase=starting'')"
proof -
  have zero: "show_nat 0 = ''0''" by code_simp
  have "(LevelError, session_words demo_session @ ''event=panic component=unknown line=0 lifecycle_phase=starting'')
    \<in> set (dg_lines (snd (and_then (new_diagnostics mem_log) (\<lambda>_. for_each (record_event demo_build mem_log) [Panicked None]) (demo_diag []))))"
    by (simp add: and_then_run demo_start(1)) (simp add: demo_start(2) record_panic_def when_enabled_def say_def log_line_def
      log_metadata_allowed_def run_simps demo_diag_def sanitized_panic_location_def session_words_def lifecycle_phase_name_def
      PHASE_STARTING_def zero)
  from log_says_nothing_private[OF _ _ this] show ?thesis by (simp add: demo_diag_def)
qed

text \<open>C11: the next start tells whether the last run ended. When a run with the log switched on stops without the
  shutdown, whatever it recorded, the next start with the log on reports an unclean exit; when it was shut down and
  the log of the shutdown tells of no failure, the next start reports none.\<close>

theorem next_start_tells_unclean_exit:
  assumes disk: "log_files fs view dir"
    and first: "new_diagnostics fs d = (Inr u, d1)" "dg_enabled d"
    and events: "\<forall>e \<in> set es. passing e" "for_each (record_event b fs) es d1 = (Inr u1, d2)"
    and again: "new_diagnostics fs d' = (Inr u2, d'')" "dg_enabled d'" "dg_log_dir d' = dg_log_dir d"
  shows "(dg_disk d' = dg_disk d2 \<longrightarrow> dg_unclean d'')
    \<and> (dg_disk d' = dg_disk (snd (record_clean_shutdown fs d2)) \<longrightarrow>
       dg_lines (snd (record_clean_shutdown fs d2)) = dg_lines d2 @ [(LevelInfo, session_words d2 @ ''event=app_shutdown_clean'')] \<longrightarrow>
       \<not> dg_unclean d'')"
proof -
  note one = new_diagnostics_Inr[OF disk first]
  have "keeps (still_logging (dg_disk d1) (dg_log_dir d)) (for_each (record_event b fs) es)"
    using events(1) by (intro keeps_for_each_in settled_passing) blast
  from keepsD[OF this, of d1] have two: "still_logging (dg_disk d1) (dg_log_dir d) d2" using one events(2) by simp
  have three: "dg_unclean d'' = (view (dg_disk d') (marker (dg_log_dir d)) \<noteq> None)"
    using new_diagnostics_Inr[OF disk again(1,2)] again(3) by simp
  have "view (dg_disk (snd (record_clean_shutdown fs d2))) (marker (dg_log_dir d)) = None"
    if "dg_lines (snd (record_clean_shutdown fs d2)) = dg_lines d2 @ [(LevelInfo, session_words d2 @ ''event=app_shutdown_clean'')]"
    using shutdown_clean[OF disk _ that] two by simp
  then show ?thesis using one two three by simp
qed

lemma next_start_tells_unclean_exit_witness:
  "dg_unclean (snd (new_diagnostics mem_log (demo_diag [(''/logs/siftlane-diagnostics.session'', ''u0'')])))"
proof -
  let ?d = "demo_diag [(''/logs/siftlane-diagnostics.session'', ''u0'')]"
  have zero: "show_nat 0 = ''0''" by code_simp
  have again: "new_diagnostics mem_log ?d = (Inr (), snd (new_diagnostics mem_log ?d))"
    by (simp add: new_diagnostics_def demo_diag_def run_simps begin_run demo_marker reset_lifecycle_marker_def marker_existed_def
        inspect_def ml_defs zero PHASE_STARTING_def)
  have "for_each (record_event demo_build mem_log) [] demo_session = (Inr (), demo_session)" by (simp add: ok_run)
  from next_start_tells_unclean_exit[OF mem_log.log_files_axioms demo_start(1) _ _ this again]
  show ?thesis by (simp add: demo_diag_def demo_start(2))
qed


definition demo_logs :: log_store where
  "demo_logs = [(''/logs/siftlane-diagnostics.log'', ''new''), (''/logs/siftlane-diagnostics_2024.log'', ''old''), (''/logs/notes'', ''mine'')]"

lemma demo_kinds:
  "diagnostics_log_kind (\<lambda>t. t = ''2024'') ''/logs/siftlane-diagnostics.log'' = Some ActiveLog"
  "diagnostics_log_kind (\<lambda>t. t = ''2024'') ''/logs/siftlane-diagnostics_2024.log'' = Some ArchiveLog"
  "diagnostics_log_kind (\<lambda>t. t = ''2024'') ''/logs/notes'' = None"
  by code_simp+

lemma demo_pushed:
  "path_push ''/logs'' ''siftlane-diagnostics.log'' = ''/logs/siftlane-diagnostics.log''"
  "path_push ''/logs'' ''siftlane-diagnostics_2024.log'' = ''/logs/siftlane-diagnostics_2024.log''"
  "path_push ''/logs'' ''notes'' = ''/logs/notes''"
  by code_simp+

lemma demo_cleared:
  "clear_logs (\<lambda>t. t = ''2024'') mem_log (demo_diag demo_logs)
     = (Inr (), snd (clear_logs (\<lambda>t. t = ''2024'') mem_log (demo_diag demo_logs)))"
  by (simp add: clear_logs_def with_log_off_def on_disk_of_def run_simps clear_diagnostics_logs_def inspect_def each_log_def
      reset_active_log_def remove_log_entry_def ml_defs demo_diag_def demo_logs_def List.map_filter_def strip_prefix_def
      demo_pushed demo_kinds)


section \<open>The bundle\<close>

lemma map_sum_Inr: "map_sum f id r = Inr x \<longleftrightarrow> r = Inr x"
  by (cases r) simp_all

lemma map_err_Inr: "map_err f m s = (Inr x, s') \<longleftrightarrow> m s = (Inr x, s')"
  by (auto simp: map_err_run split: prod.splits sum.splits)

lemma or_drop_Inr: "or_drop fs temp m s = (Inr x, s') \<longleftrightarrow> m s = (Inr x, s')"
  by (auto simp: or_drop_def run_simps split: prod.splits sum.splits)

text \<open>What is relied on of the zip crate and the file it writes to: \<open>members\<close> is what the archive at a path holds.\<close>

locale zip_archives =
  fixes fs :: "'l LogFs" and ar :: "'l archiver" and members :: "'l \<Rightarrow> string \<Rightarrow> (string \<times> bytes) list"
  assumes temp_empty: "g_temp_in fs dir s = (Inr temp, s') \<Longrightarrow> members s' temp = []"
    and start_member: "zip_start_file ar p name s = (Inr u, s') \<Longrightarrow> members s' p = members s p @ [(name, [])]"
    and fill_member: "zip_write_all ar p data s = (Inr u, s') \<Longrightarrow> members s p = ms @ [(name, c)] \<Longrightarrow>
      members s' p = ms @ [(name, c @ data)]"
    and finish_same: "zip_finish ar p s = (Inr u, s') \<Longrightarrow> members s' p = members s p"
    and sync_same: "g_sync_all fs p s = (Inr u, s') \<Longrightarrow> members s' p = members s p"
    and persist_moves: "g_persist fs p q s = (Inr u, s') \<Longrightarrow> members s' q = members s p"
    and mode_same: "g_set_permissions fs p mode s = (Inr u, s') \<Longrightarrow> members s' p = members s p"
begin

lemma zip_member_Inr:
  assumes "zip_member ar p name data s = (Inr u, s')"
  shows "members s' p = members s p @ [(name, data)]"
proof -
  from assms obtain s1 u1 where "zip_start_file ar p name s = (Inr u1, s1)" "zip_write_all ar p data s1 = (Inr u, s')"
    by (auto simp: zip_member_def map_err_Inr elim!: and_then_InrD)
  from fill_member[OF this(2) start_member[OF this(1)]] show ?thesis by simp
qed

lemma zip_members_Inr:
  "for_each (\<lambda>entry. zip_member ar p (f entry) (g entry)) entries s = (Inr u, s') \<Longrightarrow>
    members s' p = members s p @ map (\<lambda>entry. (f entry, g entry)) entries"
proof (induction entries arbitrary: s)
  case (Cons e es)
  from Cons.prems obtain s1 u1 where "zip_member ar p (f e) (g e) s = (Inr u1, s1)"
    "for_each (\<lambda>entry. zip_member ar p (f entry) (g entry)) es s1 = (Inr u, s')" by (auto elim!: and_then_InrD)
  with zip_member_Inr[OF this(1)] Cons.IH[of s1] show ?case by simp
qed (simp add: ok_run)

lemma write_members_Inr:
  assumes "write_members ar p manifest_json entries s = (Inr u, s')"
  shows "members s' p = members s p @ (''manifest.json'', manifest_json) # map (\<lambda>e. (''logs/'' @ slog_name e, slog_contents e)) entries"
proof -
  from assms obtain s1 s2 u1 u2 where steps: "zip_member ar p ''manifest.json'' manifest_json s = (Inr u1, s1)"
    "for_each (\<lambda>entry. zip_member ar p (''logs/'' @ slog_name entry) (slog_contents entry)) entries s1 = (Inr u2, s2)"
    "zip_finish ar p s2 = (Inr u, s')"
    unfolding write_members_def by (auto simp: map_err_Inr elim!: and_then_InrD)
  then show ?thesis using zip_member_Inr[OF steps(1)] zip_members_Inr[OF steps(2)] finish_same[OF steps(3)] by simp
qed

lemma write_bundle_Inr:
  assumes "bc_zip bc = ar" "write_support_bundle b bc fs dir destination snapshot s = (Inr u, s')"
  shows "\<exists>manifest_json. bc_manifest_json bc (manifest_of b (bc_sha256_hex bc) snapshot) = Inr manifest_json
    \<and> members s' destination = (''manifest.json'', manifest_json)
        # map (\<lambda>e. (''logs/'' @ slog_name e, slog_contents e)) (sn_files snapshot)"
proof -
  from assms obtain parent s1 manifest_json temp s2 s3 s4 s5 u1 u2 u3 where
    json: "bc_manifest_json bc (manifest_of b (bc_sha256_hex bc) snapshot) = Inr manifest_json"
    and steps: "g_temp_in fs parent s1 = (Inr temp, s2)" "write_members ar temp manifest_json (sn_files snapshot) s2 = (Inr u1, s3)"
      "g_sync_all fs temp s3 = (Inr u2, s4)" "g_persist fs temp destination s4 = (Inr u3, s5)"
      "restrict_file_permissions fs destination s5 = (Inr u, s')"
    unfolding write_support_bundle_def
    by (auto simp: map_err_Inr or_drop_Inr lift_result_run map_sum_Inr elim!: and_then_InrD)
  have "members s' destination = members s3 temp"
    using sync_same[OF steps(3)] persist_moves[OF steps(4)] steps(5) mode_same
    by (auto simp: restrict_file_permissions_def map_err_Inr)
  then show ?thesis using write_members_Inr[OF steps(2)] temp_empty[OF steps(1)] json by simp
qed

end

text \<open>An entry of the bundle that is a file of the log.\<close>

definition of_the_log ::
  "(string \<Rightarrow> bool) \<Rightarrow> ('l \<Rightarrow> string \<rightharpoonup> bytes) \<Rightarrow> string \<Rightarrow> 'l \<Rightarrow> SupportLog \<Rightarrow> bool" where
  "of_the_log stamp view dir s e \<longleftrightarrow> (\<exists>name. diagnostics_log_kind stamp (path_push dir name) \<noteq> None
     \<and> file_name (path_push dir name) = Some (slog_name e)
     \<and> view s (path_push dir name) = Some (slog_contents e)) \<and> length (slog_contents e) \<le> MAX_LOG_FILE_BYTES"

text \<open>What is relied on when the logs are read for review.\<close>

locale log_reader = log_files +
  assumes reading_same: "view (snd (g_open fs p s)) = view s" "view (snd (g_read_to_end fs p s)) = view s"
    and read_ok: "g_read_to_end fs p s = (Inr bytes, s') \<Longrightarrow> view s p = Some bytes"
    and handle_len: "g_handle_metadata fs p s = (Inr meta, s') \<Longrightarrow> view s p = Some c \<Longrightarrow> lm_len meta = length c"
begin

lemma read_support_Inr:
  assumes "read_support_log fs p s = (Inr e, s')"
  shows "view s' = view s \<and> file_name p = Some (slog_name e) \<and> view s p = Some (slog_contents e)
    \<and> length (slog_contents e) \<le> MAX_LOG_FILE_BYTES"
proof -
  from assms obtain s1 s2 s3 m1 m2 bytes u where looked: "g_symlink_metadata fs p s = (Inr m1, s1)" "g_open fs p s1 = (Inr u, s2)"
    "g_handle_metadata fs p s2 = (Inr m2, s3)" "g_read_to_end fs p s3 = (Inr bytes, s')"
    and small: "\<not> MAX_LOG_FILE_BYTES < lm_len m2" and e: "slog_contents e = bytes" "file_name p = Some (slog_name e)"
    by (auto simp: read_support_log_def open_diagnostic_log_def managed_Inr err_run ok_run
        split: option.splits if_splits elim!: and_then_InrD)
  have same: "view s1 = view s" "view s2 = view s" "view s3 = view s" "view s' = view s"
    using looks_same(1)[of p s] reading_same(1)[of p s1] looks_same(2)[of p s2] reading_same(2)[of p s3] looked by simp_all
  then show ?thesis using read_ok[OF looked(4)] handle_len[OF looked(3)] small e by simp
qed

lemma read_each_Inr:
  "collect_each (\<lambda>(_, path). read_support_log fs path) cs s = (Inr logs, s') \<Longrightarrow>
    length logs = length cs \<and> (\<forall>e \<in> set logs. \<exists>c \<in> set cs. file_name (snd c) = Some (slog_name e)
      \<and> view s (snd c) = Some (slog_contents e) \<and> length (slog_contents e) \<le> MAX_LOG_FILE_BYTES)"
proof (induction cs arbitrary: s logs)
  case (Cons c cs)
  obtain kind p where c: "c = (kind, p)" by fastforce
  from Cons.prems c obtain e s1 es where one: "read_support_log fs p s = (Inr e, s1)"
    and rest: "collect_each (\<lambda>(_, path). read_support_log fs path) cs s1 = (Inr es, s')" and logs: "logs = e # es"
    by (auto simp: ok_run elim!: and_then_InrD)
  have same: "view s1 = view s" using read_support_Inr[OF one] by simp
  show ?case using read_support_Inr[OF one] Cons.IH[OF rest] unfolding logs c same by auto
qed (simp add: ok_run)

lemma find_Inr:
  assumes "find_candidates stamp dir items s = (Inr cs, s')"
  shows "s' = s \<and> (\<forall>c \<in> set cs. \<exists>name. snd c = path_push dir name \<and> diagnostics_log_kind stamp (snd c) \<noteq> None)"
proof -
  have same: "collect_each (\<lambda>item. managed (lift_result item)) items s = (Inr names, t) \<Longrightarrow> t = s" for names t
    by (induction items arbitrary: names) (auto simp: managed_Inr lift_result_run ok_run elim!: and_then_InrD)
  then show ?thesis
    using assms by (auto simp: find_candidates_def ok_run map_filter_def Let_def elim!: and_then_InrD) blast
qed

lemma collect_support_Inr:
  assumes "collect_support_logs stamp fs dir s = (Inr logs, s')"
  shows "length logs \<le> MAX_SUPPORT_LOG_FILES \<and> (\<forall>e \<in> set logs. of_the_log stamp view dir s e)"
proof -
  from assms obtain meta s1 items s2 cs s3 where steps: "g_symlink_metadata fs dir s = (Inr meta, s1)"
    "g_read_dir fs dir s1 = (Inr items, s2)" "find_candidates stamp dir items s2 = (Inr cs, s3)"
    "collect_each (\<lambda>(_, path). read_support_log fs path) (take MAX_SUPPORT_LOG_FILES (newest_first cs)) s3 = (Inr logs, s')"
    by (auto simp: collect_support_logs_def managed_Inr err_run split: if_splits elim!: and_then_InrD)
  have same: "view s3 = view s"
    using looks_same(1)[of dir s] looks_same(3)[of dir s1] find_Inr[OF steps(3)] steps(1,2) by simp
  have "set (take n (newest_first cs)) \<subseteq> set cs" for n
    using set_take_subset[of n "newest_first cs"] by (auto simp: newest_first_def)
  then show ?thesis using read_each_Inr[OF steps(4)] find_Inr[OF steps(3)] unfolding same of_the_log_def by fastforce
qed

end

text \<open>The directory in memory with the members of the archives in it.\<close>

type_synonym bundle_store = "log_store \<times> (string \<Rightarrow> (string \<times> bytes) list)"

definition below :: "(log_store, 'e, 'a) eff \<Rightarrow> (bundle_store, 'e, 'a) eff" where
  "below m = zoom fst (\<lambda>s w. (s, snd w)) m"

definition edit_members :: "string \<Rightarrow> ((string \<times> bytes) list \<Rightarrow> (string \<times> bytes) list) \<Rightarrow> (bundle_store, 'e, unit) eff" where
  "edit_members p f = modify (\<lambda>w. (fst w, (snd w)(p := f (snd w p))))"

definition mem_bundle :: "bundle_store LogFs" where
  "mem_bundle = \<lparr>g_symlink_metadata = below \<circ> ml_stat, g_handle_metadata = below \<circ> ml_stat,
     g_read_dir = below \<circ> g_read_dir mem_log, g_open = below \<circ> g_open mem_log,
     g_open_write = below \<circ> g_open_write mem_log, g_open_truncate = below \<circ> g_open_truncate mem_log,
     g_create_new = below \<circ> g_create_new mem_log, g_read_to_end = below \<circ> g_read_to_end mem_log,
     g_write_all = (\<lambda>p data. below (g_write_all mem_log p data)), g_set_len = (\<lambda>p n. below (g_set_len mem_log p n)),
     g_sync_all = (\<lambda>_. ok ()), g_remove_file = below \<circ> g_remove_file mem_log, g_create_dir_all = (\<lambda>_. ok ()),
     g_set_permissions = (\<lambda>_ _. ok ()), g_canonicalize = ok,
     g_temp_in = (\<lambda>p. and_then (below (g_temp_in mem_log p)) (\<lambda>t. and_then (edit_members t (\<lambda>_. [])) (\<lambda>_. ok t))),
     g_persist = (\<lambda>p q. and_then (below (g_persist mem_log p q)) (\<lambda>_.
       and_then (gets snd) (\<lambda>held. edit_members q (\<lambda>_. held p))))\<rparr>"

definition mem_zip :: "bundle_store archiver" where
  "mem_zip = \<lparr>walk_dir = (\<lambda>_ _. []), zip_add_directory = (\<lambda>_ _. ok ()),
     zip_start_file = (\<lambda>p name. edit_members p (\<lambda>ms. ms @ [(name, [])])),
     zip_write_all = (\<lambda>p data. edit_members p (\<lambda>ms. butlast ms @ [(fst (last ms), snd (last ms) @ data)])),
     zip_finish = (\<lambda>_. ok ()), tar_append_dir_all = (\<lambda>_ _ _ _. ok ()), tar_into_inner = (\<lambda>_. ok ()),
     gzip_finish = (\<lambda>_. ok ()), tar_finish = (\<lambda>_. ok ())\<rparr>"

interpretation mem_zip: zip_archives mem_bundle mem_zip snd
  by unfold_locales (auto simp: mem_bundle_def mem_zip_def edit_members_def run_simps below_def
    split: prod.splits sum.splits elim!: and_then_InrD)

lemma below_eq: "below m w = (r, w') \<longleftrightarrow> m (fst w) = (r, fst w') \<and> snd w' = snd w"
  by (cases w') (auto simp: below_def run_simps split: prod.split)

lemma below_fst: "fst (snd (below m w)) = snd (m (fst w))"
  by (simp add: below_def run_simps split: prod.split)

interpretation mem_bundle: log_reader mem_bundle "\<lambda>w. ml_view (fst w)" "''/logs''"
proof
  fix p s meta s' assume "g_symlink_metadata mem_bundle p s = (Inr meta, s')"
  then show "safe_regular_file meta = (ml_view (fst s) p \<noteq> None)" "lm_is_dir meta \<Longrightarrow> \<not> lm_is_file meta"
    using ml_stat_Inr by (auto simp: mem_bundle_def below_eq)
next
  fix p s meta s' assume meta: "g_handle_metadata mem_bundle p s = (Inr meta, s')"
  then show "safe_regular_file meta = (ml_view (fst s) p \<noteq> None)"
    using ml_stat_Inr by (auto simp: mem_bundle_def below_eq)
  show "ml_view (fst s) p = Some c \<Longrightarrow> lm_len meta = length c" for c
    using meta by (auto simp: mem_bundle_def below_eq ml_stat_def ml_need_def run_simps ml_file_def ml_view_def split: if_splits)
next
  fix p s e s' assume "g_symlink_metadata mem_bundle p s = (Inl e, s')"
  then show "ml_view (fst s) p = None"
    by (auto simp: mem_bundle_def below_eq ml_stat_def ml_need_def run_simps split: if_splits option.splits)
next
  fix s items s' name assume "g_read_dir mem_bundle ''/logs'' s = (Inr items, s')" "plain_segment name"
    "ml_view (fst s) (path_push ''/logs'' name) \<noteq> None"
  then show "Inr name \<in> set items" using mem_log.listed[of "fst s" items "fst s'" name] by (simp add: mem_bundle_def below_eq)
next
  fix s e s' and name :: string assume "g_symlink_metadata mem_bundle ''/logs'' s = (Inl e, s')"
  then show "ml_view (fst s) (path_push ''/logs'' name) = None" by (simp add: mem_bundle_def below_eq ml_stat_def run_simps)
qed (auto simp: mem_bundle_def mem_log_def below_eq below_fst run_simps ml_stat_same ml_need_def ml_put_def ml_view_def
    map_of_without fun_eq_iff split: option.splits if_splits)

lemma preview_Inr:
  assumes "support_bundle_preview stamp b sha fs d = (Inr pv, d1)"
  obtains sn s' where "collect_support_logs stamp fs (dg_log_dir d) (dg_disk d) = (Inr (sn_files sn), s')"
    "dg_snapshot d1 = Some sn" "pv = bundle_preview b sha sn"
proof -
  from assms obtain logs s' where run: "collect_support_logs stamp fs (dg_log_dir d) (dg_disk d) = (Inr logs, s')"
    by (auto simp: support_bundle_preview_def with_log_off_def on_disk_of_def run_simps split: prod.splits sum.splits)
  let ?sn = "\<lparr>sn_id = dg_uuids d (dg_issued d), sn_created_at_utc = dg_utc d, sn_diagnostics_enabled = dg_enabled d,
    sn_app_session_id = dg_session d, sn_files = logs\<rparr>"
  have "dg_snapshot d1 = Some ?sn" "pv = bundle_preview b sha ?sn"
    using assms run by (auto simp: support_bundle_preview_def with_log_off_def on_disk_of_def run_simps)
  with run show thesis by (intro that[of ?sn]) simp_all
qed

lemma export_bundle_Inr:
  assumes "export_support_bundle b bc fs uid destination d = (Inr u, d')"
  obtains sn s' u' where "dg_snapshot d = Some sn" "sn_id sn = uid"
    "write_support_bundle b bc fs (dg_log_dir d) destination sn (dg_disk d) = (Inr u', s')" "d' = d\<lparr>dg_disk := s', dg_snapshot := None\<rparr>"
  using assms
  by (auto simp: export_support_bundle_def on_disk_of_def run_simps split: option.splits if_splits prod.splits sum.splits)


definition demo_crates :: "bundle_store bundle_crates" where
  "demo_crates = \<lparr>bc_zip = mem_zip, bc_sha256_hex = (\<lambda>c. ''sum of '' @ c), bc_manifest_json = (\<lambda>m. Inr (mf_created_at_utc m))\<rparr>"

definition demo_log :: "bundle_store Diag" where
  "demo_log = \<lparr>dg_enabled = True, dg_log_dir = ''/logs'', dg_session = ''s'', dg_phase = 1, dg_unclean = False,
     dg_snapshot = None, dg_lines = [], dg_uuids = (\<lambda>_. ''u''), dg_issued = 0, dg_millis = 0, dg_utc = ''now'',
     dg_disk = ([(''/logs/siftlane-diagnostics.log'', ''new''), (''/logs/notes'', ''mine'')], \<lambda>_. [])\<rparr>"

definition demo_reviewed :: "SupportBundlePreview result \<times> bundle_store Diag" where
  "demo_reviewed = support_bundle_preview (\<lambda>t. t = ''2024'') demo_build (bc_sha256_hex demo_crates) mem_bundle demo_log"

definition demo_snapshot :: SupportBundleSnapshot where
  "demo_snapshot = \<lparr>sn_id = ''u'', sn_created_at_utc = ''now'', sn_diagnostics_enabled = True, sn_app_session_id = ''s'',
     sn_files = [\<lparr>slog_name = ''siftlane-diagnostics.log'', slog_contents = ''new''\<rparr>]\<rparr>"

lemma demo_names:
  "file_name ''/logs/siftlane-diagnostics.log'' = Some ''siftlane-diagnostics.log''"
  "utf8_valid ''siftlane-diagnostics.log''" "path_extension ''/out.zip'' = Some ''zip''" "utf8_valid ''zip''"
  "eq_ignore_ascii_case ''zip'' ''zip''" "path_parent ''/out.zip'' = Some ''/''" "\<not> path_starts_with ''/logs'' ''/''"
  by code_simp+

abbreviation demo_disk :: bundle_store where
  "demo_disk \<equiv> ([(''/logs/siftlane-diagnostics.log'', ''new''), (''/logs/notes'', ''mine'')], \<lambda>_. [])"

lemma demo_stat:
  "g_symlink_metadata mem_bundle ''/logs'' demo_disk = (Inr ml_dir, demo_disk)"
  "g_symlink_metadata mem_bundle ''/logs/siftlane-diagnostics.log'' demo_disk = (Inr (ml_file ''new''), demo_disk)"
  "g_handle_metadata mem_bundle ''/logs/siftlane-diagnostics.log'' demo_disk = (Inr (ml_file ''new''), demo_disk)"
  "g_open mem_bundle ''/logs/siftlane-diagnostics.log'' demo_disk = (Inr (), demo_disk)"
  "g_read_to_end mem_bundle ''/logs/siftlane-diagnostics.log'' demo_disk = (Inr ''new'', demo_disk)"
  "g_read_dir mem_bundle ''/logs'' demo_disk = (Inr [Inr ''siftlane-diagnostics.log'', Inr ''notes''], demo_disk)"
  by (simp_all add: mem_bundle_def below_def mem_log_def ml_stat_def ml_need_def ml_view_def run_simps
      List.map_filter_def strip_prefix_def)

lemma demo_log_read:
  "read_support_log mem_bundle ''/logs/siftlane-diagnostics.log'' demo_disk
     = (Inr \<lparr>slog_name = ''siftlane-diagnostics.log'', slog_contents = ''new''\<rparr>, demo_disk)"
  by (simp add: read_support_log_def open_diagnostic_log_def demo_names demo_stat run_simps ml_file_def safe_regular_file_def
      MAX_LOG_FILE_BYTES_def del: utf8_valid.simps)

lemma demo_found:
  "find_candidates (\<lambda>t. t = ''2024'') ''/logs'' [Inr ''siftlane-diagnostics.log'', Inr ''notes''] demo_disk
     = (Inr [(ActiveLog, ''/logs/siftlane-diagnostics.log'')], demo_disk)"
  by (simp add: find_candidates_def run_simps List.map_filter_def demo_pushed demo_kinds)

lemma demo_collected:
  "collect_support_logs (\<lambda>t. t = ''2024'') mem_bundle ''/logs'' demo_disk = (Inr (sn_files demo_snapshot), demo_disk)"
  by (simp add: collect_support_logs_def demo_stat demo_found demo_log_read run_simps ml_dir_def newest_first_def
      MAX_SUPPORT_LOG_FILES_def demo_snapshot_def)

lemma demo_preview:
  "demo_reviewed = (Inr (bundle_preview demo_build (bc_sha256_hex demo_crates) demo_snapshot),
     demo_log\<lparr>dg_issued := 1, dg_snapshot := Some demo_snapshot\<rparr>)"
  using demo_collected
  by (simp add: demo_reviewed_def support_bundle_preview_def with_log_off_def on_disk_of_def run_simps demo_log_def demo_snapshot_def)

definition demo_exported :: "unit result \<times> bundle_store Diag" where
  "demo_exported = export_support_bundle demo_build demo_crates mem_bundle ''u'' ''/out.zip'' (snd demo_reviewed)"

lemma demo_valid:
  "validate_support_bundle_destination mem_bundle ''/logs'' ''/out.zip'' demo_disk = (Inr ''/'', demo_disk)"
  by (simp add: validate_support_bundle_destination_def demo_names run_simps mem_bundle_def inspect_def below_def ml_stat_def
      ml_need_def ml_view_def no_such_file_def del: utf8_valid.simps)

lemma demo_bundle_written:
  "write_support_bundle demo_build demo_crates mem_bundle ''/logs'' ''/out.zip'' demo_snapshot demo_disk
    = (Inr (), snd (write_support_bundle demo_build demo_crates mem_bundle ''/logs'' ''/out.zip'' demo_snapshot demo_disk))"
  by (simp add: write_support_bundle_def demo_valid demo_crates_def run_simps)
    (simp add: mem_bundle_def mem_log_def below_def edit_members_def run_simps ml_put_def ml_need_def ml_view_def or_drop_def
      write_members_def zip_member_def mem_zip_def demo_snapshot_def restrict_file_permissions_def)

lemma demo_bundle_export: "demo_exported = (Inr (), snd demo_exported)"
proof -
  obtain w where "write_support_bundle demo_build demo_crates mem_bundle ''/logs'' ''/out.zip'' demo_snapshot demo_disk = (Inr (), w)"
    using demo_bundle_written by blast
  moreover have "sn_id demo_snapshot = ''u''" by (simp add: demo_snapshot_def)
  ultimately show ?thesis
    by (simp add: demo_exported_def demo_preview export_support_bundle_def on_disk_of_def run_simps demo_log_def)
qed


end
