(* ===== verification/Spec2Isabelle.thy ===== *)
theory Spec2Isabelle
  imports Scheduler Transfer_Plan Transfer_Outcomes Sftp_Laws Profile_Laws Transfer_Command_Laws Search_Laws Entry_Laws External_Edit_Laws Configuration_Laws Diagnostics_Laws
begin

text \<open>
  A verification development of Siftlane, a desktop client that moves files between a computer and SFTP
  or FTP servers. The program keeps its connections, transfers and stored data in one process: a window
  calls the commands of \<^verbatim>\<open>src-tauri/src/commands.rs\<close>, which change the state of \<^verbatim>\<open>state.rs\<close> and start a task
  per transfer (\<^verbatim>\<open>transfers.rs\<close>), which waits for a slot of the scheduler (\<^verbatim>\<open>scheduler.rs\<close>), talks to a client
  behind the trait \<^verbatim>\<open>RemoteFilesystem\<close> (\<^verbatim>\<open>siftlane-core\<close>, \<^verbatim>\<open>siftlane-sftp\<close>, \<^verbatim>\<open>siftlane-ftp\<close>) and records what it
  did in the queue (\<^verbatim>\<open>siftlane-core/src/transfer.rs\<close>) and the database (\<^verbatim>\<open>storage.rs\<close>).

  How the code is represented:
  \<^item> Structs are records, enums are datatypes, a \<^verbatim>\<open>Result\<close> is a sum with the error on the left. A function with
    effects takes the state and returns the result with the state it leaves (\<open>eff\<close>, \<open>act\<close>), so early returns
    show what was already done. Text is a list of the bytes of its UTF-8 form. Counters that may wrap or saturate
    are words, byte counts are naturals.
  \<^item> The states nest: a \<open>World\<close> (\<open>Transfer_Run\<close>) has what a transfer sees, an \<open>App\<close> (\<open>App_State\<close>) adds what the
    commands share, and an operation on a part is lifted to the whole by \<open>zoom\<close>.
  \<^item> Code outside the repository is a parameter, mostly a record of functions: a session of the SFTP crate, the SSH
    and FTP libraries, the file system, the digest, the cipher, the serialisation, the archive crates. What is
    relied on is stated as a locale, interpreted on a concrete instance on which the witnesses are evaluated.
  \<^item> Concurrent tasks are step relations where their interleaving matters (\<open>Transfer_Queue\<close>, \<open>Scheduler\<close>).
    Elsewhere a task runs against a world whose other actors act through a script: the edits of the queue that may
    happen between two steps of a task, the readings of a flag that another command may set, the failures of an
    operation, the readings of the clock.

  The foundations:
  \<^item> \<open>Siftlane_Prelude\<close>: effects, their rules (\<open>run_simps\<close>, \<open>keeps_intros\<close>) and the locales of transition systems
    (\<open>step_system\<close>, \<open>safe_system\<close>). \<open>Rust_Strings\<close>, \<open>Local_Paths\<close>: text and paths of the standard library.
  \<^item> \<open>Core_Error\<close>, \<open>Core_Model\<close>, \<open>Transfer_Queue\<close>, \<open>Filesystems\<close>: the core crate. The queue keeps its jobs well formed
    under every call, and a job that ended stays ended. \<open>Filesystems\<close> has the trait and the operations of the disk as
    records, with their laws as the locales \<open>remote_filesystem\<close>, \<open>local_filesystem\<close> and \<open>moving_files\<close>.
    \<open>Memory_Store\<close> is a store with a script of failures that obeys them.
  \<^item> \<open>Storage\<close>: the tables of the database with their foreign keys and transactions, whose integrity every query
    keeps; the locale \<open>keyed_store\<close> is interpreted on each kind of row.
  \<^item> \<open>Paths\<close>: normalised paths, entry names, parents and numbered destinations.

  Transfers:
  \<^item> \<open>Scheduler\<close>: slots per host and in total, the waiting order, the bandwidth limiter; the limits are kept, somebody
    who fits is let in, the rate is bounded.
  \<^item> \<open>Transfer_Plan\<close>: the walks of directory transfers; a plan is complete and stays inside its destination.
  \<^item> \<open>Transfer_Run\<close>, \<open>Transfer_Tasks\<close>: the transfers. \<open>Transfer_Laws\<close>, \<open>Transfer_Delivery\<close>, \<open>Transfer_Download\<close> and
    \<open>Transfer_Outcomes\<close> prove what they deliver for any server and disk that obey the laws (\<open>transfer_ends\<close>), that a
    task returns, how it retries and what is left when it fails.
  \<^item> \<open>Transfer_Commands\<close>, \<open>Transfer_Command_Laws\<close>: the commands that start and control transfers, alone and for a
    whole folder, and the invariant of the shared state that they keep.

  Connections:
  \<^item> \<open>Sftp_Client\<close>, \<open>Sftp_Laws\<close>: the SFTP client, its shell commands, and its refinement of the trait's contract: a
    session that obeys \<open>sftp_server\<close> makes a client that obeys \<open>remote_filesystem\<close> (a \<open>sublocale\<close>).
  \<^item> \<open>Ssh_Connect\<close>, \<open>Ssh_Laws\<close>: proxies, bastions, host keys and authentication over the SSH library. Credentials
    reach only servers with a trusted key (\<open>secure_shell\<close>, \<open>byte_stream\<close>). \<open>Host_Keys\<close>: \<^verbatim>\<open>known_hosts\<close> and algorithms.
  \<^item> \<open>Ftp_Client\<close>: the FTP client, the names in its commands and the parsing of listings.
  \<^item> \<open>App_State\<close>, \<open>Profiles\<close>, \<open>Profile_Laws\<close>: the state of the commands, the credential store, profiles, trust and
    connections. A stored profile is normal, and a key becomes trusted only where the user said so.

  Files and the rest of the program:
  \<^item> \<open>Entry_Commands\<close>, \<open>Entry_Laws\<close>: listings, the editor, previews, creating, renaming and deleting entries. Saving a
    file never loses it, deleting a directory removes what is below it and nothing else. \<open>Package\<close>: archives of local
    directories.
  \<^item> \<open>Search\<close>, \<open>Search_Laws\<close>: both searches as one loop over two steps; every match is reported once, and on a server
    whose listings do not change, the matches are those of the reachable entries.
  \<^item> \<open>External_Edit\<close>, \<open>External_Edit_Laws\<close>: copies that another program edits, the watcher and the upload.
  \<^item> \<open>Configuration\<close>, \<open>Configuration_Laws\<close>: exported configurations with sealed credentials; what one computer
    exports another imports, and an import that is refused stores nothing (\<open>whole_files\<close>).
  \<^item> \<open>Diagnostics\<close>, \<open>Diagnostics_Laws\<close>: the log, its files, the marker of a run and the support bundle. The log says
    nothing private, and a bundle holds what was reviewed (\<open>log_files\<close>, \<open>log_reader\<close>, \<open>zip_archives\<close>).

  Bounds and fuel: loops that move an offset, consume a list or visit a bounded number of directories are functions
  with a measure, no fuel. Deleting a directory of a server recurses without a bound of the program's own and takes
  fuel; the theorem about it gives an amount that is enough when the server bounds the length of its paths.
  Measuring a directory is a partial function whose value is \<open>None\<close> when the walk does not end.

  Not modelled: the setup of the Tauri application (\<^verbatim>\<open>lib.rs\<close>, \<^verbatim>\<open>main.rs\<close>, the build of the state and of the log
  plugin in \<^verbatim>\<open>state.rs\<close>), which has no logic of its own; the branches for Windows; the serialisation of values for the
  window and the rows of the database; locks poisoned by a thread that panicked and tasks that the runtime cancels;
  the mode that a new file is opened with, where a mode is set after. The rates of the bandwidth limiter are exact
  rationals where the code has floating point numbers. Directories are listed at once where the code reads them
  item by item. That the commands call the diagnostics with the values at hand is represented by the values that
  can be recorded, not by the calls.
\<close>

end
